(* ===== verification/Prelude.thy ===== *)
theory Prelude
  imports Main "HOL-Library.Word" "HOL-Library.Monad_Syntax"
begin

text \<open>
  Shared vocabulary of the development: the outcome type of code that may fail to return,
  C-string and \<open>std::string\<close> operations with the lemmas about them, number parsing as
  \<open>std::from_chars\<close> and \<open>atoi\<close> do it, and the list and map facts that the
  component theories use.
\<close>

unbundle bit_operations_syntax

named_theorems outcome_simps \<open>unfolding of operations that may not return normally\<close>

lemmas bind_split_rules = Option.bind_splits option.splits if_splits prod.splits

section \<open>Outcomes\<close>

text \<open>
  An operation of type \<open>'a outcome\<close> yields \<open>Some x\<close> when the C++ code returns
  \<open>x\<close> and \<open>None\<close> when it does not return normally: it dereferences a null pointer or
  loops for ever. An \<open>sptr\<close> or \<open>shared_ptr\<close> is a \<open>ptr\<close>: \<open>None\<close> is
  \<open>nullptr\<close>, \<open>Some a\<close> the address of an object of a store.
\<close>

type_synonym 'a outcome = "'a option"
type_synonym addr = nat
type_synonym ptr = "addr option"
type_synonym 'a store = "addr \<rightharpoonup> 'a"

definition deref :: "'a store \<Rightarrow> ptr \<Rightarrow> 'a outcome" where
  "deref h p = (case p of None \<Rightarrow> None | Some a \<Rightarrow> h a)"

lemma deref_simps [simp]: "deref h None = None" "deref h (Some a) = h a"
  by (simp_all add: deref_def)

lemma bind_Some_iff [outcome_simps]:
  "Option.bind m f = Some y \<longleftrightarrow> (\<exists>x. m = Some x \<and> f x = Some y)"
  by (cases m) auto

section \<open>Lists\<close>

text \<open>\<open>std::find_if\<close>: the first element that satisfies the predicate.\<close>

lemma find_Some_set: "find P xs = Some x \<Longrightarrow> x \<in> set xs \<and> P x"
  by (induction xs) (auto split: if_splits)

lemma find_None_iff_all: "find P xs = None \<longleftrightarrow> (\<forall>x\<in>set xs. \<not> P x)"
  by (induction xs) auto

lemma list_ex_find: "list_ex P xs \<longleftrightarrow> find P xs \<noteq> None"
  by (induction xs) auto

text \<open>A fold with a step that may not return.\<close>

fun foldo :: "('a \<Rightarrow> 's \<Rightarrow> 's outcome) \<Rightarrow> 'a list \<Rightarrow> 's \<Rightarrow> 's outcome" where
  "foldo f [] s = Some s"
| "foldo f (x # xs) s = Option.bind (f x s) (foldo f xs)"

lemma foldo_append: "foldo f (xs @ ys) s = Option.bind (foldo f xs s) (foldo f ys)"
proof (induction xs arbitrary: s)
  case (Cons x xs)
  then show ?case by (cases "f x s") auto
qed simp

lemma foldo_invariant:
  assumes "foldo f xs s = Some t" and "I s"
    and step: "\<And>x s s'. x \<in> set xs \<Longrightarrow> I s \<Longrightarrow> f x s = Some s' \<Longrightarrow> I s'"
  shows "I t"
  using assms
proof (induction xs arbitrary: s)
  case (Cons x xs)
  from Cons.prems(1) obtain s' where s': "f x s = Some s'" "foldo f xs s' = Some t"
    by (auto simp: bind_Some_iff)
  have "I s'" by (rule Cons.prems(3) [OF _ Cons.prems(2) s'(1)]) simp
  with s'(2) Cons.prems(3) show ?case by (intro Cons.IH) auto
qed simp

lemma foldo_total:
  assumes "I s" and step: "\<And>x s. x \<in> set xs \<Longrightarrow> I s \<Longrightarrow> \<exists>s'. f x s = Some s' \<and> I s'"
  shows "\<exists>t. foldo f xs s = Some t \<and> I t"
  using assms
proof (induction xs arbitrary: s)
  case (Cons x xs)
  from Cons.prems(1) Cons.prems(2)[of x s] obtain s' where s': "f x s = Some s'" "I s'"
    by auto
  with Cons.prems(2) have "\<exists>t. foldo f xs s' = Some t \<and> I t" by (intro Cons.IH) auto
  with s' show ?case by simp
qed simp

section \<open>Strings\<close>

text \<open>
  \<open>std::string::find(flag, start)\<close>, counted from \<open>start\<close>: the offset of the first
  occurrence of \<open>flag\<close> in the rest \<open>s\<close> of the string.
\<close>

fun is_prefix :: "string \<Rightarrow> string \<Rightarrow> bool" where
  "is_prefix [] s = True"
| "is_prefix (c # cs) [] = False"
| "is_prefix (c # cs) (d # ds) = (c = d \<and> is_prefix cs ds)"

fun find_in :: "string \<Rightarrow> string \<Rightarrow> nat option" where
  "find_in flag [] = (if flag = [] then Some 0 else None)"
| "find_in flag (c # cs) =
     (if is_prefix flag (c # cs) then Some 0 else map_option Suc (find_in flag cs))"

definition str_contains :: "string \<Rightarrow> string \<Rightarrow> bool" where
  "str_contains s flag = (find_in flag s \<noteq> None)"

lemma is_prefix_iff: "is_prefix p s \<longleftrightarrow> (\<exists>t. s = p @ t)"
  by (induction p s rule: is_prefix.induct) auto

lemma find_in_sound: "find_in flag s = Some p \<Longrightarrow> \<exists>t. s = take p s @ flag @ t"
proof (induction s arbitrary: p)
  case (Cons c cs)
  show ?case
  proof (cases "is_prefix flag (c # cs)")
    case True
    with Cons.prems show ?thesis by (auto simp: is_prefix_iff)
  next
    case False
    with Cons.prems obtain q where "find_in flag cs = Some q" "p = Suc q" by auto
    with Cons.IH show ?thesis by auto
  qed
qed (auto split: if_splits)

lemma find_in_complete: "find_in flag s = None \<Longrightarrow> s \<noteq> u @ flag @ t"
proof (induction s arbitrary: u)
  case (Cons c cs)
  then show ?case
  proof (cases u)
    case Nil
    with Cons.prems show ?thesis by (auto simp: is_prefix_iff split: if_splits)
  next
    case (Cons d ds)
    with Cons.prems Cons.IH [of ds] show ?thesis by (auto split: if_splits)
  qed
qed (auto split: if_splits)

lemma str_contains_iff: "str_contains s flag \<longleftrightarrow> (\<exists>u t. s = u @ flag @ t)"
  using find_in_sound find_in_complete unfolding str_contains_def by (metis option.exhaust)

lemma find_in_bound: "find_in flag s = Some p \<Longrightarrow> p + length flag \<le> length s"
proof (induction s arbitrary: p)
  case (Cons c cs)
  then show ?case
  proof (cases "is_prefix flag (c # cs)")
    case True
    then obtain t where "c # cs = flag @ t" by (auto simp: is_prefix_iff)
    then have "length flag \<le> length (c # cs)" by simp
    with True Cons.prems show ?thesis by simp
  qed auto
qed (auto split: if_splits)

end
