(* ===== verification/State_Machine.thy ===== *)
theory State_Machine
  imports Prelude
begin

text \<open>
  \<open>services/include/state_machine/state_machine.h\<close>: the hierarchical state machine that the
  data connection machine and the in-call machine instantiate. The virtual methods of the states
  are the record \<open>vtable\<close>; the parent pointers, set once when a machine is built, are the finite
  list of ancestors of a state, nearest first. \<open>sent\<close> collects the events that were
  sent again to the machine itself with \<open>SendImmediateEvent\<close>, in the order of the calls.
\<close>

section \<open>The machine\<close>

record ('st, 'ev, 'd) hsm =
  originalState :: "'st option"
  destState :: "'st option"
  curState :: "'st option"
  deferEvents :: "'ev list"
  isQuit :: bool
  isActive :: "'st \<Rightarrow> bool"
  sent :: "'ev list"
  dat :: 'd

text \<open>\<open>StateProcess\<close> gets the event pointer (\<open>None\<close> is null) and returns whether the event
  was processed, the pointer after the call (null when the event was moved away) and the new
  state of the machine.\<close>

record ('st, 'ev, 'd) vtable =
  ancestors :: "'st \<Rightarrow> 'st list"
  StateBegin :: "'st \<Rightarrow> ('st, 'ev, 'd) hsm \<Rightarrow> ('st, 'ev, 'd) hsm"
  StateEnd :: "'st \<Rightarrow> ('st, 'ev, 'd) hsm \<Rightarrow> ('st, 'ev, 'd) hsm"
  StateProcess :: "'st \<Rightarrow> 'ev option \<Rightarrow> ('st, 'ev, 'd) hsm \<Rightarrow> bool \<times> 'ev option \<times> ('st, 'ev, 'd) hsm"
  is_quit_event :: "'ev \<Rightarrow> bool"
  is_init_event :: "'ev \<Rightarrow> bool"

definition new_hsm :: "'d \<Rightarrow> ('st, 'ev, 'd) hsm" where
  "new_hsm d = \<lparr>originalState = None, destState = None, curState = None, deferEvents = [],
     isQuit = False, isActive = (\<lambda>_. False), sent = [], dat = d\<rparr>"

definition SetOriginalState :: "'st \<Rightarrow> ('st, 'ev, 'd) hsm \<Rightarrow> ('st, 'ev, 'd) hsm" where
  "SetOriginalState st s = s \<lparr>originalState := Some st\<rparr>"

definition TransitionTo :: "'st \<Rightarrow> ('st, 'ev, 'd) hsm \<Rightarrow> ('st, 'ev, 'd) hsm" where
  "TransitionTo st s = s \<lparr>destState := Some st\<rparr>"

definition DeferEvent :: "'ev \<Rightarrow> ('st, 'ev, 'd) hsm \<Rightarrow> ('st, 'ev, 'd) hsm" where
  "DeferEvent ev s = s \<lparr>deferEvents := deferEvents s @ [ev]\<rparr>"

definition SendDeferredEvent :: "('st, 'ev, 'd) hsm \<Rightarrow> ('st, 'ev, 'd) hsm" where
  "SendDeferredEvent s = s \<lparr>sent := sent s @ deferEvents s, deferEvents := []\<rparr>"

definition set_active :: "'st \<Rightarrow> bool \<Rightarrow> ('st, 'ev, 'd) hsm \<Rightarrow> ('st, 'ev, 'd) hsm" where
  "set_active st b s = s \<lparr>isActive := (isActive s)(st := b)\<rparr>"

text \<open>\<open>ProcessTransitions\<close> leaves the current state and its ancestors, enters the ancestors of
  the destination and then the destination. The member \<open>destState_\<close> is read again at each use.\<close>

definition ProcessTransitions ::
  "('st, 'ev, 'd) vtable \<Rightarrow> ('st, 'ev, 'd) hsm \<Rightarrow> ('st, 'ev, 'd) hsm" where
  "ProcessTransitions V s =
     (if curState s \<noteq> destState s then
        let s1 = (case curState s of
                    None \<Rightarrow> s
                  | Some c \<Rightarrow> StateEnd V c (fold (StateEnd V) (ancestors V c) s));
            s2 = (case destState s1 of
                    None \<Rightarrow> s1
                  | Some d \<Rightarrow>
                      let s' = fold (StateBegin V) (ancestors V d) s1
                      in case destState s' of None \<Rightarrow> s' | Some d' \<Rightarrow> StateBegin V d' s');
            s3 = s2 \<lparr>curState := destState s2\<rparr>
        in SendDeferredEvent s3
      else s)"

fun dispatch ::
  "('st, 'ev, 'd) vtable \<Rightarrow> 'st list \<Rightarrow> 'ev option \<Rightarrow> ('st, 'ev, 'd) hsm \<Rightarrow> ('st, 'ev, 'd) hsm" where
  "dispatch V [] ev s = s"
| "dispatch V (st # sts) ev s =
     (case StateProcess V st ev s of (processed, ev', s') \<Rightarrow>
        if processed then s' else dispatch V sts ev' s')"

definition ProcessMsg ::
  "('st, 'ev, 'd) vtable \<Rightarrow> 'ev \<Rightarrow> ('st, 'ev, 'd) hsm \<Rightarrow> ('st, 'ev, 'd) hsm" where
  "ProcessMsg V ev s = (case curState s of
     None \<Rightarrow> s | Some c \<Rightarrow> dispatch V (c # ancestors V c) (Some ev) s)"

fun quit_loop :: "('st, 'ev, 'd) vtable \<Rightarrow> 'st list \<Rightarrow> ('st, 'ev, 'd) hsm \<Rightarrow> ('st, 'ev, 'd) hsm" where
  "quit_loop V [] s = s"
| "quit_loop V (st # sts) s =
     (if isActive s st then quit_loop V sts ((StateEnd V st s) \<lparr>isQuit := True\<rparr>) else s)"

definition Quit :: "('st, 'ev, 'd) vtable \<Rightarrow> ('st, 'ev, 'd) hsm \<Rightarrow> ('st, 'ev, 'd) hsm" where
  "Quit V s = (case curState s of None \<Rightarrow> s | Some c \<Rightarrow> quit_loop V (c # ancestors V c) s)"

text \<open>\<open>InitCmdEnter\<close> enters the outermost ancestor first.\<close>

definition InitCmdEnter ::
  "('st, 'ev, 'd) vtable \<Rightarrow> 'st option \<Rightarrow> ('st, 'ev, 'd) hsm \<Rightarrow> ('st, 'ev, 'd) hsm" where
  "InitCmdEnter V st0 s = (case st0 of
     None \<Rightarrow> s
   | Some st \<Rightarrow> fold (\<lambda>x s'. (StateBegin V x s') \<lparr>curState := Some x\<rparr>) (rev (ancestors V st) @ [st]) s)"

definition ProcessEvent ::
  "('st, 'ev, 'd) vtable \<Rightarrow> 'ev option \<Rightarrow> ('st, 'ev, 'd) hsm \<Rightarrow> ('st, 'ev, 'd) hsm" where
  "ProcessEvent V event s =
     (case event of
        None \<Rightarrow> s
      | Some ev \<Rightarrow>
          if isQuit s then s
          else if is_quit_event V ev then Quit V s
          else
            let s1 = (if is_init_event V ev
                      then InitCmdEnter V (originalState s) (s \<lparr>destState := originalState s\<rparr>) else s)
            in ProcessTransitions V (ProcessMsg V ev s1))"

text \<open>The state in which the entry action of the destination runs.\<close>

definition before_entry ::
  "('st, 'ev, 'd) vtable \<Rightarrow> ('st, 'ev, 'd) hsm \<Rightarrow> 'st \<Rightarrow> ('st, 'ev, 'd) hsm" where
  "before_entry V s d = fold (StateBegin V) (ancestors V d)
     (case curState s of None \<Rightarrow> s | Some c \<Rightarrow> StateEnd V c (fold (StateEnd V) (ancestors V c) s))"

section \<open>Contract of the states\<close>

text \<open>
  What the machine relies on: entering and leaving a state neither touches the machine's position
  nor its event lists, and processing an event leaves the position alone and defers nothing but
  the event itself, at most once and only by moving it.
\<close>

locale hsm_states =
  fixes V :: "('st, 'ev, 'd) vtable"
  assumes begin_frame: "curState (StateBegin V x s) = curState s"
      "originalState (StateBegin V x s) = originalState s"
      "deferEvents (StateBegin V x s) = deferEvents s"
      "sent (StateBegin V x s) = sent s" "isQuit (StateBegin V x s) = isQuit s"
    and end_frame: "curState (StateEnd V x s) = curState s"
      "originalState (StateEnd V x s) = originalState s" "destState (StateEnd V x s) = destState s"
      "deferEvents (StateEnd V x s) = deferEvents s"
      "sent (StateEnd V x s) = sent s" "isQuit (StateEnd V x s) = isQuit s"
    and process_frame: "StateProcess V x ev s = (b, ev', s') \<Longrightarrow>
      curState s' = curState s \<and> originalState s' = originalState s \<and> sent s' = sent s
      \<and> isQuit s' = isQuit s"
    and process_defer: "StateProcess V x ev s = (b, ev', s') \<Longrightarrow>
      deferEvents s' = deferEvents s \<and> ev' = ev
      \<or> (\<exists>e. ev = Some e \<and> ev' = None \<and> deferEvents s' = deferEvents s @ [e])"
begin

lemma fold_begin_frame:
  "curState (fold (StateBegin V) xs s) = curState s"
  "originalState (fold (StateBegin V) xs s) = originalState s"
  "deferEvents (fold (StateBegin V) xs s) = deferEvents s"
  "sent (fold (StateBegin V) xs s) = sent s" "isQuit (fold (StateBegin V) xs s) = isQuit s"
  by (induction xs arbitrary: s) (simp_all add: begin_frame)

lemma fold_end_frame:
  "curState (fold (StateEnd V) xs s) = curState s"
  "originalState (fold (StateEnd V) xs s) = originalState s"
  "destState (fold (StateEnd V) xs s) = destState s"
  "deferEvents (fold (StateEnd V) xs s) = deferEvents s"
  "sent (fold (StateEnd V) xs s) = sent s" "isQuit (fold (StateEnd V) xs s) = isQuit s"
  by (induction xs arbitrary: s) (simp_all add: end_frame)

lemma init_frame:
  "deferEvents (InitCmdEnter V st s) = deferEvents s" "sent (InitCmdEnter V st s) = sent s"
  "isQuit (InitCmdEnter V st s) = isQuit s"
proof -
  have "deferEvents (fold (\<lambda>x s'. (StateBegin V x s') \<lparr>curState := Some x\<rparr>) xs s) = deferEvents s
    \<and> sent (fold (\<lambda>x s'. (StateBegin V x s') \<lparr>curState := Some x\<rparr>) xs s) = sent s
    \<and> isQuit (fold (\<lambda>x s'. (StateBegin V x s') \<lparr>curState := Some x\<rparr>) xs s) = isQuit s" for xs
    by (induction xs arbitrary: s) (simp_all add: begin_frame)
  then show "deferEvents (InitCmdEnter V st s) = deferEvents s" "sent (InitCmdEnter V st s) = sent s"
    "isQuit (InitCmdEnter V st s) = isQuit s"
    by (simp_all add: InitCmdEnter_def begin_frame split: option.splits)
qed

text \<open>A null event is never deferred.\<close>

lemma dispatch_null: "deferEvents (dispatch V sts None s) = deferEvents s"
proof (induction sts arbitrary: s)
  case (Cons st sts)
  obtain b ev' s' where p: "StateProcess V st None s = (b, ev', s')" by (cases "StateProcess V st None s")
  from process_defer [OF p] have "deferEvents s' = deferEvents s" "ev' = None" by auto
  then show ?case using p Cons.IH by simp
qed simp

lemma dispatch_frame:
  "curState (dispatch V sts ev s) = curState s" "sent (dispatch V sts ev s) = sent s"
  "isQuit (dispatch V sts ev s) = isQuit s"
proof -
  have "curState (dispatch V sts ev s) = curState s \<and> sent (dispatch V sts ev s) = sent s
    \<and> isQuit (dispatch V sts ev s) = isQuit s"
  proof (induction sts arbitrary: ev s)
    case (Cons st sts)
    obtain b ev' s' where p: "StateProcess V st ev s = (b, ev', s')" by (cases "StateProcess V st ev s")
    from process_frame [OF p] show ?case using p Cons.IH by simp
  qed simp
  then show "curState (dispatch V sts ev s) = curState s" "sent (dispatch V sts ev s) = sent s"
    "isQuit (dispatch V sts ev s) = isQuit s" by auto
qed

text \<open>Along the chain of ancestors an event is deferred at most once.\<close>

lemma dispatch_defer:
  "deferEvents (dispatch V sts (Some e) s) = deferEvents s
   \<or> deferEvents (dispatch V sts (Some e) s) = deferEvents s @ [e]"
proof (induction sts arbitrary: s)
  case (Cons st sts)
  obtain b ev' s' where p: "StateProcess V st (Some e) s = (b, ev', s')"
    by (cases "StateProcess V st (Some e) s")
  from process_defer [OF p] consider "deferEvents s' = deferEvents s" "ev' = Some e"
    | "deferEvents s' = deferEvents s @ [e]" "ev' = None" by auto
  then show ?case
  proof cases
    case 1
    with p Cons.IH [of s'] show ?thesis by auto
  next
    case 2
    with p dispatch_null [of sts s'] show ?thesis by auto
  qed
qed simp

lemma ProcessMsg_frame:
  "curState (ProcessMsg V ev s) = curState s" "sent (ProcessMsg V ev s) = sent s"
  "isQuit (ProcessMsg V ev s) = isQuit s"
  by (auto simp: ProcessMsg_def dispatch_frame split: option.splits simp del: dispatch.simps)

lemma ProcessMsg_defer:
  "deferEvents (ProcessMsg V ev s) = deferEvents s
   \<or> deferEvents (ProcessMsg V ev s) = deferEvents s @ [ev]"
  by (auto simp: ProcessMsg_def dispatch_defer split: option.splits simp del: dispatch.simps)

lemma ProcessTransitions_events:
  "if curState s \<noteq> destState s
   then sent (ProcessTransitions V s) = sent s @ deferEvents s \<and> deferEvents (ProcessTransitions V s) = []
   else ProcessTransitions V s = s"
  by (auto simp: ProcessTransitions_def Let_def SendDeferredEvent_def fold_begin_frame fold_end_frame
      begin_frame end_frame split: option.splits)

lemma ProcessTransitions_cur: "curState (ProcessTransitions V s) = destState (ProcessTransitions V s)"
  by (simp add: ProcessTransitions_def Let_def SendDeferredEvent_def)

lemma ProcessTransitions_quit: "isQuit (ProcessTransitions V s) = isQuit s"
  by (auto simp: ProcessTransitions_def Let_def SendDeferredEvent_def fold_begin_frame fold_end_frame
      begin_frame end_frame split: option.splits)

text \<open>After an event the machine stands where the last transition request pointed.\<close>

lemma settled:
  assumes "\<not> isQuit s" "\<not> is_quit_event V ev"
  shows "curState (ProcessEvent V (Some ev) s) = destState (ProcessEvent V (Some ev) s)"
    and "\<not> isQuit (ProcessEvent V (Some ev) s)"
  using assms
  by (auto simp: ProcessEvent_def ProcessTransitions_cur Let_def ProcessTransitions_quit
      ProcessMsg_frame init_frame)

text \<open>No event is lost or reordered: the events sent again and the events still deferred are, in
  order, the earlier ones followed by at most the event just processed; and nothing stays deferred
  across a change of state.\<close>

lemma events_kept:
  assumes "\<not> isQuit s" "\<not> is_quit_event V ev"
  shows "\<exists>new. sent (ProcessEvent V (Some ev) s) @ deferEvents (ProcessEvent V (Some ev) s)
      = sent s @ deferEvents s @ new \<and> new \<in> {[], [ev]}"
proof -
  let ?s1 = "if is_init_event V ev
      then InitCmdEnter V (originalState s) (s \<lparr>destState := originalState s\<rparr>) else s"
  let ?s2 = "ProcessMsg V ev ?s1"
  have f: "deferEvents ?s1 = deferEvents s" "sent ?s1 = sent s" by (simp_all add: init_frame)
  have p: "ProcessEvent V (Some ev) s = ProcessTransitions V ?s2"
    using assms by (simp add: ProcessEvent_def Let_def)
  show ?thesis
    unfolding p using ProcessTransitions_events [of ?s2] ProcessMsg_defer [of ev ?s1] f
      ProcessMsg_frame(2) [of ev ?s1]
    by (auto split: if_splits)
qed

lemma quit_stops: "isQuit s \<Longrightarrow> ProcessEvent V ev s = s"
  by (simp add: ProcessEvent_def split: option.splits)

end

section \<open>Entering a state never redirects\<close>

text \<open>The stronger contract: entering a state does not request a transition. Then the machine
  enters exactly the state it was sent to, and that state's entry action has run.\<close>

locale hsm_strict = hsm_states +
  assumes begin_dest: "destState (StateBegin V x s) = destState s"
begin

lemma fold_begin_dest: "destState (fold (StateBegin V) xs s) = destState s"
  by (induction xs arbitrary: s) (simp_all add: begin_dest)

lemma enters_destination:
  assumes "curState s \<noteq> destState s" "destState s = Some d"
  shows "ProcessTransitions V s =
    SendDeferredEvent ((StateBegin V d (before_entry V s d)) \<lparr>curState := Some d\<rparr>)"
  using assms
  by (auto simp: ProcessTransitions_def before_entry_def Let_def begin_dest fold_begin_dest
      fold_end_frame end_frame split: option.splits)

end

end
