(* ===== verification/Cellular_Constants.thy ===== *)
theory Cellular_Constants
  imports Prelude
begin

text \<open>
  The enumerations, structures and constants of
  \<open>services/include/common/cellular_data_constant.h\<close> and
  \<open>interfaces/innerkits/cellular_data_types.h\<close>, and the names of the enumerations of the
  core service and of the net manager that the sources use. The numeric values of the latter are
  not part of this repository: an enumeration that the code only compares is a datatype with the
  enumerators it names and one constructor for any other value; one whose numbers matter (bit
  positions of net capabilities, PDP error codes) is read through the fields of
  \<open>platform\<close>, a parameter of every definition that depends on them.
\<close>

section \<open>States and reasons\<close>

datatype ApnProfileState =
    PROFILE_STATE_IDLE | PROFILE_STATE_CONNECTING | PROFILE_STATE_CONNECTED
  | PROFILE_STATE_DISCONNECTING | PROFILE_STATE_FAILED | PROFILE_STATE_RETRYING

datatype RecoveryState =
    STATE_REQUEST_CONTEXT_LIST | STATE_CLEANUP_CONNECTIONS
  | STATE_REREGISTER_NETWORK | STATE_RADIO_STATUS_RESTART

datatype DisConnectionReason =
    REASON_NORMAL | REASON_GSM_AND_CALLING_ONLY | REASON_RETRY_CONNECTION
  | REASON_CLEAR_CONNECTION | REASON_CHANGE_CONNECTION | REASON_PERMANENT_REJECT
  | REASON_HANDOVER_CONNECTION

datatype RetryScene =
    RETRY_SCENE_SETUP_DATA | RETRY_SCENE_MODEM_DEACTIVATE | RETRY_SCENE_OTHERS

datatype CellDataFlowType =
    DATA_FLOW_TYPE_NONE | DATA_FLOW_TYPE_DOWN | DATA_FLOW_TYPE_UP
  | DATA_FLOW_TYPE_UP_DOWN | DATA_FLOW_TYPE_DORMANT

text \<open>\<open>DataConnectionStatus\<close> (internal, 11 to 14) and \<open>DataConnectState\<close>
  (public, -1 to 3) as the integers the interfaces carry.\<close>

abbreviation (input) "STATUS_DISCONNECTED \<equiv> (11::int)"
abbreviation (input) "STATUS_CONNECTING \<equiv> (12::int)"
abbreviation (input) "STATUS_CONNECTED \<equiv> (13::int)"
abbreviation (input) "STATUS_SUSPENDED \<equiv> (14::int)"

abbreviation (input) "DATA_STATE_UNKNOWN \<equiv> (-1::int)"
abbreviation (input) "DATA_STATE_DISCONNECTED \<equiv> (0::int)"
abbreviation (input) "DATA_STATE_CONNECTING \<equiv> (1::int)"
abbreviation (input) "DATA_STATE_CONNECTED \<equiv> (2::int)"
abbreviation (input) "DATA_STATE_SUSPENDED \<equiv> (3::int)"

fun CellularDataStateAdapter :: "ApnProfileState \<Rightarrow> int" where
  "CellularDataStateAdapter PROFILE_STATE_CONNECTING = STATUS_CONNECTING"
| "CellularDataStateAdapter PROFILE_STATE_CONNECTED = STATUS_CONNECTED"
| "CellularDataStateAdapter PROFILE_STATE_DISCONNECTING = STATUS_CONNECTED"
| "CellularDataStateAdapter PROFILE_STATE_FAILED = STATUS_DISCONNECTED"
| "CellularDataStateAdapter PROFILE_STATE_RETRYING = STATUS_DISCONNECTED"
| "CellularDataStateAdapter PROFILE_STATE_IDLE = STATUS_DISCONNECTED"

definition WrapCellularDataState :: "int \<Rightarrow> int" where
  "WrapCellularDataState st =
     (if st = STATUS_DISCONNECTED then DATA_STATE_DISCONNECTED
      else if st = STATUS_CONNECTING then DATA_STATE_CONNECTING
      else if st = STATUS_CONNECTED then DATA_STATE_CONNECTED
      else if st = STATUS_SUSPENDED then DATA_STATE_SUSPENDED
      else DATA_STATE_UNKNOWN)"

text \<open>\<open>TelCallStatus\<close>: call states travel as \<open>int32_t\<close>.\<close>

abbreviation (input) "CALL_STATUS_DIALING \<equiv> (2::int)"
abbreviation (input) "CALL_STATUS_INCOMING \<equiv> (4::int)"
abbreviation (input) "CALL_STATUS_DISCONNECTED \<equiv> (6::int)"
abbreviation (input) "CALL_STATUS_IDLE \<equiv> (8::int)"

section \<open>Roles, identifiers and priorities\<close>

abbreviation (input) "DATA_CONTEXT_ROLE_ALL \<equiv> ''*''"
abbreviation (input) "DATA_CONTEXT_ROLE_DEFAULT \<equiv> ''default''"
abbreviation (input) "DATA_CONTEXT_ROLE_MMS \<equiv> ''mms''"
abbreviation (input) "DATA_CONTEXT_ROLE_SUPL \<equiv> ''supl''"
abbreviation (input) "DATA_CONTEXT_ROLE_DUN \<equiv> ''dun''"
abbreviation (input) "DATA_CONTEXT_ROLE_IMS \<equiv> ''ims''"
abbreviation (input) "DATA_CONTEXT_ROLE_BIP \<equiv> ''bip''"
abbreviation (input) "DATA_CONTEXT_ROLE_IA \<equiv> ''ia''"
abbreviation (input) "DATA_CONTEXT_ROLE_EMERGENCY \<equiv> ''emergency''"
abbreviation (input) "DATA_CONTEXT_ROLE_INTERNAL_DEFAULT \<equiv> ''internal_default''"
abbreviation (input) "DATA_CONTEXT_ROLE_XCAP \<equiv> ''xcap''"
abbreviation (input) "DATA_CONTEXT_ROLE_SNSSAI1 \<equiv> ''snssai1''"
abbreviation (input) "DATA_CONTEXT_ROLE_SNSSAI2 \<equiv> ''snssai2''"
abbreviation (input) "DATA_CONTEXT_ROLE_SNSSAI3 \<equiv> ''snssai3''"
abbreviation (input) "DATA_CONTEXT_ROLE_SNSSAI4 \<equiv> ''snssai4''"
abbreviation (input) "DATA_CONTEXT_ROLE_SNSSAI5 \<equiv> ''snssai5''"
abbreviation (input) "DATA_CONTEXT_ROLE_SNSSAI6 \<equiv> ''snssai6''"

abbreviation (input) "DATA_CONTEXT_ROLE_INVALID_ID \<equiv> (-1::int)"
abbreviation (input) "DATA_CONTEXT_ROLE_ALL_ID \<equiv> (0::int)"
abbreviation (input) "DATA_CONTEXT_ROLE_DEFAULT_ID \<equiv> (1::int)"
abbreviation (input) "DATA_CONTEXT_ROLE_MMS_ID \<equiv> (2::int)"
abbreviation (input) "DATA_CONTEXT_ROLE_SUPL_ID \<equiv> (3::int)"
abbreviation (input) "DATA_CONTEXT_ROLE_DUN_ID \<equiv> (4::int)"
abbreviation (input) "DATA_CONTEXT_ROLE_IMS_ID \<equiv> (5::int)"
abbreviation (input) "DATA_CONTEXT_ROLE_IA_ID \<equiv> (6::int)"
abbreviation (input) "DATA_CONTEXT_ROLE_EMERGENCY_ID \<equiv> (7::int)"
abbreviation (input) "DATA_CONTEXT_ROLE_INTERNAL_DEFAULT_ID \<equiv> (8::int)"
abbreviation (input) "DATA_CONTEXT_ROLE_XCAP_ID \<equiv> (9::int)"
abbreviation (input) "DATA_CONTEXT_ROLE_BIP_ID \<equiv> (10::int)"
abbreviation (input) "DATA_CONTEXT_ROLE_SNSSAI1_ID \<equiv> (11::int)"
abbreviation (input) "DATA_CONTEXT_ROLE_SNSSAI2_ID \<equiv> (12::int)"
abbreviation (input) "DATA_CONTEXT_ROLE_SNSSAI3_ID \<equiv> (13::int)"
abbreviation (input) "DATA_CONTEXT_ROLE_SNSSAI4_ID \<equiv> (14::int)"
abbreviation (input) "DATA_CONTEXT_ROLE_SNSSAI5_ID \<equiv> (15::int)"
abbreviation (input) "DATA_CONTEXT_ROLE_SNSSAI6_ID \<equiv> (16::int)"

abbreviation (input) "PRIORITY_NONE \<equiv> (0::int)"
abbreviation (input) "PRIORITY_LOW \<equiv> (1::int)"
abbreviation (input) "PRIORITY_NORMAL \<equiv> (2::int)"
abbreviation (input) "PRIORITY_HIGH \<equiv> (3::int)"

abbreviation (input) "ERROR_APN_ID \<equiv> (-1::int)"
abbreviation (input) "INVALID_SIM_ID \<equiv> (0::int)"
abbreviation (input) "INVALID_SLOT_ID \<equiv> (-1::int)"
abbreviation (input) "CELLDATA_SLOT_ID_0 \<equiv> (0::int)"
abbreviation (input) "CELLDATA_SLOT_ID_1 \<equiv> (1::int)"
abbreviation (input) "CELLDATA_SLOT_ID_3 \<equiv> (3::int)"
abbreviation (input) "CELLULAR_DATA_VSIM_SLOT_ID \<equiv> (2::int)"

abbreviation (input) "PROTOCOL_IPV4 \<equiv> ''IP''"
abbreviation (input) "PROTOCOL_IPV6 \<equiv> ''IPV6''"
abbreviation (input) "PROTOCOL_IPV4V6 \<equiv> ''IPV4V6''"

section \<open>Delays, bounds and counters\<close>

abbreviation (input) "CONNECTION_TIMEOUT \<equiv> (180000::int)"
abbreviation (input) "DISCONNECTION_TIMEOUT \<equiv> (90000::int)"
abbreviation (input) "CONNECTION_TASK_TIME \<equiv> (170000::int)"
abbreviation (input) "ESTABLISH_DATA_CONNECTION_DELAY \<equiv> (1000::int)"
abbreviation (input) "RESUME_DATA_PERMITTED_TIMEOUT \<equiv> (30000::int)"
abbreviation (input) "DATA_STALL_ALARM_NON_AGGRESSIVE_DELAY_IN_MS_DEFAULT \<equiv> (600000::int)"
abbreviation (input) "DATA_STALL_ALARM_AGGRESSIVE_DELAY_IN_MS_DEFAULT \<equiv> (10000::int)"
abbreviation (input) "DEFAULT_NET_STATISTICS_PERIOD \<equiv> (3000::int)"
abbreviation (input) "RECOVERY_TRIGGER_PACKET \<equiv> (10::int)"
abbreviation (input) "DEFAULT_MTU \<equiv> (1500::int)"
abbreviation (input) "DEFAULT_BANDWIDTH \<equiv> (14::int)"
abbreviation (input) "DEFAULT_MCC_SIZE \<equiv> (3::nat)"
abbreviation (input) "TYPE_REQUEST_NET \<equiv> (1::int)"
abbreviation (input) "TYPE_RELEASE_NET \<equiv> (0::int)"
abbreviation (input) "APN_CREATE_RETRY_TIMES \<equiv> (30::int)"
abbreviation (input) "RETRY_DELAY_TIME \<equiv> (5000::int)"
abbreviation (input) "LOAD_RETRY_DELAY_TIME \<equiv> (10000::int)"
abbreviation (input) "LOAD_RETRY_TIMES \<equiv> (3::int)"

section \<open>Structures\<close>

text \<open>\<open>INetAddr::IpType\<close> of the net manager.\<close>
datatype IpType = IPV4 | IPV6

record AddressInfo =
  ai_ip :: string
  ai_netMask :: string
  ai_type :: IpType
  ai_prefixLen :: nat

record RouteInfo =
  ri_ip :: string
  ri_type :: IpType
  ri_destination :: string

record NetRequest =
  nr_capability :: nat
  nr_ident :: string
  nr_bearTypes :: nat

record LinkBandwidthInfo =
  upBandwidth :: int
  downBandwidth :: int

definition default_LinkBandwidthInfo :: LinkBandwidthInfo where
  "default_LinkBandwidthInfo =
     \<lparr>upBandwidth = DEFAULT_BANDWIDTH, downBandwidth = DEFAULT_BANDWIDTH\<rparr>"

section \<open>Names of other components\<close>

text \<open>Enumerators of \<open>NetCap\<close> that the sources name.\<close>
datatype NetCap =
    NET_CAPABILITY_MMS | NET_CAPABILITY_SUPL | NET_CAPABILITY_DUN | NET_CAPABILITY_IA
  | NET_CAPABILITY_XCAP | NET_CAPABILITY_INTERNET | NET_CAPABILITY_INTERNAL_DEFAULT
  | NET_CAPABILITY_BIP | NET_CAPABILITY_SNSSAI1 | NET_CAPABILITY_SNSSAI2
  | NET_CAPABILITY_SNSSAI3 | NET_CAPABILITY_SNSSAI4 | NET_CAPABILITY_SNSSAI5
  | NET_CAPABILITY_SNSSAI6 | NET_CAPABILITY_END

datatype PdpErrorReason =
    PDP_ERR_RETRY | PDP_ERR_TO_NORMAL | PDP_ERR_TO_GSM_AND_CALLING_ONLY
  | PDP_ERR_TO_CLEAR_CONNECTION | PDP_ERR_TO_CHANGE_CONNECTION | PDP_ERR_TO_PERMANENT_REJECT
  | PDP_ERR_OPERATOR_DETERMINED_BARRING | PDP_ERR_MISSING_OR_UNKNOWN_APN
  | PDP_ERR_UNKNOWN_PDP_ADDR_OR_TYPE | PDP_ERR_USER_VERIFICATION
  | PDP_ERR_ACTIVATION_REJECTED_GGSN | PDP_ERR_SERVICE_OPTION_NOT_SUPPORTED
  | PDP_ERR_REQUESTED_SERVICE_OPTION_NOT_SUBSCRIBED | PDP_ERR_NSAPI_ALREADY_USED
  | PDP_ERR_IPV4_ONLY_ALLOWED | PDP_ERR_IPV6_ONLY_ALLOWED | PDP_ERR_PROTOCOL_ERRORS

datatype RadioTech =
    RADIO_TECHNOLOGY_INVALID | RADIO_TECHNOLOGY_UNKNOWN | RADIO_TECHNOLOGY_GSM
  | RADIO_TECHNOLOGY_1XRTT | RADIO_TECHNOLOGY_WCDMA | RADIO_TECHNOLOGY_HSPA
  | RADIO_TECHNOLOGY_HSPAP | RADIO_TECHNOLOGY_TD_SCDMA | RADIO_TECHNOLOGY_EVDO
  | RADIO_TECHNOLOGY_EHRPD | RADIO_TECHNOLOGY_LTE | RADIO_TECHNOLOGY_LTE_CA
  | RADIO_TECHNOLOGY_IWLAN | RADIO_TECHNOLOGY_NR | RADIO_TECHNOLOGY_OTHER int

datatype NrState =
    NR_NSA_STATE_DUAL_CONNECTED | NR_NSA_STATE_CONNECTED_DETECT | NR_NSA_STATE_SA_ATTACHED
  | NR_STATE_OTHER int

datatype FrequencyType = FREQ_TYPE_MMWAVE | FREQ_TYPE_OTHER int

datatype SimState =
    SIM_STATE_UNKNOWN | SIM_STATE_NOT_PRESENT | SIM_STATE_READY | SIM_STATE_LOADED
  | SIM_STATE_OTHER int

datatype tel_err =
    TELEPHONY_ERR_SUCCESS | TELEPHONY_ERR_LOCAL_PTR_NULL | TELEPHONY_ERR_SLOTID_INVALID
  | TELEPHONY_ERR_DATABASE_READ_FAIL | TELEPHONY_ERR_DATABASE_READ_EMPTY
  | TELEPHONY_ERR_DATABASE_WRITE_FAIL | TELEPHONY_ERR_OTHER int

text \<open>The fields of the RIL's \<open>SetupDataCallResultInfo\<close> that the sources read or write.\<close>

record SetupDataCallResultInfo =
  sd_flag :: int
  sd_cid :: int
  sd_active :: int
  sd_reason :: int
  sd_retryTime :: int
  sd_retryScene :: int
  sd_maxTransferUnit :: int
  sd_address :: string
  sd_dns :: string
  sd_dnsSec :: string
  sd_gateway :: string
  sd_netPortName :: string

text \<open>\<open>RadioResponseInfo\<close>: \<open>ri_chdata\<close> says that the error is
  \<open>ErrType::ERR_SET_CHDATA_FAIL\<close>, the only value the code distinguishes.\<close>

record RadioResponseInfo =
  rr_flag :: int
  rr_chdata :: bool

text \<open>
  What the definitions need to know of other repositories: the numbers behind the enumerators,
  default values of their structures and their string helpers.
\<close>

record platform =
  NC :: "NetCap \<Rightarrow> nat"
  PDP :: "PdpErrorReason \<Rightarrow> int"
  INVALID_PROFILE_ID :: int
  DSDS_MODE_V2 :: int
  DSDS_MODE_V3 :: int
  DEFAULT_SIM_SLOT_ID :: int
  default_result_info :: SetupDataCallResultInfo
  IsValidDecValue :: "string \<Rightarrow> bool"
  StrToInt :: "string \<Rightarrow> int \<Rightarrow> int"

text \<open>
  Documented facts about them: the enumerators of one enumeration have different values, and net
  capabilities are positions in a 64-bit mask, so that \<open>1L << cap\<close> is defined.
\<close>

definition platform_ok :: "platform \<Rightarrow> bool" where
  "platform_ok P \<longleftrightarrow> inj (NC P) \<and> inj (PDP P) \<and> (\<forall>c. NC P c < 63)"

section \<open>Facts\<close>

lemma NC_eq [simp]: "platform_ok P \<Longrightarrow> NC P a = NC P b \<longleftrightarrow> a = b"
  by (auto simp: platform_ok_def dest: injD)

lemma PDP_eq [simp]: "platform_ok P \<Longrightarrow> PDP P a = PDP P b \<longleftrightarrow> a = b"
  by (auto simp: platform_ok_def dest: injD)

lemma NC_lt: "platform_ok P \<Longrightarrow> NC P c < 63"
  by (simp add: platform_ok_def)

text \<open>A platform that satisfies the requirements, used to evaluate concrete examples.\<close>

fun sample_NC :: "NetCap \<Rightarrow> nat" where
  "sample_NC NET_CAPABILITY_MMS = 0"
| "sample_NC NET_CAPABILITY_SUPL = 1"
| "sample_NC NET_CAPABILITY_DUN = 2"
| "sample_NC NET_CAPABILITY_IA = 3"
| "sample_NC NET_CAPABILITY_XCAP = 4"
| "sample_NC NET_CAPABILITY_INTERNET = 12"
| "sample_NC NET_CAPABILITY_INTERNAL_DEFAULT = 18"
| "sample_NC NET_CAPABILITY_BIP = 19"
| "sample_NC NET_CAPABILITY_SNSSAI1 = 20"
| "sample_NC NET_CAPABILITY_SNSSAI2 = 21"
| "sample_NC NET_CAPABILITY_SNSSAI3 = 22"
| "sample_NC NET_CAPABILITY_SNSSAI4 = 23"
| "sample_NC NET_CAPABILITY_SNSSAI5 = 24"
| "sample_NC NET_CAPABILITY_SNSSAI6 = 25"
| "sample_NC NET_CAPABILITY_END = 32"

fun sample_PDP :: "PdpErrorReason \<Rightarrow> int" where
  "sample_PDP PDP_ERR_RETRY = -1"
| "sample_PDP PDP_ERR_TO_NORMAL = 1"
| "sample_PDP PDP_ERR_TO_GSM_AND_CALLING_ONLY = 2"
| "sample_PDP PDP_ERR_TO_CLEAR_CONNECTION = 3"
| "sample_PDP PDP_ERR_TO_CHANGE_CONNECTION = 4"
| "sample_PDP PDP_ERR_TO_PERMANENT_REJECT = 5"
| "sample_PDP PDP_ERR_OPERATOR_DETERMINED_BARRING = 8"
| "sample_PDP PDP_ERR_MISSING_OR_UNKNOWN_APN = 27"
| "sample_PDP PDP_ERR_UNKNOWN_PDP_ADDR_OR_TYPE = 28"
| "sample_PDP PDP_ERR_USER_VERIFICATION = 29"
| "sample_PDP PDP_ERR_ACTIVATION_REJECTED_GGSN = 30"
| "sample_PDP PDP_ERR_SERVICE_OPTION_NOT_SUPPORTED = 32"
| "sample_PDP PDP_ERR_REQUESTED_SERVICE_OPTION_NOT_SUBSCRIBED = 33"
| "sample_PDP PDP_ERR_NSAPI_ALREADY_USED = 35"
| "sample_PDP PDP_ERR_IPV4_ONLY_ALLOWED = 50"
| "sample_PDP PDP_ERR_IPV6_ONLY_ALLOWED = 51"
| "sample_PDP PDP_ERR_PROTOCOL_ERRORS = 111"

definition sample_result_info :: SetupDataCallResultInfo where
  "sample_result_info =
     \<lparr>sd_flag = 0, sd_cid = 0, sd_active = 0, sd_reason = 0, sd_retryTime = 0, sd_retryScene = 2,
      sd_maxTransferUnit = 0, sd_address = '''', sd_dns = '''', sd_dnsSec = '''',
      sd_gateway = '''', sd_netPortName = ''''\<rparr>"

definition sample_platform :: platform where
  "sample_platform =
     \<lparr>NC = sample_NC, PDP = sample_PDP, INVALID_PROFILE_ID = -1, DSDS_MODE_V2 = 0,
      DSDS_MODE_V3 = 1, DEFAULT_SIM_SLOT_ID = 0, default_result_info = sample_result_info,
      IsValidDecValue = (\<lambda>s. s \<noteq> [] \<and> list_all (\<lambda>c. c \<in> set ''0123456789'') s),
      StrToInt = (\<lambda>s v. v)\<rparr>"

lemma sample_platform_ok: "platform_ok sample_platform"
proof -
  have "inj sample_NC"
  proof (rule injI)
    fix x y show "sample_NC x = sample_NC y \<Longrightarrow> x = y" by (cases x; cases y) simp_all
  qed
  moreover have "inj sample_PDP"
  proof (rule injI)
    fix x y show "sample_PDP x = sample_PDP y \<Longrightarrow> x = y" by (cases x; cases y) simp_all
  qed
  moreover have "sample_NC c < 63" for c by (cases c) simp_all
  ultimately show ?thesis by (simp add: platform_ok_def sample_platform_def)
qed

text \<open>
  The public state never reports a link that is disconnecting, failed or retrying as anything
  else than connected or disconnected, and no profile state maps to \<open>UNKNOWN\<close>.
\<close>

lemma public_state_range:
  "WrapCellularDataState (CellularDataStateAdapter s) \<in>
     {DATA_STATE_DISCONNECTED, DATA_STATE_CONNECTING, DATA_STATE_CONNECTED}"
  by (cases s) (simp_all add: WrapCellularDataState_def)

end
