(* ===== verification/Data_Utils.thy ===== *)
theory Data_Utils
  imports Cellular_Constants
begin

text \<open>
  \<open>services/src/utils/cellular_data_utils.cpp\<close>: splitting and parsing of the strings that
  the modem and the parameter service deliver, the prefix length of a net mask, and the bit fields
  of the dual-SIM mode. The parameter service (\<open>GetParameter\<close>) is an argument: key and
  default to return code and buffer content.
\<close>

section \<open>Characters and numbers of the C++ library\<close>

definition c_str :: "string \<Rightarrow> string" where
  "c_str s = takeWhile (\<lambda>c. c \<noteq> CHR 0x00) s"

text \<open>\<open>strcpy_s(dest, size, src)\<close> of the bounds-checking library: the new content, or
  failure when the text and its terminator do not fit.\<close>
definition strcpy_s :: "nat \<Rightarrow> string \<Rightarrow> string option" where
  "strcpy_s sz src = (if length (c_str src) < sz then Some (c_str src) else None)"

definition char_code :: "char \<Rightarrow> nat" where
  "char_code c = of_char c"

definition isdigit :: "char \<Rightarrow> bool" where
  "isdigit c \<longleftrightarrow> 48 \<le> char_code c \<and> char_code c \<le> 57"

definition tolower :: "char \<Rightarrow> char" where
  "tolower c = (if 65 \<le> char_code c \<and> char_code c \<le> 90 then char_of (char_code c + 32) else c)"

definition dec_value :: "string \<Rightarrow> int" where
  "dec_value ds = foldl (\<lambda>a c. 10 * a + (int (char_code c) - 48)) 0 ds"

text \<open>
  \<open>std::from_chars\<close> in base 10 into an integer with the given bounds: the parsed value (none
  for \<open>invalid_argument\<close> and \<open>result_out_of_range\<close>) and the text not consumed. A minus
  sign is taken only by the signed variants, a plus sign by none.
\<close>
definition from_chars :: "bool \<Rightarrow> int \<Rightarrow> int \<Rightarrow> string \<Rightarrow> int option \<times> string" where
  "from_chars sg lo hi s =
     (let neg = sg \<and> s \<noteq> [] \<and> hd s = CHR ''-'';
          body = (if neg then tl s else s);
          ds = takeWhile isdigit body;
          v = (if neg then - dec_value ds else dec_value ds)
      in if ds = [] then (None, s)
         else (if lo \<le> v \<and> v \<le> hi then Some v else None, dropWhile isdigit body))"

definition from_chars_parse ::
  "bool \<Rightarrow> int \<Rightarrow> int \<Rightarrow> string \<Rightarrow> int \<Rightarrow> bool \<times> int" where
  "from_chars_parse sg lo hi str v =
     (case from_chars sg lo hi str of (r, rest) \<Rightarrow>
        (r \<noteq> None \<and> rest = [], case r of None \<Rightarrow> v | Some n \<Rightarrow> n))"

text \<open>\<open>ConvertStrToInt\<close> and \<open>ConvertStrToUint\<close>: the returned flag and the new content
  of the reference parameter \<open>value\<close>.\<close>

definition ConvertStrToInt :: "string \<Rightarrow> int \<Rightarrow> bool \<times> int" where
  "ConvertStrToInt str v =
     (if str = [] then (False, v) else from_chars_parse True (- (2 ^ 31)) (2 ^ 31 - 1) str v)"

definition ConvertStrToUint :: "string \<Rightarrow> int \<Rightarrow> bool \<times> int" where
  "ConvertStrToUint str v = (if str = [] then (False, v) else from_chars_parse False 0 255 str v)"

definition isspace :: "char \<Rightarrow> bool" where
  "isspace c \<longleftrightarrow> char_code c = 32 \<or> (9 \<le> char_code c \<and> char_code c \<le> 13)"

definition atoi :: "string \<Rightarrow> int" where
  "atoi s =
     (let t = dropWhile isspace (c_str s)
      in case t of [] \<Rightarrow> 0
         | c # cs \<Rightarrow> if c = CHR ''-'' then - dec_value (takeWhile isdigit cs)
                    else if c = CHR ''+'' then dec_value (takeWhile isdigit cs)
                    else dec_value (takeWhile isdigit t))"

section \<open>Split\<close>

text \<open>
  The loop of \<open>Split\<close>: \<open>rest\<close> is \<open>input.substr(start)\<close>. With an empty
  \<open>flag\<close> the position never advances and the loop does not end.
\<close>

partial_function (option) Split_loop :: "string \<Rightarrow> string \<Rightarrow> string list \<Rightarrow> string list option"
  where
  "Split_loop flag rest vec =
     (case find_in flag rest of
        Some p \<Rightarrow> Split_loop flag (drop (p + length flag) rest) (vec @ [take p rest])
      | None \<Rightarrow> Some (if rest \<noteq> [] then vec @ [rest] else vec))"

definition Split :: "string \<Rightarrow> string \<Rightarrow> string list option" where
  "Split input flag = (if input = [] then Some [] else Split_loop flag input [])"

text \<open>Reference: pieces between the separators, the piece after the last separator only when it
  is not empty.\<close>

fun split_on :: "char \<Rightarrow> string \<Rightarrow> string list" where
  "split_on c [] = []"
| "split_on c (d # s) =
     (if d = c then [] # split_on c s
      else case split_on c s of
             [] \<Rightarrow> [[d]]
           | w # ws \<Rightarrow> (d # w) # ws)"

section \<open>Addresses and routes\<close>

abbreviation (input) "MIN_IPV4_ITEM \<equiv> (4::nat)"
abbreviation (input) "VALID_IP_SIZE \<equiv> (2::nat)"
abbreviation (input) "IPV4_BIT \<equiv> (32::nat)"
abbreviation (input) "IPV6_BIT \<equiv> (128::nat)"
abbreviation (input) "ROUTED_IPV4 \<equiv> ''0.0.0.0''"
abbreviation (input) "ROUTED_IPV6 \<equiv> ''::''"

text \<open>One iteration of the loop of \<open>ParseIpAddr\<close>: no result for \<open>continue\<close>.\<close>

definition ParseIpItem :: "platform \<Rightarrow> string \<Rightarrow> AddressInfo option outcome" where
  "ParseIpItem P ipItem = do {
     let flag = (if CHR ''.'' \<in> set ipItem then ''.'' else '':'');
     ipData \<leftarrow> Split ipItem ''/'';
     (case ipData of
        [] \<Rightarrow> Some None
      | ip # tail \<Rightarrow> do {
          ipSubData \<leftarrow> (if flag = ''.'' then Split ip flag else Some []);
          let v6 = (flag \<noteq> ''.'' \<or> length ipSubData > MIN_IPV4_ITEM);
          let len0 = (if v6 then IPV6_BIT else IPV4_BIT);
          let len1 = (if length ipData \<ge> VALID_IP_SIZE \<and> IsValidDecValue P (c_str (ipData ! 1))
                      then nat (snd (ConvertStrToUint (c_str (ipData ! 1)) (int len0)))
                      else len0);
          Some (Some \<lparr>ai_ip = ip, ai_netMask = '''', ai_type = (if v6 then IPV6 else IPV4),
                      ai_prefixLen = len1\<rparr>)
        })
   }"

definition ParseIpAddr :: "platform \<Rightarrow> string \<Rightarrow> AddressInfo list outcome" where
  "ParseIpAddr P address = do {
     ipArray \<leftarrow> Split address '' '';
     foldo (\<lambda>ipItem acc. do {
       r \<leftarrow> ParseIpItem P ipItem;
       Some (case r of None \<Rightarrow> acc | Some ipInfo \<Rightarrow> acc @ [ipInfo]) }) ipArray []
   }"

definition ParseNormalIpAddr :: "string \<Rightarrow> AddressInfo list outcome" where
  "ParseNormalIpAddr address = do {
     ipArray \<leftarrow> Split address '' '';
     Some (map (\<lambda>ip. if CHR '':'' \<notin> set ip
                  then \<lparr>ai_ip = ip, ai_netMask = '''', ai_type = IPV4, ai_prefixLen = IPV4_BIT\<rparr>
                  else \<lparr>ai_ip = ip, ai_netMask = '''', ai_type = IPV6, ai_prefixLen = IPV6_BIT\<rparr>)
               ipArray)
   }"

definition ParseRoute :: "string \<Rightarrow> RouteInfo list outcome" where
  "ParseRoute address = do {
     routeArray \<leftarrow> Split address '' '';
     Some (map (\<lambda>ip. if CHR '':'' \<notin> set ip
                  then \<lparr>ri_ip = ip, ri_type = IPV4, ri_destination = ROUTED_IPV4\<rparr>
                  else \<lparr>ri_ip = ip, ri_type = IPV6, ri_destination = ROUTED_IPV6\<rparr>)
               routeArray)
   }"

section \<open>Prefix length of a net mask\<close>

text \<open>The inner loop over the leading one bits of a mask byte, on the 32-bit
  \<open>maskValue\<close>.\<close>

function mask_loop :: "32 word \<Rightarrow> nat \<Rightarrow> nat" where
  "mask_loop maskValue prefixLen =
     (if maskValue AND 0x80 \<noteq> 0 then mask_loop (push_bit 1 maskValue) (prefixLen + 1)
      else prefixLen)"
  by auto

lemma mask_bit7: "(v :: 32 word) AND 0x80 \<noteq> 0 \<longleftrightarrow> unat v mod 256 \<ge> 128"
proof -
  have "v AND 0x80 \<noteq> 0 \<longleftrightarrow> bit v 7"
    using and_exp_eq_0_iff_not_bit [of v 7] by simp
  also have "\<dots> \<longleftrightarrow> bit (unat v) 7" by (simp add: bit_unsigned_iff)
  also have "\<dots> \<longleftrightarrow> odd (unat v div 128)" by (simp add: bit_iff_odd)
  also have "\<dots> \<longleftrightarrow> unat v mod 256 \<ge> 128"
    using mod_mult2_eq [of "unat v" 128 2] mod_less_divisor [of 128 "unat v"]
    by (cases "odd (unat v div 128)") (auto simp: odd_iff_mod_2_eq_one)
  finally show ?thesis .
qed

lemma mask_shift: "unat (push_bit 1 (v :: 32 word)) mod 256 = 2 * (unat v mod 256) mod 256"
  by (simp add: push_bit_eq_mult unat_word_ariths mod_mod_cancel mod_mult_right_eq mult.commute)

lemma mask_shift_decreases:
  "unat v mod 256 \<ge> 128 \<Longrightarrow> unat (push_bit 1 (v :: 32 word)) mod 256 = 2 * (unat v mod 256) - 256"
  unfolding mask_shift by (subst le_mod_geq) auto

termination mask_loop
proof (relation "measure (\<lambda>(v, _). unat v mod 256)")
  fix v :: "32 word" and n :: nat
  assume "v AND 128 \<noteq> 0"
  then have "unat v mod 256 \<ge> 128" by (simp only: mask_bit7)
  then show "((push_bit 1 v, n + 1), v, n) \<in> measure (\<lambda>(v, _). unat v mod 256)"
    using mask_shift_decreases [of v] mod_less_divisor [of 256 "unat v"] by (simp del: push_bit_Suc)
qed simp

declare mask_loop.simps [simp del]

abbreviation (input) "MASK_BYTE_BIT \<equiv> (8::nat)"

text \<open>The outer loop over the items from \<open>start\<close> on; \<open>break\<close> ends the
  recursion.\<close>

fun prefix_loop :: "platform \<Rightarrow> string list \<Rightarrow> nat \<Rightarrow> nat" where
  "prefix_loop P [] prefixLen = prefixLen"
| "prefix_loop P (item # items) prefixLen =
     (if \<not> IsValidDecValue P (c_str item) then prefixLen
      else let val = snd (ConvertStrToInt (c_str item) 0);
               maskValue = (word_of_int val :: 32 word) AND 0x00FF
           in if maskValue = 0 then prefixLen
              else let n = mask_loop maskValue prefixLen
                   in if n mod MASK_BYTE_BIT \<noteq> 0 then n else prefix_loop P items n)"

definition GetPrefixLenFrom :: "platform \<Rightarrow> string list \<Rightarrow> nat \<Rightarrow> nat" where
  "GetPrefixLenFrom P netmask start = prefix_loop P (drop start netmask) 0"

definition GetPrefixLen :: "platform \<Rightarrow> string \<Rightarrow> string \<Rightarrow> nat outcome" where
  "GetPrefixLen P netmask flag = do {
     mask \<leftarrow> Split netmask flag;
     Some (GetPrefixLenFrom P mask 0)
   }"

section \<open>Configuration parameters\<close>

text \<open>\<open>GetParameter(key, def, buffer, size)\<close>: return code and content of the buffer.\<close>

type_synonym parameters = "string \<Rightarrow> string \<Rightarrow> nat \<Rightarrow> int \<times> string"

definition GetDefaultMobileMtuConfig :: "parameters \<Rightarrow> int" where
  "GetDefaultMobileMtuConfig GetParameter =
     atoi (snd (GetParameter ''persist.sys.data.mobilemtu'' ''1500'' 5))"

definition GetDefaultPreferApnConfig :: "parameters \<Rightarrow> bool" where
  "GetDefaultPreferApnConfig GetParameter =
     (atoi (snd (GetParameter ''persist.sys.data.preferapn'' ''1'' 5)) \<noteq> 0)"

definition GetDefaultMultipleConnectionsConfig :: "parameters \<Rightarrow> bool" where
  "GetDefaultMultipleConnectionsConfig GetParameter =
     (atoi (snd (GetParameter ''persist.sys.data.multiple.connections'' ''1'' 5)) > 0)"

fun ConvertRadioTechToRadioName :: "RadioTech \<Rightarrow> string" where
  "ConvertRadioTechToRadioName RADIO_TECHNOLOGY_UNKNOWN = ''unknown''"
| "ConvertRadioTechToRadioName RADIO_TECHNOLOGY_GSM = ''EDGE''"
| "ConvertRadioTechToRadioName RADIO_TECHNOLOGY_1XRTT = ''1xRTT''"
| "ConvertRadioTechToRadioName RADIO_TECHNOLOGY_WCDMA = ''UMTS''"
| "ConvertRadioTechToRadioName RADIO_TECHNOLOGY_HSPA = ''HSPA''"
| "ConvertRadioTechToRadioName RADIO_TECHNOLOGY_HSPAP = ''HSPAP''"
| "ConvertRadioTechToRadioName RADIO_TECHNOLOGY_TD_SCDMA = ''TD-SCDMA''"
| "ConvertRadioTechToRadioName RADIO_TECHNOLOGY_EVDO = ''EVDO''"
| "ConvertRadioTechToRadioName RADIO_TECHNOLOGY_EHRPD = ''eHRPD''"
| "ConvertRadioTechToRadioName RADIO_TECHNOLOGY_LTE = ''LTE''"
| "ConvertRadioTechToRadioName RADIO_TECHNOLOGY_LTE_CA = ''LTE_CA''"
| "ConvertRadioTechToRadioName RADIO_TECHNOLOGY_IWLAN = ''IWAN''"
| "ConvertRadioTechToRadioName RADIO_TECHNOLOGY_NR = ''NR''"
| "ConvertRadioTechToRadioName _ = ''unknown''"

section \<open>Dual-SIM mode\<close>

definition IsTstsModeEnabled :: "parameters \<Rightarrow> bool" where
  "IsTstsModeEnabled GetParameter =
     (case GetParameter ''persist.telephony.tsts_mode'' ''0'' 128 of (code, param) \<Rightarrow>
        if code \<le> 0 then False
        else case from_chars True (- (2 ^ 31)) (2 ^ 31 - 1) (c_str param) of
               (Some mode, []) \<Rightarrow> mode > 0
             | _ \<Rightarrow> False)"

definition GetDsdsModeForSlots :: "parameters \<Rightarrow> int \<Rightarrow> int \<Rightarrow> int \<Rightarrow> int" where
  "GetDsdsModeForSlots GetParameter slotId1 slotId2 dsdsModeValue =
     (if IsTstsModeEnabled GetParameter
      then let minSlot = min slotId1 slotId2; maxSlot = max slotId1 slotId2
           in if minSlot = CELLDATA_SLOT_ID_0 \<and> maxSlot = CELLDATA_SLOT_ID_1
              then drop_bit 4 (dsdsModeValue AND 0xF0)
              else if minSlot = CELLDATA_SLOT_ID_0 \<and> maxSlot = CELLDATA_SLOT_ID_3
              then drop_bit 8 (dsdsModeValue AND 0xF00)
              else if minSlot = CELLDATA_SLOT_ID_1 \<and> maxSlot = CELLDATA_SLOT_ID_3
              then drop_bit 12 (dsdsModeValue AND 0xF000)
              else drop_bit 4 (dsdsModeValue AND 0xF0)
      else dsdsModeValue AND 0x0F)"

section \<open>Correctness of splitting\<close>

lemma find_in_singleton: "find_in [c] s = (if c \<in> set s then Some (length (takeWhile (\<lambda>d. d \<noteq> c) s)) else None)"
  by (induction s) auto

lemma split_on_no_sep: "c \<notin> set s \<Longrightarrow> s \<noteq> [] \<Longrightarrow> split_on c s = [s]"
proof (induction s)
  case (Cons d s)
  then show ?case by (cases s) auto
qed simp

lemma split_on_append_sep: "c \<notin> set u \<Longrightarrow> split_on c (u @ c # s) = u # split_on c s"
  by (induction u) auto

lemma Split_loop_split_on: "Split_loop [c] s vec = Some (vec @ split_on c s)"
proof (induction "length s" arbitrary: s vec rule: less_induct)
  case less
  show ?case
  proof (cases "c \<in> set s")
    case True
    then obtain u v where s: "s = u @ c # v" and u: "c \<notin> set u" by (meson split_list_first)
    then have tw: "takeWhile (\<lambda>d. d \<noteq> c) s = u" by (simp add: takeWhile_tail) (metis takeWhile_eq_all_conv)
    have "Split_loop [c] s vec = Split_loop [c] v (vec @ [u])"
      using True tw s by (subst Split_loop.simps) (simp add: find_in_singleton)
    also have "\<dots> = Some ((vec @ [u]) @ split_on c v)" using s by (intro less.hyps) simp
    finally show ?thesis using s u by (simp add: split_on_append_sep)
  next
    case False
    then show ?thesis
      by (subst Split_loop.simps) (cases "s = []", auto simp: find_in_singleton split_on_no_sep)
  qed
qed

lemma Split_eq_split_on [simp]: "Split s [c] = Some (split_on c s)"
  by (simp add: Split_def Split_loop_split_on)


text \<open>Joining with a separator, the inverse of \<open>Split\<close>.\<close>

fun join_with :: "char \<Rightarrow> string list \<Rightarrow> string" where
  "join_with c [] = []"
| "join_with c [w] = w"
| "join_with c (w # ws) = w @ c # join_with c ws"

lemma split_on_pieces: "w \<in> set (split_on c s) \<Longrightarrow> c \<notin> set w"
  by (induction s arbitrary: w) (auto split: if_splits list.splits)

lemma split_on_join:
  "(\<And>w. w \<in> set ws \<Longrightarrow> c \<notin> set w) \<Longrightarrow> ws = [] \<or> last ws \<noteq> [] \<Longrightarrow>
   split_on c (join_with c ws) = ws"
  by (induction c ws rule: join_with.induct) (auto simp: split_on_no_sep split_on_append_sep)

lemma join_split_on:
  "join_with c (split_on c s) = (if s \<noteq> [] \<and> last s = c then butlast s else s)"
proof (induction c s rule: split_on.induct)
  case (2 c d s)
  then show ?case
    by (cases s; cases "split_on c s"; cases "tl (split_on c s)") (auto split: if_splits list.splits)
qed simp

text \<open>Splitting at a separator character always returns, and recovers exactly the pieces of
  a text that was joined from separator-free pieces the last of which is not empty.\<close>

theorem Split_roundtrip:
  assumes "list_all (\<lambda>w. c \<notin> set w) ws" and "ws = [] \<or> last ws \<noteq> []"
  shows "Split (join_with c ws) [c] = Some ws"
  using assms by (simp add: list_all_iff split_on_join)

theorem Split_roundtrip_witness:
  "Split (join_with CHR '','' [''default'', '''', ''mms'']) '','' = Some [''default'', '''', ''mms'']"
  by (rule Split_roundtrip) simp_all

section \<open>Prefix lengths\<close>

lemma mask_loop_pow: "(256 - unat v mod 256) * 2 ^ (mask_loop v n - n) \<le> 256 \<and> n \<le> mask_loop v n"
proof (induction v n rule: mask_loop.induct)
  case (1 v n)
  show ?case
  proof (cases "v AND 0x80 \<noteq> 0")
    case True
    let ?w = "push_bit 1 v"
    have ge: "unat v mod 256 \<ge> 128" using True by (simp only: mask_bit7)
    have e: "mask_loop v n = mask_loop ?w (n + 1)"
      by (subst mask_loop.simps) (use True in simp)
    have IH: "(256 - unat ?w mod 256) * 2 ^ (mask_loop ?w (n + 1) - (n + 1)) \<le> 256
        \<and> n + 1 \<le> mask_loop ?w (n + 1)" using 1 True by blast
    have "mask_loop v n - n = Suc (mask_loop ?w (n + 1) - (n + 1))" unfolding e using IH by linarith
    moreover have "256 - unat ?w mod 256 = 2 * (256 - unat v mod 256)"
      unfolding mask_shift_decreases [OF ge] using ge by simp
    ultimately show ?thesis using IH e by (simp add: mult.assoc)
  next
    case False
    then show ?thesis by (simp add: mask_loop.simps [of v n])
  qed
qed

lemma mask_loop_bound: "mask_loop v n \<le> n + 8"
proof -
  have "1 * 2 ^ (mask_loop v n - n) \<le> (256 - unat v mod 256) * 2 ^ (mask_loop v n - n)"
    by (intro mult_right_mono) auto
  also have "\<dots> \<le> 2 ^ 8" using mask_loop_pow [of v n] by simp
  finally have "(2::nat) ^ (mask_loop v n - n) \<le> 2 ^ 8" by simp
  then have "mask_loop v n - n \<le> 8" by (subst (asm) power_increasing_iff) auto
  then show ?thesis by simp
qed

lemma prefix_loop_bound: "prefix_loop P items n \<le> n + 8 * length items"
proof (induction P items n rule: prefix_loop.induct)
  case (2 P item items n)
  let ?v = "(word_of_int (snd (ConvertStrToInt (c_str item) 0)) :: 32 word) AND 0x00FF"
  have "mask_loop ?v n \<le> n + 8" by (rule mask_loop_bound)
  moreover have "prefix_loop P items (mask_loop ?v n) \<le> mask_loop ?v n + 8 * length items"
    if "IsValidDecValue P (c_str item)" "?v \<noteq> 0" "mask_loop ?v n mod 8 = 0"
    using 2 that by simp
  ultimately show ?case by (auto simp: Let_def)
qed simp


text \<open>Every mask item contributes at most eight bits, so the prefix length of a mask of
  \<open>n\<close> items is at most \<open>8 * n\<close>; in particular \<open>int32_t\<close> never overflows on a real
  mask.\<close>

theorem GetPrefixLen_bound: "GetPrefixLenFrom P netmask start \<le> 8 * (length netmask - start)"
  using prefix_loop_bound [of P "drop start netmask" 0] by (simp add: GetPrefixLenFrom_def)

text \<open>The dotted mask of a prefix length: the decimal forms of the bytes with \<open>k\<close> leading
  one bits.\<close>

definition octets :: "string list" where
  "octets = [''0'', ''128'', ''192'', ''224'', ''240'', ''248'', ''252'', ''254'', ''255'']"

definition netmask_items :: "nat \<Rightarrow> string list" where
  "netmask_items p = map (\<lambda>i. octets ! (min 8 (p - 8 * i))) [0..<4]"

lemma mask_loop_ones:
  "unat v mod 256 = 256 - 2 ^ (8 - k) \<Longrightarrow> k \<le> 8 \<Longrightarrow> mask_loop v n = n + k"
proof (induction k arbitrary: v n)
  case 0
  then have "\<not> unat v mod 256 \<ge> 128" by simp
  then have "v AND 0x80 = 0" using mask_bit7 by blast
  then show ?case by (simp add: mask_loop.simps [of v n])
next
  case (Suc k)
  have "(2::nat) ^ (8 - Suc k) \<le> 2 ^ 7" by (intro power_increasing) auto
  with Suc.prems have ge: "unat v mod 256 \<ge> 128" by simp
  have two: "(2::nat) ^ (8 - k) = 2 * 2 ^ (8 - Suc k)"
    using Suc.prems(2) by (simp add: Suc_diff_Suc flip: power_Suc)
  have "unat (push_bit 1 v) mod 256 = 256 - 2 ^ (8 - k)"
    unfolding mask_shift_decreases [OF ge] two using Suc.prems(1) by simp
  then have "mask_loop (push_bit 1 v) (n + 1) = n + 1 + k" using Suc by simp
  moreover have "mask_loop v n = mask_loop (push_bit 1 v) (n + 1)"
    by (subst mask_loop.simps) (use ge in \<open>simp only: mask_bit7 if_True\<close>)
  ultimately show ?case by simp
qed

lemma less_nine: "k \<le> 8 \<Longrightarrow> k = 0 \<or> k = 1 \<or> k = 2 \<or> k = 3 \<or> k = 4 \<or> k = 5 \<or> k = 6 \<or> k = 7 \<or> k = (8::nat)"
  by linarith

lemma octet_value: "k \<le> 8 \<Longrightarrow> snd (ConvertStrToInt (c_str (octets ! k)) 0) = 256 - 2 ^ (8 - k)"
  by (drule less_nine, elim disjE; simp only: ; code_simp)

lemma octet_text: "k \<le> 8 \<Longrightarrow> octets ! k \<noteq> [] \<and> CHR ''.'' \<notin> set (octets ! k) \<and> c_str (octets ! k) = octets ! k"
  by (drule less_nine, elim disjE) (simp_all add: octets_def c_str_def)


definition octet_word :: "nat \<Rightarrow> 32 word" where
  "octet_word k = word_of_int (256 - 2 ^ (8 - k)) AND 0x00FF"

lemma octet_word: "k \<le> 8 \<Longrightarrow> unat (octet_word k) = 256 - 2 ^ (8 - k)"
  by (drule less_nine, elim disjE) (simp_all add: octet_word_def)

lemma prefix_loop_octet:
  assumes "k \<le> 8" "IsValidDecValue P (octets ! k)"
  shows "prefix_loop P ((octets ! k) # items) n =
    (if k = 0 then n else if (n + k) mod 8 \<noteq> 0 then n + k else prefix_loop P items (n + k))"
proof -
  have v: "(word_of_int (snd (ConvertStrToInt (c_str (octets ! k)) 0)) :: 32 word) AND 0x00FF
    = octet_word k" using assms(1) by (simp add: octet_value octet_word_def)
  have u: "unat (octet_word k) = 256 - 2 ^ (8 - k)" using assms(1) by (rule octet_word)
  have le: "(2::nat) ^ (8 - k) \<le> 256" using power_increasing [of "8 - k" 8 "2::nat"] by simp
  have z: "octet_word k = 0 \<longleftrightarrow> k = 0"
  proof
    assume "octet_word k = 0"
    then have "(2::nat) ^ (8 - k) = 2 ^ 8" using u le by simp
    then have "8 - k = 8" by (subst (asm) power_inject_exp) simp_all
    then show "k = 0" using assms(1) by simp
  qed (use u in \<open>simp add: unat_eq_0\<close>)
  have "0 < (2::nat) ^ (8 - k)" by simp
  then have "256 - (2::nat) ^ (8 - k) < 256" by linarith
  then have "unat (octet_word k) mod 256 = 256 - 2 ^ (8 - k)" using u by simp
  then have m: "mask_loop (octet_word k) n = n + k" using assms(1) by (rule mask_loop_ones)
  have "IsValidDecValue P (c_str (octets ! k))" using assms octet_text [OF assms(1)] by simp
  then show ?thesis unfolding prefix_loop.simps(2) Let_def v by (simp add: z m)
qed

text \<open>The prefix length read from the dotted mask of any IPv4 prefix \<open>p\<close> is \<open>p\<close>
  (the validity test of the string helper library accepts the decimal numbers used).\<close>

theorem GetPrefixLen_netmask:
  assumes "p \<le> 32" and "list_all (IsValidDecValue P) octets"
  shows "GetPrefixLen P (join_with CHR ''.'' (netmask_items p)) ''.'' = Some p"
proof -
  have valid: "IsValidDecValue P (octets ! k)" if "k \<le> 8" for k
    using assms(2) that by (simp add: list_all_length octets_def)
  have items: "netmask_items p = [octets ! (min 8 p), octets ! (min 8 (p - 8)),
      octets ! (min 8 (p - 16)), octets ! (min 8 (p - 24))]"
    by (simp add: netmask_items_def numeral_eq_Suc)
  have "split_on CHR ''.'' (join_with CHR ''.'' (netmask_items p)) = netmask_items p"
    unfolding items by (rule split_on_join) (use octet_text in auto)
  then have "GetPrefixLen P (join_with CHR ''.'' (netmask_items p)) ''.''
      = Some (prefix_loop P (netmask_items p) 0)"
    by (simp add: GetPrefixLen_def GetPrefixLenFrom_def)
  also have "prefix_loop P (netmask_items p) 0 = p"
  proof -
    consider "p < 8" | "8 \<le> p" "p < 16" | "16 \<le> p" "p < 24" | "24 \<le> p" "p < 32" | "p = 32"
      using assms(1) by linarith
    then show ?thesis
      unfolding items
      by cases (auto simp: prefix_loop_octet valid min_def simp del: prefix_loop.simps(2))
  qed
  finally show ?thesis .
qed

theorem GetPrefixLen_netmask_witness:
  "GetPrefixLen sample_platform ''255.255.240.0'' ''.'' = Some 20"
  using GetPrefixLen_netmask [of 20 sample_platform]
  by (simp add: netmask_items_def octets_def sample_platform_def numeral_eq_Suc)


section \<open>Fields of the dual-SIM mode\<close>

lemma and_15: "(v::int) AND 15 = v mod 16"
  using take_bit_eq_mask [of 4 v] by (simp add: take_bit_eq_mod mask_eq_exp_minus_1)

text \<open>The four-bit fields of the mode word are read back as they were laid out (legacy
  field, slots 0/1, slots 0/3, slots 1/3), in either order of the slots, and every other pair of
  slots falls back to the field of slots 0/1.\<close>

theorem GetDsdsModeForSlots_layout:
  fixes legacy m01 m03 m13 s t :: int
  assumes "0 \<le> legacy" "legacy < 16" "0 \<le> m01" "m01 < 16" "0 \<le> m03" "m03 < 16" "0 \<le> m13" "m13 < 16"
  shows "GetDsdsModeForSlots par s t (legacy + 16 * m01 + 256 * m03 + 4096 * m13) =
    (if \<not> IsTstsModeEnabled par then legacy
     else if {s, t} = {0, 3} then m03
     else if {s, t} = {1, 3} then m13
     else m01)"
proof -
  let ?v = "legacy + 16 * m01 + 256 * m03 + 4096 * m13"
  have q: "(l + 16 * x) div 16 = x \<and> (l + 16 * x) mod 16 = l"
    if "0 \<le> l" "l < 16" for l x :: int
    using that by simp
  have v: "?v = legacy + 16 * (m01 + 16 * (m03 + 16 * m13))" by simp
  have d1: "?v div 16 = m01 + 16 * (m03 + 16 * m13)" unfolding v using q assms(1,2) by blast
  have d2: "?v div 256 = m03 + 16 * m13"
  proof -
    have "?v div (16 * 16) = ?v div 16 div 16" by (rule zdiv_zmult2_eq) simp
    then show ?thesis unfolding d1 q [OF assms(3,4), THEN conjunct1] by simp
  qed
  have d3: "?v div 4096 = m13"
  proof -
    have "?v div (256 * 16) = ?v div 256 div 16" by (rule zdiv_zmult2_eq) simp
    then show ?thesis unfolding d2 q [OF assms(5,6), THEN conjunct1] by simp
  qed
  have f: "?v div 16 mod 16 = m01" "?v div 256 mod 16 = m03" "?v div 4096 mod 16 = m13"
    unfolding d1 d2 d3
    using q [OF assms(3,4)] q [OF assms(5,6)] assms(7,8) by (blast, blast, simp)
  have g: "drop_bit 4 ?v mod 16 = m01" "drop_bit 8 ?v mod 16 = m03" "drop_bit 12 ?v mod 16 = m13"
    using f by (simp_all add: drop_bit_eq_div)
  have l: "?v mod 16 = legacy" unfolding v using q [OF assms(1,2)] by blast
  have p: "{s, t} = {a, b} \<longleftrightarrow> min s t = a \<and> max s t = b" if "a < b" for a b :: int
    using that by (auto simp: doubleton_eq_iff min_def max_def)
  show ?thesis
    by (simp add: GetDsdsModeForSlots_def Let_def p g l and_15)
qed

theorem GetDsdsModeForSlots_layout_witness:
  "GetDsdsModeForSlots (\<lambda>k d n. (1, ''1'')) 3 1 (0 + 16 * 2 + 256 * 0 + 4096 * 1) =
    (if \<not> IsTstsModeEnabled (\<lambda>k d n. (1, ''1'')) then 0
     else if {3, 1} = {0, 3::int} then 0 else if {3, 1} = {1, 3::int} then 1 else 2)"
  by (rule GetDsdsModeForSlots_layout) simp_all


end
