(* ===== verification/Apn_Item.thy ===== *)
theory Apn_Item
  imports Data_Utils
begin

text \<open>
  \<open>services/src/apn_manager/apn_item.cpp\<close>: access point items. An item is shared by
  pointer between the item list of the APN manager, the retry policies, the APN holders and the
  state machines, so items live in a store (\<open>ApnItem store\<close>) and are named by address;
  marking one as bad is seen by all owners.
\<close>

section \<open>Data\<close>

text \<open>\<open>PdpProfile\<close>: the columns of a database row that the sources use.\<close>

record PdpProfile =
  pp_profileId :: int
  pp_profileName :: string
  pp_mcc :: string
  pp_mnc :: string
  pp_apn :: string
  pp_authType :: int
  pp_authUser :: string
  pp_authPwd :: string
  pp_apnTypes :: string
  pp_isRoamingApn :: bool
  pp_homeUrl :: string
  pp_proxyIpAddress :: string
  pp_mmsIpAddress :: string
  pp_pdpProtocol :: string
  pp_roamPdpProtocol :: string
  pp_mvnoType :: string
  pp_mvnoMatchData :: string
  pp_edited :: bool

record Attribute =
  at_types :: string
  at_numeric :: string
  at_profileId :: int
  at_protocol :: string
  at_roamingProtocol :: string
  at_authType :: int
  at_apn :: string
  at_apnName :: string
  at_user :: string
  at_password :: string
  at_isRoamingApn :: bool
  at_homeUrl :: string
  at_proxyIpAddress :: string
  at_mmsIpAddress :: string
  at_isEdited :: bool
  at_snssai :: string
  at_sscMode :: int
  at_dnn :: string
  at_PduSessionType :: int
  at_RouteBitmap :: int

record ApnItem =
  it_attr :: Attribute
  it_apnTypes :: "string list"
  it_badApn :: bool

abbreviation (input) "ALL_APN_ITEM_CHAR_LENGTH \<equiv> (256::nat)"
abbreviation (input) "DATA_PROFILE_DEFAULT \<equiv> (0::int)"
abbreviation (input) "DEFAULT_AUTH_TYPE \<equiv> (0::int)"

definition empty_Attribute :: Attribute where
  "empty_Attribute = \<lparr>at_types = '''', at_numeric = '''', at_profileId = 0, at_protocol = '''',
     at_roamingProtocol = '''', at_authType = 0, at_apn = '''', at_apnName = '''', at_user = '''',
     at_password = '''', at_isRoamingApn = False, at_homeUrl = '''', at_proxyIpAddress = '''',
     at_mmsIpAddress = '''', at_isEdited = False, at_snssai = '''', at_sscMode = 0, at_dnn = '''',
     at_PduSessionType = 0, at_RouteBitmap = 0\<rparr>"

definition new_ApnItem :: ApnItem where
  "new_ApnItem = \<lparr>it_attr = empty_Attribute, it_apnTypes = [], it_badApn = False\<rparr>"

section \<open>Operations\<close>

definition IsBadApn :: "ApnItem \<Rightarrow> bool" where
  "IsBadApn = it_badApn"

definition MarkBadApn :: "bool \<Rightarrow> ApnItem \<Rightarrow> ApnItem" where
  "MarkBadApn badApn item = item \<lparr>it_badApn := badApn\<rparr>"

definition CanDealWithType :: "ApnItem \<Rightarrow> string \<Rightarrow> bool" where
  "CanDealWithType item ty =
     list_ex (\<lambda>t. let apnType = map tolower t in
        ty = apnType
        \<or> ty = DATA_CONTEXT_ROLE_INTERNAL_DEFAULT \<and> apnType = DATA_CONTEXT_ROLE_DEFAULT
        \<or> ty \<noteq> DATA_CONTEXT_ROLE_IA \<and> apnType = DATA_CONTEXT_ROLE_ALL) (it_apnTypes item)"

text \<open>Copy into one of the fixed-size fields; \<open>None\<close> is the early \<open>return nullptr\<close>.\<close>

abbreviation (input) "copy_field \<equiv> strcpy_s ALL_APN_ITEM_CHAR_LENGTH"

text \<open>The constructors return a new item or \<open>nullptr\<close> (the inner option).\<close>

definition MakeDefaultApn :: "string \<Rightarrow> ApnItem option outcome" where
  "MakeDefaultApn apnType = do {
     apnTypes \<leftarrow> Split apnType '','';
     let attr = empty_Attribute \<lparr>at_numeric := ''46002'', at_profileId := DATA_PROFILE_DEFAULT,
       at_protocol := ''IPV4V6'', at_roamingProtocol := ''IPV4V6'', at_authType := DEFAULT_AUTH_TYPE,
       at_apn := ''cmnet'', at_apnName := ''CMNET''\<rparr>;
     Some (do {
       types \<leftarrow> copy_field apnType;
       apn \<leftarrow> (if apnType = ''mms'' then copy_field ''cmwap'' else Some (at_apn attr));
       Some \<lparr>it_attr = attr \<lparr>at_types := types, at_apn := apn\<rparr>, it_apnTypes = apnTypes,
             it_badApn = False\<rparr>
     })
   }"

definition BuildOtherApnAttributes :: "ApnItem \<Rightarrow> PdpProfile \<Rightarrow> ApnItem option" where
  "BuildOtherApnAttributes item apnData = do {
     homeUrl \<leftarrow> copy_field (pp_homeUrl apnData);
     proxyIpAddress \<leftarrow> copy_field (pp_proxyIpAddress apnData);
     mmsIpAddress \<leftarrow> copy_field (pp_mmsIpAddress apnData);
     Some (item \<lparr>it_attr := (it_attr item) \<lparr>at_homeUrl := homeUrl,
       at_proxyIpAddress := proxyIpAddress, at_mmsIpAddress := mmsIpAddress\<rparr>\<rparr>)
   }"

definition MakeApn :: "PdpProfile \<Rightarrow> ApnItem option outcome" where
  "MakeApn apnData = do {
     apnTypes \<leftarrow> Split (pp_apnTypes apnData) '','';
     Some (do {
       types \<leftarrow> copy_field (pp_apnTypes apnData);
       numeric \<leftarrow> copy_field (pp_mcc apnData @ pp_mnc apnData);
       protocol \<leftarrow> copy_field (pp_pdpProtocol apnData);
       roamingProtocol \<leftarrow> copy_field (pp_roamPdpProtocol apnData);
       apn \<leftarrow> copy_field (pp_apn apnData);
       apnName \<leftarrow> copy_field (pp_profileName apnData);
       user \<leftarrow> copy_field (pp_authUser apnData);
       password \<leftarrow> copy_field (pp_authPwd apnData);
       BuildOtherApnAttributes
         \<lparr>it_attr = empty_Attribute \<lparr>at_types := types, at_numeric := numeric,
            at_profileId := pp_profileId apnData, at_protocol := protocol,
            at_roamingProtocol := roamingProtocol, at_authType := pp_authType apnData,
            at_apn := apn, at_apnName := apnName, at_user := user, at_password := password,
            at_isRoamingApn := pp_isRoamingApn apnData, at_isEdited := pp_edited apnData\<rparr>,
          it_apnTypes = apnTypes, it_badApn = False\<rparr> apnData
     })
   }"

definition IsSimilarProperty :: "string \<Rightarrow> string \<Rightarrow> bool" where
  "IsSimilarProperty newProp oldProp \<longleftrightarrow> newProp = oldProp \<or> newProp = [] \<or> oldProp = []"

definition IsSimilarProtocol :: "string \<Rightarrow> string \<Rightarrow> bool" where
  "IsSimilarProtocol newProtocol oldProtocol \<longleftrightarrow>
     newProtocol = oldProtocol
     \<or> newProtocol = PROTOCOL_IPV4V6 \<and> oldProtocol = PROTOCOL_IPV4
     \<or> newProtocol = PROTOCOL_IPV4V6 \<and> oldProtocol = PROTOCOL_IPV6
     \<or> newProtocol = PROTOCOL_IPV4 \<and> oldProtocol = PROTOCOL_IPV4V6
     \<or> newProtocol = PROTOCOL_IPV6 \<and> oldProtocol = PROTOCOL_IPV4V6"

definition IsSimilarPdpProfile :: "PdpProfile \<Rightarrow> PdpProfile \<Rightarrow> bool" where
  "IsSimilarPdpProfile newP oldP =
     (if str_contains (pp_apnTypes newP) DATA_CONTEXT_ROLE_DEFAULT
         \<and> str_contains (pp_apnTypes oldP) DATA_CONTEXT_ROLE_DEFAULT then False
      else pp_apn newP = pp_apn oldP
         \<and> IsSimilarProperty (pp_proxyIpAddress newP) (pp_proxyIpAddress oldP)
         \<and> IsSimilarProtocol (pp_pdpProtocol newP) (pp_pdpProtocol oldP)
         \<and> IsSimilarProtocol (pp_roamPdpProtocol newP) (pp_roamPdpProtocol oldP)
         \<and> pp_mvnoType newP = pp_mvnoType oldP
         \<and> pp_mvnoMatchData newP = pp_mvnoMatchData oldP
         \<and> IsSimilarProperty (pp_homeUrl newP) (pp_homeUrl oldP)
         \<and> IsSimilarProperty (pp_mmsIpAddress newP) (pp_mmsIpAddress oldP))"

section \<open>Facts\<close>

lemma strcpy_s_Some: "strcpy_s n s = Some t \<longleftrightarrow> t = c_str s \<and> length t < n"
  by (auto simp: strcpy_s_def)

lemma IsBadApn_MarkBadApn [simp]: "IsBadApn (MarkBadApn b item) = b"
  by (simp add: IsBadApn_def MarkBadApn_def)

lemma CanDealWithType_MarkBadApn [simp]: "CanDealWithType (MarkBadApn b item) = CanDealWithType item"
  by (rule ext) (simp add: CanDealWithType_def MarkBadApn_def)

lemma it_attr_MarkBadApn [simp]: "it_attr (MarkBadApn b item) = it_attr item"
  by (simp add: MarkBadApn_def)

lemma IsSimilarProtocol_sym: "IsSimilarProtocol a b = IsSimilarProtocol b a"
  by (auto simp: IsSimilarProtocol_def)

lemma IsSimilarProperty_sym: "IsSimilarProperty a b = IsSimilarProperty b a"
  by (auto simp: IsSimilarProperty_def)

lemma IsSimilarPdpProfile_sym: "IsSimilarPdpProfile a b = IsSimilarPdpProfile b a"
  by (auto simp: IsSimilarPdpProfile_def IsSimilarProperty_sym IsSimilarProtocol_sym)

text \<open>The fixed-size fields of an item always hold a terminated string.\<close>

definition attr_fits :: "Attribute \<Rightarrow> bool" where
  "attr_fits a \<longleftrightarrow> list_all (\<lambda>s. length s < ALL_APN_ITEM_CHAR_LENGTH)
     [at_types a, at_numeric a, at_protocol a, at_roamingProtocol a, at_apn a, at_apnName a,
      at_user a, at_password a, at_homeUrl a, at_proxyIpAddress a, at_mmsIpAddress a]"

text \<open>Building an item from a database row always returns; it yields an item exactly when
  every text column fits its 256-byte field, and then the item carries the row's data: its profile
  identifier, its comma-separated roles, and no bad mark.\<close>

theorem MakeApn_spec:
  "\<exists>r. MakeApn p = Some r \<and>
    (r \<noteq> None \<longleftrightarrow> list_all (\<lambda>s. length (c_str s) < ALL_APN_ITEM_CHAR_LENGTH)
       [pp_apnTypes p, pp_mcc p @ pp_mnc p, pp_pdpProtocol p, pp_roamPdpProtocol p, pp_apn p,
        pp_profileName p, pp_authUser p, pp_authPwd p, pp_homeUrl p, pp_proxyIpAddress p,
        pp_mmsIpAddress p]) \<and>
    (case r of None \<Rightarrow> True | Some item \<Rightarrow>
       at_profileId (it_attr item) = pp_profileId p \<and> it_apnTypes item = split_on CHR '','' (pp_apnTypes p)
       \<and> at_apn (it_attr item) = c_str (pp_apn p) \<and> \<not> IsBadApn item \<and> attr_fits (it_attr item))"
  by (auto simp: MakeApn_def BuildOtherApnAttributes_def attr_fits_def strcpy_s_def IsBadApn_def
      split: if_splits option.splits)

end
