(* ===== verification/Environment.thy ===== *)
theory Environment
  imports Apn_Item
begin

text \<open>
  What surrounds the components: the events they exchange (the codes of
  \<open>cellular_data_event_code.h\<close> and of the radio events, with their payloads), the calls that
  leave the program (collected as a list of \<open>effect\<close>s in the order in which they are made), and
  the answers of other services (the record \<open>env\<close>: core service, vendor extension, operator
  configuration, clock). A query that reports through an out-parameter is the value it leaves
  there. Telemetry (\<open>CellularDataHiSysEvent\<close>) and logging have no influence on the program
  and are left out.
\<close>

section \<open>Payloads\<close>

record DataConnectionParams =
  dc_apnHolder :: ptr
  dc_profileId :: int
  dc_rat :: RadioTech
  dc_roamingState :: bool
  dc_userRoaming :: bool
  dc_nonTrafficUseOnly :: bool

text \<open>The constructor, with the parameter order of the declaration.\<close>

definition mk_DataConnectionParams ::
  "ptr \<Rightarrow> int \<Rightarrow> RadioTech \<Rightarrow> bool \<Rightarrow> bool \<Rightarrow> bool \<Rightarrow> DataConnectionParams" where
  "mk_DataConnectionParams apnHolder profileId radioTechnology nonTrafficUseOnly roamingState
     userDataRoaming =
     \<lparr>dc_apnHolder = apnHolder, dc_profileId = profileId, dc_rat = radioTechnology,
      dc_roamingState = roamingState, dc_userRoaming = userDataRoaming,
      dc_nonTrafficUseOnly = nonTrafficUseOnly\<rparr>"

record DataDisconnectParams =
  dd_apnType :: string
  dd_reason :: DisConnectionReason

text \<open>The data that travels to the modem in \<open>ActivatePdpContext\<close>.\<close>

record ActivateDataParam =
  ad_param :: int
  ad_radioTechnology :: RadioTech
  ad_allowRoaming :: bool
  ad_isRoaming :: bool
  ad_profileId :: int
  ad_apn :: string
  ad_protocol :: string
  ad_verType :: int
  ad_userName :: string
  ad_password :: string
  ad_roamingProtocol :: string
  ad_snssai :: string
  ad_sscMode :: int
  ad_supportedApnTypesBitmap :: int

record DeactivateDataParam =
  de_param :: int
  de_cid :: int
  de_reason :: DisConnectionReason

text \<open>\<open>INetAddr\<close>, \<open>Route\<close>, \<open>NetLinkInfo\<close> and \<open>NetSupplierInfo\<close> of the
  net manager, with the fields that the sources fill.\<close>

record INetAddr =
  na_address :: string
  na_family :: IpType
  na_type :: IpType
  na_hostName :: string
  na_netMask :: string
  na_prefixlen :: nat

record Route =
  rt_iface :: string
  rt_gateway :: INetAddr
  rt_destination :: INetAddr

record NetLinkInfo =
  nl_ifaceName :: string
  nl_mtu :: int
  nl_tcpBufferSizes :: string
  nl_netAddrList :: "INetAddr list"
  nl_dnsList :: "INetAddr list"
  nl_routeList :: "Route list"
  nl_httpProxy :: "string \<times> int"

record NetSupplierInfo =
  ns_isAvailable :: bool
  ns_isRoaming :: bool
  ns_linkUpBandwidthKbps :: int
  ns_linkDownBandwidthKbps :: int
  ns_score :: int

section \<open>Events\<close>

text \<open>Payload of \<open>RADIO_RIL_SETUP_DATA_CALL\<close>: \<open>GetSharedObject\<close> yields an object of one
  of the two types, or null for both.\<close>

datatype setup_payload =
    SetupResult SetupDataCallResultInfo | SetupError RadioResponseInfo | SetupNothing

datatype sm_event =
    MSG_STATE_MACHINE_INIT
  | MSG_STATE_MACHINE_QUIT
  | MSG_SM_CONNECT "DataConnectionParams option"
  | MSG_SM_DISCONNECT "DataDisconnectParams option"
  | MSG_SM_DISCONNECT_ALL "DataDisconnectParams option"
  | MSG_SM_LOST_CONNECTION "SetupDataCallResultInfo option"
  | MSG_SM_RIL_ADAPTER_HOST_DIED "SetupDataCallResultInfo option"
  | MSG_SM_LINK_CAPABILITY_CHANGED "(int \<times> int) option"
  | MSG_SM_DRS_OR_RAT_CHANGED
  | MSG_SM_DATA_ROAM_ON
  | MSG_SM_DATA_ROAM_OFF
  | MSG_SM_VOICE_CALL_STARTED
  | MSG_SM_VOICE_CALL_ENDED
  | MSG_SM_GET_LAST_FAIL_DONE
  | MSG_SM_UPDATE_NETWORK_INFO
  | MSG_GET_RIL_BANDWIDTH
  | MSG_CONNECT_TIMEOUT_CHECK int
  | MSG_DISCONNECT_TIMEOUT_CHECK int
  | RADIO_RIL_SETUP_DATA_CALL setup_payload
  | RADIO_RIL_DEACTIVATE_DATA_CALL "RadioResponseInfo option"
  | RADIO_NR_STATE_CHANGED
  | RADIO_NR_FREQUENCY_CHANGED
  | SM_OTHER_EVENT nat

datatype incall_event =
    INCALL_INIT
  | INCALL_QUIT
  | MSG_SM_INCALL_DATA_SETTINGS_ON
  | MSG_SM_INCALL_DATA_SETTINGS_OFF
  | MSG_SM_INCALL_DATA_CALL_STARTED
  | MSG_SM_INCALL_DATA_CALL_ENDED
  | MSG_SM_INCALL_DATA_DATA_DISCONNECTED
  | MSG_SM_INCALL_DATA_DATA_CONNECTED
  | MSG_SM_INCALL_DATA_DSDS_CHANGED

text \<open>Events of the data handler.\<close>

datatype hevent =
    MSG_ESTABLISH_DATA_CONNECTION int "nat option"
  | MSG_ESTABLISH_DATA_CONNECTION_COMPLETE SetupDataCallResultInfo
  | MSG_DISCONNECT_DATA_COMPLETE SetupDataCallResultInfo
  | MSG_DATA_CALL_LIST_CHANGED SetupDataCallResultInfo
  | MSG_RETRY_TO_SETUP_DATACALL int
  | MSG_ESTABLISH_ALL_APNS_IF_CONNECTABLE
  | MSG_RESUME_DATA_PERMITTED_TIMEOUT bool
  | MSG_RETRY_TO_CREATE_APN
  | MSG_RETRY_TO_LOAD_SIM_ACCOUNT int
  | MSG_INCALL_DATA_COMPLETE
  | MSG_MCC_CHANGE_ACTIVATE_DELAY
  | MSG_REQUEST_NETWORK NetRequest int
  | RADIO_SIM_ACCOUNT_LOADED
  | MSG_APN_CHANGED
  | MSG_DB_SETTING_ENABLE_CHANGED

section \<open>Effects\<close>

datatype ril_call =
    ActivatePdpContext int ActivateDataParam
  | DeactivatePdpContext int DeactivateDataParam
  | SetRadioOff int
  | GetPdpContextList int
  | SetDataPermitted int bool
  | SetInitApnInfo int ActivateDataParam
  | SetLinkBandwidthReportingRule int
  | CleanAllConnections int

datatype net_call =
    Net_RegisterNetSupplier string nat
  | Net_RegisterNetSupplierCallback int
  | Net_UnregisterNetSupplier int
  | Net_UpdateNetSupplierInfo int NetSupplierInfo
  | Net_UpdateNetLinkInfo int NetLinkInfo
  | Net_RegisterSlotType int RadioTech
  | Net_SetReuseSupplierId int int bool
  | Net_SetNetworkSliceUePolicy "nat list"
  | Net_NetworkSliceAllowedNssaiRpt "nat list"
  | Net_NetworkSliceEhplmnRpt "nat list"

datatype ext_call =
    Ext_dataEndSelfCure int int
  | Ext_handleDendFailcause int int
  | Ext_restartRadioIfRequired int int
  | Ext_notifyReqCellularData bool
  | Ext_sendDataSwitchChangeInfo bool
  | Ext_reRegisterNetwork int
  | Ext_requestTcpAndDnsPackets

text \<open>Radio events that a component subscribes to at the core service.\<close>

datatype radio_event =
    RADIO_CONNECTED | RADIO_DATA_CALL_LIST_CHANGED | RADIO_LINK_CAPABILITY_CHANGED
  | RADIO_NETWORKSLICE_URSP_RPT | RADIO_NETWORKSLICE_ALLOWEDNSSAI_RPT | RADIO_NETWORKSLICE_EHPLMN_RPT

datatype effect =
    RegisterCoreNotify int radio_event
  | UnRegisterCoreNotify int radio_event
  | ToMachine addr sm_event
  | ToIncall incall_event
  | ToHandler hevent int
  | Ril ril_call
  | Net net_call
  | Ext ext_call
  | NotifyConnectState int int RadioTech
  | NotifyDataFlow int CellDataFlowType

section \<open>Answers of other services\<close>

record env =
  PsRoamingState :: "int \<Rightarrow> int"
  PsRadioTech :: "int \<Rightarrow> RadioTech"
  PsRegState :: "int \<Rightarrow> int"
  NrStateOf :: "int \<Rightarrow> NrState"
  FrequencyOf :: "int \<Rightarrow> FrequencyType"
  SimIdOf :: "int \<Rightarrow> int"
  SimStateOf :: "int \<Rightarrow> SimState"
  HasSimCard :: "int \<Rightarrow> bool"
  IsSimActive :: "int \<Rightarrow> bool"
  DefaultCellularDataSlotId :: int
  PrimarySlotId :: int
  MaxSimCount :: int
  DsdsMode :: int
  operatorString :: "int \<Rightarrow> string \<Rightarrow> string option"
  operatorInts :: "int \<Rightarrow> string \<Rightarrow> int list option"
  operatorStrings :: "int \<Rightarrow> string \<Rightarrow> string list option"
  operatorBool :: "int \<Rightarrow> string \<Rightarrow> bool option"
  getParameter :: parameters
  ext_handleDendFailcause :: "(int \<Rightarrow> int \<Rightarrow> int) option"
  ext_convertPdpError :: "(int \<Rightarrow> int) option"
  ext_restartRadioIfRequired :: bool
  ext_dataEndSelfCure :: bool
  ext_isVSimEnabled :: "bool option"
  ext_isVSimInDisableProcess :: "bool option"
  ext_getVSimSlotId :: "int option"
  ext_isCardAllowData :: "(int \<Rightarrow> nat \<Rightarrow> bool) option"
  ext_isDualCellularCardAllowed :: "bool option"
  ext_getUserDataRoamingExpend :: "(int \<Rightarrow> bool \<Rightarrow> bool) option"
  ext_isVirtualModemSlot :: "(int \<Rightarrow> bool) option"
  ext_isDcCellularDataAllowed :: "bool option"
  ext_notifyReqCellularData :: bool
  supportNrSlice :: bool
  NetworkStatusOf :: "int \<Rightarrow> RadioTech \<times> NrState"
  RSDByNetCap :: "int \<Rightarrow> (string \<times> string) list"
  RSDByDNN :: "string \<Rightarrow> string \<times> int"
  net_register :: "string \<Rightarrow> nat \<Rightarrow> int option"
  net_unregister :: "int \<Rightarrow> bool"
  net_update :: "int \<Rightarrow> NetSupplierInfo \<Rightarrow> int"
  empty_ActivateDataParam :: ActivateDataParam
  empty_NetSupplierInfo :: NetSupplierInfo
  empty_NetLinkInfo :: NetLinkInfo
  now :: int
  randomDelay :: int

text \<open>A quiet environment for concrete examples: one registered SIM card in slot 0 on LTE, no
  vendor extension.\<close>

definition sample_env :: env where
  "sample_env = \<lparr>PsRoamingState = (\<lambda>s. 0), PsRadioTech = (\<lambda>s. RADIO_TECHNOLOGY_LTE),
     PsRegState = (\<lambda>s. 1), NrStateOf = (\<lambda>s. NR_STATE_OTHER 0), FrequencyOf = (\<lambda>s. FREQ_TYPE_OTHER 0),
     SimIdOf = (\<lambda>s. s + 1), SimStateOf = (\<lambda>s. SIM_STATE_LOADED), HasSimCard = (\<lambda>s. True),
     IsSimActive = (\<lambda>s. True), DefaultCellularDataSlotId = 0, PrimarySlotId = 0, MaxSimCount = 2,
     DsdsMode = 0, operatorString = (\<lambda>s k. None), operatorInts = (\<lambda>s k. None),
     operatorStrings = (\<lambda>s k. None),
     operatorBool = (\<lambda>s k. None), getParameter = (\<lambda>k d n. (1, d)),
     ext_handleDendFailcause = None, ext_convertPdpError = None,
     ext_restartRadioIfRequired = False, ext_dataEndSelfCure = False, ext_isVSimEnabled = None,
     ext_isVSimInDisableProcess = None, ext_getVSimSlotId = None, ext_isCardAllowData = None,
     ext_isDualCellularCardAllowed = None, ext_getUserDataRoamingExpend = None,
     ext_isVirtualModemSlot = None, ext_isDcCellularDataAllowed = None,
     ext_notifyReqCellularData = False, supportNrSlice = False,
     NetworkStatusOf = (\<lambda>s. (RADIO_TECHNOLOGY_LTE, NR_STATE_OTHER 0)), RSDByNetCap = (\<lambda>c. []),
     RSDByDNN = (\<lambda>d. ([], 0)), net_register = (\<lambda>i c. Some (100 + int c)),
     net_unregister = (\<lambda>i. True), net_update = (\<lambda>i x. 0),
     empty_ActivateDataParam = \<lparr>ad_param = 0, ad_radioTechnology = RADIO_TECHNOLOGY_UNKNOWN,
       ad_allowRoaming = False, ad_isRoaming = False, ad_profileId = 0, ad_apn = [], ad_protocol = [],
       ad_verType = 0, ad_userName = [], ad_password = [], ad_roamingProtocol = [], ad_snssai = [],
       ad_sscMode = 0, ad_supportedApnTypesBitmap = 0\<rparr>,
     empty_NetSupplierInfo = \<lparr>ns_isAvailable = False, ns_isRoaming = False,
       ns_linkUpBandwidthKbps = 0, ns_linkDownBandwidthKbps = 0, ns_score = 0\<rparr>,
     empty_NetLinkInfo = \<lparr>nl_ifaceName = [], nl_mtu = 0, nl_tcpBufferSizes = [],
       nl_netAddrList = [], nl_dnsList = [], nl_routeList = [], nl_httpProxy = ([], 0)\<rparr>,
     now = 0, randomDelay = 0\<rparr>"


end
