(* ===== verification/Std_Map.thy ===== *)
theory Std_Map
  imports Prelude
begin

text \<open>
  \<open>std::map\<close> with its iteration order: an association list with strictly increasing keys. The
  contract that clients use is the locale \<open>dictionary\<close>; the ordered list is its
  interpretation.
\<close>

section \<open>Operations\<close>

fun map_put :: "'k::linorder \<Rightarrow> 'v \<Rightarrow> ('k \<times> 'v) list \<Rightarrow> ('k \<times> 'v) list" where
  "map_put k v [] = [(k, v)]"
| "map_put k v ((j, w) # m) =
     (if k < j then (k, v) # (j, w) # m
      else if k = j then (k, v) # m
      else (j, w) # map_put k v m)"

definition map_erase :: "'k \<Rightarrow> ('k \<times> 'v) list \<Rightarrow> ('k \<times> 'v) list" where
  "map_erase k m = filter (\<lambda>(j, w). j \<noteq> k) m"

text \<open>\<open>emplace\<close> and \<open>insert\<close> keep an existing entry.\<close>

definition map_emplace :: "'k::linorder \<Rightarrow> 'v \<Rightarrow> ('k \<times> 'v) list \<Rightarrow> ('k \<times> 'v) list" where
  "map_emplace k v m = (if map_of m k = None then map_put k v m else m)"

definition map_wf :: "('k::linorder \<times> 'v) list \<Rightarrow> bool" where
  "map_wf m \<longleftrightarrow> sorted_wrt (<) (map fst m)"

section \<open>Contract\<close>

locale dictionary =
  fixes get :: "'m \<Rightarrow> 'k \<Rightarrow> 'v option"
    and put :: "'k \<Rightarrow> 'v \<Rightarrow> 'm \<Rightarrow> 'm"
    and erase :: "'k \<Rightarrow> 'm \<Rightarrow> 'm"
    and inv :: "'m \<Rightarrow> bool"
  assumes get_put: "inv m \<Longrightarrow> get (put k v m) = (get m)(k \<mapsto> v)"
    and get_erase: "inv m \<Longrightarrow> get (erase k m) = (get m)(k := None)"
    and inv_put: "inv m \<Longrightarrow> inv (put k v m)"
    and inv_erase: "inv m \<Longrightarrow> inv (erase k m)"
begin

lemma erase_put: "inv m \<Longrightarrow> get (erase k (put k v m)) = (get m)(k := None)"
  by (simp add: get_put get_erase inv_put)

lemma put_erase_other: "inv m \<Longrightarrow> j \<noteq> k \<Longrightarrow> get (erase k (put j v m)) j = Some v"
  by (simp add: get_put get_erase inv_put)

lemma inv_fold_put: "inv m \<Longrightarrow> inv (fold (\<lambda>(k, v). put k v) kvs m)"
  by (induction kvs arbitrary: m) (auto simp: inv_put)

end

lemma map_of_put: "map_of (map_put k v m) = (map_of m)(k \<mapsto> v)"
proof (induction m)
  case (Cons x m)
  then show ?case by (cases x) (auto simp: fun_eq_iff)
qed simp

lemma map_of_erase: "map_of (map_erase k m) = (map_of m)(k := None)"
proof (induction m)
  case (Cons x m)
  then show ?case by (cases x) (auto simp: map_erase_def fun_eq_iff)
qed (simp add: map_erase_def)

lemma set_map_put_keys: "fst ` set (map_put k v m) = insert k (fst ` set m)"
proof (induction m)
  case (Cons x m)
  then show ?case by (cases x) auto
qed simp

lemma map_put_wf: "map_wf m \<Longrightarrow> map_wf (map_put k v m)"
proof (induction m)
  case (Cons x m)
  obtain j w where x: "x = (j, w)" by (cases x)
  from Cons have IH: "map_wf (map_put k v m)" and lt: "\<forall>i\<in>fst ` set m. j < i"
    by (auto simp: map_wf_def x)
  have "\<forall>i\<in>fst ` set (map_put k v m). i = k \<or> j < i" using lt by (auto simp: set_map_put_keys)
  with IH lt Cons.prems show ?case by (auto simp: map_wf_def x)
qed (simp add: map_wf_def)

lemma map_erase_wf: "map_wf m \<Longrightarrow> map_wf (map_erase k m)"
proof (induction m)
  case (Cons x m)
  then show ?case by (cases x) (auto simp: map_wf_def map_erase_def)
qed (simp add: map_wf_def map_erase_def)

interpretation ordered: dictionary map_of map_put map_erase map_wf
  by unfold_locales (simp_all add: map_of_put map_of_erase map_put_wf map_erase_wf)

lemma map_wf_distinct: "map_wf m \<Longrightarrow> distinct (map fst m)"
  by (simp add: map_wf_def strict_sorted_iff)

end
