(* ===== verification/Net_Agent.thy ===== *)
theory Net_Agent
  imports Environment Std_Map
begin

text \<open>
  \<open>services/src/utils/cellular_data_net_agent.cpp\<close>: the agent that registers the net suppliers
  of each slot with the net manager and passes supplier and link information on. The net manager
  itself is another repository: its answers are the fields \<open>net_register\<close>,
  \<open>net_unregister\<close> and \<open>net_update\<close> of the environment, the calls are effects.
\<close>

section \<open>State\<close>

record NetSupplier =
  su_supplierId :: int
  su_capability :: nat
  su_slotId :: int
  su_simId :: int
  su_regState :: int

record NetAgent =
  netSuppliers :: "NetSupplier list"
  slotIdSimId :: "(int \<times> int) list"

abbreviation (input) "NETMANAGER_SUCCESS \<equiv> (0::int)"
abbreviation (input) "IDENT_PREFIX \<equiv> ''simId''"

text \<open>\<open>std::to_string\<close>.\<close>

fun digits_of :: "nat \<Rightarrow> string" where
  "digits_of n = (if n < 10 then [char_of (48 + n)]
     else digits_of (n div 10) @ [char_of (48 + n mod 10)])"

declare digits_of.simps [simp del]

definition to_string :: "int \<Rightarrow> string" where
  "to_string i = (if i < 0 then CHR ''-'' # digits_of (nat (- i)) else digits_of (nat i))"

section \<open>Operations\<close>

text \<open>The body of the loop of \<open>RegisterNetSupplier\<close>; the second component of the state is
  the member \<open>slotIdSimId_\<close>.\<close>

definition register_one :: "platform \<Rightarrow> env \<Rightarrow> int \<Rightarrow> NetSupplier
    \<Rightarrow> bool \<times> (int \<times> int) list \<times> effect list \<Rightarrow> NetSupplier \<times> bool \<times> (int \<times> int) list \<times> effect list" where
  "register_one P e slotId su st =
     (case st of (flag, sims, fx) \<Rightarrow>
      if su_slotId su \<noteq> slotId then (su, flag, sims, fx)
      else if su_capability su > NC P NET_CAPABILITY_SNSSAI6 then (su, flag, sims, fx)
      else
        let simId = SimIdOf e (su_slotId su)
        in if simId \<le> INVALID_SIM_ID then (su, flag, sims, fx)
        else
          let ident = IDENT_PREFIX @ to_string simId;
              sims' = map_put slotId simId sims;
              fx1 = fx @ [Net (Net_RegisterNetSupplier ident (su_capability su))]
          in (case net_register e ident (su_capability su) of
                None \<Rightarrow> (su, flag, sims', fx1)
              | Some supplierId \<Rightarrow>
                  let info = (empty_NetSupplierInfo e) \<lparr>ns_isAvailable := False\<rparr>
                  in (su \<lparr>su_supplierId := supplierId, su_simId := simId,
                          su_regState := net_update e supplierId info\<rparr>,
                      True, sims',
                      fx1 @ [Net (Net_RegisterNetSupplierCallback supplierId),
                             Net (Net_UpdateNetSupplierInfo supplierId info),
                             Net (Net_RegisterSlotType supplierId (PsRadioTech e slotId))])))"

fun register_all :: "platform \<Rightarrow> env \<Rightarrow> int \<Rightarrow> NetSupplier list
    \<Rightarrow> bool \<times> (int \<times> int) list \<times> effect list
    \<Rightarrow> NetSupplier list \<times> bool \<times> (int \<times> int) list \<times> effect list" where
  "register_all P e slotId [] st = ([], st)"
| "register_all P e slotId (su # sus) st =
     (let (su', st1) = register_one P e slotId su st;
          (sus', st2) = register_all P e slotId sus st1
      in (su' # sus', st2))"

definition RegisterNetSupplier ::
  "platform \<Rightarrow> env \<Rightarrow> int \<Rightarrow> NetAgent \<Rightarrow> bool \<times> NetAgent \<times> effect list" where
  "RegisterNetSupplier P e slotId ag =
     (case register_all P e slotId (netSuppliers ag) (False, slotIdSimId ag, []) of
        (sus, flag, sims, fx) \<Rightarrow> (flag, \<lparr>netSuppliers = sus, slotIdSimId = sims\<rparr>, fx))"

definition UnregisterNetSupplier :: "env \<Rightarrow> int \<Rightarrow> NetAgent \<Rightarrow> effect list" where
  "UnregisterNetSupplier e slotId ag =
     (let simId = SimIdOf e slotId
      in if simId \<le> INVALID_SIM_ID then []
         else map (\<lambda>su. Net (Net_UnregisterNetSupplier (su_supplierId su)))
                (filter (\<lambda>su. su_simId su = simId) (netSuppliers ag)))"

text \<open>The loop's condition on a supplier, \<open>\<not> (slotId \<noteq> ... \<or> simId \<le> ...)\<close>.\<close>

definition registered_in :: "int \<Rightarrow> NetSupplier \<Rightarrow> bool" where
  "registered_in slotId su \<longleftrightarrow> \<not> (su_slotId su \<noteq> slotId \<or> su_simId su \<le> INVALID_SIM_ID)"

definition UnregisterNetSupplierForSimUpdate ::
  "env \<Rightarrow> int \<Rightarrow> NetAgent \<Rightarrow> NetAgent \<times> effect list" where
  "UnregisterNetSupplierForSimUpdate e slotId ag =
     (let hit = filter (registered_in slotId) (netSuppliers ag)
      in (\<lparr>netSuppliers = map (\<lambda>su. if registered_in slotId su \<and> net_unregister e (su_supplierId su)
                                   then su \<lparr>su_simId := INVALID_SIM_ID\<rparr> else su) (netSuppliers ag),
           slotIdSimId = (if hit = [] then slotIdSimId ag else map_erase slotId (slotIdSimId ag))\<rparr>,
          map (\<lambda>su. Net (Net_UnregisterNetSupplier (su_supplierId su))) hit))"

definition UnregisterAllNetSupplier :: "NetAgent \<Rightarrow> NetAgent \<times> effect list" where
  "UnregisterAllNetSupplier ag =
     (ag \<lparr>netSuppliers := []\<rparr>,
      map (\<lambda>su. Net (Net_UnregisterNetSupplier (su_supplierId su))) (netSuppliers ag))"

definition UpdateNetSupplierInfo ::
  "env \<Rightarrow> int \<Rightarrow> NetSupplierInfo \<Rightarrow> NetAgent \<Rightarrow> int \<times> NetAgent \<times> effect list" where
  "UpdateNetSupplierInfo e supplierId info ag =
     (let result = net_update e supplierId info
      in (result,
          ag \<lparr>netSuppliers := map (\<lambda>su. if su_supplierId su = supplierId
             then su \<lparr>su_regState := result\<rparr> else su) (netSuppliers ag)\<rparr>,
          [Net (Net_UpdateNetSupplierInfo supplierId info)]))"

definition UpdateNetLinkInfo :: "int \<Rightarrow> NetLinkInfo \<Rightarrow> effect list" where
  "UpdateNetLinkInfo supplierId info = [Net (Net_UpdateNetLinkInfo supplierId info)]"

definition AddNetSupplier :: "NetSupplier \<Rightarrow> NetAgent \<Rightarrow> NetAgent" where
  "AddNetSupplier su ag = ag \<lparr>netSuppliers := netSuppliers ag @ [su]\<rparr>"

definition ClearNetSupplier :: "NetAgent \<Rightarrow> NetAgent" where
  "ClearNetSupplier ag = ag \<lparr>netSuppliers := []\<rparr>"

definition GetSupplierId :: "int \<Rightarrow> nat \<Rightarrow> NetAgent \<Rightarrow> int" where
  "GetSupplierId slotId cap ag =
     (case find (\<lambda>su. su_slotId su = slotId \<and> su_capability su = cap) (netSuppliers ag) of
        Some su \<Rightarrow> su_supplierId su | None \<Rightarrow> 0)"

definition RegisterSlotType :: "int \<Rightarrow> RadioTech \<Rightarrow> effect list" where
  "RegisterSlotType supplierId radioTech = [Net (Net_RegisterSlotType supplierId radioTech)]"

definition GetSupplierRegState :: "int \<Rightarrow> NetAgent \<Rightarrow> int option" where
  "GetSupplierRegState supplierId ag =
     map_option su_regState (find (\<lambda>su. su_supplierId su = supplierId) (netSuppliers ag))"

definition SetReuseSupplierId :: "int \<Rightarrow> int \<Rightarrow> bool \<Rightarrow> effect list" where
  "SetReuseSupplierId supplierId reuseSupplierId isReused =
     [Net (Net_SetReuseSupplierId supplierId reuseSupplierId isReused)]"

definition GetSlotId :: "int \<Rightarrow> NetAgent \<Rightarrow> int" where
  "GetSlotId simId ag =
     (case find (\<lambda>(slot, sim). sim = simId) (slotIdSimId ag) of
        Some (slot, sim) \<Rightarrow> slot | None \<Rightarrow> -1)"

section \<open>Facts\<close>

text \<open>A supplier that the registration loop serves, and the supplier afterwards.\<close>

definition served :: "platform \<Rightarrow> env \<Rightarrow> int \<Rightarrow> NetSupplier \<Rightarrow> bool" where
  "served P e slotId su \<longleftrightarrow> su_slotId su = slotId \<and> su_capability su \<le> NC P NET_CAPABILITY_SNSSAI6
     \<and> SimIdOf e slotId > INVALID_SIM_ID"

definition after_register :: "platform \<Rightarrow> env \<Rightarrow> int \<Rightarrow> NetSupplier \<Rightarrow> NetSupplier" where
  "after_register P e slotId su =
     (if served P e slotId su then
        (case net_register e (IDENT_PREFIX @ to_string (SimIdOf e slotId)) (su_capability su) of
           None \<Rightarrow> su
         | Some i \<Rightarrow> su \<lparr>su_supplierId := i, su_simId := SimIdOf e slotId,
             su_regState := net_update e i ((empty_NetSupplierInfo e) \<lparr>ns_isAvailable := False\<rparr>)\<rparr>)
      else su)"

definition registers :: "platform \<Rightarrow> env \<Rightarrow> int \<Rightarrow> NetSupplier \<Rightarrow> bool" where
  "registers P e slotId su \<longleftrightarrow> served P e slotId su
     \<and> net_register e (IDENT_PREFIX @ to_string (SimIdOf e slotId)) (su_capability su) \<noteq> None"

lemma register_one_result:
  "register_one P e slotId su (flag, sims, fx) = (su', flag', sims', fx') \<Longrightarrow>
     su' = after_register P e slotId su \<and> flag' = (flag \<or> registers P e slotId su)
     \<and> sims' = (if served P e slotId su then map_put slotId (SimIdOf e slotId) sims else sims)"
  by (auto simp: register_one_def after_register_def served_def registers_def Let_def
      split: if_splits option.splits)

lemma map_put_idem: "map_put k v (map_put k v m) = map_put k v m"
proof (induction m)
  case (Cons x m)
  then show ?case by (cases x) auto
qed simp

lemma register_all_result:
  "register_all P e slotId sus (flag, sims, fx) = (sus', flag', sims', fx') \<Longrightarrow>
     sus' = map (after_register P e slotId) sus
     \<and> flag' = (flag \<or> list_ex (registers P e slotId) sus)
     \<and> sims' = (if list_ex (served P e slotId) sus then map_put slotId (SimIdOf e slotId) sims else sims)"
proof (induction sus arbitrary: flag sims fx sus' flag' sims' fx')
  case (Cons su sus)
  obtain su1 f1 m1 x1 where one: "register_one P e slotId su (flag, sims, fx) = (su1, f1, m1, x1)"
    by (cases "register_one P e slotId su (flag, sims, fx)")
  obtain r f2 m2 x2 where rest: "register_all P e slotId sus (f1, m1, x1) = (r, f2, m2, x2)"
    by (cases "register_all P e slotId sus (f1, m1, x1)")
  from Cons.prems have "sus' = su1 # r" "flag' = f2" "sims' = m2" by (simp_all add: one rest)
  with Cons.IH [OF rest] register_one_result [OF one] show ?case by (auto simp: map_put_idem)
qed simp

lemma after_register_key [simp]:
  "su_slotId (after_register P e s su) = su_slotId su"
  "su_capability (after_register P e s su) = su_capability su"
  by (auto simp: after_register_def split: option.splits)

lemma find_map_key:
  "(\<And>x. P (f x) = P x) \<Longrightarrow> find P (map f xs) = map_option f (find P xs)"
  by (induction xs) auto

lemma find_key_map_of:
  assumes "map_wf m"
  shows "find (\<lambda>(k, v). v = x) m = Some (k, v) \<Longrightarrow> map_of m k = Some x"
    and "(\<exists>k. map_of m k = Some x) \<Longrightarrow> find (\<lambda>(k, v). v = x) m \<noteq> None"
proof -
  show "find (\<lambda>(k, v). v = x) m = Some (k, v) \<Longrightarrow> map_of m k = Some x"
    using find_Some_set [of "\<lambda>(k, v). v = x" m "(k, v)"] map_wf_distinct [OF assms]
    by (auto intro: map_of_is_SomeI)
  show "(\<exists>k. map_of m k = Some x) \<Longrightarrow> find (\<lambda>(k, v). v = x) m \<noteq> None"
    by (auto simp: find_None_iff_all dest: map_of_SomeD)
qed

text \<open>Looking a SIM identifier up finds the lowest slot that carries it.\<close>

lemma GetSlotId_carries:
  assumes "map_wf (slotIdSimId ag)" "map_of (slotIdSimId ag) slotId = Some simId"
  shows "map_of (slotIdSimId ag) (GetSlotId simId ag) = Some simId" "GetSlotId simId ag \<le> slotId"
proof -
  let ?P = "\<lambda>(slot :: int, sim :: int). sim = simId"
  let ?m = "slotIdSimId ag"
  from find_key_map_of(2) [OF assms(1), of simId] assms(2) obtain s i where f: "find ?P ?m = Some (s, i)" by fastforce
  then have g: "GetSlotId simId ag = s" by (simp add: GetSlotId_def)
  show "map_of ?m (GetSlotId simId ag) = Some simId" using find_key_map_of(1) [OF assms(1) f] by (simp add: g)
  from f obtain k where k: "k < length ?m" "?m ! k = (s, i)" "\<forall>j<k. \<not> ?P (?m ! j)" by (auto simp: find_Some_iff)
  from map_of_SomeD [OF assms(2)] obtain n where n: "n < length ?m" "?m ! n = (slotId, simId)" by (auto simp: in_set_conv_nth)
  with k(3) have "k \<le> n" by (metis case_prod_conv not_le)
  moreover have "sorted_wrt (<) (map fst ?m)" using assms(1) by (simp add: map_wf_def)
  ultimately have "map fst ?m ! k \<le> map fst ?m ! n" using k(1) n(1) sorted_wrt_nth_less [of "(<)" "map fst ?m" k n]
    by (cases "k = n") auto
  with k n g show "GetSlotId simId ag \<le> slotId" by simp
qed

lemma GetSlotId_unique:
  assumes "map_wf (slotIdSimId ag)" "map_of (slotIdSimId ag) slotId = Some simId"
    and "\<And>s. map_of (slotIdSimId ag) s = Some simId \<Longrightarrow> s = slotId"
  shows "GetSlotId simId ag = slotId"
  using GetSlotId_carries(1) [OF assms(1,2)] assms(3) by blast

lemma GetSlotId_none:
  assumes "\<And>s. map_of (slotIdSimId ag) s \<noteq> Some simId" "map_wf (slotIdSimId ag)"
  shows "GetSlotId simId ag = -1"
proof (cases "find (\<lambda>(slot, sim). sim = simId) (slotIdSimId ag)")
  case (Some p)
  with find_key_map_of(1) [OF assms(2)] assms(1) show ?thesis by (cases p) blast
qed (simp add: GetSlotId_def)

text \<open>What is left registered of a slot: the suppliers that the net manager did not let go.\<close>

lemma unregister_leaves:
  "filter (registered_in slotId) (netSuppliers (fst (UnregisterNetSupplierForSimUpdate e slotId ag)))
   = filter (\<lambda>su. \<not> net_unregister e (su_supplierId su)) (filter (registered_in slotId) (netSuppliers ag))"
proof -
  have r: "\<not> registered_in slotId (su \<lparr>su_simId := INVALID_SIM_ID\<rparr>)" for su by (simp add: registered_in_def)
  have "filter (registered_in slotId) (map (\<lambda>su. if registered_in slotId su \<and> net_unregister e (su_supplierId su)
      then su \<lparr>su_simId := INVALID_SIM_ID\<rparr> else su) sus)
    = filter (\<lambda>su. \<not> net_unregister e (su_supplierId su)) (filter (registered_in slotId) sus)" for sus
    by (induction sus) (auto simp: r)
  then show ?thesis by (simp add: UnregisterNetSupplierForSimUpdate_def Let_def)
qed

lemma after_register_other:
  assumes "s \<noteq> slotId"
  shows "GetSupplierId s c \<lparr>netSuppliers = map (after_register P e slotId) (netSuppliers ag),
    slotIdSimId = m\<rparr> = GetSupplierId s c ag"
proof -
  have "su_supplierId (after_register P e slotId y) = su_supplierId y" if "su_slotId y = s" for y
    using that assms by (simp add: after_register_def served_def)
  then show ?thesis
    by (auto simp: GetSupplierId_def find_map_key split: option.splits dest: find_Some_set)
qed

text \<open>C40: registering the suppliers of a slot with a card makes them findable. A capability of the slot that
  the net manager accepts has the identifier that it assigned; the SIM identifier leads to a slot that
  carries this card, namely the lowest one, and so back to this slot unless a lower slot is recorded with
  the same card; suppliers of other slots keep their identifiers. Taking the registration back for a
  SIM change removes the record of the slot, leaves those of the other slots alone, so that the SIM
  identifier leads nowhere unless another slot is recorded with it, and leaves registered of this slot
  exactly the suppliers whose removal the net manager refused.\<close>

theorem RegisterNetSupplier_findable:
  assumes "RegisterNetSupplier P e slotId ag = (flag, ag', fx)"
    and "map_wf (slotIdSimId ag)"
    and "SimIdOf e slotId > INVALID_SIM_ID" and "cap \<le> NC P NET_CAPABILITY_SNSSAI6"
    and "\<exists>su\<in>set (netSuppliers ag). su_slotId su = slotId \<and> su_capability su = cap"
    and "net_register e (IDENT_PREFIX @ to_string (SimIdOf e slotId)) cap = Some i"
  defines "sim \<equiv> SimIdOf e slotId" and "ag'' \<equiv> fst (UnregisterNetSupplierForSimUpdate e slotId ag')"
  shows "flag \<and> GetSupplierId slotId cap ag' = i
    \<and> map_of (slotIdSimId ag') (GetSlotId sim ag') = Some sim \<and> GetSlotId sim ag' \<le> slotId
    \<and> ((\<forall>s < slotId. map_of (slotIdSimId ag) s \<noteq> Some sim) \<longrightarrow> GetSlotId sim ag' = slotId)
    \<and> (s \<noteq> slotId \<longrightarrow> GetSupplierId s c ag' = GetSupplierId s c ag)
    \<and> map_of (slotIdSimId ag'') = (map_of (slotIdSimId ag)) (slotId := None)
    \<and> ((\<forall>s. s \<noteq> slotId \<longrightarrow> map_of (slotIdSimId ag) s \<noteq> Some sim) \<longrightarrow> GetSlotId sim ag'' = -1)
    \<and> filter (registered_in slotId) (netSuppliers ag'')
        = filter (\<lambda>su. \<not> net_unregister e (su_supplierId su)) (filter (registered_in slotId) (netSuppliers ag'))"
proof -
  let ?f = "after_register P e slotId"
  from assms(5) obtain su where su: "su \<in> set (netSuppliers ag)" "su_slotId su = slotId"
    "su_capability su = cap" by blast
  then have reg: "registers P e slotId su" and srv: "served P e slotId su"
    using assms(3,4,6) by (auto simp: registers_def served_def)
  from assms(1) obtain sus sims where all: "register_all P e slotId (netSuppliers ag)
      (False, slotIdSimId ag, []) = (sus, flag, sims, fx)"
    and ag': "ag' = \<lparr>netSuppliers = sus, slotIdSimId = sims\<rparr>"
    by (auto simp: RegisterNetSupplier_def split: prod.splits)
  from register_all_result [OF all] su(1) reg srv
  have r: "sus = map ?f (netSuppliers ag)" "flag" "sims = map_put slotId sim (slotIdSimId ag)"
    by (auto simp: list_ex_iff sim_def)
  have wf: "map_wf sims" using assms(2) by (simp add: r ordered.inv_put)
  have get: "map_of sims = (map_of (slotIdSimId ag))(slotId \<mapsto> sim)"
    using assms(2) by (simp add: r ordered.get_put)
  have slot: "map_of sims (GetSlotId sim ag') = Some sim" "GetSlotId sim ag' \<le> slotId"
    using GetSlotId_carries [of ag' slotId sim] wf get by (simp_all add: ag')
  then have low: "(\<forall>s < slotId. map_of (slotIdSimId ag) s \<noteq> Some sim) \<longrightarrow> GetSlotId sim ag' = slotId"
    using get by (metis fun_upd_other order_le_imp_less_or_eq)
  have "find (\<lambda>x. su_slotId x = slotId \<and> su_capability x = cap) (netSuppliers ag) \<noteq> None"
    using su by (auto simp: find_None_iff_all)
  then obtain x where x: "find (\<lambda>x. su_slotId x = slotId \<and> su_capability x = cap) (netSuppliers ag) = Some x"
    by blast
  then have "su_slotId x = slotId" "su_capability x = cap" by (auto dest: find_Some_set)
  then have "su_supplierId (?f x) = i" using assms(3,4,6) by (simp add: after_register_def served_def)
  with x have sup: "GetSupplierId slotId cap ag' = i"
    by (simp add: GetSupplierId_def ag' r(1) find_map_key)
  have other: "s \<noteq> slotId \<longrightarrow> GetSupplierId s c ag' = GetSupplierId s c ag"
    using after_register_other by (simp add: ag' r(1))
  have "registered_in slotId (?f su)" using su reg assms(3,6)
    by (auto simp: registered_in_def after_register_def registers_def)
  then have "filter (registered_in slotId) sus \<noteq> []" using su(1) by (auto simp: r(1) filter_empty_conv)
  then have sims2: "slotIdSimId ag'' = map_erase slotId sims"
    by (simp add: UnregisterNetSupplierForSimUpdate_def Let_def ag' ag''_def)
  have get2: "map_of (slotIdSimId ag'') = (map_of (slotIdSimId ag)) (slotId := None)"
    using wf get by (simp add: sims2 ordered.get_erase)
  moreover have "(\<forall>s. s \<noteq> slotId \<longrightarrow> map_of (slotIdSimId ag) s \<noteq> Some sim) \<longrightarrow> GetSlotId sim ag'' = -1"
    using GetSlotId_none [of ag'' sim] get2 wf by (simp add: sims2 ordered.inv_erase)
  ultimately show ?thesis
    using unregister_leaves [of slotId e ag'] r(2) slot low sup other by (simp add: ag''_def ag')
qed

definition sample_supplier :: "int \<Rightarrow> nat \<Rightarrow> NetSupplier" where
  "sample_supplier slot cap = \<lparr>su_supplierId = 0, su_capability = cap, su_slotId = slot, su_simId = 0,
     su_regState = -1\<rparr>"

definition sample_agent :: NetAgent where
  "sample_agent = \<lparr>netSuppliers = [sample_supplier 0 12, sample_supplier 1 12], slotIdSimId = [(1, 2)]\<rparr>"

theorem RegisterNetSupplier_findable_witness:
  "GetSlotId 1 (fst (snd (RegisterNetSupplier sample_platform sample_env 0 sample_agent))) = 0
   \<and> GetSupplierId 0 12 (fst (snd (RegisterNetSupplier sample_platform sample_env 0 sample_agent))) = 112"
proof -
  obtain f ag' fx where r: "RegisterNetSupplier sample_platform sample_env 0 sample_agent = (f, ag', fx)"
    by (cases "RegisterNetSupplier sample_platform sample_env 0 sample_agent")
  have wf: "map_wf (slotIdSimId sample_agent)" by (simp add: sample_agent_def map_wf_def)
  have sim: "SimIdOf sample_env 0 = 1" by (simp add: sample_env_def)
  have pos: "SimIdOf sample_env 0 > INVALID_SIM_ID" by (simp add: sample_env_def)
  have reg: "net_register sample_env (IDENT_PREFIX @ to_string (SimIdOf sample_env 0)) 12 = Some 112"
    by (simp add: sample_env_def)
  have low: "\<forall>s < 0. map_of (slotIdSimId sample_agent) s \<noteq> Some (SimIdOf sample_env 0)"
    by (simp add: sample_agent_def sim)
  have cap: "12 \<le> NC sample_platform NET_CAPABILITY_SNSSAI6" by (simp add: sample_platform_def)
  have ex: "\<exists>su\<in>set (netSuppliers sample_agent). su_slotId su = 0 \<and> su_capability su = 12"
    by (simp add: sample_agent_def sample_supplier_def)
  from RegisterNetSupplier_findable [OF r wf pos cap ex reg] low show ?thesis by (simp add: r sim)
qed

end
