(* ===== verification/Connection_Tables.thy ===== *)
theory Connection_Tables
  imports Environment Std_Map "HOL-Library.Char_ord" "HOL-Library.List_Lexorder"
begin

text \<open>
  The tables of \<open>services/src/data_connection_manager.cpp\<close>: the state machines of a slot, the
  active connections by connection identifier, and the bandwidth and TCP buffer configuration by
  radio technology. State machines are named by address.
\<close>

section \<open>State\<close>

record ConnectionTables =
  ct_slotId :: int
  stateMachines :: "addr list"
  cidActiveConnectionMap :: "(int \<times> addr) list"
  bandwidthConfigMap :: "(string \<times> LinkBandwidthInfo) list"
  tcpBufferConfigMap :: "(string \<times> string) list"
  bandwidthSourceModem :: bool
  uplinkUseLte :: bool

definition new_ConnectionTables :: "int \<Rightarrow> ConnectionTables" where
  "new_ConnectionTables slotId = \<lparr>ct_slotId = slotId, stateMachines = [], cidActiveConnectionMap = [],
     bandwidthConfigMap = [], tcpBufferConfigMap = [], bandwidthSourceModem = True,
     uplinkUseLte = False\<rparr>"

abbreviation (input) "KEY_BANDWIDTH_SOURCE_USE_MODEM_BOOL \<equiv> ''KEY_BANDWIDTH_SOURCE_USE_MODEM_BOOL''"
abbreviation (input) "KEY_UPLINK_BANDWIDTH_NR_NSA_USE_LTE_VALUE_BOOL
  \<equiv> ''KEY_UPLINK_BANDWIDTH_NR_NSA_USE_LTE_VALUE_BOOL''"
abbreviation (input) "KEY_BANDWIDTH_STRING_ARRAY \<equiv> ''KEY_BANDWIDTH_STRING_ARRAY''"
abbreviation (input) "VALID_VECTOR_SIZE \<equiv> (2::nat)"

definition DEFAULT_BANDWIDTH_CONFIG :: string where
  "DEFAULT_BANDWIDTH_CONFIG =
     ''GPRS:24,24;EDGE:70,18;UMTS:115,115;CDMA-IS95A:14,14;''
     @ ''CDMA-IS95B:14,14;1xRTT:30,30;EvDo-rev.0:750,48;EvDo-rev.A:950,550;HSDPA:4300,620;''
     @ ''HSUPA:4300,1800;HSPA:4300,1800;EvDo-rev.B:1500,550;eHRPD:750,48;HSPAP:13000,3400;''
     @ ''TD-SCDMA:115,115;LTE:30000,15000;NR_NSA:47000,18000;NR_NSA_MMWAVE:145000,60000;''
     @ ''NR_SA:145000,60000''"

definition DEFAULT_TCP_BUFFER_CONFIG :: string where
  "DEFAULT_TCP_BUFFER_CONFIG =
     ''UMTS:58254,349525,1048576,58254,349525,1048576;''
     @ ''HSPA:40778,244668,734003,16777,100663,301990;''
     @ ''HSUPA:131072,262144,2441216,4096,16384,399360;''
     @ ''HSDPA:61167,367002,1101005,8738,52429,262114;''
     @ ''HSPAP:122334,734003,2202010,32040,192239,576717;''
     @ ''EDGE:4093,26280,70800,4096,16384,70800;''
     @ ''eHRPD:131072,262144,1048576,4096,16384,524288;''
     @ ''1xRTT:16384,32768,131072,4096,16384,102400;''
     @ ''GPRS:4092,8760,48000,4096,8760,48000;''
     @ ''EVDO:4094,87380,262144,4096,16384,262144;''
     @ ''LTE:524288,4194304,8388608,262144,524288,1048576;''
     @ ''NR:2097152,6291456,16777216,512000,2097152,8388608;''
     @ ''LTE_CA:4096,6291456,12582912,4096,1048576,2097152''"

section \<open>Operations\<close>

definition AddConnectionStateMachine :: "ptr \<Rightarrow> ConnectionTables \<Rightarrow> ConnectionTables" where
  "AddConnectionStateMachine p t = (case p of
     None \<Rightarrow> t | Some m \<Rightarrow> t \<lparr>stateMachines := stateMachines t @ [m]\<rparr>)"

definition RemoveConnectionStateMachine :: "ptr \<Rightarrow> ConnectionTables \<Rightarrow> ConnectionTables" where
  "RemoveConnectionStateMachine p t = (case p of
     None \<Rightarrow> t | Some m \<Rightarrow> t \<lparr>stateMachines := remove1 m (stateMachines t)\<rparr>)"

text \<open>The machine's own connection identifier is the second argument.\<close>

definition AddActiveConnectionByCid :: "ptr \<Rightarrow> int \<Rightarrow> ConnectionTables \<Rightarrow> ConnectionTables" where
  "AddActiveConnectionByCid p cid t = (case p of
     None \<Rightarrow> t
   | Some m \<Rightarrow> t \<lparr>cidActiveConnectionMap := map_put cid m (cidActiveConnectionMap t)\<rparr>)"

definition GetActiveConnectionByCid :: "int \<Rightarrow> ConnectionTables \<Rightarrow> ptr" where
  "GetActiveConnectionByCid cid t = map_of (cidActiveConnectionMap t) cid"

definition isNoActiveConnection :: "ConnectionTables \<Rightarrow> bool" where
  "isNoActiveConnection t \<longleftrightarrow> cidActiveConnectionMap t = []"

definition RemoveActiveConnectionByCid :: "int \<Rightarrow> ConnectionTables \<Rightarrow> ConnectionTables" where
  "RemoveActiveConnectionByCid cid t =
     (if map_of (cidActiveConnectionMap t) cid \<noteq> None
      then t \<lparr>cidActiveConnectionMap := map_erase cid (cidActiveConnectionMap t)\<rparr> else t)"

definition UpdateBandWidthsUseLte :: "ConnectionTables \<Rightarrow> ConnectionTables" where
  "UpdateBandWidthsUseLte t =
     (if \<not> uplinkUseLte t then t
      else case map_of (bandwidthConfigMap t) ''LTE'' of
        None \<Rightarrow> t
      | Some lte \<Rightarrow>
          let set_up = (\<lambda>key m. case map_of m key of
                None \<Rightarrow> m
              | Some b \<Rightarrow> map_put key (b \<lparr>upBandwidth := upBandwidth lte\<rparr>) m)
          in t \<lparr>bandwidthConfigMap :=
               set_up ''NR_NSA_MMWAVE'' (set_up ''NR_NSA'' (bandwidthConfigMap t))\<rparr>)"

text \<open>One entry \<open>key:down,up\<close>; \<open>uint32_t\<close> fields are filled from \<open>atoi\<close>.\<close>

definition bandwidth_entry ::
  "string \<Rightarrow> (string \<times> LinkBandwidthInfo) list \<Rightarrow> (string \<times> LinkBandwidthInfo) list outcome" where
  "bandwidth_entry temp m = do {
     linkBandwidths \<leftarrow> Split temp '':'';
     if length linkBandwidths = VALID_VECTOR_SIZE then do {
       upDown \<leftarrow> Split (last linkBandwidths) '','';
       Some (if length upDown = VALID_VECTOR_SIZE
             then map_emplace (hd linkBandwidths)
               \<lparr>upBandwidth = atoi (last upDown) mod 2 ^ 32, downBandwidth = atoi (hd upDown) mod 2 ^ 32\<rparr> m
             else m)
     } else Some m
   }"

definition GetDefaultBandWidthsConfig :: "env \<Rightarrow> ConnectionTables \<Rightarrow> ConnectionTables outcome" where
  "GetDefaultBandWidthsConfig e t = do {
     let t1 = (case operatorBool e (ct_slotId t) KEY_BANDWIDTH_SOURCE_USE_MODEM_BOOL of
                 None \<Rightarrow> t | Some b \<Rightarrow> t \<lparr>bandwidthSourceModem := b\<rparr>);
     let t2 = (case operatorBool e (ct_slotId t) KEY_UPLINK_BANDWIDTH_NR_NSA_USE_LTE_VALUE_BOOL of
                 None \<Rightarrow> t1 | Some b \<Rightarrow> t1 \<lparr>uplinkUseLte := b\<rparr>);
     let vec = (case operatorStrings e (ct_slotId t) KEY_BANDWIDTH_STRING_ARRAY of
                 None \<Rightarrow> [] | Some v \<Rightarrow> v);
     linkBandwidthVec \<leftarrow> (if vec = [] then Split DEFAULT_BANDWIDTH_CONFIG '';'' else Some vec);
     m \<leftarrow> foldo bandwidth_entry linkBandwidthVec [];
     Some (UpdateBandWidthsUseLte (t2 \<lparr>bandwidthConfigMap := m\<rparr>))
   }"

definition tcp_entry :: "string \<Rightarrow> (string \<times> string) list \<Rightarrow> (string \<times> string) list outcome" where
  "tcp_entry tcpBuffer m = do {
     str \<leftarrow> Split tcpBuffer '':'';
     Some (if length str < VALID_VECTOR_SIZE then m else map_emplace (hd str) (last str) m)
   }"

definition GetDefaultTcpBufferConfig :: "env \<Rightarrow> ConnectionTables \<Rightarrow> ConnectionTables outcome" where
  "GetDefaultTcpBufferConfig e t = do {
     tcpBufferVec \<leftarrow> Split (c_str (snd (getParameter e ''persist.sys.data.tcpbuffer''
       DEFAULT_TCP_BUFFER_CONFIG 1024))) '';'';
     m \<leftarrow> foldo tcp_entry tcpBufferVec [];
     Some (t \<lparr>tcpBufferConfigMap := m\<rparr>)
   }"

definition is_nsa :: "NrState \<Rightarrow> bool" where
  "is_nsa s \<longleftrightarrow> s = NR_NSA_STATE_DUAL_CONNECTED \<or> s = NR_NSA_STATE_CONNECTED_DETECT"

definition bandwidth_key :: "env \<Rightarrow> int \<Rightarrow> RadioTech \<Rightarrow> string" where
  "bandwidth_key e slotId radioTech =
     (let name = ConvertRadioTechToRadioName radioTech;
          name1 = (if radioTech = RADIO_TECHNOLOGY_LTE \<and> is_nsa (NrStateOf e slotId)
                   then (if FrequencyOf e slotId = FREQ_TYPE_MMWAVE then ''NR_NSA_MMWAVE'' else ''NR_NSA'')
                   else name)
      in if name1 = ''NR'' then ''NR_SA'' else name1)"

definition GetBandwidthsByRadioTech :: "env \<Rightarrow> RadioTech \<Rightarrow> ConnectionTables \<Rightarrow> LinkBandwidthInfo" where
  "GetBandwidthsByRadioTech e radioTech t =
     (case map_of (bandwidthConfigMap t) (bandwidth_key e (ct_slotId t) radioTech) of
        Some b \<Rightarrow> b | None \<Rightarrow> default_LinkBandwidthInfo)"

definition GetTcpBufferByRadioTech :: "env \<Rightarrow> RadioTech \<Rightarrow> ConnectionTables \<Rightarrow> string" where
  "GetTcpBufferByRadioTech e radioTech t =
     (let name = (if (radioTech = RADIO_TECHNOLOGY_LTE \<or> radioTech = RADIO_TECHNOLOGY_LTE_CA)
                     \<and> is_nsa (NrStateOf e (ct_slotId t))
                  then ''NR'' else ConvertRadioTechToRadioName radioTech)
      in case map_of (tcpBufferConfigMap t) name of Some b \<Rightarrow> b | None \<Rightarrow> '''')"

section \<open>Facts\<close>

definition tables_wf :: "ConnectionTables \<Rightarrow> bool" where
  "tables_wf t \<longleftrightarrow> map_wf (cidActiveConnectionMap t) \<and> map_wf (bandwidthConfigMap t)
     \<and> map_wf (tcpBufferConfigMap t)"

lemma new_tables_wf: "tables_wf (new_ConnectionTables slotId)"
  by (simp add: tables_wf_def new_ConnectionTables_def map_wf_def)

lemma map_emplace_get: "map_of (map_emplace k v m) = (if map_of m k = None then (map_of m)(k \<mapsto> v) else map_of m)"
  by (simp add: map_emplace_def map_of_put)

lemma map_emplace_wf: "map_wf m \<Longrightarrow> map_wf (map_emplace k v m)"
  by (simp add: map_emplace_def map_put_wf)

text \<open>Reference reading of one bandwidth entry.\<close>

definition parse_bandwidth :: "string \<Rightarrow> (string \<times> LinkBandwidthInfo) option" where
  "parse_bandwidth temp = (case split_on (CHR '':'') temp of
     [key, vals] \<Rightarrow> (case split_on (CHR '','') vals of
        [down, up] \<Rightarrow> Some (key, \<lparr>upBandwidth = atoi up mod 2 ^ 32, downBandwidth = atoi down mod 2 ^ 32\<rparr>)
      | _ \<Rightarrow> None)
   | _ \<Rightarrow> None)"

lemma length_2_cases: "length xs = 2 \<longleftrightarrow> (\<exists>a b. xs = [a, b])"
  by (auto simp: length_Suc_conv numeral_2_eq_2)

lemma bandwidth_entry_parse:
  "bandwidth_entry temp m = Some (case parse_bandwidth temp of
     None \<Rightarrow> m | Some (k, b) \<Rightarrow> map_emplace k b m)"
  by (auto simp: bandwidth_entry_def parse_bandwidth_def length_2_cases split: list.splits)

lemma foldo_bandwidth:
  "\<exists>r. foldo bandwidth_entry vec m = Some r
     \<and> map_of r = map_of (List.map_filter parse_bandwidth vec) ++ map_of m \<and> (map_wf m \<longrightarrow> map_wf r)"
proof (induction vec arbitrary: m)
  case (Cons temp vec)
  show ?case
  proof (cases "parse_bandwidth temp")
    case None
    with Cons.IH [of m] show ?thesis by (simp add: bandwidth_entry_parse map_filter_simps)
  next
    case (Some kb)
    obtain k b where kb: "kb = (k, b)" by (cases kb)
    have "map_of (List.map_filter parse_bandwidth vec) ++ map_of (map_emplace k b m)
        = (map_of (List.map_filter parse_bandwidth vec))(k \<mapsto> b) ++ map_of m"
      by (auto simp: fun_eq_iff map_emplace_get map_add_def split: option.splits)
    with Some kb Cons.IH [of "map_emplace k b m"] show ?thesis
      by (auto simp: bandwidth_entry_parse map_filter_simps map_emplace_wf fun_upd_def)
  qed
qed (simp add: map_filter_simps)

text \<open>Loading the bandwidth configuration always returns an ordered table; an entry for a radio
  technology is the first well-formed entry of the configuration with that name, and when uplinks of
  non-standalone NR use the LTE value, exactly the uplink of those two names is replaced.\<close>

theorem GetDefaultBandWidthsConfig_spec:
  "\<exists>t'. GetDefaultBandWidthsConfig e t = Some t'
     \<and> (let vec = (case operatorStrings e (ct_slotId t) KEY_BANDWIDTH_STRING_ARRAY of
              None \<Rightarrow> [] | Some v \<Rightarrow> v);
            cfg = map_of (List.map_filter parse_bandwidth
              (if vec = [] then split_on (CHR '';'') DEFAULT_BANDWIDTH_CONFIG else vec))
        in map_wf (bandwidthConfigMap t')
           \<and> map_of (bandwidthConfigMap t') name =
             (case (cfg name, cfg ''LTE'') of
                (Some b, Some lte) \<Rightarrow>
                   Some (if uplinkUseLte t' \<and> name \<in> {''NR_NSA'', ''NR_NSA_MMWAVE''}
                         then b \<lparr>upBandwidth := upBandwidth lte\<rparr> else b)
              | (r, _) \<Rightarrow> r))"
proof -
  define vec where "vec = (case operatorStrings e (ct_slotId t) KEY_BANDWIDTH_STRING_ARRAY of
      None \<Rightarrow> [] | Some v \<Rightarrow> v)"
  define lines where "lines = (if vec = [] then split_on (CHR '';'') DEFAULT_BANDWIDTH_CONFIG else vec)"
  obtain r where r: "foldo bandwidth_entry lines [] = Some r"
      "map_of r = map_of (List.map_filter parse_bandwidth lines)" "map_wf r"
    using foldo_bandwidth [of lines "[]"] by (auto simp: map_wf_def)
  have d: "(if vec = [] then Split DEFAULT_BANDWIDTH_CONFIG '';'' else Some vec) = Some lines"
    by (simp add: lines_def)
  show ?thesis
    unfolding GetDefaultBandWidthsConfig_def vec_def [symmetric] Let_def lines_def [symmetric] d
    by (auto simp: r UpdateBandWidthsUseLte_def Let_def ordered.inv_put map_of_put
        split: option.splits)
qed

end
