(* ===== verification/Retry_Policy.thy ===== *)
theory Retry_Policy
  imports Apn_Item
begin

text \<open>
  \<open>services/src/apn_manager/connection_retry_policy.cpp\<close>: the candidate APN items of one
  holder, the order in which they are retried, the delays between attempts and the translation of
  modem errors. The static members of the class are the record \<open>RetryProps\<close>. The vendor
  extension library enters as optional functions (\<open>None\<close>: the symbol was not found or the
  extension is not built), the random delay as an argument.
\<close>

section \<open>State\<close>

record RetryProps =
  isPropOn :: bool
  defaultSetupFailDelay :: int
  defaultModemDendDelay :: int

record RetryPolicy =
  matchedApns :: "ptr list"
  tryCount :: int
  currentApnIndex :: int

abbreviation (input) "maxCount \<equiv> (5::int)"
abbreviation (input) "DEFAULT_DELAY_FOR_SETUP_FAIL \<equiv> (3000::int)"
abbreviation (input) "DEFAULT_DELAY_FOR_MODEM_DEND \<equiv> (1000::int)"
abbreviation (input) "DEFAULT_DELAY_FOR_INTERNAL_DEFAULT_APN_L \<equiv> (60000::int)"
abbreviation (input) "DEFAULT_DELAY_FOR_INTERNAL_DEFAULT_APN_S \<equiv> (5000::int)"
abbreviation (input) "DEFAULT_DELAY_FOR_OTHER_APN \<equiv> (2000::int)"
abbreviation (input) "MIN_RANDOM_DELAY \<equiv> (0::int)"
abbreviation (input) "MAX_RANDOM_DELAY \<equiv> (2000::int)"
abbreviation (input) "PROP_RETRY_STRATEGY_ALLOW \<equiv> ''persist.telephony.retrystrategy.allow''"
abbreviation (input) "PROP_SETUP_FAIL_DELAY \<equiv> ''persist.telephony.setupfail.delay''"
abbreviation (input) "PROP_MODEM_DEND_DELAY \<equiv> ''persist.telephony.modemdend.delay''"

definition initial_RetryProps :: RetryProps where
  "initial_RetryProps = \<lparr>isPropOn = False, defaultSetupFailDelay = DEFAULT_DELAY_FOR_SETUP_FAIL,
     defaultModemDendDelay = DEFAULT_DELAY_FOR_MODEM_DEND\<rparr>"

definition new_RetryPolicy :: RetryPolicy where
  "new_RetryPolicy = \<lparr>matchedApns = [], tryCount = 0, currentApnIndex = 0\<rparr>"

section \<open>Operations\<close>

text \<open>The class's own \<open>ConvertStrToInt\<close> has no test for the empty string, which
  \<open>from_chars\<close> rejects itself.\<close>

definition policy_ConvertStrToInt :: "string \<Rightarrow> int \<Rightarrow> bool \<times> int" where
  "policy_ConvertStrToInt str v = from_chars_parse True (- (2 ^ 31)) (2 ^ 31 - 1) str v"

definition ConnectionRetryPolicy :: "parameters \<Rightarrow> RetryProps \<Rightarrow> RetryProps" where
  "ConnectionRetryPolicy GetParameter props =
     \<lparr>isPropOn = (c_str (snd (GetParameter PROP_RETRY_STRATEGY_ALLOW ''false'' 8)) = ''true''),
      defaultSetupFailDelay = snd (policy_ConvertStrToInt
        (c_str (snd (GetParameter PROP_SETUP_FAIL_DELAY ''3000'' 8))) (defaultSetupFailDelay props)),
      defaultModemDendDelay = snd (policy_ConvertStrToInt
        (c_str (snd (GetParameter PROP_MODEM_DEND_DELAY ''3000'' 8))) DEFAULT_DELAY_FOR_MODEM_DEND)\<rparr>"

text \<open>\<open>OnPropChanged(key, value, context)\<close>; \<open>None\<close> is a null string.\<close>

definition OnPropChanged :: "string option \<Rightarrow> string option \<Rightarrow> RetryProps \<Rightarrow> RetryProps" where
  "OnPropChanged key val props =
     (case (key, val) of
        (Some k, Some v) \<Rightarrow>
          if k = PROP_RETRY_STRATEGY_ALLOW then props \<lparr>isPropOn := (v = ''true'')\<rparr>
          else if k = PROP_SETUP_FAIL_DELAY
          then props \<lparr>defaultSetupFailDelay :=
                        snd (policy_ConvertStrToInt v (defaultSetupFailDelay props))\<rparr>
          else if k = PROP_MODEM_DEND_DELAY
          then props \<lparr>defaultModemDendDelay :=
                        snd (policy_ConvertStrToInt v DEFAULT_DELAY_FOR_MODEM_DEND)\<rparr>
          else props
      | _ \<Rightarrow> props)"

text \<open>\<open>IsAllBadApn\<close> dereferences every pointer up to the first item that is not bad.\<close>

fun all_bad :: "ApnItem store \<Rightarrow> ptr list \<Rightarrow> bool outcome" where
  "all_bad items [] = Some True"
| "all_bad items (p # ps) = do {
     apn \<leftarrow> deref items p;
     if \<not> IsBadApn apn then Some False else all_bad items ps
   }"

definition IsAllBadApn :: "ApnItem store \<Rightarrow> RetryPolicy \<Rightarrow> bool outcome" where
  "IsAllBadApn items rp = all_bad items (matchedApns rp)"

text \<open>
  The recursive selection. The mutable members \<open>tryCount_\<close> and \<open>currentApnIndex_\<close> are
  returned with the result. The recursion is on the changed state only; that it ends whenever the
  candidates are valid is proved below.
\<close>

partial_function (option) GetNextRetryApnItem ::
  "ApnItem store \<Rightarrow> RetryPolicy \<Rightarrow> (ptr \<times> RetryPolicy) option" where
  "GetNextRetryApnItem items rp =
     (if matchedApns rp = [] then Some (None, rp)
      else Option.bind (IsAllBadApn items rp) (\<lambda>allBad.
        if allBad then Some (None, rp)
        else
          let rp1 = (if currentApnIndex rp \<ge> int (length (matchedApns rp)) \<or> currentApnIndex rp < 0
                     then rp \<lparr>currentApnIndex := 0, tryCount := 0\<rparr> else rp);
              apnItem = matchedApns rp1 ! nat (currentApnIndex rp1);
              rp2 = rp1 \<lparr>tryCount := tryCount rp1 + 1\<rparr>
          in Option.bind (case apnItem of None \<Rightarrow> Some False
                          | Some a \<Rightarrow> Option.bind (items a) (\<lambda>it. Some (IsBadApn it))) (\<lambda>bad.
             if bad \<or> tryCount rp2 > maxCount
             then GetNextRetryApnItem items
                    (rp2 \<lparr>tryCount := 0, currentApnIndex := currentApnIndex rp2 + 1\<rparr>)
             else Some (apnItem, rp2))))"

fun same_profiles :: "ApnItem store \<Rightarrow> ptr list \<Rightarrow> ptr list \<Rightarrow> bool outcome" where
  "same_profiles items (p # ps) (q # qs) =
     (if p = None \<or> q = None then same_profiles items ps qs
      else do {
        a \<leftarrow> deref items p;
        b \<leftarrow> deref items q;
        if at_profileId (it_attr a) \<noteq> at_profileId (it_attr b) then Some False
        else same_profiles items ps qs })"
| "same_profiles items _ _ = Some True"

definition SetMatchedApns :: "ApnItem store \<Rightarrow> ptr list \<Rightarrow> RetryPolicy \<Rightarrow> RetryPolicy outcome" where
  "SetMatchedApns items apns rp =
     (if length (matchedApns rp) \<noteq> length apns
      then Some (rp \<lparr>currentApnIndex := 0, matchedApns := apns\<rparr>)
      else do {
        same \<leftarrow> same_profiles items apns (matchedApns rp);
        Some ((if same then rp else rp \<lparr>currentApnIndex := 0\<rparr>) \<lparr>matchedApns := apns\<rparr>) })"

definition ClearRetryApns :: "RetryPolicy \<Rightarrow> RetryPolicy" where
  "ClearRetryApns rp = rp \<lparr>matchedApns := []\<rparr>"

text \<open>The values that \<open>GetRandomDelay\<close> may return: those of its distribution.\<close>

definition GetRandomDelay :: "int \<Rightarrow> bool" where
  "GetRandomDelay rnd \<longleftrightarrow> MIN_RANDOM_DELAY \<le> rnd \<and> rnd \<le> MAX_RANDOM_DELAY"

text \<open>\<open>rnd\<close> is the value that \<open>GetRandomDelay\<close> returned, \<open>dend\<close> the extension's
  \<open>handleDendFailcause_\<close>.\<close>

definition GetNextRetryDelay ::
  "RetryProps \<Rightarrow> (int \<Rightarrow> int \<Rightarrow> int) option \<Rightarrow> int \<Rightarrow> string \<Rightarrow> int \<Rightarrow> int \<Rightarrow> RetryScene \<Rightarrow> bool \<Rightarrow> int" where
  "GetNextRetryDelay props dend rnd apnType cause suggestTime scene isDefaultApnRetrying =
     (if apnType = DATA_CONTEXT_ROLE_INTERNAL_DEFAULT
      then rnd + (if isDefaultApnRetrying then DEFAULT_DELAY_FOR_INTERNAL_DEFAULT_APN_L
                  else DEFAULT_DELAY_FOR_INTERNAL_DEFAULT_APN_S)
      else if apnType = DATA_CONTEXT_ROLE_DEFAULT
      then let retryDelay = rnd + (if scene = RETRY_SCENE_MODEM_DEACTIVATE
                                   then defaultModemDendDelay props else defaultSetupFailDelay props);
               updatedDelay = (case dend of Some f \<Rightarrow> if isPropOn props then f cause suggestTime else 0
                               | None \<Rightarrow> 0)
           in if updatedDelay > 0 then updatedDelay else retryDelay
      else rnd + DEFAULT_DELAY_FOR_OTHER_APN)"

text \<open>The second component says that the extension was told to forget its fail causes
  (\<open>handleDendFailcause_(0, 0)\<close>).\<close>

definition InitialRetryCountValue ::
  "RetryProps \<Rightarrow> (int \<Rightarrow> int \<Rightarrow> int) option \<Rightarrow> RetryPolicy \<Rightarrow> RetryPolicy \<times> bool" where
  "InitialRetryCountValue props dend rp = (rp \<lparr>tryCount := 0\<rparr>, isPropOn props \<and> dend \<noteq> None)"

definition permanent_reject_errors :: "PdpErrorReason list" where
  "permanent_reject_errors =
     [PDP_ERR_TO_PERMANENT_REJECT, PDP_ERR_OPERATOR_DETERMINED_BARRING,
      PDP_ERR_MISSING_OR_UNKNOWN_APN, PDP_ERR_UNKNOWN_PDP_ADDR_OR_TYPE, PDP_ERR_USER_VERIFICATION,
      PDP_ERR_ACTIVATION_REJECTED_GGSN, PDP_ERR_SERVICE_OPTION_NOT_SUPPORTED,
      PDP_ERR_REQUESTED_SERVICE_OPTION_NOT_SUBSCRIBED, PDP_ERR_NSAPI_ALREADY_USED,
      PDP_ERR_IPV4_ONLY_ALLOWED, PDP_ERR_IPV6_ONLY_ALLOWED, PDP_ERR_PROTOCOL_ERRORS]"

definition ConvertPdpErrorToDisconnReason ::
  "platform \<Rightarrow> RetryProps \<Rightarrow> (int \<Rightarrow> int) option \<Rightarrow> int \<Rightarrow> DisConnectionReason" where
  "ConvertPdpErrorToDisconnReason P props conv reason0 =
     (let reason = (case conv of Some f \<Rightarrow> if isPropOn props then f reason0 else reason0
                    | None \<Rightarrow> reason0)
      in if reason = PDP P PDP_ERR_TO_NORMAL then REASON_NORMAL
         else if reason = PDP P PDP_ERR_TO_GSM_AND_CALLING_ONLY then REASON_GSM_AND_CALLING_ONLY
         else if reason = PDP P PDP_ERR_TO_CLEAR_CONNECTION then REASON_CLEAR_CONNECTION
         else if reason = PDP P PDP_ERR_TO_CHANGE_CONNECTION then REASON_CHANGE_CONNECTION
         else if reason \<in> PDP P ` set permanent_reject_errors then REASON_PERMANENT_REJECT
         else REASON_RETRY_CONNECTION)"

text \<open>\<open>RestartRadioIfRequired\<close>: whether the extension is asked.\<close>

definition RestartRadioIfRequired :: "RetryProps \<Rightarrow> bool \<Rightarrow> bool" where
  "RestartRadioIfRequired props restartRadio \<longleftrightarrow> isPropOn props \<and> restartRadio"

section \<open>Selection of the next candidate\<close>

definition valid_apns :: "ApnItem store \<Rightarrow> ptr list \<Rightarrow> bool" where
  "valid_apns items ps \<longleftrightarrow> (\<forall>p\<in>set ps. \<exists>a it. p = Some a \<and> items a = Some it)"

text \<open>The candidate at a position is usable.\<close>

definition good_at :: "ApnItem store \<Rightarrow> ptr list \<Rightarrow> nat \<Rightarrow> bool" where
  "good_at items ps i \<longleftrightarrow>
     i < length ps \<and> (\<exists>a it. ps ! i = Some a \<and> items a = Some it \<and> \<not> IsBadApn it)"

lemma valid_apns_nth: "valid_apns items ps \<Longrightarrow> i < length ps \<Longrightarrow> \<exists>a it. ps ! i = Some a \<and> items a = Some it"
  by (auto simp: valid_apns_def)

lemma all_bad_valid:
  "valid_apns items ps \<Longrightarrow> all_bad items ps = Some (\<not> (\<exists>i. good_at items ps i))"
proof (induction ps)
  case Nil
  then show ?case by (simp add: good_at_def)
next
  case (Cons p ps)
  then obtain a it where p: "p = Some a" "items a = Some it" by (auto simp: valid_apns_def)
  have IH: "all_bad items ps = Some (\<not> (\<exists>i. good_at items ps i))"
    using Cons by (auto simp: valid_apns_def)
  have s: "good_at items (p # ps) (Suc i) = good_at items ps i" for i by (auto simp: good_at_def)
  have z: "good_at items (p # ps) 0 = (\<not> IsBadApn it)" using p by (auto simp: good_at_def)
  have "(\<exists>i. good_at items (p # ps) i) \<longleftrightarrow> \<not> IsBadApn it \<or> (\<exists>i. good_at items ps i)"
    using s z by (metis not0_implies_Suc)
  then show ?case using p IH by auto
qed

text \<open>What one activation of the function does, for valid candidates.\<close>

definition in_range :: "RetryPolicy \<Rightarrow> bool" where
  "in_range rp \<longleftrightarrow> 0 \<le> currentApnIndex rp \<and> currentApnIndex rp < int (length (matchedApns rp))"

definition wrap_index :: "RetryPolicy \<Rightarrow> RetryPolicy" where
  "wrap_index rp = (if in_range rp then rp else rp \<lparr>currentApnIndex := 0, tryCount := 0\<rparr>)"

definition next_index :: "RetryPolicy \<Rightarrow> RetryPolicy" where
  "next_index rp = rp \<lparr>tryCount := 0, currentApnIndex := currentApnIndex rp + 1\<rparr>"

lemma wrap_index_simps [simp]:
  "matchedApns (wrap_index rp) = matchedApns rp"
  "matchedApns rp \<noteq> [] \<Longrightarrow> in_range (wrap_index rp)"
  "in_range rp \<Longrightarrow> wrap_index rp = rp"
  by (auto simp: wrap_index_def in_range_def)

lemma next_index_simps [simp]:
  "matchedApns (next_index rp) = matchedApns rp" "tryCount (next_index rp) = 0"
  "currentApnIndex (next_index rp) = currentApnIndex rp + 1"
  by (auto simp: next_index_def)

lemma GetNextRetryApnItem_step:
  assumes v: "valid_apns items (matchedApns rp)" and g: "good_at items (matchedApns rp) j"
  shows "GetNextRetryApnItem items rp =
    (let rp1 = wrap_index rp; i = nat (currentApnIndex rp1)
     in if good_at items (matchedApns rp) i \<and> tryCount rp1 < maxCount
        then Some (matchedApns rp ! i, rp1 \<lparr>tryCount := tryCount rp1 + 1\<rparr>)
        else GetNextRetryApnItem items (next_index rp1))"
proof -
  let ?rp1 = "wrap_index rp"
  let ?i = "nat (currentApnIndex ?rp1)"
  have ne: "matchedApns rp \<noteq> []" using g by (auto simp: good_at_def)
  then have "in_range ?rp1" by simp
  then have i: "?i < length (matchedApns rp)" by (auto simp: in_range_def)
  then obtain a it where it: "matchedApns rp ! ?i = Some a" "items a = Some it"
    using valid_apns_nth [OF v] by blast
  have ab: "IsAllBadApn items rp = Some False"
    using g v by (auto simp: IsAllBadApn_def all_bad_valid)
  have good: "good_at items (matchedApns rp) ?i \<longleftrightarrow> \<not> IsBadApn it"
    using i it by (auto simp: good_at_def)
  have wrap: "(if currentApnIndex rp \<ge> int (length (matchedApns rp)) \<or> currentApnIndex rp < 0
      then rp \<lparr>currentApnIndex := 0, tryCount := 0\<rparr> else rp) = ?rp1"
    by (auto simp: wrap_index_def in_range_def)
  show ?thesis
    by (subst GetNextRetryApnItem.simps)
      (simp add: ne ab wrap Let_def it good next_index_def not_less)
qed

text \<open>The outcome of a successful selection.\<close>

definition selected :: "ApnItem store \<Rightarrow> RetryPolicy \<Rightarrow> ptr \<Rightarrow> RetryPolicy \<Rightarrow> bool" where
  "selected items rp p rp' \<longleftrightarrow>
     in_range rp' \<and> matchedApns rp' = matchedApns rp
     \<and> p = matchedApns rp ! nat (currentApnIndex rp')
     \<and> good_at items (matchedApns rp) (nat (currentApnIndex rp'))
     \<and> tryCount rp' \<le> maxCount \<and> (0 \<le> tryCount rp \<longrightarrow> 1 \<le> tryCount rp')"

lemma selected_next_index:
  "selected items (next_index (wrap_index rp)) p rp' \<Longrightarrow> selected items rp p rp'"
  by (auto simp: selected_def)

text \<open>Moving forward from a fresh position to a usable candidate further on.\<close>

lemma GetNextRetryApnItem_forward:
  assumes "valid_apns items (matchedApns rp)" "good_at items (matchedApns rp) j"
    and "0 \<le> currentApnIndex rp" "currentApnIndex rp \<le> int j" "tryCount rp = 0"
  shows "\<exists>p rp'. GetNextRetryApnItem items rp = Some (p, rp') \<and> selected items rp p rp'"
  using assms
proof (induction "j - nat (currentApnIndex rp)" arbitrary: rp rule: less_induct)
  case less
  have r: "in_range rp" using less.prems by (auto simp: in_range_def good_at_def)
  let ?i = "nat (currentApnIndex rp)"
  note step = GetNextRetryApnItem_step [OF less.prems(1,2)]
  show ?case
  proof (cases "good_at items (matchedApns rp) ?i")
    case True
    then show ?thesis using r less.prems(5)
      by (auto simp: step selected_def Let_def in_range_def)
  next
    case False
    with less.prems(2,3,4) have "currentApnIndex rp \<noteq> int j" by auto
    then have "\<exists>p rp'. GetNextRetryApnItem items (next_index rp) = Some (p, rp')
        \<and> selected items (next_index rp) p rp'"
      using less.prems by (intro less.hyps) auto
    then show ?thesis using r False selected_next_index [of items rp]
      by (auto simp: step Let_def)
  qed
qed

text \<open>Running past the end and starting again.\<close>

lemma GetNextRetryApnItem_fresh:
  assumes "valid_apns items (matchedApns rp)" "good_at items (matchedApns rp) j"
    and "0 \<le> currentApnIndex rp" "tryCount rp = 0"
  shows "\<exists>p rp'. GetNextRetryApnItem items rp = Some (p, rp') \<and> selected items rp p rp'"
  using assms
proof (induction "length (matchedApns rp) - nat (currentApnIndex rp)" arbitrary: rp rule: less_induct)
  case less
  note step = GetNextRetryApnItem_step [OF less.prems(1,2)]
  show ?case
  proof (cases "in_range rp")
    case True
    have "\<exists>p rp'. GetNextRetryApnItem items (next_index rp) = Some (p, rp')
        \<and> selected items (next_index rp) p rp'"
      using less.prems True by (intro less.hyps) (auto simp: in_range_def)
    then show ?thesis using True less.prems(4) selected_next_index [of items rp]
      by (cases "good_at items (matchedApns rp) (nat (currentApnIndex rp))")
        (auto simp: step Let_def selected_def in_range_def)
  next
    case False
    let ?z = "rp \<lparr>currentApnIndex := 0, tryCount := 0\<rparr>"
    have z: "wrap_index rp = ?z" using False by (simp add: wrap_index_def)
    have "wrap_index ?z = ?z" using less.prems(2) by (auto simp: wrap_index_def in_range_def good_at_def)
    then have "GetNextRetryApnItem items rp = GetNextRetryApnItem items ?z"
      using GetNextRetryApnItem_step [of items ?z j] less.prems z by (simp add: step Let_def)
    moreover have "\<exists>p rp'. GetNextRetryApnItem items ?z = Some (p, rp') \<and> selected items ?z p rp'"
      using less.prems by (intro GetNextRetryApnItem_forward [where j = j]) auto
    ultimately show ?thesis by (auto simp: selected_def)
  qed
qed


lemma GetNextRetryApnItem_good:
  assumes v: "valid_apns items (matchedApns rp)" and g: "good_at items (matchedApns rp) j"
  shows "\<exists>p rp'. GetNextRetryApnItem items rp = Some (p, rp') \<and> selected items rp p rp'"
proof -
  let ?rp1 = "wrap_index rp"
  have "matchedApns rp \<noteq> []" using g by (auto simp: good_at_def)
  then have r: "in_range ?rp1" by simp
  have "\<exists>p rp'. GetNextRetryApnItem items (next_index ?rp1) = Some (p, rp')
      \<and> selected items (next_index ?rp1) p rp'"
    using v g r by (intro GetNextRetryApnItem_fresh [where j = j]) (auto simp: in_range_def)
  then have rec: "\<exists>p rp'. GetNextRetryApnItem items (next_index ?rp1) = Some (p, rp') \<and> selected items rp p rp'"
    using selected_next_index [of items rp] by blast
  show ?thesis
  proof (cases "good_at items (matchedApns rp) (nat (currentApnIndex ?rp1)) \<and> tryCount ?rp1 < maxCount")
    case True
    have "0 \<le> tryCount rp \<longrightarrow> 0 \<le> tryCount ?rp1" by (simp add: wrap_index_def)
    with True r have "selected items rp (matchedApns rp ! nat (currentApnIndex ?rp1))
        (?rp1 \<lparr>tryCount := tryCount ?rp1 + 1\<rparr>)" by (simp add: selected_def in_range_def)
    with True show ?thesis unfolding GetNextRetryApnItem_step [OF v g] Let_def by auto
  next
    case False
    then show ?thesis unfolding GetNextRetryApnItem_step [OF v g] Let_def using rec by (simp only: if_False)
  qed
qed

text \<open>C35: the recursive search for the next APN to try always ends. It answers \<open>nullptr\<close>
  exactly when no candidate is usable, and otherwise a candidate of the list that is not marked
  bad, at the position it leaves in \<open>currentApnIndex_\<close>, with a try counter of at most
  five.\<close>

theorem GetNextRetryApnItem_total:
  assumes "valid_apns items (matchedApns rp)"
  shows "\<exists>p rp'. GetNextRetryApnItem items rp = Some (p, rp')
    \<and> (p = None \<longleftrightarrow> \<not> (\<exists>j. good_at items (matchedApns rp) j))
    \<and> (p \<noteq> None \<longrightarrow> selected items rp p rp')"
proof (cases "\<exists>j. good_at items (matchedApns rp) j")
  case True
  then obtain j where "good_at items (matchedApns rp) j" ..
  from GetNextRetryApnItem_good [OF assms this] True show ?thesis
    by (auto simp: selected_def good_at_def)
next
  case False
  then have "IsAllBadApn items rp = Some True"
    using assms by (simp add: IsAllBadApn_def all_bad_valid)
  then have "GetNextRetryApnItem items rp = Some (None, rp)"
    by (subst GetNextRetryApnItem.simps) simp
  with False show ?thesis by simp
qed

text \<open>A concrete configuration: two items, the first of them bad.\<close>

definition sample_items :: "ApnItem store" where
  "sample_items = [0 \<mapsto> MarkBadApn True new_ApnItem, 1 \<mapsto> new_ApnItem]"

lemma sample_items_simps [simp]:
  "sample_items 0 = Some (MarkBadApn True new_ApnItem)" "sample_items (Suc 0) = Some new_ApnItem"
  "\<not> IsBadApn new_ApnItem"
  by (simp_all add: sample_items_def IsBadApn_def new_ApnItem_def)

theorem GetNextRetryApnItem_total_witness:
  "\<exists>p rp'. GetNextRetryApnItem sample_items
      \<lparr>matchedApns = [Some 0, Some 1], tryCount = 5, currentApnIndex = 1\<rparr> = Some (p, rp')
    \<and> (p = None \<longleftrightarrow> \<not> (\<exists>j. good_at sample_items [Some 0, Some 1] j))
    \<and> (p \<noteq> None \<longrightarrow> selected sample_items
          \<lparr>matchedApns = [Some 0, Some 1], tryCount = 5, currentApnIndex = 1\<rparr> p rp')"
  using GetNextRetryApnItem_total [of sample_items
      "\<lparr>matchedApns = [Some 0, Some 1], tryCount = 5, currentApnIndex = 1\<rparr>"]
  by (simp add: valid_apns_def)

section \<open>Fair rotation\<close>

text \<open>The candidates offered by \<open>n\<close> successive calls.\<close>

fun offers :: "ApnItem store \<Rightarrow> nat \<Rightarrow> RetryPolicy \<Rightarrow> ptr list outcome" where
  "offers items 0 rp = Some []"
| "offers items (Suc n) rp = do {
     (p, rp') \<leftarrow> GetNextRetryApnItem items rp;
     ps \<leftarrow> offers items n rp';
     Some (p # ps)
   }"

text \<open>The state of the policy before call number \<open>m\<close> of a rotation over \<open>n\<close> usable
  candidates.\<close>

definition rotation :: "ptr list \<Rightarrow> nat \<Rightarrow> RetryPolicy" where
  "rotation ps m = \<lparr>matchedApns = ps, tryCount = (if m = 0 then 0 else int ((m - 1) mod 5) + 1),
     currentApnIndex = (if m = 0 then 0 else int ((m - 1) div 5 mod length ps))\<rparr>"

lemma rotation_step:
  assumes v: "valid_apns items ps" and all: "\<And>i. i < length ps \<Longrightarrow> good_at items ps i" and ne: "ps \<noteq> []"
  shows "GetNextRetryApnItem items (rotation ps m) = Some (ps ! (m div 5 mod length ps), rotation ps (Suc m))"
proof -
  let ?n = "length ps"
  have n: "0 < ?n" using ne by simp
  have step: "GetNextRetryApnItem items rp = Some (ps ! nat (currentApnIndex rp), rp \<lparr>tryCount := tryCount rp + 1\<rparr>)"
    if "matchedApns rp = ps" "in_range rp" "tryCount rp < 5" for rp
    using that GetNextRetryApnItem_step [of items rp 0] all [of 0] n v all
    by (auto simp: Let_def in_range_def)
  show ?thesis
  proof (cases "m = 0 \<or> m mod 5 \<noteq> 0")
    case True
    then have q: "(m - 1) div 5 = m div 5 \<and> (m \<noteq> 0 \<longrightarrow> (m - 1) mod 5 + 1 = m mod 5)"
      by (cases m) (auto simp: div_Suc mod_Suc)
    have "m mod 5 < 5" by simp
    with True q n show ?thesis
      by (subst step) (auto simp: rotation_def in_range_def)
  next
    case False
    then obtain k where k: "m = Suc k" "k mod 5 = 4" "k div 5 + 1 = m div 5" "Suc k mod 5 = 0"
      by (cases m) (auto simp: div_Suc mod_Suc split: if_splits)
    let ?rp = "rotation ps m"
    have r: "in_range ?rp" using n by (auto simp: rotation_def in_range_def)
    have "GetNextRetryApnItem items ?rp = GetNextRetryApnItem items (next_index ?rp)"
      using GetNextRetryApnItem_step [of items ?rp 0] all [of 0] n v r k by (simp add: rotation_def Let_def)
    also have "\<dots> = Some (ps ! (m div 5 mod ?n), rotation ps (Suc m))"
    proof (cases "Suc (k div 5 mod ?n) < ?n")
      case True
      then have "m div 5 mod ?n = Suc (k div 5 mod ?n)" unfolding k(3)[symmetric] by (simp add: mod_Suc)
      with True k show ?thesis
        by (subst step) (auto simp: rotation_def in_range_def next_index_def nat_add_distrib)
    next
      case False
      with n have e: "Suc (k div 5 mod ?n) = ?n" by (meson Suc_lessI mod_less_divisor)
      then have z: "m div 5 mod ?n = 0" unfolding k(3)[symmetric] by (simp add: mod_Suc)
      have w: "wrap_index (next_index ?rp) = ?rp \<lparr>tryCount := 0, currentApnIndex := 0\<rparr>"
        using e k by (auto simp: wrap_index_def in_range_def next_index_def rotation_def)
      show ?thesis
        using GetNextRetryApnItem_step [of items "next_index ?rp" 0] all [of 0] n v w z k
        by (simp add: rotation_def Let_def)
    qed
    finally show ?thesis .
  qed
qed

lemma offers_rotation:
  assumes "valid_apns items ps" "\<And>i. i < length ps \<Longrightarrow> good_at items ps i" "ps \<noteq> []"
  shows "offers items n (rotation ps m) = Some (map (\<lambda>k. ps ! ((m + k) div 5 mod length ps)) [0..<n])"
proof (induction n arbitrary: m)
  case (Suc n)
  have "map (\<lambda>k. ps ! ((Suc m + k) div 5 mod length ps)) [0..<n]
      = map (\<lambda>k. ps ! ((m + k) div 5 mod length ps)) [1..<Suc n]"
    by (simp add: map_Suc_upt [symmetric] del: upt_Suc)
  moreover have "offers items n (rotation ps (Suc m))
      = Some (map (\<lambda>k. ps ! ((Suc m + k) div 5 mod length ps)) [0..<n])" by (rule Suc.IH)
  ultimately show ?case
    by (simp add: rotation_step [OF assms] upt_conv_Cons [of 0 "Suc n"] del: upt_Suc)
qed simp


text \<open>C36: with usable candidates only, the rotation is fair: starting from a fresh policy, call
  number \<open>k\<close> offers candidate \<open>(k div 5) mod n\<close>, that is, each candidate five times
  in a row before the next one and from the last one back to the first.\<close>

theorem retry_rotation_fair:
  assumes "valid_apns items ps" and "ps \<noteq> []" and "\<forall>i<length ps. good_at items ps i"
  shows "offers items n (new_RetryPolicy \<lparr>matchedApns := ps\<rparr>)
    = Some (map (\<lambda>k. ps ! (k div 5 mod length ps)) [0..<n])"
proof -
  have "new_RetryPolicy \<lparr>matchedApns := ps\<rparr> = rotation ps 0"
    by (simp add: new_RetryPolicy_def rotation_def)
  then show ?thesis using offers_rotation [of items ps n 0] assms by simp
qed

theorem retry_rotation_fair_witness:
  "offers [7 \<mapsto> new_ApnItem, 9 \<mapsto> new_ApnItem] 11 (new_RetryPolicy \<lparr>matchedApns := [Some 7, Some 9]\<rparr>)
    = Some (map (\<lambda>k. [Some 7, Some 9] ! (k div 5 mod 2)) [0..<11])"
proof -
  let ?h = "[7 \<mapsto> new_ApnItem, 9 \<mapsto> new_ApnItem] :: ApnItem store"
  have v: "valid_apns ?h [Some 7, Some 9]" by (simp add: valid_apns_def)
  have g: "\<forall>i<length [Some 7, Some (9::nat)]. good_at ?h [Some 7, Some 9] i"
    by (auto simp: good_at_def less_Suc_eq numeral_2_eq_2)
  from retry_rotation_fair [OF v _ g, of 11] show ?thesis by (simp add: numeral_2_eq_2)
qed

section \<open>Delays and error translation\<close>

text \<open>C38: bounds of the retry delay. With any random part that the program draws, an internal
  default APN waits between 5 and 7 seconds (60 to 62 while the default APN is retrying), any other
  non-default APN between 2 and 4 seconds; for the default APN the configured delay is used unless
  the extension, when enabled, asks for a positive delay of its own.\<close>

theorem GetNextRetryDelay_bounds:
  assumes "GetRandomDelay rnd"
  shows "GetNextRetryDelay props dend rnd ty cause suggestTime scene retrying \<in>
    (if ty = ''internal_default'' then if retrying then {60000..62000} else {5000..7000}
     else if ty \<noteq> ''default'' then {2000..4000}
     else if isPropOn props \<and> (\<exists>f. dend = Some f \<and> f cause suggestTime > 0)
     then {the dend cause suggestTime}
     else let d = (if scene = RETRY_SCENE_MODEM_DEACTIVATE then defaultModemDendDelay props
                   else defaultSetupFailDelay props) in {d..d + MAX_RANDOM_DELAY})"
  using assms by (auto simp: GetRandomDelay_def GetNextRetryDelay_def Let_def split: option.splits)

theorem GetNextRetryDelay_bounds_witness:
  "GetNextRetryDelay initial_RetryProps None 1500 ''internal_default'' 0 0 RETRY_SCENE_OTHERS True
      \<in> {60000..62000}
   \<and> GetNextRetryDelay initial_RetryProps None 1500 ''mms'' 0 0 RETRY_SCENE_OTHERS True \<in> {2000..4000}"
  using GetNextRetryDelay_bounds [of 1500 initial_RetryProps None "''internal_default''" 0 0
      RETRY_SCENE_OTHERS True]
    GetNextRetryDelay_bounds [of 1500 initial_RetryProps None "''mms''" 0 0 RETRY_SCENE_OTHERS True]
  by (simp add: GetRandomDelay_def)

text \<open>The translation of modem error codes, without the extension: every code of the
  permanent list is a permanent reject, the four internal codes give back their reasons, and every
  number that is no known code means retry.\<close>

theorem ConvertPdpError_classification:
  assumes "platform_ok P" and "conv = None \<or> \<not> isPropOn props"
  shows "ConvertPdpErrorToDisconnReason P props conv c =
    (if c \<in> PDP P ` set permanent_reject_errors then REASON_PERMANENT_REJECT
     else if c = PDP P PDP_ERR_TO_NORMAL then REASON_NORMAL
     else if c = PDP P PDP_ERR_TO_GSM_AND_CALLING_ONLY then REASON_GSM_AND_CALLING_ONLY
     else if c = PDP P PDP_ERR_TO_CLEAR_CONNECTION then REASON_CLEAR_CONNECTION
     else if c = PDP P PDP_ERR_TO_CHANGE_CONNECTION then REASON_CHANGE_CONNECTION
     else REASON_RETRY_CONNECTION)"
  using assms
  by (auto simp: ConvertPdpErrorToDisconnReason_def Let_def permanent_reject_errors_def
      split: option.splits)

theorem ConvertPdpError_classification_witness:
  "ConvertPdpErrorToDisconnReason sample_platform initial_RetryProps None 33 = REASON_PERMANENT_REJECT"
  using ConvertPdpError_classification [OF sample_platform_ok, of None initial_RetryProps 33]
  by (simp add: permanent_reject_errors_def sample_platform_def)

end
