(* ===== verification/Apn_Holder.thy ===== *)
theory Apn_Holder
  imports Retry_Policy Environment
begin

text \<open>
  \<open>services/src/apn_manager/apn_holder.cpp\<close>: one holder per APN role. It keeps the state of
  the role's connection, the item in use, the retry policy and the state machine that carries the
  connection. Holders are shared by pointer between the APN manager's containers and the events, so
  they too live in a store.
\<close>

section \<open>State\<close>

record ApnHolder =
  dataCallEnabled :: bool
  capability :: nat
  retryPolicy :: RetryPolicy
  apnState :: ApnProfileState
  apnItem :: ptr
  apnType :: string
  priority :: int
  cellularDataStateMachine :: ptr

definition new_ApnHolder :: "string \<Rightarrow> int \<Rightarrow> ApnHolder" where
  "new_ApnHolder ty prio = \<lparr>dataCallEnabled = False, capability = 0, retryPolicy = new_RetryPolicy,
     apnState = PROFILE_STATE_IDLE, apnItem = None, apnType = ty, priority = prio,
     cellularDataStateMachine = None\<rparr>"

section \<open>Operations\<close>

definition GetNextRetryApn :: "ApnItem store \<Rightarrow> ApnHolder \<Rightarrow> (ptr \<times> ApnHolder) outcome" where
  "GetNextRetryApn items h = do {
     (p, rp) \<leftarrow> GetNextRetryApnItem items (retryPolicy h);
     Some (p, h \<lparr>retryPolicy := rp\<rparr>)
   }"

definition SetAllMatchedApns :: "ApnItem store \<Rightarrow> ptr list \<Rightarrow> ApnHolder \<Rightarrow> ApnHolder outcome" where
  "SetAllMatchedApns items apns h = do {
     rp \<leftarrow> SetMatchedApns items apns (retryPolicy h);
     Some (h \<lparr>retryPolicy := rp\<rparr>)
   }"

definition GetRetryDelay ::
  "env \<Rightarrow> RetryProps \<Rightarrow> ApnHolder \<Rightarrow> int \<Rightarrow> int \<Rightarrow> RetryScene \<Rightarrow> bool \<Rightarrow> int" where
  "GetRetryDelay e props h cause suggestTime scene isDefaultApnRetrying =
     GetNextRetryDelay props (ext_handleDendFailcause e) (randomDelay e) (apnType h) cause suggestTime
       scene isDefaultApnRetrying"

definition SetCurrentApn :: "ptr \<Rightarrow> ApnHolder \<Rightarrow> ApnHolder" where
  "SetCurrentApn p h = h \<lparr>apnItem := p\<rparr>"

definition SetApnState :: "ApnProfileState \<Rightarrow> ApnHolder \<Rightarrow> ApnHolder" where
  "SetApnState st h =
     (let h1 = (if apnState h \<noteq> st then h \<lparr>apnState := st\<rparr> else h)
      in if apnState h1 = PROFILE_STATE_FAILED
         then h1 \<lparr>retryPolicy := ClearRetryApns (retryPolicy h1)\<rparr> else h1)"

definition ReleaseDataConnection :: "ApnHolder \<Rightarrow> ApnHolder \<times> effect list" where
  "ReleaseDataConnection h =
     (case cellularDataStateMachine h of
        None \<Rightarrow> (h, [])
      | Some m \<Rightarrow> (h \<lparr>apnState := PROFILE_STATE_DISCONNECTING\<rparr>,
          [ToMachine m (MSG_SM_DISCONNECT (Some
             \<lparr>dd_apnType = apnType h, dd_reason = REASON_CLEAR_CONNECTION\<rparr>))]))"

definition apnTypeDataProfileMap :: "(string \<times> int) list" where
  "apnTypeDataProfileMap =
     [(DATA_CONTEXT_ROLE_DEFAULT, 0), (DATA_CONTEXT_ROLE_MMS, 1), (DATA_CONTEXT_ROLE_SUPL, 3),
      (DATA_CONTEXT_ROLE_DUN, 4), (DATA_CONTEXT_ROLE_IA, 5), (DATA_CONTEXT_ROLE_XCAP, 6),
      (DATA_CONTEXT_ROLE_BIP, 7), (DATA_CONTEXT_ROLE_SNSSAI1, 8), (DATA_CONTEXT_ROLE_SNSSAI2, 9),
      (DATA_CONTEXT_ROLE_SNSSAI3, 10), (DATA_CONTEXT_ROLE_SNSSAI4, 11),
      (DATA_CONTEXT_ROLE_SNSSAI5, 12), (DATA_CONTEXT_ROLE_SNSSAI6, 13)]"

definition GetProfileId :: "string \<Rightarrow> int" where
  "GetProfileId ty = (case map_of apnTypeDataProfileMap ty of
     Some i \<Rightarrow> i | None \<Rightarrow> DATA_PROFILE_DEFAULT)"

definition SetCellularDataStateMachine :: "ptr \<Rightarrow> ApnHolder \<Rightarrow> ApnHolder" where
  "SetCellularDataStateMachine p h = h \<lparr>cellularDataStateMachine := p\<rparr>"

definition RequestCellularData :: "NetRequest \<Rightarrow> ApnHolder \<Rightarrow> ApnHolder" where
  "RequestCellularData r h = h \<lparr>capability := nr_capability r, dataCallEnabled := True\<rparr>"

definition ReleaseAllCellularData :: "ApnHolder \<Rightarrow> ApnHolder" where
  "ReleaseAllCellularData h = h \<lparr>dataCallEnabled := False\<rparr>"

definition IsEmergencyType :: "ApnHolder \<Rightarrow> bool" where
  "IsEmergencyType h \<longleftrightarrow> apnType h = DATA_CONTEXT_ROLE_EMERGENCY"

definition IsMmsType :: "ApnHolder \<Rightarrow> bool" where
  "IsMmsType h \<longleftrightarrow> apnType h = DATA_CONTEXT_ROLE_MMS"

definition IsBipType :: "ApnHolder \<Rightarrow> bool" where
  "IsBipType h \<longleftrightarrow> apnType h = DATA_CONTEXT_ROLE_BIP"

definition InitialApnRetryCount :: "env \<Rightarrow> RetryProps \<Rightarrow> ApnHolder \<Rightarrow> ApnHolder \<times> effect list" where
  "InitialApnRetryCount e props h =
     (case InitialRetryCountValue props (ext_handleDendFailcause e) (retryPolicy h) of (rp, told) \<Rightarrow>
        (h \<lparr>retryPolicy := rp\<rparr>, if told then [Ext (Ext_handleDendFailcause 0 0)] else []))"

definition IsSameApnItem :: "ApnItem store \<Rightarrow> ptr \<Rightarrow> ptr \<Rightarrow> bool \<Rightarrow> bool outcome" where
  "IsSameApnItem items newP oldP roamingState =
     (if newP = None \<or> oldP = None then Some False
      else do {
        n \<leftarrow> map_option it_attr (deref items newP);
        d \<leftarrow> map_option it_attr (deref items oldP);
        let isSameProtocol = (if roamingState then at_roamingProtocol n = at_roamingProtocol d
                              else at_protocol n = at_protocol d);
        Some (isSameProtocol \<and> at_profileId n = at_profileId d \<and> at_authType n = at_authType d
          \<and> at_isRoamingApn n = at_isRoamingApn d \<and> at_isEdited n = at_isEdited d
          \<and> at_types n = at_types d \<and> at_numeric n = at_numeric d \<and> at_apn n = at_apn d
          \<and> at_apnName n = at_apnName d \<and> at_user n = at_user d \<and> at_password n = at_password d
          \<and> at_homeUrl n = at_homeUrl d \<and> at_proxyIpAddress n = at_proxyIpAddress d
          \<and> at_mmsIpAddress n = at_mmsIpAddress d) })"

definition IsCompatibleApnItem :: "ApnItem store \<Rightarrow> ptr \<Rightarrow> ptr \<Rightarrow> bool \<Rightarrow> bool outcome" where
  "IsCompatibleApnItem items newP oldP roamingState =
     (if newP = None \<or> oldP = None then Some False
      else do {
        n \<leftarrow> map_option it_attr (deref items newP);
        d \<leftarrow> map_option it_attr (deref items oldP);
        let isSameProtocol = (if roamingState then at_roamingProtocol n = at_roamingProtocol d
                              else at_protocol n = at_protocol d);
        Some (isSameProtocol \<and> at_profileId n = at_profileId d \<and> at_authType n = at_authType d
          \<and> at_types n = at_types d \<and> at_numeric n = at_numeric d \<and> at_apn n = at_apn d
          \<and> at_apnName n = at_apnName d \<and> at_user n = at_user d \<and> at_password n = at_password d
          \<and> at_proxyIpAddress n = at_proxyIpAddress d \<and> at_mmsIpAddress n = at_mmsIpAddress d) })"

text \<open>The two nested loops of \<open>IsSameMatchedApns\<close>.\<close>

fun any_same :: "ApnItem store \<Rightarrow> bool \<Rightarrow> ptr \<Rightarrow> ptr list \<Rightarrow> bool outcome" where
  "any_same items roamingState newP [] = Some False"
| "any_same items roamingState newP (oldP # olds) = do {
     same \<leftarrow> IsSameApnItem items newP oldP roamingState;
     if same then Some True else any_same items roamingState newP olds
   }"

fun all_same :: "ApnItem store \<Rightarrow> bool \<Rightarrow> ptr list \<Rightarrow> ptr list \<Rightarrow> bool outcome" where
  "all_same items roamingState olds [] = Some True"
| "all_same items roamingState olds (newP # news) = do {
     canHandle \<leftarrow> any_same items roamingState newP olds;
     if canHandle then all_same items roamingState olds news else Some False
   }"

definition IsSameMatchedApns :: "ApnItem store \<Rightarrow> ptr list \<Rightarrow> bool \<Rightarrow> ApnHolder \<Rightarrow> bool outcome" where
  "IsSameMatchedApns items news roamingState h =
     (let olds = matchedApns (retryPolicy h)
      in if olds = [] \<or> news = [] then Some False
         else if length olds \<noteq> length news then Some False
         else all_same items roamingState olds news)"

definition SetApnBadState :: "bool \<Rightarrow> ApnHolder \<Rightarrow> ApnItem store \<Rightarrow> ApnItem store outcome" where
  "SetApnBadState isBad h items =
     (case apnItem h of
        None \<Rightarrow> Some items
      | Some a \<Rightarrow> do { it \<leftarrow> items a; Some (items(a \<mapsto> MarkBadApn isBad it)) })"

section \<open>Facts\<close>

lemma SetApnState_simps [simp]:
  "apnState (SetApnState st h) = st" "apnType (SetApnState st h) = apnType h"
  "priority (SetApnState st h) = priority h" "capability (SetApnState st h) = capability h"
  "dataCallEnabled (SetApnState st h) = dataCallEnabled h" "apnItem (SetApnState st h) = apnItem h"
  "cellularDataStateMachine (SetApnState st h) = cellularDataStateMachine h"
  "st \<noteq> PROFILE_STATE_FAILED \<Longrightarrow> retryPolicy (SetApnState st h) = retryPolicy h"
  by (auto simp: SetApnState_def Let_def)

lemma SetCellularDataStateMachine_simps [simp]:
  "apnState (SetCellularDataStateMachine p h) = apnState h"
  "apnType (SetCellularDataStateMachine p h) = apnType h"
  "priority (SetCellularDataStateMachine p h) = priority h"
  "cellularDataStateMachine (SetCellularDataStateMachine p h) = p"
  by (auto simp: SetCellularDataStateMachine_def)

lemma IsSameApnItem_Compatible:
  "IsSameApnItem items n d r = Some True \<Longrightarrow> IsCompatibleApnItem items n d r = Some True"
  by (auto simp: IsSameApnItem_def IsCompatibleApnItem_def Let_def bind_Some_iff split: if_splits)

text \<open>Entering the failed state forgets the candidates of the role, so that a failed holder
  offers no further APN until new candidates are set; every other state keeps them.\<close>

theorem SetApnState_failed_clears:
  "apnState (SetApnState st h) = st
   \<and> matchedApns (retryPolicy (SetApnState st h)) =
       (if st = PROFILE_STATE_FAILED then [] else matchedApns (retryPolicy h))
   \<and> GetNextRetryApn items (SetApnState PROFILE_STATE_FAILED h)
       = Some (None, SetApnState PROFILE_STATE_FAILED h)"
proof -
  have "matchedApns (retryPolicy (SetApnState PROFILE_STATE_FAILED h)) = []"
    by (simp add: SetApnState_def Let_def ClearRetryApns_def)
  then show ?thesis
    by (simp add: GetNextRetryApn_def GetNextRetryApnItem.simps)
qed

end
