(* ===== verification/Apn_Manager.thy ===== *)
theory Apn_Manager
  imports Apn_Holder "HOL-Library.Multiset" "HOL-Library.Sublist"
begin

text \<open>
  \<open>services/src/apn_manager/apn_manager.cpp\<close>: the roles and their identifiers, the holders,
  the APN items built from the database (merging of similar rows, the preferred row first), the
  candidates for a role, and the overall connection state. The database helper and the SIM card
  data of the core service are the records \<open>apn_db\<close> and \<open>card\<close>.
\<close>

section \<open>Roles\<close>

definition apnIdApnNameMap :: "(string \<times> int) list" where
  "apnIdApnNameMap =
     [(DATA_CONTEXT_ROLE_ALL, DATA_CONTEXT_ROLE_ALL_ID),
      (DATA_CONTEXT_ROLE_DEFAULT, DATA_CONTEXT_ROLE_DEFAULT_ID),
      (DATA_CONTEXT_ROLE_MMS, DATA_CONTEXT_ROLE_MMS_ID),
      (DATA_CONTEXT_ROLE_SUPL, DATA_CONTEXT_ROLE_SUPL_ID),
      (DATA_CONTEXT_ROLE_DUN, DATA_CONTEXT_ROLE_DUN_ID),
      (DATA_CONTEXT_ROLE_IMS, DATA_CONTEXT_ROLE_IMS_ID),
      (DATA_CONTEXT_ROLE_IA, DATA_CONTEXT_ROLE_IA_ID),
      (DATA_CONTEXT_ROLE_EMERGENCY, DATA_CONTEXT_ROLE_EMERGENCY_ID),
      (DATA_CONTEXT_ROLE_INTERNAL_DEFAULT, DATA_CONTEXT_ROLE_INTERNAL_DEFAULT_ID),
      (DATA_CONTEXT_ROLE_XCAP, DATA_CONTEXT_ROLE_XCAP_ID),
      (DATA_CONTEXT_ROLE_BIP, DATA_CONTEXT_ROLE_BIP_ID),
      (DATA_CONTEXT_ROLE_SNSSAI1, DATA_CONTEXT_ROLE_SNSSAI1_ID),
      (DATA_CONTEXT_ROLE_SNSSAI2, DATA_CONTEXT_ROLE_SNSSAI2_ID),
      (DATA_CONTEXT_ROLE_SNSSAI3, DATA_CONTEXT_ROLE_SNSSAI3_ID),
      (DATA_CONTEXT_ROLE_SNSSAI4, DATA_CONTEXT_ROLE_SNSSAI4_ID),
      (DATA_CONTEXT_ROLE_SNSSAI5, DATA_CONTEXT_ROLE_SNSSAI5_ID),
      (DATA_CONTEXT_ROLE_SNSSAI6, DATA_CONTEXT_ROLE_SNSSAI6_ID)]"

definition apnNameApnTypeMap :: "(string \<times> int) list" where
  "apnNameApnTypeMap =
     [(DATA_CONTEXT_ROLE_ALL, 1048575), (DATA_CONTEXT_ROLE_DEFAULT, 1), (DATA_CONTEXT_ROLE_MMS, 2),
      (DATA_CONTEXT_ROLE_SUPL, 4), (DATA_CONTEXT_ROLE_DUN, 8), (DATA_CONTEXT_ROLE_IMS, 64),
      (DATA_CONTEXT_ROLE_IA, 256), (DATA_CONTEXT_ROLE_EMERGENCY, 512),
      (DATA_CONTEXT_ROLE_XCAP, 2048), (DATA_CONTEXT_ROLE_BIP, 8192),
      (DATA_CONTEXT_ROLE_INTERNAL_DEFAULT, 4096), (DATA_CONTEXT_ROLE_SNSSAI1, 16384),
      (DATA_CONTEXT_ROLE_SNSSAI2, 32768), (DATA_CONTEXT_ROLE_SNSSAI3, 65536),
      (DATA_CONTEXT_ROLE_SNSSAI4, 131072), (DATA_CONTEXT_ROLE_SNSSAI5, 262144),
      (DATA_CONTEXT_ROLE_SNSSAI6, 524288)]"

definition FindApnIdByApnName :: "string \<Rightarrow> int" where
  "FindApnIdByApnName ty = (case map_of apnIdApnNameMap ty of
     Some i \<Rightarrow> i | None \<Rightarrow> DATA_CONTEXT_ROLE_INVALID_ID)"

definition FindApnNameByApnId :: "int \<Rightarrow> string" where
  "FindApnNameByApnId i = (case find (\<lambda>it. snd it = i) apnIdApnNameMap of
     Some it \<Rightarrow> fst it | None \<Rightarrow> DATA_CONTEXT_ROLE_DEFAULT)"

definition FindApnTypeByApnName :: "string \<Rightarrow> int" where
  "FindApnTypeByApnName apnName = (case map_of apnNameApnTypeMap apnName of
     Some t \<Rightarrow> t | None \<Rightarrow> 0)"

text \<open>The cases of the two switches between net capabilities and role identifiers.\<close>

definition FindApnIdByCapability :: "platform \<Rightarrow> nat \<Rightarrow> int" where
  "FindApnIdByCapability P cap =
     (if cap = NC P NET_CAPABILITY_INTERNET then DATA_CONTEXT_ROLE_DEFAULT_ID
      else if cap = NC P NET_CAPABILITY_MMS then DATA_CONTEXT_ROLE_MMS_ID
      else if cap = NC P NET_CAPABILITY_INTERNAL_DEFAULT then DATA_CONTEXT_ROLE_INTERNAL_DEFAULT_ID
      else if cap = NC P NET_CAPABILITY_IA then DATA_CONTEXT_ROLE_IA_ID
      else if cap = NC P NET_CAPABILITY_XCAP then DATA_CONTEXT_ROLE_XCAP_ID
      else if cap = NC P NET_CAPABILITY_SUPL then DATA_CONTEXT_ROLE_SUPL_ID
      else if cap = NC P NET_CAPABILITY_DUN then DATA_CONTEXT_ROLE_DUN_ID
      else if cap = NC P NET_CAPABILITY_BIP then DATA_CONTEXT_ROLE_BIP_ID
      else if cap = NC P NET_CAPABILITY_SNSSAI1 then DATA_CONTEXT_ROLE_SNSSAI1_ID
      else if cap = NC P NET_CAPABILITY_SNSSAI2 then DATA_CONTEXT_ROLE_SNSSAI2_ID
      else if cap = NC P NET_CAPABILITY_SNSSAI3 then DATA_CONTEXT_ROLE_SNSSAI3_ID
      else if cap = NC P NET_CAPABILITY_SNSSAI4 then DATA_CONTEXT_ROLE_SNSSAI4_ID
      else if cap = NC P NET_CAPABILITY_SNSSAI5 then DATA_CONTEXT_ROLE_SNSSAI5_ID
      else if cap = NC P NET_CAPABILITY_SNSSAI6 then DATA_CONTEXT_ROLE_SNSSAI6_ID
      else DATA_CONTEXT_ROLE_INVALID_ID)"

definition FindCapabilityByApnId :: "platform \<Rightarrow> int \<Rightarrow> nat" where
  "FindCapabilityByApnId P apnId = NC P
     (if apnId = DATA_CONTEXT_ROLE_DEFAULT_ID then NET_CAPABILITY_INTERNET
      else if apnId = DATA_CONTEXT_ROLE_MMS_ID then NET_CAPABILITY_MMS
      else if apnId = DATA_CONTEXT_ROLE_INTERNAL_DEFAULT_ID then NET_CAPABILITY_INTERNAL_DEFAULT
      else if apnId = DATA_CONTEXT_ROLE_IA_ID then NET_CAPABILITY_IA
      else if apnId = DATA_CONTEXT_ROLE_XCAP_ID then NET_CAPABILITY_XCAP
      else if apnId = DATA_CONTEXT_ROLE_SUPL_ID then NET_CAPABILITY_SUPL
      else if apnId = DATA_CONTEXT_ROLE_DUN_ID then NET_CAPABILITY_DUN
      else if apnId = DATA_CONTEXT_ROLE_BIP_ID then NET_CAPABILITY_BIP
      else if apnId = DATA_CONTEXT_ROLE_SNSSAI1_ID then NET_CAPABILITY_SNSSAI1
      else if apnId = DATA_CONTEXT_ROLE_SNSSAI2_ID then NET_CAPABILITY_SNSSAI2
      else if apnId = DATA_CONTEXT_ROLE_SNSSAI3_ID then NET_CAPABILITY_SNSSAI3
      else if apnId = DATA_CONTEXT_ROLE_SNSSAI4_ID then NET_CAPABILITY_SNSSAI4
      else if apnId = DATA_CONTEXT_ROLE_SNSSAI5_ID then NET_CAPABILITY_SNSSAI5
      else if apnId = DATA_CONTEXT_ROLE_SNSSAI6_ID then NET_CAPABILITY_SNSSAI6
      else NET_CAPABILITY_END)"

text \<open>\<open>HasNetCap\<close> on the 64-bit mask; the shift is by less than 63.\<close>

definition HasNetCap :: "platform \<Rightarrow> 64 word \<Rightarrow> NetCap \<Rightarrow> bool" where
  "HasNetCap P capabilities netCap \<longleftrightarrow> capabilities AND push_bit (NC P netCap) 1 \<noteq> 0"

text \<open>The tests of \<open>FindBestCapability\<close> in source order; a later one overwrites the result.\<close>

definition capability_tests :: "NetCap list" where
  "capability_tests =
     [NET_CAPABILITY_INTERNET, NET_CAPABILITY_INTERNAL_DEFAULT, NET_CAPABILITY_MMS,
      NET_CAPABILITY_SUPL, NET_CAPABILITY_DUN, NET_CAPABILITY_XCAP, NET_CAPABILITY_IA,
      NET_CAPABILITY_BIP, NET_CAPABILITY_SNSSAI1, NET_CAPABILITY_SNSSAI2, NET_CAPABILITY_SNSSAI3,
      NET_CAPABILITY_SNSSAI4, NET_CAPABILITY_SNSSAI5, NET_CAPABILITY_SNSSAI6]"

definition FindBestCapability :: "platform \<Rightarrow> 64 word \<Rightarrow> NetCap" where
  "FindBestCapability P capabilities =
     foldl (\<lambda>netCap c. if HasNetCap P capabilities c then c else netCap) NET_CAPABILITY_END
       capability_tests"

section \<open>State\<close>

record heap =
  h_items :: "ApnItem store"
  h_holders :: "ApnHolder store"
  h_next :: addr

record ApnManager =
  allApnItem :: "ptr list"
  apnHolders :: "ptr list"
  apnIdApnHolderMap :: "int \<rightharpoonup> ptr"
  sortedApnHolders :: "ptr list"
  preferId :: int

definition new_ApnManager :: ApnManager where
  "new_ApnManager = \<lparr>allApnItem = [], apnHolders = [], apnIdApnHolderMap = Map.empty,
     sortedApnHolders = [], preferId = -1\<rparr>"

record apn_db =
  QueryPreferApn :: "int \<Rightarrow> PdpProfile list option"
  QueryMvnoApnsByType :: "string \<Rightarrow> string \<Rightarrow> string \<Rightarrow> string \<Rightarrow> PdpProfile list option"
  QueryApns :: "string \<Rightarrow> string \<Rightarrow> PdpProfile list option"

record card =
  SimOperatorNumeric :: string
  IsCTSimCard :: bool
  SimIccId :: string
  SimSpn :: string
  IMSI :: string
  SimGid1 :: string

section \<open>Holders\<close>

text \<open>The comparison of \<open>AddApnHolder\<close> sorts by decreasing priority; \<open>std::sort\<close> leaves
  the order of holders with equal priority open, the model keeps the insertion order.\<close>

definition priority_of :: "ApnHolder store \<Rightarrow> ptr \<Rightarrow> int" where
  "priority_of holders p = (case deref holders p of Some h \<Rightarrow> priority h | None \<Rightarrow> 0)"

definition AddApnHolder :: "string \<Rightarrow> int \<Rightarrow> heap \<times> ApnManager \<Rightarrow> heap \<times> ApnManager" where
  "AddApnHolder ty prio s = (case s of (hp, am) \<Rightarrow>
     let apnId = FindApnIdByApnName ty
     in if apnId = DATA_CONTEXT_ROLE_INVALID_ID then (hp, am)
        else
          let a = h_next hp;
              holders = (h_holders hp)(a \<mapsto> SetApnState PROFILE_STATE_IDLE (new_ApnHolder ty prio));
              m = (if apnIdApnHolderMap am apnId = None
                   then (apnIdApnHolderMap am)(apnId \<mapsto> Some a) else apnIdApnHolderMap am)
          in (hp \<lparr>h_holders := holders, h_next := a + 1\<rparr>,
              am \<lparr>apnHolders := apnHolders am @ [Some a], apnIdApnHolderMap := m,
                  sortedApnHolders := sort_key (\<lambda>p. - priority_of holders p)
                    (sortedApnHolders am @ [Some a])\<rparr>))"

definition InitApnHolders :: "heap \<times> ApnManager \<Rightarrow> heap \<times> ApnManager" where
  "InitApnHolders s0 =
     (let s1 = AddApnHolder DATA_CONTEXT_ROLE_DEFAULT PRIORITY_LOW s0;
          s2 = AddApnHolder DATA_CONTEXT_ROLE_MMS PRIORITY_NORMAL s1;
          s3 = AddApnHolder DATA_CONTEXT_ROLE_INTERNAL_DEFAULT PRIORITY_NONE s2;
          s4 = AddApnHolder DATA_CONTEXT_ROLE_XCAP PRIORITY_NORMAL s3;
          s5 = AddApnHolder DATA_CONTEXT_ROLE_DUN PRIORITY_NORMAL s4;
          s6 = AddApnHolder DATA_CONTEXT_ROLE_IA PRIORITY_HIGH s5;
          s7 = AddApnHolder DATA_CONTEXT_ROLE_SUPL PRIORITY_NORMAL s6;
          s8 = AddApnHolder DATA_CONTEXT_ROLE_BIP PRIORITY_NORMAL s7;
          s9 = AddApnHolder DATA_CONTEXT_ROLE_SNSSAI1 PRIORITY_NORMAL s8;
          s10 = AddApnHolder DATA_CONTEXT_ROLE_SNSSAI2 PRIORITY_NORMAL s9;
          s11 = AddApnHolder DATA_CONTEXT_ROLE_SNSSAI3 PRIORITY_NORMAL s10;
          s12 = AddApnHolder DATA_CONTEXT_ROLE_SNSSAI4 PRIORITY_NORMAL s11;
          s13 = AddApnHolder DATA_CONTEXT_ROLE_SNSSAI5 PRIORITY_NORMAL s12
      in AddApnHolder DATA_CONTEXT_ROLE_SNSSAI6 PRIORITY_NORMAL s13)"

definition FindApnHolderById :: "ApnManager \<Rightarrow> int \<Rightarrow> ptr" where
  "FindApnHolderById am i =
     (if i = DATA_CONTEXT_ROLE_INVALID_ID then None
      else case apnIdApnHolderMap am i of Some p \<Rightarrow> p | None \<Rightarrow> None)"

definition GetApnHolder :: "ApnManager \<Rightarrow> string \<Rightarrow> ptr" where
  "GetApnHolder am ty =
     (let apnId = FindApnIdByApnName ty
      in if apnId = DATA_CONTEXT_ROLE_INVALID_ID then None
         else case apnIdApnHolderMap am apnId of Some p \<Rightarrow> p | None \<Rightarrow> None)"

section \<open>Items from the database\<close>

text \<open>\<open>MergePdpProfile(newProfile, oldProfile)\<close>: both references and the member
  \<open>preferId_\<close> after the call.\<close>

definition MergePdpProfile ::
  "PdpProfile \<Rightarrow> PdpProfile \<Rightarrow> int \<Rightarrow> PdpProfile \<times> PdpProfile \<times> int" where
  "MergePdpProfile new0 old0 prefer =
     (let swapped = str_contains (pp_apnTypes old0) DATA_CONTEXT_ROLE_DEFAULT;
          n = (if swapped then old0 else new0);
          d = (if swapped then new0 else old0);
          n' = n \<lparr>pp_apnTypes := pp_apnTypes n @ '','' @ pp_apnTypes d,
                   pp_pdpProtocol := (if pp_pdpProtocol n = PROTOCOL_IPV4V6 then pp_pdpProtocol n
                                      else pp_pdpProtocol d),
                   pp_roamPdpProtocol := (if pp_roamPdpProtocol n = PROTOCOL_IPV4V6
                                          then pp_roamPdpProtocol n else pp_roamPdpProtocol d),
                   pp_homeUrl := (if pp_homeUrl n = [] then pp_homeUrl d else pp_homeUrl n),
                   pp_mmsIpAddress := (if pp_mmsIpAddress n = [] then pp_mmsIpAddress d
                                       else pp_mmsIpAddress n),
                   pp_proxyIpAddress := (if pp_proxyIpAddress n = [] then pp_proxyIpAddress d
                                         else pp_proxyIpAddress n)\<rparr>
      in (n', d, if prefer = pp_profileId d then pp_profileId n' else prefer))"

text \<open>The inner loop over \<open>j\<close>, for the row \<open>x\<close> at position \<open>i\<close>.\<close>

fun merge_row :: "PdpProfile \<Rightarrow> PdpProfile list \<Rightarrow> int \<Rightarrow> PdpProfile \<times> PdpProfile list \<times> int" where
  "merge_row x [] prefer = (x, [], prefer)"
| "merge_row x (y # ys) prefer =
     (case (if IsSimilarPdpProfile x y
            then case MergePdpProfile x y prefer of (x', y', p') \<Rightarrow> (x', y' \<lparr>pp_profileId := -1\<rparr>, p')
            else (x, y, prefer)) of
        (x1, y1, p1) \<Rightarrow> case merge_row x1 ys p1 of (x2, ys2, p2) \<Rightarrow> (x2, y1 # ys2, p2))"

lemma merge_row_length: "merge_row x ys p = (x', ys', p') \<Longrightarrow> length ys' = length ys"
proof (induction x ys p arbitrary: x' ys' p' rule: merge_row.induct)
  case (2 x y ys p)
  then show ?case by (fastforce split: prod.splits)
qed simp

text \<open>The outer loop over \<open>i\<close>; the collected rows are \<open>newApnVec\<close>.\<close>

function TryMergeSimilarPdpProfile :: "PdpProfile list \<Rightarrow> int \<Rightarrow> PdpProfile list \<times> int" where
  "TryMergeSimilarPdpProfile [] prefer = ([], prefer)"
| "TryMergeSimilarPdpProfile (x # xs) prefer =
     (if pp_profileId x = -1 then TryMergeSimilarPdpProfile xs prefer
      else case merge_row x xs prefer of (x', xs', p') \<Rightarrow>
        case TryMergeSimilarPdpProfile xs' p' of (rs, p'') \<Rightarrow> (x' # rs, p''))"
  by pat_completeness auto

termination
  by (relation "measure (\<lambda>(xs, _). length xs)") (auto dest: merge_row_length [OF sym])

definition alloc_item :: "ApnItem \<Rightarrow> heap \<Rightarrow> ptr \<times> heap" where
  "alloc_item it hp = (Some (h_next hp),
     hp \<lparr>h_items := (h_items hp)(h_next hp \<mapsto> it), h_next := h_next hp + 1\<rparr>)"

text \<open>One iteration of the loop of \<open>MakeSpecificApnItem\<close>, then the loop.\<close>

definition make_item_step :: "int \<Rightarrow> PdpProfile \<Rightarrow> heap \<times> ptr list \<times> int \<Rightarrow> (heap \<times> ptr list \<times> int) outcome" where
  "make_item_step prefer apnData0 s = (case s of (hp, all, cnt) \<Rightarrow> do {
     let apnData = (if pp_profileId apnData0 = prefer \<and> pp_apnTypes apnData0 = []
                    then apnData0 \<lparr>pp_apnTypes := DATA_CONTEXT_ROLE_DEFAULT\<rparr> else apnData0);
     r \<leftarrow> MakeApn apnData;
     Some (case r of
             None \<Rightarrow> (hp, all, cnt)
           | Some it \<Rightarrow> (case alloc_item it hp of (p, hp') \<Rightarrow> (hp', all @ [p], cnt + 1)))
   })"

definition is_profile :: "ApnItem store \<Rightarrow> int \<Rightarrow> ptr \<Rightarrow> bool" where
  "is_profile items i p = (case deref items p of
     Some it \<Rightarrow> at_profileId (it_attr it) = i | None \<Rightarrow> False)"

text \<open>Move the first item that satisfies a predicate to the front.\<close>

fun move_first :: "('a \<Rightarrow> bool) \<Rightarrow> 'a list \<Rightarrow> 'a list" where
  "move_first P xs = (case find P xs of None \<Rightarrow> xs | Some x \<Rightarrow> x # remove1 x xs)"

definition MakeSpecificApnItem ::
  "PdpProfile list \<Rightarrow> heap \<times> ApnManager \<Rightarrow> (int \<times> heap \<times> ApnManager) outcome" where
  "MakeSpecificApnItem apnVec s = (case s of (hp, am) \<Rightarrow>
     case TryMergeSimilarPdpProfile apnVec (preferId am) of (rows, prefer) \<Rightarrow> do {
       (hp', all, cnt) \<leftarrow> foldo (make_item_step prefer) rows (hp, [], 0);
       Some (cnt, hp', am \<lparr>preferId := prefer,
         allApnItem := move_first (is_profile (h_items hp') prefer) all\<rparr>)
     })"

definition PushApnItem :: "int \<Rightarrow> ApnItem option \<Rightarrow> heap \<times> ApnManager \<Rightarrow> int \<times> heap \<times> ApnManager" where
  "PushApnItem cnt extraApnItem s = (case s of (hp, am) \<Rightarrow>
     case extraApnItem of
       None \<Rightarrow> (cnt, hp, am)
     | Some it \<Rightarrow> (case alloc_item it hp of (p, hp') \<Rightarrow> (cnt + 1, hp', am \<lparr>allApnItem := [p]\<rparr>)))"

definition GetCTOperator :: "card \<Rightarrow> string \<Rightarrow> string" where
  "GetCTOperator c numeric0 =
     (let numeric = (if IsCTSimCard c \<and> numeric0 \<noteq> ''46011'' then ''46003'' else numeric0)
      in if numeric \<noteq> ''46003'' then numeric
         else if take 7 (SimIccId c) = ''8985231'' \<or> SimSpn c = ''CTExcel'' then ''45431''
         else if (take 7 (SimIccId c) = ''8985302'' \<or> take 7 (SimIccId c) = ''8985307'')
              \<and> SimOperatorNumeric c \<noteq> [] \<and> SimOperatorNumeric c = ''46001'' then ''46001''
         else numeric)"

text \<open>\<open>CreateMvnoApnItems\<close>: the four queries append to one vector; the first that fails ends
  the function.\<close>

definition CreateMvnoApnItems ::
  "apn_db \<Rightarrow> card \<Rightarrow> string \<Rightarrow> string \<Rightarrow> heap \<times> ApnManager \<Rightarrow> (int \<times> heap \<times> ApnManager) outcome" where
  "CreateMvnoApnItems db c mcc mnc s =
     (case (do {
        v1 \<leftarrow> QueryMvnoApnsByType db mcc mnc ''spn'' (SimSpn c);
        v2 \<leftarrow> QueryMvnoApnsByType db mcc mnc ''imsi'' (IMSI c);
        v3 \<leftarrow> QueryMvnoApnsByType db mcc mnc ''gid1'' (SimGid1 c);
        v4 \<leftarrow> QueryMvnoApnsByType db mcc mnc ''iccid'' (SimIccId c);
        Some (v1 @ v2 @ v3 @ v4) }) of
        None \<Rightarrow> Some (0, s)
      | Some mvnoApnVec \<Rightarrow> MakeSpecificApnItem mvnoApnVec s)"

definition GetPreferId :: "env \<Rightarrow> apn_db \<Rightarrow> int \<Rightarrow> ApnManager \<Rightarrow> bool \<times> ApnManager" where
  "GetPreferId e db slotId am =
     (if SimIdOf e slotId \<le> INVALID_SIM_ID then (False, am)
      else case QueryPreferApn db slotId of
             Some (row # _) \<Rightarrow> (True, am \<lparr>preferId := pp_profileId row\<rparr>)
           | Some [] \<Rightarrow> (True, am)
           | None \<Rightarrow> (False, am))"

text \<open>The vendor extension may provide the item (\<open>createAllApnItemExt_\<close>,
  \<open>createDcApnItemExt_\<close>): from slot and proposed item to success and item.\<close>

type_synonym create_item_ext = "(int \<Rightarrow> ApnItem option \<Rightarrow> bool \<times> ApnItem option) option"

definition CreateAllApnItemByDatabase ::
  "platform \<Rightarrow> env \<Rightarrow> apn_db \<Rightarrow> card \<Rightarrow> create_item_ext \<Rightarrow> create_item_ext \<Rightarrow> int
     \<Rightarrow> heap \<times> ApnManager \<Rightarrow> (int \<times> heap \<times> ApnManager) outcome" where
  "CreateAllApnItemByDatabase P e db c createAll createDc slotId s = (case s of (hp, am) \<Rightarrow> do {
     extra0 \<leftarrow> MakeDefaultApn ''default'';
     let (done1, extra1) = (case createAll of None \<Rightarrow> (False, extra0) | Some f \<Rightarrow> f slotId extra0);
     if done1 then Some (PushApnItem 0 extra1 (hp, am))
     else do {
       let (done2, extra2) = (case createDc of None \<Rightarrow> (False, extra1) | Some f \<Rightarrow> f slotId extra1);
       if done2 then Some (PushApnItem 0 extra2 (hp, am))
       else do {
         let numeric = GetCTOperator c (SimOperatorNumeric c);
         if numeric = [] then Some (0, hp, am)
         else do {
           let (ok, am1) = GetPreferId e db slotId (am \<lparr>preferId := INVALID_PROFILE_ID P\<rparr>);
           if \<not> ok then Some (0, hp, am1)
           else do {
             let mcc = take DEFAULT_MCC_SIZE numeric;
             let mnc = drop DEFAULT_MCC_SIZE numeric;
             (mvnoCount, s2) \<leftarrow> CreateMvnoApnItems db c mcc mnc (hp, am1);
             if mvnoCount > 0 then Some (mvnoCount, s2)
             else (case QueryApns db mcc mnc of
                     None \<Rightarrow> Some (0, s2)
                   | Some apnVec \<Rightarrow> MakeSpecificApnItem apnVec s2)
           }
         }
       }
     }
   })"


section \<open>Candidates for a role\<close>

text \<open>Loops over the item list that call a method of every element: a null element would not
  return.\<close>

fun filter_items :: "ApnItem store \<Rightarrow> (ApnItem \<Rightarrow> bool) \<Rightarrow> ptr list \<Rightarrow> ptr list outcome" where
  "filter_items items Q [] = Some []"
| "filter_items items Q (p # ps) = do {
     it \<leftarrow> deref items p;
     rest \<leftarrow> filter_items items Q ps;
     Some (if Q it then p # rest else rest)
   }"

fun find_item :: "ApnItem store \<Rightarrow> (ApnItem \<Rightarrow> bool) \<Rightarrow> ptr list \<Rightarrow> ptr outcome" where
  "find_item items Q [] = Some None"
| "find_item items Q (p # ps) = do {
     it \<leftarrow> deref items p;
     if Q it then Some p else find_item items Q ps
   }"

definition IsPreferredApnUserEdited :: "ApnItem store \<Rightarrow> ApnManager \<Rightarrow> bool outcome" where
  "IsPreferredApnUserEdited items am = do {
     p \<leftarrow> find_item items (\<lambda>it. at_profileId (it_attr it) = preferId am) (allApnItem am);
     Some (case deref items p of None \<Rightarrow> False | Some it \<Rightarrow> at_isEdited (it_attr it))
   }"

definition FetchBipApns :: "ApnItem store \<Rightarrow> ApnManager \<Rightarrow> ptr list outcome" where
  "FetchBipApns items am = do {
     p \<leftarrow> find_item items (\<lambda>it. CanDealWithType it DATA_CONTEXT_ROLE_BIP) (allApnItem am);
     Some (case p of None \<Rightarrow> [] | Some a \<Rightarrow> [p])
   }"

definition FetchDunApns :: "env \<Rightarrow> ApnItem store \<Rightarrow> int \<Rightarrow> ApnManager \<Rightarrow> ptr list outcome" where
  "FetchDunApns e items slotId am = do {
     edited \<leftarrow> (if PsRoamingState e slotId > 0 then IsPreferredApnUserEdited items am else Some True);
     if \<not> edited then Some []
     else do {
       let preferredApn = (case find (is_profile items (preferId am)) (allApnItem am) of
                             None \<Rightarrow> None | Some p \<Rightarrow> p);
       let usable = (case deref items preferredApn of
                       None \<Rightarrow> False | Some it \<Rightarrow> CanDealWithType it DATA_CONTEXT_ROLE_DUN);
       if usable then Some [preferredApn]
       else filter_items items (\<lambda>it. CanDealWithType it DATA_CONTEXT_ROLE_DUN) (allApnItem am)
     }
   }"

definition FilterMatchedApns ::
  "env \<Rightarrow> ApnItem store \<Rightarrow> string \<Rightarrow> int \<Rightarrow> ApnManager \<Rightarrow> ptr list outcome" where
  "FilterMatchedApns e items requestApnType slotId am =
     (if requestApnType = DATA_CONTEXT_ROLE_DUN then FetchDunApns e items slotId am
      else if requestApnType = DATA_CONTEXT_ROLE_BIP then FetchBipApns items am
      else filter_items items (\<lambda>it. CanDealWithType it requestApnType) (allApnItem am))"

text \<open>\<open>GetRilAttachApn\<close>: the first item for the role \<open>ia\<close>, else the first for
  \<open>default\<close>, else the first; the preferred item when there is one.\<close>

fun attach_loop :: "ApnItem store \<Rightarrow> ptr list \<Rightarrow> ptr \<Rightarrow> ptr outcome" where
  "attach_loop items [] attachApn = Some attachApn"
| "attach_loop items (p # ps) attachApn = do {
     it \<leftarrow> deref items p;
     if CanDealWithType it DATA_CONTEXT_ROLE_IA then Some p
     else attach_loop items ps
       (if attachApn = None \<and> CanDealWithType it DATA_CONTEXT_ROLE_DEFAULT then p else attachApn)
   }"

definition GetRilAttachApn :: "platform \<Rightarrow> ApnItem store \<Rightarrow> ApnManager \<Rightarrow> ptr outcome" where
  "GetRilAttachApn P items am =
     (case allApnItem am of
        [] \<Rightarrow> Some None
      | first # _ \<Rightarrow>
          if preferId am \<noteq> INVALID_PROFILE_ID P then Some first
          else do {
            attachApn \<leftarrow> attach_loop items (allApnItem am) None;
            Some (if attachApn = None then first else attachApn) })"

definition GetApnItemById :: "ApnItem store \<Rightarrow> int \<Rightarrow> ApnManager \<Rightarrow> ptr outcome" where
  "GetApnItemById items i am = find_item items (\<lambda>it. i = at_profileId (it_attr it)) (allApnItem am)"

section \<open>State of the holders\<close>

text \<open>The live holders of a list of pointers, in order (the loops skip null pointers).\<close>

definition live_holders :: "ApnHolder store \<Rightarrow> ptr list \<Rightarrow> ApnHolder list" where
  "live_holders holders ps = List.map_filter (deref holders) ps"

definition IsDataConnectionNotUsed :: "ApnHolder store \<Rightarrow> ptr \<Rightarrow> ApnManager \<Rightarrow> bool" where
  "IsDataConnectionNotUsed holders stateMachine am =
     (if stateMachine = None then False
      else \<not> list_ex (\<lambda>h. cellularDataStateMachine h \<noteq> None \<and> stateMachine = cellularDataStateMachine h)
             (live_holders holders (apnHolders am)))"

definition HasAnyConnectedState :: "ApnHolder store \<Rightarrow> ApnManager \<Rightarrow> bool" where
  "HasAnyConnectedState holders am =
     list_ex (\<lambda>h. apnState h = PROFILE_STATE_CONNECTED \<or> apnState h = PROFILE_STATE_DISCONNECTING)
       (live_holders holders (apnHolders am))"

fun overall_loop :: "ApnHolder list \<Rightarrow> bool \<Rightarrow> ApnProfileState" where
  "overall_loop [] failState = (if failState then PROFILE_STATE_IDLE else PROFILE_STATE_FAILED)"
| "overall_loop (h # hs) failState =
     (if apnState h = PROFILE_STATE_CONNECTING \<or> apnState h = PROFILE_STATE_RETRYING
      then PROFILE_STATE_CONNECTING
      else overall_loop hs (if apnState h = PROFILE_STATE_IDLE then True else failState))"

definition GetOverallApnState :: "ApnHolder store \<Rightarrow> ApnManager \<Rightarrow> ApnProfileState" where
  "GetOverallApnState holders am =
     (if apnHolders am = [] then PROFILE_STATE_IDLE
      else if HasAnyConnectedState holders am then PROFILE_STATE_CONNECTED
      else overall_loop (live_holders holders (apnHolders am)) False)"

definition apnStateArr :: "ApnProfileState list" where
  "apnStateArr = [PROFILE_STATE_CONNECTED, PROFILE_STATE_DISCONNECTING, PROFILE_STATE_CONNECTING,
     PROFILE_STATE_IDLE, PROFILE_STATE_RETRYING, PROFILE_STATE_FAILED]"

text \<open>The state of the last holder of a type; \<open>IDLE\<close> when there is none.\<close>

definition state_of_type :: "string \<Rightarrow> ApnHolder list \<Rightarrow> ApnProfileState" where
  "state_of_type ty hs =
     foldl (\<lambda>st h. if apnType h = ty then apnState h else st) PROFILE_STATE_IDLE hs"

definition GetOverallDefaultApnState :: "ApnHolder store \<Rightarrow> ApnManager \<Rightarrow> ApnProfileState" where
  "GetOverallDefaultApnState holders am =
     (if apnHolders am = [] then PROFILE_STATE_IDLE
      else
        let hs = live_holders holders (apnHolders am);
            defaultApnState = state_of_type DATA_CONTEXT_ROLE_DEFAULT hs;
            internalApnState = state_of_type DATA_CONTEXT_ROLE_INTERNAL_DEFAULT hs
        in case find (\<lambda>st. defaultApnState = st \<or> internalApnState = st) apnStateArr of
             Some st \<Rightarrow> st | None \<Rightarrow> PROFILE_STATE_IDLE)"

definition ClearAllApnBad :: "ApnManager \<Rightarrow> heap \<Rightarrow> heap outcome" where
  "ClearAllApnBad am hp = do {
     items \<leftarrow> foldo (\<lambda>p items. case deref (h_holders hp) p of
                None \<Rightarrow> Some items
              | Some h \<Rightarrow> SetApnBadState False h items) (apnHolders am) (h_items hp);
     Some (hp \<lparr>h_items := items\<rparr>)
   }"


section \<open>Roles, identifiers and capabilities\<close>

text \<open>Role names and role identifiers are inverse to each other: every identifier of the
  table (0 to 16) is found again through its name, every name through its identifier, and no other
  name has an identifier.\<close>

theorem role_id_roundtrip:
  "(if 0 \<le> i \<and> i \<le> 16 then FindApnIdByApnName (FindApnNameByApnId i) = i
    else FindApnNameByApnId i = ''default'')
   \<and> (if ty \<in> set (map fst apnIdApnNameMap) then FindApnNameByApnId (FindApnIdByApnName ty) = ty
      else FindApnIdByApnName ty = DATA_CONTEXT_ROLE_INVALID_ID)"
proof (rule conjI)
  have all: "list_all (\<lambda>j. FindApnIdByApnName (FindApnNameByApnId j) = j) [0..16]"
    by code_simp
  show "if 0 \<le> i \<and> i \<le> 16 then FindApnIdByApnName (FindApnNameByApnId i) = i
    else FindApnNameByApnId i = ''default''"
  proof (cases "0 \<le> i \<and> i \<le> 16")
    case True
    then have "i \<in> set [0..16]" by simp
    with all have "FindApnIdByApnName (FindApnNameByApnId i) = i" unfolding list_all_iff by blast
    then show ?thesis using True by simp
  next
    case False
    then show ?thesis by (auto simp: FindApnNameByApnId_def apnIdApnNameMap_def)
  qed
  have names: "list_all (\<lambda>n. FindApnNameByApnId (FindApnIdByApnName n) = n) (map fst apnIdApnNameMap)"
    by code_simp
  show "if ty \<in> set (map fst apnIdApnNameMap) then FindApnNameByApnId (FindApnIdByApnName ty) = ty
      else FindApnIdByApnName ty = DATA_CONTEXT_ROLE_INVALID_ID"
  proof (cases "ty \<in> set (map fst apnIdApnNameMap)")
    case True
    with names have "FindApnNameByApnId (FindApnIdByApnName ty) = ty" unfolding list_all_iff by blast
    then show ?thesis using True by simp
  next
    case False
    then have "map_of apnIdApnNameMap ty = None" by (simp add: map_of_eq_None_iff)
    then show ?thesis using False by (simp add: FindApnIdByApnName_def)
  qed
qed

text \<open>Net capability and role identifier translate into each other for every capability that
  a request can name, and an unknown capability has no role.\<close>

theorem capability_id_roundtrip:
  assumes "platform_ok P"
  shows "(if n \<in> NC P ` set capability_tests
          then FindApnIdByCapability P n \<noteq> DATA_CONTEXT_ROLE_INVALID_ID
            \<and> FindCapabilityByApnId P (FindApnIdByCapability P n) = n
          else FindApnIdByCapability P n = DATA_CONTEXT_ROLE_INVALID_ID)"
  using assms
  by (auto simp: capability_tests_def FindApnIdByCapability_def FindCapabilityByApnId_def)

theorem capability_id_roundtrip_witness:
  "FindCapabilityByApnId sample_platform (FindApnIdByCapability sample_platform 19) = 19"
proof -
  have "19 = NC sample_platform NET_CAPABILITY_BIP" by (simp add: sample_platform_def)
  then have "19 \<in> NC sample_platform ` set capability_tests"
    unfolding capability_tests_def by (simp add: image_def)
  with capability_id_roundtrip [OF sample_platform_ok, of 19] show ?thesis by (simp only: if_True)
qed

lemma HasNetCap_bit: "platform_ok P \<Longrightarrow> HasNetCap P caps c \<longleftrightarrow> bit caps (NC P c)"
  using NC_lt [of P c] and_exp_eq_0_iff_not_bit [of caps "NC P c"]
  by (simp add: HasNetCap_def push_bit_eq_mult)

lemma foldl_overwrite:
  "foldl (\<lambda>acc c. if Q c then c else acc) d xs = (case find Q (rev xs) of Some c \<Rightarrow> c | None \<Rightarrow> d)"
proof (induction xs rule: rev_induct)
  case (snoc x xs)
  then show ?case by simp
qed simp

text \<open>Of the capabilities requested in a mask, the best one is the last of the fixed test
  order whose bit is set: \<open>SNSSAI6\<close> before \<open>SNSSAI5\<close> down to the default capability
  \<open>INTERNET\<close>, and \<open>END\<close> when no bit of the list is set.\<close>

theorem FindBestCapability_spec:
  assumes "platform_ok P"
  shows "FindBestCapability P caps =
    (case find (\<lambda>c. bit caps (NC P c)) (rev capability_tests) of
       Some c \<Rightarrow> c | None \<Rightarrow> NET_CAPABILITY_END)"
  unfolding FindBestCapability_def foldl_overwrite using assms by (simp add: HasNetCap_bit)

theorem FindBestCapability_spec_witness:
  "FindBestCapability sample_platform 0x1001 = NET_CAPABILITY_MMS"
  using FindBestCapability_spec [OF sample_platform_ok, of "0x1001"]
  by (simp add: capability_tests_def sample_platform_def)

section \<open>The holder tables\<close>

text \<open>Consistency of the three holder containers with the store: same holders, sorted by
  decreasing priority, and the table from role identifiers leads to the holder of that role.\<close>

definition holders_wf :: "heap \<Rightarrow> ApnManager \<Rightarrow> bool" where
  "holders_wf hp am \<longleftrightarrow>
     mset (sortedApnHolders am) = mset (apnHolders am)
     \<and> sorted (map (\<lambda>p. - priority_of (h_holders hp) p) (sortedApnHolders am))
     \<and> (\<forall>p\<in>set (apnHolders am). \<exists>a h. p = Some a \<and> a < h_next hp \<and> h_holders hp a = Some h
          \<and> FindApnIdByApnName (apnType h) \<noteq> DATA_CONTEXT_ROLE_INVALID_ID)
     \<and> (\<forall>i p. apnIdApnHolderMap am i = Some p \<longrightarrow> p \<in> set (apnHolders am)
          \<and> (\<exists>a h. p = Some a \<and> h_holders hp a = Some h \<and> FindApnIdByApnName (apnType h) = i))
     \<and> (\<forall>p\<in>set (apnHolders am). \<forall>a h. p = Some a \<longrightarrow> h_holders hp a = Some h \<longrightarrow>
          apnIdApnHolderMap am (FindApnIdByApnName (apnType h)) \<noteq> None)"

lemma new_ApnManager_wf: "holders_wf hp new_ApnManager"
  by (simp add: holders_wf_def new_ApnManager_def)

lemma AddApnHolder_wf:
  assumes "holders_wf hp am" and "AddApnHolder ty prio (hp, am) = (hp', am')"
  shows "holders_wf hp' am'"
proof (cases "FindApnIdByApnName ty = DATA_CONTEXT_ROLE_INVALID_ID")
  case True
  with assms show ?thesis by (simp add: AddApnHolder_def)
next
  case False
  let ?a = "h_next hp"
  let ?h = "SetApnState PROFILE_STATE_IDLE (new_ApnHolder ty prio)"
  let ?H = "(h_holders hp)(?a \<mapsto> ?h)"
  have ty: "apnType ?h = ty" by (simp add: new_ApnHolder_def)
  from False assms(2) have hp': "h_holders hp' = ?H" "h_next hp' = ?a + 1"
    and am': "apnHolders am' = apnHolders am @ [Some ?a]"
      "sortedApnHolders am' = sort_key (\<lambda>p. - priority_of ?H p) (sortedApnHolders am @ [Some ?a])"
      "apnIdApnHolderMap am' = (if apnIdApnHolderMap am (FindApnIdByApnName ty) = None
         then (apnIdApnHolderMap am)(FindApnIdByApnName ty \<mapsto> Some ?a) else apnIdApnHolderMap am)"
    by (auto simp: AddApnHolder_def Let_def)
  have old: "\<exists>a h. p = Some a \<and> a < ?a \<and> h_holders hp a = Some h
      \<and> FindApnIdByApnName (apnType h) \<noteq> DATA_CONTEXT_ROLE_INVALID_ID" if "p \<in> set (apnHolders am)" for p
    using assms(1) that by (auto simp: holders_wf_def)
  have fresh: "Some ?a \<notin> set (apnHolders am)" using old by fastforce
  have keep: "h_holders hp a = Some h \<Longrightarrow> Some a \<in> set (apnHolders am) \<Longrightarrow> ?H a = Some h" for a h
    using old [of "Some a"] by auto
  have ex: "\<forall>p\<in>set (apnHolders am'). \<exists>a h. p = Some a \<and> a < h_next hp' \<and> h_holders hp' a = Some h
      \<and> FindApnIdByApnName (apnType h) \<noteq> DATA_CONTEXT_ROLE_INVALID_ID"
    using old keep False ty unfolding hp' am'(1) by fastforce
  have map1: "p \<in> set (apnHolders am')
      \<and> (\<exists>a h. p = Some a \<and> h_holders hp' a = Some h \<and> FindApnIdByApnName (apnType h) = i)"
    if "apnIdApnHolderMap am' i = Some p" for i p
    using that assms(1) keep ty unfolding holders_wf_def am'(1,3) hp' by (fastforce split: if_splits)
  have map2: "apnIdApnHolderMap am' (FindApnIdByApnName (apnType h)) \<noteq> None"
    if "Some a \<in> set (apnHolders am')" "h_holders hp' a = Some h" for a h
    using that assms(1) old [of "Some a"] ty unfolding holders_wf_def am'(1,3) hp'
    by (auto split: if_splits)
  show ?thesis
    unfolding holders_wf_def
  proof (intro conjI)
    show "mset (sortedApnHolders am') = mset (apnHolders am')"
      using assms(1) by (simp add: holders_wf_def am')
    show "sorted (map (\<lambda>p. - priority_of (h_holders hp') p) (sortedApnHolders am'))"
      unfolding am'(2) hp' by (rule sorted_sort_key)
  qed (use ex map1 map2 in auto)
qed

text \<open>The roles and priorities that \<open>InitApnHolders\<close> adds, in its order.\<close>

definition role_priorities :: "(string \<times> int) list" where
  "role_priorities =
     [(''default'', 1), (''mms'', 2), (''internal_default'', 0), (''xcap'', 2), (''dun'', 2),
      (''ia'', 3), (''supl'', 2), (''bip'', 2), (''snssai1'', 2), (''snssai2'', 2),
      (''snssai3'', 2), (''snssai4'', 2), (''snssai5'', 2), (''snssai6'', 2)]"

lemma InitApnHolders_fold:
  "InitApnHolders s = fold (\<lambda>(ty, prio). AddApnHolder ty prio) role_priorities s"
  by (simp add: InitApnHolders_def role_priorities_def Let_def)

text \<open>What holds after the holders for the roles \<open>rs\<close> were added, starting at address
  \<open>n\<close>.\<close>

definition holders_for :: "addr \<Rightarrow> (string \<times> int) list \<Rightarrow> heap \<Rightarrow> ApnManager \<Rightarrow> bool" where
  "holders_for n rs hp am \<longleftrightarrow>
     h_next hp = n + length rs
     \<and> apnHolders am = map (\<lambda>k. Some (n + k)) [0..<length rs]
     \<and> (\<forall>k<length rs. h_holders hp (n + k) =
          Some (SetApnState PROFILE_STATE_IDLE (new_ApnHolder (fst (rs ! k)) (snd (rs ! k)))))
     \<and> apnIdApnHolderMap am =
          map_of (map (\<lambda>k. (FindApnIdByApnName (fst (rs ! k)), Some (n + k))) [0..<length rs])"

lemma AddApnHolder_holders_for:
  assumes "holders_for n rs hp am"
    and "FindApnIdByApnName ty \<noteq> DATA_CONTEXT_ROLE_INVALID_ID"
    and "FindApnIdByApnName ty \<notin> (FindApnIdByApnName \<circ> fst) ` set rs"
    and "AddApnHolder ty prio (hp, am) = (hp', am')"
  shows "holders_for n (rs @ [(ty, prio)]) hp' am'"
proof -
  let ?ids = "map (\<lambda>k. (FindApnIdByApnName (fst (rs ! k)), Some (n + k))) [0..<length rs]"
  have new: "FindApnIdByApnName ty \<notin> fst ` set ?ids"
    using assms(3) by (force simp: in_set_conv_nth)
  then have none: "map_of ?ids (FindApnIdByApnName ty) = None" by (simp only: map_of_eq_None_iff not_False_eq_True)
  have ids: "map (\<lambda>k. (FindApnIdByApnName (fst ((rs @ [(ty, prio)]) ! k)), Some (n + k)))
      [0..<length (rs @ [(ty, prio)])] = ?ids @ [(FindApnIdByApnName ty, Some (n + length rs))]"
    by (simp add: nth_append)
  have mp: "map_of (?ids @ [(FindApnIdByApnName ty, Some (n + length rs))])
      = (map_of ?ids)(FindApnIdByApnName ty \<mapsto> Some (n + length rs))"
    using none by (intro ext) (auto simp: map_of_append map_add_def split: option.splits)
  show ?thesis
    unfolding holders_for_def ids mp
    using assms(1,2,4) none
    by (auto simp: holders_for_def AddApnHolder_def Let_def nth_append less_Suc_eq)
qed

lemma fold_AddApnHolder:
  assumes "holders_for n ds hp am" and "holders_wf hp am"
    and "distinct (map (FindApnIdByApnName \<circ> fst) (ds @ rs))"
    and "\<forall>r\<in>set rs. FindApnIdByApnName (fst r) \<noteq> DATA_CONTEXT_ROLE_INVALID_ID"
    and "fold (\<lambda>(ty, prio). AddApnHolder ty prio) rs (hp, am) = (hp', am')"
  shows "holders_for n (ds @ rs) hp' am' \<and> holders_wf hp' am'"
  using assms
proof (induction rs arbitrary: ds hp am)
  case (Cons r rs)
  obtain ty prio where r: "r = (ty, prio)" by (cases r)
  obtain hp1 am1 where s: "AddApnHolder ty prio (hp, am) = (hp1, am1)" by (cases "AddApnHolder ty prio (hp, am)")
  have "holders_for n (ds @ [(ty, prio)]) hp1 am1"
    using Cons.prems r s by (intro AddApnHolder_holders_for [OF Cons.prems(1)]) auto
  moreover have "holders_wf hp1 am1" using AddApnHolder_wf [OF Cons.prems(2) s] .
  ultimately show ?case using Cons.IH [of "ds @ [r]" hp1 am1] Cons.prems r s by simp
qed simp

lemma holders_for_lookup:
  assumes "holders_for n rs hp am" and "distinct (map (FindApnIdByApnName \<circ> fst) rs)" and "k < length rs"
  shows "apnIdApnHolderMap am (FindApnIdByApnName (fst (rs ! k))) = Some (Some (n + k))"
proof -
  have "map_of (map (\<lambda>k. (FindApnIdByApnName (fst (rs ! k)), Some (n + k))) [0..<length rs])
      (FindApnIdByApnName (fst (rs ! k))) = Some (Some (n + k))"
  proof (rule map_of_is_SomeI)
    have "map (\<lambda>k. FindApnIdByApnName (fst (rs ! k))) [0..<length rs] = map (FindApnIdByApnName \<circ> fst) rs"
      by (rule nth_equalityI) auto
    then show "distinct (map fst (map (\<lambda>k. (FindApnIdByApnName (fst (rs ! k)), Some (n + k))) [0..<length rs]))"
      using assms(2) by (simp add: comp_def)
    show "(FindApnIdByApnName (fst (rs ! k)), Some (n + k))
        \<in> set (map (\<lambda>k. (FindApnIdByApnName (fst (rs ! k)), Some (n + k))) [0..<length rs])"
      using assms(3) by force
  qed
  then show ?thesis using assms(1) by (simp add: holders_for_def)
qed

lemma role_priorities_ids:
  "distinct (map (FindApnIdByApnName \<circ> fst) role_priorities)"
  "\<forall>r\<in>set role_priorities. FindApnIdByApnName (fst r) \<noteq> DATA_CONTEXT_ROLE_INVALID_ID"
  by (simp_all add: role_priorities_def FindApnIdByApnName_def apnIdApnNameMap_def)

text \<open>Initialisation creates one idle holder per role with the role's priority; the three
  containers agree (the sorted one is a permutation of the list in decreasing priority), and both
  look-ups, by name and by identifier, lead to the role's own holder.\<close>

theorem InitApnHolders_tables:
  assumes "InitApnHolders (hp, new_ApnManager) = (hp', am')"
  shows "holders_wf hp' am' \<and> length (apnHolders am') = 14
    \<and> (\<forall>(ty, prio)\<in>set role_priorities. \<exists>a h.
         GetApnHolder am' ty = Some a \<and> FindApnHolderById am' (FindApnIdByApnName ty) = Some a
         \<and> h_holders hp' a = Some h \<and> apnType h = ty \<and> priority h = prio
         \<and> apnState h = PROFILE_STATE_IDLE)"
proof -
  have "holders_for (h_next hp) [] hp new_ApnManager"
    by (simp add: holders_for_def new_ApnManager_def)
  then have hf: "holders_for (h_next hp) role_priorities hp' am'" and wf: "holders_wf hp' am'"
    using fold_AddApnHolder [of "h_next hp" "[]" hp new_ApnManager role_priorities hp' am']
      role_priorities_ids new_ApnManager_wf assms by (simp_all add: InitApnHolders_fold)
  have "\<exists>a h. GetApnHolder am' ty = Some a \<and> FindApnHolderById am' (FindApnIdByApnName ty) = Some a
      \<and> h_holders hp' a = Some h \<and> apnType h = ty \<and> priority h = prio \<and> apnState h = PROFILE_STATE_IDLE"
    if r: "(ty, prio) \<in> set role_priorities" for ty prio
  proof -
    from r obtain k where k: "k < length role_priorities" "role_priorities ! k = (ty, prio)"
      by (auto simp: in_set_conv_nth)
    from holders_for_lookup [OF hf role_priorities_ids(1) k(1)] k(2)
    have m: "apnIdApnHolderMap am' (FindApnIdByApnName ty) = Some (Some (h_next hp + k))" by simp
    have i: "FindApnIdByApnName ty \<noteq> DATA_CONTEXT_ROLE_INVALID_ID"
      using role_priorities_ids(2) r by auto
    have "h_holders hp' (h_next hp + k) = Some (SetApnState PROFILE_STATE_IDLE (new_ApnHolder ty prio))"
      using hf k by (simp add: holders_for_def)
    with m i show ?thesis
      by (auto simp: GetApnHolder_def FindApnHolderById_def Let_def new_ApnHolder_def)
  qed
  moreover have "length (apnHolders am') = 14"
    using hf by (simp add: holders_for_def role_priorities_def)
  ultimately show ?thesis using wf by blast
qed

theorem InitApnHolders_tables_witness:
  "\<exists>hp' am' a h. InitApnHolders (\<lparr>h_items = Map.empty, h_holders = Map.empty, h_next = 0\<rparr>, new_ApnManager)
       = (hp', am')
    \<and> GetApnHolder am' ''ia'' = Some a \<and> h_holders hp' a = Some h \<and> priority h = 3"
proof -
  let ?s = "InitApnHolders (\<lparr>h_items = Map.empty, h_holders = Map.empty, h_next = 0\<rparr>, new_ApnManager)"
  have "(''ia'', 3) \<in> set role_priorities" by (simp add: role_priorities_def)
  with InitApnHolders_tables [of _ "fst ?s" "snd ?s"] show ?thesis
    by (fastforce intro!: exI [of _ "fst ?s"] exI [of _ "snd ?s"])
qed


section \<open>Merging of similar rows\<close>

lemma split_on_append:
  "a \<noteq> [] \<Longrightarrow> split_on c (a @ c # b) = split_on c a @ (if last a = c then [[]] else []) @ split_on c b"
proof (induction a)
  case (Cons d a)
  show ?case
  proof (cases "a = []")
    case False
    then have "split_on c a \<noteq> []" by (cases a) (auto split: list.splits)
    then obtain w ws where "split_on c a = w # ws" by (cases "split_on c a") auto
    with Cons False show ?thesis by simp
  qed simp
qed simp

definition role_tokens :: "PdpProfile \<Rightarrow> string set" where
  "role_tokens p = set (split_on CHR '','' (pp_apnTypes p))"

lemma tokens_append: "set (split_on c a) \<union> set (split_on c b) \<subseteq> set (split_on c (a @ c # b))"
  by (cases "a = []") (auto simp: split_on_append)

text \<open>A row takes over another one: same access point, at least the roles.\<close>

definition covers :: "PdpProfile \<Rightarrow> PdpProfile \<Rightarrow> bool" where
  "covers q' q \<longleftrightarrow> pp_apn q' = pp_apn q \<and> role_tokens q \<subseteq> role_tokens q'"

lemma covers_refl [simp]: "covers q q" by (simp add: covers_def)

lemma covers_trans: "covers r q \<Longrightarrow> covers q p \<Longrightarrow> covers r p" by (auto simp: covers_def)

abbreviation (input) "is_default p \<equiv> str_contains (pp_apnTypes p) ''default''"

lemma MergePdpProfile_proj:
  assumes "MergePdpProfile x y p = (x', y', p')"
  shows "pp_apn x' = pp_apn (if is_default y then y else x)"
    "pp_profileId x' = pp_profileId (if is_default y then y else x)"
    "pp_apnTypes x' = (if is_default y then pp_apnTypes y @ CHR '','' # pp_apnTypes x
       else pp_apnTypes x @ CHR '','' # pp_apnTypes y)"
    "y' = (if is_default y then x else y)"
    "p' = (if p = pp_profileId y' then pp_profileId x' else p)"
proof -
  have e: "x' = fst (MergePdpProfile x y p)" "y' = fst (snd (MergePdpProfile x y p))"
    "p' = snd (snd (MergePdpProfile x y p))" using assms by simp_all
  show "pp_apn x' = pp_apn (if is_default y then y else x)"
    "pp_profileId x' = pp_profileId (if is_default y then y else x)"
    "pp_apnTypes x' = (if is_default y then pp_apnTypes y @ CHR '','' # pp_apnTypes x
       else pp_apnTypes x @ CHR '','' # pp_apnTypes y)"
    "y' = (if is_default y then x else y)"
    "p' = (if p = pp_profileId y' then pp_profileId x' else p)"
    unfolding e by (cases "is_default y"; simp add: MergePdpProfile_def Let_def)+
qed

lemma MergePdpProfile_facts:
  assumes "IsSimilarPdpProfile x y" and "MergePdpProfile x y p = (x', y', p')"
  shows "covers x' x" "covers x' y" "\<not> is_default y'"
    "pp_profileId x' = (if is_default y then pp_profileId y else pp_profileId x)"
    "p' = (if p = (if is_default y then pp_profileId x else pp_profileId y) then pp_profileId x' else p)"
proof -
  note pr = MergePdpProfile_proj [OF assms(2)]
  have apn: "pp_apn x = pp_apn y" "\<not> (is_default x \<and> is_default y)"
    using assms(1) by (auto simp: IsSimilarPdpProfile_def split: if_splits)
  have "role_tokens x \<union> role_tokens y \<subseteq> role_tokens x'"
    unfolding role_tokens_def pr(3) using tokens_append [of "CHR '',''" "pp_apnTypes x" "pp_apnTypes y"]
      tokens_append [of "CHR '',''" "pp_apnTypes y" "pp_apnTypes x"] by auto
  then show "covers x' x" "covers x' y" using apn pr(1) by (auto simp: covers_def)
  show "\<not> is_default y'" using apn pr(4) by auto
  show "pp_profileId x' = (if is_default y then pp_profileId y else pp_profileId x)"
    "p' = (if p = (if is_default y then pp_profileId x else pp_profileId y) then pp_profileId x' else p)"
    using pr(2,4,5) by auto
qed

text \<open>Rows that were merged away are marked with identifier -1 and are never of the default
  role.\<close>

definition marked_ok :: "PdpProfile list \<Rightarrow> bool" where
  "marked_ok ys \<longleftrightarrow> (\<forall>y\<in>set ys. pp_profileId y = -1 \<longrightarrow> \<not> is_default y)"

definition kept :: "PdpProfile list \<Rightarrow> PdpProfile set" where
  "kept ys = {y \<in> set ys. pp_profileId y \<noteq> -1}"

lemma kept_Cons: "kept (y # ys) = (if pp_profileId y = -1 then kept ys else insert y (kept ys))"
  by (auto simp: kept_def)

text \<open>The preferred identifier follows the row that has it.\<close>

definition prefer_follows :: "int \<Rightarrow> PdpProfile set \<Rightarrow> int \<Rightarrow> PdpProfile set \<Rightarrow> bool" where
  "prefer_follows p S p' S' \<longleftrightarrow>
     (p \<noteq> -1 \<longrightarrow> (if p \<in> pp_profileId ` S then p' \<in> pp_profileId ` S' else p' = p))"

lemma prefer_follows_comp:
  assumes "prefer_follows p A p1 B" "prefer_follows p1 B p2 C"
    and "pp_profileId ` B \<subseteq> pp_profileId ` A" "-1 \<notin> pp_profileId ` B"
  shows "prefer_follows p A p2 C"
proof (cases "p = -1")
  case False
  show ?thesis
  proof (cases "p \<in> pp_profileId ` A")
    case True
    then have m: "p1 \<in> pp_profileId ` B" using assms(1) False by (simp add: prefer_follows_def)
    then have "p1 \<noteq> -1" using assms(4) by metis
    with m assms(2) True show ?thesis by (simp add: prefer_follows_def)
  next
    case out: False
    then have "p1 = p" using assms(1) False by (simp add: prefer_follows_def)
    moreover have "p \<notin> pp_profileId ` B" using out assms(3) by auto
    ultimately show ?thesis using assms(2) False out by (simp add: prefer_follows_def)
  qed
qed (simp add: prefer_follows_def)

lemma prefer_follows_insert:
  "prefer_follows p K p' R \<Longrightarrow> prefer_follows p (insert x K) p' (insert x R)"
  by (auto simp: prefer_follows_def split: if_splits)

lemma merge_row_facts:
  assumes "merge_row x ys p = (x', ys', p')" "marked_ok ys" "pp_profileId x \<noteq> -1"
  shows "marked_ok ys' \<and> pp_profileId x' \<noteq> -1 \<and> covers x' x
    \<and> (\<forall>q\<in>kept ys. \<exists>q'\<in>insert x' (kept ys'). covers q' q)
    \<and> prefer_follows p (insert x (kept ys)) p' (insert x' (kept ys'))
    \<and> pp_profileId ` insert x' (kept ys') \<subseteq> pp_profileId ` insert x (kept ys)"
  using assms
proof (induction ys arbitrary: x p x' ys' p')
  case Nil
  then show ?case by (simp add: marked_ok_def kept_def prefer_follows_def)
next
  case (Cons y ys)
  have ok: "marked_ok ys" "pp_profileId y = -1 \<longrightarrow> \<not> is_default y"
    using Cons.prems(2) by (auto simp: marked_ok_def)
  show ?case
  proof (cases "IsSimilarPdpProfile x y")
    case True
    obtain x1 y1 p1 where m: "MergePdpProfile x y p = (x1, y1, p1)" by (cases "MergePdpProfile x y p") auto
    obtain x2 ys2 p2 where r: "merge_row x1 ys p1 = (x2, ys2, p2)" by (cases "merge_row x1 ys p1") auto
    note f = MergePdpProfile_facts [OF True m]
    have e: "x' = x2" "ys' = y1 \<lparr>pp_profileId := -1\<rparr> # ys2" "p' = p2"
      using Cons.prems(1) True m r by auto
    have i: "pp_profileId x1 \<noteq> -1" using f(4) ok(2) Cons.prems(3) by auto
    note IH = Cons.IH [OF r ok(1) i]
    have k: "kept ys' = kept ys2" unfolding e by (simp add: kept_Cons)
    have s1: "prefer_follows p (insert x (kept (y # ys))) p1 (insert x1 (kept ys))"
      using f(4,5) ok(2) Cons.prems(3) by (auto simp: prefer_follows_def kept_Cons split: if_splits)
    have s2: "pp_profileId ` insert x1 (kept ys) \<subseteq> pp_profileId ` insert x (kept (y # ys))"
      using f(4) ok(2) by (auto simp: kept_Cons)
    have s3: "-1 \<notin> pp_profileId ` insert x1 (kept ys)" using i by (auto simp: kept_def)
    have s4: "\<exists>q'\<in>insert x2 (kept ys2). covers q' q" if "q \<in> kept (y # ys)" for q
      using that IH covers_trans [OF _ f(2), of x2] by (auto simp: kept_Cons split: if_splits)
    show ?thesis
    proof (intro conjI)
      show "marked_ok ys'" unfolding e using IH f(3) by (simp add: marked_ok_def)
      show "pp_profileId x' \<noteq> -1" unfolding e using IH by blast
      show "covers x' x" unfolding e by (rule covers_trans [OF _ f(1)]) (use IH in blast)
      show "\<forall>q\<in>kept (y # ys). \<exists>q'\<in>insert x' (kept ys'). covers q' q" unfolding k e(1,3)
        by (rule ballI) (rule s4)
      show "prefer_follows p (insert x (kept (y # ys))) p' (insert x' (kept ys'))"
        unfolding k e(1,3) by (rule prefer_follows_comp [OF s1 _ s2 s3]) (use IH in blast)
      show "pp_profileId ` insert x' (kept ys') \<subseteq> pp_profileId ` insert x (kept (y # ys))"
        unfolding k e(1,3) using IH s2
        by (meson order_trans)
    qed
  next
    case False
    obtain x2 ys2 p2 where r: "merge_row x ys p = (x2, ys2, p2)" by (cases "merge_row x ys p") auto
    have e: "x' = x2" "ys' = y # ys2" "p' = p2" using Cons.prems(1) False r by auto
    note IH = Cons.IH [OF r ok(1) Cons.prems(3)]
    have "marked_ok ys'" unfolding e using IH ok(2) by (simp add: marked_ok_def)
    moreover have "prefer_follows p (insert x (kept (y # ys))) p2 (insert x2 (kept (y # ys2)))"
      using IH prefer_follows_insert [of p "insert x (kept ys)" p2 "insert x2 (kept ys2)" y]
      by (simp add: kept_Cons insert_commute)
    ultimately show ?thesis unfolding e using IH by (auto simp: kept_Cons)
  qed
qed

lemma TryMerge_facts:
  assumes "TryMergeSimilarPdpProfile xs p = (rs, p')" "marked_ok xs"
  shows "(\<forall>r\<in>set rs. pp_profileId r \<noteq> -1) \<and> length rs \<le> length xs
    \<and> (\<forall>q\<in>kept xs. \<exists>q'\<in>set rs. covers q' q) \<and> prefer_follows p (kept xs) p' (set rs)"
  using assms
proof (induction xs p arbitrary: rs p' rule: TryMergeSimilarPdpProfile.induct)
  case (1 p)
  then show ?case by (simp add: kept_def prefer_follows_def)
next
  case (2 x xs p)
  show ?case
  proof (cases "pp_profileId x = -1")
    case True
    with 2 show ?thesis by (force simp: kept_Cons marked_ok_def)
  next
    case False
    obtain x1 xs1 p1 where m: "merge_row x xs p = (x1, xs1, p1)" by (cases "merge_row x xs p") auto
    obtain rs1 p2 where t: "TryMergeSimilarPdpProfile xs1 p1 = (rs1, p2)"
      by (cases "TryMergeSimilarPdpProfile xs1 p1") auto
    have e: "rs = x1 # rs1" "p' = p2" using 2(3) False m t by auto
    have ok: "marked_ok xs" using 2(4) by (simp add: marked_ok_def)
    note f = merge_row_facts [OF m ok False]
    have IH: "(\<forall>r\<in>set rs1. pp_profileId r \<noteq> -1) \<and> length rs1 \<le> length xs1
        \<and> (\<forall>q\<in>kept xs1. \<exists>q'\<in>set rs1. covers q' q) \<and> prefer_follows p1 (kept xs1) p2 (set rs1)"
      using 2(2) [OF False m [symmetric] refl t] f by simp
    have c: "\<exists>q'\<in>set rs. covers q' q" if "q \<in> kept (x # xs)" for q
    proof -
      from that f have "\<exists>q'\<in>insert x1 (kept xs1). covers q' q" by (auto simp: kept_Cons split: if_splits)
      then obtain q1 where q1: "q1 \<in> insert x1 (kept xs1)" "covers q1 q" by blast
      then show ?thesis
      proof (cases "q1 = x1")
        case False
        with q1 IH obtain q2 where "q2 \<in> set rs1" "covers q2 q1" by auto
        with q1(2) show ?thesis unfolding e using covers_trans by auto
      qed (use q1 e in auto)
    qed
    have k: "kept (x # xs) = insert x (kept xs)" using False by (simp add: kept_Cons)
    have "prefer_follows p (kept (x # xs)) p2 (set rs)"
      unfolding k e list.set
    proof (rule prefer_follows_comp)
      show "prefer_follows p (insert x (kept xs)) p1 (insert x1 (kept xs1))"
        "pp_profileId ` insert x1 (kept xs1) \<subseteq> pp_profileId ` insert x (kept xs)" using f by blast+
      show "-1 \<notin> pp_profileId ` insert x1 (kept xs1)" using f by (auto simp: kept_def)
      show "prefer_follows p1 (insert x1 (kept xs1)) p2 (insert x1 (set rs1))"
        using IH prefer_follows_insert by blast
    qed
    with c IH f show ?thesis unfolding e using merge_row_length [OF m] by auto
  qed
qed

text \<open>C37: merging similar rows loses nothing: every row of the database is taken over by a
  remaining row with the same access point name that has all of its roles, no more rows remain than
  there were, and a preferred row keeps a representative that \<open>preferId_\<close> names.\<close>

theorem TryMerge_conserves_roles:
  assumes "\<forall>r\<in>set rows. pp_profileId r \<noteq> -1"
    and "TryMergeSimilarPdpProfile rows prefer = (rs, prefer')"
  shows "(\<forall>q\<in>set rows. \<exists>q'\<in>set rs. pp_apn q' = pp_apn q \<and> role_tokens q \<subseteq> role_tokens q')
    \<and> length rs \<le> length rows \<and> (\<forall>r\<in>set rs. pp_profileId r \<noteq> -1)
    \<and> (prefer \<in> pp_profileId ` set rows \<longrightarrow> prefer' \<in> pp_profileId ` set rs)"
proof -
  have "marked_ok rows" "kept rows = set rows" using assms(1) by (auto simp: marked_ok_def kept_def)
  with TryMerge_facts [OF assms(2)] assms(1) show ?thesis
    by (auto simp: prefer_follows_def covers_def split: if_splits)
qed

definition sample_row :: "int \<Rightarrow> string \<Rightarrow> PdpProfile" where
  "sample_row i ty = \<lparr>pp_profileId = i, pp_profileName = ''n'', pp_mcc = ''460'', pp_mnc = ''01'',
     pp_apn = ''net'', pp_authType = 0, pp_authUser = '''', pp_authPwd = '''', pp_apnTypes = ty,
     pp_isRoamingApn = False, pp_homeUrl = '''', pp_proxyIpAddress = '''', pp_mmsIpAddress = '''',
     pp_pdpProtocol = ''IP'', pp_roamPdpProtocol = ''IP'', pp_mvnoType = '''',
     pp_mvnoMatchData = '''', pp_edited = False\<rparr>"

theorem TryMerge_conserves_roles_witness:
  "\<exists>rs prefer'. TryMergeSimilarPdpProfile [sample_row 1 ''mms'', sample_row 2 ''default'', sample_row 3 ''dun''] 1
      = (rs, prefer') \<and> prefer' \<in> pp_profileId ` set rs \<and> (\<exists>q\<in>set rs. ''mms'' \<in> role_tokens q)"
proof -
  let ?rows = "[sample_row 1 ''mms'', sample_row 2 ''default'', sample_row 3 ''dun'']"
  obtain rs p where r: "TryMergeSimilarPdpProfile ?rows 1 = (rs, p)"
    by (cases "TryMergeSimilarPdpProfile ?rows 1")
  have "\<forall>r\<in>set ?rows. pp_profileId r \<noteq> -1" by (simp add: sample_row_def)
  note c = TryMerge_conserves_roles [OF this r]
  have "''mms'' \<in> role_tokens (sample_row 1 ''mms'')" by (simp add: role_tokens_def sample_row_def)
  with c have "\<exists>q\<in>set rs. ''mms'' \<in> role_tokens q" by auto
  moreover have "p \<in> pp_profileId ` set rs" using c by (simp add: sample_row_def)
  ultimately show ?thesis using r by auto
qed

section \<open>Building the item list\<close>

lemma MakeApn_total: "\<exists>r. MakeApn p = Some r"
  by (simp add: MakeApn_def)

text \<open>Invariant of the loop of \<open>MakeSpecificApnItem\<close>.\<close>

definition building :: "heap \<Rightarrow> heap \<times> ptr list \<times> int \<Rightarrow> bool" where
  "building hp0 s \<longleftrightarrow> (case s of (hp, all, cnt) \<Rightarrow>
     cnt = int (length all) \<and> valid_apns (h_items hp) all \<and> distinct all
     \<and> h_holders hp = h_holders hp0 \<and> h_next hp0 \<le> h_next hp
     \<and> (\<forall>p\<in>set all. \<exists>a. p = Some a \<and> h_next hp0 \<le> a \<and> a < h_next hp)
     \<and> (\<forall>a<h_next hp0. h_items hp a = h_items hp0 a))"

lemma make_item_step_building:
  assumes "building hp0 s"
  shows "\<exists>s'. make_item_step prefer row s = Some s' \<and> building hp0 s'"
proof -
  obtain hp all cnt where s: "s = (hp, all, cnt)" by (cases s)
  let ?row = "if pp_profileId row = prefer \<and> pp_apnTypes row = [] then row \<lparr>pp_apnTypes := ''default''\<rparr> else row"
  obtain r where r: "MakeApn ?row = Some r" using MakeApn_total by blast
  show ?thesis
  proof (cases r)
    case None
    with r s assms show ?thesis by (simp add: make_item_step_def)
  next
    case (Some it)
    let ?hp = "hp \<lparr>h_items := (h_items hp)(h_next hp \<mapsto> it), h_next := h_next hp + 1\<rparr>"
    have "make_item_step prefer row s = Some (?hp, all @ [Some (h_next hp)], cnt + 1)"
      using r s Some by (simp add: make_item_step_def alloc_item_def)
    moreover have "building hp0 (?hp, all @ [Some (h_next hp)], cnt + 1)"
      using assms s by (fastforce simp: building_def valid_apns_def)
    ultimately show ?thesis by blast
  qed
qed

lemma make_items_building:
  "\<exists>s'. foldo (make_item_step prefer) rows (hp, [], 0) = Some s' \<and> building hp s'"
proof (rule foldo_total)
  show "building hp (hp, [], 0)" by (simp add: building_def valid_apns_def)
qed (rule make_item_step_building)

lemma move_first_set [simp]: "mset (move_first Q xs) = mset xs"
  by (auto split: option.splits dest: find_Some_set)

lemma move_first_hd: "\<exists>x\<in>set xs. Q x \<Longrightarrow> move_first Q xs \<noteq> [] \<and> Q (hd (move_first Q xs))"
  by (auto split: option.splits simp: find_None_iff_all dest: find_Some_set)

declare move_first.simps [simp del]

text \<open>Building the items of a query result always returns; the number it reports is the
  number of items in the list; every pointer of the list is a fresh item of the store, older items
  and all holders are untouched; and an item with the preferred identifier, if there is one, is
  first.\<close>

theorem MakeSpecificApnItem_spec:
  "\<exists>cnt hp' am'. MakeSpecificApnItem rows (hp, am) = Some (cnt, hp', am')
    \<and> cnt = int (length (allApnItem am')) \<and> valid_apns (h_items hp') (allApnItem am')
    \<and> distinct (allApnItem am') \<and> h_holders hp' = h_holders hp
    \<and> (\<forall>a<h_next hp. h_items hp' a = h_items hp a)
    \<and> ((\<exists>p\<in>set (allApnItem am'). is_profile (h_items hp') (preferId am') p) \<longrightarrow>
         is_profile (h_items hp') (preferId am') (hd (allApnItem am')))"
proof -
  obtain rs pid where t: "TryMergeSimilarPdpProfile rows (preferId am) = (rs, pid)"
    by (cases "TryMergeSimilarPdpProfile rows (preferId am)")
  obtain hp' all cnt where f: "foldo (make_item_step pid) rs (hp, [], 0) = Some (hp', all, cnt)"
    and b: "building hp (hp', all, cnt)" using make_items_building by (metis prod_cases3)
  let ?all = "move_first (is_profile (h_items hp') pid) all"
  have m: "mset ?all = mset all" by simp
  then have "set ?all = set all" "length ?all = length all" "distinct ?all = distinct all"
    by (metis set_mset_mset, metis size_mset, metis mset_eq_imp_distinct_iff)
  then show ?thesis
    using t f b move_first_hd [of all "is_profile (h_items hp') pid"]
    by (auto simp: MakeSpecificApnItem_def building_def valid_apns_def)
qed

theorem MakeSpecificApnItem_spec_witness:
  "\<exists>cnt hp' am'. MakeSpecificApnItem [sample_row 1 ''mms'', sample_row 2 ''default'']
      (\<lparr>h_items = Map.empty, h_holders = Map.empty, h_next = 0\<rparr>, new_ApnManager \<lparr>preferId := 2\<rparr>)
      = Some (cnt, hp', am') \<and> cnt = int (length (allApnItem am'))"
  using MakeSpecificApnItem_spec [of "[sample_row 1 ''mms'', sample_row 2 ''default'']"
      "\<lparr>h_items = Map.empty, h_holders = Map.empty, h_next = 0\<rparr>" "new_ApnManager \<lparr>preferId := 2\<rparr>"]
  by blast

section \<open>Candidates\<close>

lemma filter_items_valid:
  "valid_apns items ps \<Longrightarrow> filter_items items Q ps = Some (filter (\<lambda>p. Q (the (deref items p))) ps)"
  by (induction ps) (auto simp: valid_apns_def)

lemma find_item_valid:
  "valid_apns items ps \<Longrightarrow>
   find_item items Q ps = Some (case find (\<lambda>p. Q (the (deref items p))) ps of None \<Rightarrow> None | Some p \<Rightarrow> p)"
  by (induction ps) (auto simp: valid_apns_def)

text \<open>The candidates for a role always exist as a list, each is an item of the database that
  serves the role, in the order of the item list; for a role other than \<open>dun\<close> and \<open>bip\<close>
  they are all such items, for \<open>bip\<close> at most one.\<close>

theorem FilterMatchedApns_sound:
  assumes "valid_apns items (allApnItem am)"
  shows "\<exists>ps. FilterMatchedApns e items ty slotId am = Some ps \<and> subseq ps (allApnItem am)
    \<and> (\<forall>p\<in>set ps. \<exists>it. deref items p = Some it \<and> CanDealWithType it ty)
    \<and> (ty \<notin> {''dun'', ''bip''} \<longrightarrow>
         (\<forall>p\<in>set (allApnItem am). \<forall>it. deref items p = Some it \<and> CanDealWithType it ty \<longrightarrow> p \<in> set ps))
    \<and> (ty = ''bip'' \<longrightarrow> length ps \<le> 1)"
proof -
  have valid: "deref items p \<noteq> None" if "p \<in> set (allApnItem am)" for p
    using assms that by (auto simp: valid_apns_def)
  have all: "\<exists>ps. filter_items items (\<lambda>it. CanDealWithType it ty) (allApnItem am) = Some ps
      \<and> subseq ps (allApnItem am)
      \<and> (\<forall>p\<in>set ps. \<exists>it. deref items p = Some it \<and> CanDealWithType it ty)
      \<and> (\<forall>p\<in>set (allApnItem am). \<forall>it. deref items p = Some it \<and> CanDealWithType it ty \<longrightarrow> p \<in> set ps)"
    using valid by (fastforce simp: filter_items_valid [OF assms])
  have one: "subseq [p] (allApnItem am)" if "p \<in> set (allApnItem am)" for p
    using that by (simp add: subseq_singleton_left)
  consider (dun) "ty = ''dun''" | (bip) "ty = ''bip''" | (other) "ty \<notin> {''dun'', ''bip''}" by auto
  then show ?thesis
  proof cases
    case dun
    let ?pref = "case find (is_profile items (preferId am)) (allApnItem am) of None \<Rightarrow> None | Some p \<Rightarrow> p"
    have pref: "?pref \<in> set (allApnItem am)" if "deref items ?pref \<noteq> None"
      using that by (auto split: option.splits dest: find_Some_set)
    obtain ed where "IsPreferredApnUserEdited items am = Some ed"
      by (simp add: IsPreferredApnUserEdited_def find_item_valid [OF assms])
    then show ?thesis
      using dun all pref one [OF pref]
      by (auto simp: FilterMatchedApns_def FetchDunApns_def Let_def split: option.splits)
  next
    case bip
    have "\<exists>it. items a = Some it \<and> CanDealWithType it ''bip''"
      if "Some a \<in> set (allApnItem am)" "CanDealWithType (the (items a)) ''bip''" for a
      using valid [OF that(1)] that(2) by auto
    with bip show ?thesis
      using one
      by (auto simp: FilterMatchedApns_def FetchBipApns_def find_item_valid [OF assms]
          split: option.splits dest!: find_Some_set)
  next
    case other
    then show ?thesis using all by (auto simp: FilterMatchedApns_def)
  qed
qed

theorem FilterMatchedApns_sound_witness:
  "\<exists>ps. FilterMatchedApns sample_env [3 \<mapsto> new_ApnItem \<lparr>it_apnTypes := [''default'', ''MMS'']\<rparr>] ''mms'' 0
      (new_ApnManager \<lparr>allApnItem := [Some 3]\<rparr>) = Some ps \<and> Some 3 \<in> set ps"
proof -
  let ?it = "new_ApnItem \<lparr>it_apnTypes := [''default'', ''MMS'']\<rparr>"
  let ?am = "new_ApnManager \<lparr>allApnItem := [Some 3]\<rparr>"
  have v: "valid_apns [3 \<mapsto> ?it] (allApnItem ?am)" by (simp add: valid_apns_def)
  have "CanDealWithType ?it ''mms''"
    by code_simp
  with FilterMatchedApns_sound [OF v, of sample_env "''mms''" 0] show ?thesis by auto
qed

section \<open>Overall state\<close>

lemma overall_loop_cases:
  "overall_loop hs f =
    (if \<exists>h\<in>set hs. apnState h \<in> {PROFILE_STATE_CONNECTING, PROFILE_STATE_RETRYING} then PROFILE_STATE_CONNECTING
     else if f \<or> (\<exists>h\<in>set hs. apnState h = PROFILE_STATE_IDLE) then PROFILE_STATE_IDLE
     else PROFILE_STATE_FAILED)"
  by (induction hs f rule: overall_loop.induct) auto

text \<open>The overall state is the strongest state of any holder: connected when one is connected
  or disconnecting, else connecting when one is connecting or retrying, else idle when one is idle
  (or there is no holder), and failed only when every holder has failed.\<close>

theorem GetOverallApnState_spec:
  assumes "\<forall>p\<in>set (apnHolders am). \<exists>h. deref holders p = Some h"
  defines "has \<equiv> (\<lambda>S. \<exists>p\<in>set (apnHolders am). \<exists>h. deref holders p = Some h \<and> apnState h \<in> S)"
  shows "GetOverallApnState holders am =
    (if has {PROFILE_STATE_CONNECTED, PROFILE_STATE_DISCONNECTING} then PROFILE_STATE_CONNECTED
     else if has {PROFILE_STATE_CONNECTING, PROFILE_STATE_RETRYING} then PROFILE_STATE_CONNECTING
     else if apnHolders am = [] \<or> has {PROFILE_STATE_IDLE} then PROFILE_STATE_IDLE
     else PROFILE_STATE_FAILED)"
proof -
  let ?D = "{h. \<exists>p\<in>set (apnHolders am). deref holders p = Some h}"
  have live: "set (live_holders holders (apnHolders am)) = ?D"
    by (force simp: live_holders_def List.map_filter_def)
  have has: "has S \<longleftrightarrow> (\<exists>h\<in>?D. apnState h \<in> S)" for S unfolding has_def by blast
  show ?thesis
  proof (cases "apnHolders am = []")
    case False
    then show ?thesis
      unfolding GetOverallApnState_def HasAnyConnectedState_def overall_loop_cases list_ex_iff live has
      by (simp only: insert_iff empty_iff simp_thms if_False)
  qed (simp add: has GetOverallApnState_def)
qed

theorem GetOverallApnState_spec_witness:
  "GetOverallApnState [1 \<mapsto> (new_ApnHolder ''mms'' 2) \<lparr>apnState := PROFILE_STATE_RETRYING\<rparr>,
      2 \<mapsto> new_ApnHolder ''default'' 1] (new_ApnManager \<lparr>apnHolders := [Some 2, Some 1]\<rparr>)
    = PROFILE_STATE_CONNECTING"
  using GetOverallApnState_spec [of "new_ApnManager \<lparr>apnHolders := [Some 2, Some 1]\<rparr>"
      "[1 \<mapsto> (new_ApnHolder ''mms'' 2) \<lparr>apnState := PROFILE_STATE_RETRYING\<rparr>, 2 \<mapsto> new_ApnHolder ''default'' 1]"]
  by (simp add: new_ApnHolder_def)


end
