(* ===== verification/Data_State_Machine.thy ===== *)
theory Data_State_Machine
  imports State_Machine Net_Agent Connection_Tables Apn_Manager
begin

text \<open>
  The data connection state machine: \<open>services/src/state_machine/cellular_data_state_machine.cpp\<close>
  and its states \<open>default.cpp\<close>, \<open>inactive.cpp\<close>, \<open>activating.cpp\<close>,
  \<open>active.cpp\<close> and \<open>disconnecting.cpp\<close>, as an instance of the hierarchical machine of
  \<open>State_Machine\<close>. The data record holds the members of the machine and of its state objects,
  and what a machine shares with the rest of the program: the net agent, the connection tables of
  its slot, the store of APN items and holders, the pending delayed events of its own queue
  (\<open>timers\<close>) and the calls it makes (\<open>fx\<close>).
\<close>

section \<open>State\<close>

datatype cds = DefaultState | InactiveState | ActivatingState | ActiveState | DisconnectingState

record sm_data =
  sm_self :: addr
  sm_cid :: int
  sm_capability :: nat
  sm_apnItem :: ptr
  sm_apnId :: int
  sm_upBandwidth :: int
  sm_downBandwidth :: int
  sm_tcpBuffer :: string
  connectId :: "32 word"
  sm_cause :: int
  sm_ipType :: string
  startTimeConnectTimeoutTask :: int
  sm_ifName :: string
  reuseApnCap :: nat
  currentState :: "cds option"
  netLinkInfo :: NetLinkInfo
  netSupplierInfo :: NetSupplierInfo
  deActiveApnTypeId :: int
  resultInfo :: "SetupDataCallResultInfo option"
  rilSetChdataErrCnt :: int
  agent :: NetAgent
  tables :: ConnectionTables
  mem :: heap
  timers :: "(sm_event \<times> int) list"
  fx :: "effect list"

type_synonym cdsm = "(cds, sm_event, sm_data) hsm"

abbreviation (input) "PROCESSED \<equiv> True"
abbreviation (input) "INTERFACE_DOWN_TIMEOUT \<equiv> (2000::int)"
abbreviation (input) "INVALID_MTU_VALUE \<equiv> (-1::int)"
abbreviation (input) "DEFAULT_HOSTNAME \<equiv> ''''"
abbreviation (input) "DEFAULT_MASK \<equiv> ''''"
abbreviation (input) "DEFAULT_PORT \<equiv> (0::int)"
abbreviation (input) "DEFAULT_INTERNET_CONNECTION_SCORE \<equiv> (60::int)"
abbreviation (input) "OTHER_CONNECTION_SCORE \<equiv> (55::int)"
abbreviation (input) "MAX_ERR_SET_CHDATA_CNT \<equiv> (5::int)"
abbreviation (input) "KEY_MTU_SIZE_STRING \<equiv> ''KEY_MTU_SIZE_STRING''"

text \<open>A new machine: the constructor, and the objects that \<open>Init\<close> creates.\<close>

definition new_sm_data ::
  "platform \<Rightarrow> env \<Rightarrow> addr \<Rightarrow> NetAgent \<Rightarrow> ConnectionTables \<Rightarrow> heap \<Rightarrow> sm_data" where
  "new_sm_data P e self ag t h = \<lparr>sm_self = self, sm_cid = 0, sm_capability = 0, sm_apnItem = None,
     sm_apnId = 0, sm_upBandwidth = 0, sm_downBandwidth = 0, sm_tcpBuffer = '''', connectId = 0,
     sm_cause = 0, sm_ipType = '''', startTimeConnectTimeoutTask = 0, sm_ifName = '''',
     reuseApnCap = NC P NET_CAPABILITY_END, currentState = None, netLinkInfo = empty_NetLinkInfo e,
     netSupplierInfo = empty_NetSupplierInfo e, deActiveApnTypeId = ERROR_APN_ID, resultInfo = None,
     rilSetChdataErrCnt = 0, agent = ag, tables = t, mem = h, timers = [], fx = []\<rparr>"

definition Init ::
  "platform \<Rightarrow> env \<Rightarrow> addr \<Rightarrow> NetAgent \<Rightarrow> ConnectionTables \<Rightarrow> heap \<Rightarrow> cdsm" where
  "Init P e self ag t h = SetOriginalState InactiveState (new_hsm (new_sm_data P e self ag t h))"

definition upd :: "(sm_data \<Rightarrow> sm_data) \<Rightarrow> cdsm \<Rightarrow> cdsm" where
  "upd f s = s \<lparr>dat := f (dat s)\<rparr>"

definition emit :: "effect list \<Rightarrow> sm_data \<Rightarrow> sm_data" where
  "emit es d = d \<lparr>fx := fx d @ es\<rparr>"

definition SendTimer :: "sm_event \<Rightarrow> int \<Rightarrow> sm_data \<Rightarrow> sm_data" where
  "SendTimer ev delay d = d \<lparr>timers := timers d @ [(ev, delay)]\<rparr>"

fun is_connect_timer :: "sm_event \<Rightarrow> bool" where
  "is_connect_timer (MSG_CONNECT_TIMEOUT_CHECK i) = True"
| "is_connect_timer _ = False"

fun is_disconnect_timer :: "sm_event \<Rightarrow> bool" where
  "is_disconnect_timer (MSG_DISCONNECT_TIMEOUT_CHECK i) = True"
| "is_disconnect_timer _ = False"

definition RemoveTimer :: "(sm_event \<Rightarrow> bool) \<Rightarrow> sm_data \<Rightarrow> sm_data" where
  "RemoveTimer p d = d \<lparr>timers := filter (\<lambda>(ev, delay). \<not> p ev) (timers d)\<rparr>"

definition IsInactiveState :: "sm_data \<Rightarrow> bool" where
  "IsInactiveState d \<longleftrightarrow> currentState d = Some InactiveState"

definition IsActivatingState :: "sm_data \<Rightarrow> bool" where
  "IsActivatingState d \<longleftrightarrow> currentState d = Some ActivatingState"

definition IsDisconnectingState :: "sm_data \<Rightarrow> bool" where
  "IsDisconnectingState d \<longleftrightarrow> currentState d = Some DisconnectingState"

definition IsActiveState :: "sm_data \<Rightarrow> bool" where
  "IsActiveState d \<longleftrightarrow> currentState d = Some ActiveState"

abbreviation (input) "sm_slotId d \<equiv> ct_slotId (tables d)"

section \<open>Connecting and disconnecting\<close>

definition FillActivateDataParam :: "Attribute \<Rightarrow> ActivateDataParam \<Rightarrow> ActivateDataParam" where
  "FillActivateDataParam at p = p \<lparr>ad_profileId := at_profileId at, ad_apn := at_apn at,
     ad_protocol := at_protocol at, ad_verType := at_authType at, ad_userName := at_user at,
     ad_password := at_password at, ad_roamingProtocol := at_roamingProtocol at\<rparr>"

text \<open>Copy into a zero-filled buffer of \<open>ALL_APN_ITEM_CHAR_LENGTH\<close> bytes, cut to fit.\<close>

definition fill_copy :: "string \<Rightarrow> string" where
  "fill_copy s = c_str (take (ALL_APN_ITEM_CHAR_LENGTH - 1) s)"

definition para :: "(string \<times> string) list \<Rightarrow> string \<Rightarrow> string" where
  "para m k = (case map_of m k of Some v \<Rightarrow> v | None \<Rightarrow> '''')"

definition FillRSDFromNetCap :: "(string \<times> string) list \<Rightarrow> ApnItem \<Rightarrow> ApnItem" where
  "FillRSDFromNetCap m it =
     (let a0 = it_attr it;
          a1 = (if para m ''sscmode'' \<noteq> ''0''
                then a0 \<lparr>at_sscMode := snd (from_chars_parse True (- (2 ^ 31)) (2 ^ 31 - 1)
                       (para m ''sscmode'') 0) mod 256\<rparr> else a0);
          a2 = (if para m ''snssai'' \<noteq> '''' then a1 \<lparr>at_snssai := fill_copy (para m ''snssai'')\<rparr> else a1);
          a3 = (if para m ''dnn'' \<noteq> '''' then a2 \<lparr>at_apn := fill_copy (para m ''dnn'')\<rparr> else a2);
          a4 = (if para m ''pdusessiontype'' \<noteq> ''0''
                then a3 \<lparr>at_protocol := fill_copy (para m ''pdusessiontype'')\<rparr> else a3)
      in it \<lparr>it_attr := a4\<rparr>)"

definition GetNetworkSlicePara :: "platform \<Rightarrow> env \<Rightarrow> string \<Rightarrow> ApnItem \<Rightarrow> ApnItem" where
  "GetNetworkSlicePara P e ty it =
     (case NetworkStatusOf e 0 of (radioTech, nrState) \<Rightarrow>
      if \<not> (radioTech = RADIO_TECHNOLOGY_NR \<and> nrState = NR_NSA_STATE_SA_ATTACHED) then it
      else
        let dnn = at_apn (it_attr it)
        in if str_contains ty ''snssai'' then
             FillRSDFromNetCap (RSDByNetCap e (int (FindCapabilityByApnId P (FindApnIdByApnName ty)))) it
           else if dnn \<noteq> '''' then
             (case RSDByDNN e dnn of (snssai, sscMode) \<Rightarrow>
                let a = (it_attr it) \<lparr>at_sscMode := sscMode mod 256\<rparr>
                in it \<lparr>it_attr := (if snssai \<noteq> '''' then a \<lparr>at_snssai := fill_copy snssai\<rparr> else a)\<rparr>)
           else it)"

text \<open>The item after the slice parameters were written into it, and the request to the modem.\<close>

definition slice_item :: "platform \<Rightarrow> env \<Rightarrow> string \<Rightarrow> ApnItem \<Rightarrow> ApnItem" where
  "slice_item P e ty it = (if supportNrSlice e then GetNetworkSlicePara P e ty it else it)"

definition activate_param ::
  "platform \<Rightarrow> env \<Rightarrow> DataConnectionParams \<Rightarrow> string \<Rightarrow> ApnItem \<Rightarrow> sm_data \<Rightarrow> ActivateDataParam" where
  "activate_param P e params ty it d =
     (let p0 = (empty_ActivateDataParam e) \<lparr>ad_param := sint (connectId d),
            ad_radioTechnology := PsRadioTech e (sm_slotId d),
            ad_allowRoaming := dc_roamingState params, ad_isRoaming := dc_userRoaming params\<rparr>;
          p1 = FillActivateDataParam (it_attr it) p0;
          a = it_attr (slice_item P e ty it);
          p2 = (if supportNrSlice e
                then p1 \<lparr>ad_snssai := at_snssai a, ad_sscMode := at_sscMode a, ad_apn := at_apn a,
                         ad_protocol := at_protocol a\<rparr> else p1)
      in p2 \<lparr>ad_supportedApnTypesBitmap := FindApnTypeByApnName ty\<rparr>)"

definition DoConnect :: "platform \<Rightarrow> env \<Rightarrow> DataConnectionParams \<Rightarrow> sm_data \<Rightarrow> sm_data" where
  "DoConnect P e params d =
     (case deref (h_holders (mem d)) (dc_apnHolder params) of
        None \<Rightarrow> d
      | Some h \<Rightarrow>
          let d1 = d \<lparr>sm_apnId := FindApnIdByApnName (apnType h), sm_apnItem := apnItem h\<rparr>
          in (case apnItem h of
                None \<Rightarrow> d1
              | Some a \<Rightarrow> (case h_items (mem d) a of
                    None \<Rightarrow> d1
                  | Some it \<Rightarrow>
                      let it' = slice_item P e (apnType h) it;
                          d2 = d1 \<lparr>mem := (mem d) \<lparr>h_items := (h_items (mem d))(a \<mapsto> it')\<rparr>\<rparr>;
                          d3 = emit [Ril (ActivatePdpContext (sm_slotId d)
                                 (activate_param P e params (apnType h) it d))] d2
                      in SendTimer (MSG_CONNECT_TIMEOUT_CHECK (sint (connectId d))) CONNECTION_TIMEOUT
                           (d3 \<lparr>startTimeConnectTimeoutTask := now e\<rparr>))))"

definition FreeConnection :: "DataDisconnectParams \<Rightarrow> sm_data \<Rightarrow> sm_data" where
  "FreeConnection params d =
     SendTimer (MSG_DISCONNECT_TIMEOUT_CHECK (sint (connectId d))) DISCONNECTION_TIMEOUT
       (emit [Ril (DeactivatePdpContext (sm_slotId d) \<lparr>de_param = sint (connectId d), de_cid = sm_cid d,
          de_reason = dd_reason params\<rparr>)] d)"

definition OnInterfaceLinkStateChanged :: "string \<Rightarrow> bool \<Rightarrow> sm_data \<Rightarrow> sm_data" where
  "OnInterfaceLinkStateChanged name up d =
     (if name \<noteq> sm_ifName d then d
      else if \<not> up \<and> list_ex (\<lambda>(ev, delay). is_disconnect_timer ev) (timers d)
      then SendTimer (MSG_DISCONNECT_TIMEOUT_CHECK (sint (connectId d))) INTERFACE_DOWN_TIMEOUT
             (RemoveTimer is_disconnect_timer d)
      else d)"

definition RestartRadio :: "sm_data \<Rightarrow> sm_data" where
  "RestartRadio d = emit [Ril (SetRadioOff (sm_slotId d))] d"

section \<open>Link information\<close>

text \<open>The array size is a \<open>uint8_t\<close>.\<close>

definition HasMatchedIpTypeAddrs :: "IpType \<Rightarrow> AddressInfo list \<Rightarrow> bool" where
  "HasMatchedIpTypeAddrs ty infos = list_ex (\<lambda>i. ai_type i = ty) (take (length infos mod 256) infos)"

definition GetIpType :: "AddressInfo list \<Rightarrow> string" where
  "GetIpType infos =
     (if HasMatchedIpTypeAddrs IPV4 infos \<and> HasMatchedIpTypeAddrs IPV6 infos then ''IPV4V6''
      else if HasMatchedIpTypeAddrs IPV4 infos then ''IPV4''
      else if HasMatchedIpTypeAddrs IPV6 infos then ''IPV6''
      else '''')"

text \<open>The loop over \<open>type:size\<close> entries; \<open>mtuValue\<close> keeps its value between the entries,
  and a malformed entry ends the loop.\<close>

fun mtu_loop :: "platform \<Rightarrow> string \<Rightarrow> string list \<Rightarrow> int \<Rightarrow> int \<Rightarrow> int outcome" where
  "mtu_loop P ipType [] mtuValue mtuSize = Some mtuSize"
| "mtu_loop P ipType (entry # rest) mtuValue mtuSize = do {
     parts \<leftarrow> Split entry '':'';
     if length parts \<noteq> VALID_VECTOR_SIZE \<or> parts ! 0 = [] \<or> parts ! 1 = [] then Some mtuSize
     else
       let mtuValue' = StrToInt P (parts ! 1) mtuValue
       in if mtuValue' = INVALID_MTU_VALUE then Some mtuSize
          else mtu_loop P ipType rest mtuValue'
                 (if parts ! 0 \<noteq> [] \<and> parts ! 0 = ipType then mtuValue' else mtuSize)
   }"

definition GetMtuSizeFromOpCfg :: "platform \<Rightarrow> env \<Rightarrow> string \<Rightarrow> int \<Rightarrow> int \<Rightarrow> int outcome" where
  "GetMtuSizeFromOpCfg P e ipType mtuSize slotId = do {
     let mtuString = (case operatorString e slotId KEY_MTU_SIZE_STRING of Some v \<Rightarrow> v | None \<Rightarrow> '''');
     mtuArray \<leftarrow> Split mtuString '';'';
     mtu_loop P ipType mtuArray INVALID_MTU_VALUE mtuSize
   }"

text \<open>All pieces between colons, the last one included even when it is empty.\<close>

fun colon_pieces :: "string \<Rightarrow> string \<Rightarrow> string list" where
  "colon_pieces acc [] = [acc]"
| "colon_pieces acc (c # cs) =
     (if c = CHR '':'' then acc # colon_pieces [] cs else colon_pieces (acc @ [c]) cs)"

text \<open>\<open>std::stoi\<close>: no value when it throws.\<close>

definition stoi :: "string \<Rightarrow> int outcome" where
  "stoi s = (let t = dropWhile isspace s;
                 neg = (t \<noteq> [] \<and> hd t = CHR ''-'');
                 body = (if t \<noteq> [] \<and> (hd t = CHR ''-'' \<or> hd t = CHR ''+'') then tl t else t);
                 ds = takeWhile isdigit body;
                 v = (if neg then - dec_value ds else dec_value ds)
             in if ds = [] \<or> v < - (2 ^ 31) \<or> v > 2 ^ 31 - 1 then None else Some v)"

definition SplitProxyIpAddress :: "platform \<Rightarrow> string \<Rightarrow> string \<times> int \<Rightarrow> (string \<times> int) outcome" where
  "SplitProxyIpAddress P proxyIpAddress hp =
     (case colon_pieces [] proxyIpAddress of
        [h] \<Rightarrow> Some (h, snd hp)
      | [h, p] \<Rightarrow>
          if p \<noteq> [] \<and> IsValidDecValue P p then do { v \<leftarrow> stoi p; Some (h, v mod 65536) }
          else Some (h, snd hp)
      | _ \<Rightarrow> Some hp)"

definition UpdateHttpProxy :: "platform \<Rightarrow> string \<Rightarrow> sm_data \<Rightarrow> sm_data outcome" where
  "UpdateHttpProxy P proxyIpAddress d = do {
     hp \<leftarrow> SplitProxyIpAddress P proxyIpAddress ('''', DEFAULT_PORT);
     Some (d \<lparr>netLinkInfo := (netLinkInfo d) \<lparr>nl_httpProxy := hp\<rparr>\<rparr>)
   }"

definition GetNetScoreBySlotId :: "env \<Rightarrow> int \<Rightarrow> int" where
  "GetNetScoreBySlotId e slotId =
     (if slotId \<noteq> DefaultCellularDataSlotId e then OTHER_CONNECTION_SCORE
      else DEFAULT_INTERNET_CONNECTION_SCORE)"

definition ResolveIp :: "AddressInfo list \<Rightarrow> NetLinkInfo \<Rightarrow> NetLinkInfo" where
  "ResolveIp infos nl = nl \<lparr>nl_netAddrList := map (\<lambda>i.
     \<lparr>na_address = ai_ip i, na_family = ai_type i, na_type = ai_type i, na_hostName = DEFAULT_HOSTNAME,
      na_netMask = (if length (ai_netMask i) > 0 then ai_netMask i else DEFAULT_MASK),
      na_prefixlen = ai_prefixLen i\<rparr>) infos\<rparr>"

definition ResolveDns :: "AddressInfo list \<Rightarrow> NetLinkInfo \<Rightarrow> NetLinkInfo" where
  "ResolveDns infos nl = nl \<lparr>nl_dnsList := map (\<lambda>i.
     \<lparr>na_address = ai_ip i, na_family = ai_type i, na_type = ai_type i, na_hostName = DEFAULT_HOSTNAME,
      na_netMask = ai_netMask i, na_prefixlen = ai_prefixLen i\<rparr>) infos\<rparr>"

definition ResolveRoute :: "AddressInfo list \<Rightarrow> string \<Rightarrow> NetLinkInfo \<Rightarrow> NetLinkInfo" where
  "ResolveRoute infos name nl = nl \<lparr>nl_routeList := map (\<lambda>i.
     \<lparr>rt_iface = name,
      rt_gateway = \<lparr>na_address = ai_ip i, na_family = ai_type i, na_type = ai_type i,
        na_hostName = DEFAULT_HOSTNAME, na_netMask = DEFAULT_MASK, na_prefixlen = ai_prefixLen i\<rparr>,
      rt_destination = \<lparr>na_address = (if ai_type i = IPV4 then ROUTED_IPV4 else ROUTED_IPV6),
        na_family = ai_type i, na_type = ai_type i, na_hostName = DEFAULT_HOSTNAME,
        na_netMask = DEFAULT_MASK, na_prefixlen = 0\<rparr>\<rparr>) infos\<rparr>"

definition SetConnectionBandwidth :: "int \<Rightarrow> int \<Rightarrow> sm_data \<Rightarrow> sm_data" where
  "SetConnectionBandwidth up down d = d \<lparr>sm_upBandwidth := up, sm_downBandwidth := down\<rparr>"

definition SetConnectionTcpBuffer :: "string \<Rightarrow> sm_data \<Rightarrow> sm_data" where
  "SetConnectionTcpBuffer buf d = d \<lparr>sm_tcpBuffer := buf\<rparr>"

text \<open>The agent's \<open>UpdateNetSupplierInfo\<close> with the machine's supplier information.\<close>

definition push_supplier :: "env \<Rightarrow> int \<Rightarrow> sm_data \<Rightarrow> sm_data" where
  "push_supplier e supplierId d =
     (case UpdateNetSupplierInfo e supplierId (netSupplierInfo d) (agent d) of (r, ag, es) \<Rightarrow>
        emit es (d \<lparr>agent := ag\<rparr>))"

definition push_link :: "int \<Rightarrow> sm_data \<Rightarrow> sm_data" where
  "push_link supplierId d = emit (UpdateNetLinkInfo supplierId (netLinkInfo d)) d"

definition supplier_of :: "sm_data \<Rightarrow> int" where
  "supplier_of d = GetSupplierId (sm_slotId d) (sm_capability d) (agent d)"

definition UpdateNetworkInfo_call ::
  "platform \<Rightarrow> env \<Rightarrow> SetupDataCallResultInfo \<Rightarrow> sm_data \<Rightarrow> sm_data outcome" where
  "UpdateNetworkInfo_call P e info d = do {
     ipInfoArray \<leftarrow> ParseIpAddr P (sd_address info);
     dns1 \<leftarrow> ParseNormalIpAddr (sd_dns info);
     dns2 \<leftarrow> ParseNormalIpAddr (sd_dnsSec info);
     routeInfoArray \<leftarrow> ParseNormalIpAddr (sd_gateway info);
     let slotId = sm_slotId d;
     let mtu0 = (if sd_maxTransferUnit info = 0 then DEFAULT_MTU else sd_maxTransferUnit info);
     let d1 = d \<lparr>sm_ipType := GetIpType ipInfoArray\<rparr>;
     mtuSize \<leftarrow> GetMtuSizeFromOpCfg P e (sm_ipType d1) mtu0 slotId;
     let nl = ResolveRoute routeInfoArray (sd_netPortName info) (ResolveDns (dns1 @ dns2)
       (ResolveIp ipInfoArray ((netLinkInfo d) \<lparr>nl_ifaceName := sd_netPortName info, nl_mtu := mtuSize,
          nl_tcpBufferSizes := sm_tcpBuffer d\<rparr>)));
     let ns = (netSupplierInfo d) \<lparr>ns_isAvailable := (sd_active info > 0),
          ns_isRoaming := (PsRoamingState e slotId > 0), ns_linkUpBandwidthKbps := sm_upBandwidth d,
          ns_linkDownBandwidthKbps := sm_downBandwidth d, ns_score := GetNetScoreBySlotId e slotId\<rparr>;
     let d2 = d1 \<lparr>sm_ifName := sd_netPortName info, netLinkInfo := nl, netSupplierInfo := ns,
          sm_cause := sd_reason info\<rparr>;
     let supplierId = supplier_of d2;
     let d3 = push_supplier e supplierId d2;
     Some (if ns_isAvailable ns then push_link supplierId d3 else d3)
   }"

definition UpdateNetworkInfo :: "env \<Rightarrow> sm_data \<Rightarrow> sm_data" where
  "UpdateNetworkInfo e d =
     (let d1 = d \<lparr>netLinkInfo := (netLinkInfo d) \<lparr>nl_tcpBufferSizes := sm_tcpBuffer d\<rparr>,
            netSupplierInfo := (netSupplierInfo d) \<lparr>ns_linkUpBandwidthKbps := sm_upBandwidth d,
              ns_linkDownBandwidthKbps := sm_downBandwidth d,
              ns_score := GetNetScoreBySlotId e (sm_slotId d)\<rparr>\<rparr>;
          supplierId = supplier_of d1;
          d2 = push_supplier e supplierId d1
      in if ns_isAvailable (netSupplierInfo d2) then push_link supplierId d2 else d2)"

definition SetIfReuseSupplierId :: "platform \<Rightarrow> bool \<Rightarrow> sm_data \<Rightarrow> sm_data" where
  "SetIfReuseSupplierId P isReused d =
     (if reuseApnCap d = NC P NET_CAPABILITY_END then d
      else emit (SetReuseSupplierId (supplier_of d)
             (GetSupplierId (sm_slotId d) (reuseApnCap d) (agent d)) isReused) d)"

definition SetReuseApnCap :: "nat \<Rightarrow> sm_data \<Rightarrow> sm_data" where
  "SetReuseApnCap cap d = d \<lparr>reuseApnCap := cap\<rparr>"

definition UpdateNetworkInfoIfInActive :: "SetupDataCallResultInfo \<Rightarrow> sm_data \<Rightarrow> sm_data" where
  "UpdateNetworkInfoIfInActive info d =
     emit [ToHandler (MSG_DATA_CALL_LIST_CHANGED (info \<lparr>sd_flag := sm_apnId d\<rparr>)) 0] d"

section \<open>The default state\<close>

definition Default_DrsOrRatChanged :: "env \<Rightarrow> sm_data \<Rightarrow> sm_data" where
  "Default_DrsOrRatChanged e d =
     (let supplierId = supplier_of d;
          d1 = push_supplier e supplierId d;
          d2 = (if IsActiveState d1 \<or> IsActivatingState d1 then push_link supplierId d1 else d1)
      in emit (RegisterSlotType supplierId (PsRadioTech e (sm_slotId d))) d2)"

definition Default_StateProcess :: "env \<Rightarrow> sm_event option \<Rightarrow> cdsm \<Rightarrow> bool \<times> sm_event option \<times> cdsm" where
  "Default_StateProcess e event s =
     (case event of
        None \<Rightarrow> (False, None, s)
      | Some ev \<Rightarrow> (case ev of
            MSG_SM_CONNECT p \<Rightarrow> (False, event, s)
          | MSG_SM_DISCONNECT p \<Rightarrow> (True, None, DeferEvent ev s)
          | MSG_SM_DISCONNECT_ALL p \<Rightarrow> (True, None, DeferEvent ev s)
          | MSG_SM_DRS_OR_RAT_CHANGED \<Rightarrow> (False, event, upd (Default_DrsOrRatChanged e) s)
          | MSG_SM_DATA_ROAM_ON \<Rightarrow> (False, event, s)
          | MSG_SM_DATA_ROAM_OFF \<Rightarrow> (False, event, s)
          | MSG_SM_UPDATE_NETWORK_INFO \<Rightarrow> (True, event, upd (UpdateNetworkInfo e) s)
          | _ \<Rightarrow> (False, event, s)))"

section \<open>The inactive state\<close>

definition SetDeActiveApnTypeId :: "int \<Rightarrow> sm_data \<Rightarrow> sm_data" where
  "SetDeActiveApnTypeId i d = d \<lparr>deActiveApnTypeId := i\<rparr>"

definition SetDataCallResultInfo :: "SetupDataCallResultInfo \<Rightarrow> sm_data \<Rightarrow> sm_data" where
  "SetDataCallResultInfo r d = d \<lparr>resultInfo := Some r\<rparr>"

definition SetPdpErrorReason :: "platform \<Rightarrow> int \<Rightarrow> sm_data \<Rightarrow> sm_data" where
  "SetPdpErrorReason P reason d = d \<lparr>resultInfo := Some ((default_result_info P) \<lparr>sd_reason := reason\<rparr>)\<rparr>"

text \<open>The report to the handler.\<close>

definition disconnect_report :: "platform \<Rightarrow> sm_data \<Rightarrow> SetupDataCallResultInfo" where
  "disconnect_report P d =
     (let i0 = (default_result_info P) \<lparr>sd_cid := sm_cid d, sd_flag := deActiveApnTypeId d, sd_active := 0\<rparr>
      in case resultInfo d of
           None \<Rightarrow> i0
         | Some r \<Rightarrow> i0 \<lparr>sd_reason := sd_reason r, sd_retryTime := sd_retryTime r,
             sd_retryScene := sd_retryScene r\<rparr>)"

definition Inactive_StateBegin :: "platform \<Rightarrow> cdsm \<Rightarrow> cdsm" where
  "Inactive_StateBegin P s =
     upd (\<lambda>d. let d1 = d \<lparr>connectId := connectId d + 1\<rparr>;
               d2 = (if deActiveApnTypeId d1 \<noteq> ERROR_APN_ID then
                       (emit [ToHandler (MSG_DISCONNECT_DATA_COMPLETE (disconnect_report P d1)) 0]
                         (d1 \<lparr>netSupplierInfo := (netSupplierInfo d1) \<lparr>ns_isAvailable := False\<rparr>\<rparr>))
                       \<lparr>deActiveApnTypeId := ERROR_APN_ID, resultInfo := None\<rparr>
                     else d1)
           in d2 \<lparr>currentState := Some InactiveState\<rparr>)
       (set_active InactiveState True s)"

definition Inactive_StateProcess ::
  "platform \<Rightarrow> env \<Rightarrow> sm_event option \<Rightarrow> cdsm \<Rightarrow> bool \<times> sm_event option \<times> cdsm" where
  "Inactive_StateProcess P e event s =
     (case event of
        None \<Rightarrow> (False, None, s)
      | Some ev \<Rightarrow> (case ev of
            MSG_SM_CONNECT p \<Rightarrow> (case p of
                None \<Rightarrow> (False, event, s)
              | Some params \<Rightarrow> (PROCESSED, event, TransitionTo ActivatingState (upd (DoConnect P e params) s)))
          | MSG_SM_DISCONNECT p \<Rightarrow> (PROCESSED, event, s)
          | MSG_SM_DISCONNECT_ALL p \<Rightarrow> (PROCESSED, event, s)
          | _ \<Rightarrow> (False, event, s)))"

section \<open>The activating state\<close>

definition enter :: "cds \<Rightarrow> cdsm \<Rightarrow> cdsm" where
  "enter st s = upd (\<lambda>d. d \<lparr>currentState := Some st\<rparr>) (set_active st True s)"

definition fail_to_inactive :: "platform \<Rightarrow> cdsm \<Rightarrow> cdsm" where
  "fail_to_inactive P s = TransitionTo InactiveState
     (upd (\<lambda>d. SetPdpErrorReason P (PDP P PDP_ERR_RETRY) (SetDeActiveApnTypeId (sm_apnId d) d)) s)"

definition RilErrorResponse ::
  "platform \<Rightarrow> sm_event \<Rightarrow> RadioResponseInfo option \<Rightarrow> cdsm \<Rightarrow> bool \<times> sm_event option \<times> cdsm" where
  "RilErrorResponse P ev rilInfo s =
     (case rilInfo of
        None \<Rightarrow> (False, Some ev, s)
      | Some r \<Rightarrow>
          if sint (connectId (dat s)) \<noteq> rr_flag r then (False, Some ev, s)
          else
            let s1 = (if rr_chdata r then
                        let s' = upd (\<lambda>d. d \<lparr>rilSetChdataErrCnt := rilSetChdataErrCnt d + 1\<rparr>) s
                        in if rilSetChdataErrCnt (dat s') \<ge> MAX_ERR_SET_CHDATA_CNT
                           then upd (\<lambda>d. RestartRadio (d \<lparr>rilSetChdataErrCnt := 0\<rparr>)) s' else s'
                      else s)
            in (True, Some ev, fail_to_inactive P s1))"

definition RilActivatePdpContextDone ::
  "platform \<Rightarrow> setup_payload \<Rightarrow> cdsm \<Rightarrow> bool \<times> sm_event option \<times> cdsm" where
  "RilActivatePdpContextDone P pl s =
     (let ev = RADIO_RIL_SETUP_DATA_CALL pl
      in case pl of
        SetupNothing \<Rightarrow> RilErrorResponse P ev None s
      | SetupError r \<Rightarrow> RilErrorResponse P ev (Some r) s
      | SetupResult r \<Rightarrow>
          let s1 = upd (\<lambda>d. d \<lparr>rilSetChdataErrCnt := 0\<rparr>) s
          in if sint (connectId (dat s1)) \<noteq> sd_flag r then (False, Some ev, s1)
             else
               let s2 = upd (\<lambda>d. d \<lparr>sm_cid := sd_cid r\<rparr>) s1
               in if sd_reason r \<noteq> 0 \<or> sd_active r = 0 then
                    (True, Some ev, TransitionTo InactiveState
                       (upd (\<lambda>d. SetDeActiveApnTypeId (sm_apnId d)
                          (SetDataCallResultInfo (r \<lparr>sd_retryScene := 0\<rparr>) d)) s2))
                  else
                    (True, None, TransitionTo ActiveState (DeferEvent ev
                       (upd (\<lambda>d. d \<lparr>tables := AddActiveConnectionByCid (Some (sm_self d)) (sm_cid d) (tables d)\<rparr>)
                          s2))))"

definition ProcessConnectTimeout :: "platform \<Rightarrow> env \<Rightarrow> int \<Rightarrow> cdsm \<Rightarrow> cdsm" where
  "ProcessConnectTimeout P e i s =
     (if i \<noteq> sint (connectId (dat s)) then s
      else if now e - startTimeConnectTimeoutTask (dat s) < CONNECTION_TASK_TIME then s
      else fail_to_inactive P s)"

definition Activating_StateProcess ::
  "platform \<Rightarrow> env \<Rightarrow> sm_event option \<Rightarrow> cdsm \<Rightarrow> bool \<times> sm_event option \<times> cdsm" where
  "Activating_StateProcess P e event s =
     (case event of
        None \<Rightarrow> (False, None, s)
      | Some ev \<Rightarrow> (case ev of
            MSG_SM_DRS_OR_RAT_CHANGED \<Rightarrow> (PROCESSED, None, DeferEvent ev s)
          | MSG_SM_CONNECT p \<Rightarrow> (PROCESSED, None, DeferEvent ev s)
          | RADIO_RIL_SETUP_DATA_CALL pl \<Rightarrow> RilActivatePdpContextDone P pl s
          | MSG_SM_GET_LAST_FAIL_DONE \<Rightarrow> (PROCESSED, event, TransitionTo InactiveState s)
          | MSG_GET_RIL_BANDWIDTH \<Rightarrow> (False, None, DeferEvent ev s)
          | MSG_CONNECT_TIMEOUT_CHECK i \<Rightarrow> (PROCESSED, event, ProcessConnectTimeout P e i s)
          | _ \<Rightarrow> (False, event, s)))"

section \<open>The active state\<close>

definition RefreshTcpBufferSizes :: "env \<Rightarrow> sm_data \<Rightarrow> sm_data" where
  "RefreshTcpBufferSizes e d =
     SetConnectionTcpBuffer (GetTcpBufferByRadioTech e (PsRadioTech e (sm_slotId d)) (tables d)) d"

definition RefreshConnectionBandwidths :: "env \<Rightarrow> sm_data \<Rightarrow> sm_data" where
  "RefreshConnectionBandwidths e d =
     (let b = GetBandwidthsByRadioTech e (PsRadioTech e (sm_slotId d)) (tables d)
      in SetConnectionBandwidth (upBandwidth b) (downBandwidth b) d)"

definition Active_StateBegin :: "env \<Rightarrow> cdsm \<Rightarrow> cdsm" where
  "Active_StateBegin e s = upd (\<lambda>d. (RefreshConnectionBandwidths e (RefreshTcpBufferSizes e d))
       \<lparr>currentState := Some ActiveState\<rparr>) (set_active ActiveState True s)"

text \<open>\<open>disconnReasonPdpErrorMap_[reason]\<close>; a reason that the map lacks reads as 0.\<close>

fun disconnReasonPdpErrorMap :: "platform \<Rightarrow> DisConnectionReason \<Rightarrow> int" where
  "disconnReasonPdpErrorMap P REASON_NORMAL = PDP P PDP_ERR_TO_NORMAL"
| "disconnReasonPdpErrorMap P REASON_GSM_AND_CALLING_ONLY = PDP P PDP_ERR_TO_GSM_AND_CALLING_ONLY"
| "disconnReasonPdpErrorMap P REASON_RETRY_CONNECTION = PDP P PDP_ERR_RETRY"
| "disconnReasonPdpErrorMap P REASON_CLEAR_CONNECTION = PDP P PDP_ERR_TO_CLEAR_CONNECTION"
| "disconnReasonPdpErrorMap P REASON_CHANGE_CONNECTION = PDP P PDP_ERR_TO_CHANGE_CONNECTION"
| "disconnReasonPdpErrorMap P REASON_PERMANENT_REJECT = PDP P PDP_ERR_TO_PERMANENT_REJECT"
| "disconnReasonPdpErrorMap P REASON_HANDOVER_CONNECTION = 0"

definition end_reuse :: "platform \<Rightarrow> sm_data \<Rightarrow> sm_data" where
  "end_reuse P d = (if reuseApnCap d \<noteq> NC P NET_CAPABILITY_END
     then SetReuseApnCap (NC P NET_CAPABILITY_END) (SetIfReuseSupplierId P False d) else d)"

definition Active_ProcessDisconnectDone ::
  "platform \<Rightarrow> sm_event \<Rightarrow> DataDisconnectParams option \<Rightarrow> cdsm \<Rightarrow> bool \<times> sm_event option \<times> cdsm" where
  "Active_ProcessDisconnectDone P ev object s =
     (case object of
        None \<Rightarrow> (False, Some ev, s)
      | Some params \<Rightarrow> (PROCESSED, Some ev, TransitionTo DisconnectingState
          (upd (\<lambda>d. FreeConnection params
             (SetPdpErrorReason P (disconnReasonPdpErrorMap P (dd_reason params)) (end_reuse P d))) s)))"

definition Active_ProcessLostConnection ::
  "platform \<Rightarrow> env \<Rightarrow> sm_event \<Rightarrow> SetupDataCallResultInfo option \<Rightarrow> cdsm \<Rightarrow> bool \<times> sm_event option \<times> cdsm" where
  "Active_ProcessLostConnection P e ev info s =
     (case info of
        None \<Rightarrow> (False, Some ev, s)
      | Some r \<Rightarrow> (PROCESSED, Some ev, TransitionTo InactiveState
          (upd (\<lambda>d. let d1 = SetDataCallResultInfo r (SetDeActiveApnTypeId (sm_apnId d) (end_reuse P d))
                   in if ext_dataEndSelfCure e
                      then emit [Ext (Ext_dataEndSelfCure (sm_cause d1) (sm_slotId d1))] d1 else d1) s)))"

text \<open>The link capability travels as \<open>int32_t\<close> and is read as \<open>uint32_t\<close>.\<close>

definition Active_ProcessLinkCapabilityChanged ::
  "env \<Rightarrow> sm_event \<Rightarrow> (int \<times> int) option \<Rightarrow> cdsm \<Rightarrow> bool \<times> sm_event option \<times> cdsm" where
  "Active_ProcessLinkCapabilityChanged e ev lc s =
     (case lc of
        None \<Rightarrow> (False, Some ev, s)
      | Some (up0, down0) \<Rightarrow>
          let up = up0 mod 2 ^ 32; down = down0 mod 2 ^ 32
          in (True, Some ev, upd (\<lambda>d. UpdateNetworkInfo e
               (if up = 0 \<or> down = 0 then RefreshConnectionBandwidths e d
                else SetConnectionBandwidth up down d)) s))"

definition Active_push_supplier :: "env \<Rightarrow> sm_data \<Rightarrow> sm_data" where
  "Active_push_supplier e d = push_supplier e (supplier_of d) d"

definition Active_ProcessDataConnectionComplete ::
  "setup_payload \<Rightarrow> cdsm \<Rightarrow> bool \<times> sm_event option \<times> cdsm" where
  "Active_ProcessDataConnectionComplete pl s =
     (let ev = RADIO_RIL_SETUP_DATA_CALL pl
      in case pl of
        SetupResult r \<Rightarrow> (True, Some ev,
          upd (\<lambda>d. emit [ToHandler (MSG_ESTABLISH_DATA_CONNECTION_COMPLETE (r \<lparr>sd_flag := sm_apnId d\<rparr>)) 0]
                 (RemoveTimer is_connect_timer d)) s)
      | _ \<Rightarrow> (False, Some ev, s))"

definition Active_ProcessNrStateChanged :: "env \<Rightarrow> sm_data \<Rightarrow> sm_data" where
  "Active_ProcessNrStateChanged e d =
     UpdateNetworkInfo e (RefreshConnectionBandwidths e (RefreshTcpBufferSizes e d))"

definition Active_ProcessNrFrequencyChanged :: "env \<Rightarrow> sm_data \<Rightarrow> sm_data" where
  "Active_ProcessNrFrequencyChanged e d = UpdateNetworkInfo e (RefreshConnectionBandwidths e d)"

definition Active_StateProcess ::
  "platform \<Rightarrow> env \<Rightarrow> sm_event option \<Rightarrow> cdsm \<Rightarrow> bool \<times> sm_event option \<times> cdsm" where
  "Active_StateProcess P e event s =
     (case event of
        None \<Rightarrow> (False, None, s)
      | Some ev \<Rightarrow> (case ev of
            MSG_SM_CONNECT p \<Rightarrow> (PROCESSED, event, s)
          | MSG_SM_DISCONNECT p \<Rightarrow> Active_ProcessDisconnectDone P ev p s
          | MSG_SM_DISCONNECT_ALL p \<Rightarrow> Active_ProcessDisconnectDone P ev p s
          | MSG_SM_LOST_CONNECTION r \<Rightarrow> Active_ProcessLostConnection P e ev r s
          | MSG_SM_LINK_CAPABILITY_CHANGED lc \<Rightarrow> Active_ProcessLinkCapabilityChanged e ev lc s
          | MSG_SM_DATA_ROAM_ON \<Rightarrow> (PROCESSED, event, upd (Active_push_supplier e) s)
          | MSG_SM_DATA_ROAM_OFF \<Rightarrow> (PROCESSED, event, upd (Active_push_supplier e) s)
          | MSG_SM_VOICE_CALL_STARTED \<Rightarrow> (PROCESSED, event, upd (Active_push_supplier e) s)
          | MSG_SM_VOICE_CALL_ENDED \<Rightarrow> (PROCESSED, event, upd (Active_push_supplier e) s)
          | MSG_SM_RIL_ADAPTER_HOST_DIED r \<Rightarrow> Active_ProcessLostConnection P e ev r s
          | RADIO_NR_STATE_CHANGED \<Rightarrow> (True, event, upd (Active_ProcessNrStateChanged e) s)
          | RADIO_NR_FREQUENCY_CHANGED \<Rightarrow> (True, event, upd (Active_ProcessNrFrequencyChanged e) s)
          | RADIO_RIL_SETUP_DATA_CALL pl \<Rightarrow> Active_ProcessDataConnectionComplete pl s
          | _ \<Rightarrow> (False, event, s)))"

section \<open>The disconnecting state\<close>

definition ProcessDisconnectTimeout :: "platform \<Rightarrow> int \<Rightarrow> cdsm \<Rightarrow> cdsm" where
  "ProcessDisconnectTimeout P i s =
     (if i \<noteq> sint (connectId (dat s)) then s else fail_to_inactive P s)"

definition ProcessRilDeactivateDataCall :: "RadioResponseInfo option \<Rightarrow> cdsm \<Rightarrow> cdsm" where
  "ProcessRilDeactivateDataCall rilInfo s =
     (let done' = TransitionTo InactiveState
            (upd (\<lambda>d. SetDeActiveApnTypeId (sm_apnId d) (RemoveTimer is_disconnect_timer d)) s)
      in case rilInfo of
           None \<Rightarrow> done'
         | Some r \<Rightarrow> if sint (connectId (dat s)) \<noteq> rr_flag r then s else done')"

definition Disconnecting_StateProcess ::
  "platform \<Rightarrow> sm_event option \<Rightarrow> cdsm \<Rightarrow> bool \<times> sm_event option \<times> cdsm" where
  "Disconnecting_StateProcess P event s =
     (case event of
        None \<Rightarrow> (False, None, s)
      | Some ev \<Rightarrow> (case ev of
            MSG_SM_CONNECT p \<Rightarrow> (PROCESSED, None, DeferEvent ev s)
          | RADIO_RIL_DEACTIVATE_DATA_CALL r \<Rightarrow> (PROCESSED, event, ProcessRilDeactivateDataCall r s)
          | MSG_DISCONNECT_TIMEOUT_CHECK i \<Rightarrow> (PROCESSED, event, ProcessDisconnectTimeout P i s)
          | MSG_SM_RIL_ADAPTER_HOST_DIED r \<Rightarrow> (PROCESSED, event, fail_to_inactive P s)
          | _ \<Rightarrow> (False, event, s)))"

section \<open>The machine\<close>

fun cds_ancestors :: "cds \<Rightarrow> cds list" where
  "cds_ancestors DefaultState = []"
| "cds_ancestors _ = [DefaultState]"

fun cds_begin :: "platform \<Rightarrow> env \<Rightarrow> cds \<Rightarrow> cdsm \<Rightarrow> cdsm" where
  "cds_begin P e DefaultState s = set_active DefaultState True s"
| "cds_begin P e InactiveState s = Inactive_StateBegin P s"
| "cds_begin P e ActivatingState s = enter ActivatingState s"
| "cds_begin P e ActiveState s = Active_StateBegin e s"
| "cds_begin P e DisconnectingState s = enter DisconnectingState s"

text \<open>The active state's \<open>StateEnd\<close> leaves its flag set.\<close>

fun cds_end :: "cds \<Rightarrow> cdsm \<Rightarrow> cdsm" where
  "cds_end ActiveState s = s"
| "cds_end st s = set_active st False s"

fun cds_process ::
  "platform \<Rightarrow> env \<Rightarrow> cds \<Rightarrow> sm_event option \<Rightarrow> cdsm \<Rightarrow> bool \<times> sm_event option \<times> cdsm" where
  "cds_process P e DefaultState ev s = Default_StateProcess e ev s"
| "cds_process P e InactiveState ev s = Inactive_StateProcess P e ev s"
| "cds_process P e ActivatingState ev s = Activating_StateProcess P e ev s"
| "cds_process P e ActiveState ev s = Active_StateProcess P e ev s"
| "cds_process P e DisconnectingState ev s = Disconnecting_StateProcess P ev s"

definition cds_vtable :: "platform \<Rightarrow> env \<Rightarrow> (cds, sm_event, sm_data) vtable" where
  "cds_vtable P e = \<lparr>ancestors = cds_ancestors, StateBegin = cds_begin P e, StateEnd = cds_end,
     StateProcess = cds_process P e, is_quit_event = (\<lambda>ev. ev = MSG_STATE_MACHINE_QUIT),
     is_init_event = (\<lambda>ev. ev = MSG_STATE_MACHINE_INIT)\<rparr>"

abbreviation (input) "cds_step P e ev s \<equiv> ProcessEvent (cds_vtable P e) (Some ev) s"

section \<open>The machine meets the contract of its framework\<close>

lemmas hsm_ops = upd_def set_active_def TransitionTo_def DeferEvent_def enter_def fail_to_inactive_def

lemma cds_vtable_simps [simp]:
  "ancestors (cds_vtable P e) = cds_ancestors" "StateBegin (cds_vtable P e) = cds_begin P e"
  "StateEnd (cds_vtable P e) = cds_end" "StateProcess (cds_vtable P e) = cds_process P e"
  "is_quit_event (cds_vtable P e) ev \<longleftrightarrow> ev = MSG_STATE_MACHINE_QUIT"
  "is_init_event (cds_vtable P e) ev \<longleftrightarrow> ev = MSG_STATE_MACHINE_INIT"
  by (simp_all add: cds_vtable_def)

lemma cds_begin_frame:
  "curState (cds_begin P e x s) = curState s" "originalState (cds_begin P e x s) = originalState s"
  "deferEvents (cds_begin P e x s) = deferEvents s" "sent (cds_begin P e x s) = sent s"
  "isQuit (cds_begin P e x s) = isQuit s" "destState (cds_begin P e x s) = destState s"
  by (cases x; simp add: hsm_ops Inactive_StateBegin_def Active_StateBegin_def)+

lemma cds_end_frame:
  "curState (cds_end x s) = curState s" "originalState (cds_end x s) = originalState s"
  "deferEvents (cds_end x s) = deferEvents s" "sent (cds_end x s) = sent s"
  "isQuit (cds_end x s) = isQuit s" "destState (cds_end x s) = destState s"
  "dat (cds_end x s) = dat s"
  by (cases x; simp add: hsm_ops)+

lemmas process_defs = Default_StateProcess_def Inactive_StateProcess_def Activating_StateProcess_def
  Active_StateProcess_def Disconnecting_StateProcess_def RilActivatePdpContextDone_def
  RilErrorResponse_def ProcessConnectTimeout_def Active_ProcessDisconnectDone_def
  Active_ProcessLostConnection_def Active_ProcessLinkCapabilityChanged_def
  Active_ProcessDataConnectionComplete_def ProcessDisconnectTimeout_def ProcessRilDeactivateDataCall_def

lemma cds_process_contract:
  assumes "cds_process P e x ev s = (b, ev', s')"
  shows "curState s' = curState s \<and> originalState s' = originalState s \<and> sent s' = sent s
      \<and> isQuit s' = isQuit s \<and> isActive s' = isActive s"
    and "deferEvents s' = deferEvents s \<and> ev' = ev
      \<or> (\<exists>e'. ev = Some e' \<and> ev' = None \<and> deferEvents s' = deferEvents s @ [e'])"
proof -
  show "curState s' = curState s \<and> originalState s' = originalState s \<and> sent s' = sent s
      \<and> isQuit s' = isQuit s \<and> isActive s' = isActive s"
    using assms
    by (cases x; cases ev)
      (auto simp: process_defs hsm_ops Let_def split: sm_event.splits option.splits
        setup_payload.splits if_splits prod.splits)
  show "deferEvents s' = deferEvents s \<and> ev' = ev
      \<or> (\<exists>e'. ev = Some e' \<and> ev' = None \<and> deferEvents s' = deferEvents s @ [e'])"
    using assms
    by (cases x; cases ev)
      (auto simp: process_defs hsm_ops Let_def split: sm_event.splits option.splits
        setup_payload.splits if_splits prod.splits)
qed

interpretation cdsm: hsm_strict "cds_vtable P e" for P e
  by unfold_locales
    (simp_all add: cds_begin_frame cds_end_frame cds_process_contract(1), rule cds_process_contract(2), simp)

section \<open>One event at a time\<close>

text \<open>What entering a state does to the data.\<close>

definition report_disconnect :: "platform \<Rightarrow> sm_data \<Rightarrow> sm_data" where
  "report_disconnect P d = (if deActiveApnTypeId d \<noteq> ERROR_APN_ID then
     (emit [ToHandler (MSG_DISCONNECT_DATA_COMPLETE (disconnect_report P d)) 0]
        (d \<lparr>netSupplierInfo := (netSupplierInfo d) \<lparr>ns_isAvailable := False\<rparr>\<rparr>))
     \<lparr>deActiveApnTypeId := ERROR_APN_ID, resultInfo := None\<rparr> else d)"

fun entry_data :: "platform \<Rightarrow> env \<Rightarrow> cds \<Rightarrow> sm_data \<Rightarrow> sm_data" where
  "entry_data P e DefaultState d = d"
| "entry_data P e InactiveState d =
     (report_disconnect P (d \<lparr>connectId := connectId d + 1\<rparr>)) \<lparr>currentState := Some InactiveState\<rparr>"
| "entry_data P e ActiveState d =
     (RefreshConnectionBandwidths e (RefreshTcpBufferSizes e d)) \<lparr>currentState := Some ActiveState\<rparr>"
| "entry_data P e st d = d \<lparr>currentState := Some st\<rparr>"

lemma cds_begin_dat: "dat (cds_begin P e x s) = entry_data P e x (dat s)"
  by (cases x) (simp_all add: hsm_ops Inactive_StateBegin_def Active_StateBegin_def
      report_disconnect_def Let_def)

lemma ancestors_dat: "dat (fold (cds_begin P e) (cds_ancestors d) s) = dat s"
  by (cases d) (simp_all add: set_active_def)

lemma ends_dat: "dat (fold cds_end xs s) = dat s"
  by (induction xs arbitrary: s) (simp_all add: cds_end_frame)

definition settled_in :: "cds \<Rightarrow> cdsm \<Rightarrow> bool" where
  "settled_in c s \<longleftrightarrow> \<not> isQuit s \<and> c \<noteq> DefaultState \<and> curState s = Some c \<and> destState s = Some c"

lemma cds_goto:
  assumes "curState s = Some c" "destState s = Some d" "c \<noteq> d"
  shows "curState (ProcessTransitions (cds_vtable P e) s) = Some d"
    and "destState (ProcessTransitions (cds_vtable P e) s) = Some d"
    and "dat (ProcessTransitions (cds_vtable P e) s) = entry_data P e d (dat s)"
    and "sent (ProcessTransitions (cds_vtable P e) s) = sent s @ deferEvents s"
    and "deferEvents (ProcessTransitions (cds_vtable P e) s) = []"
    and "isQuit (ProcessTransitions (cds_vtable P e) s) = isQuit s"
proof -
  have ne: "curState s \<noteq> destState s" using assms by simp
  have b: "dat (before_entry (cds_vtable P e) s d) = dat s"
    by (simp add: before_entry_def assms(1) ancestors_dat cds_end_frame ends_dat)
  have pt: "ProcessTransitions (cds_vtable P e) s = SendDeferredEvent
      ((cds_begin P e d (before_entry (cds_vtable P e) s d)) \<lparr>curState := Some d\<rparr>)"
    using cdsm.enters_destination [OF ne assms(2)] by simp
  show "curState (ProcessTransitions (cds_vtable P e) s) = Some d"
    "dat (ProcessTransitions (cds_vtable P e) s) = entry_data P e d (dat s)"
    by (simp_all add: pt SendDeferredEvent_def cds_begin_dat b)
  then show "destState (ProcessTransitions (cds_vtable P e) s) = Some d"
    using cdsm.ProcessTransitions_cur [of P e s] by simp
  show "sent (ProcessTransitions (cds_vtable P e) s) = sent s @ deferEvents s"
    "deferEvents (ProcessTransitions (cds_vtable P e) s) = []"
    using cdsm.ProcessTransitions_events [where s = s] ne by auto
  show "isQuit (ProcessTransitions (cds_vtable P e) s) = isQuit s" by (rule cdsm.ProcessTransitions_quit)
qed

lemma cds_stay: "curState s = destState s \<Longrightarrow> ProcessTransitions (cds_vtable P e) s = s"
  by (simp add: ProcessTransitions_def)

text \<open>The machine asks its state and then the default state, and then moves.\<close>

definition cds_msg :: "platform \<Rightarrow> env \<Rightarrow> cds \<Rightarrow> sm_event \<Rightarrow> cdsm \<Rightarrow> cdsm" where
  "cds_msg P e c ev s = (case cds_process P e c (Some ev) s of (b, ev', s') \<Rightarrow>
     if b then s' else (case Default_StateProcess e ev' s' of (b', ev'', s'') \<Rightarrow> s''))"

lemma cds_step_eq:
  assumes "settled_in c s" "ev \<noteq> MSG_STATE_MACHINE_QUIT" "ev \<noteq> MSG_STATE_MACHINE_INIT"
  shows "cds_step P e ev s = ProcessTransitions (cds_vtable P e) (cds_msg P e c ev s)"
proof -
  have "cds_ancestors c = [DefaultState]" using assms(1) by (cases c) (auto simp: settled_in_def)
  then show ?thesis
    using assms by (auto simp: settled_in_def ProcessEvent_def ProcessMsg_def cds_msg_def split: prod.splits)
qed

lemma cds_msg_frame:
  "curState (cds_msg P e c ev s) = curState s" "isQuit (cds_msg P e c ev s) = isQuit s"
  "sent (cds_msg P e c ev s) = sent s"
proof -
  obtain b ev' s' where p: "cds_process P e c (Some ev) s = (b, ev', s')"
    by (cases "cds_process P e c (Some ev) s")
  obtain b' ev'' s'' where q: "cds_process P e DefaultState ev' s' = (b', ev'', s'')"
    by (cases "cds_process P e DefaultState ev' s'")
  have "cds_msg P e c ev s = (if b then s' else s'')" using p q by (simp add: cds_msg_def)
  then show "curState (cds_msg P e c ev s) = curState s" "isQuit (cds_msg P e c ev s) = isQuit s"
    "sent (cds_msg P e c ev s) = sent s"
    using cds_process_contract(1) [OF p] cds_process_contract(1) [OF q] by simp_all
qed

lemma Default_dest: "destState (snd (snd (Default_StateProcess e ev s))) = destState s"
  by (auto simp: Default_StateProcess_def hsm_ops split: option.splits sm_event.splits)

text \<open>The two outcomes of an event for a settled machine.\<close>

lemma cds_step_moves:
  assumes "settled_in c s" "ev \<noteq> MSG_STATE_MACHINE_QUIT" "ev \<noteq> MSG_STATE_MACHINE_INIT"
    and "destState (cds_msg P e c ev s) = Some d" "d \<noteq> c" "d \<noteq> DefaultState"
  shows "settled_in d (cds_step P e ev s)"
    and "dat (cds_step P e ev s) = entry_data P e d (dat (cds_msg P e c ev s))"
    and "sent (cds_step P e ev s) = sent s @ deferEvents (cds_msg P e c ev s)"
    and "deferEvents (cds_step P e ev s) = []"
proof -
  have cur: "curState (cds_msg P e c ev s) = Some c" "\<not> isQuit (cds_msg P e c ev s)"
    using assms(1) by (simp_all add: cds_msg_frame settled_in_def)
  note g = cds_goto [OF cur(1) assms(4) assms(5) [symmetric], of P e]
  show "settled_in d (cds_step P e ev s)"
    unfolding cds_step_eq [OF assms(1-3)] using g cur assms(6) by (simp add: settled_in_def)
  show "dat (cds_step P e ev s) = entry_data P e d (dat (cds_msg P e c ev s))"
    "sent (cds_step P e ev s) = sent s @ deferEvents (cds_msg P e c ev s)"
    "deferEvents (cds_step P e ev s) = []"
    unfolding cds_step_eq [OF assms(1-3)] using g by (simp_all add: cds_msg_frame)
qed

lemma cds_step_stays:
  assumes "settled_in c s" "ev \<noteq> MSG_STATE_MACHINE_QUIT" "ev \<noteq> MSG_STATE_MACHINE_INIT"
    and "destState (cds_msg P e c ev s) = Some c"
  shows "cds_step P e ev s = cds_msg P e c ev s"
    and "settled_in c (cds_step P e ev s)"
proof -
  have cur: "curState (cds_msg P e c ev s) = Some c" "\<not> isQuit (cds_msg P e c ev s)"
    using assms(1) by (simp_all add: cds_msg_frame settled_in_def)
  show eq: "cds_step P e ev s = cds_msg P e c ev s"
    unfolding cds_step_eq [OF assms(1-3)] by (rule cds_stay) (simp add: cur assms(4))
  show "settled_in c (cds_step P e ev s)"
    unfolding eq using cur assms(1,4) by (simp add: settled_in_def)
qed

end
