(* ===== verification/Data_Machine_Correct.thy ===== *)
theory Data_Machine_Correct
  imports Data_State_Machine
begin

text \<open>
  Correctness of the data connection machine: the invariant of its reachable states, the life of a
  connection from request to report, the treatment of late answers, and the timers that end every
  attempt.
\<close>

section \<open>Reachable states\<close>

text \<open>
  A machine receives events from the rest of the program, its own re-sent events, and its delayed
  events when they fire; between events the rest of the program may change what it shares with the
  machine (agent, tables of the slot, store) and call its setters. The answers of the environment
  may differ from event to event.
\<close>

definition is_timer :: "sm_event \<Rightarrow> bool" where
  "is_timer ev \<longleftrightarrow> is_connect_timer ev \<or> is_disconnect_timer ev"

definition pending :: "sm_event \<Rightarrow> sm_data \<Rightarrow> bool" where
  "pending ev d \<longleftrightarrow> ev \<in> fst ` set (timers d)"

definition timers_ok :: "sm_data \<Rightarrow> bool" where
  "timers_ok d \<longleftrightarrow> (\<forall>tm\<in>set (timers d). is_timer (fst tm))"

definition shared_change :: "sm_data \<Rightarrow> sm_data \<Rightarrow> bool" where
  "shared_change d d' \<longleftrightarrow> (\<exists>cap ru nl ns it cs nm ag t h ts f.
     d' = d \<lparr>sm_capability := cap, reuseApnCap := ru, netLinkInfo := nl, netSupplierInfo := ns,
       sm_ipType := it, sm_cause := cs, sm_ifName := nm, agent := ag, tables := t, mem := h,
       timers := ts, fx := f\<rparr>
     \<and> timers_ok d'
     \<and> (\<forall>ev\<in>{MSG_CONNECT_TIMEOUT_CHECK (sint (connectId d)), MSG_DISCONNECT_TIMEOUT_CHECK (sint (connectId d))}.
          pending ev d \<longrightarrow> pending ev d'))"

inductive cds_reach :: "platform \<Rightarrow> cdsm \<Rightarrow> bool" for P where
  start: "cds_reach P (cds_step P e MSG_STATE_MACHINE_INIT (Init P e self ag t h))"
| event: "cds_reach P s \<Longrightarrow> ev \<noteq> MSG_STATE_MACHINE_INIT \<Longrightarrow> cds_reach P (cds_step P e ev s)"
| resent: "cds_reach P s \<Longrightarrow> sent s = ev # rest \<Longrightarrow> cds_reach P (cds_step P e ev (s \<lparr>sent := rest\<rparr>))"
| fired: "cds_reach P s \<Longrightarrow> tm \<in> set (timers (dat s))
    \<Longrightarrow> cds_reach P (cds_step P e (fst tm) (upd (\<lambda>d. d \<lparr>timers := remove1 tm (timers d)\<rparr>) s))"
| shared: "cds_reach P s \<Longrightarrow> shared_change (dat s) d' \<Longrightarrow> cds_reach P (s \<lparr>dat := d'\<rparr>)"

text \<open>Events that a machine defers.\<close>

fun deferrable :: "sm_event \<Rightarrow> bool" where
  "deferrable (MSG_SM_CONNECT p) = True"
| "deferrable (MSG_SM_DISCONNECT p) = True"
| "deferrable (MSG_SM_DISCONNECT_ALL p) = True"
| "deferrable MSG_SM_DRS_OR_RAT_CHANGED = True"
| "deferrable MSG_GET_RIL_BANDWIDTH = True"
| "deferrable (RADIO_RIL_SETUP_DATA_CALL pl) = True"
| "deferrable _ = False"

definition cds_inv :: "cdsm \<Rightarrow> bool" where
  "cds_inv s \<longleftrightarrow> (\<exists>c. c \<noteq> DefaultState \<and> curState s = Some c \<and> destState s = Some c
     \<and> currentState (dat s) = Some c \<and> deActiveApnTypeId (dat s) = ERROR_APN_ID
     \<and> (c = InactiveState \<longrightarrow> deferEvents s = [])
     \<and> (\<forall>ev\<in>set (deferEvents s @ sent s). deferrable ev) \<and> timers_ok (dat s))"

lemma deferrable_not_init: "deferrable ev \<Longrightarrow> ev \<noteq> MSG_STATE_MACHINE_INIT \<and> ev \<noteq> MSG_STATE_MACHINE_QUIT"
  by (cases ev) auto

text \<open>What a message can do to the fields of the invariant.\<close>

lemma upd_frame [simp]:
  "curState (upd f s) = curState s" "destState (upd f s) = destState s"
  "deferEvents (upd f s) = deferEvents s" "sent (upd f s) = sent s" "isQuit (upd f s) = isQuit s"
  "dat (upd f s) = f (dat s)"
  by (simp_all add: upd_def)

lemma TransitionTo_frame [simp]:
  "curState (TransitionTo d s) = curState s" "destState (TransitionTo d s) = Some d"
  "deferEvents (TransitionTo d s) = deferEvents s" "sent (TransitionTo d s) = sent s"
  "isQuit (TransitionTo d s) = isQuit s" "dat (TransitionTo d s) = dat s"
  by (simp_all add: TransitionTo_def)

lemma DeferEvent_frame [simp]:
  "curState (DeferEvent ev s) = curState s" "destState (DeferEvent ev s) = destState s"
  "deferEvents (DeferEvent ev s) = deferEvents s @ [ev]" "sent (DeferEvent ev s) = sent s"
  "isQuit (DeferEvent ev s) = isQuit s" "dat (DeferEvent ev s) = dat s"
  by (simp_all add: DeferEvent_def)

lemma DoConnect_timers: "timers (DoConnect P e p d) \<in> {timers d,
    timers d @ [(MSG_CONNECT_TIMEOUT_CHECK (sint (connectId d)), CONNECTION_TIMEOUT)]}"
  by (auto simp: DoConnect_def SendTimer_def emit_def Let_def split: option.splits)

lemma FreeConnection_timers: "timers (FreeConnection q d) =
    timers d @ [(MSG_DISCONNECT_TIMEOUT_CHECK (sint (connectId d)), DISCONNECTION_TIMEOUT)]"
  by (simp add: FreeConnection_def SendTimer_def emit_def)

lemma DoConnect_new_timer: "tm \<in> set (timers (DoConnect P e p d)) \<Longrightarrow> tm \<notin> set (timers d) \<Longrightarrow>
    fst tm = MSG_CONNECT_TIMEOUT_CHECK (sint (connectId d))"
  using DoConnect_timers [of P e p d] by auto

text \<open>Fields that the operations on link information leave alone.\<close>

definition same_core :: "sm_data \<Rightarrow> sm_data \<Rightarrow> bool" where
  "same_core d d' \<longleftrightarrow> connectId d' = connectId d \<and> sm_apnId d' = sm_apnId d
     \<and> deActiveApnTypeId d' = deActiveApnTypeId d \<and> resultInfo d' = resultInfo d
     \<and> currentState d' = currentState d \<and> timers d' = timers d \<and> sm_cid d' = sm_cid d
     \<and> startTimeConnectTimeoutTask d' = startTimeConnectTimeoutTask d \<and> tables d' = tables d
     \<and> sm_self d' = sm_self d \<and> mem d' = mem d"

lemma same_core_refl [simp]: "same_core d d"
  by (simp add: same_core_def)

lemma same_core_trans: "same_core a b \<Longrightarrow> same_core b c \<Longrightarrow> same_core a c"
  by (simp add: same_core_def)

lemma emit_core [simp]: "same_core d (emit es d)"
  by (simp add: same_core_def emit_def)

lemma push_core [simp]: "same_core d (push_supplier e i d)" "same_core d (push_link i d)"
  by (simp_all add: push_supplier_def push_link_def same_core_def emit_def split: prod.splits)

lemma link_ops_core [simp]:
  "same_core d (UpdateNetworkInfo e d)" "same_core d (Default_DrsOrRatChanged e d)"
  "same_core d (RefreshTcpBufferSizes e d)" "same_core d (RefreshConnectionBandwidths e d)"
  "same_core d (Active_push_supplier e d)" "same_core d (Active_ProcessNrStateChanged e d)"
  "same_core d (Active_ProcessNrFrequencyChanged e d)" "same_core d (end_reuse P d)"
  "same_core d (SetConnectionBandwidth up down d)"
  by (auto simp: UpdateNetworkInfo_def Default_DrsOrRatChanged_def RefreshTcpBufferSizes_def
      RefreshConnectionBandwidths_def SetConnectionTcpBuffer_def SetConnectionBandwidth_def
      Active_push_supplier_def Active_ProcessNrStateChanged_def Active_ProcessNrFrequencyChanged_def
      end_reuse_def SetReuseApnCap_def SetIfReuseSupplierId_def push_supplier_def push_link_def
      same_core_def emit_def Let_def split: prod.splits)

lemma same_coreD:
  assumes "same_core d d'"
  shows "connectId d' = connectId d" "sm_apnId d' = sm_apnId d" "deActiveApnTypeId d' = deActiveApnTypeId d"
    "currentState d' = currentState d" "timers d' = timers d" "sm_cid d' = sm_cid d"
    "startTimeConnectTimeoutTask d' = startTimeConnectTimeoutTask d" "tables d' = tables d"
    "sm_self d' = sm_self d" "mem d' = mem d" "resultInfo d' = resultInfo d"
  using assms by (simp_all add: same_core_def)

lemmas link_core_simps [simp] = same_coreD [OF emit_core] same_coreD [OF push_core(1)]
  same_coreD [OF push_core(2)] same_coreD [OF link_ops_core(1)] same_coreD [OF link_ops_core(2)]
  same_coreD [OF link_ops_core(3)] same_coreD [OF link_ops_core(4)] same_coreD [OF link_ops_core(5)]
  same_coreD [OF link_ops_core(6)] same_coreD [OF link_ops_core(7)] same_coreD [OF link_ops_core(8)]
  same_coreD [OF link_ops_core(9)]

lemma setter_frames [simp]:
  "connectId (SetDeActiveApnTypeId i d) = connectId d" "sm_apnId (SetDeActiveApnTypeId i d) = sm_apnId d"
  "deActiveApnTypeId (SetDeActiveApnTypeId i d) = i"
  "currentState (SetDeActiveApnTypeId i d) = currentState d" "timers (SetDeActiveApnTypeId i d) = timers d"
  "sm_cid (SetDeActiveApnTypeId i d) = sm_cid d" "resultInfo (SetDeActiveApnTypeId i d) = resultInfo d"
  "fx (SetDeActiveApnTypeId i d) = fx d" "tables (SetDeActiveApnTypeId i d) = tables d"
  "connectId (SetDataCallResultInfo r d) = connectId d" "sm_apnId (SetDataCallResultInfo r d) = sm_apnId d"
  "deActiveApnTypeId (SetDataCallResultInfo r d) = deActiveApnTypeId d"
  "currentState (SetDataCallResultInfo r d) = currentState d" "timers (SetDataCallResultInfo r d) = timers d"
  "sm_cid (SetDataCallResultInfo r d) = sm_cid d" "resultInfo (SetDataCallResultInfo r d) = Some r"
  "fx (SetDataCallResultInfo r d) = fx d" "tables (SetDataCallResultInfo r d) = tables d"
  "connectId (SetPdpErrorReason P n d) = connectId d" "sm_apnId (SetPdpErrorReason P n d) = sm_apnId d"
  "deActiveApnTypeId (SetPdpErrorReason P n d) = deActiveApnTypeId d"
  "currentState (SetPdpErrorReason P n d) = currentState d" "timers (SetPdpErrorReason P n d) = timers d"
  "sm_cid (SetPdpErrorReason P n d) = sm_cid d"
  "resultInfo (SetPdpErrorReason P n d) = Some ((default_result_info P) \<lparr>sd_reason := n\<rparr>)"
  "fx (SetPdpErrorReason P n d) = fx d" "tables (SetPdpErrorReason P n d) = tables d"
  by (simp_all add: SetDeActiveApnTypeId_def SetDataCallResultInfo_def SetPdpErrorReason_def)

lemma timer_frames [simp]:
  "connectId (RemoveTimer p d) = connectId d" "sm_apnId (RemoveTimer p d) = sm_apnId d"
  "deActiveApnTypeId (RemoveTimer p d) = deActiveApnTypeId d" "sm_cid (RemoveTimer p d) = sm_cid d"
  "currentState (RemoveTimer p d) = currentState d" "resultInfo (RemoveTimer p d) = resultInfo d"
  "fx (RemoveTimer p d) = fx d" "tables (RemoveTimer p d) = tables d"
  "timers (RemoveTimer p d) = filter (\<lambda>(ev, delay). \<not> p ev) (timers d)"
  "connectId (SendTimer ev n d) = connectId d" "sm_apnId (SendTimer ev n d) = sm_apnId d"
  "deActiveApnTypeId (SendTimer ev n d) = deActiveApnTypeId d" "sm_cid (SendTimer ev n d) = sm_cid d"
  "currentState (SendTimer ev n d) = currentState d" "resultInfo (SendTimer ev n d) = resultInfo d"
  "fx (SendTimer ev n d) = fx d" "tables (SendTimer ev n d) = tables d"
  "timers (SendTimer ev n d) = timers d @ [(ev, n)]"
  "startTimeConnectTimeoutTask (SendTimer ev n d) = startTimeConnectTimeoutTask d"
  by (simp_all add: RemoveTimer_def SendTimer_def)

lemma fx_emit [simp]: "fx (emit es d) = fx d @ es"
  by (simp add: emit_def)

lemma RestartRadio_frame [simp]: "same_core d (RestartRadio d)"
  by (simp add: RestartRadio_def)

lemma connection_frames [simp]:
  "connectId (DoConnect P e p d) = connectId d" "deActiveApnTypeId (DoConnect P e p d) = deActiveApnTypeId d"
  "currentState (DoConnect P e p d) = currentState d" "tables (DoConnect P e p d) = tables d"
  "connectId (FreeConnection q d) = connectId d" "deActiveApnTypeId (FreeConnection q d) = deActiveApnTypeId d"
  "currentState (FreeConnection q d) = currentState d" "sm_apnId (FreeConnection q d) = sm_apnId d"
  "sm_cid (FreeConnection q d) = sm_cid d" "resultInfo (FreeConnection q d) = resultInfo d"
  "tables (FreeConnection q d) = tables d"
  by (auto simp: DoConnect_def FreeConnection_def Let_def split: option.splits)

lemmas restart_simps [simp] = same_coreD [OF RestartRadio_frame]

lemmas event_splits = sm_event.splits option.splits setup_payload.splits if_splits prod.splits

text \<open>What one message does before the machine moves: the connection counter and the current state
  stay; the machine is sent to a proper state or stays; whoever sends it to the inactive state has
  named the role to report, except the end of the failure query.\<close>

lemma cds_msg_core:
  assumes "c \<noteq> DefaultState" "destState s = Some c"
  shows "connectId (dat (cds_msg P e c ev s)) = connectId (dat s)"
    and "currentState (dat (cds_msg P e c ev s)) = currentState (dat s)"
    and "\<exists>d. destState (cds_msg P e c ev s) = Some d \<and> d \<noteq> DefaultState
      \<and> (c = InactiveState \<longrightarrow> d \<in> {InactiveState, ActivatingState})
      \<and> (c \<noteq> InactiveState \<longrightarrow> d \<noteq> ActivatingState \<or> c = ActivatingState)"
    and "deActiveApnTypeId (dat (cds_msg P e c ev s)) =
      (if c \<noteq> InactiveState \<and> destState (cds_msg P e c ev s) = Some InactiveState
          \<and> ev \<noteq> MSG_SM_GET_LAST_FAIL_DONE
       then sm_apnId (dat s) else deActiveApnTypeId (dat s))"
    and "c \<noteq> InactiveState \<Longrightarrow> sm_apnId (dat (cds_msg P e c ev s)) = sm_apnId (dat s)"
    and "deferEvents (cds_msg P e c ev s) = deferEvents s
      \<or> deferrable ev \<and> c \<noteq> InactiveState \<and> deferEvents (cds_msg P e c ev s) = deferEvents s @ [ev]"
  using assms
  by (cases c; cases ev; auto simp: cds_msg_def process_defs fail_to_inactive_def Let_def
      split: event_splits)+

text \<open>New delayed events carry the number of the current attempt.\<close>

lemma cds_msg_timers:
  assumes "c \<noteq> DefaultState" "tm \<in> set (timers (dat (cds_msg P e c ev s)))" "tm \<notin> set (timers (dat s))"
  shows "fst tm \<in> {MSG_CONNECT_TIMEOUT_CHECK (sint (connectId (dat s))),
    MSG_DISCONNECT_TIMEOUT_CHECK (sint (connectId (dat s)))}"
  using assms
  by (cases c; cases ev) (auto simp: cds_msg_def process_defs fail_to_inactive_def Let_def FreeConnection_timers
      dest: DoConnect_new_timer split: event_splits)

lemma cds_msg_timers_ok:
  assumes "c \<noteq> DefaultState" "timers_ok (dat s)"
  shows "timers_ok (dat (cds_msg P e c ev s))"
  unfolding timers_ok_def
proof
  fix tm assume tm: "tm \<in> set (timers (dat (cds_msg P e c ev s)))"
  show "is_timer (fst tm)"
  proof (cases "tm \<in> set (timers (dat s))")
    case True
    then show ?thesis using assms(2) by (simp add: timers_ok_def)
  next
    case False
    from cds_msg_timers [OF assms(1) tm False] show ?thesis by (auto simp: is_timer_def)
  qed
qed

lemma quit_frame:
  "curState (quit_loop (cds_vtable P e) xs s) = curState s"
  "destState (quit_loop (cds_vtable P e) xs s) = destState s"
  "deferEvents (quit_loop (cds_vtable P e) xs s) = deferEvents s"
  "sent (quit_loop (cds_vtable P e) xs s) = sent s" "dat (quit_loop (cds_vtable P e) xs s) = dat s"
  by (induction xs arbitrary: s) (simp_all add: cds_end_frame)

lemma Quit_inv: "cds_inv s \<Longrightarrow> cds_inv (Quit (cds_vtable P e) s)"
  by (auto simp: cds_inv_def Quit_def quit_frame split: option.splits simp del: quit_loop.simps)

lemma entry_frames:
  "d \<noteq> DefaultState \<Longrightarrow> currentState (entry_data P e d dt) = Some d"
  "deActiveApnTypeId (entry_data P e InactiveState dt) = ERROR_APN_ID"
  "d \<noteq> InactiveState \<Longrightarrow> deActiveApnTypeId (entry_data P e d dt) = deActiveApnTypeId dt"
  "connectId (entry_data P e d dt) = (if d = InactiveState then connectId dt + 1 else connectId dt)"
  "sm_apnId (entry_data P e d dt) = sm_apnId dt" "timers (entry_data P e d dt) = timers dt"
  by (cases d; simp add: report_disconnect_def)+

lemma cds_step_inv:
  assumes inv: "cds_inv s" and ev: "ev \<noteq> MSG_STATE_MACHINE_INIT"
  shows "cds_inv (cds_step P e ev s)"
proof (cases "isQuit s \<or> ev = MSG_STATE_MACHINE_QUIT")
  case True
  then show ?thesis using inv Quit_inv [OF inv] by (auto simp: ProcessEvent_def)
next
  case False
  from inv obtain c where c: "c \<noteq> DefaultState" "curState s = Some c" "destState s = Some c"
    "currentState (dat s) = Some c" "deActiveApnTypeId (dat s) = ERROR_APN_ID"
    "c = InactiveState \<longrightarrow> deferEvents s = []" "\<forall>ev\<in>set (deferEvents s @ sent s). deferrable ev" "timers_ok (dat s)"
    by (auto simp: cds_inv_def)
  with False have set: "settled_in c s" by (simp add: settled_in_def)
  note core = cds_msg_core [OF c(1,3), of P e ev]
  from core(3) obtain d where d: "destState (cds_msg P e c ev s) = Some d" "d \<noteq> DefaultState"
    "c = InactiveState \<longrightarrow> d \<in> {InactiveState, ActivatingState}" by blast
  have tms: "timers_ok (dat (cds_msg P e c ev s))" by (rule cds_msg_timers_ok [OF c(1,8)])
  have held: "\<forall>ev\<in>set (deferEvents (cds_msg P e c ev s) @ sent s). deferrable ev" using core(6) c(7) by auto
  show ?thesis
  proof (cases "d = c")
    case True
    note st = cds_step_stays [OF set _ ev, of P e, unfolded d(1) True, simplified]
    have "cds_step P e ev s = cds_msg P e c ev s" "settled_in c (cds_step P e ev s)"
      using st False by auto
    moreover have "c = InactiveState \<longrightarrow> deferEvents (cds_msg P e c ev s) = []" using core(6) c(6) by auto
    moreover have "deActiveApnTypeId (dat (cds_msg P e c ev s)) = ERROR_APN_ID"
      using core(4) c(5) d(1) True by (auto split: if_splits)
    ultimately show ?thesis
      using core(2) c held tms by (auto simp: cds_inv_def settled_in_def cds_msg_frame)
  next
    case ne: False
    note mv = cds_step_moves [OF set _ ev d(1) ne d(2)]
    have "deActiveApnTypeId (dat (cds_step P e ev s)) = ERROR_APN_ID"
      using mv(2) False core(4) c(5) d(1) by (cases "d = InactiveState") (auto simp: entry_frames simp del: entry_data.simps)
    then show ?thesis
      using mv False d(2) held tms by (auto simp: cds_inv_def settled_in_def entry_frames timers_ok_def)
  qed
qed

lemma Init_inv: "cds_inv (cds_step P e MSG_STATE_MACHINE_INIT (Init P e self ag t h))"
  by (simp add: cds_inv_def Init_def new_hsm_def SetOriginalState_def new_sm_data_def ProcessEvent_def
      InitCmdEnter_def ProcessMsg_def process_defs ProcessTransitions_def hsm_ops Inactive_StateBegin_def
      timers_ok_def)

lemma reach_inv: "cds_reach P s \<Longrightarrow> cds_inv s"
proof (induction rule: cds_reach.induct)
  case (start e self ag t h)
  show ?case by (rule Init_inv)
next
  case (event s ev e)
  then show ?case by (simp add: cds_step_inv)
next
  case (resent s ev rest e)
  then have "cds_inv (s \<lparr>sent := rest\<rparr>)" "deferrable ev" by (auto simp: cds_inv_def)
  then show ?case using cds_step_inv deferrable_not_init by blast
next
  case (fired s tm e)
  let ?s = "upd (\<lambda>d. d \<lparr>timers := remove1 tm (timers d)\<rparr>) s"
  have "cds_inv ?s" using fired(3) by (auto simp: cds_inv_def timers_ok_def dest: set_remove1_subset [THEN subsetD])
  moreover have "is_timer (fst tm)" using fired(2,3) by (auto simp: cds_inv_def timers_ok_def)
  then have "fst tm \<noteq> MSG_STATE_MACHINE_INIT" by (auto simp: is_timer_def)
  ultimately show ?case by (rule cds_step_inv)
next
  case (shared s d')
  then show ?case by (auto simp: cds_inv_def shared_change_def)
qed

text \<open>C15: in every reachable state of a connection's machine, whatever events, late answers and timers
  it has seen and whatever the rest of the program changed in between, the state that the machine
  reports is the state it is in, that state is one of the four proper states, no failure report is
  left pending, an inactive machine holds back no event, and only requests that wait for a change of
  state are ever held back.\<close>

theorem cds_reachable:
  assumes "cds_reach P s"
  shows "currentState (dat s) = curState s \<and> destState s = curState s
    \<and> curState s \<in> Some ` {InactiveState, ActivatingState, ActiveState, DisconnectingState}
    \<and> deActiveApnTypeId (dat s) = ERROR_APN_ID
    \<and> (IsInactiveState (dat s) \<longrightarrow> deferEvents s = [])
    \<and> list_all deferrable (deferEvents s @ sent s)"
proof -
  from reach_inv [OF assms] obtain c where "c \<noteq> DefaultState" "curState s = Some c" "destState s = Some c"
    "currentState (dat s) = Some c" "deActiveApnTypeId (dat s) = ERROR_APN_ID"
    "c = InactiveState \<longrightarrow> deferEvents s = []" "\<forall>ev\<in>set (deferEvents s @ sent s). deferrable ev"
    unfolding cds_inv_def by blast
  then show ?thesis by (cases c) (simp_all add: IsInactiveState_def list_all_iff)
qed

text \<open>A concrete machine: a holder of the default role with one APN, just started.\<close>

definition sample_mem :: heap where
  "sample_mem = \<lparr>h_items = [1 \<mapsto> new_ApnItem], h_holders = [0 \<mapsto> (new_ApnHolder ''default'' 1) \<lparr>apnItem := Some 1\<rparr>],
     h_next = 2\<rparr>"

definition sample_machine :: cdsm where
  "sample_machine = cds_step sample_platform sample_env MSG_STATE_MACHINE_INIT
     (Init sample_platform sample_env 5 sample_agent (new_ConnectionTables 0) sample_mem)"

lemma sample_machine_reach: "cds_reach sample_platform sample_machine"
  unfolding sample_machine_def by (rule cds_reach.start)

theorem cds_reachable_witness: "IsInactiveState (dat sample_machine) \<and> deferEvents sample_machine = []"
proof -
  have "IsInactiveState (dat sample_machine)"
    by (simp add: sample_machine_def Init_def new_hsm_def SetOriginalState_def new_sm_data_def ProcessEvent_def
      InitCmdEnter_def ProcessMsg_def process_defs ProcessTransitions_def hsm_ops Inactive_StateBegin_def
      IsInactiveState_def)
  then show ?thesis using cds_reachable [OF sample_machine_reach] by blast
qed

section \<open>The calls a message makes\<close>

fun is_report :: "effect \<Rightarrow> bool" where
  "is_report (ToHandler (MSG_DISCONNECT_DATA_COMPLETE i) delay) = True"
| "is_report _ = False"

text \<open>Some calls were added, and none of them is a report of a lost connection.\<close>

definition quiet :: "sm_data \<Rightarrow> sm_data \<Rightarrow> bool" where
  "quiet d d' \<longleftrightarrow> (\<exists>pre. fx d' = fx d @ pre \<and> list_all (\<lambda>x. \<not> is_report x) pre)"

lemma fx_simps [simp]:
  "fx (push_supplier e i d) = fx d @ [Net (Net_UpdateNetSupplierInfo i (netSupplierInfo d))]"
  "fx (push_link i d) = fx d @ [Net (Net_UpdateNetLinkInfo i (netLinkInfo d))]"
  "fx (RefreshTcpBufferSizes e d) = fx d" "fx (RefreshConnectionBandwidths e d) = fx d"
  "fx (SetConnectionBandwidth up down d) = fx d" "fx (SetReuseApnCap cap d) = fx d"
  "fx (RestartRadio d) = fx d @ [Ril (SetRadioOff (sm_slotId d))]"
  "fx (FreeConnection q d) = fx d @ [Ril (DeactivatePdpContext (sm_slotId d)
     \<lparr>de_param = sint (connectId d), de_cid = sm_cid d, de_reason = dd_reason q\<rparr>)]"
  by (simp_all add: push_supplier_def push_link_def UpdateNetSupplierInfo_def UpdateNetLinkInfo_def
      RefreshTcpBufferSizes_def RefreshConnectionBandwidths_def SetConnectionTcpBuffer_def
      SetConnectionBandwidth_def SetReuseApnCap_def RestartRadio_def FreeConnection_def Let_def)

lemma quiet_ops:
  "quiet d (UpdateNetworkInfo e d)" "quiet d (Default_DrsOrRatChanged e d)" "quiet d (end_reuse P d)"
  "quiet d (DoConnect P e p d)"
  by (auto simp: quiet_def UpdateNetworkInfo_def Default_DrsOrRatChanged_def end_reuse_def DoConnect_def
      SetIfReuseSupplierId_def SetReuseSupplierId_def RegisterSlotType_def Let_def split: option.splits)

lemma quiet_refl [simp]: "quiet d d"
  by (simp add: quiet_def)

lemma quiet_trans: "quiet a b \<Longrightarrow> quiet b c \<Longrightarrow> quiet a c"
  by (auto simp: quiet_def)

lemma quiet_emit: "list_all (\<lambda>x. \<not> is_report x) es \<Longrightarrow> fx d' = fx d @ es \<Longrightarrow> quiet d d'"
  by (auto simp: quiet_def)

lemma quiet_then: "quiet a b \<Longrightarrow> list_all (\<lambda>x. \<not> is_report x) es \<Longrightarrow> fx c = fx b @ es \<Longrightarrow> quiet a c"
  by (auto simp: quiet_def)

lemma quiet_active:
  "quiet d (Active_push_supplier e d)" "quiet d (Active_ProcessNrStateChanged e d)"
  "quiet d (Active_ProcessNrFrequencyChanged e d)"
  "quiet d (UpdateNetworkInfo e (RefreshConnectionBandwidths e d))"
  "quiet d (UpdateNetworkInfo e (SetConnectionBandwidth up down d))"
  using quiet_ops(1) [of "RefreshConnectionBandwidths e (RefreshTcpBufferSizes e d)" e]
    quiet_ops(1) [of "RefreshConnectionBandwidths e d" e]
    quiet_ops(1) [of "SetConnectionBandwidth up down d" e]
  by (auto simp: quiet_def Active_push_supplier_def Active_ProcessNrStateChanged_def
      Active_ProcessNrFrequencyChanged_def)

lemma quiet_disconnect:
  "quiet d (FreeConnection q (SetPdpErrorReason P n (end_reuse P d)))"
  "quiet d (SetDataCallResultInfo r (SetDeActiveApnTypeId i (end_reuse P d)))"
  "quiet d (emit [Ext x] (SetDataCallResultInfo r (SetDeActiveApnTypeId i (end_reuse P d))))"
  using quiet_ops(3) [of d P] by (auto simp: quiet_def)

lemma cds_msg_quiet: "c \<noteq> DefaultState \<Longrightarrow> quiet (dat s) (dat (cds_msg P e c ev s))"
  by (cases c; cases ev; auto simp: cds_msg_def process_defs fail_to_inactive_def Let_def quiet_ops
      quiet_active quiet_disconnect split: event_splits; simp add: quiet_def)

section \<open>Every teardown is reported\<close>

lemma inactive_entry:
  assumes "deActiveApnTypeId d \<noteq> ERROR_APN_ID"
  shows "fx (entry_data P e InactiveState d) = fx d @ [ToHandler (MSG_DISCONNECT_DATA_COMPLETE
      (disconnect_report P d)) 0]"
    and "\<not> ns_isAvailable (netSupplierInfo (entry_data P e InactiveState d))"
  using assms
  by (simp_all add: report_disconnect_def disconnect_report_def emit_def Let_def split: option.splits)

lemma disconnect_report_fields:
  "sd_flag (disconnect_report P d) = deActiveApnTypeId d" "sd_active (disconnect_report P d) = 0"
  "sd_cid (disconnect_report P d) = sm_cid d"
  "resultInfo d = Some r \<Longrightarrow> sd_reason (disconnect_report P d) = sd_reason r
     \<and> sd_retryTime (disconnect_report P d) = sd_retryTime r
     \<and> sd_retryScene (disconnect_report P d) = sd_retryScene r"
  by (auto simp: disconnect_report_def Let_def split: option.splits)

lemma step_to_inactive:
  assumes "settled_in c s" "c \<noteq> InactiveState" "ev \<noteq> MSG_STATE_MACHINE_QUIT" "ev \<noteq> MSG_STATE_MACHINE_INIT"
    and "destState (cds_msg P e c ev s) = Some InactiveState"
    and "ev \<noteq> MSG_SM_GET_LAST_FAIL_DONE" "sm_apnId (dat s) \<noteq> ERROR_APN_ID"
  shows "settled_in InactiveState (cds_step P e ev s)"
    and "fx (dat (cds_step P e ev s)) = fx (dat (cds_msg P e c ev s)) @ [ToHandler
      (MSG_DISCONNECT_DATA_COMPLETE (disconnect_report P (dat (cds_msg P e c ev s)))) 0]"
    and "connectId (dat (cds_step P e ev s)) = connectId (dat s) + 1"
    and "\<not> ns_isAvailable (netSupplierInfo (dat (cds_step P e ev s)))"
    and "sd_flag (disconnect_report P (dat (cds_msg P e c ev s))) = sm_apnId (dat s)"
    and "sent (cds_step P e ev s) = sent s @ deferEvents (cds_msg P e c ev s)"
proof -
  have c: "c \<noteq> DefaultState" "destState s = Some c" using assms(1) by (simp_all add: settled_in_def)
  note mv = cds_step_moves [OF assms(1,3,4,5) assms(2) [symmetric]]
  have de: "deActiveApnTypeId (dat (cds_msg P e c ev s)) = sm_apnId (dat s)"
    using cds_msg_core(4) [OF c] assms(2,5,6) by simp
  show "settled_in InactiveState (cds_step P e ev s)" using mv(1) by simp
  show "fx (dat (cds_step P e ev s)) = fx (dat (cds_msg P e c ev s)) @ [ToHandler
      (MSG_DISCONNECT_DATA_COMPLETE (disconnect_report P (dat (cds_msg P e c ev s)))) 0]"
    "\<not> ns_isAvailable (netSupplierInfo (dat (cds_step P e ev s)))"
    using inactive_entry [of "dat (cds_msg P e c ev s)"] de assms(7) mv(2) by (simp_all del: entry_data.simps)
  show "connectId (dat (cds_step P e ev s)) = connectId (dat s) + 1"
    using mv(2) cds_msg_core(1) [OF c] by (simp add: entry_frames del: entry_data.simps)
  show "sd_flag (disconnect_report P (dat (cds_msg P e c ev s))) = sm_apnId (dat s)"
    by (simp add: disconnect_report_fields de)
  show "sent (cds_step P e ev s) = sent s @ deferEvents (cds_msg P e c ev s)" using mv(3) by simp
qed

text \<open>C13: whenever an event takes a reachable machine from a connecting, connected or disconnecting
  state to the inactive state, the handler gets exactly one report of the end of the connection,
  as the last call of that event, naming the role the connection was made for; the net supplier is
  marked unavailable, and the number of the attempt advances, so that answers to the old attempt no
  longer match. The only event excepted is the answer to a failure query.\<close>

theorem teardown_reported:
  assumes "cds_reach P s" "\<not> isQuit s" "\<not> IsInactiveState (dat s)"
    and "IsInactiveState (dat (cds_step P e ev s))"
    and "ev \<notin> {MSG_SM_GET_LAST_FAIL_DONE, MSG_STATE_MACHINE_QUIT, MSG_STATE_MACHINE_INIT}"
    and "sm_apnId (dat s) \<noteq> ERROR_APN_ID"
  shows "\<exists>pre info. fx (dat (cds_step P e ev s)) =
        fx (dat s) @ pre @ [ToHandler (MSG_DISCONNECT_DATA_COMPLETE info) 0]
      \<and> list_all (\<lambda>x. \<not> is_report x) pre \<and> sd_flag info = sm_apnId (dat s) \<and> sd_active info = 0
      \<and> \<not> ns_isAvailable (netSupplierInfo (dat (cds_step P e ev s)))
      \<and> connectId (dat (cds_step P e ev s)) = connectId (dat s) + 1"
proof -
  from reach_inv [OF assms(1)] obtain c where c: "c \<noteq> DefaultState" "curState s = Some c"
    "destState s = Some c" "currentState (dat s) = Some c" by (auto simp: cds_inv_def)
  with assms(2,3) have set: "settled_in c s" "c \<noteq> InactiveState"
    by (auto simp: settled_in_def IsInactiveState_def)
  from cds_msg_core(3) [OF c(1,3)] obtain d where d: "destState (cds_msg P e c ev s) = Some d"
    "d \<noteq> DefaultState" by blast
  have "d = InactiveState"
  proof (rule ccontr)
    assume ne: "d \<noteq> InactiveState"
    show False
    proof (cases "d = c")
      case True
      then show False
        using cds_step_stays(1) [OF set(1), of ev P e] assms(4,5) d set(2) cds_msg_core(2) [OF c(1,3)] c(4)
        by (simp add: IsInactiveState_def)
    next
      case False
      then show False
        using cds_step_moves(2) [OF set(1) _ _ d(1) False d(2)] assms(4,5) d(2) ne
        by (auto simp: IsInactiveState_def entry_frames)
    qed
  qed
  note st = step_to_inactive [OF set _ _ d(1) [unfolded this] _ assms(6)]
  from cds_msg_quiet [OF c(1)] obtain pre where
    "fx (dat (cds_msg P e c ev s)) = fx (dat s) @ pre" "list_all (\<lambda>x. \<not> is_report x) pre"
    unfolding quiet_def by blast
  then show ?thesis using st assms(5) by (auto simp: disconnect_report_fields)
qed

section \<open>Connecting\<close>

lemma connect_step:
  assumes "settled_in InactiveState s" "dc_apnHolder params = Some a" "h_holders (mem (dat s)) a = Some h"
    "apnItem h = Some i" "h_items (mem (dat s)) i = Some it"
  shows "settled_in ActivatingState (cds_step P e (MSG_SM_CONNECT (Some params)) s)"
    and "connectId (dat (cds_step P e (MSG_SM_CONNECT (Some params)) s)) = connectId (dat s)"
    and "sm_apnId (dat (cds_step P e (MSG_SM_CONNECT (Some params)) s)) = FindApnIdByApnName (apnType h)"
    and "fx (dat (cds_step P e (MSG_SM_CONNECT (Some params)) s)) = fx (dat s) @
      [Ril (ActivatePdpContext (sm_slotId (dat s)) (activate_param P e params (apnType h) it (dat s)))]"
    and "pending (MSG_CONNECT_TIMEOUT_CHECK (sint (connectId (dat s))))
      (dat (cds_step P e (MSG_SM_CONNECT (Some params)) s))"
    and "startTimeConnectTimeoutTask (dat (cds_step P e (MSG_SM_CONNECT (Some params)) s)) = now e"
proof -
  let ?ev = "MSG_SM_CONNECT (Some params)"
  have msg: "cds_msg P e InactiveState ?ev s = TransitionTo ActivatingState (upd (DoConnect P e params) s)"
    by (simp add: cds_msg_def Inactive_StateProcess_def)
  note mv = cds_step_moves [OF assms(1), of ?ev P e ActivatingState, unfolded msg, simplified]
  show "settled_in ActivatingState (cds_step P e ?ev s)" by (rule mv(1))
  show "connectId (dat (cds_step P e ?ev s)) = connectId (dat s)" by (simp add: mv(2))
  show "sm_apnId (dat (cds_step P e ?ev s)) = FindApnIdByApnName (apnType h)"
    "fx (dat (cds_step P e ?ev s)) = fx (dat s) @
      [Ril (ActivatePdpContext (sm_slotId (dat s)) (activate_param P e params (apnType h) it (dat s)))]"
    "startTimeConnectTimeoutTask (dat (cds_step P e ?ev s)) = now e"
    "pending (MSG_CONNECT_TIMEOUT_CHECK (sint (connectId (dat s)))) (dat (cds_step P e ?ev s))"
    by (simp_all add: mv(2) DoConnect_def assms Let_def emit_def pending_def)
qed

text \<open>While the machine stays in the activating state, events leave the attempt alone.\<close>

lemma activating_stays:
  assumes "destState s = Some ActivatingState"
    and "destState (cds_msg P e ActivatingState ev s) = Some ActivatingState"
  shows "same_core (dat s) (dat (cds_msg P e ActivatingState ev s))"
  using assms
  by (cases ev; auto simp: cds_msg_def process_defs fail_to_inactive_def Let_def split: event_splits;
      simp add: same_core_def)

text \<open>An event handler takes an event out of its queue when it delivers it; for a delayed event this is an
  entry of \<open>timers\<close>, the first one with this event.\<close>

fun take_out :: "sm_event \<Rightarrow> (sm_event \<times> int) list \<Rightarrow> (sm_event \<times> int) list" where
  "take_out ev [] = []"
| "take_out ev (tm # tms) = (if fst tm = ev then tms else tm # take_out ev tms)"

definition deliver :: "platform \<Rightarrow> env \<Rightarrow> sm_event \<Rightarrow> cdsm \<Rightarrow> cdsm" where
  "deliver P e ev s = cds_step P e ev (upd (\<lambda>d. d \<lparr>timers := take_out ev (timers d)\<rparr>) s)"

definition cds_run :: "platform \<Rightarrow> (env \<times> sm_event) list \<Rightarrow> cdsm \<Rightarrow> cdsm" where
  "cds_run P evs s = fold (\<lambda>(e, ev) s. deliver P e ev s) evs s"

lemma take_out_other: "ev \<noteq> ev' \<Longrightarrow> ev' \<in> fst ` set (take_out ev tms) \<longleftrightarrow> ev' \<in> fst ` set tms"
  by (induction tms) auto

lemma settled_upd [simp]: "settled_in c (upd f s) = settled_in c s"
  by (simp add: settled_in_def)

text \<open>The number, the role and the starting time of an attempt.\<close>

definition attempt_of :: "sm_data \<Rightarrow> 32 word \<times> int \<times> int" where
  "attempt_of d = (connectId d, sm_apnId d, startTimeConnectTimeoutTask d)"

abbreviation (input) "timeout_of d \<equiv> MSG_CONNECT_TIMEOUT_CHECK (sint (connectId d))"

lemma timeout_step:
  assumes "settled_in ActivatingState s" "now e - startTimeConnectTimeoutTask (dat s) \<ge> CONNECTION_TASK_TIME"
    "sm_apnId (dat s) \<noteq> ERROR_APN_ID"
  shows "settled_in InactiveState (cds_step P e (timeout_of (dat s)) s)"
    and "\<exists>info. fx (dat (cds_step P e (timeout_of (dat s)) s)) =
        fx (dat s) @ [ToHandler (MSG_DISCONNECT_DATA_COMPLETE info) 0]
      \<and> sd_flag info = sm_apnId (dat s) \<and> sd_reason info = PDP P PDP_ERR_RETRY"
proof -
  let ?ev = "timeout_of (dat s)"
  have msg: "cds_msg P e ActivatingState ?ev s = fail_to_inactive P s"
    using assms(2) by (simp add: cds_msg_def Activating_StateProcess_def ProcessConnectTimeout_def)
  note st = step_to_inactive [OF assms(1), of ?ev P e, unfolded msg, OF _ _ _ _ _ assms(3)]
  show "settled_in InactiveState (cds_step P e ?ev s)" by (rule st(1)) (simp_all add: fail_to_inactive_def)
  have f: "fx (dat (cds_step P e ?ev s)) = fx (dat (fail_to_inactive P s)) @ [ToHandler
      (MSG_DISCONNECT_DATA_COMPLETE (disconnect_report P (dat (fail_to_inactive P s)))) 0]"
    by (rule st(2)) (simp_all add: fail_to_inactive_def)
  show "\<exists>info. fx (dat (cds_step P e ?ev s)) = fx (dat s) @ [ToHandler (MSG_DISCONNECT_DATA_COMPLETE info) 0]
      \<and> sd_flag info = sm_apnId (dat s) \<and> sd_reason info = PDP P PDP_ERR_RETRY"
    unfolding f
    by (rule exI [of _ "disconnect_report P (dat (fail_to_inactive P s))"])
      (simp add: fail_to_inactive_def disconnect_report_fields)
qed

text \<open>A timeout that comes before its time is dropped, and the timer is not armed again.\<close>

lemma early_timeout:
  assumes "settled_in ActivatingState s" "now e - startTimeConnectTimeoutTask (dat s) < CONNECTION_TASK_TIME"
  shows "cds_step P e (timeout_of (dat s)) s = s"
proof -
  have "cds_msg P e ActivatingState (timeout_of (dat s)) s = s"
    using assms(2) by (simp add: cds_msg_def Activating_StateProcess_def ProcessConnectTimeout_def)
  then show ?thesis using cds_step_stays(1) [OF assms(1), of "timeout_of (dat s)" P e] assms(1) by (simp add: settled_in_def)
qed

text \<open>While events leave the machine in the activating state, the attempt is the same, its timer is armed
  until its timeout is delivered, and a timeout that was delivered came too early.\<close>

lemma activating_run:
  assumes "settled_in ActivatingState s" "sm_apnId (dat s) \<noteq> ERROR_APN_ID"
    and "\<forall>ev \<in> snd ` set evs. ev \<noteq> MSG_STATE_MACHINE_QUIT \<and> ev \<noteq> MSG_STATE_MACHINE_INIT"
    and "\<forall>k \<le> length evs. curState (cds_run P (take k evs) s) = Some ActivatingState"
  shows "settled_in ActivatingState (cds_run P evs s) \<and> attempt_of (dat (cds_run P evs s)) = attempt_of (dat s)
    \<and> (\<forall>e. (e, timeout_of (dat s)) \<in> set evs \<longrightarrow> now e - startTimeConnectTimeoutTask (dat s) < CONNECTION_TASK_TIME)
    \<and> (timeout_of (dat s) \<notin> snd ` set evs \<longrightarrow> pending (timeout_of (dat s)) (dat (cds_run P evs s))
        = pending (timeout_of (dat s)) (dat s))"
  using assms
proof (induction evs arbitrary: s)
  case (Cons x evs)
  obtain e ev where x: "x = (e, ev)" by (cases x)
  let ?t = "upd (\<lambda>d. d \<lparr>timers := take_out ev (timers d)\<rparr>) s"
  let ?s = "deliver P e ev s"
  have ev: "ev \<noteq> MSG_STATE_MACHINE_QUIT" "ev \<noteq> MSG_STATE_MACHINE_INIT" using Cons.prems(3) x by auto
  have set: "settled_in ActivatingState ?t" using Cons.prems(1) by simp
  then have dst: "destState ?t = Some ActivatingState" by (simp add: settled_in_def)
  have step: "?s = cds_step P e ev ?t" by (simp add: deliver_def)
  have cur: "curState ?s = Some ActivatingState" using Cons.prems(4) x by (auto simp: cds_run_def dest: spec [of _ 1])
  from cds_msg_core(3) [OF _ dst] obtain d where d: "destState (cds_msg P e ActivatingState ev ?t) = Some d"
    "d \<noteq> DefaultState" by blast
  have "d = ActivatingState"
    using cds_step_moves(1) [OF set ev d(1) _ d(2)] cur step by (auto simp: settled_in_def)
  note d' = d(1) [unfolded this]
  note st = cds_step_stays [OF set ev d', folded step]
  have core: "same_core (dat ?t) (dat ?s)" using activating_stays [OF dst d'] st(1) by simp
  then have same: "connectId (dat ?s) = connectId (dat s)" "sm_apnId (dat ?s) = sm_apnId (dat s)"
    "startTimeConnectTimeoutTask (dat ?s) = startTimeConnectTimeoutTask (dat s)" "timers (dat ?s) = take_out ev (timers (dat s))"
    by (simp_all add: same_core_def)
  have early: "now e - startTimeConnectTimeoutTask (dat s) < CONNECTION_TASK_TIME" if "ev = timeout_of (dat s)"
  proof (rule ccontr)
    assume "\<not> ?thesis"
    then have "settled_in InactiveState ?s"
      using timeout_step(1) [OF set, of e P] Cons.prems(2) that step by simp
    with cur show False by (simp add: settled_in_def)
  qed
  have keep: "pending (timeout_of (dat s)) (dat ?s) = pending (timeout_of (dat s)) (dat s)" if "ev \<noteq> timeout_of (dat s)"
    using take_out_other [OF that] by (simp add: pending_def same(4))
  have "\<forall>k \<le> length evs. curState (cds_run P (take k evs) ?s) = Some ActivatingState"
  proof (intro allI impI)
    fix k assume "k \<le> length evs"
    then show "curState (cds_run P (take k evs) ?s) = Some ActivatingState"
      using Cons.prems(4) [rule_format, of "Suc k"] x by (simp add: cds_run_def)
  qed
  note IH = Cons.IH [OF st(2) _ _ this, unfolded same]
  have "settled_in ActivatingState (cds_run P evs ?s) \<and> attempt_of (dat (cds_run P evs ?s)) = attempt_of (dat s)
    \<and> (\<forall>e. (e, timeout_of (dat s)) \<in> set evs \<longrightarrow> now e - startTimeConnectTimeoutTask (dat s) < CONNECTION_TASK_TIME)
    \<and> (timeout_of (dat s) \<notin> snd ` set evs \<longrightarrow> pending (timeout_of (dat s)) (dat (cds_run P evs ?s))
        = pending (timeout_of (dat s)) (dat ?s))"
    using IH Cons.prems(2,3) same by (auto simp: attempt_of_def)
  then show ?case using x early keep by (auto simp: cds_run_def)
qed (simp add: cds_run_def)

text \<open>C12: how a connection attempt ends. A connect request of a role with an APN, to an inactive machine,
  sends exactly one activation to the modem, marked with the number of the attempt, and arms the
  supervision timer. Whatever events are delivered then, delayed ones leaving the queue: one of
  them has ended the attempt, or the timer is still armed for this very attempt, or its timeout was delivered
  although the clock showed less than the task time since the request. Delivered no earlier than that,
  the timeout makes the machine inactive and reports the failure of the role with the reason to try
  again. Delivered earlier, which takes a clock that was set back, it is dropped and not armed again:
  from then on nothing supervises the attempt.\<close>

theorem connect_attempt_ends:
  fixes P :: platform and e e' :: env and s :: cdsm
  assumes "settled_in InactiveState s" "dc_apnHolder params = Some a" "h_holders (mem (dat s)) a = Some h"
    "apnItem h = Some i" "h_items (mem (dat s)) i = Some it"
    and "FindApnIdByApnName (apnType h) \<noteq> ERROR_APN_ID"
    and "\<And>e ev. (e, ev) \<in> set evs \<Longrightarrow> ev \<noteq> MSG_STATE_MACHINE_QUIT \<and> ev \<noteq> MSG_STATE_MACHINE_INIT"
  defines "s1 \<equiv> cds_step P e (MSG_SM_CONNECT (Some params)) s"
    and "s2 \<equiv> cds_run P evs (cds_step P e (MSG_SM_CONNECT (Some params)) s)"
    and "timeout \<equiv> MSG_CONNECT_TIMEOUT_CHECK (sint (connectId (dat s)))"
    and "ended \<equiv> \<exists>k\<le>length evs. curState (cds_run P (take k evs)
          (cds_step P e (MSG_SM_CONNECT (Some params)) s)) \<noteq> Some ActivatingState"
  shows "fx (dat s1) = fx (dat s) @ [Ril (ActivatePdpContext (sm_slotId (dat s))
        (activate_param P e params (apnType h) it (dat s)))]
    \<and> ad_param (activate_param P e params (apnType h) it (dat s)) = sint (connectId (dat s))
    \<and> pending timeout (dat s1)
    \<and> (ended \<or> pending timeout (dat s2)
        \<or> (\<exists>e2. (e2, timeout) \<in> set evs \<and> now e2 - now e < CONNECTION_TASK_TIME))
    \<and> (\<not> ended \<longrightarrow>
        (if now e' - now e \<ge> CONNECTION_TASK_TIME
         then settled_in InactiveState (deliver P e' timeout s2)
           \<and> (\<exists>info. fx (dat (deliver P e' timeout s2)) = fx (dat s2) @ [ToHandler (MSG_DISCONNECT_DATA_COMPLETE info) 0]
               \<and> sd_flag info = FindApnIdByApnName (apnType h) \<and> sd_reason info = PDP P PDP_ERR_RETRY)
         else deliver P e' timeout s2 = upd (\<lambda>d. d \<lparr>timers := take_out timeout (timers d)\<rparr>) s2))"
proof -
  note con = connect_step [OF assms(1-5), of P e, folded s1_def]
  have par: "ad_param (activate_param P e params (apnType h) it (dat s)) = sint (connectId (dat s))"
    by (simp add: activate_param_def FillActivateDataParam_def Let_def)
  have pend: "pending timeout (dat s1)" using con(5) by (simp add: timeout_def)
  have tmo: "timeout = timeout_of (dat s1)" by (simp add: timeout_def con)
  have id: "sm_apnId (dat s1) \<noteq> ERROR_APN_ID" using assms(6) by (simp add: con)
  show ?thesis
  proof (cases ended)
    case True
    with con(4) par pend show ?thesis by simp
  next
    case False
    then have all: "\<forall>k \<le> length evs. curState (cds_run P (take k evs) s1) = Some ActivatingState"
      unfolding ended_def s1_def by blast
    have evs: "\<forall>ev \<in> snd ` set evs. ev \<noteq> MSG_STATE_MACHINE_QUIT \<and> ev \<noteq> MSG_STATE_MACHINE_INIT"
      using assms(7) by fastforce
    note run = activating_run [OF con(1) id evs all, folded tmo]
    have s2: "cds_run P evs s1 = s2" by (simp add: s2_def s1_def)
    have same: "connectId (dat s2) = connectId (dat s)" "sm_apnId (dat s2) = FindApnIdByApnName (apnType h)"
      "startTimeConnectTimeoutTask (dat s2) = now e"
      using run con by (simp_all add: attempt_of_def s2)
    let ?t = "upd (\<lambda>d. d \<lparr>timers := take_out timeout (timers d)\<rparr>) s2"
    have t: "settled_in ActivatingState ?t" "timeout = timeout_of (dat ?t)" using run by (simp_all add: s2 timeout_def same)
    have "if now e' - now e \<ge> CONNECTION_TASK_TIME
       then settled_in InactiveState (deliver P e' timeout s2)
         \<and> (\<exists>info. fx (dat (deliver P e' timeout s2)) = fx (dat s2) @ [ToHandler (MSG_DISCONNECT_DATA_COMPLETE info) 0]
             \<and> sd_flag info = FindApnIdByApnName (apnType h) \<and> sd_reason info = PDP P PDP_ERR_RETRY)
       else deliver P e' timeout s2 = ?t"
      using timeout_step [OF t(1), of e' P, folded t(2)] early_timeout [OF t(1), of e' P, folded t(2)] assms(6)
      by (simp add: deliver_def same)
    moreover have "pending timeout (dat s2) \<or> (\<exists>e2. (e2, timeout) \<in> set evs \<and> now e2 - now e < CONNECTION_TASK_TIME)"
      using run pend con(6) by (force simp: s2)
    ultimately show ?thesis using con(4) par pend by blast
  qed
qed

lemma sample_machine_inactive: "settled_in InactiveState sample_machine" "connectId (dat sample_machine) = 1"
  "mem (dat sample_machine) = sample_mem" "fx (dat sample_machine) = []"
  by (simp_all add: sample_machine_def Init_def new_hsm_def SetOriginalState_def new_sm_data_def ProcessEvent_def
      InitCmdEnter_def ProcessMsg_def process_defs ProcessTransitions_def hsm_ops Inactive_StateBegin_def
      settled_in_def)

definition sample_params :: DataConnectionParams where
  "sample_params = mk_DataConnectionParams (Some 0) 0 RADIO_TECHNOLOGY_LTE False False True"

lemma sample_connect:
  "dc_apnHolder sample_params = Some 0"
  "h_holders (mem (dat sample_machine)) 0 = Some ((new_ApnHolder ''default'' 1) \<lparr>apnItem := Some 1\<rparr>)"
  "apnItem ((new_ApnHolder ''default'' 1) \<lparr>apnItem := Some 1\<rparr>) = Some 1"
  "h_items (mem (dat sample_machine)) 1 = Some new_ApnItem"
  "FindApnIdByApnName (apnType ((new_ApnHolder ''default'' 1) \<lparr>apnItem := Some 1\<rparr>)) = 1"
  by (simp_all add: sample_machine_inactive sample_mem_def sample_params_def mk_DataConnectionParams_def
      new_ApnHolder_def FindApnIdByApnName_def apnIdApnNameMap_def)

theorem connect_attempt_ends_witness:
  "settled_in InactiveState (deliver sample_platform (sample_env \<lparr>now := 180000\<rparr>) (MSG_CONNECT_TIMEOUT_CHECK 1)
     (cds_step sample_platform sample_env (MSG_SM_CONNECT (Some sample_params)) sample_machine))"
proof -
  note con = connect_step [OF sample_machine_inactive(1) sample_connect(1-4), of sample_platform sample_env]
  have t: "now (sample_env \<lparr>now := 180000\<rparr>) - now sample_env \<ge> CONNECTION_TASK_TIME"
    by (simp add: sample_env_def)
  show ?thesis
    using connect_attempt_ends [OF sample_machine_inactive(1) sample_connect(1-4), of "[]" sample_platform sample_env
        "sample_env \<lparr>now := 180000\<rparr>"]
      con(1) sample_connect(5) t by (simp add: cds_run_def settled_in_def sample_machine_inactive)
qed

theorem teardown_reported_witness:
  "\<exists>pre info. fx (dat (cds_step sample_platform (sample_env \<lparr>now := 180000\<rparr>) (MSG_CONNECT_TIMEOUT_CHECK 1)
      (cds_step sample_platform sample_env (MSG_SM_CONNECT (Some sample_params)) sample_machine)))
    = pre @ [ToHandler (MSG_DISCONNECT_DATA_COMPLETE info) 0] \<and> sd_flag info = 1"
proof -
  let ?s = "cds_step sample_platform sample_env (MSG_SM_CONNECT (Some sample_params)) sample_machine"
  let ?e = "sample_env \<lparr>now := 180000\<rparr>"
  note con = connect_step [OF sample_machine_inactive(1) sample_connect(1-4), of sample_platform sample_env]
  have reach: "cds_reach sample_platform ?s"
    by (rule cds_reach.event [OF sample_machine_reach]) simp
  have ids: "sm_apnId (dat ?s) = 1" "connectId (dat ?s) = 1"
    by (simp_all only: con(2,3) sample_connect(5) sample_machine_inactive(2))
  have t: "now ?e - startTimeConnectTimeoutTask (dat ?s) \<ge> CONNECTION_TASK_TIME"
    unfolding con(6) by (simp add: sample_env_def)
  have to: "settled_in InactiveState (cds_step sample_platform ?e (MSG_CONNECT_TIMEOUT_CHECK 1) ?s)"
    using timeout_step(1) [OF con(1) t, of sample_platform] by (simp add: ids)
  have inact: "IsInactiveState (dat (cds_step sample_platform ?e (MSG_CONNECT_TIMEOUT_CHECK 1) ?s))"
    using reach_inv [OF cds_reach.event [OF reach, of "MSG_CONNECT_TIMEOUT_CHECK 1" ?e]] to
    by (auto simp: cds_inv_def settled_in_def IsInactiveState_def)
  have act: "\<not> IsInactiveState (dat ?s)" "\<not> isQuit ?s"
    using reach_inv [OF reach] con(1) by (auto simp: cds_inv_def settled_in_def IsInactiveState_def)
  show ?thesis using teardown_reported [OF reach act(2,1) inact] ids by auto
qed

section \<open>Late answers\<close>

lemma sint_eq_iff: "sint (a :: 32 word) = sint b \<longleftrightarrow> a = b"
  by (metis signed_word_eqI)

lemma later_attempt: "0 < n \<Longrightarrow> n < 2 ^ 32 \<Longrightarrow> c + word_of_nat n \<noteq> (c :: 32 word)"
proof
  assume n: "0 < n" "n < 2 ^ 32" and "c + word_of_nat n = c"
  then have "word_of_nat n = (0 :: 32 word)" by simp
  then have "n mod 2 ^ 32 = 0" using unat_of_nat [where 'a = 32, of n] by simp
  with n show False by simp
qed

text \<open>C16: which late answers are ignored. Let the number of the attempt have advanced since, by any number
  of returns to the inactive state below \<open>2 ^ 32\<close>. A machine that is connecting takes a setup result of the
  earlier attempt only to clear the count of consecutive channel errors, and an error answer and a
  connect timeout of it leave the machine as it is; while disconnecting, the same holds of the answer to
  a deactivation, of a disconnect timeout and of any setup answer; an inactive machine ignores all five.
  A connected machine ignores the others, but it does not compare the number of a setup result: it
  reports any of them to the handler as the completion of its own role, and disarms the timer.\<close>

theorem late_answers_ignored:
  assumes "connectId (dat s) = old + word_of_nat n" "0 < n" "n < 2 ^ 32"
  shows "(settled_in ActivatingState s \<longrightarrow>
        (\<forall>r. sd_flag r = sint old \<longrightarrow> cds_step P e (RADIO_RIL_SETUP_DATA_CALL (SetupResult r)) s
           = upd (\<lambda>d. d \<lparr>rilSetChdataErrCnt := 0\<rparr>) s)
        \<and> (\<forall>r. rr_flag r = sint old \<longrightarrow> cds_step P e (RADIO_RIL_SETUP_DATA_CALL (SetupError r)) s = s)
        \<and> cds_step P e (MSG_CONNECT_TIMEOUT_CHECK (sint old)) s = s)
    \<and> (settled_in DisconnectingState s \<longrightarrow>
        (\<forall>r. rr_flag r = sint old \<longrightarrow> cds_step P e (RADIO_RIL_DEACTIVATE_DATA_CALL (Some r)) s = s)
        \<and> cds_step P e (MSG_DISCONNECT_TIMEOUT_CHECK (sint old)) s = s
        \<and> (\<forall>pl. cds_step P e (RADIO_RIL_SETUP_DATA_CALL pl) s = s))
    \<and> (settled_in InactiveState s \<or> settled_in ActiveState s \<longrightarrow>
        (\<forall>r. cds_step P e (RADIO_RIL_SETUP_DATA_CALL (SetupError r)) s = s)
        \<and> (\<forall>r. cds_step P e (RADIO_RIL_DEACTIVATE_DATA_CALL r) s = s)
        \<and> cds_step P e (MSG_CONNECT_TIMEOUT_CHECK (sint old)) s = s
        \<and> cds_step P e (MSG_DISCONNECT_TIMEOUT_CHECK (sint old)) s = s)
    \<and> (\<forall>r. sd_flag r = sint old \<longrightarrow>
        (settled_in InactiveState s \<longrightarrow> cds_step P e (RADIO_RIL_SETUP_DATA_CALL (SetupResult r)) s = s)
        \<and> (settled_in ActiveState s \<longrightarrow> cds_step P e (RADIO_RIL_SETUP_DATA_CALL (SetupResult r)) s
             = upd (\<lambda>d. emit [ToHandler (MSG_ESTABLISH_DATA_CONNECTION_COMPLETE (r \<lparr>sd_flag := sm_apnId d\<rparr>)) 0]
                      (RemoveTimer is_connect_timer d)) s))"
proof -
  have ne: "sint (connectId (dat s)) \<noteq> sint old" using later_attempt [OF assms(2,3), of old] assms(1)
    by (simp add: sint_eq_iff)
  have step: "cds_step P e ev s = cds_msg P e c ev s"
    if "settled_in c s" "ev \<noteq> MSG_STATE_MACHINE_QUIT" "ev \<noteq> MSG_STATE_MACHINE_INIT"
      "destState (cds_msg P e c ev s) = destState s" for ev c
    using cds_step_stays(1) [OF that(1-3)] that(1,4) by (simp add: settled_in_def)
  show ?thesis
    using ne by (auto simp: step cds_msg_def process_defs Let_def)
qed

definition sample_connecting :: cdsm where
  "sample_connecting =
     cds_step sample_platform sample_env (MSG_SM_CONNECT (Some sample_params)) sample_machine"

lemmas sample_connecting_facts =
  connect_step [OF sample_machine_inactive(1) sample_connect(1-4), of sample_platform sample_env,
    folded sample_connecting_def, unfolded sample_connect(5) sample_machine_inactive]

theorem late_answers_ignored_witness:
  "cds_step sample_platform sample_env (MSG_CONNECT_TIMEOUT_CHECK 0) sample_connecting = sample_connecting"
  using late_answers_ignored [of sample_connecting 0 1 sample_platform sample_env]
    sample_connecting_facts(1,2) by simp

section \<open>Connected, and disconnecting again\<close>

lemma setup_success_step:
  assumes "settled_in ActivatingState s" "sd_flag r = sint (connectId (dat s))" "sd_reason r = 0"
    "sd_active r \<noteq> 0"
  defines "ev \<equiv> RADIO_RIL_SETUP_DATA_CALL (SetupResult r)"
  shows "settled_in ActiveState (cds_step P e ev s)"
    and "sent (cds_step P e ev s) = sent s @ deferEvents s @ [ev]"
    and "deferEvents (cds_step P e ev s) = []"
    and "GetActiveConnectionByCid (sd_cid r) (tables (dat (cds_step P e ev s))) = Some (sm_self (dat s))"
    and "sm_cid (dat (cds_step P e ev s)) = sd_cid r" "sm_apnId (dat (cds_step P e ev s)) = sm_apnId (dat s)"
    and "fx (dat (cds_step P e ev s)) = fx (dat s)" "timers (dat (cds_step P e ev s)) = timers (dat s)"
    and "connectId (dat (cds_step P e ev s)) = connectId (dat s)"
    and "ct_slotId (tables (dat (cds_step P e ev s))) = ct_slotId (tables (dat s))"
proof -
  define s' where "s' = TransitionTo ActiveState (DeferEvent ev (upd (\<lambda>d. d \<lparr>rilSetChdataErrCnt := 0,
      sm_cid := sd_cid r, tables := AddActiveConnectionByCid (Some (sm_self d)) (sd_cid r) (tables d)\<rparr>) s))"
  have msg: "cds_msg P e ActivatingState ev s = s'"
    using assms(2-4)
    by (simp add: cds_msg_def Activating_StateProcess_def RilActivatePdpContextDone_def Let_def ev_def s'_def
        upd_def)
  have dst: "destState (cds_msg P e ActivatingState ev s) = Some ActiveState" by (simp add: msg s'_def)
  have mv: "settled_in ActiveState (cds_step P e ev s)"
    "dat (cds_step P e ev s) = entry_data P e ActiveState (dat s')"
    "sent (cds_step P e ev s) = sent s @ deferEvents s'" "deferEvents (cds_step P e ev s) = []"
    using cds_step_moves [OF assms(1) _ _ dst, unfolded msg] by (simp_all add: ev_def)
  show "settled_in ActiveState (cds_step P e ev s)" "deferEvents (cds_step P e ev s) = []"
    "sent (cds_step P e ev s) = sent s @ deferEvents s @ [ev]"
    using mv(1,3,4) by (simp_all add: s'_def)
  show "GetActiveConnectionByCid (sd_cid r) (tables (dat (cds_step P e ev s))) = Some (sm_self (dat s))"
    by (simp add: mv(2) s'_def AddActiveConnectionByCid_def GetActiveConnectionByCid_def map_of_put)
  show "sm_cid (dat (cds_step P e ev s)) = sd_cid r" "sm_apnId (dat (cds_step P e ev s)) = sm_apnId (dat s)"
    "fx (dat (cds_step P e ev s)) = fx (dat s)" "timers (dat (cds_step P e ev s)) = timers (dat s)"
    "connectId (dat (cds_step P e ev s)) = connectId (dat s)"
    "ct_slotId (tables (dat (cds_step P e ev s))) = ct_slotId (tables (dat s))"
    by (simp_all add: mv(2) s'_def AddActiveConnectionByCid_def)
qed

text \<open>C27: a successful answer to the current attempt makes the machine active and findable under the
  connection identifier that the modem assigned, and sends the answer again behind the events that
  were held back; when the active machine processes it, the handler learns of the connection under
  the role's identifier, and no connect timeout is left armed.\<close>

theorem connection_established:
  assumes "settled_in ActivatingState s" "sd_flag r = sint (connectId (dat s))" "sd_reason r = 0"
    "sd_active r \<noteq> 0"
  shows "let ev = RADIO_RIL_SETUP_DATA_CALL (SetupResult r); s1 = cds_step P e ev s; s2 = cds_step P e' ev s1
    in settled_in ActiveState s1 \<and> sent s1 = sent s @ deferEvents s @ [ev]
      \<and> GetActiveConnectionByCid (sd_cid r) (tables (dat s1)) = Some (sm_self (dat s))
      \<and> settled_in ActiveState s2
      \<and> fx (dat s2) = fx (dat s) @
          [ToHandler (MSG_ESTABLISH_DATA_CONNECTION_COMPLETE (r \<lparr>sd_flag := sm_apnId (dat s)\<rparr>)) 0]
      \<and> (\<forall>i. \<not> pending (MSG_CONNECT_TIMEOUT_CHECK i) (dat s2))"
proof -
  let ?ev = "RADIO_RIL_SETUP_DATA_CALL (SetupResult r)"
  let ?s1 = "cds_step P e ?ev s"
  note ok = setup_success_step [OF assms, of P e]
  have msg: "cds_msg P e' ActiveState ?ev ?s1 = upd (\<lambda>d. emit [ToHandler
      (MSG_ESTABLISH_DATA_CONNECTION_COMPLETE (r \<lparr>sd_flag := sm_apnId d\<rparr>)) 0] (RemoveTimer is_connect_timer d)) ?s1"
    by (simp add: cds_msg_def Active_StateProcess_def Active_ProcessDataConnectionComplete_def)
  have dst: "destState (cds_msg P e' ActiveState ?ev ?s1) = Some ActiveState"
    using ok(1) by (simp add: msg settled_in_def)
  note st = cds_step_stays [OF ok(1) _ _ dst, simplified]
  have "\<forall>i. \<not> pending (MSG_CONNECT_TIMEOUT_CHECK i) (dat (cds_step P e' ?ev ?s1))"
    by (auto simp: st(1) msg pending_def)
  moreover have "fx (dat (cds_step P e' ?ev ?s1)) = fx (dat s) @
      [ToHandler (MSG_ESTABLISH_DATA_CONNECTION_COMPLETE (r \<lparr>sd_flag := sm_apnId (dat s)\<rparr>)) 0]"
    by (simp add: st(1) msg ok)
  ultimately show ?thesis using ok(1,2,4) st(2) by (simp add: Let_def)
qed

definition sample_success :: SetupDataCallResultInfo where
  "sample_success = sample_result_info \<lparr>sd_flag := 1, sd_cid := 7, sd_active := 1\<rparr>"

lemma sample_success_fields: "sd_flag sample_success = sint (connectId (dat sample_connecting))"
  "sd_reason sample_success = 0" "sd_active sample_success \<noteq> 0" "sd_cid sample_success = 7"
  by (simp_all add: sample_success_def sample_result_info_def sample_connecting_facts(2))

theorem connection_established_witness:
  "settled_in ActiveState (cds_step sample_platform sample_env
     (RADIO_RIL_SETUP_DATA_CALL (SetupResult sample_success)) sample_connecting)"
  using connection_established [OF sample_connecting_facts(1) sample_success_fields(1-3),
      of sample_platform sample_env sample_env]
  by (simp add: Let_def)

lemma disconnect_step:
  assumes "settled_in ActiveState s"
  shows "settled_in DisconnectingState (cds_step P e (MSG_SM_DISCONNECT (Some q)) s)"
    and "\<exists>pre. fx (dat (cds_step P e (MSG_SM_DISCONNECT (Some q)) s)) = fx (dat s) @ pre @
        [Ril (DeactivatePdpContext (sm_slotId (dat s)) \<lparr>de_param = sint (connectId (dat s)),
           de_cid = sm_cid (dat s), de_reason = dd_reason q\<rparr>)]
      \<and> list_all (\<lambda>x. \<not> is_report x) pre"
    and "pending (MSG_DISCONNECT_TIMEOUT_CHECK (sint (connectId (dat s))))
      (dat (cds_step P e (MSG_SM_DISCONNECT (Some q)) s))"
    and "sm_apnId (dat (cds_step P e (MSG_SM_DISCONNECT (Some q)) s)) = sm_apnId (dat s)"
    and "connectId (dat (cds_step P e (MSG_SM_DISCONNECT (Some q)) s)) = connectId (dat s)"
    and "resultInfo (dat (cds_step P e (MSG_SM_DISCONNECT (Some q)) s)) =
      Some ((default_result_info P) \<lparr>sd_reason := disconnReasonPdpErrorMap P (dd_reason q)\<rparr>)"
proof -
  let ?ev = "MSG_SM_DISCONNECT (Some q)"
  have msg: "cds_msg P e ActiveState ?ev s = TransitionTo DisconnectingState (upd (\<lambda>d. FreeConnection q
      (SetPdpErrorReason P (disconnReasonPdpErrorMap P (dd_reason q)) (end_reuse P d))) s)"
    by (simp add: cds_msg_def Active_StateProcess_def Active_ProcessDisconnectDone_def)
  note mv = cds_step_moves [OF assms, of ?ev P e DisconnectingState, unfolded msg, simplified]
  show "settled_in DisconnectingState (cds_step P e ?ev s)" by (rule mv(1))
  show "pending (MSG_DISCONNECT_TIMEOUT_CHECK (sint (connectId (dat s)))) (dat (cds_step P e ?ev s))"
    "sm_apnId (dat (cds_step P e ?ev s)) = sm_apnId (dat s)"
    "connectId (dat (cds_step P e ?ev s)) = connectId (dat s)"
    "resultInfo (dat (cds_step P e ?ev s)) =
      Some ((default_result_info P) \<lparr>sd_reason := disconnReasonPdpErrorMap P (dd_reason q)\<rparr>)"
    by (simp_all add: mv(2) pending_def FreeConnection_timers)
  from quiet_ops(3) [of "dat s" P] show "\<exists>pre. fx (dat (cds_step P e ?ev s)) = fx (dat s) @ pre @
        [Ril (DeactivatePdpContext (sm_slotId (dat s)) \<lparr>de_param = sint (connectId (dat s)),
           de_cid = sm_cid (dat s), de_reason = dd_reason q\<rparr>)]
      \<and> list_all (\<lambda>x. \<not> is_report x) pre"
    by (auto simp: mv(2) quiet_def)
qed

lemma deactivated_step:
  assumes "settled_in DisconnectingState s" "sm_apnId (dat s) \<noteq> ERROR_APN_ID" "rr_flag r = sint (connectId (dat s))"
  shows "settled_in InactiveState (cds_step P e (RADIO_RIL_DEACTIVATE_DATA_CALL (Some r)) s)"
    and "\<exists>info. fx (dat (cds_step P e (RADIO_RIL_DEACTIVATE_DATA_CALL (Some r)) s)) =
        fx (dat s) @ [ToHandler (MSG_DISCONNECT_DATA_COMPLETE info) 0]
      \<and> sd_flag info = sm_apnId (dat s)
      \<and> (\<forall>x. resultInfo (dat s) = Some x \<longrightarrow> sd_reason info = sd_reason x)"
    and "\<not> pending (MSG_DISCONNECT_TIMEOUT_CHECK i)
      (dat (cds_step P e (RADIO_RIL_DEACTIVATE_DATA_CALL (Some r)) s))"
proof -
  let ?ev = "RADIO_RIL_DEACTIVATE_DATA_CALL (Some r)"
  let ?m = "TransitionTo InactiveState
      (upd (\<lambda>d. SetDeActiveApnTypeId (sm_apnId d) (RemoveTimer is_disconnect_timer d)) s)"
  have msg: "cds_msg P e DisconnectingState ?ev s = ?m"
    using assms(3) by (simp add: cds_msg_def Disconnecting_StateProcess_def ProcessRilDeactivateDataCall_def)
  note st = step_to_inactive [OF assms(1), of ?ev P e, unfolded msg, simplified, OF assms(2)]
  show "settled_in InactiveState (cds_step P e ?ev s)" by (rule st(1))
  show "\<exists>info. fx (dat (cds_step P e ?ev s)) = fx (dat s) @ [ToHandler (MSG_DISCONNECT_DATA_COMPLETE info) 0]
      \<and> sd_flag info = sm_apnId (dat s)
      \<and> (\<forall>x. resultInfo (dat s) = Some x \<longrightarrow> sd_reason info = sd_reason x)"
    by (rule exI [of _ "disconnect_report P (dat ?m)"]) (simp add: st(2) disconnect_report_fields)
  have "dat (cds_step P e ?ev s) = entry_data P e InactiveState (dat ?m)"
    using cds_step_moves(2) [OF assms(1), of ?ev P e InactiveState, unfolded msg] by simp
  then show "\<not> pending (MSG_DISCONNECT_TIMEOUT_CHECK i) (dat (cds_step P e ?ev s))"
    by (auto simp: pending_def entry_frames simp del: entry_data.simps)
qed

text \<open>An event that neither its state nor the default state handles changes nothing.\<close>

lemma setup_answer_while_disconnecting:
  assumes "settled_in DisconnectingState s"
  shows "cds_step P e (RADIO_RIL_SETUP_DATA_CALL pl) s = s"
proof -
  have "cds_msg P e DisconnectingState (RADIO_RIL_SETUP_DATA_CALL pl) s = s"
    by (simp add: cds_msg_def process_defs)
  then show ?thesis using cds_step_stays(1) [OF assms, of "RADIO_RIL_SETUP_DATA_CALL pl" P e] assms
    by (simp add: settled_in_def)
qed

lemma disconnect_while_activating:
  assumes "settled_in ActivatingState s"
  shows "cds_step P e (MSG_SM_DISCONNECT q) s = DeferEvent (MSG_SM_DISCONNECT q) s"
proof -
  have "cds_msg P e ActivatingState (MSG_SM_DISCONNECT q) s = DeferEvent (MSG_SM_DISCONNECT q) s"
    by (simp add: cds_msg_def process_defs)
  then show ?thesis using cds_step_stays(1) [OF assms, of "MSG_SM_DISCONNECT q" P e] assms
    by (simp add: settled_in_def)
qed

text \<open>The events that the machine sent to itself, delivered in their order, one for each environment.\<close>

fun replay :: "platform \<Rightarrow> env list \<Rightarrow> cdsm \<Rightarrow> cdsm" where
  "replay P [] s = s"
| "replay P (e # es) s = (case sent s of [] \<Rightarrow> s | ev # rest \<Rightarrow> replay P es (cds_step P e ev (s \<lparr>sent := rest\<rparr>)))"

text \<open>Of the events that can wait: those that do not take an active machine to another state.\<close>

fun staying :: "sm_event \<Rightarrow> bool" where
  "staying (MSG_SM_CONNECT p) = True"
| "staying MSG_SM_DRS_OR_RAT_CHANGED = True"
| "staying MSG_GET_RIL_BANDWIDTH = True"
| "staying _ = False"

lemma staying_step:
  assumes "settled_in ActiveState s" "staying ev"
  shows "settled_in ActiveState (cds_step P e ev s)" "sent (cds_step P e ev s) = sent s"
    "deferEvents (cds_step P e ev s) = deferEvents s"
    "same_core (dat s) (dat (cds_step P e ev s)) \<and> quiet (dat s) (dat (cds_step P e ev s))"
proof -
  have ev: "ev \<noteq> MSG_STATE_MACHINE_QUIT" "ev \<noteq> MSG_STATE_MACHINE_INIT" using assms(2) by auto
  have dst: "destState (cds_msg P e ActiveState ev s) = Some ActiveState"
    "deferEvents (cds_msg P e ActiveState ev s) = deferEvents s"
    "same_core (dat s) (dat (cds_msg P e ActiveState ev s))"
    using assms by (cases ev; simp add: cds_msg_def process_defs settled_in_def)+
  note st = cds_step_stays [OF assms(1) ev dst(1)]
  show "settled_in ActiveState (cds_step P e ev s)" by (rule st(2))
  show "sent (cds_step P e ev s) = sent s" "deferEvents (cds_step P e ev s) = deferEvents s"
    "same_core (dat s) (dat (cds_step P e ev s)) \<and> quiet (dat s) (dat (cds_step P e ev s))"
    using dst cds_msg_quiet [of ActiveState s P e ev] by (simp_all add: st(1) cds_msg_frame)
qed

lemma replay_staying:
  assumes "settled_in ActiveState s" "list_all staying evs" "sent s = evs @ rest" "length es = length evs"
  shows "settled_in ActiveState (replay P es s) \<and> sent (replay P es s) = rest \<and> deferEvents (replay P es s) = deferEvents s
    \<and> same_core (dat s) (dat (replay P es s)) \<and> quiet (dat s) (dat (replay P es s))"
  using assms
proof (induction evs arbitrary: s es)
  case (Cons ev evs)
  then obtain e es' where es: "es = e # es'" by (cases es) auto
  let ?t = "s \<lparr>sent := evs @ rest\<rparr>"
  have t: "settled_in ActiveState ?t" using Cons.prems(1) by (simp add: settled_in_def)
  have "staying ev" using Cons.prems(2) by simp
  note st = staying_step [OF t this, of P e]
  have run: "replay P es s = replay P es' (cds_step P e ev ?t)" using Cons.prems(3) by (simp add: es)
  have "settled_in ActiveState (replay P es' (cds_step P e ev ?t)) \<and> sent (replay P es' (cds_step P e ev ?t)) = rest
    \<and> deferEvents (replay P es' (cds_step P e ev ?t)) = deferEvents (cds_step P e ev ?t)
    \<and> same_core (dat (cds_step P e ev ?t)) (dat (replay P es' (cds_step P e ev ?t)))
    \<and> quiet (dat (cds_step P e ev ?t)) (dat (replay P es' (cds_step P e ev ?t)))"
    by (rule Cons.IH [OF st(1)]) (use Cons.prems es st(2) in simp_all)
  then show ?case unfolding run using st(3,4) same_core_trans quiet_trans by (auto simp del: replay.simps)
qed simp

lemma replay_snoc:
  "sent (replay P es s) = ev # rest \<Longrightarrow> replay P (es @ [e]) s = cds_step P e ev ((replay P es s) \<lparr>sent := rest\<rparr>)"
proof (induction es arbitrary: s)
  case (Cons e' es)
  show ?case
  proof (cases "sent s")
    case Nil
    with Cons.prems show ?thesis by simp
  next
    case (Cons x xs)
    with Cons.IH Cons.prems show ?thesis by simp
  qed
qed simp

text \<open>C14: a disconnect request that arrives while the connection is being set up is not lost. It waits
  for the answer of the modem; when the setup succeeds, the request and the answer are sent again behind
  the events that were waiting already. If these are requests to connect, changes of the radio
  technology and questions for the bandwidth, and no earlier request to disconnect, they leave the
  connection alone, and then the request takes the machine to the disconnecting state with exactly
  the deactivation of the connection the modem just reported, supervised by a timer; the setup answer
  that follows is ignored, and the modem's confirmation makes the machine inactive, disarms the timer and
  reports the end of the role's connection with the reason that belongs to the request.\<close>

theorem disconnect_during_activation:
  fixes P :: platform and s :: cdsm and e1 e2 e3 e4 e5 :: env and q :: DataDisconnectParams
  assumes "settled_in ActivatingState s" "list_all staying (sent s @ deferEvents s)"
    and "sd_flag r = sint (connectId (dat s))" "sd_reason r = 0" "sd_active r \<noteq> 0"
    and "sm_apnId (dat s) \<noteq> ERROR_APN_ID" "rr_flag a = sint (connectId (dat s))"
    and "length es = length (sent s @ deferEvents s)"
  defines "request \<equiv> MSG_SM_DISCONNECT (Some q)" and "answer \<equiv> RADIO_RIL_SETUP_DATA_CALL (SetupResult r)"
    and "s2 \<equiv> cds_step P e2 (RADIO_RIL_SETUP_DATA_CALL (SetupResult r))
           (cds_step P e1 (MSG_SM_DISCONNECT (Some q)) s)"
    and "s3 \<equiv> replay P (es @ [e3]) (cds_step P e2
           (RADIO_RIL_SETUP_DATA_CALL (SetupResult r)) (cds_step P e1 (MSG_SM_DISCONNECT (Some q)) s))"
  shows "sent s2 = sent s @ deferEvents s @ [request, answer]
    \<and> (\<exists>pre. fx (dat s3) = fx (dat s) @ pre @ [Ril (DeactivatePdpContext (sm_slotId (dat s))
          \<lparr>de_param = sint (connectId (dat s)), de_cid = sd_cid r, de_reason = dd_reason q\<rparr>)]
        \<and> list_all (\<lambda>x. \<not> is_report x) pre)
    \<and> settled_in DisconnectingState s3 \<and> sent s3 = [answer]
    \<and> pending (MSG_DISCONNECT_TIMEOUT_CHECK (sint (connectId (dat s)))) (dat s3)
    \<and> replay P [e4] s3 = s3 \<lparr>sent := []\<rparr>
    \<and> (let s4 = cds_step P e5 (RADIO_RIL_DEACTIVATE_DATA_CALL (Some a)) (replay P [e4] s3)
       in settled_in InactiveState s4 \<and> (\<forall>i. \<not> pending (MSG_DISCONNECT_TIMEOUT_CHECK i) (dat s4))
         \<and> (\<exists>info. fx (dat s4) = fx (dat s3) @ [ToHandler (MSG_DISCONNECT_DATA_COMPLETE info) 0]
              \<and> sd_flag info = sm_apnId (dat s)
              \<and> sd_reason info = disconnReasonPdpErrorMap P (dd_reason q)))"
proof -
  let ?s1 = "DeferEvent (MSG_SM_DISCONNECT (Some q)) s"
  have s1: "cds_step P e1 (MSG_SM_DISCONNECT (Some q)) s = ?s1" by (rule disconnect_while_activating [OF assms(1)])
  have set1: "settled_in ActivatingState ?s1" "dat ?s1 = dat s" using assms(1) by (simp_all add: settled_in_def)
  have s2: "s2 = cds_step P e2 answer ?s1" by (simp add: s2_def s1 answer_def)
  note ok = setup_success_step [OF set1(1), of r P e2, folded answer_def, folded s2, unfolded set1(2), OF assms(3-5)]
  have sent2: "sent s2 = (sent s @ deferEvents s) @ [request, answer]" using ok(2) by (simp add: request_def)
  define w where "w = replay P es s2"
  note wait = replay_staying [OF ok(1) assms(2) sent2 assms(8), of P, folded w_def]
  let ?w = "w \<lparr>sent := [answer]\<rparr>"
  have w: "settled_in ActiveState ?w" "sent ?w = [answer]" "deferEvents ?w = []"
    using wait ok(3) by (simp_all add: settled_in_def)
  have same: "connectId (dat w) = connectId (dat s)" "sm_cid (dat w) = sd_cid r" "sm_apnId (dat w) = sm_apnId (dat s)"
    "sm_slotId (dat w) = sm_slotId (dat s)"
    using wait ok by (simp_all add: same_core_def)
  have "s3 = replay P (es @ [e3]) s2" by (simp add: s3_def s2_def)
  also have "\<dots> = cds_step P e3 request ?w"
    using replay_snoc [of P es s2 request "[answer]" e3] wait by (simp add: w_def)
  finally have s3: "s3 = cds_step P e3 (MSG_SM_DISCONNECT (Some q)) ?w" by (simp add: request_def)
  note dis = disconnect_step [OF w(1), of P e3 q, folded s3, simplified, unfolded same]
  have sent3: "sent s3 = [answer]"
  proof -
    have m: "cds_msg P e3 ActiveState (MSG_SM_DISCONNECT (Some q)) ?w = TransitionTo DisconnectingState (upd (\<lambda>d. FreeConnection q
        (SetPdpErrorReason P (disconnReasonPdpErrorMap P (dd_reason q)) (end_reuse P d))) ?w)"
      by (simp add: cds_msg_def Active_StateProcess_def Active_ProcessDisconnectDone_def)
    show ?thesis unfolding s3
      using cds_step_moves(3) [OF w(1), of "MSG_SM_DISCONNECT (Some q)" P e3 DisconnectingState, unfolded m] w by simp
  qed
  have s3': "settled_in DisconnectingState (s3 \<lparr>sent := []\<rparr>)" using dis(1) by (simp add: settled_in_def)
  have skip: "replay P [e4] s3 = s3 \<lparr>sent := []\<rparr>"
    using setup_answer_while_disconnecting [OF s3', of P e4 "SetupResult r"] sent3 by (simp add: answer_def)
  note de = deactivated_step [OF s3', where r = a and P = P and e = e5, simplified, unfolded dis(4-6), OF assms(6,7)]
  obtain pre1 where pre1: "fx (dat w) = fx (dat s) @ pre1" "list_all (\<lambda>x. \<not> is_report x) pre1"
    using wait ok(7) by (auto simp: quiet_def)
  from dis(2) obtain pre2 where pre2: "fx (dat s3) = fx (dat w) @ pre2 @ [Ril (DeactivatePdpContext (sm_slotId (dat s))
        \<lparr>de_param = sint (connectId (dat s)), de_cid = sd_cid r, de_reason = dd_reason q\<rparr>)]"
    "list_all (\<lambda>x. \<not> is_report x) pre2" by blast
  have "\<exists>pre. fx (dat s3) = fx (dat s) @ pre @ [Ril (DeactivatePdpContext (sm_slotId (dat s))
        \<lparr>de_param = sint (connectId (dat s)), de_cid = sd_cid r, de_reason = dd_reason q\<rparr>)]
      \<and> list_all (\<lambda>x. \<not> is_report x) pre"
    by (rule exI [of _ "pre1 @ pre2"]) (use pre1 pre2 in simp)
  then show ?thesis using sent2 sent3 skip dis(1,3) de by (auto simp: Let_def skip)
qed

definition sample_disconnect :: DataDisconnectParams where
  "sample_disconnect = \<lparr>dd_apnType = ''default'', dd_reason = REASON_CLEAR_CONNECTION\<rparr>"

lemma sample_connecting_queues: "deferEvents sample_connecting = []" "sent sample_connecting = []"
proof -
  have m: "cds_msg sample_platform sample_env InactiveState (MSG_SM_CONNECT (Some sample_params)) sample_machine
      = TransitionTo ActivatingState (upd (DoConnect sample_platform sample_env sample_params) sample_machine)"
    by (simp add: cds_msg_def Inactive_StateProcess_def)
  have i: "deferEvents sample_machine = [] \<and> sent sample_machine = []"
    by (simp add: sample_machine_def Init_def new_hsm_def SetOriginalState_def ProcessEvent_def
      InitCmdEnter_def ProcessMsg_def process_defs ProcessTransitions_def hsm_ops Inactive_StateBegin_def)
  show "deferEvents sample_connecting = []" "sent sample_connecting = []"
    unfolding sample_connecting_def
    using cds_step_moves(3,4) [OF sample_machine_inactive(1), of "MSG_SM_CONNECT (Some sample_params)"
        sample_platform sample_env ActivatingState, unfolded m] i by simp_all
qed

theorem disconnect_during_activation_witness:
  "settled_in DisconnectingState (replay sample_platform [sample_env]
     (cds_step sample_platform sample_env (RADIO_RIL_SETUP_DATA_CALL (SetupResult sample_success))
       (cds_step sample_platform sample_env (MSG_SM_DISCONNECT (Some sample_disconnect)) sample_connecting)))"
proof -
  have id: "sm_apnId (dat sample_connecting) \<noteq> ERROR_APN_ID" using sample_connecting_facts(3) by simp
  have ack: "rr_flag \<lparr>rr_flag = 1, rr_chdata = False\<rparr> = sint (connectId (dat sample_connecting))"
    by (simp add: sample_connecting_facts(2))
  have none: "list_all staying (sent sample_connecting @ deferEvents sample_connecting)"
    "length [] = length (sent sample_connecting @ deferEvents sample_connecting)"
    by (simp_all add: sample_connecting_queues)
  show ?thesis
    using disconnect_during_activation [OF sample_connecting_facts(1) none(1)
        sample_success_fields(1-3) id ack none(2)] by (auto simp del: replay.simps)
qed

section \<open>No event is lost\<close>

text \<open>C29: the machine neither loses nor reorders what it holds back: after any event the events sent
  again and the events still held back are, in order, those of before followed at most by the event
  itself, and a change of state leaves nothing held back.\<close>

theorem cds_events_kept:
  assumes "\<not> isQuit s" "ev \<noteq> MSG_STATE_MACHINE_QUIT"
  shows "(\<exists>new. sent (cds_step P e ev s) @ deferEvents (cds_step P e ev s) = sent s @ deferEvents s @ new
      \<and> new \<in> {[], [ev]})
    \<and> curState (cds_step P e ev s) = destState (cds_step P e ev s)
    \<and> (settled_in c s \<longrightarrow> ev \<noteq> MSG_STATE_MACHINE_INIT \<longrightarrow> curState (cds_step P e ev s) \<noteq> Some c
        \<longrightarrow> deferEvents (cds_step P e ev s) = [])"
proof -
  have "deferEvents (cds_step P e ev s) = []"
    if set: "settled_in c s" and ev: "ev \<noteq> MSG_STATE_MACHINE_INIT" and cur: "curState (cds_step P e ev s) \<noteq> Some c"
  proof -
    have c: "c \<noteq> DefaultState" "destState s = Some c" using set by (simp_all add: settled_in_def)
    from cds_msg_core(3) [OF c] obtain d where d: "destState (cds_msg P e c ev s) = Some d" "d \<noteq> DefaultState"
      by blast
    have "d \<noteq> c" using cds_step_stays(2) [OF set assms(2) ev] d cur by (auto simp: settled_in_def)
    then show ?thesis using cds_step_moves(4) [OF set assms(2) ev d(1) _ d(2)] by simp
  qed
  then show ?thesis
    using cdsm.events_kept [of s P e ev] cdsm.settled(1) [of s P e ev] assms by auto
qed

theorem cds_events_kept_witness:
  "\<exists>new. sent (cds_step sample_platform sample_env MSG_GET_RIL_BANDWIDTH sample_connecting)
      @ deferEvents (cds_step sample_platform sample_env MSG_GET_RIL_BANDWIDTH sample_connecting) = new
    \<and> new \<in> {[], [MSG_GET_RIL_BANDWIDTH]}"
  using cds_events_kept [of sample_connecting MSG_GET_RIL_BANDWIDTH sample_platform sample_env ActiveState]
    sample_connecting_facts(1) sample_connecting_queues by (simp add: settled_in_def)

section \<open>What the rest of the program may do in between\<close>

text \<open>The operations that other components call on a machine between events are changes of the kind
  that the reachable states allow.\<close>

lemma shared_changeI:
  assumes "d' = d \<lparr>sm_capability := cap, reuseApnCap := ru, netLinkInfo := nl, netSupplierInfo := ns,
       sm_ipType := it, sm_cause := cs, sm_ifName := nm, agent := ag, tables := t, mem := h,
       timers := ts, fx := f\<rparr>"
    and "timers_ok d'"
    and "pending (MSG_CONNECT_TIMEOUT_CHECK (sint (connectId d))) d
      \<Longrightarrow> pending (MSG_CONNECT_TIMEOUT_CHECK (sint (connectId d))) d'"
    and "pending (MSG_DISCONNECT_TIMEOUT_CHECK (sint (connectId d))) d
      \<Longrightarrow> pending (MSG_DISCONNECT_TIMEOUT_CHECK (sint (connectId d))) d'"
  shows "shared_change d d'"
  unfolding shared_change_def using assms by blast

lemma OnInterfaceLinkStateChanged_shared:
  "timers_ok d \<Longrightarrow> shared_change d (OnInterfaceLinkStateChanged name up d)"
  by (rule shared_changeI [where cap = "sm_capability d" and ru = "reuseApnCap d" and nl = "netLinkInfo d"
        and ns = "netSupplierInfo d" and it = "sm_ipType d" and cs = "sm_cause d" and nm = "sm_ifName d"
        and ag = "agent d" and t = "tables d" and h = "mem d" and f = "fx d"
        and ts = "timers (OnInterfaceLinkStateChanged name up d)"])
    (auto simp: OnInterfaceLinkStateChanged_def RemoveTimer_def SendTimer_def timers_ok_def is_timer_def
      pending_def image_iff)

text \<open>When the network interface of a connection goes down while its deactivation is pending, the
  wait for the modem is shortened: exactly one disconnect timeout stays armed, for the current
  attempt and with the short delay; connect timeouts are untouched, and without a pending
  deactivation, or for another interface, or when the interface comes up, nothing changes.\<close>

theorem interface_down_shortens_wait:
  "OnInterfaceLinkStateChanged name up d =
     (if name = sm_ifName d \<and> \<not> up \<and> (\<exists>i. pending (MSG_DISCONNECT_TIMEOUT_CHECK i) d)
      then d \<lparr>timers := filter (\<lambda>(ev, delay). \<not> is_disconnect_timer ev) (timers d)
                @ [(MSG_DISCONNECT_TIMEOUT_CHECK (sint (connectId d)), INTERFACE_DOWN_TIMEOUT)]\<rparr>
      else d)"
proof -
  have "list_ex (\<lambda>(ev, delay). is_disconnect_timer ev) ts
      \<longleftrightarrow> (\<exists>i. MSG_DISCONNECT_TIMEOUT_CHECK i \<in> fst ` set ts)" for ts :: "(sm_event \<times> int) list"
  proof (induction ts)
    case (Cons x ts)
    obtain ev n where "x = (ev, n)" by (cases x)
    then show ?case using Cons by (cases ev) auto
  qed simp
  then show ?thesis by (simp add: OnInterfaceLinkStateChanged_def pending_def SendTimer_def RemoveTimer_def)
qed

end
