(* ===== verification/Connection_Manager.thy ===== *)
theory Connection_Manager
  imports Data_Machine_Correct
begin

text \<open>
  The part of \<open>services/src/data_connection_manager.cpp\<close> that reacts to the modem: the single
  state \<open>CcmDefaultState\<close> of the connection manager's own state machine. It reads the members
  of the connections' machines (a store of \<open>sm_data\<close>) and sends events to them.
\<close>

section \<open>Events and state\<close>

datatype ccm_event =
    CCM_INIT
  | CCM_QUIT
  | CCM_RADIO_CONNECTED
  | CCM_DATA_CALL_LIST_CHANGED "SetupDataCallResultInfo list option"
  | CCM_LINK_CAPABILITY_CHANGED "(int \<times> int) option"
  | CCM_NETWORKSLICE_URSP_RPT "nat list option"
  | CCM_NETWORKSLICE_ALLOWEDNSSAI_RPT "nat list option"
  | CCM_NETWORKSLICE_EHPLMN_RPT "nat list option"
  | CCM_OTHER nat

record ccm_data =
  cm_tables :: ConnectionTables
  cm_machines :: "sm_data store"
  cm_fx :: "effect list"

datatype ccm_state = CcmDefaultState

type_synonym ccm = "(ccm_state, ccm_event, ccm_data) hsm"

definition cm_emit :: "effect list \<Rightarrow> ccm_data \<Rightarrow> ccm_data" where
  "cm_emit es d = d \<lparr>cm_fx := cm_fx d @ es\<rparr>"

section \<open>Operations\<close>

definition observed_events :: "radio_event list" where
  "observed_events = [RADIO_CONNECTED, RADIO_DATA_CALL_LIST_CHANGED, RADIO_LINK_CAPABILITY_CHANGED,
     RADIO_NETWORKSLICE_URSP_RPT, RADIO_NETWORKSLICE_ALLOWEDNSSAI_RPT, RADIO_NETWORKSLICE_EHPLMN_RPT]"

definition RegisterRadioObserver :: "ccm_data \<Rightarrow> ccm_data" where
  "RegisterRadioObserver d =
     cm_emit (map (RegisterCoreNotify (ct_slotId (cm_tables d))) observed_events) d"

definition UnRegisterRadioObserver :: "ccm_data \<Rightarrow> ccm_data" where
  "UnRegisterRadioObserver d =
     cm_emit (map (UnRegisterCoreNotify (ct_slotId (cm_tables d))) observed_events) d"

text \<open>\<open>UpdateNetworkInfoIfInActive\<close> on the machine that holds a listed connection.\<close>

definition call_update :: "sm_data store \<Rightarrow> ConnectionTables \<Rightarrow> SetupDataCallResultInfo \<Rightarrow> effect list" where
  "call_update ms t it =
     (case GetActiveConnectionByCid (sd_cid it) t of
        None \<Rightarrow> []
      | Some m \<Rightarrow> (case ms m of
            None \<Rightarrow> []
          | Some d \<Rightarrow> fx (UpdateNetworkInfoIfInActive it (d \<lparr>fx := []\<rparr>))))"

definition CCM_UpdateNetworkInfo :: "SetupDataCallResultInfo list \<Rightarrow> ccm_data \<Rightarrow> ccm_data" where
  "CCM_UpdateNetworkInfo infos d =
     cm_emit (concat (map (call_update (cm_machines d) (cm_tables d)) infos)) d"

text \<open>The inner loop: the first listed entry of the machine's connection that is not active.\<close>

definition lost_event :: "platform \<Rightarrow> SetupDataCallResultInfo list \<Rightarrow> int \<Rightarrow> sm_event option" where
  "lost_event P infos cid =
     (case find (\<lambda>i. sd_cid i = cid \<and> sd_active i \<le> 0) infos of
        None \<Rightarrow> None
      | Some i \<Rightarrow> Some (MSG_SM_LOST_CONNECTION (Some ((default_result_info P)
          \<lparr>sd_cid := cid, sd_reason := sd_reason i, sd_retryTime := sd_retryTime i,
           sd_retryScene := 1\<rparr>))))"

definition lost_calls ::
  "platform \<Rightarrow> sm_data store \<Rightarrow> SetupDataCallResultInfo list \<Rightarrow> int \<times> addr \<Rightarrow> effect list" where
  "lost_calls P ms infos entry =
     (case ms (snd entry) of
        None \<Rightarrow> []
      | Some d \<Rightarrow> (case lost_event P infos (sm_cid d) of
            None \<Rightarrow> [] | Some ev \<Rightarrow> [ToMachine (snd entry) ev]))"

definition RadioDataCallListChanged ::
  "platform \<Rightarrow> SetupDataCallResultInfo list option \<Rightarrow> ccm_data \<Rightarrow> ccm_data" where
  "RadioDataCallListChanged P infos d =
     (case infos of
        None \<Rightarrow> d
      | Some dcList \<Rightarrow>
          let active = cidActiveConnectionMap (cm_tables d);
              d1 = CCM_UpdateNetworkInfo dcList d
          in cm_emit (concat (map (lost_calls P (cm_machines d1) dcList) active)) d1)"

definition RadioLinkCapabilityChanged :: "(int \<times> int) option \<Rightarrow> ccm_data \<Rightarrow> ccm_data" where
  "RadioLinkCapabilityChanged lc d =
     (case lc of
        None \<Rightarrow> d
      | Some c \<Rightarrow>
          if bandwidthSourceModem (cm_tables d)
          then cm_emit (map (\<lambda>(cid, m). ToMachine m (MSG_SM_LINK_CAPABILITY_CHANGED (Some c)))
                 (cidActiveConnectionMap (cm_tables d))) d
          else d)"

definition slice_report :: "env \<Rightarrow> (nat list \<Rightarrow> net_call) \<Rightarrow> nat list option \<Rightarrow> ccm_data \<Rightarrow> ccm_data" where
  "slice_report e call info d =
     (if \<not> supportNrSlice e then d
      else case info of None \<Rightarrow> d | Some buffer \<Rightarrow> cm_emit [Net (call buffer)] d)"

definition RadioNetworkSliceUrspRpt :: "env \<Rightarrow> nat list option \<Rightarrow> ccm_data \<Rightarrow> ccm_data" where
  "RadioNetworkSliceUrspRpt e = slice_report e Net_SetNetworkSliceUePolicy"

definition RadioNetworkSliceAllowedNssaiRpt :: "env \<Rightarrow> nat list option \<Rightarrow> ccm_data \<Rightarrow> ccm_data" where
  "RadioNetworkSliceAllowedNssaiRpt e = slice_report e Net_NetworkSliceAllowedNssaiRpt"

definition RadioNetworkSliceEhplmnRpt :: "env \<Rightarrow> nat list option \<Rightarrow> ccm_data \<Rightarrow> ccm_data" where
  "RadioNetworkSliceEhplmnRpt e = slice_report e Net_NetworkSliceEhplmnRpt"

definition ccm_upd :: "(ccm_data \<Rightarrow> ccm_data) \<Rightarrow> ccm \<Rightarrow> ccm" where
  "ccm_upd f s = s \<lparr>dat := f (dat s)\<rparr>"

definition Ccm_StateProcess ::
  "platform \<Rightarrow> env \<Rightarrow> ccm_event option \<Rightarrow> ccm \<Rightarrow> bool \<times> ccm_event option \<times> ccm" where
  "Ccm_StateProcess P e event s =
     (case event of
        None \<Rightarrow> (False, None, s)
      | Some ev \<Rightarrow> (case ev of
            CCM_RADIO_CONNECTED \<Rightarrow> (True, event, s)
          | CCM_DATA_CALL_LIST_CHANGED infos \<Rightarrow> (True, event, ccm_upd (RadioDataCallListChanged P infos) s)
          | CCM_LINK_CAPABILITY_CHANGED lc \<Rightarrow> (True, event, ccm_upd (RadioLinkCapabilityChanged lc) s)
          | CCM_NETWORKSLICE_URSP_RPT b \<Rightarrow> (True, event, ccm_upd (RadioNetworkSliceUrspRpt e b) s)
          | CCM_NETWORKSLICE_ALLOWEDNSSAI_RPT b \<Rightarrow>
              (True, event, ccm_upd (RadioNetworkSliceAllowedNssaiRpt e b) s)
          | CCM_NETWORKSLICE_EHPLMN_RPT b \<Rightarrow> (True, event, ccm_upd (RadioNetworkSliceEhplmnRpt e b) s)
          | _ \<Rightarrow> (False, event, s)))"

definition ccm_vtable :: "platform \<Rightarrow> env \<Rightarrow> (ccm_state, ccm_event, ccm_data) vtable" where
  "ccm_vtable P e = \<lparr>ancestors = (\<lambda>st. []), StateBegin = (\<lambda>st. ccm_upd RegisterRadioObserver),
     StateEnd = (\<lambda>st. ccm_upd UnRegisterRadioObserver), StateProcess = (\<lambda>st. Ccm_StateProcess P e),
     is_quit_event = (\<lambda>ev. ev = CCM_QUIT), is_init_event = (\<lambda>ev. ev = CCM_INIT)\<rparr>"

interpretation ccm: hsm_strict "ccm_vtable P e" for P e
  by unfold_locales
    (auto simp: ccm_vtable_def ccm_upd_def Ccm_StateProcess_def split: option.splits ccm_event.splits)

section \<open>Facts\<close>

lemma cm_emit_simps [simp]:
  "cm_fx (cm_emit es d) = cm_fx d @ es" "cm_tables (cm_emit es d) = cm_tables d"
  "cm_machines (cm_emit es d) = cm_machines d"
  by (simp_all add: cm_emit_def)

text \<open>The machine with a given address gets its event exactly once when the table is a proper map with
  one entry for the machine.\<close>

lemma filter_concat_unique:
  assumes "distinct (map snd xs)" "(k, m) \<in> set xs"
    and "\<And>x y. y \<in> set (f x) \<Longrightarrow> target y = Some (snd x)"
  shows "filter (\<lambda>y. target y = Some m) (concat (map f xs)) = f (k, m)"
  using assms(1,2)
proof (induction xs)
  case (Cons x xs)
  have other: "filter (\<lambda>y. target y = Some m) (f z) = []" if "snd z \<noteq> m" for z
    using assms(3) [of _ z] that by (auto simp: filter_empty_conv)
  have own: "filter (\<lambda>y. target y = Some m) (f z) = f z" if "snd z = m" for z
    using assms(3) [of _ z] that by (simp add: filter_id_conv)
  show ?case
  proof (cases "x = (k, m)")
    case True
    with Cons.prems(1) have "\<forall>z\<in>set xs. snd z \<noteq> m" by auto
    then have "filter (\<lambda>y. target y = Some m) (concat (map f xs)) = []"
      using other by (induction xs) auto
    with True own [of x] show ?thesis by simp
  next
    case False
    with Cons.prems have "(k, m) \<in> set xs" by auto
    moreover from this have "m \<in> snd ` set xs" by (rule rev_image_eqI) simp
    with Cons.prems(1) have "snd x \<noteq> m" by auto
    ultimately show ?thesis using Cons other [of x] by simp
  qed
qed simp

fun target :: "effect \<Rightarrow> addr option" where
  "target (ToMachine m ev) = Some m"
| "target _ = None"

lemma lost_calls_target: "y \<in> set (lost_calls P ms infos x) \<Longrightarrow> target y = Some (snd x)"
  by (auto simp: lost_calls_def split: option.splits)

lemma call_update_target: "y \<in> set (call_update ms t it) \<Longrightarrow> target y = None"
  by (auto simp: call_update_def UpdateNetworkInfoIfInActive_def split: option.splits)

lemma lost_step:
  assumes "settled_in ActiveState s" "sm_apnId (dat s) \<noteq> ERROR_APN_ID"
  shows "settled_in InactiveState (cds_step P e (MSG_SM_LOST_CONNECTION (Some r)) s)"
    and "\<exists>pre info. fx (dat (cds_step P e (MSG_SM_LOST_CONNECTION (Some r)) s)) =
        fx (dat s) @ pre @ [ToHandler (MSG_DISCONNECT_DATA_COMPLETE info) 0]
      \<and> sd_flag info = sm_apnId (dat s) \<and> sd_reason info = sd_reason r
      \<and> sd_retryTime info = sd_retryTime r \<and> sd_retryScene info = sd_retryScene r"
proof -
  let ?ev = "MSG_SM_LOST_CONNECTION (Some r)"
  let ?m = "cds_msg P e ActiveState ?ev s"
  have msg: "destState ?m = Some InactiveState" "resultInfo (dat ?m) = Some r"
    by (simp_all add: cds_msg_def Active_StateProcess_def Active_ProcessLostConnection_def Let_def)
  note st = step_to_inactive [OF assms(1) _ _ _ msg(1) _ assms(2), simplified]
  show "settled_in InactiveState (cds_step P e ?ev s)" by (rule st(1))
  from cds_msg_quiet [of ActiveState s P e ?ev] obtain pre where "fx (dat ?m) = fx (dat s) @ pre"
    by (auto simp: quiet_def)
  then show "\<exists>pre info. fx (dat (cds_step P e ?ev s)) =
        fx (dat s) @ pre @ [ToHandler (MSG_DISCONNECT_DATA_COMPLETE info) 0]
      \<and> sd_flag info = sm_apnId (dat s) \<and> sd_reason info = sd_reason r
      \<and> sd_retryTime info = sd_retryTime r \<and> sd_retryScene info = sd_retryScene r"
    using st(2,5) disconnect_report_fields(4) [OF msg(2), of P]
    by (intro exI [of _ pre] exI [of _ "disconnect_report P (dat ?m)"]) simp
qed

text \<open>C28: when the modem's list of data calls shows a connection as no longer active, the machine
  registered for it is told exactly once, with the reason and retry time of the first such entry and
  the mark that the modem ended the connection; a machine without such an entry is told nothing; and
  an active machine that is told becomes inactive and passes exactly these values on in its report.\<close>

theorem modem_deactivation_delivered:
  assumes "distinct (map snd (cidActiveConnectionMap (cm_tables d)))"
    and "(k, m) \<in> set (cidActiveConnectionMap (cm_tables d))"
    and "cm_machines d m = Some (dat s)" "settled_in ActiveState s" "sm_apnId (dat s) \<noteq> ERROR_APN_ID"
  shows "\<exists>new. cm_fx (RadioDataCallListChanged P (Some dcList) d) = cm_fx d @ new
    \<and> (case find (\<lambda>i. sd_cid i = sm_cid (dat s) \<and> sd_active i \<le> 0) dcList of
         None \<Rightarrow> filter (\<lambda>x. target x = Some m) new = []
       | Some i \<Rightarrow> \<exists>r. filter (\<lambda>x. target x = Some m) new = [ToMachine m (MSG_SM_LOST_CONNECTION (Some r))]
           \<and> settled_in InactiveState (cds_step P e (MSG_SM_LOST_CONNECTION (Some r)) s)
           \<and> (\<exists>pre info. fx (dat (cds_step P e (MSG_SM_LOST_CONNECTION (Some r)) s)) =
                fx (dat s) @ pre @ [ToHandler (MSG_DISCONNECT_DATA_COMPLETE info) 0]
              \<and> sd_flag info = sm_apnId (dat s) \<and> sd_reason info = sd_reason i
              \<and> sd_retryTime info = sd_retryTime i \<and> sd_retryScene info = 1))"
proof -
  define upds where "upds = concat (map (call_update (cm_machines d) (cm_tables d)) dcList)"
  define losts where "losts = concat (map (lost_calls P (cm_machines d) dcList) (cidActiveConnectionMap (cm_tables d)))"
  have new: "cm_fx (RadioDataCallListChanged P (Some dcList) d) = cm_fx d @ upds @ losts"
    by (simp add: RadioDataCallListChanged_def CCM_UpdateNetworkInfo_def upds_def losts_def Let_def)
  have "filter (\<lambda>x. target x = Some m) upds = []"
    by (auto simp: upds_def filter_empty_conv dest!: call_update_target)
  moreover have "filter (\<lambda>x. target x = Some m) losts = lost_calls P (cm_machines d) dcList (k, m)"
    unfolding losts_def by (rule filter_concat_unique [OF assms(1,2) lost_calls_target])
  ultimately have f: "filter (\<lambda>x. target x = Some m) (upds @ losts) = lost_calls P (cm_machines d) dcList (k, m)"
    by simp
  show ?thesis
  proof (cases "find (\<lambda>i. sd_cid i = sm_cid (dat s) \<and> sd_active i \<le> 0) dcList")
    case None
    then show ?thesis using new f by (intro exI [of _ "upds @ losts"]) (simp add: lost_calls_def assms(3) lost_event_def)
  next
    case (Some i)
    define r where "r = (default_result_info P) \<lparr>sd_cid := sm_cid (dat s), sd_reason := sd_reason i,
      sd_retryTime := sd_retryTime i, sd_retryScene := 1\<rparr>"
    have "filter (\<lambda>x. target x = Some m) (upds @ losts) = [ToMachine m (MSG_SM_LOST_CONNECTION (Some r))]"
      unfolding f by (simp add: lost_calls_def assms(3) lost_event_def Some r_def)
    moreover note lost_step [OF assms(4,5), of P e r]
    moreover have "sd_reason r = sd_reason i" "sd_retryTime r = sd_retryTime i" "sd_retryScene r = 1"
      by (simp_all add: r_def)
    ultimately show ?thesis using new Some
      by (intro exI [of _ "upds @ losts"]) (simp add: exI [of _ r])
  qed
qed

definition sample_active :: cdsm where
  "sample_active = cds_step sample_platform sample_env
     (RADIO_RIL_SETUP_DATA_CALL (SetupResult sample_success)) sample_connecting"

lemmas sample_active_facts = setup_success_step [OF sample_connecting_facts(1) sample_success_fields(1-3),
  of sample_platform sample_env, folded sample_active_def]

definition sample_manager :: ccm_data where
  "sample_manager = \<lparr>cm_tables = AddActiveConnectionByCid (Some 5) 7 (new_ConnectionTables 0),
     cm_machines = [5 \<mapsto> dat sample_active], cm_fx = []\<rparr>"

definition sample_ended :: SetupDataCallResultInfo where
  "sample_ended = sample_result_info \<lparr>sd_cid := 7, sd_reason := 36\<rparr>"

theorem modem_deactivation_delivered_witness:
  "\<exists>r. filter (\<lambda>x. target x = Some 5) (cm_fx (RadioDataCallListChanged sample_platform (Some [sample_ended])
       sample_manager)) = [ToMachine 5 (MSG_SM_LOST_CONNECTION (Some r))]
     \<and> settled_in InactiveState (cds_step sample_platform sample_env (MSG_SM_LOST_CONNECTION (Some r)) sample_active)"
proof -
  have t: "distinct (map snd (cidActiveConnectionMap (cm_tables sample_manager)))"
    "(7, 5) \<in> set (cidActiveConnectionMap (cm_tables sample_manager))"
    "cm_machines sample_manager 5 = Some (dat sample_active)" "cm_fx sample_manager = []"
    by (simp_all add: sample_manager_def AddActiveConnectionByCid_def new_ConnectionTables_def)
  have id: "sm_apnId (dat sample_active) \<noteq> ERROR_APN_ID"
    using sample_active_facts(6) sample_connecting_facts(3) by simp
  have cid: "sm_cid (dat sample_active) = 7" using sample_active_facts(5) sample_success_fields(4) by simp
  have "find (\<lambda>i. sd_cid i = 7 \<and> sd_active i \<le> 0) [sample_ended] = Some sample_ended"
    by (simp add: sample_ended_def sample_result_info_def)
  then show ?thesis
    using modem_deactivation_delivered [OF t(1-3) sample_active_facts(1) id, of sample_platform
        "[sample_ended]" sample_env] t(4) cid by auto
qed

lemma UpdateNetworkInfo_result:
  "sm_upBandwidth (UpdateNetworkInfo e d) = sm_upBandwidth d"
  "sm_downBandwidth (UpdateNetworkInfo e d) = sm_downBandwidth d"
  "ns_linkUpBandwidthKbps (netSupplierInfo (UpdateNetworkInfo e d)) = sm_upBandwidth d"
  "ns_linkDownBandwidthKbps (netSupplierInfo (UpdateNetworkInfo e d)) = sm_downBandwidth d"
  "Net (Net_UpdateNetSupplierInfo (supplier_of (UpdateNetworkInfo e d)) (netSupplierInfo (UpdateNetworkInfo e d)))
     \<in> set (fx (UpdateNetworkInfo e d))"
  by (auto simp: UpdateNetworkInfo_def push_supplier_def push_link_def emit_def supplier_of_def GetSupplierId_def
      UpdateNetSupplierInfo_def UpdateNetLinkInfo_def Let_def find_map_key split: option.splits)

text \<open>Link capabilities reported by the modem reach every active connection, in the order of the
  connection identifiers and once each, exactly when the operator takes bandwidths from the modem;
  an active machine then uses the reported bandwidths, or the configured ones of its radio
  technology when a reported value is zero, and tells the net manager.\<close>

theorem link_capability_delivered:
  "cm_fx (RadioLinkCapabilityChanged (Some (up, down)) d) = cm_fx d @
     (if bandwidthSourceModem (cm_tables d)
      then map (\<lambda>m. ToMachine m (MSG_SM_LINK_CAPABILITY_CHANGED (Some (up, down))))
             (map snd (cidActiveConnectionMap (cm_tables d))) else [])
   \<and> (settled_in ActiveState s \<longrightarrow>
        (let s' = cds_step P e (MSG_SM_LINK_CAPABILITY_CHANGED (Some (up, down))) s;
             b = GetBandwidthsByRadioTech e (PsRadioTech e (sm_slotId (dat s))) (tables (dat s))
         in settled_in ActiveState s'
           \<and> (sm_upBandwidth (dat s'), sm_downBandwidth (dat s')) =
               (if up mod 2 ^ 32 = 0 \<or> down mod 2 ^ 32 = 0 then (upBandwidth b, downBandwidth b)
                else (up mod 2 ^ 32, down mod 2 ^ 32))
           \<and> ns_linkUpBandwidthKbps (netSupplierInfo (dat s')) = sm_upBandwidth (dat s')
           \<and> ns_linkDownBandwidthKbps (netSupplierInfo (dat s')) = sm_downBandwidth (dat s')
           \<and> Net (Net_UpdateNetSupplierInfo (supplier_of (dat s')) (netSupplierInfo (dat s'))) \<in> set (fx (dat s'))))"
proof -
  let ?ev = "MSG_SM_LINK_CAPABILITY_CHANGED (Some (up, down))"
  define D where "D = (if up mod 2 ^ 32 = 0 \<or> down mod 2 ^ 32 = 0 then RefreshConnectionBandwidths e (dat s)
       else SetConnectionBandwidth (up mod 2 ^ 32) (down mod 2 ^ 32) (dat s))"
  have msg: "dat (cds_msg P e ActiveState ?ev s) = UpdateNetworkInfo e D"
    "destState (cds_msg P e ActiveState ?ev s) = destState s"
    by (simp_all add: cds_msg_def Active_StateProcess_def Active_ProcessLinkCapabilityChanged_def Let_def
        D_def cong: if_cong)
  have st: "settled_in ActiveState (cds_step P e ?ev s)" "dat (cds_step P e ?ev s) = UpdateNetworkInfo e D"
    if "settled_in ActiveState s"
    using cds_step_stays [OF that, of ?ev P e] msg that by (simp_all add: settled_in_def)
  have bw: "(sm_upBandwidth D, sm_downBandwidth D) = (let b = GetBandwidthsByRadioTech e
        (PsRadioTech e (sm_slotId (dat s))) (tables (dat s))
      in if up mod 2 ^ 32 = 0 \<or> down mod 2 ^ 32 = 0 then (upBandwidth b, downBandwidth b)
         else (up mod 2 ^ 32, down mod 2 ^ 32))"
    by (simp add: RefreshConnectionBandwidths_def SetConnectionBandwidth_def Let_def D_def)
  have cap: "cm_fx (RadioLinkCapabilityChanged (Some (up, down)) d) = cm_fx d @
     (if bandwidthSourceModem (cm_tables d)
      then map (\<lambda>m. ToMachine m (MSG_SM_LINK_CAPABILITY_CHANGED (Some (up, down))))
             (map snd (cidActiveConnectionMap (cm_tables d))) else [])"
    by (simp add: RadioLinkCapabilityChanged_def case_prod_beta)
  show ?thesis
    unfolding cap Let_def
    by (intro conjI impI refl; simp only: st UpdateNetworkInfo_result bw [unfolded Let_def])
qed

theorem link_capability_delivered_witness:
  "settled_in ActiveState (cds_step sample_platform sample_env (MSG_SM_LINK_CAPABILITY_CHANGED (Some (8, 9)))
     sample_active)"
  using link_capability_delivered [of 8 9 sample_manager sample_active sample_platform sample_env]
    sample_active_facts(1) by (simp add: Let_def)

end
