(* ===== verification/Connection_Monitor.thy ===== *)
theory Connection_Monitor
  imports Environment Net_Agent
begin

text \<open>
  \<open>services/src/data_connection_monitor.cpp\<close> and \<open>services/src/traffic_management.cpp\<close>:
  the monitor of a slot. It detects a stalled connection from packet counters and works through the
  recovery steps, and it derives the direction of the data flow. Packet counters, the identifiers of
  the net manager's networks and the overall data state come from other services (record
  \<open>mon_env\<close>); delayed events wait in \<open>mo_queue\<close>.
\<close>

section \<open>State\<close>

datatype mon_event =
    MSG_RUN_MONITOR_TASK
  | MSG_STALL_DETECTION_EVENT_ID
  | MON_DATA_CALL_LIST_CHANGED
  | MON_GET_PREFERRED_NETWORK_MODE "int option"
  | MON_SET_PREFERRED_NETWORK_MODE
  | MON_RADIO_OFF
  | MON_RADIO_ON
  | MON_OTHER nat

datatype mon_call =
    Mon_GetPdpContextList int
  | Mon_WriteDataDeactiveBehaviorEvent int
  | Mon_ClearAllConnections int DisConnectionReason
  | Mon_SetRadioState int bool
  | Mon_GetPreferredNetworkPara int
  | Mon_SetPreferredNetworkPara int int
  | Mon_reRegisterNetwork int
  | Mon_OnUpDataFlowtype int CellDataFlowType
  | Mon_requestTcpAndDnsPackets

record mon_env =
  me_netIds :: "string \<Rightarrow> int list option"
  me_allNets :: "int list option"
  me_ifaceName :: "int \<Rightarrow> string"
  me_txPackets :: "string \<Rightarrow> int"
  me_rxPackets :: "string \<Rightarrow> int"
  me_dataState :: int
  me_reRegister :: "bool option"
  me_requestPackets :: bool

record TrafficManagement =
  sendPackets :: int
  recvPackets :: int

record Monitor =
  mo_slotId :: int
  trafficManager :: TrafficManagement
  stallDetectionTrafficManager :: TrafficManagement
  updateNetStat :: bool
  stallDetectionEnabled :: bool
  isScreenOn :: bool
  noRecvPackets :: int
  dataRecoveryState :: RecoveryState
  dataFlowType :: CellDataFlowType
  callState :: int
  mo_queue :: "(mon_event \<times> int) list"
  mo_calls :: "mon_call list"

definition new_Monitor :: "int \<Rightarrow> Monitor" where
  "new_Monitor slotId = \<lparr>mo_slotId = slotId, trafficManager = \<lparr>sendPackets = 0, recvPackets = 0\<rparr>,
     stallDetectionTrafficManager = \<lparr>sendPackets = 0, recvPackets = 0\<rparr>, updateNetStat = False,
     stallDetectionEnabled = False, isScreenOn = False, noRecvPackets = 0,
     dataRecoveryState = STATE_REQUEST_CONTEXT_LIST, dataFlowType = DATA_FLOW_TYPE_NONE,
     callState = CALL_STATUS_IDLE, mo_queue = [], mo_calls = []\<rparr>"

definition mo_call :: "mon_call list \<Rightarrow> Monitor \<Rightarrow> Monitor" where
  "mo_call cs m = m \<lparr>mo_calls := mo_calls m @ cs\<rparr>"

definition mo_send :: "mon_event \<Rightarrow> int \<Rightarrow> Monitor \<Rightarrow> Monitor" where
  "mo_send ev delay m = m \<lparr>mo_queue := mo_queue m @ [(ev, delay)]\<rparr>"

definition mo_has :: "mon_event \<Rightarrow> Monitor \<Rightarrow> bool" where
  "mo_has ev m \<longleftrightarrow> ev \<in> fst ` set (mo_queue m)"

definition mo_remove :: "mon_event \<Rightarrow> Monitor \<Rightarrow> Monitor" where
  "mo_remove ev m = m \<lparr>mo_queue := filter (\<lambda>x. fst x \<noteq> ev) (mo_queue m)\<rparr>"

section \<open>Traffic\<close>

definition GetCellNetId :: "env \<Rightarrow> mon_env \<Rightarrow> int \<Rightarrow> int" where
  "GetCellNetId e me slotId =
     (case me_netIds me (IDENT_PREFIX @ to_string (SimIdOf e slotId)) of
        None \<Rightarrow> -1
      | Some netIdList \<Rightarrow>
          if netIdList = [] then -1
          else (case me_allNets me of
              None \<Rightarrow> -1
            | Some netList \<Rightarrow> (case find (\<lambda>h. h \<in> set netIdList) netList of
                  Some i \<Rightarrow> i | None \<Rightarrow> -1)))"

definition GetIfaceName :: "env \<Rightarrow> mon_env \<Rightarrow> int \<Rightarrow> string" where
  "GetIfaceName e me slotId =
     (let netId = GetCellNetId e me slotId in if netId < 0 then '''' else me_ifaceName me netId)"

definition UpdatePacketData :: "env \<Rightarrow> mon_env \<Rightarrow> int \<Rightarrow> TrafficManagement \<Rightarrow> TrafficManagement" where
  "UpdatePacketData e me slotId t =
     (let name = GetIfaceName e me slotId
      in if name \<noteq> '''' then t \<lparr>sendPackets := me_txPackets me name, recvPackets := me_rxPackets me name\<rparr>
         else t)"

section \<open>Stall detection\<close>

definition IsVsimEnabled :: "env \<Rightarrow> Monitor \<Rightarrow> bool" where
  "IsVsimEnabled e m = (case (ext_getVSimSlotId e, ext_isVSimEnabled e) of
     (Some slot, Some enabled) \<Rightarrow> slot = mo_slotId m \<and> enabled | _ \<Rightarrow> False)"

definition IsAggressiveRecovery :: "Monitor \<Rightarrow> bool" where
  "IsAggressiveRecovery m \<longleftrightarrow> dataRecoveryState m = STATE_CLEANUP_CONNECTIONS
     \<or> dataRecoveryState m = STATE_REREGISTER_NETWORK \<or> dataRecoveryState m = STATE_RADIO_STATUS_RESTART"

definition GetStallDetectionPeriod :: "Monitor \<Rightarrow> int" where
  "GetStallDetectionPeriod m = (if isScreenOn m \<or> IsAggressiveRecovery m
     then DATA_STALL_ALARM_AGGRESSIVE_DELAY_IN_MS_DEFAULT
     else DATA_STALL_ALARM_NON_AGGRESSIVE_DELAY_IN_MS_DEFAULT)"

definition StartStallDetectionTimer :: "Monitor \<Rightarrow> Monitor" where
  "StartStallDetectionTimer m0 =
     (let m = m0 \<lparr>stallDetectionEnabled := True\<rparr>; period = GetStallDetectionPeriod m
      in if \<not> mo_has MSG_STALL_DETECTION_EVENT_ID m then mo_send MSG_STALL_DETECTION_EVENT_ID period m else m)"

definition StopStallDetectionTimer :: "Monitor \<Rightarrow> Monitor" where
  "StopStallDetectionTimer m = mo_remove MSG_STALL_DETECTION_EVENT_ID (m \<lparr>stallDetectionEnabled := False\<rparr>)"

definition HandleScreenStateChanged :: "env \<Rightarrow> bool \<Rightarrow> Monitor \<Rightarrow> Monitor" where
  "HandleScreenStateChanged e on m =
     (if isScreenOn m = on then m
      else
        let m1 = m \<lparr>isScreenOn := on\<rparr>
        in if mo_slotId m1 \<noteq> DefaultCellularDataSlotId e \<and> \<not> IsVsimEnabled e m1 then m1
           else StartStallDetectionTimer (StopStallDetectionTimer m1))"

definition UpdateFlowInfo :: "env \<Rightarrow> mon_env \<Rightarrow> Monitor \<Rightarrow> Monitor" where
  "UpdateFlowInfo e me m =
     (let prev = stallDetectionTrafficManager m;
          cur = UpdatePacketData e me (mo_slotId m) prev;
          m1 = m \<lparr>stallDetectionTrafficManager := cur\<rparr>;
          sent' = sendPackets cur - sendPackets prev;
          recv' = recvPackets cur - recvPackets prev
      in if sent' > 0 \<and> recv' = 0 then m1 \<lparr>noRecvPackets := noRecvPackets m1 + sent'\<rparr>
         else if (sent' > 0 \<and> recv' > 0) \<or> (sent' = 0 \<and> recv' > 0)
         then m1 \<lparr>noRecvPackets := 0, dataRecoveryState := STATE_REQUEST_CONTEXT_LIST\<rparr>
         else m1)"

definition ReregisterNetwork :: "mon_env \<Rightarrow> Monitor \<Rightarrow> Monitor" where
  "ReregisterNetwork me m =
     (case me_reRegister me of
        None \<Rightarrow> mo_call [Mon_GetPreferredNetworkPara (mo_slotId m)] m
      | Some isProcess \<Rightarrow>
          let m1 = mo_call [Mon_reRegisterNetwork (mo_slotId m)] m
          in if isProcess then m1 else mo_call [Mon_GetPreferredNetworkPara (mo_slotId m)] m1)"

definition HandleRecovery :: "mon_env \<Rightarrow> Monitor \<Rightarrow> Monitor" where
  "HandleRecovery me m =
     (if callState m \<noteq> CALL_STATUS_IDLE \<and> callState m \<noteq> CALL_STATUS_DISCONNECTED
      then m \<lparr>dataRecoveryState := STATE_REQUEST_CONTEXT_LIST\<rparr>
      else case dataRecoveryState m of
          STATE_REQUEST_CONTEXT_LIST \<Rightarrow>
            mo_call [Mon_GetPdpContextList (mo_slotId m), Mon_WriteDataDeactiveBehaviorEvent (mo_slotId m)]
            (m \<lparr>dataRecoveryState := STATE_CLEANUP_CONNECTIONS\<rparr>)
        | STATE_CLEANUP_CONNECTIONS \<Rightarrow>
            mo_call [Mon_ClearAllConnections (mo_slotId m) REASON_RETRY_CONNECTION]
              (m \<lparr>dataRecoveryState := STATE_REREGISTER_NETWORK\<rparr>)
        | STATE_REREGISTER_NETWORK \<Rightarrow>
            ReregisterNetwork me (m \<lparr>dataRecoveryState := STATE_RADIO_STATUS_RESTART\<rparr>)
        | STATE_RADIO_STATUS_RESTART \<Rightarrow>
            mo_call [Mon_ClearAllConnections (mo_slotId m) REASON_RETRY_CONNECTION,
                     Mon_SetRadioState (mo_slotId m) False]
              (m \<lparr>dataRecoveryState := STATE_REQUEST_CONTEXT_LIST\<rparr>))"

text \<open>The common end of the timer and of \<open>IsNeedDoRecovery\<close>: arm the timer again.\<close>

definition rearm :: "Monitor \<Rightarrow> Monitor" where
  "rearm m = (if \<not> mo_has MSG_STALL_DETECTION_EVENT_ID m \<and> stallDetectionEnabled m
     then mo_send MSG_STALL_DETECTION_EVENT_ID (GetStallDetectionPeriod m) m else m)"

definition OnStallDetectionTimer :: "env \<Rightarrow> mon_env \<Rightarrow> Monitor \<Rightarrow> Monitor" where
  "OnStallDetectionTimer e me m =
     (if me_requestPackets me then mo_call [Mon_requestTcpAndDnsPackets] m
      else
        let m1 = UpdateFlowInfo e me m;
            m2 = (if noRecvPackets m1 > RECOVERY_TRIGGER_PACKET
                    \<or> (me_dataState me \<noteq> STATUS_CONNECTED \<and> dataRecoveryState m1 = STATE_RADIO_STATUS_RESTART)
                  then (HandleRecovery me m1) \<lparr>noRecvPackets := 0\<rparr> else m1)
        in rearm m2)"

definition IsNeedDoRecovery :: "mon_env \<Rightarrow> bool \<Rightarrow> Monitor \<Rightarrow> Monitor" where
  "IsNeedDoRecovery me need m =
     rearm (if need then HandleRecovery me m else m \<lparr>dataRecoveryState := STATE_REQUEST_CONTEXT_LIST\<rparr>)"

section \<open>Data flow\<close>

definition UpdateDataFlowType :: "env \<Rightarrow> mon_env \<Rightarrow> Monitor \<Rightarrow> Monitor" where
  "UpdateDataFlowType e me m =
     (let prev = trafficManager m;
          cur = UpdatePacketData e me (mo_slotId m) prev;
          sent' = sendPackets cur - sendPackets prev;
          recv' = recvPackets cur - recvPackets prev;
          m1 = m \<lparr>trafficManager := cur\<rparr>;
          m2 = (if sendPackets prev \<noteq> 0 \<or> recvPackets prev \<noteq> 0
                then m1 \<lparr>dataFlowType :=
                  (if sent' > 0 \<and> recv' = 0 then DATA_FLOW_TYPE_UP
                   else if sent' = 0 \<and> recv' > 0 then DATA_FLOW_TYPE_DOWN
                   else if sent' > 0 \<and> recv' > 0 then DATA_FLOW_TYPE_UP_DOWN
                   else DATA_FLOW_TYPE_NONE)\<rparr>
                else m1)
      in if dataFlowType m \<noteq> dataFlowType m2
         then mo_call [Mon_OnUpDataFlowtype (mo_slotId m) (dataFlowType m2)] m2 else m2)"

definition UpdateNetTrafficState :: "env \<Rightarrow> mon_env \<Rightarrow> Monitor \<Rightarrow> Monitor" where
  "UpdateNetTrafficState e me m =
     (if \<not> mo_has MSG_RUN_MONITOR_TASK m \<and> updateNetStat m
      then mo_send MSG_RUN_MONITOR_TASK DEFAULT_NET_STATISTICS_PERIOD (UpdateDataFlowType e me m) else m)"

definition BeginNetStatistics :: "env \<Rightarrow> mon_env \<Rightarrow> Monitor \<Rightarrow> Monitor" where
  "BeginNetStatistics e me m = UpdateNetTrafficState e me (m \<lparr>updateNetStat := True\<rparr>)"

definition SetDataFlowType :: "CellDataFlowType \<Rightarrow> Monitor \<Rightarrow> Monitor" where
  "SetDataFlowType ty m = (if dataFlowType m \<noteq> ty
     then mo_call [Mon_OnUpDataFlowtype (mo_slotId m) ty] (m \<lparr>dataFlowType := ty\<rparr>) else m)"

definition EndNetStatistics :: "Monitor \<Rightarrow> Monitor" where
  "EndNetStatistics m =
     (let m1 = (mo_remove MSG_RUN_MONITOR_TASK m) \<lparr>updateNetStat := False\<rparr>
      in if dataFlowType m1 \<noteq> DATA_FLOW_TYPE_NONE
         then mo_call [Mon_OnUpDataFlowtype (mo_slotId m) DATA_FLOW_TYPE_NONE]
                (m1 \<lparr>dataFlowType := DATA_FLOW_TYPE_NONE\<rparr>)
         else m1)"

definition UpdateCallState :: "int \<Rightarrow> Monitor \<Rightarrow> Monitor" where
  "UpdateCallState st m = m \<lparr>callState := st\<rparr>"

definition Mon_ProcessEvent :: "env \<Rightarrow> mon_env \<Rightarrow> mon_event \<Rightarrow> Monitor \<Rightarrow> Monitor" where
  "Mon_ProcessEvent e me ev m =
     (case ev of
        MSG_RUN_MONITOR_TASK \<Rightarrow> UpdateNetTrafficState e me m
      | MSG_STALL_DETECTION_EVENT_ID \<Rightarrow> OnStallDetectionTimer e me m
      | MON_GET_PREFERRED_NETWORK_MODE info \<Rightarrow> (case info of
            None \<Rightarrow> m | Some ty \<Rightarrow> mo_call [Mon_SetPreferredNetworkPara (mo_slotId m) ty] m)
      | MON_RADIO_OFF \<Rightarrow> mo_call [Mon_SetRadioState (mo_slotId m) True] m
      | _ \<Rightarrow> m)"

section \<open>Recovery\<close>

lemma mo_call_simps [simp]:
  "mo_calls (mo_call cs m) = mo_calls m @ cs" "mo_slotId (mo_call cs m) = mo_slotId m"
  "callState (mo_call cs m) = callState m" "dataRecoveryState (mo_call cs m) = dataRecoveryState m"
  "mo_queue (mo_call cs m) = mo_queue m" "stallDetectionEnabled (mo_call cs m) = stallDetectionEnabled m"
  "updateNetStat (mo_call cs m) = updateNetStat m" "noRecvPackets (mo_call cs m) = noRecvPackets m"
  "stallDetectionTrafficManager (mo_call cs m) = stallDetectionTrafficManager m"
  "isScreenOn (mo_call cs m) = isScreenOn m" "trafficManager (mo_call cs m) = trafficManager m"
  "dataFlowType (mo_call cs m) = dataFlowType m"
  by (simp_all add: mo_call_def)

definition reregister_calls :: "mon_env \<Rightarrow> int \<Rightarrow> mon_call list" where
  "reregister_calls me slot = (case me_reRegister me of
     None \<Rightarrow> [Mon_GetPreferredNetworkPara slot]
   | Some done' \<Rightarrow> Mon_reRegisterNetwork slot # (if done' then [] else [Mon_GetPreferredNetworkPara slot]))"

lemma ReregisterNetwork_eq: "ReregisterNetwork me m = mo_call (reregister_calls me (mo_slotId m)) m"
  by (auto simp: ReregisterNetwork_def reregister_calls_def mo_call_def split: option.splits)

definition no_call :: "int \<Rightarrow> bool" where
  "no_call st \<longleftrightarrow> st = CALL_STATUS_IDLE \<or> st = CALL_STATUS_DISCONNECTED"

definition full_cycle :: "mon_env \<Rightarrow> int \<Rightarrow> mon_call list" where
  "full_cycle me slot = [Mon_GetPdpContextList slot, Mon_WriteDataDeactiveBehaviorEvent slot,
       Mon_ClearAllConnections slot REASON_RETRY_CONNECTION]
     @ reregister_calls me slot
     @ [Mon_ClearAllConnections slot REASON_RETRY_CONNECTION, Mon_SetRadioState slot False]"

lemma HandleRecovery_frame:
  "mo_slotId (HandleRecovery me m) = mo_slotId m" "callState (HandleRecovery me m) = callState m"
  "mo_queue (HandleRecovery me m) = mo_queue m"
  "stallDetectionEnabled (HandleRecovery me m) = stallDetectionEnabled m"
  "updateNetStat (HandleRecovery me m) = updateNetStat m"
  "stallDetectionTrafficManager (HandleRecovery me m) = stallDetectionTrafficManager m"
  by (auto simp: HandleRecovery_def ReregisterNetwork_eq split: RecoveryState.splits)

lemma recovery_cycle:
  assumes "no_call (callState m)" "dataRecoveryState m = STATE_REQUEST_CONTEXT_LIST"
  shows "mo_calls (HandleRecovery me (HandleRecovery me (HandleRecovery me (HandleRecovery me m))))
      = mo_calls m @ full_cycle me (mo_slotId m)"
    and "dataRecoveryState (HandleRecovery me (HandleRecovery me (HandleRecovery me (HandleRecovery me m))))
      = STATE_REQUEST_CONTEXT_LIST"
  using assms by (auto simp: HandleRecovery_def ReregisterNetwork_eq no_call_def full_cycle_def)

text \<open>C34: recovery escalates step by step and starts over: with no call going on, every four
  recoveries ask for the list of data calls and record this as a system event, tear the connections
  down for a retry, register the network again, and finally tear down and switch the radio off, in
  this order and nothing else; while a call is going on, a recovery does nothing but fall back to the
  first step.\<close>

theorem recovery_escalation:
  "(no_call (callState m) \<and> dataRecoveryState m = STATE_REQUEST_CONTEXT_LIST \<longrightarrow>
      mo_calls ((HandleRecovery me ^^ (4 * k)) m)
        = mo_calls m @ concat (replicate k (full_cycle me (mo_slotId m)))
      \<and> dataRecoveryState ((HandleRecovery me ^^ (4 * k)) m) = STATE_REQUEST_CONTEXT_LIST)
   \<and> (\<not> no_call (callState m) \<longrightarrow>
      HandleRecovery me m = m \<lparr>dataRecoveryState := STATE_REQUEST_CONTEXT_LIST\<rparr>)"
proof -
  have fr: "mo_slotId ((HandleRecovery me ^^ n) m) = mo_slotId m
      \<and> callState ((HandleRecovery me ^^ n) m) = callState m" for n
    by (induction n) (simp_all add: HandleRecovery_frame)
  have "mo_calls ((HandleRecovery me ^^ (4 * k)) m)
        = mo_calls m @ concat (replicate k (full_cycle me (mo_slotId m)))
      \<and> dataRecoveryState ((HandleRecovery me ^^ (4 * k)) m) = STATE_REQUEST_CONTEXT_LIST"
    if "no_call (callState m)" "dataRecoveryState m = STATE_REQUEST_CONTEXT_LIST"
  proof (induction k)
    case (Suc k)
    let ?m = "(HandleRecovery me ^^ (4 * k)) m"
    have "(HandleRecovery me ^^ (4 * Suc k)) m
        = HandleRecovery me (HandleRecovery me (HandleRecovery me (HandleRecovery me ?m)))"
      by (simp add: numeral_eq_Suc)
    then show ?case
      using Suc recovery_cycle [of ?m me] that fr [of "4 * k"] replicate_append_same [of k]
      by (simp add: replicate_app_Cons_same flip: concat_append)
        (metis append_Nil2 concat.simps concat_append replicate_append_same)
  qed (simp add: that)
  moreover have "\<not> no_call (callState m) \<Longrightarrow>
      HandleRecovery me m = m \<lparr>dataRecoveryState := STATE_REQUEST_CONTEXT_LIST\<rparr>"
    by (simp add: HandleRecovery_def no_call_def)
  ultimately show ?thesis by blast
qed

definition sample_mon_env :: mon_env where
  "sample_mon_env = \<lparr>me_netIds = (\<lambda>i. Some [101]), me_allNets = Some [100, 101],
     me_ifaceName = (\<lambda>i. ''rmnet0''), me_txPackets = (\<lambda>n. 12), me_rxPackets = (\<lambda>n. 0), me_dataState = STATUS_CONNECTED,
     me_reRegister = None, me_requestPackets = False\<rparr>"

theorem recovery_escalation_witness:
  "mo_calls ((HandleRecovery sample_mon_env ^^ 4) (new_Monitor 0)) = full_cycle sample_mon_env 0"
  using recovery_escalation [where m = "new_Monitor 0" and me = sample_mon_env and k = 1]
  by (simp add: new_Monitor_def no_call_def)

section \<open>Detecting a stall\<close>

text \<open>The counters that a sample reads.\<close>

definition reads :: "env \<Rightarrow> mon_env \<Rightarrow> Monitor \<Rightarrow> int \<times> int" where
  "reads e me m = (let t = UpdatePacketData e me (mo_slotId m) (stallDetectionTrafficManager m)
     in (sendPackets t, recvPackets t))"

definition stall_run :: "(env \<times> mon_env) list \<Rightarrow> Monitor \<Rightarrow> Monitor" where
  "stall_run xs m = fold (\<lambda>(e, me). OnStallDetectionTimer e me) xs m"

text \<open>A silent sample: the counters are read here, not by the vendor's packet collector, and nothing was
  received since the last sample. The second trigger of the timer: the last recovery step is due and
  data is not connected.\<close>

definition silent :: "env \<times> mon_env \<Rightarrow> Monitor \<Rightarrow> bool" where
  "silent x m \<longleftrightarrow> (case x of (e, me) \<Rightarrow> \<not> me_requestPackets me
     \<and> fst (reads e me m) \<ge> sendPackets (stallDetectionTrafficManager m)
     \<and> snd (reads e me m) = recvPackets (stallDetectionTrafficManager m))"

definition restart_due :: "mon_env \<Rightarrow> Monitor \<Rightarrow> bool" where
  "restart_due me m \<longleftrightarrow> me_dataState me \<noteq> STATUS_CONNECTED \<and> dataRecoveryState m = STATE_RADIO_STATUS_RESTART"

text \<open>The packets sent since the last sample.\<close>

definition fresh :: "env \<Rightarrow> mon_env \<Rightarrow> Monitor \<Rightarrow> int" where
  "fresh e me m = fst (reads e me m) - sendPackets (stallDetectionTrafficManager m)"

fun silent_run :: "(env \<times> mon_env) list \<Rightarrow> Monitor \<Rightarrow> bool" where
  "silent_run [] m = True"
| "silent_run (x # xs) m = (silent x m \<and> \<not> restart_due (snd x) m
     \<and> silent_run xs (OnStallDetectionTimer (fst x) (snd x) m))"

lemma rearm_frame:
  "mo_calls (rearm m) = mo_calls m" "noRecvPackets (rearm m) = noRecvPackets m"
  "dataRecoveryState (rearm m) = dataRecoveryState m"
  "stallDetectionTrafficManager (rearm m) = stallDetectionTrafficManager m"
  "callState (rearm m) = callState m" "mo_slotId (rearm m) = mo_slotId m"
  "stallDetectionEnabled (rearm m) = stallDetectionEnabled m" "updateNetStat (rearm m) = updateNetStat m"
  by (simp_all add: rearm_def mo_send_def)

lemma silent_sample:
  assumes "silent (e, me) m"
  defines "n \<equiv> noRecvPackets m + fresh e me m"
  shows "sendPackets (stallDetectionTrafficManager (OnStallDetectionTimer e me m)) = fst (reads e me m)"
    and "mo_calls (OnStallDetectionTimer e me m) =
      (if n > RECOVERY_TRIGGER_PACKET \<or> restart_due me m then mo_calls (HandleRecovery me m) else mo_calls m)"
    and "noRecvPackets (OnStallDetectionTimer e me m) =
      (if n > RECOVERY_TRIGGER_PACKET \<or> restart_due me m then 0 else n)"
    and "dataRecoveryState (OnStallDetectionTimer e me m) =
      (if n > RECOVERY_TRIGGER_PACKET \<or> restart_due me m then dataRecoveryState (HandleRecovery me m)
       else dataRecoveryState m)"
proof -
  have u: "UpdateFlowInfo e me m = m \<lparr>stallDetectionTrafficManager := UpdatePacketData e me (mo_slotId m)
      (stallDetectionTrafficManager m), noRecvPackets := n\<rparr>"
    using assms by (auto simp: UpdateFlowInfo_def silent_def reads_def fresh_def Let_def)
  have h: "mo_calls (HandleRecovery me (m \<lparr>stallDetectionTrafficManager := t, noRecvPackets := k\<rparr>))
        = mo_calls (HandleRecovery me m)"
      "dataRecoveryState (HandleRecovery me (m \<lparr>stallDetectionTrafficManager := t, noRecvPackets := k\<rparr>))
        = dataRecoveryState (HandleRecovery me m)" for t k
    by (auto simp: HandleRecovery_def ReregisterNetwork_eq split: RecoveryState.splits)
  have ext: "\<not> me_requestPackets me" using assms by (simp add: silent_def)
  show "sendPackets (stallDetectionTrafficManager (OnStallDetectionTimer e me m)) = fst (reads e me m)"
    "mo_calls (OnStallDetectionTimer e me m) =
      (if n > RECOVERY_TRIGGER_PACKET \<or> restart_due me m then mo_calls (HandleRecovery me m) else mo_calls m)"
    "noRecvPackets (OnStallDetectionTimer e me m) =
      (if n > RECOVERY_TRIGGER_PACKET \<or> restart_due me m then 0 else n)"
    "dataRecoveryState (OnStallDetectionTimer e me m) =
      (if n > RECOVERY_TRIGGER_PACKET \<or> restart_due me m then dataRecoveryState (HandleRecovery me m)
       else dataRecoveryState m)"
    by (simp_all add: OnStallDetectionTimer_def u ext rearm_frame h HandleRecovery_frame reads_def Let_def restart_due_def)
qed

lemma silent_run_grows:
  "silent_run xs m \<Longrightarrow> sendPackets (stallDetectionTrafficManager m)
     \<le> sendPackets (stallDetectionTrafficManager (stall_run xs m))"
proof (induction xs arbitrary: m)
  case (Cons x xs)
  obtain e me where x: "x = (e, me)" by (cases x)
  show ?case
    using Cons.IH [of "OnStallDetectionTimer e me m"] Cons.prems silent_sample(1) [of e me m] x
    by (auto simp: stall_run_def silent_def)
qed (simp add: stall_run_def)

lemma silent_run_counts:
  assumes "silent_run xs m"
    and "noRecvPackets m + (sendPackets (stallDetectionTrafficManager (stall_run xs m))
           - sendPackets (stallDetectionTrafficManager m)) \<le> RECOVERY_TRIGGER_PACKET"
  shows "mo_calls (stall_run xs m) = mo_calls m \<and> dataRecoveryState (stall_run xs m) = dataRecoveryState m
    \<and> noRecvPackets (stall_run xs m)
      = noRecvPackets m + (sendPackets (stallDetectionTrafficManager (stall_run xs m))
           - sendPackets (stallDetectionTrafficManager m))"
  using assms
proof (induction xs arbitrary: m)
  case (Cons x xs)
  obtain e me where x: "x = (e, me)" by (cases x)
  let ?m = "OnStallDetectionTimer e me m"
  have sil: "silent (e, me) m" "\<not> restart_due me m" "silent_run xs ?m" using Cons.prems(1) x by simp_all
  have run: "stall_run (x # xs) m = stall_run xs ?m" by (simp add: stall_run_def x)
  note s = silent_sample [OF sil(1)]
  have le: "noRecvPackets m + fresh e me m \<le> RECOVERY_TRIGGER_PACKET"
    using silent_run_grows [OF sil(3)] Cons.prems(2) run s(1) by (simp add: fresh_def)
  have "mo_calls (stall_run xs ?m) = mo_calls ?m \<and> dataRecoveryState (stall_run xs ?m) = dataRecoveryState ?m
      \<and> noRecvPackets (stall_run xs ?m)
      = noRecvPackets ?m + (sendPackets (stallDetectionTrafficManager (stall_run xs ?m))
         - sendPackets (stallDetectionTrafficManager ?m))"
    by (rule Cons.IH [OF sil(3)]) (use le sil(2) Cons.prems(2) s run in \<open>auto simp: fresh_def\<close>)
  then show ?case using le sil(2) s run by (simp add: fresh_def)
qed (simp add: stall_run_def)

text \<open>C33: a stall is detected by the packets that were sent without any answer. Let any number of silent
  samples go by, in which nothing is received, at most ten packets in all stay unanswered, and it is not
  the case that the last recovery step is due while data is not connected: then nothing is done, the
  recovery step stays, and the counter is the number of the unanswered packets. A further silent sample
  runs exactly one recovery and clears the counter when it brings the number above ten, or, however
  few packets there were, when the last recovery step is due and data is not connected; else it
  only counts. A sample that received packets (with the count of sent packets not set back) clears the
  counter, returns to the first step and does nothing else. All this is so without the vendor's packet collector; with it, a sample only asks
  the collector, and the timer is not armed again.\<close>

theorem stall_detection:
  fixes e :: env and me :: mon_env and m :: Monitor
  assumes "silent_run xs m"
    and "noRecvPackets m + (sendPackets (stallDetectionTrafficManager (stall_run xs m))
           - sendPackets (stallDetectionTrafficManager m)) \<le> RECOVERY_TRIGGER_PACKET"
  defines "m1 \<equiv> stall_run xs m" and "m2 \<equiv> OnStallDetectionTimer e me (stall_run xs m)"
    and "unanswered \<equiv> noRecvPackets m + (sendPackets (stallDetectionTrafficManager (stall_run xs m))
           - sendPackets (stallDetectionTrafficManager m))"
  shows "mo_calls m1 = mo_calls m \<and> dataRecoveryState m1 = dataRecoveryState m \<and> noRecvPackets m1 = unanswered
    \<and> (silent (e, me) m1 \<longrightarrow>
        (if unanswered + fresh e me m1 > RECOVERY_TRIGGER_PACKET
            \<or> me_dataState me \<noteq> STATUS_CONNECTED \<and> dataRecoveryState m = STATE_RADIO_STATUS_RESTART
         then mo_calls m2 = mo_calls (HandleRecovery me m1) \<and> noRecvPackets m2 = 0
           \<and> dataRecoveryState m2 = dataRecoveryState (HandleRecovery me m1)
         else mo_calls m2 = mo_calls m1 \<and> noRecvPackets m2 = unanswered + fresh e me m1
           \<and> dataRecoveryState m2 = dataRecoveryState m1))
    \<and> (\<not> me_requestPackets me \<and> fresh e me m1 \<ge> 0
        \<and> snd (reads e me m1) > recvPackets (stallDetectionTrafficManager m1)
        \<longrightarrow> mo_calls m2 = mo_calls m1 \<and> noRecvPackets m2 = 0
          \<and> dataRecoveryState m2 = STATE_REQUEST_CONTEXT_LIST)
    \<and> (me_requestPackets me \<longrightarrow> m2 = mo_call [Mon_requestTcpAndDnsPackets] m1)"
proof -
  note main = silent_run_counts [OF assms(1,2), folded m1_def unanswered_def]
  have m2: "m2 = OnStallDetectionTimer e me m1" by (simp add: m2_def m1_def)
  have "mo_calls m2 = mo_calls m1 \<and> noRecvPackets m2 = 0 \<and> dataRecoveryState m2 = STATE_REQUEST_CONTEXT_LIST"
    if "\<not> me_requestPackets me" "fresh e me m1 \<ge> 0"
      "snd (reads e me m1) > recvPackets (stallDetectionTrafficManager m1)"
    using that by (auto simp: m2 OnStallDetectionTimer_def UpdateFlowInfo_def reads_def fresh_def Let_def rearm_frame)
  moreover have "me_requestPackets me \<longrightarrow> m2 = mo_call [Mon_requestTcpAndDnsPackets] m1"
    by (simp add: m2 OnStallDetectionTimer_def)
  ultimately show ?thesis
    using main silent_sample [of e me m1, folded m2] by (auto simp: restart_due_def)
qed

theorem stall_detection_witness:
  "mo_calls (OnStallDetectionTimer sample_env sample_mon_env
       (stall_run [(sample_env, sample_mon_env \<lparr>me_txPackets := \<lambda>n. 4\<rparr>)] (new_Monitor 0)))
     = [Mon_GetPdpContextList 0, Mon_WriteDataDeactiveBehaviorEvent 0]"
proof -
  let ?me = "sample_mon_env \<lparr>me_txPackets := \<lambda>n. 4\<rparr>" and ?m = "new_Monitor 0"
  let ?m1 = "stall_run [(sample_env, ?me)] ?m"
  have one: "silent_run [(sample_env, ?me)] ?m" by code_simp
  have few: "noRecvPackets ?m + (sendPackets (stallDetectionTrafficManager ?m1) - sendPackets (stallDetectionTrafficManager ?m))
      \<le> RECOVERY_TRIGGER_PACKET" by code_simp
  have two: "silent (sample_env, sample_mon_env) ?m1" by code_simp
  have eleven: "noRecvPackets ?m + (sendPackets (stallDetectionTrafficManager ?m1) - sendPackets (stallDetectionTrafficManager ?m))
      + fresh sample_env sample_mon_env ?m1 > RECOVERY_TRIGGER_PACKET" by code_simp
  have calls: "mo_calls (HandleRecovery sample_mon_env ?m1) = [Mon_GetPdpContextList 0, Mon_WriteDataDeactiveBehaviorEvent 0]"
    by code_simp
  from stall_detection [OF one few, of sample_env sample_mon_env] two eleven
  have "mo_calls (OnStallDetectionTimer sample_env sample_mon_env ?m1) = mo_calls (HandleRecovery sample_mon_env ?m1)"
    by (simp only: simp_thms if_True)
  with calls show ?thesis by simp
qed

end
