(* ===== verification/Incall_State_Machine.thy ===== *)
theory Incall_State_Machine
  imports State_Machine Apn_Manager
begin

text \<open>
  \<open>services/src/state_machine/incall_data_state_machine.cpp\<close>: during a call on a secondary SIM
  card that carries the call over IMS, the data connection may move to that card, and it moves back
  when the call ends or the user switches the feature off. The machine is an instance of the
  hierarchical machine of \<open>State_Machine\<close>; settings and IMS registration come from other
  services (record \<open>incall_env\<close>).
\<close>

section \<open>State\<close>

datatype ics = IdleState | SecondaryActiveState | ActivatingSecondaryState | ActivatedSecondaryState
  | DeactivatingSecondaryState

datatype incall_call = SetDefaultCellularDataSlotId int | IncallDataComplete

record incall_env =
  intelligenceNetwork :: "int option"
  smartDualCard :: "int option"
  imsVoiceRegistered :: "int \<Rightarrow> bool"
  imsVideoRegistered :: "int \<Rightarrow> bool"

record incall_data =
  ic_slotId :: int
  ic_callState :: int
  ic_currentState :: "ics option"
  ic_apnManager :: "ApnManager option"
  ic_mem :: heap
  ic_queue :: "incall_event list"
  ic_fx :: "incall_call list"

type_synonym incall = "(ics, incall_event, incall_data) hsm"

abbreviation (input) "CELLULAR_DATA_DISABLED \<equiv> (0::int)"
abbreviation (input) "CELLULAR_DATA_ENABLED \<equiv> (1::int)"

definition ic_upd :: "(incall_data \<Rightarrow> incall_data) \<Rightarrow> incall \<Rightarrow> incall" where
  "ic_upd f s = s \<lparr>dat := f (dat s)\<rparr>"

definition ic_emit :: "incall_call list \<Rightarrow> incall_data \<Rightarrow> incall_data" where
  "ic_emit es d = d \<lparr>ic_fx := ic_fx d @ es\<rparr>"

definition Incall_Init :: "int \<Rightarrow> int \<Rightarrow> ApnManager \<Rightarrow> heap \<Rightarrow> incall" where
  "Incall_Init cs slotId mgr h = SetOriginalState IdleState (new_hsm \<lparr>ic_slotId = slotId,
     ic_callState = cs, ic_currentState = None, ic_apnManager = Some mgr, ic_mem = h,
     ic_queue = [], ic_fx = []\<rparr>)"

definition Incall_UpdateCallState :: "int \<Rightarrow> incall_data \<Rightarrow> incall_data" where
  "Incall_UpdateCallState st d = d \<lparr>ic_callState := st\<rparr>"

definition Incall_DeInit :: "incall_data \<Rightarrow> incall_data" where
  "Incall_DeInit d = d \<lparr>ic_currentState := None, ic_apnManager := None, ic_slotId := INVALID_SLOT_ID,
     ic_callState := CALL_STATUS_IDLE\<rparr>"

definition IsSecondaryActiveState :: "incall_data \<Rightarrow> bool" where
  "IsSecondaryActiveState d \<longleftrightarrow> ic_currentState d = Some ActivatingSecondaryState
     \<or> ic_currentState d = Some ActivatedSecondaryState"

definition Incall_HasAnyConnectedState :: "incall_data \<Rightarrow> bool" where
  "Incall_HasAnyConnectedState d = (case ic_apnManager d of
     None \<Rightarrow> False | Some mgr \<Rightarrow> HasAnyConnectedState (h_holders (ic_mem d)) mgr)"

section \<open>Conditions\<close>

definition GetTargetDataSlotId :: "env \<Rightarrow> incall_data \<Rightarrow> int \<Rightarrow> int" where
  "GetTargetDataSlotId e d defSlotId =
     (if ic_slotId d = CELLDATA_SLOT_ID_3 \<and> IsTstsModeEnabled (getParameter e)
      then (if defSlotId = CELLDATA_SLOT_ID_1 then CELLDATA_SLOT_ID_0 else CELLDATA_SLOT_ID_1)
      else ic_slotId d)"

definition IsIncallDataSwitchOn :: "incall_env \<Rightarrow> bool" where
  "IsIncallDataSwitchOn ie =
     (case intelligenceNetwork ie of
        None \<Rightarrow> False
      | Some network \<Rightarrow> (case smartDualCard ie of
            None \<Rightarrow> False
          | Some dual \<Rightarrow>
              let v = (if network = CELLULAR_DATA_ENABLED \<and> dual = CELLULAR_DATA_ENABLED
                       then CELLULAR_DATA_ENABLED else CELLULAR_DATA_DISABLED)
              in v = CELLULAR_DATA_ENABLED))"

definition in_no_call :: "int \<Rightarrow> bool" where
  "in_no_call st \<longleftrightarrow> st = CALL_STATUS_IDLE \<or> st = CALL_STATUS_DISCONNECTED"

fun CanActiveDataByRadioTech :: "RadioTech \<Rightarrow> bool" where
  "CanActiveDataByRadioTech RADIO_TECHNOLOGY_WCDMA = True"
| "CanActiveDataByRadioTech RADIO_TECHNOLOGY_HSPA = True"
| "CanActiveDataByRadioTech RADIO_TECHNOLOGY_HSPAP = True"
| "CanActiveDataByRadioTech RADIO_TECHNOLOGY_LTE = True"
| "CanActiveDataByRadioTech RADIO_TECHNOLOGY_LTE_CA = True"
| "CanActiveDataByRadioTech RADIO_TECHNOLOGY_NR = True"
| "CanActiveDataByRadioTech _ = False"

definition IsSecondaryCanActiveData :: "platform \<Rightarrow> env \<Rightarrow> incall_env \<Rightarrow> incall_data \<Rightarrow> bool" where
  "IsSecondaryCanActiveData P e ie d =
     (let slot = ic_slotId d;
          primary = PrimarySlotId e;
          mode = GetDsdsModeForSlots (getParameter e) primary slot (DsdsMode e)
      in if mode \<ge> DSDS_MODE_V3 P then False
         else if primary = INVALID_SLOT_ID \<or> primary = slot then False
         else if \<not> HasSimCard e primary then False
         else if \<not> imsVoiceRegistered ie slot \<and> \<not> imsVideoRegistered ie slot then False
         else if in_no_call (ic_callState d) then False
         else CanActiveDataByRadioTech (PsRadioTech e slot))"

section \<open>The idle state\<close>

definition Idle_StateBegin :: "incall \<Rightarrow> incall" where
  "Idle_StateBegin s = ic_upd (\<lambda>d0. let d = d0 \<lparr>ic_currentState := Some IdleState\<rparr>
     in if in_no_call (ic_callState d) then ic_emit [IncallDataComplete] d else d)
     (set_active IdleState True s)"

text \<open>The common body of the three events that may move data to this card.\<close>

definition Idle_try_activate :: "platform \<Rightarrow> env \<Rightarrow> incall_env \<Rightarrow> incall \<Rightarrow> incall" where
  "Idle_try_activate P e ie s =
     (if IsIncallDataSwitchOn ie \<and> IsSecondaryCanActiveData P e ie (dat s) then
        let defaultSlotId = DefaultCellularDataSlotId e;
            targetSlotId = GetTargetDataSlotId e (dat s) defaultSlotId
        in if defaultSlotId \<noteq> targetSlotId
           then ic_upd (ic_emit [SetDefaultCellularDataSlotId targetSlotId])
                  (TransitionTo ActivatingSecondaryState s)
           else s
      else s)"

definition Idle_ProcessCallStarted :: "platform \<Rightarrow> env \<Rightarrow> incall_env \<Rightarrow> incall \<Rightarrow> incall" where
  "Idle_ProcessCallStarted P e ie s = Idle_try_activate P e ie s"

definition Idle_ProcessSettingsOn :: "platform \<Rightarrow> env \<Rightarrow> incall_env \<Rightarrow> incall \<Rightarrow> incall" where
  "Idle_ProcessSettingsOn P e ie s = Idle_try_activate P e ie s"

definition Idle_ProcessDsdsChanged :: "platform \<Rightarrow> env \<Rightarrow> incall_env \<Rightarrow> incall \<Rightarrow> incall" where
  "Idle_ProcessDsdsChanged P e ie s = Idle_try_activate P e ie s"

definition Idle_ProcessCallEnded :: "incall \<Rightarrow> incall" where
  "Idle_ProcessCallEnded s = ic_upd (\<lambda>d. ic_emit [IncallDataComplete]
     (d \<lparr>ic_queue := filter (\<lambda>ev. ev \<noteq> MSG_SM_INCALL_DATA_DSDS_CHANGED) (ic_queue d)\<rparr>)) s"

definition Idle_StateProcess :: "platform \<Rightarrow> env \<Rightarrow> incall_env \<Rightarrow> incall_event option \<Rightarrow> incall
    \<Rightarrow> bool \<times> incall_event option \<times> incall" where
  "Idle_StateProcess P e ie event s =
     (case event of
        None \<Rightarrow> (False, None, s)
      | Some ev \<Rightarrow> (case ev of
            MSG_SM_INCALL_DATA_CALL_STARTED \<Rightarrow> (True, event, Idle_ProcessCallStarted P e ie s)
          | MSG_SM_INCALL_DATA_CALL_ENDED \<Rightarrow> (True, event, Idle_ProcessCallEnded s)
          | MSG_SM_INCALL_DATA_SETTINGS_ON \<Rightarrow> (True, event, Idle_ProcessSettingsOn P e ie s)
          | MSG_SM_INCALL_DATA_DSDS_CHANGED \<Rightarrow> (True, event, Idle_ProcessDsdsChanged P e ie s)
          | _ \<Rightarrow> (False, event, s)))"

section \<open>The secondary card carries data\<close>

definition leave_secondary :: "env \<Rightarrow> incall \<Rightarrow> incall" where
  "leave_secondary e s = (if DefaultCellularDataSlotId e \<noteq> PrimarySlotId e
     then TransitionTo DeactivatingSecondaryState s else TransitionTo IdleState s)"

definition SecondaryActive_ProcessCallEnded :: "env \<Rightarrow> incall \<Rightarrow> incall" where
  "SecondaryActive_ProcessCallEnded e s =
     (if in_no_call (ic_callState (dat s)) then leave_secondary e s else s)"

definition SecondaryActive_ProcessSettingsOff :: "env \<Rightarrow> incall_env \<Rightarrow> incall \<Rightarrow> incall" where
  "SecondaryActive_ProcessSettingsOff e ie s =
     (if \<not> IsIncallDataSwitchOn ie then leave_secondary e s else s)"

definition SecondaryActive_StateProcess :: "env \<Rightarrow> incall_env \<Rightarrow> incall_event option \<Rightarrow> incall
    \<Rightarrow> bool \<times> incall_event option \<times> incall" where
  "SecondaryActive_StateProcess e ie event s =
     (case event of
        None \<Rightarrow> (False, None, s)
      | Some ev \<Rightarrow> (case ev of
            MSG_SM_INCALL_DATA_SETTINGS_ON \<Rightarrow> (True, event, s)
          | MSG_SM_INCALL_DATA_CALL_ENDED \<Rightarrow> (True, event, SecondaryActive_ProcessCallEnded e s)
          | MSG_SM_INCALL_DATA_SETTINGS_OFF \<Rightarrow> (True, event, SecondaryActive_ProcessSettingsOff e ie s)
          | MSG_SM_INCALL_DATA_DSDS_CHANGED \<Rightarrow> (True, event, s)
          | _ \<Rightarrow> (False, event, s)))"

definition ic_enter :: "ics \<Rightarrow> incall \<Rightarrow> incall" where
  "ic_enter st s = ic_upd (\<lambda>d. d \<lparr>ic_currentState := Some st\<rparr>) (set_active st True s)"

definition ActivatingSecondary_StateProcess ::
  "incall_event option \<Rightarrow> incall \<Rightarrow> bool \<times> incall_event option \<times> incall" where
  "ActivatingSecondary_StateProcess event s =
     (case event of
        None \<Rightarrow> (False, None, s)
      | Some ev \<Rightarrow>
          if ev = MSG_SM_INCALL_DATA_DATA_CONNECTED
          then (True, event, TransitionTo ActivatedSecondaryState s) else (False, event, s))"

section \<open>Moving back\<close>

text \<open>The entry action may ask for the idle state while the machine is still entering.\<close>

definition DeactivatingSecondary_StateBegin :: "env \<Rightarrow> incall \<Rightarrow> incall" where
  "DeactivatingSecondary_StateBegin e s =
     (let s1 = ic_enter DeactivatingSecondaryState s;
          s2 = (if DefaultCellularDataSlotId e \<noteq> PrimarySlotId e
                then ic_upd (ic_emit [SetDefaultCellularDataSlotId (PrimarySlotId e)]) s1
                else TransitionTo IdleState s1)
      in if \<not> Incall_HasAnyConnectedState (dat s2) then TransitionTo IdleState s2 else s2)"

definition DeactivatingSecondary_StateProcess ::
  "env \<Rightarrow> incall_event option \<Rightarrow> incall \<Rightarrow> bool \<times> incall_event option \<times> incall" where
  "DeactivatingSecondary_StateProcess e event s =
     (case event of
        None \<Rightarrow> (False, None, s)
      | Some ev \<Rightarrow>
          if ev = MSG_SM_INCALL_DATA_DATA_DISCONNECTED
          then (True, event, if ic_slotId (dat s) \<noteq> PrimarySlotId e then TransitionTo IdleState s else s)
          else if ev = MSG_SM_INCALL_DATA_SETTINGS_ON then (True, event, s)
          else (False, event, s))"

section \<open>The machine\<close>

fun ics_ancestors :: "ics \<Rightarrow> ics list" where
  "ics_ancestors ActivatingSecondaryState = [SecondaryActiveState]"
| "ics_ancestors ActivatedSecondaryState = [SecondaryActiveState]"
| "ics_ancestors _ = []"

fun ics_begin :: "env \<Rightarrow> ics \<Rightarrow> incall \<Rightarrow> incall" where
  "ics_begin e IdleState s = Idle_StateBegin s"
| "ics_begin e SecondaryActiveState s = set_active SecondaryActiveState True s"
| "ics_begin e ActivatingSecondaryState s = ic_enter ActivatingSecondaryState s"
| "ics_begin e ActivatedSecondaryState s = ic_enter ActivatedSecondaryState s"
| "ics_begin e DeactivatingSecondaryState s = DeactivatingSecondary_StateBegin e s"

fun ics_process :: "platform \<Rightarrow> env \<Rightarrow> incall_env \<Rightarrow> ics \<Rightarrow> incall_event option \<Rightarrow> incall
    \<Rightarrow> bool \<times> incall_event option \<times> incall" where
  "ics_process P e ie IdleState ev s = Idle_StateProcess P e ie ev s"
| "ics_process P e ie SecondaryActiveState ev s = SecondaryActive_StateProcess e ie ev s"
| "ics_process P e ie ActivatingSecondaryState ev s = ActivatingSecondary_StateProcess ev s"
| "ics_process P e ie ActivatedSecondaryState ev s = (False, ev, s)"
| "ics_process P e ie DeactivatingSecondaryState ev s = DeactivatingSecondary_StateProcess e ev s"

definition ics_vtable :: "platform \<Rightarrow> env \<Rightarrow> incall_env \<Rightarrow> (ics, incall_event, incall_data) vtable" where
  "ics_vtable P e ie = \<lparr>ancestors = ics_ancestors, StateBegin = ics_begin e,
     StateEnd = (\<lambda>st. set_active st False), StateProcess = ics_process P e ie,
     is_quit_event = (\<lambda>ev. ev = INCALL_QUIT), is_init_event = (\<lambda>ev. ev = INCALL_INIT)\<rparr>"

abbreviation (input) "ics_step P e ie ev s \<equiv> ProcessEvent (ics_vtable P e ie) (Some ev) s"

lemma ics_vtable_simps [simp]:
  "ancestors (ics_vtable P e ie) = ics_ancestors" "StateBegin (ics_vtable P e ie) = ics_begin e"
  "StateEnd (ics_vtable P e ie) = (\<lambda>st. set_active st False)"
  "StateProcess (ics_vtable P e ie) = ics_process P e ie"
  "is_quit_event (ics_vtable P e ie) ev \<longleftrightarrow> ev = INCALL_QUIT"
  "is_init_event (ics_vtable P e ie) ev \<longleftrightarrow> ev = INCALL_INIT"
  by (simp_all add: ics_vtable_def)

lemmas ics_ops = ic_upd_def set_active_def TransitionTo_def ic_enter_def

lemma ics_begin_frame:
  "curState (ics_begin e x s) = curState s" "originalState (ics_begin e x s) = originalState s"
  "deferEvents (ics_begin e x s) = deferEvents s" "sent (ics_begin e x s) = sent s"
  "isQuit (ics_begin e x s) = isQuit s"
  by (cases x; simp add: ics_ops Idle_StateBegin_def DeactivatingSecondary_StateBegin_def Let_def)+

lemmas ics_process_defs = Idle_StateProcess_def SecondaryActive_StateProcess_def
  ActivatingSecondary_StateProcess_def DeactivatingSecondary_StateProcess_def Idle_try_activate_def
  Idle_ProcessCallStarted_def Idle_ProcessSettingsOn_def Idle_ProcessDsdsChanged_def
  Idle_ProcessCallEnded_def leave_secondary_def SecondaryActive_ProcessCallEnded_def
  SecondaryActive_ProcessSettingsOff_def

lemma ics_process_contract:
  assumes "ics_process P e ie x ev s = (b, ev', s')"
  shows "curState s' = curState s \<and> originalState s' = originalState s \<and> sent s' = sent s
      \<and> isQuit s' = isQuit s \<and> deferEvents s' = deferEvents s \<and> ev' = ev"
  using assms
  by (cases x; cases ev)
    (auto simp: ics_process_defs ics_ops Let_def split: incall_event.splits if_splits)

interpretation ics: hsm_states "ics_vtable P e ie" for P e ie
  by unfold_locales (auto simp: ics_begin_frame set_active_def dest: ics_process_contract)

section \<open>Reachable states\<close>

text \<open>The machine is started once; afterwards events arrive in any order, with any answers of the
  other services, while the call state, the profiles and the event queue change around it.\<close>

inductive incall_reach :: "platform \<Rightarrow> incall \<Rightarrow> bool" for P where
  start: "incall_reach P (ics_step P e ie INCALL_INIT (Incall_Init cs slotId mgr h))"
| event: "incall_reach P s \<Longrightarrow> ev \<noteq> INCALL_INIT \<Longrightarrow> ev \<noteq> INCALL_QUIT \<Longrightarrow> incall_reach P (ics_step P e ie ev s)"
| call_state: "incall_reach P s \<Longrightarrow> incall_reach P (ic_upd (Incall_UpdateCallState st) s)"
| world: "incall_reach P s \<Longrightarrow> incall_reach P (ic_upd (\<lambda>d. d \<lparr>ic_mem := h, ic_queue := q\<rparr>) s)"

definition incall_at :: "ics \<Rightarrow> incall \<Rightarrow> bool" where
  "incall_at st s \<longleftrightarrow> curState s = Some st \<and> destState s = Some st \<and> \<not> isQuit s"

lemmas ics_run = ProcessEvent_def ProcessMsg_def ProcessTransitions_def SendDeferredEvent_def
  ics_process_defs ics_ops ic_emit_def Idle_StateBegin_def Let_def

text \<open>One event in each state: from the idle state, from the secondary states, and while moving back.\<close>

lemma idle_step:
  fixes e :: env
  assumes "incall_at IdleState s" "ev \<noteq> INCALL_INIT" "ev \<noteq> INCALL_QUIT"
  defines "target \<equiv> GetTargetDataSlotId e (dat s) (DefaultCellularDataSlotId e)"
  shows "let s' = ics_step P e ie ev s in
    if ev \<in> {MSG_SM_INCALL_DATA_CALL_STARTED, MSG_SM_INCALL_DATA_SETTINGS_ON, MSG_SM_INCALL_DATA_DSDS_CHANGED}
       \<and> IsIncallDataSwitchOn ie \<and> IsSecondaryCanActiveData P e ie (dat s)
       \<and> DefaultCellularDataSlotId e \<noteq> target
    then incall_at ActivatingSecondaryState s' \<and> ic_currentState (dat s') = Some ActivatingSecondaryState
       \<and> ic_fx (dat s') = ic_fx (dat s) @ [SetDefaultCellularDataSlotId target]
    else incall_at IdleState s' \<and> ic_currentState (dat s') = ic_currentState (dat s)
       \<and> ic_fx (dat s') = ic_fx (dat s) @
           (if ev = MSG_SM_INCALL_DATA_CALL_ENDED then [IncallDataComplete] else [])"
  using assms by (cases ev) (auto simp: incall_at_def ics_run)

definition leaves_secondary :: "incall_env \<Rightarrow> incall_event \<Rightarrow> incall \<Rightarrow> bool" where
  "leaves_secondary ie ev s \<longleftrightarrow>
     ev = MSG_SM_INCALL_DATA_CALL_ENDED \<and> in_no_call (ic_callState (dat s))
   \<or> ev = MSG_SM_INCALL_DATA_SETTINGS_OFF \<and> \<not> IsIncallDataSwitchOn ie"

definition incall_complete :: "incall_data \<Rightarrow> incall_call list" where
  "incall_complete d = (if in_no_call (ic_callState d) then [IncallDataComplete] else [])"

lemma secondary_step:
  assumes "incall_at st s" "st = ActivatingSecondaryState \<or> st = ActivatedSecondaryState"
    "ev \<noteq> INCALL_INIT" "ev \<noteq> INCALL_QUIT"
  shows "let s' = ics_step P e ie ev s in
    if leaves_secondary ie ev s then
      if DefaultCellularDataSlotId e \<noteq> PrimarySlotId e
      then incall_at (if Incall_HasAnyConnectedState (dat s) then DeactivatingSecondaryState else IdleState) s'
        \<and> ic_currentState (dat s') = Some DeactivatingSecondaryState
        \<and> ic_fx (dat s') = ic_fx (dat s) @ [SetDefaultCellularDataSlotId (PrimarySlotId e)]
      else incall_at IdleState s' \<and> ic_currentState (dat s') = Some IdleState
        \<and> ic_fx (dat s') = ic_fx (dat s) @ incall_complete (dat s)
    else (\<exists>st' \<in> {ActivatingSecondaryState, ActivatedSecondaryState}. incall_at st' s' \<and>
        (ic_currentState (dat s) = Some st \<longrightarrow> ic_currentState (dat s') = Some st'))
      \<and> ic_fx (dat s') = ic_fx (dat s)"
  using assms
  by (cases ev; elim disjE; simp)
    (auto simp: incall_at_def ics_run DeactivatingSecondary_StateBegin_def leaves_secondary_def
      incall_complete_def Incall_HasAnyConnectedState_def split: option.splits)

lemma deactivating_step:
  assumes "incall_at DeactivatingSecondaryState s" "ev \<noteq> INCALL_INIT" "ev \<noteq> INCALL_QUIT"
  shows "let s' = ics_step P e ie ev s in
    if ev = MSG_SM_INCALL_DATA_DATA_DISCONNECTED \<and> ic_slotId (dat s) \<noteq> PrimarySlotId e
    then incall_at IdleState s' \<and> ic_currentState (dat s') = Some IdleState
      \<and> ic_fx (dat s') = ic_fx (dat s) @ incall_complete (dat s)
    else s' = s"
  using assms by (cases ev) (auto simp: incall_at_def ics_run incall_complete_def)

lemma incall_start:
  "incall_at IdleState (ics_step P e ie INCALL_INIT (Incall_Init cs slotId mgr h))
   \<and> ic_currentState (dat (ics_step P e ie INCALL_INIT (Incall_Init cs slotId mgr h))) = Some IdleState"
  by (simp add: incall_at_def ics_run InitCmdEnter_def Incall_Init_def SetOriginalState_def new_hsm_def)

definition incall_inv :: "incall \<Rightarrow> bool" where
  "incall_inv s \<longleftrightarrow>
     (incall_at IdleState s \<and> ic_currentState (dat s) \<in> {Some IdleState, Some DeactivatingSecondaryState})
   \<or> (\<exists>st \<in> {ActivatingSecondaryState, ActivatedSecondaryState, DeactivatingSecondaryState}.
        incall_at st s \<and> ic_currentState (dat s) = Some st)"

lemma incall_inv_upd:
  "incall_inv s \<Longrightarrow> (\<And>d. ic_currentState (f d) = ic_currentState d) \<Longrightarrow> incall_inv (ic_upd f s)"
  by (simp add: incall_inv_def incall_at_def ic_upd_def)

lemma incall_inv_step:
  assumes "incall_inv s" "ev \<noteq> INCALL_INIT" "ev \<noteq> INCALL_QUIT"
  shows "incall_inv (ics_step P e ie ev s)"
  using assms(1) unfolding incall_inv_def [of s]
proof (elim disjE conjE bexE)
  assume "incall_at IdleState s" "ic_currentState (dat s) \<in> {Some IdleState, Some DeactivatingSecondaryState}"
  then show ?thesis
    using idle_step [OF _ assms(2,3), where s = s and P = P and e = e and ie = ie] by (auto simp: incall_inv_def Let_def split: if_splits)
next
  fix st assume st: "st \<in> {ActivatingSecondaryState, ActivatedSecondaryState, DeactivatingSecondaryState}"
    and at: "incall_at st s" "ic_currentState (dat s) = Some st"
  show ?thesis
  proof (cases "st = DeactivatingSecondaryState")
    case True
    with at deactivating_step [OF _ assms(2,3), of s P e ie] show ?thesis
      by (auto simp: incall_inv_def Let_def split: if_splits)
  next
    case False
    with st at secondary_step [OF at(1) _ assms(2,3), of P e ie] show ?thesis
      by (auto simp: incall_inv_def Let_def split: if_splits)
  qed
qed

lemma incall_reach_inv: "incall_reach P s \<Longrightarrow> incall_inv s"
proof (induction rule: incall_reach.induct)
  case (start e ie cs slotId mgr h)
  show ?case using incall_start by (simp add: incall_inv_def)
next
  case (event s ev e ie)
  show ?case using event.IH event.hyps(2,3) by (rule incall_inv_step)
next
  case (call_state s st)
  then show ?case by (auto intro: incall_inv_upd simp: Incall_UpdateCallState_def)
next
  case (world s h q)
  then show ?case by (auto intro: incall_inv_upd)
qed

lemma incall_inv_cases:
  assumes "incall_inv s"
  obtains "incall_at IdleState s" | "incall_at DeactivatingSecondaryState s"
  | st where "st = ActivatingSecondaryState \<or> st = ActivatedSecondaryState" "incall_at st s"
  using assms unfolding incall_inv_def by blast

section \<open>What the machine guarantees\<close>

text \<open>A small world for examples: the data card is slot 0, a call runs on slot 1.\<close>

definition sample_incall_env :: incall_env where
  "sample_incall_env = \<lparr>intelligenceNetwork = Some 1, smartDualCard = Some 1,
     imsVoiceRegistered = (\<lambda>s. True), imsVideoRegistered = (\<lambda>s. False)\<rparr>"

definition sample_incall :: incall where
  "sample_incall = ics_step sample_platform sample_env sample_incall_env INCALL_INIT
     (Incall_Init CALL_STATUS_DIALING 1 new_ApnManager \<lparr>h_items = Map.empty, h_holders = Map.empty, h_next = 1\<rparr>)"

lemma sample_incall_reach: "incall_reach sample_platform sample_incall"
  unfolding sample_incall_def by (rule incall_reach.start)

lemma sample_incall_at: "incall_at IdleState sample_incall"
  "ic_callState (dat sample_incall) = CALL_STATUS_DIALING" "ic_slotId (dat sample_incall) = 1"
  "ic_fx (dat sample_incall) = []"
  by (simp_all add: sample_incall_def incall_at_def ics_run InitCmdEnter_def Incall_Init_def
      SetOriginalState_def new_hsm_def in_no_call_def)

text \<open>C31: the machine moves the default data slot for one of two reasons only, and never to where it already
  is: from the idle state for the sake of this card, during a call, with both settings on, when this card
  is not the primary one, the primary card is present, the radio cannot serve both cards, the card is registered
  for IMS voice or video and its radio technology carries data in a call; or back to the primary
  slot, when the call is over or the user switched the feature off. In the first case the new slot is the
  slot of this card, except for slot 3 in the mode with three slots, where it is the other one of the
  slots 0 and 1: slot 0 when slot 1 carries the data, else slot 1.\<close>

theorem incall_slot_change_justified:
  assumes "incall_reach P s" "ev \<noteq> INCALL_INIT" "ev \<noteq> INCALL_QUIT"
  shows "\<exists>new. ic_fx (dat (ics_step P e ie ev s)) = ic_fx (dat s) @ new \<and>
    (\<forall>t. SetDefaultCellularDataSlotId t \<in> set new \<longrightarrow> DefaultCellularDataSlotId e \<noteq> t \<and>
      (curState s = Some IdleState
         \<and> t = (if ic_slotId (dat s) = 3 \<and> IsTstsModeEnabled (getParameter e)
                then if DefaultCellularDataSlotId e = 1 then 0 else 1 else ic_slotId (dat s))
         \<and> intelligenceNetwork ie = Some CELLULAR_DATA_ENABLED \<and> smartDualCard ie = Some CELLULAR_DATA_ENABLED
         \<and> \<not> in_no_call (ic_callState (dat s))
         \<and> PrimarySlotId e \<noteq> ic_slotId (dat s) \<and> HasSimCard e (PrimarySlotId e)
         \<and> GetDsdsModeForSlots (getParameter e) (PrimarySlotId e) (ic_slotId (dat s)) (DsdsMode e) < DSDS_MODE_V3 P
         \<and> (imsVoiceRegistered ie (ic_slotId (dat s)) \<or> imsVideoRegistered ie (ic_slotId (dat s)))
         \<and> CanActiveDataByRadioTech (PsRadioTech e (ic_slotId (dat s)))
       \<or> IsSecondaryActiveState (dat s) \<and> t = PrimarySlotId e \<and> leaves_secondary ie ev s))"
proof -
  have inv: "incall_inv s" using assms(1) by (rule incall_reach_inv)
  then show ?thesis
  proof (cases rule: incall_inv_cases)
    case 1
    with idle_step [OF 1 assms(2,3), where P = P and e = e and ie = ie] show ?thesis
      by (auto simp: Let_def incall_at_def IsIncallDataSwitchOn_def IsSecondaryCanActiveData_def
          GetTargetDataSlotId_def not_le split: if_splits option.splits)
  next
    case 2
    with deactivating_step [OF 2 assms(2,3), of P e ie] show ?thesis
      by (auto simp: Let_def incall_complete_def split: if_splits)
  next
    case (3 st)
    then have "IsSecondaryActiveState (dat s)"
      using inv by (auto simp: incall_inv_def incall_at_def IsSecondaryActiveState_def)
    with secondary_step [OF 3(2,1) assms(2,3), of P e ie] show ?thesis
      by (auto simp: Let_def incall_complete_def split: if_splits)
  qed
qed

theorem incall_slot_change_justified_witness:
  "SetDefaultCellularDataSlotId 1 \<in> set (ic_fx (dat (ics_step sample_platform sample_env sample_incall_env
       MSG_SM_INCALL_DATA_CALL_STARTED sample_incall)))
   \<and> \<not> in_no_call (ic_callState (dat sample_incall))"
proof -
  let ?s = "ics_step sample_platform sample_env sample_incall_env MSG_SM_INCALL_DATA_CALL_STARTED sample_incall"
  have fx: "ic_fx (dat ?s) = [SetDefaultCellularDataSlotId 1]"
    using idle_step [OF sample_incall_at(1), where P = sample_platform and e = sample_env
        and ie = sample_incall_env and ev = MSG_SM_INCALL_DATA_CALL_STARTED]
    by (simp add: sample_incall_at IsIncallDataSwitchOn_def IsSecondaryCanActiveData_def
        GetTargetDataSlotId_def sample_env_def sample_incall_env_def sample_platform_def
        GetDsdsModeForSlots_def in_no_call_def Let_def)
  from incall_slot_change_justified [OF sample_incall_reach, of MSG_SM_INCALL_DATA_CALL_STARTED sample_env
      sample_incall_env] fx sample_incall_at
  have "\<not> in_no_call (ic_callState (dat sample_incall))"
    by (auto simp: leaves_secondary_def)
  with fx show ?thesis by simp
qed

text \<open>C32: when the call is over, or the user switches the feature off, while this card carries data,
  the machine leaves the secondary states, moves the default data slot back to the primary card
  unless it is there already, and, if it has to wait for the data connections of this card, goes
  back to idle when they are reported gone.\<close>

theorem incall_returns_to_primary:
  assumes "incall_reach P s" "IsSecondaryActiveState (dat s)" "leaves_secondary ie ev s"
  shows "let s1 = ics_step P e ie ev s in
    \<not> IsSecondaryActiveState (dat s1)
    \<and> (DefaultCellularDataSlotId e \<noteq> PrimarySlotId e \<longrightarrow>
         ic_fx (dat s1) = ic_fx (dat s) @ [SetDefaultCellularDataSlotId (PrimarySlotId e)])
    \<and> (DefaultCellularDataSlotId e = PrimarySlotId e \<longrightarrow>
         curState s1 = Some IdleState \<and> ic_fx (dat s1) = ic_fx (dat s) @ incall_complete (dat s))
    \<and> (curState s1 = Some IdleState \<or> curState s1 = Some DeactivatingSecondaryState
        \<and> (ic_slotId (dat s1) \<noteq> PrimarySlotId e' \<longrightarrow>
            curState (ics_step P e' ie' MSG_SM_INCALL_DATA_DATA_DISCONNECTED s1) = Some IdleState))"
proof -
  have ev: "ev \<noteq> INCALL_INIT" "ev \<noteq> INCALL_QUIT" using assms(3) by (auto simp: leaves_secondary_def)
  from incall_reach_inv [OF assms(1)] assms(2) obtain st
    where st: "st = ActivatingSecondaryState \<or> st = ActivatedSecondaryState" "incall_at st s"
    by (auto simp: incall_inv_def IsSecondaryActiveState_def)
  let ?s1 = "ics_step P e ie ev s"
  have gone: "curState (ics_step P e' ie' MSG_SM_INCALL_DATA_DATA_DISCONNECTED ?s1) = Some IdleState"
    if "incall_at DeactivatingSecondaryState ?s1" "ic_slotId (dat ?s1) \<noteq> PrimarySlotId e'"
    using deactivating_step [OF that(1), of MSG_SM_INCALL_DATA_DATA_DISCONNECTED P e' ie'] that(2)
    by (simp add: Let_def incall_at_def)
  from secondary_step [OF st(2,1) ev, of P e ie] assms(3) gone show ?thesis
    by (auto simp: Let_def incall_at_def IsSecondaryActiveState_def split: if_splits)
qed

definition sample_incall_secondary :: incall where
  "sample_incall_secondary = ic_upd (Incall_UpdateCallState CALL_STATUS_IDLE)
     (ics_step sample_platform sample_env sample_incall_env MSG_SM_INCALL_DATA_CALL_STARTED sample_incall)"

lemma sample_incall_secondary:
  "incall_reach sample_platform sample_incall_secondary"
  "IsSecondaryActiveState (dat sample_incall_secondary)"
  "ic_callState (dat sample_incall_secondary) = CALL_STATUS_IDLE"
proof -
  show "incall_reach sample_platform sample_incall_secondary"
    unfolding sample_incall_secondary_def
    by (intro incall_reach.call_state incall_reach.event sample_incall_reach) simp_all
  show "IsSecondaryActiveState (dat sample_incall_secondary)"
    using idle_step [OF sample_incall_at(1), where P = sample_platform and e = sample_env
        and ie = sample_incall_env and ev = MSG_SM_INCALL_DATA_CALL_STARTED]
    by (simp add: sample_incall_at IsIncallDataSwitchOn_def IsSecondaryCanActiveData_def
        GetTargetDataSlotId_def sample_env_def sample_incall_env_def sample_platform_def
        GetDsdsModeForSlots_def in_no_call_def Let_def IsSecondaryActiveState_def
        sample_incall_secondary_def ic_upd_def Incall_UpdateCallState_def)
qed (simp add: sample_incall_secondary_def ic_upd_def Incall_UpdateCallState_def)

theorem incall_returns_to_primary_witness:
  "\<not> IsSecondaryActiveState (dat (ics_step sample_platform (sample_env \<lparr>DefaultCellularDataSlotId := 1\<rparr>)
     sample_incall_env MSG_SM_INCALL_DATA_CALL_ENDED sample_incall_secondary))"
  using incall_returns_to_primary [OF sample_incall_secondary(1,2), where ev = MSG_SM_INCALL_DATA_CALL_ENDED
      and ie = sample_incall_env and e = "sample_env \<lparr>DefaultCellularDataSlotId := 1\<rparr>"]
  by (simp add: leaves_secondary_def in_no_call_def sample_incall_secondary(3) Let_def)

text \<open>In every reachable state the machine stands in a leaf state, with no transition pending, and
  the state that its clients see, \<open>currentState_\<close>, tells them correctly whether the secondary card
  carries data; it differs from the state the machine is in only after a move back with no
  connection left, when it still names the moving-back state.\<close>

theorem incall_state_mirror:
  assumes "incall_reach P s"
  shows "\<exists>st. curState s = Some st \<and> destState s = Some st \<and> \<not> isQuit s \<and> st \<noteq> SecondaryActiveState
    \<and> (IsSecondaryActiveState (dat s) \<longleftrightarrow> st = ActivatingSecondaryState \<or> st = ActivatedSecondaryState)
    \<and> (ic_currentState (dat s) = Some st
        \<or> st = IdleState \<and> ic_currentState (dat s) = Some DeactivatingSecondaryState)"
  using incall_reach_inv [OF assms]
  by (auto simp: incall_inv_def incall_at_def IsSecondaryActiveState_def)

theorem incall_state_mirror_witness:
  "\<exists>st. curState sample_incall_secondary = Some st \<and> (st = ActivatingSecondaryState \<or> st = ActivatedSecondaryState)"
  using incall_state_mirror [OF sample_incall_secondary(1)] sample_incall_secondary(2) by auto

text \<open>The exceptional case of the mirror exists: moving back with no connection left, the machine
  is in the idle state, but the entry action of the idle state has not run. The state shown to the
  clients stays the moving-back state, the idle state is not active, and the end of the in-call
  data is not reported even though the call is over.\<close>

theorem incall_idle_entry_skipped:
  assumes "incall_at st s" "st = ActivatingSecondaryState \<or> st = ActivatedSecondaryState"
    "in_no_call (ic_callState (dat s))" "DefaultCellularDataSlotId e \<noteq> PrimarySlotId e"
    "\<not> Incall_HasAnyConnectedState (dat s)" "\<not> isActive s IdleState"
  shows "let s' = ics_step P e ie MSG_SM_INCALL_DATA_CALL_ENDED s in
    curState s' = Some IdleState \<and> ic_currentState (dat s') = Some DeactivatingSecondaryState
    \<and> \<not> isActive s' IdleState \<and> ic_fx (dat s') = ic_fx (dat s) @ [SetDefaultCellularDataSlotId (PrimarySlotId e)]"
  using assms
  by (auto simp: incall_at_def ics_run DeactivatingSecondary_StateBegin_def Incall_HasAnyConnectedState_def
      split: option.splits)

end
