(* ===== verification/Switch_Settings.thy ===== *)
theory Switch_Settings
  imports Net_Agent
begin

text \<open>
  The user's switches: \<open>services/src/data_switch_settings.cpp\<close> on top of
  \<open>services/src/utils/cellular_data_settings_rdb_helper.cpp\<close>. The settings database is another
  process; its four calls are the record \<open>datashare\<close>, a parameter of every definition, over an
  abstract database state \<open>'db\<close>. A row is addressed by its keyword, which the URI repeats.
  \<open>GetValue\<close> and \<open>PutValue\<close> return an error code and what their reference parameters hold
  afterwards; \<open>PutValue\<close> also returns the keywords whose observers are notified.
\<close>

section \<open>The settings database\<close>

record 'db datashare =
  ds_open :: "'db \<Rightarrow> bool"
  ds_query :: "'db \<Rightarrow> string \<Rightarrow> string option"
  ds_insert :: "string \<Rightarrow> string \<Rightarrow> 'db \<Rightarrow> int \<times> 'db"
  ds_update :: "string \<Rightarrow> string \<Rightarrow> 'db \<Rightarrow> int \<times> 'db"

abbreviation (input) "E_ERROR \<equiv> (-1::int)"

text \<open>\<open>ds_query\<close> is \<open>None\<close> when the query returns no result set, and otherwise the text of the
  value column, empty when there is no row. What a keyword store promises: after a successful
  insertion of a new keyword, or update of an existing one, the row reads back as written and the
  other rows are as before.\<close>

definition ds_wrote :: "'db datashare \<Rightarrow> string \<Rightarrow> string \<Rightarrow> 'db \<Rightarrow> 'db \<Rightarrow> bool" where
  "ds_wrote DS k v db db' \<longleftrightarrow> ds_query DS db' k = Some v \<and> ds_open DS db' = ds_open DS db
     \<and> (\<forall>k'. k' \<noteq> k \<longrightarrow> ds_query DS db' k' = ds_query DS db k')"

definition datashare_ok :: "'db datashare \<Rightarrow> bool" where
  "datashare_ok DS \<longleftrightarrow>
     (\<forall>db k v r db'. ds_query DS db k = Some '''' \<and> ds_insert DS k v db = (r, db') \<and> r \<noteq> E_ERROR
        \<longrightarrow> ds_wrote DS k v db db')
   \<and> (\<forall>db k v w r db'. ds_query DS db k = Some w \<and> w \<noteq> '''' \<and> ds_update DS k v db = (r, db') \<and> r \<noteq> E_ERROR
        \<longrightarrow> ds_wrote DS k v db db')"

definition Settings_GetValue :: "'db datashare \<Rightarrow> 'db \<Rightarrow> string \<Rightarrow> int \<Rightarrow> tel_err \<times> int" where
  "Settings_GetValue DS db column value0 =
     (if \<not> ds_open DS db then (TELEPHONY_ERR_LOCAL_PTR_NULL, value0)
      else case ds_query DS db column of
             None \<Rightarrow> (TELEPHONY_ERR_DATABASE_READ_FAIL, value0)
           | Some resultValue \<Rightarrow> (case ConvertStrToInt resultValue value0 of (ok, v) \<Rightarrow>
               if \<not> ok then (TELEPHONY_ERR_DATABASE_READ_EMPTY, v) else (TELEPHONY_ERR_SUCCESS, v)))"

definition Settings_PutValue :: "'db datashare \<Rightarrow> string \<Rightarrow> int \<Rightarrow> 'db \<Rightarrow> tel_err \<times> 'db \<times> string list" where
  "Settings_PutValue DS column value0 db =
     (if \<not> ds_open DS db then (TELEPHONY_ERR_LOCAL_PTR_NULL, db, [])
      else
        let getValueRet = fst (Settings_GetValue DS db column 0);
            text0 = to_string value0;
            (result, db') = (if getValueRet \<noteq> TELEPHONY_ERR_SUCCESS then ds_insert DS column text0 db
                             else ds_update DS column text0 db)
        in if result = E_ERROR then (TELEPHONY_ERR_DATABASE_WRITE_FAIL, db', [])
           else (TELEPHONY_ERR_SUCCESS, db', [column]))"

section \<open>Switches\<close>

record DataSwitchSettings =
  internalDataOn :: bool
  userDataOn :: bool
  userDataRoaming :: bool
  policyDataOn :: bool
  carrierDataOn :: bool
  intelliSwitchOn :: bool
  sw_slotId :: int
  lastQryRet :: tel_err

definition new_DataSwitchSettings :: "int \<Rightarrow> DataSwitchSettings" where
  "new_DataSwitchSettings slotId = \<lparr>internalDataOn = True, userDataOn = True, userDataRoaming = False,
     policyDataOn = True, carrierDataOn = False, intelliSwitchOn = False, sw_slotId = slotId,
     lastQryRet = TELEPHONY_ERR_OTHER (-1)\<rparr>"

abbreviation (input) "CELLULAR_DATA_COLUMN_ENABLE \<equiv> ''cellular_data_enable''"
abbreviation (input) "SIM_DETECTED_COLUMN_ENABLE \<equiv> ''any_sim_detected''"
abbreviation (input) "CELLULAR_DATA_COLUMN_ROAMING \<equiv> ''cellular_data_roaming_enable''"
abbreviation (input) "INTELLIGENCE_SWITCH_COLUMN_ENABLE \<equiv> ''intelligence_card_switch_enable''"

definition switch_code :: "bool \<Rightarrow> int" where
  "switch_code b = (if b then 1 else 0)"

type_synonym 'db settings = "DataSwitchSettings \<times> 'db"

definition IsInternalDataOn :: "DataSwitchSettings \<Rightarrow> bool" where
  "IsInternalDataOn sw = internalDataOn sw"

definition SetInternalDataOn :: "bool \<Rightarrow> DataSwitchSettings \<Rightarrow> DataSwitchSettings" where
  "SetInternalDataOn b sw = sw \<lparr>internalDataOn := b\<rparr>"

definition SetUserDataOn :: "'db datashare \<Rightarrow> bool \<Rightarrow> 'db settings \<Rightarrow> tel_err \<times> 'db settings \<times> string list" where
  "SetUserDataOn DS on s = (case s of (sw, db) \<Rightarrow>
     if sw_slotId sw = CELLULAR_DATA_VSIM_SLOT_ID then (TELEPHONY_ERR_SUCCESS, s, [])
     else
       let userDataOnTmp = userDataOn sw;
           sw1 = sw \<lparr>userDataOn := on\<rparr>;
           (result, db', ks) = Settings_PutValue DS CELLULAR_DATA_COLUMN_ENABLE (switch_code on) db
       in (result, (if result \<noteq> TELEPHONY_ERR_SUCCESS then sw1 \<lparr>userDataOn := userDataOnTmp\<rparr> else sw1, db'), ks))"

definition SetAnySimDetected :: "'db datashare \<Rightarrow> int \<Rightarrow> 'db settings \<Rightarrow> tel_err \<times> 'db settings \<times> string list" where
  "SetAnySimDetected DS simDetected s = (case s of (sw, db) \<Rightarrow>
     case Settings_PutValue DS SIM_DETECTED_COLUMN_ENABLE simDetected db of (result, db', ks) \<Rightarrow>
       (result, (sw, db'), ks))"

definition SetIntelliSwitchOn :: "'db datashare \<Rightarrow> bool \<Rightarrow> 'db settings \<Rightarrow> tel_err \<times> 'db settings \<times> string list" where
  "SetIntelliSwitchOn DS on s = (case s of (sw, db) \<Rightarrow>
     case Settings_PutValue DS INTELLIGENCE_SWITCH_COLUMN_ENABLE (switch_code on) db of (result, db', ks) \<Rightarrow>
       (result, (if result = TELEPHONY_ERR_SUCCESS then sw \<lparr>intelliSwitchOn := on\<rparr> else sw, db'), ks))"

text \<open>The queries: error code, the value of the reference parameter, and the switches.\<close>

definition QueryUserDataStatus ::
  "'db datashare \<Rightarrow> 'db \<Rightarrow> bool \<Rightarrow> DataSwitchSettings \<Rightarrow> tel_err \<times> bool \<times> DataSwitchSettings" where
  "QueryUserDataStatus DS db dataEnabled sw =
     (if sw_slotId sw = CELLULAR_DATA_VSIM_SLOT_ID
      then (TELEPHONY_ERR_SUCCESS, True, sw \<lparr>userDataOn := True\<rparr>)
      else case Settings_GetValue DS db CELLULAR_DATA_COLUMN_ENABLE (switch_code True) of (ret, v) \<Rightarrow>
        if ret \<noteq> TELEPHONY_ERR_SUCCESS
        then (TELEPHONY_ERR_LOCAL_PTR_NULL, dataEnabled, sw \<lparr>lastQryRet := ret\<rparr>)
        else (TELEPHONY_ERR_SUCCESS, v = switch_code True,
              sw \<lparr>lastQryRet := ret, userDataOn := (v = switch_code True)\<rparr>))"

text \<open>The parameter is passed by value: the caller gets the code only.\<close>

definition QueryAnySimDetectedStatus :: "'db datashare \<Rightarrow> 'db \<Rightarrow> int \<Rightarrow> tel_err" where
  "QueryAnySimDetectedStatus DS db simDetected = fst (Settings_GetValue DS db SIM_DETECTED_COLUMN_ENABLE simDetected)"

definition QueryIntelligenceSwitchStatus ::
  "'db datashare \<Rightarrow> 'db \<Rightarrow> DataSwitchSettings \<Rightarrow> tel_err \<times> bool \<times> DataSwitchSettings" where
  "QueryIntelligenceSwitchStatus DS db sw =
     (let v = snd (Settings_GetValue DS db INTELLIGENCE_SWITCH_COLUMN_ENABLE (switch_code False));
          on = (v = switch_code True)
      in (TELEPHONY_ERR_SUCCESS, on, sw \<lparr>intelliSwitchOn := on\<rparr>))"

definition roaming_column :: "int \<Rightarrow> string" where
  "roaming_column simId = CELLULAR_DATA_COLUMN_ROAMING @ to_string simId"

definition SetUserDataRoamingOn ::
  "env \<Rightarrow> 'db datashare \<Rightarrow> bool \<Rightarrow> 'db settings \<Rightarrow> tel_err \<times> 'db settings \<times> string list" where
  "SetUserDataRoamingOn e DS on s = (case s of (sw, db) \<Rightarrow>
     if sw_slotId sw = CELLULAR_DATA_VSIM_SLOT_ID then (TELEPHONY_ERR_SUCCESS, s, [])
     else
       let simId = SimIdOf e (sw_slotId sw)
       in if simId \<le> INVALID_SIM_ID then (TELEPHONY_ERR_SLOTID_INVALID, s, [])
          else case Settings_PutValue DS (roaming_column simId) (switch_code on) db of (result, db', ks) \<Rightarrow>
            (result, (if result = TELEPHONY_ERR_SUCCESS then sw \<lparr>userDataRoaming := on\<rparr> else sw, db'), ks))"

definition QueryUserDataRoamingStatus ::
  "env \<Rightarrow> 'db datashare \<Rightarrow> 'db \<Rightarrow> bool \<Rightarrow> DataSwitchSettings \<Rightarrow> tel_err \<times> bool \<times> DataSwitchSettings" where
  "QueryUserDataRoamingStatus e DS db dataRoamingEnabled sw =
     (if sw_slotId sw = CELLULAR_DATA_VSIM_SLOT_ID
      then (TELEPHONY_ERR_SUCCESS, True, sw \<lparr>userDataRoaming := True\<rparr>)
      else
        let simId = SimIdOf e (sw_slotId sw)
        in if simId \<le> INVALID_SIM_ID then (TELEPHONY_ERR_LOCAL_PTR_NULL, dataRoamingEnabled, sw)
           else case Settings_GetValue DS db (roaming_column simId) (switch_code False) of (ret, v) \<Rightarrow>
             if ret \<noteq> TELEPHONY_ERR_SUCCESS then (ret, dataRoamingEnabled, sw)
             else (TELEPHONY_ERR_SUCCESS, v = switch_code True, sw \<lparr>userDataRoaming := (v = switch_code True)\<rparr>))"

definition LoadSwitchValue :: "env \<Rightarrow> 'db datashare \<Rightarrow> 'db \<Rightarrow> DataSwitchSettings \<Rightarrow> DataSwitchSettings" where
  "LoadSwitchValue e DS db sw =
     snd (snd (QueryUserDataRoamingStatus e DS db False (snd (snd (QueryUserDataStatus DS db False sw)))))"

definition IsPolicyDataOn :: "DataSwitchSettings \<Rightarrow> bool" where
  "IsPolicyDataOn sw = policyDataOn sw"

definition Switch_SetPolicyDataOn :: "bool \<Rightarrow> DataSwitchSettings \<Rightarrow> DataSwitchSettings" where
  "Switch_SetPolicyDataOn b sw = sw \<lparr>policyDataOn := b\<rparr>"

definition SetCarrierDataOn :: "bool \<Rightarrow> DataSwitchSettings \<Rightarrow> DataSwitchSettings" where
  "SetCarrierDataOn b sw = sw \<lparr>carrierDataOn := b\<rparr>"

definition IsAllowActiveData :: "env \<Rightarrow> DataSwitchSettings \<Rightarrow> bool" where
  "IsAllowActiveData e sw =
     (let virtual = (case ext_isVirtualModemSlot e of Some f \<Rightarrow> f (sw_slotId sw) | None \<Rightarrow> False)
      in if virtual then (case ext_isDcCellularDataAllowed e of Some b \<Rightarrow> b | None \<Rightarrow> False)
         else userDataOn sw \<and> policyDataOn sw \<and> internalDataOn sw)"

definition IsUserDataRoamingOn :: "env \<Rightarrow> DataSwitchSettings \<Rightarrow> bool" where
  "IsUserDataRoamingOn e sw = (case ext_getUserDataRoamingExpend e of
     Some f \<Rightarrow> f (sw_slotId sw) (userDataRoaming sw) | None \<Rightarrow> userDataRoaming sw)"

definition UpdateUserDataRoamingOn :: "bool \<Rightarrow> DataSwitchSettings \<Rightarrow> DataSwitchSettings" where
  "UpdateUserDataRoamingOn b sw = sw \<lparr>userDataRoaming := b\<rparr>"

section \<open>A stored switch is read back\<close>

lemma switch_code_text: "ConvertStrToInt (to_string (switch_code b)) v = (True, switch_code b)"
proof -
  have "to_string 0 = ''0''" "to_string 1 = ''1''" by code_simp+
  moreover have "from_chars True (- 2147483648) 2147483647 ''0'' = (Some 0, [])"
    "from_chars True (- 2147483648) 2147483647 ''1'' = (Some 1, [])" by code_simp+
  then have "ConvertStrToInt ''0'' v = (True, 0)" "ConvertStrToInt ''1'' v = (True, 1)"
    by (simp_all add: ConvertStrToInt_def from_chars_parse_def Let_def)
  ultimately show ?thesis by (simp add: switch_code_def)
qed

text \<open>A row that can be read: absent, or a number. A row with any other text makes \<open>PutValue\<close>
  insert a second row for the keyword.\<close>

definition row_ok :: "'db datashare \<Rightarrow> 'db \<Rightarrow> string \<Rightarrow> bool" where
  "row_ok DS db k \<longleftrightarrow> (case ds_query DS db k of
     None \<Rightarrow> False | Some w \<Rightarrow> w = '''' \<or> fst (ConvertStrToInt w 0))"

lemma ConvertStrToInt_flag: "fst (ConvertStrToInt w v) = fst (ConvertStrToInt w v')"
  by (auto simp: ConvertStrToInt_def from_chars_parse_def Let_def split: option.splits prod.splits)

lemma PutValue_reads_back:
  assumes "datashare_ok DS" "row_ok DS db k"
    and put: "Settings_PutValue DS k (switch_code b) db = (TELEPHONY_ERR_SUCCESS, db', ks)"
  shows "Settings_GetValue DS db' k v = (TELEPHONY_ERR_SUCCESS, switch_code b)"
    "k' \<noteq> k \<Longrightarrow> Settings_GetValue DS db' k' v = Settings_GetValue DS db k' v" "ks = [k]"
proof -
  from assms(2) obtain w where w: "ds_query DS db k = Some w" "w = '''' \<or> fst (ConvertStrToInt w 0)"
    by (auto simp: row_ok_def split: option.splits)
  have o: "ds_open DS db" and ks: "ks = [k]"
    using put by (auto simp: Settings_PutValue_def Let_def split: if_splits prod.splits)
  obtain r where r: "r \<noteq> E_ERROR"
    "ds_insert DS k (to_string (switch_code b)) db = (r, db') \<and> w = ''''
     \<or> ds_update DS k (to_string (switch_code b)) db = (r, db') \<and> w \<noteq> ''''"
    using put o w
    by (auto simp: Settings_PutValue_def Settings_GetValue_def Let_def ConvertStrToInt_def
        split: if_splits prod.splits)
  have wr: "ds_wrote DS k (to_string (switch_code b)) db db'"
    using assms(1) r w(1) unfolding datashare_ok_def by metis
  then show "Settings_GetValue DS db' k v = (TELEPHONY_ERR_SUCCESS, switch_code b)"
    using o by (simp add: ds_wrote_def Settings_GetValue_def switch_code_text)
  show "k' \<noteq> k \<Longrightarrow> Settings_GetValue DS db' k' v = Settings_GetValue DS db k' v"
    using wr by (simp add: ds_wrote_def Settings_GetValue_def)
  show "ks = [k]" by (rule ks)
qed

lemma switch_code_inj: "switch_code a = switch_code b \<longleftrightarrow> a = b"
  by (auto simp: switch_code_def)

lemma PutValue_fails: "Settings_PutValue DS k v db = (r, db', ks) \<Longrightarrow> r \<noteq> TELEPHONY_ERR_SUCCESS \<Longrightarrow> ks = []"
  by (auto simp: Settings_PutValue_def Let_def split: if_splits prod.splits)

lemma SetUserDataOn_reads_back:
  assumes "datashare_ok DS" "sw_slotId sw \<noteq> CELLULAR_DATA_VSIM_SLOT_ID"
    and "row_ok DS db CELLULAR_DATA_COLUMN_ENABLE"
  shows "case SetUserDataOn DS on (sw, db) of (ret, (sw', db'), ks) \<Rightarrow>
      if ret = TELEPHONY_ERR_SUCCESS
      then userDataOn sw' = on \<and> ks = [CELLULAR_DATA_COLUMN_ENABLE]
        \<and> QueryUserDataStatus DS db' d sw' = (TELEPHONY_ERR_SUCCESS, on, sw' \<lparr>lastQryRet := TELEPHONY_ERR_SUCCESS\<rparr>)
        \<and> userDataOn (LoadSwitchValue e DS db' (new_DataSwitchSettings (sw_slotId sw))) = on
      else sw' = sw \<and> ks = []"
proof -
  obtain r db' ks where put: "Settings_PutValue DS CELLULAR_DATA_COLUMN_ENABLE (switch_code on) db = (r, db', ks)"
    by (cases "Settings_PutValue DS CELLULAR_DATA_COLUMN_ENABLE (switch_code on) db")
  show ?thesis
    using assms(2) put PutValue_fails [OF put] PutValue_reads_back [OF assms(1,3), of on db' ks]
    by (auto simp: SetUserDataOn_def QueryUserDataStatus_def LoadSwitchValue_def new_DataSwitchSettings_def
        QueryUserDataRoamingStatus_def switch_code_inj Let_def split: prod.splits)
qed

lemma SetUserDataRoamingOn_reads_back:
  assumes "datashare_ok DS" "sw_slotId sw \<noteq> CELLULAR_DATA_VSIM_SLOT_ID"
    and "row_ok DS db (roaming_column (SimIdOf e (sw_slotId sw)))"
    and "SimIdOf e (sw_slotId sw) > INVALID_SIM_ID"
  shows "case SetUserDataRoamingOn e DS on (sw, db) of (ret, (sw', db'), ks) \<Rightarrow>
      if ret = TELEPHONY_ERR_SUCCESS
      then userDataRoaming sw' = on
        \<and> QueryUserDataRoamingStatus e DS db' d sw' = (TELEPHONY_ERR_SUCCESS, on, sw')
        \<and> userDataRoaming (LoadSwitchValue e DS db' (new_DataSwitchSettings (sw_slotId sw))) = on
      else sw' = sw \<and> ks = []"
proof -
  let ?k = "roaming_column (SimIdOf e (sw_slotId sw))"
  obtain r db' ks where put: "Settings_PutValue DS ?k (switch_code on) db = (r, db', ks)"
    by (cases "Settings_PutValue DS ?k (switch_code on) db")
  show ?thesis
    using assms(2,4) put PutValue_fails [OF put] PutValue_reads_back [OF assms(1,3), of on db' ks]
    by (auto simp: SetUserDataRoamingOn_def QueryUserDataStatus_def LoadSwitchValue_def new_DataSwitchSettings_def
        QueryUserDataRoamingStatus_def switch_code_inj Let_def split: prod.splits)
qed

text \<open>A switch that was stored successfully is the one that is read back: storing the data switch
  sets the member, notifies the observers of its keyword, and the next query, even by another
  process's fresh settings object, returns the stored value; the same for the roaming switch of a
  card with a valid identity. When the database refuses the write, the members are as before.\<close>

theorem switch_roundtrip:
  assumes "datashare_ok DS" "sw_slotId sw \<noteq> CELLULAR_DATA_VSIM_SLOT_ID"
    and "row_ok DS db CELLULAR_DATA_COLUMN_ENABLE"
    and "row_ok DS db (roaming_column (SimIdOf e (sw_slotId sw)))"
    and "SimIdOf e (sw_slotId sw) > INVALID_SIM_ID"
  shows "(case SetUserDataOn DS on (sw, db) of (ret, (sw', db'), ks) \<Rightarrow>
      if ret = TELEPHONY_ERR_SUCCESS
      then userDataOn sw' = on \<and> ks = [CELLULAR_DATA_COLUMN_ENABLE]
        \<and> QueryUserDataStatus DS db' d sw' = (TELEPHONY_ERR_SUCCESS, on, sw' \<lparr>lastQryRet := TELEPHONY_ERR_SUCCESS\<rparr>)
        \<and> userDataOn (LoadSwitchValue e DS db' (new_DataSwitchSettings (sw_slotId sw))) = on
      else sw' = sw \<and> ks = [])
    \<and> (case SetUserDataRoamingOn e DS on (sw, db) of (ret, (sw', db'), ks) \<Rightarrow>
      if ret = TELEPHONY_ERR_SUCCESS
      then userDataRoaming sw' = on
        \<and> QueryUserDataRoamingStatus e DS db' d sw' = (TELEPHONY_ERR_SUCCESS, on, sw')
        \<and> userDataRoaming (LoadSwitchValue e DS db' (new_DataSwitchSettings (sw_slotId sw))) = on
      else sw' = sw \<and> ks = [])"
  using SetUserDataOn_reads_back [OF assms(1,2,3)] SetUserDataRoamingOn_reads_back [OF assms(1,2,4,5)]
  by (rule conjI)

text \<open>A settings table as an association list.\<close>

definition sample_datashare :: "(string \<times> string) list datashare" where
  "sample_datashare = \<lparr>ds_open = (\<lambda>db. True),
     ds_query = (\<lambda>db k. Some (case map_of db k of Some v \<Rightarrow> v | None \<Rightarrow> '''')),
     ds_insert = (\<lambda>k v db. (1, (k, v) # db)), ds_update = (\<lambda>k v db. (1, (k, v) # db))\<rparr>"

lemma sample_datashare_ok: "datashare_ok sample_datashare"
  by (auto simp: datashare_ok_def ds_wrote_def sample_datashare_def)

theorem switch_roundtrip_witness:
  "case SetUserDataOn sample_datashare False (new_DataSwitchSettings 0, []) of (ret, (sw', db'), ks) \<Rightarrow>
     ret = TELEPHONY_ERR_SUCCESS \<and> userDataOn sw' = False
     \<and> QueryUserDataStatus sample_datashare db' True sw'
         = (TELEPHONY_ERR_SUCCESS, False, sw' \<lparr>lastQryRet := TELEPHONY_ERR_SUCCESS\<rparr>)"
proof -
  have r: "row_ok sample_datashare [] k" for k by (simp add: row_ok_def sample_datashare_def)
  have ok: "fst (SetUserDataOn sample_datashare False (new_DataSwitchSettings 0, [])) = TELEPHONY_ERR_SUCCESS"
    by (simp add: SetUserDataOn_def Settings_PutValue_def sample_datashare_def new_DataSwitchSettings_def
        Settings_GetValue_def ConvertStrToInt_def Let_def)
  show ?thesis
    using switch_roundtrip [OF sample_datashare_ok _ r r, where sw = "new_DataSwitchSettings 0"
        and e = sample_env and on = False and d = True] ok
    by (simp add: new_DataSwitchSettings_def sample_env_def split: prod.splits)
qed

end
