(* ===== verification/Data_Handler.thy ===== *)
theory Data_Handler
  imports Connection_Manager Connection_Monitor Incall_State_Machine Switch_Settings
begin

text \<open>
  The data handler of a slot, \<open>services/src/cellular_data_handler.cpp\<close>, first part: its state and
  the operations that take connections down and set them up. The handler owns the APN manager, the
  switches, the connection manager's tables and monitor, the data connection machines and the in-call
  machine; it runs one event at a time from its own queue. A machine is reached in two ways: by a
  direct call, which works on the machine's data in \<open>hd_machines\<close>, and by an event, which leaves
  the handler as the effect \<open>ToMachine\<close>. The record \<open>world\<close> holds the answers of other services
  and the operator's and the vendor's configuration.
\<close>

section \<open>State\<close>

record 'db world =
  wP :: platform
  wE :: env
  wMon :: mon_env
  wProps :: RetryProps
  wDS :: "'db datashare"
  wApnDb :: apn_db
  wCard :: card
  wCreateAll :: create_item_ext
  wCreateDc :: create_item_ext
  isAirplaneModeOn :: bool
  powerSaveMode :: bool
  featureSingleCard :: bool
  imsRegistered :: "int \<Rightarrow> bool"
  preferApn :: "int \<Rightarrow> int option option"
  deactivateAllResult :: bool
  mobileDataPolicy :: string
  intParameter :: "string \<Rightarrow> int \<Rightarrow> int"
  operatorInt :: "int \<Rightarrow> string \<Rightarrow> int option"
  operatorConfigValue :: "int \<Rightarrow> string \<Rightarrow> string option"
  radioTechCode :: "RadioTech \<Rightarrow> int"
  ext_isApnAllowedActive :: "(int \<Rightarrow> string \<Rightarrow> bool \<Rightarrow> bool) option"
  ext_sendDataSwitchChangeInfo :: bool
  BEARER_WIFI :: nat

text \<open>Calls that leave the handler, beside the effects it shares with the machines.\<close>

datatype hcall =
    Eff effect
  | DcPhysicalLinkActiveUpdate int bool
  | ChangeConnectionForDsds_call int bool
  | SetDsdsMode_call int
  | NetDetection int
  | UpdatePreferApn int int
  | SettingNotified string
  | PolicyCallback bool
  | SettingsObserver bool string
  | RdbObserver bool
  | SetInitApnInfo_call int Attribute
  | SetLinkBandwidthReportingRule_call int RadioTech "int list" "int list"
  | ResetApns_call int
  | SendDataSwitchChangeInfo bool
  | ReportEventToChr int int

record ApnActivateInfo =
  actSuccTime :: int
  ac_duration :: "int option"
  ac_reason :: int
  ac_apnId :: int

record 'db handler =
  hd_slotId :: int
  hd_mgr :: ApnManager
  hd_mem :: heap
  hd_switch :: DataSwitchSettings
  hd_db :: 'db
  hd_tables :: ConnectionTables
  hd_machines :: "sm_data store"
  hd_nextMachine :: addr
  hd_agent :: NetAgent
  hd_monitor :: Monitor
  hd_incall :: "incall option"
  lastIccId :: string
  lastNumeric :: string
  lastMcc :: string
  lastCallState :: int
  disconnectionReason :: DisConnectionReason
  unMetered :: "bool list"
  defaultMobileMtuConfig :: int
  defaultPreferApn :: bool
  physicalConnectionActiveState :: bool
  multipleConnectionsEnabled :: bool
  defaultDataRoamingEnable :: bool
  isRilApnAttached :: bool
  isSimAccountLoaded :: bool
  isHandoverOccurred :: bool
  isMccChanged :: bool
  upLinkThresholds :: "string list"
  downLinkThresholds :: "string list"
  lastApnItem :: ptr
  apnActivateChrList :: "ApnActivateInfo list"
  defaultApnActTime :: int
  internalApnActTime :: int
  retryCreateApnTimes :: int
  hd_queue :: "(hevent \<times> int) list"
  hd_fx :: "hcall list"

definition hd_emit :: "hcall list \<Rightarrow> 'db handler \<Rightarrow> 'db handler" where
  "hd_emit cs s = s \<lparr>hd_fx := hd_fx s @ cs\<rparr>"

text \<open>\<open>SendEvent\<close>, \<open>HasInnerEvent\<close> and \<open>RemoveEvent\<close> of the handler's own queue; events are
  recognised by their code.\<close>

definition hd_send :: "hevent \<Rightarrow> int \<Rightarrow> 'db handler \<Rightarrow> 'db handler" where
  "hd_send ev delay s = s \<lparr>hd_queue := hd_queue s @ [(ev, delay)]\<rparr>"

fun is_establish :: "hevent \<Rightarrow> bool" where
  "is_establish (MSG_ESTABLISH_DATA_CONNECTION i b) = True" | "is_establish _ = False"

fun is_resume_permitted :: "hevent \<Rightarrow> bool" where
  "is_resume_permitted (MSG_RESUME_DATA_PERMITTED_TIMEOUT b) = True" | "is_resume_permitted _ = False"

fun is_retry_setup :: "hevent \<Rightarrow> bool" where
  "is_retry_setup (MSG_RETRY_TO_SETUP_DATACALL i) = True" | "is_retry_setup _ = False"

fun is_retry_account :: "hevent \<Rightarrow> bool" where
  "is_retry_account (MSG_RETRY_TO_LOAD_SIM_ACCOUNT i) = True" | "is_retry_account _ = False"

definition hd_has :: "(hevent \<Rightarrow> bool) \<Rightarrow> 'db handler \<Rightarrow> bool" where
  "hd_has p s \<longleftrightarrow> list_ex (\<lambda>x. p (fst x)) (hd_queue s)"

definition hd_remove :: "(hevent \<Rightarrow> bool) \<Rightarrow> 'db handler \<Rightarrow> 'db handler" where
  "hd_remove p s = s \<lparr>hd_queue := filter (\<lambda>x. \<not> p (fst x)) (hd_queue s)\<rparr>"

abbreviation (input) "hd_holders s \<equiv> h_holders (hd_mem s)"
abbreviation (input) "hd_items s \<equiv> h_items (hd_mem s)"

definition put_holder :: "addr \<Rightarrow> ApnHolder \<Rightarrow> 'db handler \<Rightarrow> 'db handler" where
  "put_holder a h s = s \<lparr>hd_mem := (hd_mem s) \<lparr>h_holders := (hd_holders s)(a \<mapsto> h)\<rparr>\<rparr>"

text \<open>A direct call of a method of a machine: it sees the shared state, and what it sends or calls
  leaves the handler.\<close>

definition machine_call ::
  "addr \<Rightarrow> (sm_data \<Rightarrow> sm_data outcome) \<Rightarrow> 'db handler \<Rightarrow> 'db handler outcome" where
  "machine_call m f s = do {
     d \<leftarrow> hd_machines s m;
     d' \<leftarrow> f (d \<lparr>agent := hd_agent s, tables := hd_tables s, mem := hd_mem s, fx := []\<rparr>);
     Some (s \<lparr>hd_machines := (hd_machines s)(m \<mapsto> d' \<lparr>fx := []\<rparr>), hd_agent := agent d',
       hd_fx := hd_fx s @ map Eff (fx d')\<rparr>)
   }"

section \<open>Queries\<close>

definition IsVSimSlotId :: "'db world \<Rightarrow> int \<Rightarrow> bool" where
  "IsVSimSlotId W slotId = (ext_getVSimSlotId (wE W) = Some slotId)"

definition roaming_now :: "'db world \<Rightarrow> 'db handler \<Rightarrow> bool" where
  "roaming_now W s \<longleftrightarrow> PsRoamingState (wE W) (hd_slotId s) > 0"

abbreviation (input) "REG_STATE_IN_SERVICE \<equiv> (1::int)"

definition attached_now :: "'db world \<Rightarrow> 'db handler \<Rightarrow> bool" where
  "attached_now W s \<longleftrightarrow> PsRegState (wE W) (hd_slotId s) = REG_STATE_IN_SERVICE"

definition IsSimStateReadyOrLoaded :: "'db world \<Rightarrow> 'db handler \<Rightarrow> bool" where
  "IsSimStateReadyOrLoaded W s \<longleftrightarrow> SimStateOf (wE W) (hd_slotId s) = SIM_STATE_READY
     \<or> SimStateOf (wE W) (hd_slotId s) = SIM_STATE_LOADED"

definition IsRestrictedMode :: "'db world \<Rightarrow> 'db handler \<Rightarrow> bool" where
  "IsRestrictedMode W s \<longleftrightarrow>
     (let support = (PsRadioTech (wE W) (hd_slotId s) = RADIO_TECHNOLOGY_GSM);
          inCall = (lastCallState s \<noteq> CALL_STATUS_IDLE \<and> lastCallState s \<noteq> CALL_STATUS_DISCONNECTED)
      in inCall \<and> support)"

definition vsim_blocks :: "'db world \<Rightarrow> bool" where
  "vsim_blocks W \<longleftrightarrow> ext_isVSimEnabled (wE W) = Some True \<and> ext_isVSimInDisableProcess (wE W) = Some False"

text \<open>\<open>IsCellularDataRoamingEnabled\<close>: the code, the parameter and the new state.\<close>

definition IsCellularDataRoamingEnabled ::
  "'db world \<Rightarrow> bool \<Rightarrow> 'db handler \<Rightarrow> tel_err \<times> bool \<times> 'db handler" where
  "IsCellularDataRoamingEnabled W given s =
     (if hd_slotId s \<noteq> CELLULAR_DATA_VSIM_SLOT_ID \<and> SimIdOf (wE W) (hd_slotId s) \<le> INVALID_SIM_ID
      then (TELEPHONY_ERR_LOCAL_PTR_NULL, given, s)
      else case QueryUserDataRoamingStatus (wE W) (wDS W) (hd_db s) (defaultDataRoamingEnable s) (hd_switch s) of
        (ret, on, sw) \<Rightarrow> (TELEPHONY_ERR_SUCCESS, on, s \<lparr>hd_switch := sw\<rparr>))"

text \<open>The callers' pattern: off when the query fails.\<close>

definition roaming_enabled :: "'db world \<Rightarrow> 'db handler \<Rightarrow> bool \<times> 'db handler" where
  "roaming_enabled W s = (case IsCellularDataRoamingEnabled W False s of (ret, on, s') \<Rightarrow>
     (if ret \<noteq> TELEPHONY_ERR_SUCCESS then False else on, s'))"

definition StateNotification_UpdateCellularDataConnectState ::
  "int \<Rightarrow> ApnProfileState \<Rightarrow> RadioTech \<Rightarrow> hcall" where
  "StateNotification_UpdateCellularDataConnectState slotId dataState networkType =
     Eff (NotifyConnectState slotId (WrapCellularDataState (CellularDataStateAdapter dataState)) networkType)"

definition UpdateCellularDataConnectState :: "'db world \<Rightarrow> string \<Rightarrow> 'db handler \<Rightarrow> 'db handler" where
  "UpdateCellularDataConnectState W ty s =
     (if ty = DATA_CONTEXT_ROLE_DEFAULT \<or> ty = DATA_CONTEXT_ROLE_INTERNAL_DEFAULT
      then hd_emit [StateNotification_UpdateCellularDataConnectState (hd_slotId s)
             (GetOverallDefaultApnState (hd_holders s) (hd_mgr s)) (PsRadioTech (wE W) (hd_slotId s))] s
      else s)"

section \<open>Taking connections down\<close>

definition ClearConnection :: "ptr \<Rightarrow> DisConnectionReason \<Rightarrow> 'db handler \<Rightarrow> 'db handler" where
  "ClearConnection apn reason s =
     (case apn of
        None \<Rightarrow> s
      | Some a \<Rightarrow> (case hd_holders s a of
            None \<Rightarrow> s
          | Some h \<Rightarrow> (case cellularDataStateMachine h of
                None \<Rightarrow> s
              | Some m \<Rightarrow>
                  if apnState h = PROFILE_STATE_IDLE \<or> apnState h = PROFILE_STATE_DISCONNECTING
                     \<or> apnState h = PROFILE_STATE_RETRYING then s
                  else hd_emit [Eff (ToMachine m (MSG_SM_DISCONNECT
                           (Some \<lparr>dd_apnType = apnType h, dd_reason = reason\<rparr>)))]
                         (put_holder a (SetApnState PROFILE_STATE_DISCONNECTING h) s))))"

definition DeactivatePdpAfterHandover :: "'db handler \<Rightarrow> 'db handler" where
  "DeactivatePdpAfterHandover s = hd_emit [Eff (Ril (DeactivatePdpContext (hd_slotId s)
     \<lparr>de_param = -1, de_cid = -1, de_reason = REASON_CLEAR_CONNECTION\<rparr>))] s"

definition ResetDataFlowType :: "'db handler \<Rightarrow> 'db handler" where
  "ResetDataFlowType s = (if \<not> userDataOn (hd_switch s)
     then s \<lparr>hd_monitor := SetDataFlowType DATA_FLOW_TYPE_NONE (hd_monitor s)\<rparr> else s)"

definition stop_monitor :: "'db handler \<Rightarrow> 'db handler" where
  "stop_monitor s = s \<lparr>hd_monitor := EndNetStatistics (StopStallDetectionTimer (hd_monitor s))\<rparr>"

definition start_monitor :: "'db world \<Rightarrow> 'db handler \<Rightarrow> 'db handler" where
  "start_monitor W s = s \<lparr>hd_monitor := BeginNetStatistics (wE W) (wMon W) (StartStallDetectionTimer (hd_monitor s))\<rparr>"

text \<open>One iteration of the loop over the holders.\<close>

definition clear_one :: "DisConnectionReason \<Rightarrow> ptr \<Rightarrow> 'db handler \<Rightarrow> 'db handler outcome" where
  "clear_one reason p s = do {
     h \<leftarrow> deref (hd_holders s) p;
     Some (if IsMmsType h then s else ClearConnection p reason s)
   }"

definition ClearAllConnections :: "'db world \<Rightarrow> DisConnectionReason \<Rightarrow> 'db handler \<Rightarrow> 'db handler outcome" where
  "ClearAllConnections W reason s0 =
     (let s1 = (if isHandoverOccurred s0 then DeactivatePdpAfterHandover s0 else s0)
      in if isHandoverOccurred s0 \<and> \<not> deactivateAllResult W then Some s1
         else do {
           s2 \<leftarrow> foldo (clear_one reason) (apnHolders (hd_mgr s1)) (s1 \<lparr>isHandoverOccurred := False\<rparr>);
           Some (ResetDataFlowType (stop_monitor s2))
         })"

definition release_holder :: "addr \<Rightarrow> 'db handler \<Rightarrow> 'db handler" where
  "release_holder a s = (case hd_holders s a of
     None \<Rightarrow> s
   | Some h \<Rightarrow> (case ReleaseDataConnection h of (h', es) \<Rightarrow> hd_emit (map Eff es) (put_holder a h' s)))"

section \<open>Data permission of the slots\<close>

definition SetDataPermitted :: "'db world \<Rightarrow> int \<Rightarrow> bool \<Rightarrow> 'db handler \<Rightarrow> 'db handler" where
  "SetDataPermitted W slotId permitted s =
     (if MaxSimCount (wE W) \<le> 1 then s
      else if \<not> HasSimCard (wE W) slotId \<and> \<not> IsVSimSlotId W slotId then s
      else hd_emit [Eff (Ril (Environment.SetDataPermitted slotId permitted))] s)"

definition CheckDataPermittedByDsds :: "'db world \<Rightarrow> 'db handler \<Rightarrow> bool" where
  "CheckDataPermittedByDsds W s =
     (if ext_getVSimSlotId (wE W) = Some CELLULAR_DATA_VSIM_SLOT_ID \<and> hd_slotId s = CELLULAR_DATA_VSIM_SLOT_ID
      then True
      else
        let defSlotId = DefaultCellularDataSlotId (wE W);
            mode = GetDsdsModeForSlots (getParameter (wE W)) defSlotId (hd_slotId s) (DsdsMode (wE W))
        in \<not> (defSlotId \<noteq> hd_slotId s \<and> mode = DSDS_MODE_V2 (wP W)))"

definition SetDataPermittedForMms :: "'db world \<Rightarrow> bool \<Rightarrow> 'db handler \<Rightarrow> bool \<times> 'db handler" where
  "SetDataPermittedForMms W forMms s =
     (if hd_incall s \<noteq> None then (False, s)
      else if hd_slotId s = CELLDATA_SLOT_ID_3 \<and> IsTstsModeEnabled (getParameter (wE W)) then (True, s)
      else if CheckDataPermittedByDsds W s then (False, s)
      else
        let defSlotId = DefaultCellularDataSlotId (wE W);
            s1 = SetDataPermitted W defSlotId (\<not> forMms) s;
            s2 = (if ext_isVSimEnabled (wE W) = Some True
                  then SetDataPermitted W CELLULAR_DATA_VSIM_SLOT_ID (\<not> forMms) s1 else s1);
            s3 = SetDataPermitted W (hd_slotId s) forMms s2
        in (True, hd_emit [ChangeConnectionForDsds_call defSlotId (\<not> forMms)] s3))"

definition SetDataPermittedForSlotId :: "'db world \<Rightarrow> int \<Rightarrow> 'db handler \<Rightarrow> 'db handler" where
  "SetDataPermittedForSlotId W slotId s =
     (if slotId = CELLDATA_SLOT_ID_3 \<and> IsTstsModeEnabled (getParameter (wE W)) then s
      else
        let ids = filter (\<lambda>i. i \<noteq> CELLULAR_DATA_VSIM_SLOT_ID) [0..MaxSimCount (wE W) - 1];
            s1 = fold (\<lambda>i. SetDataPermitted W i (i = slotId)) ids s
        in SetDataPermitted W CELLULAR_DATA_VSIM_SLOT_ID (slotId = CELLULAR_DATA_VSIM_SLOT_ID) s1)"

section \<open>Conditions for a connection\<close>

text \<open>The tests take the holder's address; a null holder fails every test before it is used.\<close>

definition CheckCellularDataSlotId :: "'db world \<Rightarrow> ApnHolder \<Rightarrow> 'db handler \<Rightarrow> bool" where
  "CheckCellularDataSlotId W h s =
     (if IsVSimSlotId W (hd_slotId s) then True
      else
        let defSlotId = DefaultCellularDataSlotId (wE W)
        in if defSlotId \<noteq> hd_slotId s \<and> apnType h = DATA_CONTEXT_ROLE_INTERNAL_DEFAULT then False
           else if hd_slotId s \<noteq> CELLULAR_DATA_VSIM_SLOT_ID \<and> \<not> IsMmsType h \<and> vsim_blocks W then False
           else if ext_isDualCellularCardAllowed (wE W) = Some True then True
           else \<not> (defSlotId \<noteq> hd_slotId s \<and> apnType h = DATA_CONTEXT_ROLE_DEFAULT))"

definition CheckAttachAndSimState :: "'db world \<Rightarrow> ApnHolder \<Rightarrow> 'db handler \<Rightarrow> bool \<times> 'db handler" where
  "CheckAttachAndSimState W h s =
     (if isMccChanged s then (False, s)
      else
        let attached = attached_now W s; simReady = IsSimStateReadyOrLoaded W s
        in if IsMmsType h \<and> simReady \<and> \<not> attached then
             let s1 = (if \<not> hd_has is_resume_permitted s
                       then hd_send (MSG_RESUME_DATA_PERMITTED_TIMEOUT (IsMmsType h)) RESUME_DATA_PERMITTED_TIMEOUT s
                       else s)
             in (False, snd (SetDataPermittedForMms W True s1))
           else if \<not> IsEmergencyType h \<and> \<not> attached then (False, s)
           else if \<not> IsEmergencyType h \<and> \<not> simReady then (False, s)
           else (IsEmergencyType h \<or> simReady, s))"

definition CheckRoamingState :: "'db world \<Rightarrow> ApnHolder \<Rightarrow> 'db handler \<Rightarrow> bool" where
  "CheckRoamingState W h s =
     (if IsVSimSlotId W (hd_slotId s) then True
      else
        let allow0 = IsAllowActiveData (wE W) (hd_switch s);
            allow1 = (if roaming_now W s \<and> \<not> IsUserDataRoamingOn (wE W) (hd_switch s) then False
                      else if IsMmsType h \<or> IsBipType h then True else allow0);
            allow2 = (if IsEmergencyType h then True else allow1);
            allow3 = (case ext_isApnAllowedActive W of
                        Some f \<Rightarrow> f (hd_slotId s) (apnType h) allow2 | None \<Rightarrow> allow2)
        in if \<not> allow3 then False else \<not> IsRestrictedMode W s)"

definition CheckApnState :: "'db world \<Rightarrow> addr \<Rightarrow> 'db handler \<Rightarrow> (bool \<times> 'db handler) outcome" where
  "CheckApnState W a s = do {
     h \<leftarrow> hd_holders s a;
     if apnState h = PROFILE_STATE_DISCONNECTING \<and> \<not> hd_has is_establish s
     then Some (False, hd_send (MSG_ESTABLISH_DATA_CONNECTION (FindApnIdByApnName (apnType h)) None)
                         ESTABLISH_DATA_CONNECTION_DELAY s)
     else if apnState h = PROFILE_STATE_RETRYING then Some (False, s)
     else do {
       let h1 = (if apnState h = PROFILE_STATE_FAILED then SetApnState PROFILE_STATE_IDLE h else h);
       let s1 = put_holder a h1 s;
       if apnState h1 \<noteq> PROFILE_STATE_IDLE then Some (False, s1)
       else do {
         found \<leftarrow> FilterMatchedApns (wE W) (hd_items s1) (apnType h1) (hd_slotId s1) (hd_mgr s1);
         if found = [] then Some (False, s1)
         else do {
           h2 \<leftarrow> SetAllMatchedApns (hd_items s1) found h1;
           Some (True, put_holder a h2 s1)
         }
       }
     }
   }"

definition IsMultiDefaultApn :: "ApnHolder \<Rightarrow> bool" where
  "IsMultiDefaultApn h \<longleftrightarrow> apnType h = DATA_CONTEXT_ROLE_BIP \<or> apnType h = DATA_CONTEXT_ROLE_DUN"

definition multi_one :: "ptr \<Rightarrow> bool \<times> 'db handler \<Rightarrow> (bool \<times> 'db handler) outcome" where
  "multi_one p st = (case st of (delay, s) \<Rightarrow> do {
     h \<leftarrow> deref (hd_holders s) p;
     Some (if \<not> IsMultiDefaultApn h then (delay, s)
           else if apnState h = PROFILE_STATE_CONNECTED \<or> apnState h = PROFILE_STATE_CONNECTING
           then (True, case p of None \<Rightarrow> s | Some a \<Rightarrow> release_holder a s)
           else (delay \<or> apnState h = PROFILE_STATE_DISCONNECTING, s))
   })"

definition CheckMultiApnState :: "ApnHolder \<Rightarrow> 'db handler \<Rightarrow> (bool \<times> 'db handler) outcome" where
  "CheckMultiApnState h s =
     (if apnType h \<noteq> DATA_CONTEXT_ROLE_DEFAULT then Some (False, s)
      else foldo multi_one (apnHolders (hd_mgr s)) (False, s))"

section \<open>Setting a connection up\<close>

definition GetCurrentApnId :: "'db world \<Rightarrow> 'db handler \<Rightarrow> int" where
  "GetCurrentApnId W s =
     (let simId = SimIdOf (wE W) (hd_slotId s)
      in if simId \<le> INVALID_SIM_ID then 0
         else case preferApn W simId of Some (Some i) \<Rightarrow> i | _ \<Rightarrow> 0)"

definition UpdateApnInfo :: "'db world \<Rightarrow> int \<Rightarrow> 'db handler \<Rightarrow> 'db handler" where
  "UpdateApnInfo W profileId s =
     (let simId = SimIdOf (wE W) (hd_slotId s)
      in if simId \<le> INVALID_SIM_ID then s
         else case preferApn W simId of
                Some (Some i) \<Rightarrow> if i \<noteq> profileId then hd_emit [UpdatePreferApn simId profileId] s else s
              | _ \<Rightarrow> s)"

definition FindIdleCellularDataConnection :: "'db handler \<Rightarrow> ptr" where
  "FindIdleCellularDataConnection s =
     find (\<lambda>m. (case hd_machines s m of Some d \<Rightarrow> IsInactiveState d | None \<Rightarrow> False)
             \<and> IsDataConnectionNotUsed (hd_holders s) (Some m) (hd_mgr s)) (stateMachines (hd_tables s))"

text \<open>\<open>CreateCellularDataConnect\<close>, \<open>Init\<close> and \<open>AddConnectionStateMachine\<close>: a new machine that
  has been sent its start event.\<close>

definition CreateCellularDataConnect :: "'db world \<Rightarrow> 'db handler \<Rightarrow> addr \<times> 'db handler" where
  "CreateCellularDataConnect W s =
     (let m = hd_nextMachine s;
          d = new_sm_data (wP W) (wE W) m (hd_agent s) (hd_tables s) (hd_mem s)
      in (m, hd_emit [Eff (ToMachine m MSG_STATE_MACHINE_INIT)]
            (s \<lparr>hd_nextMachine := m + 1, hd_machines := (hd_machines s)(m \<mapsto> d),
                hd_tables := AddConnectionStateMachine (Some m) (hd_tables s)\<rparr>)))"

definition GetSinglePdpEnabledFromOpCfg :: "'db world \<Rightarrow> 'db handler \<Rightarrow> 'db handler" where
  "GetSinglePdpEnabledFromOpCfg W s =
     (case operatorBool (wE W) (hd_slotId s) ''KEY_SINGLE_PDP_ENABLED_BOOL'' of
        None \<Rightarrow> s | Some b \<Rightarrow> s \<lparr>multipleConnectionsEnabled := \<not> b\<rparr>)"

definition IsSingleConnectionEnabled :: "'db world \<Rightarrow> RadioTech \<Rightarrow> 'db handler \<Rightarrow> bool \<times> 'db handler" where
  "IsSingleConnectionEnabled W tech s =
     (let singlePdpRadio = (case operatorInts (wE W) (hd_slotId s) ''KEY_SINGLE_PDP_RADIO_TYPE_INT_ARRAY'' of
            Some xs \<Rightarrow> xs | None \<Rightarrow> [])
      in if radioTechCode W tech \<in> set singlePdpRadio then (True, s \<lparr>multipleConnectionsEnabled := False\<rparr>)
         else let s1 = GetSinglePdpEnabledFromOpCfg W s in (\<not> multipleConnectionsEnabled s1, s1))"

fun higher_loop :: "ApnHolder store \<Rightarrow> int \<Rightarrow> ptr list \<Rightarrow> bool outcome" where
  "higher_loop holders prio [] = Some False"
| "higher_loop holders prio (p # ps) = do {
     h \<leftarrow> deref holders p;
     if priority h > prio \<and> dataCallEnabled h
        \<and> (apnState h = PROFILE_STATE_CONNECTED \<or> apnState h = PROFILE_STATE_CONNECTING
           \<or> apnState h = PROFILE_STATE_DISCONNECTING)
     then Some True else higher_loop holders prio ps
   }"

definition HasAnyHigherPriorityConnection :: "ApnHolder \<Rightarrow> 'db handler \<Rightarrow> bool outcome" where
  "HasAnyHigherPriorityConnection h s = higher_loop (hd_holders s) (priority h) (sortedApnHolders (hd_mgr s))"

text \<open>The search for a machine that already carries a suitable connection.\<close>

definition usable :: "sm_data \<Rightarrow> addr \<Rightarrow> ptr \<Rightarrow> ptr \<times> bool" where
  "usable d m potential =
     (if IsActiveState d then (Some m, True)
      else if IsActivatingState d then (Some m, False)
      else if IsDisconnectingState d \<and> potential = None then (Some m, False)
      else (potential, False))"

fun dun_loop :: "ApnItem store \<Rightarrow> bool \<Rightarrow> sm_data \<Rightarrow> addr \<Rightarrow> ptr list \<Rightarrow> ptr \<Rightarrow> (ptr \<times> bool) outcome" where
  "dun_loop items roaming d m [] potential = Some (potential, False)"
| "dun_loop items roaming d m (q # qs) potential = do {
     ok \<leftarrow> IsCompatibleApnItem items (sm_apnItem d) q roaming;
     if \<not> ok then dun_loop items roaming d m qs potential
     else (case usable d m potential of (p, found) \<Rightarrow>
        if found then Some (p, True) else dun_loop items roaming d m qs p)
   }"

fun compatible_loop :: "ApnItem store \<Rightarrow> bool \<Rightarrow> string \<Rightarrow> ptr list \<Rightarrow> (addr \<times> sm_data) list \<Rightarrow> ptr \<Rightarrow> ptr outcome" where
  "compatible_loop items roaming ty duns [] potential = Some potential"
| "compatible_loop items roaming ty duns ((m, d) # ms) potential = do {
     (p, found) \<leftarrow> dun_loop items roaming d m duns potential;
     if found then Some p
     else if duns = [] then do {
       it \<leftarrow> deref items (sm_apnItem d);
       if CanDealWithType it ty then (case usable d m p of (p', found') \<Rightarrow>
          if found' then Some p' else compatible_loop items roaming ty duns ms p')
       else compatible_loop items roaming ty duns ms p
     }
     else compatible_loop items roaming ty duns ms p
   }"

definition all_machines :: "'db handler \<Rightarrow> (addr \<times> sm_data) list" where
  "all_machines s = List.map_filter (\<lambda>m. map_option (Pair m) (hd_machines s m)) (stateMachines (hd_tables s))"

definition CheckForCompatibleDataConnection ::
  "'db world \<Rightarrow> ApnHolder \<Rightarrow> 'db handler \<Rightarrow> (ptr \<times> 'db handler) outcome" where
  "CheckForCompatibleDataConnection W h s = do {
     duns \<leftarrow> (if apnType h = DATA_CONTEXT_ROLE_DUN
             then FetchDunApns (wE W) (hd_items s) (hd_slotId s) (hd_mgr s) else Some []);
     let (isRoaming, s1) = roaming_enabled W s;
     p \<leftarrow> compatible_loop (hd_items s1) isRoaming (apnType h) duns (all_machines s1) None;
     Some (p, s1)
   }"

definition HandleCompatibleDataConnection ::
  "'db world \<Rightarrow> addr \<Rightarrow> addr \<Rightarrow> 'db handler \<Rightarrow> (bool \<times> 'db handler) outcome" where
  "HandleCompatibleDataConnection W m a s = do {
     d \<leftarrow> hd_machines s m;
     h \<leftarrow> hd_holders s a;
     if IsActiveState d then do {
       s1 \<leftarrow> machine_call m (\<lambda>d. Some (SetIfReuseSupplierId (wP W) True (SetReuseApnCap (capability h) d)))
              (put_holder a (ReleaseAllCellularData h) s);
       Some (True, s1)
     }
     else Some (False, hd_send (MSG_ESTABLISH_DATA_CONNECTION (FindApnIdByCapability (wP W) (capability h)) None)
                         ESTABLISH_DATA_CONNECTION_DELAY s)
   }"

definition SetApnActivateStart :: "'db world \<Rightarrow> string \<Rightarrow> 'db handler \<Rightarrow> 'db handler" where
  "SetApnActivateStart W ty s =
     (let s1 = (if ty = DATA_CONTEXT_ROLE_DEFAULT then s \<lparr>defaultApnActTime := now (wE W)\<rparr> else s)
      in if ty = DATA_CONTEXT_ROLE_INTERNAL_DEFAULT then s1 \<lparr>internalApnActTime := now (wE W)\<rparr> else s1)"

text \<open>The second half of \<open>EstablishDataConnection\<close>: the machine is chosen, the holder is marked and
  the machine is asked to connect. The arguments are passed to the constructor of the parameters
  in the order of the call.\<close>

definition start_connection :: "'db world \<Rightarrow> addr \<Rightarrow> addr \<Rightarrow> ptr \<Rightarrow> RadioTech \<Rightarrow> 'db handler \<Rightarrow> 'db handler outcome" where
  "start_connection W a m apn tech s = do {
     h \<leftarrow> hd_holders s a;
     it \<leftarrow> deref (hd_items s) apn;
     s1 \<leftarrow> machine_call m (\<lambda>d. Some (d \<lparr>sm_capability := capability h\<rparr>)) s;
     let s2 = put_holder a (SetCellularDataStateMachine (Some m)
                (SetApnState PROFILE_STATE_CONNECTING (SetCurrentApn apn h))) s1;
     let s3 = UpdateCellularDataConnectState W (apnType h) s2;
     let params = mk_DataConnectionParams (Some a) (at_profileId (it_attr it)) tech (roaming_now W s)
           (IsUserDataRoamingOn (wE W) (hd_switch s)) True;
     Some (SetApnActivateStart W (apnType h) (hd_emit [Eff (ToMachine m (MSG_SM_CONNECT (Some params)))] s3))
   }"

text \<open>The choice of the machine when no connection can be shared: with a single connection allowed,
  a higher priority connection wins, and a connection of lower priority is taken down first.\<close>

definition choose_machine :: "'db world \<Rightarrow> ApnHolder \<Rightarrow> RadioTech \<Rightarrow> 'db handler \<Rightarrow> (ptr \<times> 'db handler) outcome" where
  "choose_machine W h tech s0 =
     (case IsSingleConnectionEnabled W tech s0 of (single, s) \<Rightarrow> do {
        higher \<leftarrow> (if single then HasAnyHigherPriorityConnection h s else Some False);
        if higher then Some (None, s)
        else if single \<and> (GetOverallApnState (hd_holders s) (hd_mgr s) = PROFILE_STATE_CONNECTING
                          \<or> GetOverallApnState (hd_holders s) (hd_mgr s) = PROFILE_STATE_CONNECTED)
        then do { s1 \<leftarrow> ClearAllConnections W REASON_CHANGE_CONNECTION s; Some (None, s1) }
        else (case FindIdleCellularDataConnection s of
                Some m \<Rightarrow> Some (Some m, s)
              | None \<Rightarrow> (case CreateCellularDataConnect W s of (m, s1) \<Rightarrow> Some (Some m, s1)))
      })"

definition EstablishDataConnection ::
  "'db world \<Rightarrow> addr \<Rightarrow> RadioTech \<Rightarrow> 'db handler \<Rightarrow> (bool \<times> 'db handler) outcome" where
  "EstablishDataConnection W a tech s0 = do {
     h0 \<leftarrow> hd_holders s0 a;
     preferred \<leftarrow> GetApnItemById (hd_items s0) (GetCurrentApnId W s0) (hd_mgr s0);
     (apn, h) \<leftarrow> (if preferred = None then GetNextRetryApn (hd_items s0) h0 else Some (preferred, h0));
     let s1 = put_holder a h s0;
     if apn = None then Some (False, s1)
     else do {
       (shared, s2) \<leftarrow> (if apnType h \<noteq> DATA_CONTEXT_ROLE_DEFAULT \<and> apnType h \<noteq> DATA_CONTEXT_ROLE_INTERNAL_DEFAULT
                       then CheckForCompatibleDataConnection W h s1 else Some (None, s1));
       case shared of
         Some m \<Rightarrow> HandleCompatibleDataConnection W m a s2
       | None \<Rightarrow> do {
           (chosen, s3) \<leftarrow> choose_machine W h tech s2;
           case chosen of
             None \<Rightarrow> Some (False, s3)
           | Some m \<Rightarrow> do { s4 \<leftarrow> start_connection W a m apn tech s3; Some (True, s4) }
         }
     }
   }"

definition AttemptEstablishDataConnection :: "'db world \<Rightarrow> ptr \<Rightarrow> 'db handler \<Rightarrow> 'db handler outcome" where
  "AttemptEstablishDataConnection W p s =
     (if powerSaveMode W then Some s
      else if isAirplaneModeOn W then Some s
      else case p of
        None \<Rightarrow> Some s
      | Some a \<Rightarrow> do {
          h \<leftarrow> hd_holders s a;
          if \<not> CheckCellularDataSlotId W h s then Some s
          else (case CheckAttachAndSimState W h s of (ok, s1) \<Rightarrow>
            if \<not> ok \<or> \<not> CheckRoamingState W h s1 then Some s1
            else do {
              (ready, s2) \<leftarrow> CheckApnState W a s1;
              if \<not> ready then Some s2
              else do {
                (busy, s3) \<leftarrow> CheckMultiApnState h s2;
                (done', s4) \<leftarrow> EstablishDataConnection W a (PsRadioTech (wE W) (hd_slotId s3)) s3;
                Some (if done' then s4 \<lparr>isHandoverOccurred := False\<rparr> else s4)
              }
            })
        })"

definition establish_one :: "'db world \<Rightarrow> ptr \<Rightarrow> 'db handler \<Rightarrow> 'db handler outcome" where
  "establish_one W p s = (case p of
     None \<Rightarrow> Some s
   | Some a \<Rightarrow> do {
       h \<leftarrow> hd_holders s a;
       if \<not> dataCallEnabled h then Some s
       else do {
         let s1 = UpdateCellularDataConnectState W (apnType h) s;
         let s2 = (if apnState h = PROFILE_STATE_FAILED \<or> apnState h = PROFILE_STATE_RETRYING
                   then release_holder a s1 else s1);
         AttemptEstablishDataConnection W p s2
       }
     })"

definition EstablishAllApnsIfConnectable :: "'db world \<Rightarrow> 'db handler \<Rightarrow> 'db handler outcome" where
  "EstablishAllApnsIfConnectable W s = do {
     hp \<leftarrow> ClearAllApnBad (hd_mgr s) (hd_mem s);
     foldo (establish_one W) (sortedApnHolders (hd_mgr s)) (s \<lparr>hd_mem := hp\<rparr>)
   }"

end
