(* ===== verification/Handler_Events.thy ===== *)
theory Handler_Events
  imports Data_Handler
begin

text \<open>
  The data handler, second part: the handlers of its events (\<open>ProcessEvent\<close> and the functions of
  \<open>eventIdMap_\<close>), the callbacks of the core service, and the operations that the controller
  calls. Answers of the radio that the code only logs have no effect. The power-save broadcast
  (\<open>BASE_POWER_IMPROVEMENT\<close>) is represented by the flag \<open>powerSaveMode\<close>; \<open>Power_Save\<close> models its subscriber.
\<close>

section \<open>Activation statistics\<close>

definition EraseApnActivateList :: "'db world \<Rightarrow> 'db handler \<Rightarrow> 'db handler" where
  "EraseApnActivateList W s = s \<lparr>apnActivateChrList :=
     filter (\<lambda>i. \<not> (now (wE W) - actSuccTime i) mod 2 ^ 64 > 30 * 1000) (apnActivateChrList s)\<rparr>"

text \<open>\<open>duration\<close> is not set when no start time is known.\<close>

definition SetApnActivateEnd :: "'db world \<Rightarrow> SetupDataCallResultInfo \<Rightarrow> 'db handler \<Rightarrow> 'db handler" where
  "SetApnActivateEnd W info s =
     (let t = now (wE W);
          d1 = (if sd_flag info = DATA_CONTEXT_ROLE_INTERNAL_DEFAULT_ID \<and> internalApnActTime s \<noteq> 0
                then Some ((t - internalApnActTime s) mod 2 ^ 32) else None);
          d2 = (if sd_flag info = DATA_CONTEXT_ROLE_DEFAULT_ID \<and> defaultApnActTime s \<noteq> 0
                then Some ((t - defaultApnActTime s) mod 2 ^ 32) else d1);
          i = \<lparr>actSuccTime = t, ac_duration = d2, ac_reason = sd_reason info mod 2 ^ 32,
               ac_apnId = sd_flag info mod 2 ^ 32\<rparr>;
          s1 = EraseApnActivateList W s
      in s1 \<lparr>apnActivateChrList := apnActivateChrList s1 @ [i]\<rparr>)"

record ApnActivateReportInfo =
  actTimes :: int
  averDuration :: "int option"
  topReason :: int
  actSuccTimes :: int

text \<open>The error map is ordered by reason; the first reason with the highest count wins.\<close>

definition top_reason :: "int list \<Rightarrow> int" where
  "top_reason rs = fst (foldl (\<lambda>(top, cnt) r.
       let n = int (length (filter (\<lambda>x. x = r) rs)) in if n > cnt then (r, n) else (top, cnt))
     (0, 0) (sort (remdups rs)))"

definition sum_durations :: "int option list \<Rightarrow> int option" where
  "sum_durations ds = foldl (\<lambda>acc d. case (acc, d) of (Some a, Some b) \<Rightarrow> Some ((a + b) mod 2 ^ 32) | _ \<Rightarrow> None)
     (Some 0) ds"

definition GetApnActReportInfo :: "'db world \<Rightarrow> int \<Rightarrow> 'db handler \<Rightarrow> ApnActivateReportInfo \<times> 'db handler" where
  "GetApnActReportInfo W apnId s =
     (let s1 = EraseApnActivateList W s;
          infos = filter (\<lambda>i. ac_apnId i = apnId) (apnActivateChrList s1);
          total = sum_durations (map ac_duration infos);
          succ = int (length (filter (\<lambda>i. ac_reason i = 0) infos))
      in (\<lparr>actTimes = int (length infos),
           averDuration = (if succ = 0 then Some 0 else map_option (\<lambda>t. t div succ) total),
           topReason = top_reason (map ac_reason (filter (\<lambda>i. ac_reason i \<noteq> 0) infos)),
           actSuccTimes = succ\<rparr>, s1))"

section \<open>Connection events\<close>

definition UpdatePhysicalConnectionState :: "bool \<Rightarrow> 'db handler \<Rightarrow> 'db handler" where
  "UpdatePhysicalConnectionState noActive s =
     (if noActive \<and> physicalConnectionActiveState s
      then hd_emit [DcPhysicalLinkActiveUpdate (hd_slotId s) False] (s \<lparr>physicalConnectionActiveState := False\<rparr>)
      else if \<not> noActive \<and> \<not> physicalConnectionActiveState s
      then hd_emit [DcPhysicalLinkActiveUpdate (hd_slotId s) True] (s \<lparr>physicalConnectionActiveState := True\<rparr>)
      else s)"

definition send_incall :: "incall_event \<Rightarrow> 'db handler \<Rightarrow> 'db handler" where
  "send_incall ev s = (if hd_incall s \<noteq> None then hd_emit [Eff (ToIncall ev)] s else s)"

definition NotifyReqCellularData :: "'db world \<Rightarrow> bool \<Rightarrow> 'db handler \<Rightarrow> 'db handler" where
  "NotifyReqCellularData W requested s = (if ext_notifyReqCellularData (wE W)
     then hd_emit [Eff (Ext (Ext_notifyReqCellularData requested))] s else s)"

text \<open>The part of \<open>DataConnCompleteUpdateState\<close> that reaches the machine of the holder.\<close>

definition update_machine_info ::
  "'db world \<Rightarrow> addr \<Rightarrow> ApnHolder \<Rightarrow> SetupDataCallResultInfo \<Rightarrow> 'db handler \<Rightarrow> 'db handler outcome" where
  "update_machine_info W a h info s = (case cellularDataStateMachine h of
     None \<Rightarrow> Some (put_holder a (SetApnState PROFILE_STATE_IDLE h) s)
   | Some m \<Rightarrow> do {
       attachApn \<leftarrow> GetRilAttachApn (wP W) (hd_items s) (hd_mgr s);
       proxy \<leftarrow> (case attachApn of None \<Rightarrow> Some ''''
                | Some i \<Rightarrow> map_option (\<lambda>it. at_proxyIpAddress (it_attr it)) (hd_items s i));
       s1 \<leftarrow> machine_call m (UpdateHttpProxy (wP W) proxy) s;
       machine_call m (UpdateNetworkInfo_call (wP W) (wE W) info) s1
     })"

definition DataConnCompleteUpdateState ::
  "'db world \<Rightarrow> addr \<Rightarrow> SetupDataCallResultInfo \<Rightarrow> 'db handler \<Rightarrow> 'db handler outcome" where
  "DataConnCompleteUpdateState W a info s = do {
     h \<leftarrow> hd_holders s a;
     s1 \<leftarrow> update_machine_info W a h info s;
     let s2 = start_monitor W s1;
     let s3 = (if \<not> physicalConnectionActiveState s2
               then hd_emit [DcPhysicalLinkActiveUpdate (hd_slotId s2) True] (s2 \<lparr>physicalConnectionActiveState := True\<rparr>)
               else s2);
     let s4 = UpdateCellularDataConnectState W (apnType h) (send_incall MSG_SM_INCALL_DATA_DATA_CONNECTED s3);
     s5 \<leftarrow> (if apnType h = DATA_CONTEXT_ROLE_DEFAULT
           then do { it \<leftarrow> deref (hd_items s4) (apnItem h); Some (UpdateApnInfo W (at_profileId (it_attr it)) s4) }
           else Some s4);
     Some (if IsMmsType h then hd_remove is_resume_permitted s5 else s5)
   }"

definition EstablishDataConnectionComplete ::
  "'db world \<Rightarrow> SetupDataCallResultInfo \<Rightarrow> 'db handler \<Rightarrow> 'db handler outcome" where
  "EstablishDataConnectionComplete W info s =
     (let s1 = SetApnActivateEnd W info s
      in case GetApnHolder (hd_mgr s1) (FindApnNameByApnId (sd_flag info)) of
           None \<Rightarrow> Some s1
         | Some a \<Rightarrow> do {
             h \<leftarrow> hd_holders s1 a;
             let (h1, es) = InitialApnRetryCount (wE W) (wProps W) (SetApnState PROFILE_STATE_CONNECTED h);
             let s2 = hd_emit (map Eff es) (put_holder a h1 s1);
             let s3 = (if apnType h = DATA_CONTEXT_ROLE_DEFAULT
                       then hd_send (MSG_RETRY_TO_SETUP_DATACALL DATA_CONTEXT_ROLE_INTERNAL_DEFAULT_ID) 0 s2 else s2);
             DataConnCompleteUpdateState W a info s3
           })"

definition HandleIncallDataDisconnectComplete :: "'db handler \<Rightarrow> 'db handler" where
  "HandleIncallDataDisconnectComplete s =
     (if \<not> HasAnyConnectedState (hd_holders s) (hd_mgr s)
      then send_incall MSG_SM_INCALL_DATA_DATA_DISCONNECTED (stop_monitor s) else s)"

definition HandleDisconnectDataCompleteForMmsType :: "'db world \<Rightarrow> ApnHolder \<Rightarrow> 'db handler \<Rightarrow> 'db handler" where
  "HandleDisconnectDataCompleteForMmsType W h s =
     (if IsMmsType h then hd_remove is_resume_permitted (snd (SetDataPermittedForMms W False s)) else s)"

fun sort_loop :: "ApnHolder store \<Rightarrow> ptr list \<Rightarrow> 'db handler \<Rightarrow> 'db handler outcome" where
  "sort_loop holders [] s = Some s"
| "sort_loop holders (p # ps) s = do {
     h \<leftarrow> deref holders p;
     if dataCallEnabled h
     then Some (hd_send (MSG_ESTABLISH_DATA_CONNECTION (FindApnIdByApnName (apnType h)) None) 0 s)
     else sort_loop holders ps s
   }"

definition HandleSortConnection :: "'db handler \<Rightarrow> 'db handler outcome" where
  "HandleSortConnection s =
     (let st = GetOverallApnState (hd_holders s) (hd_mgr s)
      in if st = PROFILE_STATE_IDLE \<or> st = PROFILE_STATE_FAILED
         then sort_loop (hd_holders s) (sortedApnHolders (hd_mgr s)) s else Some s)"

definition scene_of :: "int \<Rightarrow> RetryScene" where
  "scene_of i = (if i = 0 then RETRY_SCENE_SETUP_DATA else if i = 1 then RETRY_SCENE_MODEM_DEACTIVATE
     else RETRY_SCENE_OTHERS)"

definition RetryOrClearConnection ::
  "'db world \<Rightarrow> addr \<Rightarrow> DisConnectionReason \<Rightarrow> SetupDataCallResultInfo \<Rightarrow> 'db handler \<Rightarrow> 'db handler outcome" where
  "RetryOrClearConnection W a reason info s0 =
     (let s = (if RestartRadioIfRequired (wProps W) (ext_restartRadioIfRequired (wE W))
               then hd_emit [Eff (Ext (Ext_restartRadioIfRequired (sd_reason info) (hd_slotId s0)))] s0 else s0)
      in if reason = REASON_CLEAR_CONNECTION
         then EstablishAllApnsIfConnectable W (NotifyReqCellularData W False (ClearConnection (Some a) reason s))
         else if reason = REASON_PERMANENT_REJECT
         then do {
           h \<leftarrow> hd_holders s a;
           items \<leftarrow> SetApnBadState True h (hd_items s);
           Some (ClearConnection (Some a) REASON_CLEAR_CONNECTION (s \<lparr>hd_mem := (hd_mem s) \<lparr>h_items := items\<rparr>\<rparr>))
         }
         else if reason = REASON_RETRY_CONNECTION
         then do {
           h \<leftarrow> hd_holders s a;
           let s1 = put_holder a (SetApnState PROFILE_STATE_RETRYING h) s;
           let isRetrying = (GetOverallDefaultApnState (hd_holders s1) (hd_mgr s1) = PROFILE_STATE_RETRYING);
           let delayTime = GetRetryDelay (wE W) (wProps W) h (sd_reason info) (sd_retryTime info)
                 (scene_of (sd_retryScene info)) isRetrying;
           Some (hd_send (MSG_RETRY_TO_SETUP_DATACALL (sd_flag info)) delayTime s1)
         }
         else Some s)"

definition DisconnectDataComplete ::
  "'db world \<Rightarrow> SetupDataCallResultInfo \<Rightarrow> 'db handler \<Rightarrow> 'db handler outcome" where
  "DisconnectDataComplete W info s =
     (case FindApnHolderById (hd_mgr s) (sd_flag info) of
        None \<Rightarrow> Some s
      | Some a \<Rightarrow> do {
          h \<leftarrow> hd_holders s a;
          let reason = ConvertPdpErrorToDisconnReason (wP W) (wProps W) (ext_convertPdpError (wE W)) (sd_reason info);
          case cellularDataStateMachine h of
            None \<Rightarrow> Some (put_holder a (SetApnState PROFILE_STATE_IDLE h) s)
          | Some m \<Rightarrow> do {
              s1 \<leftarrow> machine_call m (UpdateNetworkInfo_call (wP W) (wE W) info) s;
              d \<leftarrow> hd_machines s1 m;
              let s2 = s1 \<lparr>hd_tables := RemoveActiveConnectionByCid (sm_cid d) (hd_tables s1)\<rparr>;
              let s3 = put_holder a (SetApnState PROFILE_STATE_IDLE (SetCellularDataStateMachine None h)) s2;
              let s4 = UpdatePhysicalConnectionState (isNoActiveConnection (hd_tables s3))
                         (UpdateCellularDataConnectState W (apnType h) s3);
              s5 \<leftarrow> (if dataCallEnabled h then RetryOrClearConnection W a reason info s4
                    else Some (NotifyReqCellularData W False s4));
              let s6 = HandleIncallDataDisconnectComplete s5;
              s7 \<leftarrow> (if reason = REASON_CHANGE_CONNECTION then HandleSortConnection s6 else Some s6);
              Some (HandleDisconnectDataCompleteForMmsType W h s7)
            }
        })"

definition HandleUpdateNetInfo :: "'db world \<Rightarrow> SetupDataCallResultInfo \<Rightarrow> 'db handler \<Rightarrow> 'db handler outcome" where
  "HandleUpdateNetInfo W info s =
     (case FindApnHolderById (hd_mgr s) (sd_flag info) of
        None \<Rightarrow> Some s
      | Some a \<Rightarrow> do {
          h \<leftarrow> hd_holders s a;
          if apnState h \<noteq> PROFILE_STATE_CONNECTING \<and> apnState h \<noteq> PROFILE_STATE_CONNECTED then Some s
          else (case cellularDataStateMachine h of
                  None \<Rightarrow> Some s
                | Some m \<Rightarrow> machine_call m (UpdateNetworkInfo_call (wP W) (wE W) info) s)
        })"

definition ResumeDataPermittedTimerOut :: "'db world \<Rightarrow> 'db handler \<Rightarrow> 'db handler" where
  "ResumeDataPermittedTimerOut W s =
     (case FindApnHolderById (hd_mgr s) DATA_CONTEXT_ROLE_MMS_ID of
        None \<Rightarrow> snd (SetDataPermittedForMms W False s)
      | Some a \<Rightarrow> (case hd_holders s a of
            Some h \<Rightarrow> if apnState h = PROFILE_STATE_IDLE then snd (SetDataPermittedForMms W False s) else s
          | None \<Rightarrow> s))"

definition RetryToSetupDatacall :: "int \<Rightarrow> 'db handler \<Rightarrow> 'db handler" where
  "RetryToSetupDatacall apnId s =
     (case FindApnHolderById (hd_mgr s) apnId of
        None \<Rightarrow> s
      | Some a \<Rightarrow> (case hd_holders s a of
            None \<Rightarrow> s
          | Some h \<Rightarrow>
              if apnState h \<noteq> PROFILE_STATE_RETRYING then s
              else hd_send (MSG_ESTABLISH_DATA_CONNECTION apnId None) 0
                     (put_holder a (SetApnState PROFILE_STATE_IDLE h) s)))"

section \<open>Requests\<close>

definition FindDisConnectionReason ::
  "'db world \<Rightarrow> DisConnectionReason \<Rightarrow> nat option \<Rightarrow> string \<Rightarrow> DisConnectionReason" where
  "FindDisConnectionReason W reason bear ty =
     (case bear of
        None \<Rightarrow> reason
      | Some b \<Rightarrow>
          if ty = DATA_CONTEXT_ROLE_INTERNAL_DEFAULT then REASON_HANDOVER_CONNECTION
          else if b = BEARER_WIFI W then REASON_HANDOVER_CONNECTION else REASON_CLEAR_CONNECTION)"

definition MsgEstablishDataConnection ::
  "'db world \<Rightarrow> int \<Rightarrow> nat option \<Rightarrow> 'db handler \<Rightarrow> 'db handler outcome" where
  "MsgEstablishDataConnection W apnId bear s =
     (case FindApnHolderById (hd_mgr s) apnId of
        None \<Rightarrow> Some s
      | Some a \<Rightarrow> do {
          h \<leftarrow> hd_holders s a;
          let allowed = (case ext_isCardAllowData (wE W) of
                Some f \<Rightarrow> f (SimIdOf (wE W) (hd_slotId s)) (capability h) | None \<Rightarrow> True);
          if allowed \<and> dataCallEnabled h then AttemptEstablishDataConnection W (Some a) s
          else (case IsSingleConnectionEnabled W (PsRadioTech (wE W) (hd_slotId s)) s of (single, s1) \<Rightarrow>
            let reason0 = (if single then REASON_CHANGE_CONNECTION else REASON_CLEAR_CONNECTION);
                reason1 = FindDisConnectionReason W reason0 bear (apnType h);
                handover = (reason1 = REASON_HANDOVER_CONNECTION \<and> apnType h = DATA_CONTEXT_ROLE_DEFAULT);
                primary = (hd_slotId s1 = PrimarySlotId (wE W));
                s2 = (if handover then s1 \<lparr>isHandoverOccurred := primary\<rparr> else s1);
                reason2 = (if handover \<and> \<not> primary then REASON_CLEAR_CONNECTION else reason1)
            in Some (ClearConnection (Some a) reason2 s2))
        })"

definition IsSimRequestNetOnVSimEnabled :: "'db world \<Rightarrow> int \<Rightarrow> bool \<Rightarrow> 'db handler \<Rightarrow> bool" where
  "IsSimRequestNetOnVSimEnabled W reqType isMms s \<longleftrightarrow> reqType = TYPE_REQUEST_NET
     \<and> hd_slotId s \<noteq> CELLULAR_DATA_VSIM_SLOT_ID \<and> \<not> isMms \<and> vsim_blocks W"

definition HandleMmsRequestOnVsimEnabled :: "'db world \<Rightarrow> int \<Rightarrow> bool \<Rightarrow> 'db handler \<Rightarrow> 'db handler" where
  "HandleMmsRequestOnVsimEnabled W reqType isMms s =
     (if \<not> isMms \<or> hd_slotId s = CELLULAR_DATA_VSIM_SLOT_ID then s
      else if \<not> vsim_blocks W then s
      else if reqType = TYPE_REQUEST_NET then SetDataPermittedForSlotId W (hd_slotId s) s
      else SetDataPermittedForSlotId W CELLULAR_DATA_VSIM_SLOT_ID s)"

definition MsgRequestNetwork :: "'db world \<Rightarrow> NetRequest \<Rightarrow> int \<Rightarrow> 'db handler \<Rightarrow> 'db handler" where
  "MsgRequestNetwork W request reqType s =
     (let i = FindApnIdByCapability (wP W) (nr_capability request)
      in case FindApnHolderById (hd_mgr s) i of
           None \<Rightarrow> s
         | Some a \<Rightarrow> (case hd_holders s a of
               None \<Rightarrow> s
             | Some h \<Rightarrow>
                 let h' = (if reqType = TYPE_REQUEST_NET then RequestCellularData request h
                           else ReleaseAllCellularData h);
                     s1 = NotifyReqCellularData W (reqType = TYPE_REQUEST_NET) (put_holder a h' s)
                 in hd_send (MSG_ESTABLISH_DATA_CONNECTION i (Some (nr_bearTypes request))) 0 s1))"

definition best_request :: "'db world \<Rightarrow> NetRequest \<Rightarrow> NetRequest" where
  "best_request W r = \<lparr>nr_capability = NC (wP W) (FindBestCapability (wP W) (word_of_nat (nr_capability r))),
     nr_ident = nr_ident r, nr_bearTypes = nr_bearTypes r\<rparr>"

definition RequestNet :: "'db world \<Rightarrow> NetRequest \<Rightarrow> 'db handler \<Rightarrow> bool \<times> 'db handler" where
  "RequestNet W r s = (if powerSaveMode W then (False, s)
     else (True, hd_send (MSG_REQUEST_NETWORK (best_request W r) TYPE_REQUEST_NET) 0 s))"

definition ReleaseNet :: "'db world \<Rightarrow> NetRequest \<Rightarrow> 'db handler \<Rightarrow> bool \<times> 'db handler" where
  "ReleaseNet W r s = (True, hd_send (MSG_REQUEST_NETWORK (best_request W r) TYPE_RELEASE_NET) 0 s)"

section \<open>Configuration\<close>

definition ParseOperatorConfig :: "'db world \<Rightarrow> string \<Rightarrow> 'db handler \<Rightarrow> bool" where
  "ParseOperatorConfig W configName s = (operatorConfigValue W (hd_slotId s) configName = Some ''true'')"

definition GetDefaultUpLinkThresholdsConfig :: "'db world \<Rightarrow> 'db handler \<Rightarrow> 'db handler outcome" where
  "GetDefaultUpLinkThresholdsConfig W s = do {
     xs \<leftarrow> Split (c_str (snd (getParameter (wE W) ''persist.sys.data.uplink''
       ''100,500,1000,5000,10000,20000,50000,75000,100000,200000,500000'' 100))) '','';
     Some (s \<lparr>upLinkThresholds := xs\<rparr>)
   }"

definition GetDefaultDownLinkThresholdsConfig :: "'db world \<Rightarrow> 'db handler \<Rightarrow> 'db handler outcome" where
  "GetDefaultDownLinkThresholdsConfig W s = do {
     xs \<leftarrow> Split (c_str (snd (getParameter (wE W) ''persist.sys.data.downlink''
       ''100,500,1000,5000,10000,20000,50000,75000,100000,200000,500000,1000000,1500000,2000000'' 100))) '','';
     Some (s \<lparr>downLinkThresholds := xs\<rparr>)
   }"

definition SetRilLinkBandwidths :: "'db world \<Rightarrow> 'db handler \<Rightarrow> 'db handler" where
  "SetRilLinkBandwidths W s = hd_emit [SetLinkBandwidthReportingRule_call (hd_slotId s)
     (PsRadioTech (wE W) (hd_slotId s)) (map (\<lambda>x. atoi (c_str x)) (upLinkThresholds s))
     (map (\<lambda>x. atoi (c_str x)) (downLinkThresholds s))] s"

definition is_up :: "ApnProfileState \<Rightarrow> bool" where
  "is_up st \<longleftrightarrow> st = PROFILE_STATE_CONNECTING \<or> st = PROFILE_STATE_CONNECTED"

definition clear_if_up :: "'db world \<Rightarrow> DisConnectionReason \<Rightarrow> 'db handler \<Rightarrow> 'db handler outcome" where
  "clear_if_up W reason s = (if is_up (GetOverallApnState (hd_holders s) (hd_mgr s))
     then ClearAllConnections W reason s else Some s)"

definition GetDefaultDataRoamingConfig :: "'db world \<Rightarrow> 'db handler \<Rightarrow> 'db handler outcome" where
  "GetDefaultDataRoamingConfig W s = do {
     let default' = (case operatorBool (wE W) (hd_slotId s) ''KEY_DEFAULT_DATA_ROAMING_BOOL'' of
           Some b \<Rightarrow> b
         | None \<Rightarrow> intParameter W (''persist.telephony.defaultdataroaming'' @ to_string (hd_slotId s)) 0 = 1);
     let (ret, on, sw) = QueryUserDataRoamingStatus (wE W) (wDS W) (hd_db s) False (hd_switch s);
     let s1 = s \<lparr>defaultDataRoamingEnable := default', hd_switch := sw\<rparr>;
     if ret \<noteq> TELEPHONY_ERR_SUCCESS \<and> default' \<noteq> IsUserDataRoamingOn (wE W) sw then do {
       let s2 = s1 \<lparr>hd_switch := UpdateUserDataRoamingOn default' sw\<rparr>;
       if roaming_now W s2 then do {
         s3 \<leftarrow> clear_if_up W REASON_RETRY_CONNECTION s2;
         EstablishAllApnsIfConnectable W s3
       } else Some s2
     } else Some s1
   }"

text \<open>A write to the settings: new switches, new database, observers notified.\<close>

definition settings_write ::
  "(DataSwitchSettings \<times> 'db \<Rightarrow> tel_err \<times> (DataSwitchSettings \<times> 'db) \<times> string list)
     \<Rightarrow> 'db handler \<Rightarrow> tel_err \<times> 'db handler" where
  "settings_write f s = (case f (hd_switch s, hd_db s) of (ret, (sw, db), ks) \<Rightarrow>
     (ret, hd_emit (map SettingNotified ks) (s \<lparr>hd_switch := sw, hd_db := db\<rparr>)))"

definition GetDefaultDataEnableConfig :: "'db world \<Rightarrow> 'db handler \<Rightarrow> 'db handler" where
  "GetDefaultDataEnableConfig W s =
     (let ret = QueryAnySimDetectedStatus (wDS W) (hd_db s) 0
      in if ret = TELEPHONY_ERR_SUCCESS \<or> DefaultCellularDataSlotId (wE W) \<noteq> hd_slotId s then s
         else if ret = TELEPHONY_ERR_DATABASE_READ_EMPTY then
           let s1 = (case operatorBool (wE W) (hd_slotId s) ''KEY_DEFAULT_DATA_ENABLE_BOOL'' of
                 Some b \<Rightarrow> snd (settings_write (SetUserDataOn (wDS W) b) s) | None \<Rightarrow> s)
           in snd (settings_write (SetAnySimDetected (wDS W) 1) s1)
         else s)"

definition GetDefaultConfiguration :: "'db world \<Rightarrow> 'db handler \<Rightarrow> 'db handler outcome" where
  "GetDefaultConfiguration W s = do {
     t1 \<leftarrow> GetDefaultBandWidthsConfig (wE W) (hd_tables s);
     t2 \<leftarrow> GetDefaultTcpBufferConfig (wE W) t1;
     s1 \<leftarrow> GetDefaultUpLinkThresholdsConfig W (s \<lparr>hd_tables := t2\<rparr>);
     s2 \<leftarrow> GetDefaultDownLinkThresholdsConfig W s1;
     let par = getParameter (wE W);
     let s3 = s2 \<lparr>defaultMobileMtuConfig := GetDefaultMobileMtuConfig par,
           defaultPreferApn := GetDefaultPreferApnConfig par,
           multipleConnectionsEnabled := GetDefaultMultipleConnectionsConfig par\<rparr>;
     s4 \<leftarrow> GetDefaultDataRoamingConfig W (GetSinglePdpEnabledFromOpCfg W s3);
     Some (GetDefaultDataEnableConfig W s4)
   }"

definition GetConfigurationFor5G :: "'db world \<Rightarrow> 'db handler \<Rightarrow> 'db handler outcome" where
  "GetConfigurationFor5G W s = GetDefaultConfiguration W (s \<lparr>unMetered :=
     map (\<lambda>k. ParseOperatorConfig W k s) [''allmeterednas'', ''meterednrnsammware'', ''meteredNrnsasub6'',
       ''meteredallnrsa'', ''meterednrsammware'', ''meterednrsasub6'', ''meteredroaming'']\<rparr>)"

section \<open>Attach APN and APN table\<close>

definition GetEsmFlagFromOpCfg :: "'db world \<Rightarrow> 'db handler \<Rightarrow> bool" where
  "GetEsmFlagFromOpCfg W s = (operatorInt W (hd_slotId s) ''KEY_PLMN_ESM_FLAG_INT'' \<noteq> Some 0)"

definition IsBlockSetRilAttachApn :: "'db world \<Rightarrow> 'db handler \<Rightarrow> bool \<times> 'db handler" where
  "IsBlockSetRilAttachApn W s =
     (let currentNumeric = SimOperatorNumeric (wCard W)
      in if lastNumeric s = ''00101'' \<and> currentNumeric = ''24681''
         then (PsRadioTech (wE W) (hd_slotId s) = RADIO_TECHNOLOGY_NR, s)
         else (False, s \<lparr>lastNumeric := currentNumeric\<rparr>))"

definition SetRilAttachApn :: "'db world \<Rightarrow> 'db handler \<Rightarrow> 'db handler outcome" where
  "SetRilAttachApn W s0 = (case IsBlockSetRilAttachApn W s0 of (blocked, s) \<Rightarrow>
     if blocked then Some s
     else if \<not> IsSimStateReadyOrLoaded W s then Some s
     else if \<not> GetEsmFlagFromOpCfg W s
     then Some (hd_emit [SetInitApnInfo_call (hd_slotId s) empty_Attribute] s)
     else do {
       attachApn \<leftarrow> GetRilAttachApn (wP W) (hd_items s) (hd_mgr s);
       case attachApn of
         None \<Rightarrow> Some s
       | Some i \<Rightarrow> do { it \<leftarrow> hd_items s i; Some (hd_emit [SetInitApnInfo_call (hd_slotId s) (it_attr it)] s) }
     })"

definition SetRilAttachApnResponse :: "int option \<Rightarrow> 'db handler \<Rightarrow> 'db handler" where
  "SetRilAttachApnResponse errorNo s = (case errorNo of
     None \<Rightarrow> s | Some n \<Rightarrow> s \<lparr>isRilApnAttached := (n = 0)\<rparr>)"

definition read_apns :: "'db world \<Rightarrow> 'db handler \<Rightarrow> (int \<times> 'db handler) outcome" where
  "read_apns W s = do {
     (n, hp, am) \<leftarrow> CreateAllApnItemByDatabase (wP W) (wE W) (wApnDb W) (wCard W) (wCreateAll W) (wCreateDc W)
       (hd_slotId s) (hd_mem s, hd_mgr s);
     Some (n, s \<lparr>hd_mem := hp, hd_mgr := am\<rparr>)
   }"

text \<open>The loop over \<open>DEFAULT_READ_APN_TIME\<close> (two) attempts.\<close>

definition read_apns_twice :: "'db world \<Rightarrow> 'db handler \<Rightarrow> (int \<times> 'db handler) outcome" where
  "read_apns_twice W s = do { (n, s1) \<leftarrow> read_apns W s; if n \<noteq> 0 then Some (n, s1) else read_apns W s1 }"

definition is_retry_create :: "hevent \<Rightarrow> bool" where
  "is_retry_create ev \<longleftrightarrow> ev = MSG_RETRY_TO_CREATE_APN"

definition CreateApnItem :: "'db world \<Rightarrow> 'db handler \<Rightarrow> 'db handler outcome" where
  "CreateApnItem W s0 = do {
     (result, s) \<leftarrow> read_apns_twice W s0;
     Some (if result = 0 \<and> \<not> hd_has is_retry_create s then
             (if retryCreateApnTimes s < APN_CREATE_RETRY_TIMES
              then hd_send MSG_RETRY_TO_CREATE_APN RETRY_DELAY_TIME
                     (s \<lparr>retryCreateApnTimes := retryCreateApnTimes s + 1\<rparr>)
              else s \<lparr>retryCreateApnTimes := 0\<rparr>)
           else if result \<noteq> 0 then hd_remove is_retry_create (s \<lparr>retryCreateApnTimes := 0\<rparr>)
           else s)
   }"

definition ClearConnectionsOnUpdateApns :: "'db world \<Rightarrow> DisConnectionReason \<Rightarrow> 'db handler \<Rightarrow> 'db handler outcome" where
  "ClearConnectionsOnUpdateApns W reason s0 = (case roaming_enabled W s0 of (isRoaming, s) \<Rightarrow> do {
     p \<leftarrow> GetRilAttachApn (wP W) (hd_items s) (hd_mgr s);
     s1 \<leftarrow> (case p of
            None \<Rightarrow> Some s
          | Some i \<Rightarrow> do { it \<leftarrow> hd_items s i; Some (UpdateApnInfo W (at_profileId (it_attr it)) s) });
     same \<leftarrow> IsCompatibleApnItem (hd_items s1) (lastApnItem s1) p isRoaming;
     if same then Some s1
     else do {
       s2 \<leftarrow> ClearAllConnections W reason s1;
       let s3 = (case lastApnItem s2 of
             Some l \<Rightarrow> s2
           | None \<Rightarrow> (case alloc_item new_ApnItem (hd_mem s2) of (q, hp) \<Rightarrow> s2 \<lparr>hd_mem := hp, lastApnItem := q\<rparr>));
       case p of
         None \<Rightarrow> Some s3
       | Some i \<Rightarrow> do {
           it \<leftarrow> hd_items s3 i;
           l \<leftarrow> lastApnItem s3;
           Some (s3 \<lparr>hd_mem := (hd_mem s3) \<lparr>h_items := (hd_items s3)(l \<mapsto> it)\<rparr>\<rparr>)
         }
     }
   })"

definition apn_changed_one :: "'db world \<Rightarrow> ptr \<Rightarrow> 'db handler \<Rightarrow> 'db handler outcome" where
  "apn_changed_one W p s = (case p of
     None \<Rightarrow> Some s
   | Some a \<Rightarrow> do {
       h \<leftarrow> hd_holders s a;
       let s1 = (if apnState h = PROFILE_STATE_RETRYING
                 then (case InitialApnRetryCount (wE W) (wProps W) h of (h1, es) \<Rightarrow>
                    hd_remove is_retry_setup (put_holder a (SetApnState PROFILE_STATE_IDLE h1) (hd_emit (map Eff es) s)))
                 else s);
       Some (hd_send (MSG_ESTABLISH_DATA_CONNECTION (FindApnIdByApnName (apnType h)) None)
               ESTABLISH_DATA_CONNECTION_DELAY s1)
     })"

definition HandleApnChanged :: "'db world \<Rightarrow> 'db handler \<Rightarrow> 'db handler outcome" where
  "HandleApnChanged W s = do {
     s1 \<leftarrow> CreateApnItem W s;
     s2 \<leftarrow> SetRilAttachApn W s1;
     s3 \<leftarrow> ClearConnectionsOnUpdateApns W REASON_CLEAR_CONNECTION s2;
     hp \<leftarrow> ClearAllApnBad (hd_mgr s3) (hd_mem s3);
     foldo (apn_changed_one W) (apnHolders (hd_mgr s3)) (s3 \<lparr>hd_mem := hp\<rparr>)
   }"

section \<open>Radio and roaming\<close>

definition RadioPsConnectionAttached :: "'db world \<Rightarrow> 'db handler \<Rightarrow> 'db handler outcome" where
  "RadioPsConnectionAttached W s =
     (let netId = GetCellNetId (wE W) (wMon W) (hd_slotId s);
          s1 = (if netId > 0 then hd_emit [NetDetection netId] s else s)
      in EstablishAllApnsIfConnectable W (s1 \<lparr>isMccChanged := False\<rparr>))"

definition RoamingStateOn :: "'db world \<Rightarrow> 'db handler \<Rightarrow> 'db handler outcome" where
  "RoamingStateOn W s0 =
     (let s = s0 \<lparr>isMccChanged := False\<rparr>
      in if \<not> roaming_now W s then Some s
         else case roaming_enabled W s of (enabled, s1) \<Rightarrow> do {
           s2 \<leftarrow> (if \<not> enabled then clear_if_up W REASON_RETRY_CONNECTION s1 else Some s1);
           EstablishAllApnsIfConnectable W s2
         })"

definition RoamingStateOff :: "'db world \<Rightarrow> 'db handler \<Rightarrow> 'db handler outcome" where
  "RoamingStateOff W s = (case roaming_enabled W s of (enabled, s1) \<Rightarrow>
     if enabled then Some s1
     else do {
       s2 \<leftarrow> clear_if_up W REASON_RETRY_CONNECTION s1;
       EstablishAllApnsIfConnectable W s2
     })"

definition PsRadioEmergencyStateOpen :: "'db world \<Rightarrow> 'db handler \<Rightarrow> 'db handler outcome" where
  "PsRadioEmergencyStateOpen W s = clear_if_up W REASON_CLEAR_CONNECTION s"

definition PsRadioEmergencyStateClose :: "'db world \<Rightarrow> 'db handler \<Rightarrow> 'db handler outcome" where
  "PsRadioEmergencyStateClose W s =
     (let st = GetOverallApnState (hd_holders s) (hd_mgr s)
      in if st = PROFILE_STATE_IDLE \<or> st = PROFILE_STATE_DISCONNECTING
         then EstablishAllApnsIfConnectable W s else Some s)"

datatype radio_power = CORE_SERVICE_POWER_OFF | CORE_SERVICE_POWER_ON | CORE_SERVICE_POWER_NOT_AVAILABLE
  | POWER_OTHER int

definition HandleRadioStateChanged :: "'db world \<Rightarrow> radio_power option \<Rightarrow> 'db handler \<Rightarrow> 'db handler outcome" where
  "HandleRadioStateChanged W state s =
     (case state of
        Some CORE_SERVICE_POWER_ON \<Rightarrow> EstablishAllApnsIfConnectable W (SetRilLinkBandwidths W s)
      | Some (POWER_OTHER n) \<Rightarrow> Some s
      | None \<Rightarrow> Some s
      | Some _ \<Rightarrow> if GetOverallApnState (hd_holders s) (hd_mgr s) \<noteq> PROFILE_STATE_IDLE
                  then ClearAllConnections W REASON_CLEAR_CONNECTION s else Some s)"

definition clear_required_one :: "'db world \<Rightarrow> ptr \<Rightarrow> 'db handler \<Rightarrow> 'db handler outcome" where
  "clear_required_one W p s = (case p of
     None \<Rightarrow> Some s
   | Some a \<Rightarrow> do {
       h \<leftarrow> hd_holders s a;
       found \<leftarrow> FilterMatchedApns (wE W) (hd_items s) (apnType h) (hd_slotId s) (hd_mgr s);
       if found = [] then Some s
       else do {
         same \<leftarrow> IsSameMatchedApns (hd_items s) found (roaming_now W s) h;
         if same then Some s
         else do {
           h1 \<leftarrow> SetAllMatchedApns (hd_items s) found h;
           let s1 = put_holder a h1 s;
           Some (if apnState h \<noteq> PROFILE_STATE_IDLE \<and> apnState h \<noteq> PROFILE_STATE_FAILED
                 then ClearConnection p REASON_RETRY_CONNECTION s1 else s1)
         }
       }
     })"

definition ClearConnectionIfRequired :: "'db world \<Rightarrow> 'db handler \<Rightarrow> 'db handler outcome" where
  "ClearConnectionIfRequired W s = do {
     s1 \<leftarrow> foldo (clear_required_one W) (apnHolders (hd_mgr s)) s;
     Some (if \<not> HasAnyConnectedState (hd_holders s1) (hd_mgr s1)
           then ResetDataFlowType (stop_monitor s1) else s1)
   }"

definition PsDataRatChanged :: "'db world \<Rightarrow> 'db handler \<Rightarrow> 'db handler outcome" where
  "PsDataRatChanged W s =
     (if \<not> userDataOn (hd_switch s) then Some s
      else if \<not> attached_now W s then Some s
      else do { s1 \<leftarrow> ClearConnectionIfRequired W s; EstablishAllApnsIfConnectable W s1 })"

definition to_all_machines :: "sm_event \<Rightarrow> 'db handler \<Rightarrow> 'db handler" where
  "to_all_machines ev s = hd_emit (map (\<lambda>m. Eff (ToMachine m ev)) (stateMachines (hd_tables s))) s"

definition HandleRadioNrStateChanged :: "'db handler \<Rightarrow> 'db handler" where
  "HandleRadioNrStateChanged s = to_all_machines RADIO_NR_STATE_CHANGED s"

definition HandleRadioNrFrequencyChanged :: "'db handler \<Rightarrow> 'db handler" where
  "HandleRadioNrFrequencyChanged s = to_all_machines RADIO_NR_FREQUENCY_CHANGED s"

definition OnRilAdapterHostDied :: "'db world \<Rightarrow> 'db handler \<Rightarrow> 'db handler" where
  "OnRilAdapterHostDied W s = to_all_machines (MSG_SM_RIL_ADAPTER_HOST_DIED (Some (default_result_info (wP W)))) s"

definition Handler_UpdateNetworkInfo :: "'db handler \<Rightarrow> 'db handler" where
  "Handler_UpdateNetworkInfo s = to_all_machines MSG_SM_UPDATE_NETWORK_INFO s"

definition HandleMccChangeDelay :: "'db world \<Rightarrow> 'db handler \<Rightarrow> 'db handler outcome" where
  "HandleMccChangeDelay W s = EstablishAllApnsIfConnectable W (s \<lparr>isMccChanged := False\<rparr>)"

definition HandleResidentNetworkChanged :: "'db world \<Rightarrow> string option \<Rightarrow> 'db handler \<Rightarrow> 'db handler" where
  "HandleResidentNetworkChanged W plmn s =
     (case plmn of
        None \<Rightarrow> s
      | Some p \<Rightarrow>
          if length p < DEFAULT_MCC_SIZE then s
          else
            let currentMcc = take DEFAULT_MCC_SIZE p;
                s1 = (if lastMcc s = ''460'' \<and> currentMcc = ''454'' \<and> \<not> IsUserDataRoamingOn (wE W) (hd_switch s)
                      then hd_send MSG_MCC_CHANGE_ACTIVATE_DELAY 35000 (s \<lparr>isMccChanged := True\<rparr>) else s)
            in s1 \<lparr>lastMcc := currentMcc\<rparr>)"

section \<open>Switches and policy\<close>

definition IsCellularDataEnabled :: "'db world \<Rightarrow> bool \<Rightarrow> 'db handler \<Rightarrow> tel_err \<times> bool \<times> 'db handler" where
  "IsCellularDataEnabled W given s =
     (if lastQryRet (hd_switch s) \<noteq> TELEPHONY_ERR_SUCCESS
      then (case QueryUserDataStatus (wDS W) (hd_db s) given (hd_switch s) of (ret, on, sw) \<Rightarrow>
              (ret, on, s \<lparr>hd_switch := sw\<rparr>))
      else (TELEPHONY_ERR_SUCCESS, userDataOn (hd_switch s), s))"

definition SetCellularDataEnable :: "'db world \<Rightarrow> bool \<Rightarrow> 'db handler \<Rightarrow> tel_err \<times> 'db handler" where
  "SetCellularDataEnable W on s =
     (case QueryUserDataStatus (wDS W) (hd_db s) True (hd_switch s) of (ret, current, sw) \<Rightarrow>
        let s1 = s \<lparr>hd_switch := sw\<rparr>
        in if ret \<noteq> TELEPHONY_ERR_SUCCESS then (ret, s1)
           else if current = on then (TELEPHONY_ERR_SUCCESS, s1)
           else settings_write (SetUserDataOn (wDS W) on)
                  (if ext_sendDataSwitchChangeInfo W then hd_emit [SendDataSwitchChangeInfo on] s1 else s1))"

definition SetIntelligenceSwitchEnable :: "'db world \<Rightarrow> bool \<Rightarrow> 'db handler \<Rightarrow> tel_err \<times> 'db handler" where
  "SetIntelligenceSwitchEnable W on s =
     (case QueryIntelligenceSwitchStatus (wDS W) (hd_db s) (hd_switch s) of (ret, current, sw) \<Rightarrow>
        let s1 = s \<lparr>hd_switch := sw\<rparr>
        in if current = on then (TELEPHONY_ERR_SUCCESS, s1) else settings_write (SetIntelliSwitchOn (wDS W) on) s1)"

definition GetIntelligenceSwitchState :: "'db world \<Rightarrow> 'db handler \<Rightarrow> tel_err \<times> bool \<times> 'db handler" where
  "GetIntelligenceSwitchState W s =
     (case QueryIntelligenceSwitchStatus (wDS W) (hd_db s) (hd_switch s) of (ret, on, sw) \<Rightarrow>
        (ret, on, s \<lparr>hd_switch := sw\<rparr>))"

definition SetCellularDataRoamingEnabled :: "'db world \<Rightarrow> bool \<Rightarrow> 'db handler \<Rightarrow> tel_err \<times> 'db handler" where
  "SetCellularDataRoamingEnabled W on s =
     (case QueryUserDataRoamingStatus (wE W) (wDS W) (hd_db s) (defaultDataRoamingEnable s) (hd_switch s) of
        (ret, current, sw) \<Rightarrow>
        let s1 = s \<lparr>hd_switch := sw\<rparr>
        in if current = on then (TELEPHONY_ERR_SUCCESS, s1)
           else settings_write (SetUserDataRoamingOn (wE W) (wDS W) on) s1)"

definition Handler_SetPolicyDataOn :: "'db world \<Rightarrow> bool \<Rightarrow> 'db handler \<Rightarrow> 'db handler outcome" where
  "Handler_SetPolicyDataOn W enable s =
     (if IsPolicyDataOn (hd_switch s) = enable then Some s
      else
        let s1 = s \<lparr>hd_switch := Switch_SetPolicyDataOn enable (hd_switch s)\<rparr>
        in if enable then Some (hd_send MSG_ESTABLISH_ALL_APNS_IF_CONNECTABLE 0 s1)
           else ClearAllConnections W REASON_CLEAR_CONNECTION s1)"

definition ChangeConnectionForDsds :: "'db world \<Rightarrow> bool \<Rightarrow> 'db handler \<Rightarrow> 'db handler outcome" where
  "ChangeConnectionForDsds W enable s =
     (let s1 = s \<lparr>hd_switch := SetInternalDataOn enable (hd_switch s)\<rparr>
      in if enable then Some (hd_send MSG_ESTABLISH_ALL_APNS_IF_CONNECTABLE 0 s1)
         else ClearAllConnections W REASON_CLEAR_CONNECTION s1)"

definition HandleDBSettingEnableChanged :: "'db world \<Rightarrow> 'db handler \<Rightarrow> 'db handler outcome" where
  "HandleDBSettingEnableChanged W s =
     (if (case ext_isVirtualModemSlot (wE W) of Some f \<Rightarrow> f (hd_slotId s) | None \<Rightarrow> False) then Some s
      else case (if featureSingleCard W then (userDataOn (hd_switch s), hd_switch s)
                 else snd (QueryUserDataStatus (wDS W) (hd_db s) True (hd_switch s))) of (dataEnabled, sw) \<Rightarrow>
        let s1 = s \<lparr>hd_switch := sw\<rparr>
        in if dataEnabled \<and> DefaultCellularDataSlotId (wE W) = hd_slotId s then
             (if mobileDataPolicy W = ''disallow'' then Some s1 else EstablishAllApnsIfConnectable W s1)
           else
             (if mobileDataPolicy W = ''force_open'' then Some s1
              else ClearAllConnections W REASON_CLEAR_CONNECTION s1))"

definition HandleDBSettingRoamingChanged :: "'db world \<Rightarrow> 'db handler \<Rightarrow> 'db handler outcome" where
  "HandleDBSettingRoamingChanged W s =
     (if \<not> roaming_now W s then Some s
      else if IsUserDataRoamingOn (wE W) (hd_switch s) then EstablishAllApnsIfConnectable W s
      else ClearAllConnections W REASON_CLEAR_CONNECTION s)"

definition HandleDBSettingIncallChanged :: "int \<Rightarrow> 'db handler \<Rightarrow> 'db handler" where
  "HandleDBSettingIncallChanged v s = (if v = CELLULAR_DATA_ENABLED
     then send_incall MSG_SM_INCALL_DATA_SETTINGS_ON s else send_incall MSG_SM_INCALL_DATA_SETTINGS_OFF s)"

definition HandleFactoryReset :: "'db world \<Rightarrow> 'db handler \<Rightarrow> 'db handler" where
  "HandleFactoryReset W s =
     (let s1 = snd (SetCellularDataEnable W True s);
          s2 = snd (SetCellularDataRoamingEnabled W (defaultDataRoamingEnable s1) s1)
      in hd_emit [ResetApns_call (hd_slotId s2)] s2)"

section \<open>Calls and the in-call machine\<close>

definition CreateIncallDataStateMachine :: "int \<Rightarrow> 'db handler \<Rightarrow> 'db handler" where
  "CreateIncallDataStateMachine st s = hd_emit [Eff (ToIncall INCALL_INIT)]
     (s \<lparr>hd_incall := Some (Incall_Init st (hd_slotId s) (hd_mgr s) (hd_mem s))\<rparr>)"

text \<open>\<open>Init\<close> on a machine that was de-initialised: fresh members, the same event handler.\<close>

definition Incall_ReInit :: "int \<Rightarrow> 'db handler \<Rightarrow> incall \<Rightarrow> 'db handler" where
  "Incall_ReInit st s m = hd_emit [Eff (ToIncall INCALL_INIT)]
     (s \<lparr>hd_incall := Some (SetOriginalState IdleState (m \<lparr>dat := (dat m) \<lparr>ic_slotId := hd_slotId s,
        ic_callState := st, ic_apnManager := Some (hd_mgr s), ic_mem := hd_mem s\<rparr>\<rparr>))\<rparr>)"

definition call_begins :: "int \<Rightarrow> bool" where
  "call_begins st \<longleftrightarrow> st = CALL_STATUS_DIALING \<or> st = CALL_STATUS_INCOMING"

definition HandleImsCallChanged :: "int \<Rightarrow> 'db handler \<Rightarrow> 'db handler" where
  "HandleImsCallChanged st s =
     (let s1 = (if call_begins st then
                  (case hd_incall s of
                     None \<Rightarrow> CreateIncallDataStateMachine st s
                   | Some m \<Rightarrow> if ic_currentState (dat m) = None then Incall_ReInit st s m else s)
                else s)
      in case hd_incall s1 of
           None \<Rightarrow> s1
         | Some m \<Rightarrow>
             let s2 = s1 \<lparr>hd_incall := Some (ic_upd (Incall_UpdateCallState st) m)\<rparr>;
                 s3 = (if call_begins st then send_incall MSG_SM_INCALL_DATA_CALL_STARTED s2 else s2)
             in if in_no_call st then send_incall MSG_SM_INCALL_DATA_CALL_ENDED s3 else s3)"

definition IncallDataComplete_event :: "'db handler \<Rightarrow> 'db handler" where
  "IncallDataComplete_event s = (case hd_incall s of
     None \<Rightarrow> s | Some m \<Rightarrow> s \<lparr>hd_incall := Some (ic_upd Incall_DeInit m)\<rparr>)"

definition HandleVoiceCallChanged :: "'db world \<Rightarrow> int \<Rightarrow> 'db handler \<Rightarrow> 'db handler outcome" where
  "HandleVoiceCallChanged W st s =
     (let support = (PsRadioTech (wE W) (hd_slotId s) = RADIO_TECHNOLOGY_GSM);
          busy = HasAnyConnectedState (hd_holders s) (hd_mgr s) \<and> support
      in if \<not> in_no_call st then
           Some (if busy then s \<lparr>hd_monitor := StopStallDetectionTimer (SetDataFlowType DATA_FLOW_TYPE_DORMANT
                    (EndNetStatistics (hd_monitor s))), disconnectionReason := REASON_GSM_AND_CALLING_ONLY\<rparr> else s)
         else
           let s1 = (if busy then start_monitor W s else s)
           in EstablishAllApnsIfConnectable W (s1 \<lparr>disconnectionReason := REASON_NORMAL\<rparr>))"

definition HandleCallChanged :: "'db world \<Rightarrow> int \<Rightarrow> 'db handler \<Rightarrow> 'db handler outcome" where
  "HandleCallChanged W st s =
     (if lastCallState s = st then Some s
      else
        let s1 = s \<lparr>lastCallState := st, hd_monitor := UpdateCallState st (hd_monitor s)\<rparr>
        in if imsRegistered W (hd_slotId s)
              \<or> (case hd_incall s of Some m \<Rightarrow> IsSecondaryActiveState (dat m) | None \<Rightarrow> False)
           then Some (HandleImsCallChanged st s1) else HandleVoiceCallChanged W st s1)"

section \<open>Slots\<close>

definition HandleDefaultDataSubscriptionChanged :: "'db world \<Rightarrow> 'db handler \<Rightarrow> 'db handler outcome" where
  "HandleDefaultDataSubscriptionChanged W s =
     (let s1 = (if hd_slotId s = CELLDATA_SLOT_ID_3 \<and> IsTstsModeEnabled (getParameter (wE W)) then s
                else SetDataPermitted W (hd_slotId s) (CheckDataPermittedByDsds W s) s);
          s2 = s1 \<lparr>hd_switch := LoadSwitchValue (wE W) (wDS W) (hd_db s1) (hd_switch s1)\<rparr>
      in if DefaultCellularDataSlotId (wE W) = hd_slotId s2
         then Some (hd_send MSG_ESTABLISH_ALL_APNS_IF_CONNECTABLE 0 s2)
         else ClearAllConnections W REASON_CLEAR_CONNECTION s2)"

text \<open>The service forwards the call to the handler of the slot, which may be this one.\<close>

definition service_ChangeConnectionForDsds :: "'db world \<Rightarrow> int \<Rightarrow> bool \<Rightarrow> 'db handler \<Rightarrow> 'db handler outcome" where
  "service_ChangeConnectionForDsds W i enable s = (if i = hd_slotId s then ChangeConnectionForDsds W enable s
     else Some (hd_emit [ChangeConnectionForDsds_call i enable] s))"

definition dsds_slot :: "'db world \<Rightarrow> int \<Rightarrow> bool \<Rightarrow> int \<Rightarrow> 'db handler \<Rightarrow> 'db handler outcome" where
  "dsds_slot W mode dataEnabled i s =
     (let defSlotId = DefaultCellularDataSlotId (wE W)
      in if i = CELLULAR_DATA_VSIM_SLOT_ID then Some s
         else if IsTstsModeEnabled (getParameter (wE W)) \<and> i = CELLDATA_SLOT_ID_3 then Some s
         else if defSlotId \<noteq> i \<and> GetDsdsModeForSlots (getParameter (wE W)) defSlotId i mode = DSDS_MODE_V2 (wP W)
         then Some (SetDataPermitted W i False s)
         else service_ChangeConnectionForDsds W i True (if dataEnabled then SetDataPermitted W i True s else s))"

definition HandleDsdsModeChanged :: "'db world \<Rightarrow> int option \<Rightarrow> 'db handler \<Rightarrow> 'db handler outcome" where
  "HandleDsdsModeChanged W object s =
     (case object of
        None \<Rightarrow> Some s
      | Some mode \<Rightarrow>
          if mode = DsdsMode (wE W) then Some s
          else if GetDsdsModeForSlots (getParameter (wE W)) (DefaultCellularDataSlotId (wE W)) (hd_slotId s) mode
                  < DSDS_MODE_V2 (wP W) then Some s
          else case IsCellularDataEnabled W True (hd_emit [SetDsdsMode_call mode] s) of (ret, enabled, s1) \<Rightarrow> do {
            s2 \<leftarrow> foldo (dsds_slot W mode enabled) [0..MaxSimCount (wE W) - 1] s1;
            Some (send_incall MSG_SM_INCALL_DATA_DSDS_CHANGED s2)
          })"

section \<open>SIM card\<close>

definition settings_columns :: "int \<Rightarrow> string list" where
  "settings_columns simId = CELLULAR_DATA_COLUMN_ENABLE # (if simId \<le> INVALID_SIM_ID then []
     else [roaming_column simId, ''intelligence_network_switching'', ''airplane_mode''])"

definition observe_settings :: "'db world \<Rightarrow> bool \<Rightarrow> 'db handler \<Rightarrow> 'db handler" where
  "observe_settings W on s = (let simId = SimIdOf (wE W) (hd_slotId s)
     in hd_emit (map (SettingsObserver on) (settings_columns simId)
          @ (if simId \<le> INVALID_SIM_ID then [] else [RdbObserver on])) s)"

definition RegisterDataSettingObserver :: "'db world \<Rightarrow> 'db handler \<Rightarrow> 'db handler" where
  "RegisterDataSettingObserver W s = observe_settings W True s"

definition UnRegisterDataSettingObserver :: "'db world \<Rightarrow> 'db handler \<Rightarrow> 'db handler" where
  "UnRegisterDataSettingObserver W s = observe_settings W False s"

definition release_request :: "ptr \<Rightarrow> 'db handler \<Rightarrow> 'db handler" where
  "release_request p s = (case p of
     None \<Rightarrow> s
   | Some a \<Rightarrow> (case hd_holders s a of None \<Rightarrow> s | Some h \<Rightarrow> put_holder a (ReleaseAllCellularData h) s))"

definition ReleaseAllNetworkRequest :: "'db handler \<Rightarrow> 'db handler" where
  "ReleaseAllNetworkRequest s = fold release_request (apnHolders (hd_mgr s)) s"

definition unregister_suppliers :: "'db world \<Rightarrow> 'db handler \<Rightarrow> 'db handler" where
  "unregister_suppliers W s = (case UnregisterNetSupplierForSimUpdate (wE W) (hd_slotId s) (hd_agent s) of
     (ag, es) \<Rightarrow> hd_emit (map Eff es) (s \<lparr>hd_agent := ag\<rparr>))"

definition HandleSimStateChanged :: "'db world \<Rightarrow> 'db handler \<Rightarrow> 'db handler outcome" where
  "HandleSimStateChanged W s =
     (let simState = SimStateOf (wE W) (hd_slotId s)
      in if simState = SIM_STATE_READY then
           (if lastIccId s \<noteq> '''' \<and> lastIccId s = SimIccId (wCard W) then EstablishAllApnsIfConnectable W s else Some s)
         else if simState \<noteq> SIM_STATE_LOADED then do {
           s1 \<leftarrow> ClearAllConnections W REASON_CLEAR_CONNECTION (s \<lparr>isSimAccountLoaded := False, isRilApnAttached := False\<rparr>);
           Some (if simState = SIM_STATE_NOT_PRESENT
                 then UnRegisterDataSettingObserver W (ReleaseAllNetworkRequest (unregister_suppliers W s1)) else s1)
         }
         else Some s)"

definition HandleRecordsChanged :: "'db world \<Rightarrow> 'db handler \<Rightarrow> 'db handler outcome" where
  "HandleRecordsChanged W s =
     (let iccId = SimIccId (wCard W)
      in if iccId = '''' then Some s
         else do {
           let s1 = (if iccId \<noteq> lastIccId s
                     then s \<lparr>hd_switch := Switch_SetPolicyDataOn True (hd_switch s), lastIccId := iccId\<rparr> else s);
           s2 \<leftarrow> GetConfigurationFor5G W s1;
           s3 \<leftarrow> CreateApnItem W s2;
           s4 \<leftarrow> SetRilAttachApn W s3;
           s5 \<leftarrow> ClearConnectionsOnUpdateApns W REASON_CHANGE_CONNECTION s4;
           EstablishAllApnsIfConnectable W s5
         })"

definition StopLoadSimAccountTimer :: "'db handler \<Rightarrow> 'db handler" where
  "StopLoadSimAccountTimer s = hd_remove is_retry_account s"

definition StartLoadSimAccountTimer :: "int \<Rightarrow> 'db handler \<Rightarrow> 'db handler" where
  "StartLoadSimAccountTimer n s =
     (if n \<le> 0 then s
      else if \<not> hd_has is_retry_account s then hd_send (MSG_RETRY_TO_LOAD_SIM_ACCOUNT n) LOAD_RETRY_DELAY_TIME s
      else s)"

definition HandleSimAccountLoaded :: "'db world \<Rightarrow> 'db handler \<Rightarrow> 'db handler outcome" where
  "HandleSimAccountLoaded W s0 = do {
     let s1 = unregister_suppliers W (StopLoadSimAccountTimer s0);
     let s2 = (if SimIdOf (wE W) (hd_slotId s1) \<le> INVALID_SIM_ID
               then hd_emit [ReportEventToChr (hd_slotId s1) 2] s1 else s1);
     let (registerRes, ag, es) = RegisterNetSupplier (wP W) (wE W) (hd_slotId s2) (hd_agent s2);
     let s3 = hd_emit (map Eff es) (s2 \<lparr>hd_agent := ag, isSimAccountLoaded := registerRes\<rparr>);
     let s4 = (if hd_slotId s3 = 0 then hd_emit [PolicyCallback False, PolicyCallback True] s3 else s3);
     let s5 = RegisterDataSettingObserver W s4;
     let s6 = s5 \<lparr>hd_switch := LoadSwitchValue (wE W) (wDS W) (hd_db s5) (hd_switch s5)\<rparr>;
     s7 \<leftarrow> CreateApnItem W (hd_emit [ReportEventToChr (hd_slotId s6) 3] s6);
     if DefaultCellularDataSlotId (wE W) = hd_slotId s7 then do {
       s8 \<leftarrow> EstablishAllApnsIfConnectable W s7;
       Some (if registerRes \<and> GetOverallApnState (hd_holders s8) (hd_mgr s8) = PROFILE_STATE_CONNECTED
             then Handler_UpdateNetworkInfo s8 else s8)
     }
     else ClearAllConnections W REASON_CLEAR_CONNECTION s7
   }"

definition is_account_loaded :: "hevent \<Rightarrow> bool" where
  "is_account_loaded ev \<longleftrightarrow> ev = RADIO_SIM_ACCOUNT_LOADED"

definition HandleRetryLoadSimAccount :: "'db world \<Rightarrow> int \<Rightarrow> 'db handler \<Rightarrow> 'db handler outcome" where
  "HandleRetryLoadSimAccount W n s =
     (if SimIdOf (wE W) (hd_slotId s) \<le> INVALID_SIM_ID
      then Some (StartLoadSimAccountTimer (n - 1) (StopLoadSimAccountTimer s))
      else if \<not> isSimAccountLoaded s \<and> \<not> hd_has is_account_loaded s then HandleSimAccountLoaded W s
      else Some s)"

definition OnDataShareReady :: "'db world \<Rightarrow> 'db handler \<Rightarrow> 'db handler" where
  "OnDataShareReady W s =
     (let s1 = RegisterDataSettingObserver W s
      in if \<not> isSimAccountLoaded s1 \<and> \<not> hd_has is_account_loaded s1
         then StartLoadSimAccountTimer LOAD_RETRY_TIMES (StopLoadSimAccountTimer s1) else s1)"

datatype sim_event = RADIO_SIM_STATE_CHANGE | RADIO_SIM_RECORDS_LOADED | RADIO_NV_REFRESH_FINISHED | SIM_ACCOUNT_LOADED

definition HandleSimEvent :: "'db world \<Rightarrow> sim_event \<Rightarrow> int \<Rightarrow> 'db handler \<Rightarrow> 'db handler outcome" where
  "HandleSimEvent W ev slotId s =
     (if slotId \<noteq> hd_slotId s \<and> ev \<noteq> RADIO_NV_REFRESH_FINISHED then Some s
      else
        let s1 = s \<lparr>hd_switch := LoadSwitchValue (wE W) (wDS W) (hd_db s) (hd_switch s)\<rparr>
        in case ev of
             RADIO_SIM_STATE_CHANGE \<Rightarrow> HandleSimStateChanged W s1
           | RADIO_SIM_RECORDS_LOADED \<Rightarrow> HandleRecordsChanged W s1
           | RADIO_NV_REFRESH_FINISHED \<Rightarrow> SetRilAttachApn W s1
           | SIM_ACCOUNT_LOADED \<Rightarrow> HandleSimAccountLoaded W s1)"

section \<open>Event dispatch\<close>

datatype hd_event =
    Own hevent
  | RADIO_PS_CONNECTION_ATTACHED | RADIO_PS_ROAMING_OPEN | RADIO_PS_ROAMING_CLOSE
  | RADIO_EMERGENCY_STATE_OPEN | RADIO_EMERGENCY_STATE_CLOSE
  | MSG_SETTING_SWITCH
  | RADIO_STATE_CHANGED "radio_power option"
  | RADIO_DSDS_MODE_CHANGED "int option"
  | Sim_event sim_event int
  | RADIO_PS_RAT_CHANGED
  | MSG_SET_RIL_ATTACH_APN "int option"
  | HD_NR_STATE_CHANGED | HD_NR_FREQUENCY_CHANGED
  | MSG_DB_SETTING_ROAMING_CHANGED | MSG_DB_SETTING_INCALL_CHANGED int
  | RADIO_RIL_ADAPTER_HOST_DIED
  | RADIO_FACTORY_RESET
  | RADIO_CLEAN_ALL_DATA_CONNECTIONS
  | RADIO_RESIDENT_NETWORK_CHANGE "string option"
  | HD_OTHER nat

definition Handler_ProcessEvent :: "'db world \<Rightarrow> hd_event \<Rightarrow> 'db handler \<Rightarrow> 'db handler outcome" where
  "Handler_ProcessEvent W event s =
     (case event of
        Own ev \<Rightarrow> (case ev of
            MSG_ESTABLISH_DATA_CONNECTION i bear \<Rightarrow> MsgEstablishDataConnection W i bear s
          | MSG_ESTABLISH_DATA_CONNECTION_COMPLETE info \<Rightarrow> EstablishDataConnectionComplete W info s
          | MSG_DISCONNECT_DATA_COMPLETE info \<Rightarrow> DisconnectDataComplete W info s
          | MSG_DATA_CALL_LIST_CHANGED info \<Rightarrow> HandleUpdateNetInfo W info s
          | MSG_RETRY_TO_SETUP_DATACALL i \<Rightarrow> Some (RetryToSetupDatacall i s)
          | MSG_ESTABLISH_ALL_APNS_IF_CONNECTABLE \<Rightarrow> EstablishAllApnsIfConnectable W s
          | MSG_RESUME_DATA_PERMITTED_TIMEOUT b \<Rightarrow> Some (ResumeDataPermittedTimerOut W s)
          | MSG_RETRY_TO_CREATE_APN \<Rightarrow> HandleApnChanged W s
          | MSG_RETRY_TO_LOAD_SIM_ACCOUNT n \<Rightarrow> HandleRetryLoadSimAccount W n s
          | MSG_INCALL_DATA_COMPLETE \<Rightarrow> Some (IncallDataComplete_event s)
          | MSG_MCC_CHANGE_ACTIVATE_DELAY \<Rightarrow> HandleMccChangeDelay W s
          | MSG_REQUEST_NETWORK r ty \<Rightarrow> Some (MsgRequestNetwork W r ty s)
          | RADIO_SIM_ACCOUNT_LOADED \<Rightarrow> HandleSimEvent W SIM_ACCOUNT_LOADED (hd_slotId s) s
          | MSG_APN_CHANGED \<Rightarrow> HandleApnChanged W s
          | MSG_DB_SETTING_ENABLE_CHANGED \<Rightarrow> HandleDBSettingEnableChanged W s)
      | RADIO_PS_CONNECTION_ATTACHED \<Rightarrow> RadioPsConnectionAttached W s
      | RADIO_PS_ROAMING_OPEN \<Rightarrow> RoamingStateOn W s
      | RADIO_PS_ROAMING_CLOSE \<Rightarrow> RoamingStateOff W s
      | RADIO_EMERGENCY_STATE_OPEN \<Rightarrow> PsRadioEmergencyStateOpen W s
      | RADIO_EMERGENCY_STATE_CLOSE \<Rightarrow> PsRadioEmergencyStateClose W s
      | MSG_SETTING_SWITCH \<Rightarrow> Some s
      | RADIO_STATE_CHANGED st \<Rightarrow> HandleRadioStateChanged W st s
      | RADIO_DSDS_MODE_CHANGED m \<Rightarrow> HandleDsdsModeChanged W m s
      | Sim_event ev i \<Rightarrow> HandleSimEvent W ev i s
      | RADIO_PS_RAT_CHANGED \<Rightarrow> PsDataRatChanged W s
      | MSG_SET_RIL_ATTACH_APN n \<Rightarrow> Some (SetRilAttachApnResponse n s)
      | HD_NR_STATE_CHANGED \<Rightarrow> Some (HandleRadioNrStateChanged s)
      | HD_NR_FREQUENCY_CHANGED \<Rightarrow> Some (HandleRadioNrFrequencyChanged s)
      | MSG_DB_SETTING_ROAMING_CHANGED \<Rightarrow> HandleDBSettingRoamingChanged W s
      | MSG_DB_SETTING_INCALL_CHANGED v \<Rightarrow> Some (HandleDBSettingIncallChanged v s)
      | RADIO_RIL_ADAPTER_HOST_DIED \<Rightarrow> Some (OnRilAdapterHostDied W s)
      | RADIO_FACTORY_RESET \<Rightarrow> Some (HandleFactoryReset W s)
      | RADIO_CLEAN_ALL_DATA_CONNECTIONS \<Rightarrow> Some s
      | RADIO_RESIDENT_NETWORK_CHANGE p \<Rightarrow> Some (HandleResidentNetworkChanged W p s)
      | HD_OTHER n \<Rightarrow> Some s)"

section \<open>Callbacks and queries\<close>

definition OnCallStateChanged :: "'db world \<Rightarrow> int \<Rightarrow> int \<Rightarrow> 'db handler \<Rightarrow> 'db handler outcome" where
  "OnCallStateChanged W slotId st s = (if hd_slotId s \<noteq> slotId then Some s else HandleCallChanged W st s)"

definition OnOperatorConfigChanged :: "'db world \<Rightarrow> int \<Rightarrow> 'db handler \<Rightarrow> 'db handler outcome" where
  "OnOperatorConfigChanged W slotId s = (if hd_slotId s \<noteq> slotId then Some s else GetConfigurationFor5G W s)"

definition Handler_HandleScreenStateChanged :: "'db world \<Rightarrow> bool \<Rightarrow> 'db handler \<Rightarrow> 'db handler" where
  "Handler_HandleScreenStateChanged W on s = s \<lparr>hd_monitor := HandleScreenStateChanged (wE W) on (hd_monitor s)\<rparr>"

definition Handler_IsNeedDoRecovery :: "'db world \<Rightarrow> bool \<Rightarrow> 'db handler \<Rightarrow> 'db handler" where
  "Handler_IsNeedDoRecovery W need s = s \<lparr>hd_monitor := IsNeedDoRecovery (wMon W) need (hd_monitor s)\<rparr>"

definition GetCellularDataState :: "'db handler \<Rightarrow> ApnProfileState" where
  "GetCellularDataState s = GetOverallApnState (hd_holders s) (hd_mgr s)"

definition GetCellularDataState_type :: "string \<Rightarrow> 'db handler \<Rightarrow> ApnProfileState" where
  "GetCellularDataState_type ty s = (case deref (hd_holders s) (GetApnHolder (hd_mgr s) ty) of
     None \<Rightarrow> PROFILE_STATE_IDLE | Some h \<Rightarrow> apnState h)"

definition HasInternetCapability :: "'db world \<Rightarrow> int \<Rightarrow> 'db handler \<Rightarrow> bool" where
  "HasInternetCapability W cid s = (case GetActiveConnectionByCid cid (hd_tables s) of
     None \<Rightarrow> False
   | Some m \<Rightarrow> (case hd_machines s m of
       None \<Rightarrow> False | Some d \<Rightarrow> sm_capability d = NC (wP W) NET_CAPABILITY_INTERNET))"

definition GetDataConnApnAttr :: "'db handler \<Rightarrow> Attribute option" where
  "GetDataConnApnAttr s = (case List.map_filter (\<lambda>h. if dataCallEnabled h then deref (hd_items s) (apnItem h) else None)
       (live_holders (hd_holders s) (apnHolders (hd_mgr s))) of
     [] \<Rightarrow> None | it # _ \<Rightarrow> Some (it_attr it))"

definition GetDataConnIpType :: "'db handler \<Rightarrow> string" where
  "GetDataConnIpType s = (case List.map_filter (\<lambda>h. if dataCallEnabled h
         then deref (hd_machines s) (cellularDataStateMachine h) else None)
       (live_holders (hd_holders s) (apnHolders (hd_mgr s))) of
     [] \<Rightarrow> '''' | d # _ \<Rightarrow> sm_ipType d)"

definition IsSupportDunApn :: "'db world \<Rightarrow> 'db handler \<Rightarrow> bool outcome" where
  "IsSupportDunApn W s = do {
     duns \<leftarrow> FetchDunApns (wE W) (hd_items s) (hd_slotId s) (hd_mgr s);
     Some (duns \<noteq> [] \<and> GetOverallDefaultApnState (hd_holders s) (hd_mgr s) = PROFILE_STATE_CONNECTED)
   }"

definition GetCellularDataFlowType :: "'db handler \<Rightarrow> CellDataFlowType" where
  "GetCellularDataFlowType s = dataFlowType (hd_monitor s)"

definition GetDataRecoveryState :: "'db handler \<Rightarrow> RecoveryState" where
  "GetDataRecoveryState s = dataRecoveryState (hd_monitor s)"

definition GetDisConnectionReason :: "'db handler \<Rightarrow> DisConnectionReason" where
  "GetDisConnectionReason s = disconnectionReason s"

definition GetDefaultActReportInfo :: "'db world \<Rightarrow> 'db handler \<Rightarrow> ApnActivateReportInfo \<times> 'db handler" where
  "GetDefaultActReportInfo W s = GetApnActReportInfo W DATA_CONTEXT_ROLE_DEFAULT_ID s"

definition GetInternalActReportInfo :: "'db world \<Rightarrow> 'db handler \<Rightarrow> ApnActivateReportInfo \<times> 'db handler" where
  "GetInternalActReportInfo W s = GetApnActReportInfo W DATA_CONTEXT_ROLE_INTERNAL_DEFAULT_ID s"

text \<open>\<open>HandleApnChanged\<close> without an event asks the handler itself to rebuild its access points.\<close>

definition Handler_ApnChanged :: "'db handler \<Rightarrow> 'db handler" where
  "Handler_ApnChanged s = hd_send MSG_APN_CHANGED 0 s"

text \<open>\<open>Init\<close>: the state after construction.\<close>

definition new_handler :: "'db world \<Rightarrow> int \<Rightarrow> 'db \<Rightarrow> NetAgent \<Rightarrow> 'db handler" where
  "new_handler W slotId db ag =
     (case alloc_item new_ApnItem \<lparr>h_items = Map.empty, h_holders = Map.empty, h_next = 1\<rparr> of (lastItem, hp0) \<Rightarrow>
      case InitApnHolders (hp0, new_ApnManager) of (hp, am) \<Rightarrow>
      \<lparr>hd_slotId = slotId, hd_mgr = am, hd_mem = hp,
       hd_switch = LoadSwitchValue (wE W) (wDS W) db (new_DataSwitchSettings slotId), hd_db = db,
       hd_tables = new_ConnectionTables slotId, hd_machines = Map.empty, hd_nextMachine = 1, hd_agent = ag,
       hd_monitor = new_Monitor slotId, hd_incall = None, lastIccId = '''', lastNumeric = '''', lastMcc = '''',
       lastCallState = CALL_STATUS_IDLE, disconnectionReason = REASON_NORMAL, unMetered = replicate 7 False,
       defaultMobileMtuConfig = 0, defaultPreferApn = True, physicalConnectionActiveState = False,
       multipleConnectionsEnabled = False, defaultDataRoamingEnable = False, isRilApnAttached = False,
       isSimAccountLoaded = False, isHandoverOccurred = False, isMccChanged = False, upLinkThresholds = [],
       downLinkThresholds = [], lastApnItem = lastItem, apnActivateChrList = [], defaultApnActTime = 0,
       internalApnActTime = 0, retryCreateApnTimes = 0, hd_queue = [], hd_fx = []\<rparr>)"

definition Handler_Init :: "'db world \<Rightarrow> int \<Rightarrow> 'db \<Rightarrow> NetAgent \<Rightarrow> 'db handler outcome" where
  "Handler_Init W slotId db ag = do {
     s \<leftarrow> GetConfigurationFor5G W (new_handler W slotId db ag);
     Some (SetRilLinkBandwidths W s)
   }"

end
