(* ===== verification/Role_Table.thy ===== *)
theory Role_Table
  imports Cellular_Constants Prelude
begin

text \<open>
  What the data handler promises about its roles, without the details: a table that gives each role
  the state of its connection and the machine that carries it, and the set of machines. A role gets
  a machine that no other role has when it starts to connect, keeps it until the connection is
  down, and waits between attempts without one.
\<close>

type_synonym roles = "(addr \<rightharpoonup> ApnProfileState \<times> ptr) \<times> addr set"

definition holds_machine :: "ApnProfileState \<Rightarrow> bool" where
  "holds_machine st \<longleftrightarrow> st = PROFILE_STATE_CONNECTING \<or> st = PROFILE_STATE_CONNECTED
     \<or> st = PROFILE_STATE_DISCONNECTING"

inductive role_step :: "roles \<Rightarrow> roles \<Rightarrow> bool" where
  create: "role_step (r, M) (r, insert m M)"
| connect: "r a = Some (PROFILE_STATE_IDLE, None) \<Longrightarrow> m \<in> M \<Longrightarrow> \<forall>b st. r b \<noteq> Some (st, Some m)
    \<Longrightarrow> role_step (r, M) (r(a \<mapsto> (PROFILE_STATE_CONNECTING, Some m)), M)"
| connected: "r a = Some (st, Some m) \<Longrightarrow> role_step (r, M) (r(a \<mapsto> (PROFILE_STATE_CONNECTED, Some m)), M)"
| disconnect: "r a = Some (st, Some m)
    \<Longrightarrow> role_step (r, M) (r(a \<mapsto> (PROFILE_STATE_DISCONNECTING, Some m)), M)"
| down: "r a = Some (st, p) \<Longrightarrow> role_step (r, M) (r(a \<mapsto> (PROFILE_STATE_IDLE, None)), M)"
| retry: "r a = Some (PROFILE_STATE_IDLE, None)
    \<Longrightarrow> role_step (r, M) (r(a \<mapsto> (PROFILE_STATE_RETRYING, None)), M)"

inductive_cases role_stepE: "role_step (r, M) (r', M')"

text \<open>The invariant of the table.\<close>

definition roles_ok :: "roles \<Rightarrow> bool" where
  "roles_ok R \<longleftrightarrow>
     (\<forall>a st p. fst R a = Some (st, p) \<longrightarrow> (p \<noteq> None \<longleftrightarrow> holds_machine st))
   \<and> (\<forall>a st m. fst R a = Some (st, Some m) \<longrightarrow> m \<in> snd R)
   \<and> (\<forall>a b st st' m. fst R a = Some (st, Some m) \<longrightarrow> fst R b = Some (st', Some m) \<longrightarrow> a = b)"

lemma role_step_ok: "role_step R R' \<Longrightarrow> roles_ok R \<Longrightarrow> roles_ok R'"
  by (induction rule: role_step.induct) (fastforce simp: roles_ok_def holds_machine_def split: if_splits)+

lemma role_step_dom: "role_step R R' \<Longrightarrow> dom (fst R') = dom (fst R) \<and> snd R \<subseteq> snd R'"
  by (induction rule: role_step.induct) (auto split: if_splits)

lemma role_steps_ok: "role_step\<^sup>*\<^sup>* R R' \<Longrightarrow> roles_ok R \<Longrightarrow> roles_ok R'"
  by (induction rule: rtranclp_induct) (auto intro: role_step_ok)

lemma role_steps_dom: "role_step\<^sup>*\<^sup>* R R' \<Longrightarrow> dom (fst R') = dom (fst R) \<and> snd R \<subseteq> snd R'"
proof (induction rule: rtranclp_induct)
  case (step y z)
  with role_step_dom [OF step.hyps(2)] show ?case by (metis subset_trans)
qed simp

lemma roles_ok_cases:
  assumes "roles_ok R" "fst R a = Some (st, p)"
  obtains "p = None" "\<not> holds_machine st" | m where "p = Some m" "holds_machine st" "m \<in> snd R"
  using assms unfolding roles_ok_def by (cases p) blast+

end
