(* ===== verification/Handler_Relation.thy ===== *)
theory Handler_Relation
  imports Handler_Events Role_Table
begin

text \<open>
  Reasoning about the data handler by relations. A relation between the state before and after an
  operation that is reflexive, transitive and holds for the elementary updates (locale
  \<open>handler_base\<close>) holds for the operations that take connections down, and if it also holds for
  an attempt to set a connection up (locale \<open>handler_relation\<close>), for every event and every call.
  The refinement of the role table and the guard of connection requests are two such relations.
\<close>

named_theorems ops_app \<open>one more operation\<close>
named_theorems ops_run \<open>one more operation that may fail\<close>

section \<open>Abstraction\<close>

definition hd_roles :: "'db handler \<Rightarrow> roles" where
  "hd_roles s = (\<lambda>a. map_option (\<lambda>h. (apnState h, cellularDataStateMachine h)) (hd_holders s a),
     set (stateMachines (hd_tables s)))"

text \<open>The part of the state that no event changes: the slot and the roles with their tables.\<close>

definition hd_shape :: "'db handler \<Rightarrow> _" where
  "hd_shape s = (hd_slotId s, apnHolders (hd_mgr s), sortedApnHolders (hd_mgr s), apnIdApnHolderMap (hd_mgr s),
     \<lambda>a. map_option (\<lambda>h. (apnType h, priority h)) (hd_holders s a))"

text \<open>A request to a machine to connect.\<close>

definition starts :: "hcall \<Rightarrow> bool" where
  "starts c \<longleftrightarrow> (\<exists>m p. c = Eff (ToMachine m (MSG_SM_CONNECT p)))"

text \<open>A method of a machine that asks no machine to connect.\<close>

definition quiet_call :: "(sm_data \<Rightarrow> sm_data outcome) \<Rightarrow> bool" where
  "quiet_call f \<longleftrightarrow> (\<forall>d d'. f d = Some d' \<longrightarrow> fx d = [] \<longrightarrow> (\<forall>x \<in> set (fx d'). \<not> starts (Eff x)))"

text \<open>The elementary changes of a holder: its candidates or its request only; a connection goes up
  or down under its machine; the machine is given back; an idle role waits for a retry, and a role
  without a connection is idle again.\<close>

definition holder_step :: "ApnHolder \<Rightarrow> ApnHolder \<Rightarrow> bool" where
  "holder_step h h' \<longleftrightarrow> apnType h' = apnType h \<and> priority h' = priority h \<and>
     (apnState h' = apnState h \<and> cellularDataStateMachine h' = cellularDataStateMachine h
    \<or> cellularDataStateMachine h \<noteq> None \<and> cellularDataStateMachine h' = cellularDataStateMachine h
        \<and> (apnState h' = PROFILE_STATE_DISCONNECTING \<or> apnState h' = PROFILE_STATE_CONNECTED)
    \<or> cellularDataStateMachine h' = None \<and> apnState h' = PROFILE_STATE_IDLE
    \<or> apnState h = PROFILE_STATE_IDLE \<and> cellularDataStateMachine h = None
        \<and> cellularDataStateMachine h' = None \<and> apnState h' = PROFILE_STATE_RETRYING
    \<or> \<not> holds_machine (apnState h) \<and> apnState h' = PROFILE_STATE_IDLE
        \<and> cellularDataStateMachine h' = cellularDataStateMachine h)"

text \<open>Updates of a holder that concern its candidates only.\<close>

definition same_role :: "ApnHolder \<Rightarrow> ApnHolder \<Rightarrow> bool" where
  "same_role h h' \<longleftrightarrow> apnType h' = apnType h \<and> priority h' = priority h \<and> apnState h' = apnState h
     \<and> cellularDataStateMachine h' = cellularDataStateMachine h \<and> dataCallEnabled h' = dataCallEnabled h
     \<and> capability h' = capability h"

lemma same_role_refl [simp]: "same_role h h" by (simp add: same_role_def)

lemma same_role_step: "same_role h h' \<Longrightarrow> holder_step h h'" by (simp add: same_role_def holder_step_def)

lemma GetNextRetryApn_same: "GetNextRetryApn items h = Some (p, h') \<Longrightarrow> same_role h h'"
  by (auto simp: GetNextRetryApn_def bind_Some_iff same_role_def)

lemma SetAllMatchedApns_same: "SetAllMatchedApns items ps h = Some h' \<Longrightarrow> same_role h h'"
  by (auto simp: SetAllMatchedApns_def bind_Some_iff same_role_def)

section \<open>Frame facts\<close>

lemma put_holder_simps [simp]:
  "hd_mgr (put_holder a h s) = hd_mgr s" "hd_tables (put_holder a h s) = hd_tables s"
  "hd_machines (put_holder a h s) = hd_machines s" "hd_nextMachine (put_holder a h s) = hd_nextMachine s"
  "hd_slotId (put_holder a h s) = hd_slotId s" "hd_queue (put_holder a h s) = hd_queue s"
  "hd_fx (put_holder a h s) = hd_fx s" "hd_holders (put_holder a h s) = (hd_holders s)(a \<mapsto> h)"
  "hd_items (put_holder a h s) = hd_items s" "hd_switch (put_holder a h s) = hd_switch s"
  "hd_db (put_holder a h s) = hd_db s" "hd_agent (put_holder a h s) = hd_agent s"
  by (simp_all add: put_holder_def)

lemma hd_emit_simps [simp]:
  "hd_mgr (hd_emit cs s) = hd_mgr s" "hd_mem (hd_emit cs s) = hd_mem s" "hd_tables (hd_emit cs s) = hd_tables s"
  "hd_machines (hd_emit cs s) = hd_machines s" "hd_nextMachine (hd_emit cs s) = hd_nextMachine s"
  "hd_slotId (hd_emit cs s) = hd_slotId s" "hd_queue (hd_emit cs s) = hd_queue s"
  "hd_fx (hd_emit cs s) = hd_fx s @ cs" "hd_switch (hd_emit cs s) = hd_switch s"
  "hd_db (hd_emit cs s) = hd_db s" "hd_incall (hd_emit cs s) = hd_incall s" "hd_agent (hd_emit cs s) = hd_agent s"
  by (simp_all add: hd_emit_def)

lemma hd_send_simps [simp]:
  "hd_mgr (hd_send ev t s) = hd_mgr s" "hd_mem (hd_send ev t s) = hd_mem s" "hd_tables (hd_send ev t s) = hd_tables s"
  "hd_machines (hd_send ev t s) = hd_machines s" "hd_nextMachine (hd_send ev t s) = hd_nextMachine s"
  "hd_slotId (hd_send ev t s) = hd_slotId s" "hd_queue (hd_send ev t s) = hd_queue s @ [(ev, t)]"
  "hd_fx (hd_send ev t s) = hd_fx s" "hd_switch (hd_send ev t s) = hd_switch s"
  by (simp_all add: hd_send_def)

lemma hd_remove_simps [simp]:
  "hd_mgr (hd_remove p s) = hd_mgr s" "hd_mem (hd_remove p s) = hd_mem s" "hd_tables (hd_remove p s) = hd_tables s"
  "hd_machines (hd_remove p s) = hd_machines s" "hd_nextMachine (hd_remove p s) = hd_nextMachine s"
  "hd_slotId (hd_remove p s) = hd_slotId s" "hd_fx (hd_remove p s) = hd_fx s"
  by (simp_all add: hd_remove_def)

lemma put_holder_later:
  "put_holder a h (hd_emit cs s) = hd_emit cs (put_holder a h s)"
  "put_holder a h (hd_send ev t s) = hd_send ev t (put_holder a h s)"
  "put_holder a h (put_holder a h' s) = put_holder a h s"
  by (simp_all add: put_holder_def hd_emit_def hd_send_def)

lemma machine_call_frame:
  assumes "machine_call m f s = Some s'"
  shows "hd_holders s' = hd_holders s" "hd_mgr s' = hd_mgr s" "hd_slotId s' = hd_slotId s" "hd_mem s' = hd_mem s"
    "hd_queue s' = hd_queue s" "hd_switch s' = hd_switch s" "hd_tables s' = hd_tables s" "hd_roles s' = hd_roles s"
  using assms by (auto simp: machine_call_def bind_Some_iff hd_roles_def)

lemma starts_simps [simp]:
  "starts (Eff (ToMachine m ev)) \<longleftrightarrow> (\<exists>p. ev = MSG_SM_CONNECT p)"
  "\<not> starts (Eff (ToIncall iv))" "\<not> starts (Eff (Ril r))" "\<not> starts (Eff (Net n))" "\<not> starts (Eff (Ext x))"
  "\<not> starts (Eff (NotifyConnectState i j t))" "\<not> starts (Eff (ToHandler hv i))"
  "\<not> starts (DcPhysicalLinkActiveUpdate i b)" "\<not> starts (ChangeConnectionForDsds_call i b)"
  "\<not> starts (SetDsdsMode_call i)" "\<not> starts (NetDetection i)" "\<not> starts (UpdatePreferApn i j)"
  "\<not> starts (SettingNotified k)" "\<not> starts (PolicyCallback b)" "\<not> starts (SettingsObserver b k)"
  "\<not> starts (RdbObserver b)" "\<not> starts (SetInitApnInfo_call i at)"
  "\<not> starts (SetLinkBandwidthReportingRule_call i t us ds)" "\<not> starts (ResetApns_call i)"
  "\<not> starts (SendDataSwitchChangeInfo b)" "\<not> starts (ReportEventToChr i j)"
  by (auto simp: starts_def)

lemma net_effects [simp]:
  "UpdateNetSupplierInfo e i info ag = (r, ag', es) \<Longrightarrow> x \<in> set es \<Longrightarrow> \<not> starts (Eff x)"
  "x \<in> set (UpdateNetLinkInfo i nl) \<Longrightarrow> \<not> starts (Eff x)"
  "x \<in> set (SetReuseSupplierId i j b) \<Longrightarrow> \<not> starts (Eff x)"
  by (auto simp: UpdateNetSupplierInfo_def UpdateNetLinkInfo_def SetReuseSupplierId_def Let_def split: if_splits)

lemma push_quiet:
  "fx d = [] \<Longrightarrow> \<forall>x \<in> set (fx (push_supplier e i d)). \<not> starts (Eff x)"
  "\<forall>x \<in> set (fx d). \<not> starts (Eff x) \<Longrightarrow> \<forall>x \<in> set (fx (push_link i d)). \<not> starts (Eff x)"
  by (auto simp: push_supplier_def push_link_def emit_def split: prod.splits dest: net_effects)

lemma push_case: "fx d = [] \<Longrightarrow>
  \<forall>x \<in> set (fx (if b then push_link i (push_supplier e i d) else push_supplier e i d)). \<not> starts (Eff x)"
  by (simp add: push_quiet)

lemma quiet_calls [simp]:
  "quiet_call (UpdateHttpProxy P p)"
  "quiet_call (\<lambda>d. Some (d \<lparr>sm_capability := c\<rparr>))"
  "quiet_call (\<lambda>d. Some (SetIfReuseSupplierId P b (SetReuseApnCap c d)))"
  by (auto simp: quiet_call_def UpdateHttpProxy_def emit_def SetIfReuseSupplierId_def SetReuseApnCap_def bind_Some_iff
      dest: net_effects)

lemma quiet_update [simp]: "quiet_call (UpdateNetworkInfo_call P e info)"
  unfolding quiet_call_def
proof (intro allI impI)
  fix d d' :: sm_data assume u: "UpdateNetworkInfo_call P e info d = Some d'" and d: "fx d = []"
  from u have "\<exists>b i D. fx D = fx d \<and> d' = (if b then push_link i (push_supplier e i D) else push_supplier e i D)"
    unfolding UpdateNetworkInfo_call_def bind_Some_iff Let_def option.inject
    by (elim exE conjE) (rule exI, rule exI, rule exI, rule conjI [rotated], erule sym, simp)
  then show "\<forall>x \<in> set (fx d'). \<not> starts (Eff x)" using push_case d by auto
qed

section \<open>Stages of an attempt to connect\<close>

text \<open>When a connection for a role can be requested at all: neither power-save nor airplane mode, and
  except for emergency calls the slot is in service with a SIM card that is ready.\<close>

definition available :: "'db world \<Rightarrow> ApnHolder \<Rightarrow> int \<Rightarrow> bool" where
  "available W h slotId \<longleftrightarrow> \<not> powerSaveMode W \<and> \<not> isAirplaneModeOn W \<and>
     (IsEmergencyType h \<or> PsRegState (wE W) slotId = REG_STATE_IN_SERVICE
        \<and> (SimStateOf (wE W) slotId = SIM_STATE_READY \<or> SimStateOf (wE W) slotId = SIM_STATE_LOADED))"

lemma attach_check_available:
  "CheckAttachAndSimState W h s = (True, s') \<Longrightarrow> IsEmergencyType h \<or> PsRegState (wE W) (hd_slotId s) = REG_STATE_IN_SERVICE
     \<and> (SimStateOf (wE W) (hd_slotId s) = SIM_STATE_READY \<or> SimStateOf (wE W) (hd_slotId s) = SIM_STATE_LOADED)"
  by (auto simp: CheckAttachAndSimState_def IsSimStateReadyOrLoaded_def attached_now_def Let_def split: if_splits)

lemma compatible_frame:
  assumes "CheckForCompatibleDataConnection W h s = Some (p, s')"
  shows "hd_holders s' = hd_holders s" "hd_slotId s' = hd_slotId s"
proof -
  have "s' = snd (roaming_enabled W s)"
    using assms by (cases "roaming_enabled W s") (auto simp: CheckForCompatibleDataConnection_def bind_Some_iff Let_def)
  then show "hd_holders s' = hd_holders s" "hd_slotId s' = hd_slotId s"
    by (simp_all add: roaming_enabled_def IsCellularDataRoamingEnabled_def split: prod.splits)
qed

lemma attach_check_frame:
  "hd_holders (snd (CheckAttachAndSimState W h s)) = hd_holders s"
  "hd_slotId (snd (CheckAttachAndSimState W h s)) = hd_slotId s"
  "hd_switch (snd (CheckAttachAndSimState W h s)) = hd_switch s"
  by (simp_all add: CheckAttachAndSimState_def SetDataPermittedForMms_def Data_Handler.SetDataPermitted_def Let_def)

text \<open>The stages of \<open>EstablishDataConnection\<close>: the item, the shared connection, the machine.\<close>

lemma EstablishDataConnection_cases:
  assumes "EstablishDataConnection W a tech s = Some (b, s')" "hd_holders s a = Some h0"
  obtains (none) h where "same_role h0 h" "s' = put_holder a h s" "\<not> b"
  | (shared) h m s2 where "same_role h0 h"
      "apnType h \<noteq> DATA_CONTEXT_ROLE_DEFAULT" "apnType h \<noteq> DATA_CONTEXT_ROLE_INTERNAL_DEFAULT"
      "CheckForCompatibleDataConnection W h (put_holder a h s) = Some (Some m, s2)"
      "HandleCompatibleDataConnection W m a s2 = Some (b, s')"
  | (refused) h s2 where "same_role h0 h" "s2 = put_holder a h s \<or> CheckForCompatibleDataConnection W h (put_holder a h s) = Some (None, s2)" "choose_machine W h tech s2 = Some (None, s')" "\<not> b"
  | (started) apn h m s2 s3 where "same_role h0 h" "s2 = put_holder a h s \<or> CheckForCompatibleDataConnection W h (put_holder a h s) = Some (None, s2)"
      "choose_machine W h tech s2 = Some (Some m, s3)" "start_connection W a m apn tech s3 = Some s'" "b"
proof -
  from assms obtain preferred apn h where
    sel: "(if preferred = None then GetNextRetryApn (hd_items s) h0 else Some (preferred, h0)) = Some (apn, h)"
    and rest: "(if apn = None then Some (False, put_holder a h s) else
       Option.bind (if apnType h \<noteq> DATA_CONTEXT_ROLE_DEFAULT \<and> apnType h \<noteq> DATA_CONTEXT_ROLE_INTERNAL_DEFAULT
                    then CheckForCompatibleDataConnection W h (put_holder a h s) else Some (None, put_holder a h s))
         (\<lambda>(shared, s2). case shared of
            Some m \<Rightarrow> HandleCompatibleDataConnection W m a s2
          | None \<Rightarrow> Option.bind (choose_machine W h tech s2) (\<lambda>(chosen, s3). case chosen of
              None \<Rightarrow> Some (False, s3)
            | Some m \<Rightarrow> Option.bind (start_connection W a m apn tech s3) (\<lambda>s4. Some (True, s4))))) = Some (b, s')"
    by (auto simp: EstablishDataConnection_def bind_Some_iff Let_def)
  have h: "same_role h0 h" using sel GetNextRetryApn_same by (auto split: if_splits)
  show ?thesis
  proof (cases "apn = None")
    case True
    with rest h none show ?thesis by simp
  next
    case False
    with rest obtain sh s2 where
      sh: "(if apnType h \<noteq> DATA_CONTEXT_ROLE_DEFAULT \<and> apnType h \<noteq> DATA_CONTEXT_ROLE_INTERNAL_DEFAULT
            then CheckForCompatibleDataConnection W h (put_holder a h s) else Some (None, put_holder a h s)) = Some (sh, s2)"
      and r2: "(case sh of
            Some m \<Rightarrow> HandleCompatibleDataConnection W m a s2
          | None \<Rightarrow> Option.bind (choose_machine W h tech s2) (\<lambda>(chosen, s3). case chosen of
              None \<Rightarrow> Some (False, s3)
            | Some m \<Rightarrow> Option.bind (start_connection W a m apn tech s3) (\<lambda>s4. Some (True, s4)))) = Some (b, s')"
      by (auto simp: bind_Some_iff)
    show ?thesis
    proof (cases sh)
      case (Some m)
      with sh r2 h shared [of h m s2] show ?thesis by (auto split: if_splits)
    next
      case None
      have k: "s2 = put_holder a h s \<or> CheckForCompatibleDataConnection W h (put_holder a h s) = Some (None, s2)"
        using sh None by (auto split: if_splits)
      from None r2 obtain chosen s3 where c: "choose_machine W h tech s2 = Some (chosen, s3)"
        and r3: "(case chosen of None \<Rightarrow> Some (False, s3)
            | Some m \<Rightarrow> Option.bind (start_connection W a m apn tech s3) (\<lambda>s4. Some (True, s4))) = Some (b, s')"
        by (auto simp: bind_Some_iff)
      show ?thesis
      proof (cases chosen)
        case None
        with c r3 h k refused [of h s2] show ?thesis by simp
      next
        case (Some m)
        with c r3 h k started [of h s2 m s3 apn] show ?thesis by (auto simp: bind_Some_iff)
      qed
    qed
  qed
qed

lemma multi_same_default:
  assumes "CheckMultiApnState h s = Some (d, s')" "hd_holders s a = Some h0" "apnType h0 = apnType h"
  shows "hd_holders s' a = Some h0" "hd_slotId s' = hd_slotId s"
proof -
  have "hd_holders (snd st) a = Some h0 \<and> hd_slotId (snd st) = hd_slotId s"
    if "foldo multi_one ps (False, s) = Some st" "apnType h0 = DATA_CONTEXT_ROLE_DEFAULT" for ps st
  proof (rule foldo_invariant [OF that(1)])
    show "hd_holders (snd (False, s)) a = Some h0 \<and> hd_slotId (snd (False, s)) = hd_slotId s" using assms(2) by simp
    fix x t t' assume "hd_holders (snd t) a = Some h0 \<and> hd_slotId (snd t) = hd_slotId s" "multi_one x t = Some t'"
    then show "hd_holders (snd t') a = Some h0 \<and> hd_slotId (snd t') = hd_slotId s"
      using that(2)
      by (cases t; cases x) (auto simp: multi_one_def bind_Some_iff IsMultiDefaultApn_def release_holder_def
          split: if_splits option.splits prod.splits)
  qed
  with assms show "hd_holders s' a = Some h0" "hd_slotId s' = hd_slotId s"
    by (fastforce simp: CheckMultiApnState_def split: if_splits)+
qed

lemma AttemptEstablish_cases:
  assumes "AttemptEstablishDataConnection W p s = Some s'"
  obtains (idle) "s' = s" | (attach) h where "s' = snd (CheckAttachAndSimState W h s)"
  | (check) a h s1 where "p = Some a" "hd_holders s a = Some h" "\<not> powerSaveMode W" "\<not> isAirplaneModeOn W"
      "CheckAttachAndSimState W h s = (True, s1)"
      "CheckApnState W a s1 = Some (False, s')"
  | (go) a h s1 s2 b s3 fin s4 where "p = Some a" "hd_holders s a = Some h" "\<not> powerSaveMode W" "\<not> isAirplaneModeOn W"
      "CheckCellularDataSlotId W h s" "CheckAttachAndSimState W h s = (True, s1)" "CheckRoamingState W h s1"
      "CheckApnState W a s1 = Some (True, s2)" "CheckMultiApnState h s2 = Some (b, s3)"
      "EstablishDataConnection W a (PsRadioTech (wE W) (hd_slotId s3)) s3 = Some (fin, s4)"
      "s' = (if fin then s4 \<lparr>isHandoverOccurred := False\<rparr> else s4)"
proof (cases "powerSaveMode W \<or> isAirplaneModeOn W \<or> p = None")
  case True
  then have "s' = s" using assms by (auto simp: AttemptEstablishDataConnection_def split: if_splits)
  then show ?thesis by (rule idle)
next
  case False
  then obtain a where p: "p = Some a" by auto
  from False p assms obtain h where h: "hd_holders s a = Some h"
    by (auto simp: AttemptEstablishDataConnection_def bind_Some_iff)
  show ?thesis
  proof (cases "CheckCellularDataSlotId W h s")
    case False
    then have "s' = s" using \<open>\<not> (powerSaveMode W \<or> isAirplaneModeOn W \<or> p = None)\<close> p h assms
      by (simp add: AttemptEstablishDataConnection_def)
    then show ?thesis by (rule idle)
  next
    case slot: True
    obtain ok s1 where a1: "CheckAttachAndSimState W h s = (ok, s1)" by (cases "CheckAttachAndSimState W h s")
    note A = assms [unfolded AttemptEstablishDataConnection_def]
    show ?thesis
    proof (cases "ok \<and> CheckRoamingState W h s1")
      case False
      then have "s' = snd (CheckAttachAndSimState W h s)"
        using \<open>\<not> (powerSaveMode W \<or> isAirplaneModeOn W \<or> p = None)\<close> p h slot a1 A by auto
      then show ?thesis by (rule attach)
    next
      case True
      with \<open>\<not> (powerSaveMode W \<or> isAirplaneModeOn W \<or> p = None)\<close> p h slot a1 A obtain ready s2 where
        c: "CheckApnState W a s1 = Some (ready, s2)"
        and r: "(if \<not> ready then Some s2 else Option.bind (CheckMultiApnState h s2) (\<lambda>(busy, s3).
            Option.bind (EstablishDataConnection W a (PsRadioTech (wE W) (hd_slotId s3)) s3)
              (\<lambda>(done', s4). Some (if done' then s4 \<lparr>isHandoverOccurred := False\<rparr> else s4)))) = Some s'"
        by (auto simp: bind_Some_iff)
      from False have np: "\<not> powerSaveMode W" "\<not> isAirplaneModeOn W" by auto
      show ?thesis
      proof (cases ready)
        case False
        with r c p h np a1 True check [of a h s1] show ?thesis by simp
      next
        case rd: True
        then obtain b s3 where m: "CheckMultiApnState h s2 = Some (b, s3)"
          and e: "Option.bind (EstablishDataConnection W a (PsRadioTech (wE W) (hd_slotId s3)) s3)
              (\<lambda>(done', s4). Some (if done' then s4 \<lparr>isHandoverOccurred := False\<rparr> else s4)) = Some s'"
          using r by (cases "CheckMultiApnState h s2") auto
        from e obtain d s4 where "EstablishDataConnection W a (PsRadioTech (wE W) (hd_slotId s3)) s3 = Some (d, s4)"
          "s' = (if d then s4 \<lparr>isHandoverOccurred := False\<rparr> else s4)"
          by (cases "EstablishDataConnection W a (PsRadioTech (wE W) (hd_slotId s3)) s3") auto
        with go [of a h s1 s2 b s3 d s4] m c rd p h np a1 True slot show ?thesis by simp
      qed
    qed
  qed
qed

section \<open>Elementary relations\<close>

locale handler_base =
  fixes W :: "'db world" and R :: "'db handler \<Rightarrow> 'db handler \<Rightarrow> bool"
  assumes R_refl: "R s s"
    and R_trans: "R s t \<Longrightarrow> R t u \<Longrightarrow> R s u"
    and R_frame: "hd_roles s' = hd_roles s \<Longrightarrow> hd_shape s' = hd_shape s
      \<Longrightarrow> stateMachines (hd_tables s') = stateMachines (hd_tables s) \<Longrightarrow> dom (hd_machines s') = dom (hd_machines s)
      \<Longrightarrow> hd_nextMachine s' = hd_nextMachine s \<Longrightarrow> hd_fx s' = hd_fx s \<Longrightarrow> R s s'"
    and R_emit: "(\<And>c. c \<in> set cs \<Longrightarrow> \<not> starts c) \<Longrightarrow> R s (hd_emit cs s)"
    and R_machine: "machine_call m f s = Some s' \<Longrightarrow> quiet_call f \<Longrightarrow> R s s'"
    and R_put: "hd_holders s a = Some h \<Longrightarrow> holder_step h h' \<Longrightarrow> R s (put_holder a h' s)"
begin

lemma R_same:
  assumes "hd_slotId s' = hd_slotId s" "hd_mgr s' = hd_mgr s" "hd_holders s' = hd_holders s"
    "stateMachines (hd_tables s') = stateMachines (hd_tables s)"
    "hd_machines s' = hd_machines s" "hd_nextMachine s' = hd_nextMachine s" "hd_fx s' = hd_fx s"
  shows "R s s'"
  using assms by (intro R_frame) (simp_all add: hd_roles_def hd_shape_def)

lemma then_op: "(\<And>t. R t (f t)) \<Longrightarrow> R s t \<Longrightarrow> R s (f t)"
  by (blast intro: R_trans)

lemma foldo_ops:
  assumes "foldo f xs s = Some s'" "\<And>x t t'. x \<in> set xs \<Longrightarrow> f x t = Some t' \<Longrightarrow> R t t'"
  shows "R s s'"
  using assms
proof (induction xs arbitrary: s)
  case (Cons x xs)
  from Cons.prems(1) obtain t where t: "f x s = Some t" "foldo f xs t = Some s'" by (auto simp: bind_Some_iff)
  have "R s t" using Cons.prems(2) [OF _ t(1)] by simp
  moreover have "R t s'" by (rule Cons.IH [OF t(2)]) (use Cons.prems(2) in auto)
  ultimately show ?case by (rule R_trans)
qed (simp add: R_refl)

lemma fold_ops: "(\<And>x t. R t (f x t)) \<Longrightarrow> R s (fold f xs s)"
  by (induction xs arbitrary: s) (auto intro: R_trans R_refl)

subsection \<open>Fields\<close>

lemma fields [ops_app]:
  assumes "R s t"
  shows "R s (t \<lparr>hd_switch := sw\<rparr>)" "R s (t \<lparr>isMccChanged := b\<rparr>)"
    "R s (t \<lparr>isSimAccountLoaded := b\<rparr>)" "R s (t \<lparr>isRilApnAttached := b\<rparr>)"
    "R s (t \<lparr>hd_agent := ag\<rparr>)" "R s (t \<lparr>hd_monitor := mo\<rparr>)"
    "R s (t \<lparr>hd_incall := ic\<rparr>)" "R s (t \<lparr>lastIccId := str\<rparr>)"
    "R s (t \<lparr>lastMcc := str\<rparr>)" "R s (t \<lparr>lastNumeric := str\<rparr>)"
    "R s (t \<lparr>lastCallState := i\<rparr>)" "R s (t \<lparr>disconnectionReason := r\<rparr>)"
    "R s (t \<lparr>defaultDataRoamingEnable := b\<rparr>)" "R s (t \<lparr>retryCreateApnTimes := i\<rparr>)"
    "R s (t \<lparr>unMetered := bs\<rparr>)" "R s (t \<lparr>hd_db := db\<rparr>)"
    "R s (t \<lparr>isHandoverOccurred := b\<rparr>)" "R s (t \<lparr>upLinkThresholds := ss\<rparr>)"
    "R s (t \<lparr>downLinkThresholds := ss\<rparr>)" "R s (t \<lparr>defaultMobileMtuConfig := i\<rparr>)"
    "R s (t \<lparr>defaultPreferApn := b\<rparr>)" "R s (t \<lparr>multipleConnectionsEnabled := b\<rparr>)"
    "R s (t \<lparr>physicalConnectionActiveState := b\<rparr>)" "R s (t \<lparr>lastApnItem := p\<rparr>)"
    "R s (t \<lparr>apnActivateChrList := cs\<rparr>)" "R s (t \<lparr>defaultApnActTime := i\<rparr>)"
    "R s (t \<lparr>internalApnActTime := i\<rparr>)"
  by (rule R_trans [OF assms], rule R_same; simp)+

lemma tables_app [ops_app]: "R s t \<Longrightarrow> stateMachines tb = stateMachines (hd_tables t)
    \<Longrightarrow> R s (t \<lparr>hd_tables := tb\<rparr>)"
  by (erule R_trans) (rule R_same; simp)

lemma mem_app [ops_app]: "R s t \<Longrightarrow> h_holders hp = hd_holders t \<Longrightarrow> R s (t \<lparr>hd_mem := hp\<rparr>)"
  by (erule R_trans) (rule R_same; simp)

lemma emit_app [ops_app]: "R s t \<Longrightarrow> (\<And>c. c \<in> set cs \<Longrightarrow> \<not> starts c) \<Longrightarrow> R s (hd_emit cs t)"
  by (blast intro: R_trans R_emit)

lemma send_app [ops_app]: "R s t \<Longrightarrow> R s (hd_send ev d t)" by (erule R_trans) (rule R_same; simp)

lemma remove_app [ops_app]: "R s t \<Longrightarrow> R s (hd_remove p t)" by (erule R_trans) (rule R_same; simp)

lemma if_app [ops_app]: "R s t \<Longrightarrow> R s u \<Longrightarrow> R s (if b then t else u)" by simp

lemma put_app: "R s t \<Longrightarrow> hd_holders t a = Some h \<Longrightarrow> holder_step h h' \<Longrightarrow> R s (put_holder a h' t)"
  by (blast intro: R_trans R_put)

lemma machine_app [ops_run]: "machine_call m f t = Some u \<Longrightarrow> R s t \<Longrightarrow> quiet_call f \<Longrightarrow> R s u"
  by (blast intro: R_trans R_machine)

declare R_refl [simp, ops_app]

subsection \<open>Operations without a connection\<close>

lemma notify_app [ops_app]: "R s t \<Longrightarrow> R s (UpdateCellularDataConnectState W ty t)"
  by (auto simp: UpdateCellularDataConnectState_def StateNotification_UpdateCellularDataConnectState_def intro: emit_app)

lemma flow_app [ops_app]: "R s t \<Longrightarrow> R s (ResetDataFlowType t)" "R s t \<Longrightarrow> R s (stop_monitor t)"
  "R s t \<Longrightarrow> R s (start_monitor W t)"
  by (auto simp: ResetDataFlowType_def stop_monitor_def start_monitor_def intro: fields)

lemma permit_app [ops_app]: "R s t \<Longrightarrow> R s (Data_Handler.SetDataPermitted W i b t)"
  by (auto simp: Data_Handler.SetDataPermitted_def intro: emit_app)

lemma permit_mms_app [ops_app]: "R s t \<Longrightarrow> R s (snd (SetDataPermittedForMms W b t))"
  by (auto simp: SetDataPermittedForMms_def Let_def intro!: emit_app permit_app)

lemma apn_info_app [ops_app]: "R s t \<Longrightarrow> R s (UpdateApnInfo W i t)"
  by (auto simp: UpdateApnInfo_def Let_def intro!: emit_app split: option.splits)

lemma reads [ops_run]:
  "roaming_enabled W t = (b, u) \<Longrightarrow> R s t \<Longrightarrow> R s u"
  "IsSingleConnectionEnabled W tech t = (b, u) \<Longrightarrow> R s t \<Longrightarrow> R s u"
  by (auto simp: roaming_enabled_def IsCellularDataRoamingEnabled_def IsSingleConnectionEnabled_def
      GetSinglePdpEnabledFromOpCfg_def Let_def intro: fields split: prod.splits option.splits if_splits)

lemma attach_check_app [ops_app]: "R s t \<Longrightarrow> R s (snd (CheckAttachAndSimState W h t))"
  by (auto simp: CheckAttachAndSimState_def Let_def intro!: permit_mms_app send_app)

lemma act_start_app [ops_app]: "R s t \<Longrightarrow> R s (SetApnActivateStart W ty t)"
  by (auto simp: SetApnActivateStart_def Let_def intro: fields)

subsection \<open>Taking connections down\<close>

lemma clear_app [ops_app]: "R s t \<Longrightarrow> R s (ClearConnection p reason t)"
  by (auto simp: ClearConnection_def holder_step_def intro!: emit_app put_app split: option.splits)

lemma release_app [ops_app]: "R s t \<Longrightarrow> R s (release_holder a t)"
  by (auto simp: release_holder_def ReleaseDataConnection_def holder_step_def intro!: emit_app put_app split: option.splits)

lemma clear_all_app [ops_run]:
  assumes "ClearAllConnections W reason t = Some u" "R s t"
  shows "R s u"
proof -
  let ?t = "if isHandoverOccurred t then DeactivatePdpAfterHandover t else t"
  have t: "R s ?t" using assms(2) by (auto simp: DeactivatePdpAfterHandover_def intro: emit_app)
  show ?thesis
  proof (cases "isHandoverOccurred t \<and> \<not> deactivateAllResult W")
    case True
    with assms(1) t show ?thesis by (simp add: ClearAllConnections_def)
  next
    case False
    with assms(1) obtain v where v: "foldo (clear_one reason) (apnHolders (hd_mgr ?t)) (?t \<lparr>isHandoverOccurred := False\<rparr>) = Some v"
      "u = ResetDataFlowType (stop_monitor v)"
      by (auto simp: ClearAllConnections_def Let_def bind_Some_iff)
    have c: "R x y" if "clear_one reason q x = Some y" for q x y
      using that unfolding clear_one_def bind_Some_iff by (auto intro: ops_app)
    have "R (?t \<lparr>isHandoverOccurred := False\<rparr>) v" using v(1) by (rule foldo_ops) (rule c)
    then have "R s v" by (rule R_trans [OF fields(17) [OF t]])
    then show ?thesis unfolding v(2) by (intro flow_app)
  qed
qed

subsection \<open>Preparing a connection\<close>

lemma CheckApnState_spec:
  assumes "CheckApnState W a s = Some (ready, s')" "hd_holders s a = Some h"
  shows "R s s'" "hd_slotId s' = hd_slotId s"
    "ready \<Longrightarrow> \<exists>h'. hd_holders s' a = Some h' \<and> apnState h' = PROFILE_STATE_IDLE \<and> apnType h' = apnType h
       \<and> priority h' = priority h \<and> dataCallEnabled h' = dataCallEnabled h \<and> capability h' = capability h
       \<and> (apnState h = PROFILE_STATE_IDLE \<or> apnState h = PROFILE_STATE_FAILED) \<and> hd_fx s' = hd_fx s"
proof -
  let ?h1 = "if apnState h = PROFILE_STATE_FAILED then SetApnState PROFILE_STATE_IDLE h else h"
  let ?s1 = "put_holder a ?h1 s"
  have k1: "R s ?s1"
    by (intro R_put [OF assms(2)]) (simp add: holder_step_def holds_machine_def)
  have h1: "hd_holders ?s1 a = Some ?h1" by simp
  from assms consider
      (wait) "s' = hd_send (MSG_ESTABLISH_DATA_CONNECTION (FindApnIdByApnName (apnType h)) None)
                ESTABLISH_DATA_CONNECTION_DELAY s" "\<not> ready"
    | (retry) "s' = s" "\<not> ready"
    | (stop) "s' = ?s1" "\<not> ready"
    | (go) h2 found where "ready" "SetAllMatchedApns (hd_items ?s1) found ?h1 = Some h2" "s' = put_holder a h2 ?s1"
        "apnState ?h1 = PROFILE_STATE_IDLE"
    by (auto simp: CheckApnState_def bind_Some_iff Let_def split: if_splits)
  then show "R s s'" "hd_slotId s' = hd_slotId s"
    "ready \<Longrightarrow> \<exists>h'. hd_holders s' a = Some h' \<and> apnState h' = PROFILE_STATE_IDLE \<and> apnType h' = apnType h
       \<and> priority h' = priority h \<and> dataCallEnabled h' = dataCallEnabled h \<and> capability h' = capability h
       \<and> (apnState h = PROFILE_STATE_IDLE \<or> apnState h = PROFILE_STATE_FAILED) \<and> hd_fx s' = hd_fx s"
  proof (atomize (full), cases)
    case (go h2 found)
    have sr: "same_role ?h1 h2" using go(2) by (rule SetAllMatchedApns_same)
    have "R s s'" unfolding go(3) using k1 R_put [OF h1 same_role_step [OF sr]] by (rule R_trans)
    moreover have "hd_holders s' a = Some h2" unfolding go(3) by simp
    moreover have "apnState h2 = PROFILE_STATE_IDLE" "apnType h2 = apnType h" "priority h2 = priority h"
        "dataCallEnabled h2 = dataCallEnabled h" "capability h2 = capability h"
        "apnState h = PROFILE_STATE_IDLE \<or> apnState h = PROFILE_STATE_FAILED"
      using sr go(4) by (auto simp: same_role_def split: if_splits)
    ultimately show "R s s' \<and> hd_slotId s' = hd_slotId s \<and>
      (ready \<longrightarrow> (\<exists>h'. hd_holders s' a = Some h' \<and> apnState h' = PROFILE_STATE_IDLE \<and> apnType h' = apnType h
       \<and> priority h' = priority h \<and> dataCallEnabled h' = dataCallEnabled h \<and> capability h' = capability h
       \<and> (apnState h = PROFILE_STATE_IDLE \<or> apnState h = PROFILE_STATE_FAILED) \<and> hd_fx s' = hd_fx s))"
      unfolding go(3) by auto
  qed (use k1 in \<open>auto intro!: send_app\<close>)
qed

lemma multi_app [ops_run]:
  assumes "CheckMultiApnState h t = Some (d, u)" "R s t"
  shows "R s u"
proof -
  have one: "R x y" if "multi_one p (c, x) = Some (c', y)" for p c x c' y
    using that by (auto simp: multi_one_def bind_Some_iff split: if_splits option.splits intro!: release_app)
  have "R s (snd st)" if "foldo multi_one ps st0 = Some st" "R s (snd st0)" for ps st0 st
    using that
  proof (rule foldo_invariant)
    fix x t t' assume "R s (snd t)" "multi_one x t = Some t'"
    then show "R s (snd t')" by (metis one R_trans prod.collapse)
  qed
  from this [of _ "(False, t)" "(d, u)"] assms show ?thesis
    by (auto simp: CheckMultiApnState_def split: if_splits)
qed

lemma compatible_app [ops_run]:
  assumes "CheckForCompatibleDataConnection W h t = Some (p, u)" "R s t"
  shows "R s u"
proof -
  have "u = snd (roaming_enabled W t)"
    using assms(1) by (cases "roaming_enabled W t") (auto simp: CheckForCompatibleDataConnection_def bind_Some_iff Let_def)
  with reads(1) [OF prod.collapse [symmetric] assms(2)] show ?thesis by simp
qed

lemma share_app [ops_run]:
  assumes "HandleCompatibleDataConnection W m a t = Some (b, u)" "R s t"
  shows "R s u"
  using assms
  by (auto simp: HandleCompatibleDataConnection_def bind_Some_iff ReleaseAllCellularData_def holder_step_def
      split: if_splits intro!: send_app) (erule machine_app, auto simp: holder_step_def intro!: put_app)

lemma choose_none [ops_run]:
  assumes "choose_machine W h tech t = Some (None, u)" "R s t"
  shows "R s u"
proof -
  have "R s (snd (IsSingleConnectionEnabled W tech t))" using reads(2) [OF prod.collapse [symmetric] assms(2)] .
  with assms(1) show ?thesis
    by (auto simp: choose_machine_def bind_Some_iff split: prod.splits if_splits option.splits intro: clear_all_app)
qed

end

section \<open>Relations that hold for an attempt to connect\<close>

locale handler_relation = handler_base W R for W :: "'db world" and R :: "'db handler \<Rightarrow> 'db handler \<Rightarrow> bool" +
  assumes R_connect: "choose_machine W h tech s = Some (Some m, t) \<Longrightarrow> start_connection W a m apn tech t = Some u
      \<Longrightarrow> hd_holders s a = Some h \<Longrightarrow> apnState h = PROFILE_STATE_IDLE \<Longrightarrow> available W h (hd_slotId s) \<Longrightarrow> R s u"
begin

lemma establish_app:
  assumes "EstablishDataConnection W a tech t = Some (b, u)" "hd_holders t a = Some h0"
    and "apnState h0 = PROFILE_STATE_IDLE" "available W h0 (hd_slotId t)" "R s t"
  shows "R s u"
  using assms(1,2)
proof (cases rule: EstablishDataConnection_cases)
  case (none h)
  then show ?thesis using put_app [OF assms(5,2) same_role_step] by simp
next
  case (shared h m s2)
  then show ?thesis using put_app [OF assms(5,2) same_role_step] compatible_app share_app by blast
next
  case (refused h s2)
  then show ?thesis using put_app [OF assms(5,2) same_role_step] compatible_app choose_none by blast
next
  case (started apn h m s2 s3)
  have k: "R s s2" using started(1,2) put_app [OF assms(5,2) same_role_step] compatible_app by blast
  have f: "hd_holders s2 a = Some h" "hd_slotId s2 = hd_slotId t"
    using started(2) by (auto simp: compatible_frame)
  have "R s2 u"
    using started(1) f assms(3,4) by (intro R_connect [OF started(3,4)]) (auto simp: same_role_def available_def IsEmergencyType_def)
  with k show ?thesis by (rule R_trans)
qed

lemma attempt_app [ops_run]:
  assumes "AttemptEstablishDataConnection W p t = Some u" "R s t"
  shows "R s u"
  using assms(1)
proof (cases rule: AttemptEstablish_cases)
  case idle
  with assms(2) show ?thesis by simp
next
  case (attach h)
  then show ?thesis using attach_check_app [OF assms(2)] by simp
next
  case (check a h s1)
  have "R s s1" "hd_holders s1 a = Some h"
    using attach_check_app [OF assms(2), of h] attach_check_frame(1) [of W h t] check(2,5) by simp_all
  with CheckApnState_spec(1) [OF check(6)] show ?thesis by (blast intro: R_trans)
next
  case (go a h s1 s2 b s3 fin s4)
  have s1: "R s s1" "hd_holders s1 a = Some h" "hd_slotId s1 = hd_slotId t"
    using attach_check_app [OF assms(2), of h] attach_check_frame [of W h t] go(2,6) by simp_all
  note k2 = CheckApnState_spec [OF go(8) s1(2)]
  from k2(3) obtain h' where h': "hd_holders s2 a = Some h'" "apnState h' = PROFILE_STATE_IDLE" "apnType h' = apnType h"
    by auto
  note m = multi_same_default [OF go(9) h'(1,3)]
  have "R s s3" using multi_app [OF go(9) R_trans [OF s1(1) k2(1)]] .
  moreover have "available W h' (hd_slotId s3)"
    using attach_check_available [OF go(6)] go(3,4) k2(2) s1(3) m(2) h'(3) by (auto simp: available_def IsEmergencyType_def)
  ultimately have "R s s4" using establish_app [OF go(10) m(1) h'(2)] by blast
  then show ?thesis unfolding go(11) by (intro if_app fields)
qed

end

end
