(* ===== verification/Handler_Steps.thy ===== *)
theory Handler_Steps
  imports Handler_Relation
begin

text \<open>
  A relation of the locale \<open>handler_relation\<close> holds for every event of the data handler, every
  callback and every call of the controller. The rules of the collections \<open>ops_app\<close> (by the last
  operation) and \<open>ops_run\<close> (by the equation of the last operation that may fail) extend a sequence
  of operations by one more.
\<close>

lemma DisconnectDataComplete_cases:
  assumes "DisconnectDataComplete W info s = Some s'"
  obtains (none) "FindApnHolderById (hd_mgr s) (sd_flag info) = None" "s' = s"
  | (idle) a h where "FindApnHolderById (hd_mgr s) (sd_flag info) = Some a" "hd_holders s a = Some h"
      "cellularDataStateMachine h = None" "s' = put_holder a (SetApnState PROFILE_STATE_IDLE h) s"
  | (down) a h m reason s1 d s3 s4 s5 s7 where
      "FindApnHolderById (hd_mgr s) (sd_flag info) = Some a" "hd_holders s a = Some h"
      "reason = ConvertPdpErrorToDisconnReason (wP W) (wProps W) (ext_convertPdpError (wE W)) (sd_reason info)"
      "cellularDataStateMachine h = Some m"
      "machine_call m (UpdateNetworkInfo_call (wP W) (wE W) info) s = Some s1" "hd_machines s1 m = Some d"
      "s3 = put_holder a (SetApnState PROFILE_STATE_IDLE (SetCellularDataStateMachine None h))
         (s1 \<lparr>hd_tables := RemoveActiveConnectionByCid (sm_cid d) (hd_tables s1)\<rparr>)"
      "s4 = UpdatePhysicalConnectionState (isNoActiveConnection (hd_tables s3))
         (UpdateCellularDataConnectState W (apnType h) s3)"
      "(if dataCallEnabled h then RetryOrClearConnection W a reason info s4
        else Some (NotifyReqCellularData W False s4)) = Some s5"
      "(if reason = REASON_CHANGE_CONNECTION then HandleSortConnection (HandleIncallDataDisconnectComplete s5)
        else Some (HandleIncallDataDisconnectComplete s5)) = Some s7"
      "s' = HandleDisconnectDataCompleteForMmsType W h s7"
proof (cases "FindApnHolderById (hd_mgr s) (sd_flag info)")
  case None
  moreover have "s' = s" using assms unfolding DisconnectDataComplete_def None by simp
  ultimately show ?thesis by (rule none)
next
  case (Some a)
  with assms obtain h where h: "hd_holders s a = Some h" by (auto simp: DisconnectDataComplete_def bind_Some_iff)
  show ?thesis
  proof (cases "cellularDataStateMachine h")
    case None
    moreover have "s' = put_holder a (SetApnState PROFILE_STATE_IDLE h) s"
      using assms h unfolding DisconnectDataComplete_def Some by (simp add: None Let_def)
    ultimately show ?thesis using idle [OF Some h] by blast
  next
    case m: (Some m)
    define reason where "reason = ConvertPdpErrorToDisconnReason (wP W) (wProps W) (ext_convertPdpError (wE W)) (sd_reason info)"
    from assms Some h m obtain s1 d where s1: "machine_call m (UpdateNetworkInfo_call (wP W) (wE W) info) s = Some s1"
      "hd_machines s1 m = Some d"
      by (auto simp: DisconnectDataComplete_def Let_def bind_Some_iff)
    define s3 where "s3 = put_holder a (SetApnState PROFILE_STATE_IDLE (SetCellularDataStateMachine None h))
         (s1 \<lparr>hd_tables := RemoveActiveConnectionByCid (sm_cid d) (hd_tables s1)\<rparr>)"
    define s4 where "s4 = UpdatePhysicalConnectionState (isNoActiveConnection (hd_tables s3))
         (UpdateCellularDataConnectState W (apnType h) s3)"
    from assms have "Option.bind (if dataCallEnabled h then RetryOrClearConnection W a reason info s4
        else Some (NotifyReqCellularData W False s4)) (\<lambda>s5. Option.bind
          (if reason = REASON_CHANGE_CONNECTION then HandleSortConnection (HandleIncallDataDisconnectComplete s5)
           else Some (HandleIncallDataDisconnectComplete s5))
          (\<lambda>s7. Some (HandleDisconnectDataCompleteForMmsType W h s7))) = Some s'"
      unfolding DisconnectDataComplete_def Some Let_def option.case h m s1 reason_def [symmetric] bind.simps
        s3_def [symmetric] s4_def [symmetric] .
    then obtain s5 s7 where
      "(if dataCallEnabled h then RetryOrClearConnection W a reason info s4
        else Some (NotifyReqCellularData W False s4)) = Some s5"
      "(if reason = REASON_CHANGE_CONNECTION then HandleSortConnection (HandleIncallDataDisconnectComplete s5)
        else Some (HandleIncallDataDisconnectComplete s5)) = Some s7"
      "s' = HandleDisconnectDataCompleteForMmsType W h s7"
      unfolding bind_Some_iff by blast
    with s1 show ?thesis by (rule down [OF Some h reason_def m _ _ s3_def s4_def])
  qed
qed

lemma bandwidth_machines: "GetDefaultBandWidthsConfig e t = Some t' \<Longrightarrow> stateMachines t' = stateMachines t"
  "GetDefaultTcpBufferConfig e t = Some t' \<Longrightarrow> stateMachines t' = stateMachines t"
  by (auto simp: GetDefaultBandWidthsConfig_def GetDefaultTcpBufferConfig_def UpdateBandWidthsUseLte_def Let_def
      split: bind_split_rules)

text \<open>Reading the APN table changes the items only.\<close>

lemma make_specific_frame:
  assumes "MakeSpecificApnItem rows (hp, am) = Some (n, hp', am')"
  shows "h_holders hp' = h_holders hp \<and> apnHolders am' = apnHolders am
    \<and> sortedApnHolders am' = sortedApnHolders am \<and> apnIdApnHolderMap am' = apnIdApnHolderMap am"
  using assms make_items_building [of "snd (TryMergeSimilarPdpProfile rows (preferId am))"
      "fst (TryMergeSimilarPdpProfile rows (preferId am))" hp]
  by (auto simp: MakeSpecificApnItem_def bind_Some_iff building_def split: prod.splits)

lemma create_all_frame:
  assumes "CreateAllApnItemByDatabase P e db c x y i (hp, am) = Some (n, hp', am')"
  shows "h_holders hp' = h_holders hp \<and> apnHolders am' = apnHolders am
    \<and> sortedApnHolders am' = sortedApnHolders am \<and> apnIdApnHolderMap am' = apnIdApnHolderMap am"
proof -
  have push: "PushApnItem k it (hp, am) = (n, hp', am') \<Longrightarrow> h_holders hp' = h_holders hp \<and> apnHolders am' = apnHolders am
    \<and> sortedApnHolders am' = sortedApnHolders am \<and> apnIdApnHolderMap am' = apnIdApnHolderMap am" for k it
    by (auto simp: PushApnItem_def alloc_item_def split: option.splits)
  have pref: "GetPreferId e db i a = (b, a') \<Longrightarrow> apnHolders a' = apnHolders a
    \<and> sortedApnHolders a' = sortedApnHolders a \<and> apnIdApnHolderMap a' = apnIdApnHolderMap a" for a a' b
    by (auto simp: GetPreferId_def split: if_splits option.splits list.splits)
  have mvno: "CreateMvnoApnItems db c mcc mnc (hq, a) = Some (k, hr, a') \<Longrightarrow> h_holders hr = h_holders hq \<and> apnHolders a' = apnHolders a
    \<and> sortedApnHolders a' = sortedApnHolders a \<and> apnIdApnHolderMap a' = apnIdApnHolderMap a" for mcc mnc hq a k hr a'
    by (auto simp: CreateMvnoApnItems_def dest: make_specific_frame split: option.splits)
  show ?thesis
    using assms
    by (auto simp: CreateAllApnItemByDatabase_def Let_def split: bind_split_rules
        dest!: push pref mvno make_specific_frame)
qed

lemma ClearAllApnBad_frame: "ClearAllApnBad am hp = Some hp' \<Longrightarrow> h_holders hp' = h_holders hp"
  by (auto simp: ClearAllApnBad_def bind_Some_iff)

lemma supplier_effects:
  "UnregisterNetSupplierForSimUpdate e i ag = (ag', es) \<Longrightarrow> x \<in> set es \<Longrightarrow> \<not> starts (Eff x)"
  "RegisterNetSupplier P e i ag = (b, ag', es) \<Longrightarrow> x \<in> set es \<Longrightarrow> \<not> starts (Eff x)"
proof -
  show "UnregisterNetSupplierForSimUpdate e i ag = (ag', es) \<Longrightarrow> x \<in> set es \<Longrightarrow> \<not> starts (Eff x)"
    by (auto simp: UnregisterNetSupplierForSimUpdate_def Let_def)
  have one: "\<forall>x \<in> set es'. \<not> starts (Eff x)"
    if "register_one P e i su (f, m, es) = (su', f', m', es')" "\<forall>x \<in> set es. \<not> starts (Eff x)" for su f m es su' f' m' es'
    using that by (auto simp: register_one_def Let_def split: if_splits option.splits)
  have "\<forall>x \<in> set es'. \<not> starts (Eff x)"
    if "register_all P e i sus (f, m, es) = (sus', f', m', es')" "\<forall>x \<in> set es. \<not> starts (Eff x)" for sus f m es sus' f' m' es'
    using that
  proof (induction sus arbitrary: f m es sus')
    case (Cons su sus)
    obtain su1 f1 m1 es1 where r: "register_one P e i su (f, m, es) = (su1, f1, m1, es1)"
      by (cases "register_one P e i su (f, m, es)")
    with Cons.prems one [OF r] Cons.IH [of f1 m1 es1] show ?case by (auto simp: Let_def split: prod.splits)
  qed simp
  then show "RegisterNetSupplier P e i ag = (b, ag', es) \<Longrightarrow> x \<in> set es \<Longrightarrow> \<not> starts (Eff x)"
    by (fastforce simp: RegisterNetSupplier_def split: prod.splits)
qed

lemma InitialApnRetryCount_effects:
  "InitialApnRetryCount e props h = (h1, es) \<Longrightarrow> x \<in> set es \<Longrightarrow> \<not> starts (Eff x)"
  "InitialApnRetryCount e props h = (h1, es) \<Longrightarrow> same_role h h1"
  by (auto simp: InitialApnRetryCount_def same_role_def split: prod.splits if_splits)

lemma same_role_trans: "same_role h h1 \<Longrightarrow> same_role h1 h2 \<Longrightarrow> same_role h h2" by (simp add: same_role_def)

section \<open>Steps of the handler\<close>

text \<open>What can happen to a handler: an event of its queue, a callback, a call of the controller, and
  progress of the machines and of the monitor, which work on their own data, on the supplier table
  and on the active connections, and which put events into the handler's queue.\<close>

inductive hd_step :: "'db world \<Rightarrow> 'db handler \<Rightarrow> 'db handler \<Rightarrow> bool" for W where
  event: "Handler_ProcessEvent W ev s = Some s' \<Longrightarrow> hd_step W s s'"
| request: "hd_step W s (snd (RequestNet W r s))"
| release: "hd_step W s (snd (ReleaseNet W r s))"
| data_switch: "hd_step W s (snd (SetCellularDataEnable W b s))"
| intelligence_switch: "hd_step W s (snd (SetIntelligenceSwitchEnable W b s))"
| roaming_switch: "hd_step W s (snd (SetCellularDataRoamingEnabled W b s))"
| query_data: "IsCellularDataEnabled W b s = (r, c, s') \<Longrightarrow> hd_step W s s'"
| query_roaming: "roaming_enabled W s = (b, s') \<Longrightarrow> hd_step W s s'"
| policy: "Handler_SetPolicyDataOn W b s = Some s' \<Longrightarrow> hd_step W s s'"
| dsds: "ChangeConnectionForDsds W b s = Some s' \<Longrightarrow> hd_step W s s'"
| subscription: "HandleDefaultDataSubscriptionChanged W s = Some s' \<Longrightarrow> hd_step W s s'"
| call_state: "OnCallStateChanged W i st s = Some s' \<Longrightarrow> hd_step W s s'"
| operator_config: "OnOperatorConfigChanged W i s = Some s' \<Longrightarrow> hd_step W s s'"
| data_share: "hd_step W s (OnDataShareReady W s)"
| screen: "hd_step W s (Handler_HandleScreenStateChanged W b s)"
| recovery: "hd_step W s (Handler_IsNeedDoRecovery W b s)"
| query_intelligence: "hd_step W s (snd (snd (GetIntelligenceSwitchState W s)))"
| clear: "ClearAllConnections W r s = Some s' \<Longrightarrow> hd_step W s s'"
| report: "hd_step W s (snd (GetApnActReportInfo W i s))"
| update_links: "hd_step W s (Handler_UpdateNetworkInfo s)"
| observers: "hd_step W s (RegisterDataSettingObserver W s)"
| calls: "\<forall>c \<in> set cs. \<not> starts c \<Longrightarrow> hd_step W s (hd_emit cs s)"
| others: "dom ms = dom (hd_machines s) \<Longrightarrow> stateMachines tb = stateMachines (hd_tables s) \<Longrightarrow>
    hd_step W s (s \<lparr>hd_machines := ms, hd_agent := ag, hd_tables := tb, hd_monitor := mo, hd_incall := ic, hd_queue := q, hd_db := db\<rparr>)"

text \<open>The reachable states; the answers of the other services may differ from step to step.\<close>

inductive hd_reach :: "'db handler \<Rightarrow> bool" where
  init: "Handler_Init W slotId db ag = Some s \<Longrightarrow> hd_reach s"
| step: "hd_reach s \<Longrightarrow> hd_step W s s' \<Longrightarrow> hd_reach s'"

context handler_relation
begin

lemma establish_all_app [ops_run]: "EstablishAllApnsIfConnectable W t = Some u \<Longrightarrow> R s t \<Longrightarrow> R s u"
proof -
  have one: "R t u" if "establish_one W p t = Some u" for p t u
  proof (cases "u = t")
    case False
    with that have "(\<exists>ty. AttemptEstablishDataConnection W p (UpdateCellularDataConnectState W ty t) = Some u)
      \<or> (\<exists>a ty. AttemptEstablishDataConnection W p (release_holder a (UpdateCellularDataConnectState W ty t)) = Some u)"
      by (auto simp: establish_one_def bind_Some_iff Let_def split: option.splits if_splits)
    then show ?thesis by (elim disjE exE) (erule attempt_app, intro ops_app)+
  qed (simp add: R_refl)
  show "EstablishAllApnsIfConnectable W t = Some u \<Longrightarrow> R s t \<Longrightarrow> R s u"
    by (auto simp: EstablishAllApnsIfConnectable_def bind_Some_iff)
      (rule R_trans [OF mem_app foldo_ops], assumption, erule ClearAllApnBad_frame, assumption, erule one)
qed

lemma put_same_app: "R s t \<Longrightarrow> hd_holders t a = Some h \<Longrightarrow> same_role h h' \<Longrightarrow> R s (put_holder a h' t)"
  by (blast intro: put_app same_role_step)

subsection \<open>Connection events\<close>

lemma rel_connection_state [ops_app]: "R s t \<Longrightarrow> R s (UpdatePhysicalConnectionState b t)"
  by (auto simp: UpdatePhysicalConnectionState_def intro!: ops_app)

lemma rel_send_incall [ops_app]: "R s t \<Longrightarrow> R s (send_incall ev t)"
  by (auto simp: send_incall_def intro!: ops_app)

lemma rel_notify_req [ops_app]: "R s t \<Longrightarrow> R s (NotifyReqCellularData W b t)"
  by (auto simp: NotifyReqCellularData_def intro!: ops_app)

lemma rel_incall_down [ops_app]: "R s t \<Longrightarrow> R s (HandleIncallDataDisconnectComplete t)"
  by (auto simp: HandleIncallDataDisconnectComplete_def intro!: ops_app)

lemma rel_mms_down [ops_app]:
  "R s t \<Longrightarrow> R s (HandleDisconnectDataCompleteForMmsType W h t)"
  by (auto simp: HandleDisconnectDataCompleteForMmsType_def intro!: ops_app)

lemma rel_sort_loop: "sort_loop hs ps t = Some u \<Longrightarrow> R t u"
  by (induction ps) (auto simp: bind_Some_iff split: if_splits intro!: ops_app)

lemma rel_sort [ops_run]: "HandleSortConnection t = Some u \<Longrightarrow> R s t \<Longrightarrow> R s u"
  by (auto simp: HandleSortConnection_def Let_def split: if_splits dest: rel_sort_loop elim: R_trans)

lemma rel_activate_end [ops_app]: "R s t \<Longrightarrow> R s (SetApnActivateEnd W info t)"
  by (auto simp: SetApnActivateEnd_def EraseApnActivateList_def Let_def intro!: ops_app)

text \<open>A completed connection: the holder is connected when it has a machine, idle when it has
  none.\<close>

lemma rel_complete_state:
  assumes h: "hd_holders s a = Some h" "same_role (SetApnState PROFILE_STATE_CONNECTED h) h1"
    and f: "\<And>t. R t (f t)" "\<And>t k. put_holder a k (f t) = f (put_holder a k t)"
    and u: "update_machine_info W a h1 info (f (put_holder a h1 s)) = Some u"
  shows "R s u"
proof (cases "cellularDataStateMachine h")
  case (Some m)
  have "R s (f (put_holder a h1 s))"
    using h Some by (intro R_trans [OF R_put f(1)]) (auto simp: same_role_def holder_step_def)
  then show ?thesis
    using h(2) u Some by (auto simp: update_machine_info_def same_role_def bind_Some_iff split: option.splits)
      ((erule ops_run | rule ops_app | assumption | simp)+)
next
  case None
  have "u = put_holder a (SetApnState PROFILE_STATE_IDLE h1) (f (put_holder a h1 s))"
    using h(2) u None by (simp add: update_machine_info_def same_role_def)
  then have "u = f (put_holder a (SetApnState PROFILE_STATE_IDLE h1) s)" by (simp add: f(2) put_holder_later)
  then show ?thesis
    using h None by (auto simp: same_role_def holder_step_def intro!: R_trans [OF R_put f(1)])
qed

lemma rel_complete_rest:
  assumes "DataConnCompleteUpdateState W a info t = Some u" "hd_holders t a = Some h1"
  obtains v where "update_machine_info W a h1 info t = Some v" "R v u"
proof -
  from assms obtain v where v: "update_machine_info W a h1 info t = Some v"
    by (auto simp: DataConnCompleteUpdateState_def bind_Some_iff)
  have "R v u"
    using assms v
    by (auto simp: DataConnCompleteUpdateState_def bind_Some_iff Let_def split: if_splits) ((rule ops_app | simp)+)
  with v that show thesis by blast
qed

lemma rel_complete [ops_run]:
  assumes "EstablishDataConnectionComplete W info t = Some u" "R s t"
  shows "R s u"
proof -
  let ?t = "SetApnActivateEnd W info t"
  have k: "R s ?t" using assms(2) by (rule rel_activate_end)
  show ?thesis
  proof (cases "GetApnHolder (hd_mgr ?t) (FindApnNameByApnId (sd_flag info))")
    case None
    with assms(1) k show ?thesis by (simp add: EstablishDataConnectionComplete_def Let_def)
  next
    case (Some a)
    with assms(1) obtain h where h: "hd_holders ?t a = Some h"
      by (auto simp: EstablishDataConnectionComplete_def Let_def bind_Some_iff)
    obtain h1 es where h1: "InitialApnRetryCount (wE W) (wProps W) (SetApnState PROFILE_STATE_CONNECTED h) = (h1, es)"
      by (cases "InitialApnRetryCount (wE W) (wProps W) (SetApnState PROFILE_STATE_CONNECTED h)")
    define f where "f = (\<lambda>t :: 'db handler. if apnType h = DATA_CONTEXT_ROLE_DEFAULT
         then hd_send (MSG_RETRY_TO_SETUP_DATACALL DATA_CONTEXT_ROLE_INTERNAL_DEFAULT_ID) 0 (hd_emit (map Eff es) t)
         else hd_emit (map Eff es) t)"
    have f: "R x (f x)" "put_holder a k (f x) = f (put_holder a k x)" "hd_holders (f x) = hd_holders x" for x k
      using InitialApnRetryCount_effects(1) [OF h1]
      by (auto simp: f_def put_holder_later intro!: send_app emit_app R_refl)
    have r: "DataConnCompleteUpdateState W a info (f (put_holder a h1 ?t)) = Some u"
      using assms(1) Some h h1 by (simp add: EstablishDataConnectionComplete_def Let_def f_def)
    have sr: "same_role (SetApnState PROFILE_STATE_CONNECTED h) h1" using InitialApnRetryCount_effects(2) [OF h1] .
    obtain v where v: "update_machine_info W a h1 info (f (put_holder a h1 ?t)) = Some v" "R v u"
      by (rule rel_complete_rest [OF r]) (simp add: f(3))
    have "R ?t v" by (rule rel_complete_state [OF h sr f(1,2) v(1)])
    with k v(2) show ?thesis by (blast intro: R_trans)
  qed
qed

subsection \<open>A connection is down\<close>

lemma rel_retry_or_clear:
  assumes "RetryOrClearConnection W a reason info s = Some s'"
    "hd_holders s a = Some h" "apnState h = PROFILE_STATE_IDLE" "cellularDataStateMachine h = None"
  shows "R s s'"
proof -
  define t where "t = (if RestartRadioIfRequired (wProps W) (ext_restartRadioIfRequired (wE W))
      then hd_emit [Eff (Ext (Ext_restartRadioIfRequired (sd_reason info) (hd_slotId s)))] s else s)"
  have k: "R s t" by (auto simp: t_def intro!: ops_app)
  have h: "hd_holders t a = Some h" using assms(2) by (simp add: t_def)
  note A = assms(1) [unfolded RetryOrClearConnection_def Let_def, folded t_def]
  consider "reason = REASON_CLEAR_CONNECTION" | "reason = REASON_PERMANENT_REJECT" | "reason = REASON_RETRY_CONNECTION"
    | "s' = t" using A by (auto split: if_splits)
  then have "R t s'"
  proof cases
    case 1
    with A show ?thesis by simp ((erule ops_run | rule ops_app | simp)+)
  next
    case 2
    with A h show ?thesis
      by (auto simp: bind_Some_iff) ((rule ops_app | simp)+)
  next
    case 3
    have "R t (put_holder a (SetApnState PROFILE_STATE_RETRYING h) t)"
      using assms(3,4) by (intro R_put [OF h]) (simp add: holder_step_def)
    with A h 3 show ?thesis by (auto intro!: ops_app)
  qed simp
  with k show ?thesis by (rule R_trans)
qed

lemma rel_disconnected [ops_run]:
  assumes "DisconnectDataComplete W info t = Some u" "R s t"
  shows "R s u"
  using assms(1)
proof (cases rule: DisconnectDataComplete_cases)
  case none
  with assms(2) show ?thesis by simp
next
  case (idle a h)
  have "R t u" unfolding idle(4) using idle(3) by (intro R_put [OF idle(2)]) (simp add: holder_step_def)
  with assms(2) show ?thesis by (rule R_trans)
next
  case (down a h m reason s1 d s3 s4 s5 s7)
  let ?h = "SetApnState PROFILE_STATE_IDLE (SetCellularDataStateMachine None h)"
  let ?s2 = "s1 \<lparr>hd_tables := RemoveActiveConnectionByCid (sm_cid d) (hd_tables s1)\<rparr>"
  have k2: "R t ?s2"
    using R_machine [OF down(5)] by (intro tables_app) (simp_all add: RemoveActiveConnectionByCid_def)
  have h2: "hd_holders ?s2 a = Some h" using machine_call_frame(1) [OF down(5)] down(2) by simp
  have "R ?s2 (put_holder a ?h ?s2)"
    by (rule R_put [OF h2]) (simp add: SetCellularDataStateMachine_def holder_step_def)
  with k2 have k4: "R t s4" unfolding down(7,8) by (blast intro!: ops_app R_trans)
  have h4: "hd_holders s4 a = Some ?h"
    unfolding down(8) by (simp add: down(7) UpdatePhysicalConnectionState_def UpdateCellularDataConnectState_def)
  have k5: "R s4 s5"
    using down(9) rel_retry_or_clear [OF _ h4] by (auto simp: SetCellularDataStateMachine_def intro!: ops_app split: if_splits)
  have "R s5 u"
    using down(10) unfolding down(11) by (auto split: if_splits) ((erule ops_run | rule ops_app | simp)+)
  with assms(2) k4 k5 show ?thesis by (blast intro: R_trans)
qed

subsection \<open>Requests and retries\<close>

lemma rel_net_info [ops_run]: "HandleUpdateNetInfo W info t = Some u \<Longrightarrow> R s t \<Longrightarrow> R s u"
  by (auto simp: HandleUpdateNetInfo_def split: bind_split_rules)
    ((erule ops_run | rule ops_app | assumption | simp)+)

lemma rel_resume [ops_app]: "R s t \<Longrightarrow> R s (ResumeDataPermittedTimerOut W t)"
  by (auto simp: ResumeDataPermittedTimerOut_def intro!: ops_app split: option.splits)

lemma rel_put_waiting:
  assumes "R s t" "hd_holders t a = Some h" "apnState h = PROFILE_STATE_RETRYING" "same_role (SetApnState PROFILE_STATE_IDLE h) h'"
  shows "R s (put_holder a h' t)"
  using assms by (intro put_app) (auto simp: same_role_def holder_step_def holds_machine_def)

lemma rel_retry_setup [ops_app]: "R s t \<Longrightarrow> R s (RetryToSetupDatacall i t)"
  by (auto simp: RetryToSetupDatacall_def intro!: send_app rel_put_waiting split: option.splits)

lemma rel_msg_establish [ops_run]:
  "MsgEstablishDataConnection W i bear t = Some u \<Longrightarrow> R s t \<Longrightarrow> R s u"
  by (auto simp: MsgEstablishDataConnection_def Let_def split: bind_split_rules)
    ((erule ops_run | rule ops_app | assumption | simp)+)

lemma rel_put_request:
  assumes "R s t" "hd_holders t a = Some h" "h' = RequestCellularData r h \<or> h' = ReleaseAllCellularData h"
  shows "R s (put_holder a h' t)"
  using assms by (intro put_app) (auto simp: RequestCellularData_def ReleaseAllCellularData_def holder_step_def)

lemma rel_request [ops_app]: "R s t \<Longrightarrow> R s (MsgRequestNetwork W r ty t)"
  by (auto simp: MsgRequestNetwork_def Let_def intro!: rel_notify_req send_app rel_put_request split: option.splits)

lemma rel_net_requests:
  "R s (snd (RequestNet W r s))" "R s (snd (ReleaseNet W r s))"
  by (auto simp: RequestNet_def ReleaseNet_def intro!: ops_app)

subsection \<open>Configuration and APN table\<close>

lemma rel_clear_if_up [ops_run]: "clear_if_up W reason t = Some u \<Longrightarrow> R s t \<Longrightarrow> R s u"
  by (auto simp: clear_if_up_def split: if_splits) ((erule ops_run | assumption)+)

lemma rel_settings_write [ops_app]: "R s t \<Longrightarrow> R s (snd (settings_write f t))"
  by (auto simp: settings_write_def intro!: ops_app split: prod.splits)

lemma rel_settings_write' [ops_run]: "settings_write f t = (r, u) \<Longrightarrow> R s t \<Longrightarrow> R s u"
  using rel_settings_write [of s t f] by simp

lemma rel_roaming_config [ops_run]:
  "GetDefaultDataRoamingConfig W t = Some u \<Longrightarrow> R s t \<Longrightarrow> R s u"
  by (auto simp: GetDefaultDataRoamingConfig_def Let_def intro!: ops_app split: bind_split_rules)
    ((erule ops_run | rule ops_app | assumption | simp | erule notE)+)

lemma rel_enable_config [ops_app]: "R s t \<Longrightarrow> R s (GetDefaultDataEnableConfig W t)"
  by (auto simp: GetDefaultDataEnableConfig_def Let_def intro!: rel_settings_write split: option.splits)

lemma rel_single_cfg [ops_app]: "R s t \<Longrightarrow> R s (GetSinglePdpEnabledFromOpCfg W t)"
  by (auto simp: GetSinglePdpEnabledFromOpCfg_def intro!: ops_app split: option.splits)

lemma rel_default_config [ops_run]:
  "GetDefaultConfiguration W t = Some u \<Longrightarrow> R s t \<Longrightarrow> R s u"
  by (auto simp: GetDefaultConfiguration_def GetDefaultUpLinkThresholdsConfig_def
      GetDefaultDownLinkThresholdsConfig_def bind_Some_iff Let_def)
    ((erule ops_run | rule ops_app | assumption | simp add: bandwidth_machines)+)

lemma rel_config_5g [ops_run]:
  "GetConfigurationFor5G W t = Some u \<Longrightarrow> R s t \<Longrightarrow> R s u"
  by (auto simp: GetConfigurationFor5G_def) ((erule ops_run | rule ops_app | assumption | simp)+)

lemma rel_attach_apn [ops_run]: "SetRilAttachApn W t = Some u \<Longrightarrow> R s t \<Longrightarrow> R s u"
  by (auto simp: SetRilAttachApn_def IsBlockSetRilAttachApn_def Let_def intro!: ops_app
      split: bind_split_rules)

lemma rel_attach_response [ops_app]: "R s t \<Longrightarrow> R s (SetRilAttachApnResponse n t)"
  by (auto simp: SetRilAttachApnResponse_def intro!: ops_app split: option.splits)

lemma rel_read_apns [ops_run]: "read_apns W t = Some (n, u) \<Longrightarrow> R s t \<Longrightarrow> R s u"
  by (rule R_trans, assumption, rule R_frame)
    (auto simp: read_apns_def bind_Some_iff hd_roles_def hd_shape_def dest!: create_all_frame)

lemma rel_read_apns_twice [ops_run]:
  "read_apns_twice W t = Some (n, u) \<Longrightarrow> R s t \<Longrightarrow> R s u"
  by (auto simp: read_apns_twice_def split: bind_split_rules) ((erule ops_run | assumption)+)

lemma rel_create_apn [ops_run]: "CreateApnItem W t = Some u \<Longrightarrow> R s t \<Longrightarrow> R s u"
  by (auto simp: CreateApnItem_def split: bind_split_rules)
    ((erule ops_run | rule ops_app | assumption | simp)+)

lemma rel_update_apns [ops_run]:
  assumes "ClearConnectionsOnUpdateApns W reason t = Some u" "R s t"
  shows "R s u"
proof -
  obtain b t0 where r: "roaming_enabled W t = (b, t0)" by (cases "roaming_enabled W t")
  with assms(1) obtain p t1 where p: "GetRilAttachApn (wP W) (hd_items t0) (hd_mgr t0) = Some p"
    and t1: "(case p of None \<Rightarrow> Some t0 | Some i \<Rightarrow> do { it \<leftarrow> hd_items t0 i; Some (UpdateApnInfo W (at_profileId (it_attr it)) t0) }) = Some t1"
    by (auto simp: ClearConnectionsOnUpdateApns_def bind_Some_iff)
  have k1: "R s t1"
    using t1 reads(1) [OF r assms(2)] by (auto simp: bind_Some_iff intro!: ops_app split: option.splits)
  have "u = t1 \<or> (\<exists>t2. ClearAllConnections W reason t1 = Some t2 \<and> hd_slotId u = hd_slotId t2 \<and> hd_mgr u = hd_mgr t2
      \<and> hd_holders u = hd_holders t2 \<and> hd_tables u = hd_tables t2 \<and> hd_machines u = hd_machines t2
      \<and> hd_nextMachine u = hd_nextMachine t2 \<and> hd_fx u = hd_fx t2)"
    using assms(1) r p t1
    by (auto simp: ClearConnectionsOnUpdateApns_def alloc_item_def split: bind_split_rules)
  then show ?thesis
  proof (elim disjE exE conjE)
    fix t2 assume t2: "ClearAllConnections W reason t1 = Some t2" and f: "hd_slotId u = hd_slotId t2" "hd_mgr u = hd_mgr t2"
      "hd_holders u = hd_holders t2" "hd_tables u = hd_tables t2" "hd_machines u = hd_machines t2"
      "hd_nextMachine u = hd_nextMachine t2" "hd_fx u = hd_fx t2"
    have "R t2 u" using f by (intro R_same) simp_all
    with t2 k1 show ?thesis by (blast intro: R_trans clear_all_app)
  qed (use k1 in simp)
qed

lemma rel_changed_one: "apn_changed_one W p t = Some u \<Longrightarrow> R t u"
proof -
  assume e: "apn_changed_one W p t = Some u"
  show ?thesis
  proof (cases p)
    case (Some a)
    with e obtain h where h: "hd_holders t a = Some h" by (auto simp: apn_changed_one_def bind_Some_iff)
    obtain h1 es where i: "InitialApnRetryCount (wE W) (wProps W) h = (h1, es)"
      by (cases "InitialApnRetryCount (wE W) (wProps W) h")
    have sr: "same_role (SetApnState PROFILE_STATE_IDLE h) (SetApnState PROFILE_STATE_IDLE h1)"
      using i by (auto simp: InitialApnRetryCount_def same_role_def split: prod.splits)
    have "R t (put_holder a (SetApnState PROFILE_STATE_IDLE h1) (hd_emit (map Eff es) t))"
      if "apnState h = PROFILE_STATE_RETRYING"
      using InitialApnRetryCount_effects(1) [OF i]
      by (intro rel_put_waiting [OF _ _ that sr]) (auto simp: h intro!: emit_app R_refl)
    then show ?thesis
      using e Some h i by (auto simp: apn_changed_one_def Let_def split: if_splits intro!: ops_app)
  qed (use e in \<open>simp add: apn_changed_one_def\<close>)
qed

lemma rel_bad_cleared [ops_run]:
  "ClearAllApnBad (hd_mgr t) (hd_mem t) = Some hp \<Longrightarrow> R s t \<Longrightarrow> R s (t \<lparr>hd_mem := hp\<rparr>)"
  using ClearAllApnBad_frame by (blast intro!: ops_app)

lemma rel_apn_changed [ops_run]: "HandleApnChanged W t = Some u \<Longrightarrow> R s t \<Longrightarrow> R s u"
  by (auto simp: HandleApnChanged_def bind_Some_iff)
    (rule R_trans [OF _ foldo_ops], (erule ops_run | assumption | erule rel_changed_one)+)

subsection \<open>Radio, roaming, switches\<close>

lemma rel_attached [ops_run]: "RadioPsConnectionAttached W t = Some u \<Longrightarrow> R s t \<Longrightarrow> R s u"
  by (auto simp: RadioPsConnectionAttached_def Let_def split: if_splits)
    ((erule ops_run | rule ops_app | assumption | simp)+)

lemma rel_roaming_events [ops_run]:
  "RoamingStateOn W t = Some u \<Longrightarrow> R s t \<Longrightarrow> R s u"
  "RoamingStateOff W t = Some u \<Longrightarrow> R s t \<Longrightarrow> R s u"
  by (auto simp: RoamingStateOn_def RoamingStateOff_def Let_def intro!: ops_app split: bind_split_rules)
    ((erule ops_run | rule ops_app | assumption | simp | erule notE)+)

lemma rel_emergency [ops_run]:
  "PsRadioEmergencyStateOpen W t = Some u \<Longrightarrow> R s t \<Longrightarrow> R s u"
  "PsRadioEmergencyStateClose W t = Some u \<Longrightarrow> R s t \<Longrightarrow> R s u"
  by (auto simp: PsRadioEmergencyStateOpen_def PsRadioEmergencyStateClose_def Let_def split: if_splits)
    ((erule ops_run | rule ops_app | assumption | simp)+)

lemma rel_bandwidths [ops_app]: "R s t \<Longrightarrow> R s (SetRilLinkBandwidths W t)"
  by (auto simp: SetRilLinkBandwidths_def intro!: ops_app)

lemma rel_radio_state [ops_run]: "HandleRadioStateChanged W st t = Some u \<Longrightarrow> R s t \<Longrightarrow> R s u"
  by (auto simp: HandleRadioStateChanged_def split: option.splits radio_power.splits if_splits)
    ((erule ops_run | rule ops_app | assumption | simp)+)

lemma rel_clear_required: "clear_required_one W p t = Some u \<Longrightarrow> R t u"
  by (auto simp: clear_required_one_def Let_def split: bind_split_rules
      intro!: clear_app intro: put_same_app SetAllMatchedApns_same R_refl)

lemma rel_rat_changed [ops_run]: "PsDataRatChanged W t = Some u \<Longrightarrow> R s t \<Longrightarrow> R s u"
proof -
  assume r: "PsDataRatChanged W t = Some u" and k: "R s t"
  have c: "R t v" if "ClearConnectionIfRequired W t = Some v" for v
  proof -
    from that obtain x where x: "foldo (clear_required_one W) (apnHolders (hd_mgr t)) t = Some x"
      "v = (if \<not> HasAnyConnectedState (hd_holders x) (hd_mgr x) then ResetDataFlowType (stop_monitor x) else x)"
      by (auto simp: ClearConnectionIfRequired_def bind_Some_iff)
    have "R t x" using x(1) by (rule foldo_ops) (rule rel_clear_required)
    then show ?thesis unfolding x(2) by (intro ops_app)
  qed
  show ?thesis using r k
    by (auto simp: PsDataRatChanged_def split: bind_split_rules) (erule establish_all_app, blast intro: R_trans c)
qed

lemma rel_all_machines [ops_app]: "R s t \<Longrightarrow> (\<And>p. ev \<noteq> MSG_SM_CONNECT p) \<Longrightarrow> R s (to_all_machines ev t)"
  by (auto simp: to_all_machines_def intro!: ops_app)

lemma rel_mcc_delay [ops_run]: "HandleMccChangeDelay W t = Some u \<Longrightarrow> R s t \<Longrightarrow> R s u"
  by (auto simp: HandleMccChangeDelay_def) ((erule ops_run | rule ops_app | assumption | simp)+)

lemma rel_resident [ops_app]: "R s t \<Longrightarrow> R s (HandleResidentNetworkChanged W p t)"
  by (auto simp: HandleResidentNetworkChanged_def Let_def intro!: ops_app split: option.splits)

lemma rel_enabled [ops_run]: "IsCellularDataEnabled W b t = (r, c, u) \<Longrightarrow> R s t \<Longrightarrow> R s u"
  by (auto simp: IsCellularDataEnabled_def intro!: ops_app split: if_splits prod.splits)

lemma rel_switch_api [ops_app]:
  "R s t \<Longrightarrow> R s (snd (SetCellularDataEnable W b t))"
  "R s t \<Longrightarrow> R s (snd (SetIntelligenceSwitchEnable W b t))"
  "R s t \<Longrightarrow> R s (snd (SetCellularDataRoamingEnabled W b t))"
  by (auto simp: SetCellularDataEnable_def SetIntelligenceSwitchEnable_def SetCellularDataRoamingEnabled_def Let_def
      intro!: ops_app split: prod.splits)

lemma rel_policy [ops_run]:
  "Handler_SetPolicyDataOn W b t = Some u \<Longrightarrow> R s t \<Longrightarrow> R s u"
  "ChangeConnectionForDsds W b t = Some u \<Longrightarrow> R s t \<Longrightarrow> R s u"
  by (auto simp: Handler_SetPolicyDataOn_def ChangeConnectionForDsds_def Let_def split: if_splits)
    ((erule ops_run | rule ops_app | assumption | simp)+)

lemma rel_setting_events [ops_run]:
  "HandleDBSettingEnableChanged W t = Some u \<Longrightarrow> R s t \<Longrightarrow> R s u"
  "HandleDBSettingRoamingChanged W t = Some u \<Longrightarrow> R s t \<Longrightarrow> R s u"
  by (auto simp: HandleDBSettingEnableChanged_def HandleDBSettingRoamingChanged_def Let_def intro!: ops_app
      split: if_splits prod.splits option.splits)
    ((erule ops_run | rule ops_app | assumption | simp | erule notE)+)

lemma rel_incall_setting [ops_app]: "R s t \<Longrightarrow> R s (HandleDBSettingIncallChanged v t)"
  by (auto simp: HandleDBSettingIncallChanged_def intro!: ops_app)

lemma rel_factory_reset [ops_app]: "R s t \<Longrightarrow> R s (HandleFactoryReset W t)"
  unfolding HandleFactoryReset_def Let_def by ((rule ops_app | assumption | simp)+)

subsection \<open>Calls, slots, SIM card\<close>

lemma rel_ims_call [ops_app]: "R s t \<Longrightarrow> R s (HandleImsCallChanged st t)"
  by (auto simp: HandleImsCallChanged_def CreateIncallDataStateMachine_def Incall_ReInit_def Let_def
      split: option.splits) ((rule ops_app | assumption | simp)+)

lemma rel_incall_done [ops_app]: "R s t \<Longrightarrow> R s (IncallDataComplete_event t)"
  by (auto simp: IncallDataComplete_event_def intro!: ops_app split: option.splits)

lemma rel_voice_call [ops_run]: "HandleVoiceCallChanged W st t = Some u \<Longrightarrow> R s t \<Longrightarrow> R s u"
  by (auto simp: HandleVoiceCallChanged_def Let_def intro!: ops_app split: if_splits)
    ((erule ops_run | rule ops_app | assumption | simp | erule notE)+)

lemma rel_call_changed [ops_run]: "HandleCallChanged W st t = Some u \<Longrightarrow> R s t \<Longrightarrow> R s u"
  by (auto simp: HandleCallChanged_def Let_def intro!: ops_app split: if_splits)
    ((erule ops_run | rule ops_app | assumption | simp | erule notE)+)

lemma rel_subscription [ops_run]:
  "HandleDefaultDataSubscriptionChanged W t = Some u \<Longrightarrow> R s t \<Longrightarrow> R s u"
  by (auto simp: HandleDefaultDataSubscriptionChanged_def Let_def intro!: ops_app split: if_splits)
    ((erule ops_run | rule ops_app | assumption | simp | erule notE)+)

lemma rel_dsds_slot: "dsds_slot W m e i t = Some u \<Longrightarrow> R t u"
  by (auto simp: dsds_slot_def service_ChangeConnectionForDsds_def Let_def intro!: ops_app split: if_splits)
    ((erule ops_run | rule ops_app | assumption | simp | erule notE)+)

lemma rel_dsds_loop [ops_run]: "foldo (dsds_slot W m e) is t = Some u \<Longrightarrow> R s t \<Longrightarrow> R s u"
  by (rule R_trans, assumption, erule foldo_ops, erule rel_dsds_slot)

lemma rel_dsds_mode [ops_run]: "HandleDsdsModeChanged W m t = Some u \<Longrightarrow> R s t \<Longrightarrow> R s u"
  by (auto simp: HandleDsdsModeChanged_def split: bind_split_rules)
    ((erule ops_run | rule ops_app | assumption | simp | erule notE)+)

lemma rel_observe [ops_app]: "R s t \<Longrightarrow> R s (observe_settings W b t)"
  by (auto simp: observe_settings_def Let_def intro!: ops_app)

lemma rel_release_requests [ops_app]: "R s t \<Longrightarrow> R s (ReleaseAllNetworkRequest t)"
  unfolding ReleaseAllNetworkRequest_def
  by (erule R_trans, rule fold_ops)
    (auto simp: release_request_def intro: rel_put_request split: option.splits)

lemma rel_unregister [ops_app]: "R s t \<Longrightarrow> R s (unregister_suppliers W t)"
  by (auto simp: unregister_suppliers_def intro!: ops_app split: prod.splits dest: supplier_effects)

lemma rel_sim_state [ops_run]: "HandleSimStateChanged W t = Some u \<Longrightarrow> R s t \<Longrightarrow> R s u"
  by (auto simp: HandleSimStateChanged_def UnRegisterDataSettingObserver_def Let_def intro!: ops_app split: bind_split_rules)
    ((erule ops_run | rule ops_app | assumption | simp | erule notE)+)

lemma rel_records [ops_run]: "HandleRecordsChanged W t = Some u \<Longrightarrow> R s t \<Longrightarrow> R s u"
  by (auto simp: HandleRecordsChanged_def bind_Some_iff Let_def intro!: ops_app split: if_splits)
    ((erule ops_run | rule ops_app | assumption | simp | erule notE)+)

lemma rel_account_timer [ops_app]: "R s t \<Longrightarrow> R s (StopLoadSimAccountTimer t)"
  "R s t \<Longrightarrow> R s (StartLoadSimAccountTimer n t)"
  by (auto simp: StopLoadSimAccountTimer_def StartLoadSimAccountTimer_def intro!: ops_app)

lemma rel_account_loaded [ops_run]:
  "HandleSimAccountLoaded W t = Some u \<Longrightarrow> R s t \<Longrightarrow> R s u"
  by (auto simp: HandleSimAccountLoaded_def Let_def RegisterDataSettingObserver_def Handler_UpdateNetworkInfo_def
      bind_Some_iff split: prod.splits if_splits)
    ((erule ops_run | rule ops_app | assumption | (auto dest: supplier_effects; fail))+)

lemma rel_retry_account [ops_run]:
  "HandleRetryLoadSimAccount W n t = Some u \<Longrightarrow> R s t \<Longrightarrow> R s u"
  by (auto simp: HandleRetryLoadSimAccount_def intro!: ops_app split: if_splits)
    ((erule ops_run | rule ops_app | assumption | simp | erule notE)+)

lemma rel_data_share [ops_app]: "R s t \<Longrightarrow> R s (OnDataShareReady W t)"
  by (auto simp: OnDataShareReady_def RegisterDataSettingObserver_def Let_def intro!: ops_app)

lemma rel_sim_event [ops_run]: "HandleSimEvent W ev i t = Some u \<Longrightarrow> R s t \<Longrightarrow> R s u"
  by (auto simp: HandleSimEvent_def Let_def split: if_splits sim_event.splits)
    ((erule ops_run | rule ops_app | assumption | simp)+)

subsection \<open>Every event\<close>

lemma rel_event [ops_run]: "Handler_ProcessEvent W ev t = Some u \<Longrightarrow> R s t \<Longrightarrow> R s u"
  by (cases ev; (simp add: Handler_ProcessEvent_def HandleRadioNrStateChanged_def HandleRadioNrFrequencyChanged_def
        OnRilAdapterHostDied_def split: hevent.splits)?)
    ((erule ops_run | rule ops_app | assumption | (simp; fail) | erule subst)+)

lemma rel_query_intelligence: "R s (snd (snd (GetIntelligenceSwitchState W s)))"
  by (auto simp: GetIntelligenceSwitchState_def intro!: ops_app R_refl split: prod.splits)

lemma rel_report: "R s (snd (GetApnActReportInfo W i s))"
  by (auto simp: GetApnActReportInfo_def EraseApnActivateList_def Let_def intro!: ops_app R_refl)

lemma rel_step: "hd_step W s s' \<Longrightarrow> R s s'"
proof (induction rule: hd_step.induct)
  case (others ms s tb ag mo ic q db)
  then show ?case by (intro R_frame) (simp_all add: hd_roles_def hd_shape_def)
next
  case (clear r s s')
  then show ?case by (rule ops_run) (rule R_refl)
next
  case (calls cs s)
  then show ?case by (intro R_emit) blast
qed (auto simp: RequestNet_def ReleaseNet_def OnCallStateChanged_def OnOperatorConfigChanged_def
    Handler_HandleScreenStateChanged_def Handler_IsNeedDoRecovery_def Handler_UpdateNetworkInfo_def
    RegisterDataSettingObserver_def rel_query_intelligence rel_report intro!: ops_app split: if_splits
    elim: rel_event rel_policy rel_subscription rel_call_changed rel_config_5g rel_enabled reads)

end

end
