(* ===== verification/Handler_Invariant.thy ===== *)
theory Handler_Invariant
  imports Handler_Steps
begin

text \<open>
  The data handler implements the role table: every operation is a sequence of steps of the table
  and keeps the handler's tables consistent. The relation \<open>keeps_roles\<close> states both for one
  operation; it is reflexive and transitive, so that an operation is treated by composing its calls.
\<close>

section \<open>Abstraction and invariant\<close>

definition tables_ok :: "'db handler \<Rightarrow> bool" where
  "tables_ok s \<longleftrightarrow>
     (\<forall>p. p \<in> set (apnHolders (hd_mgr s)) \<longleftrightarrow> (\<exists>a h. p = Some a \<and> hd_holders s a = Some h))
   \<and> set (sortedApnHolders (hd_mgr s)) = set (apnHolders (hd_mgr s))
   \<and> distinct (apnHolders (hd_mgr s))
   \<and> (\<forall>i p. apnIdApnHolderMap (hd_mgr s) i = Some p \<longleftrightarrow>
        (\<exists>a h. p = Some a \<and> hd_holders s a = Some h \<and> FindApnIdByApnName (apnType h) = i))
   \<and> (\<forall>a h. hd_holders s a = Some h \<longrightarrow> FindApnIdByApnName (apnType h) \<noteq> DATA_CONTEXT_ROLE_INVALID_ID)"

definition machines_ok :: "'db handler \<Rightarrow> bool" where
  "machines_ok s \<longleftrightarrow> set (stateMachines (hd_tables s)) \<subseteq> dom (hd_machines s)
     \<and> (\<forall>m \<in> dom (hd_machines s). m < hd_nextMachine s) \<and> distinct (stateMachines (hd_tables s))"

definition hd_inv :: "'db handler \<Rightarrow> bool" where
  "hd_inv s \<longleftrightarrow> tables_ok s \<and> machines_ok s \<and> roles_ok (hd_roles s)"

definition keeps_roles :: "'db handler \<Rightarrow> 'db handler \<Rightarrow> bool" where
  "keeps_roles s s' \<longleftrightarrow> (hd_inv s \<longrightarrow> hd_inv s' \<and> hd_shape s' = hd_shape s \<and> role_step\<^sup>*\<^sup>* (hd_roles s) (hd_roles s'))"

lemma keeps_refl [simp, intro]: "keeps_roles s s" by (simp add: keeps_roles_def)

lemma keeps_trans [trans]: "keeps_roles s t \<Longrightarrow> keeps_roles t u \<Longrightarrow> keeps_roles s u"
  by (auto simp: keeps_roles_def)

lemma keeps_inv: "keeps_roles s s' \<Longrightarrow> hd_inv s \<Longrightarrow> hd_inv s'" by (simp add: keeps_roles_def)

lemma tables_ok_shape: "hd_shape s' = hd_shape s \<Longrightarrow> tables_ok s' \<longleftrightarrow> tables_ok s"
proof -
  assume "hd_shape s' = hd_shape s"
  then have l: "apnHolders (hd_mgr s') = apnHolders (hd_mgr s)" "sortedApnHolders (hd_mgr s') = sortedApnHolders (hd_mgr s)"
      "apnIdApnHolderMap (hd_mgr s') = apnIdApnHolderMap (hd_mgr s)"
    and h: "map_option (\<lambda>h. (apnType h, priority h)) (hd_holders s' a)
      = map_option (\<lambda>h. (apnType h, priority h)) (hd_holders s a)" for a
    by (auto simp: hd_shape_def dest: fun_cong)
  have e: "(\<exists>h. hd_holders s' a = Some h \<and> FindApnIdByApnName (apnType h) = i)
      \<longleftrightarrow> (\<exists>h. hd_holders s a = Some h \<and> FindApnIdByApnName (apnType h) = i)" for a i
    using h [of a] by (cases "hd_holders s a"; cases "hd_holders s' a") auto
  have u: "(\<forall>h. hd_holders s' a = Some h \<longrightarrow> FindApnIdByApnName (apnType h) \<noteq> i)
      \<longleftrightarrow> (\<forall>h. hd_holders s a = Some h \<longrightarrow> FindApnIdByApnName (apnType h) \<noteq> i)" for a i
    using e [of a i] by blast
  have e': "(\<exists>h. hd_holders s' a = Some h) \<longleftrightarrow> (\<exists>h. hd_holders s a = Some h)" for a
    using h [of a] by (cases "hd_holders s a"; cases "hd_holders s' a") auto
  show ?thesis unfolding tables_ok_def l by (simp add: e e' u)
qed

text \<open>An operation that leaves the abstraction, the tables and the machines alone.\<close>

lemma keeps_frame:
  assumes "hd_roles s' = hd_roles s" "hd_shape s' = hd_shape s"
    "stateMachines (hd_tables s') = stateMachines (hd_tables s)"
    "dom (hd_machines s') = dom (hd_machines s)" "hd_nextMachine s' = hd_nextMachine s"
  shows "keeps_roles s s'"
  using assms tables_ok_shape [OF assms(2)] by (simp add: keeps_roles_def hd_inv_def machines_ok_def)

section \<open>Updates of one holder\<close>

lemma hd_roles_put:
  "hd_roles (put_holder a h s) = ((fst (hd_roles s))(a \<mapsto> (apnState h, cellularDataStateMachine h)), snd (hd_roles s))"
  by (auto simp: hd_roles_def put_holder_def)

lemma hd_shape_put:
  "hd_holders s a = Some h \<Longrightarrow> apnType h' = apnType h \<Longrightarrow> priority h' = priority h
    \<Longrightarrow> hd_shape (put_holder a h' s) = hd_shape s"
  by (auto simp: hd_shape_def)

lemma keeps_put:
  assumes "hd_holders s a = Some h" "apnType h' = apnType h" "priority h' = priority h"
    and step: "hd_inv s \<Longrightarrow> role_step (hd_roles s) (hd_roles (put_holder a h' s))
      \<or> hd_roles (put_holder a h' s) = hd_roles s"
  shows "keeps_roles s (put_holder a h' s)"
  unfolding keeps_roles_def
proof (rule impI)
  assume inv: "hd_inv s"
  have sh: "hd_shape (put_holder a h' s) = hd_shape s" using assms(1-3) by (rule hd_shape_put)
  have st: "role_step\<^sup>*\<^sup>* (hd_roles s) (hd_roles (put_holder a h' s))" using step [OF inv] by auto
  have "roles_ok (hd_roles (put_holder a h' s))"
    using role_steps_ok [OF st] inv by (simp add: hd_inv_def)
  then show "hd_inv (put_holder a h' s) \<and> hd_shape (put_holder a h' s) = hd_shape s
      \<and> role_step\<^sup>*\<^sup>* (hd_roles s) (hd_roles (put_holder a h' s))"
    using inv sh st tables_ok_shape [OF sh] by (simp add: hd_inv_def machines_ok_def)
qed

lemma hd_roles_at: "hd_holders s a = Some h \<Longrightarrow> fst (hd_roles s) a = Some (apnState h, cellularDataStateMachine h)"
  by (simp add: hd_roles_def)

lemma roles_pair: "hd_roles s = (fst (hd_roles s), snd (hd_roles s))" by simp

text \<open>In a consistent state a role without a machine is idle, failed or waiting.\<close>

lemma inv_holder:
  assumes "hd_inv s" "hd_holders s a = Some h"
  shows "cellularDataStateMachine h \<noteq> None \<longleftrightarrow> holds_machine (apnState h)"
    "cellularDataStateMachine h = Some m \<Longrightarrow> m \<in> set (stateMachines (hd_tables s))"
proof -
  have R: "roles_ok (hd_roles s)" using assms(1) by (simp add: hd_inv_def)
  note at = hd_roles_at [OF assms(2)]
  show "cellularDataStateMachine h \<noteq> None \<longleftrightarrow> holds_machine (apnState h)"
    by (rule roles_ok_cases [OF R at]) auto
  show "cellularDataStateMachine h = Some m \<Longrightarrow> m \<in> set (stateMachines (hd_tables s))"
    by (rule roles_ok_cases [OF R at]) (auto simp: hd_roles_def)
qed

section \<open>Elementary updates\<close>

lemma keeps_put_step:
  assumes "hd_holders s a = Some h" "holder_step h h'"
  shows "keeps_roles s (put_holder a h' s)"
proof (rule keeps_put [OF assms(1)])
  assume inv: "hd_inv s"
  note at = hd_roles_at [OF assms(1)]
  let ?R = "hd_roles s"
  have m: "\<not> holds_machine (apnState h) \<Longrightarrow> cellularDataStateMachine h = None"
    using inv_holder(1) [OF inv assms(1)] by simp
  show "role_step ?R (hd_roles (put_holder a h' s)) \<or> hd_roles (put_holder a h' s) = ?R"
    using assms(2) at m role_step.connected [of "fst ?R" a "apnState h" _ "snd ?R"]
      role_step.disconnect [of "fst ?R" a "apnState h" _ "snd ?R"]
      role_step.down [of "fst ?R" a "apnState h" "cellularDataStateMachine h" "snd ?R"]
      role_step.retry [of "fst ?R" a "snd ?R"]
    by (auto simp: holder_step_def hd_roles_put prod_eq_iff)
qed (use assms(2) in \<open>simp_all add: holder_step_def\<close>)

lemma keeps_machine_call:
  assumes "machine_call m f s = Some s'"
  shows "keeps_roles s s'"
  using assms
  by (intro keeps_frame) (auto simp: machine_call_def bind_Some_iff hd_roles_def hd_shape_def split: if_splits)

lemma keeps_emit: "keeps_roles s (hd_emit cs s)"
  by (rule keeps_frame) (simp_all add: hd_roles_def hd_shape_def)

interpretation kb: handler_base W keeps_roles for W
by unfold_locales (auto intro: keeps_emit keeps_trans keeps_frame keeps_machine_call keeps_put_step)

section \<open>Setting connections up\<close>

lemma not_used_role:
  assumes "hd_inv s" "IsDataConnectionNotUsed (hd_holders s) (Some m) (hd_mgr s)"
  shows "\<forall>b st. fst (hd_roles s) b \<noteq> Some (st, Some m)"
proof (intro allI notI)
  fix b st assume "fst (hd_roles s) b = Some (st, Some m)"
  then obtain h where h: "hd_holders s b = Some h" "cellularDataStateMachine h = Some m"
    by (auto simp: hd_roles_def)
  have "Some b \<in> set (apnHolders (hd_mgr s))"
    using assms(1) h(1) by (auto simp: hd_inv_def tables_ok_def)
  then have "h \<in> set (live_holders (hd_holders s) (apnHolders (hd_mgr s)))"
    using h(1) by (force simp: live_holders_def List.map_filter_def)
  with h(2) assms(2) show False by (auto simp: IsDataConnectionNotUsed_def list_ex_iff)
qed

lemma created_machine:
  assumes "CreateCellularDataConnect W s = (m, s')"
  shows "keeps_roles s s'" "hd_holders s' = hd_holders s" "m \<in> set (stateMachines (hd_tables s'))"
    "hd_inv s \<Longrightarrow> \<forall>b st. fst (hd_roles s') b \<noteq> Some (st, Some m)"
proof -
  have m: "m = hd_nextMachine s"
    and f: "hd_holders s' = hd_holders s" "hd_mgr s' = hd_mgr s" "hd_slotId s' = hd_slotId s"
      "stateMachines (hd_tables s') = stateMachines (hd_tables s) @ [m]"
      "dom (hd_machines s') = insert m (dom (hd_machines s))" "hd_nextMachine s' = m + 1"
    using assms by (auto simp: CreateCellularDataConnect_def Let_def AddConnectionStateMachine_def split: if_splits)
  have R: "hd_roles s' = (fst (hd_roles s), insert m (snd (hd_roles s)))"
    using f by (simp add: hd_roles_def)
  have S: "hd_shape s' = hd_shape s" using f by (simp add: hd_shape_def)
  have step: "role_step (hd_roles s) (hd_roles s')"
    unfolding R using role_step.create [of "fst (hd_roles s)" "snd (hd_roles s)" m] by simp
  have new: "m \<notin> set (stateMachines (hd_tables s))" if "hd_inv s"
    using that unfolding hd_inv_def machines_ok_def m by (meson less_irrefl subsetD)
  have mo: "machines_ok s'" if "hd_inv s"
    using that new [OF that] f(4-6) unfolding hd_inv_def machines_ok_def m [symmetric]
    by (auto simp: less_SucI)
  show "keeps_roles s s'"
    using mo step S tables_ok_shape [OF S] role_step_ok [OF step]
    by (auto simp: keeps_roles_def hd_inv_def)
  show "hd_holders s' = hd_holders s" "m \<in> set (stateMachines (hd_tables s'))" using f by auto
  show "\<forall>b st. fst (hd_roles s') b \<noteq> Some (st, Some m)" if "hd_inv s"
  proof (intro allI notI)
    fix b st assume b: "fst (hd_roles s') b = Some (st, Some m)"
    with R obtain h where "hd_holders s b = Some h" "cellularDataStateMachine h = Some m"
      by (auto simp: hd_roles_def)
    with inv_holder(2) [OF that] new [OF that] show False by blast
  qed
qed

text \<open>The machine that is chosen is registered and serves no role.\<close>

lemma choose_machine_free:
  assumes "choose_machine W h tech s = Some (Some m, s')"
  shows "keeps_roles s s' \<and> hd_holders s' = hd_holders s \<and> hd_slotId s' = hd_slotId s \<and> hd_switch s' = hd_switch s
    \<and> hd_items s' = hd_items s
    \<and> (hd_inv s \<longrightarrow> m \<in> set (stateMachines (hd_tables s')) \<and> (\<forall>b st. fst (hd_roles s') b \<noteq> Some (st, Some m)))"
proof -
  let ?s1 = "snd (IsSingleConnectionEnabled W tech s)"
  have k: "keeps_roles s ?s1" by (metis kb.reads(2) kb.R_refl prod.collapse)
  have f: "hd_holders ?s1 = hd_holders s" "hd_slotId ?s1 = hd_slotId s" "hd_switch ?s1 = hd_switch s"
    "hd_items ?s1 = hd_items s"
    by (simp_all add: IsSingleConnectionEnabled_def GetSinglePdpEnabledFromOpCfg_def Let_def split: option.splits)
  from assms consider (old) "s' = ?s1" "FindIdleCellularDataConnection ?s1 = Some m"
    | (new) "CreateCellularDataConnect W ?s1 = (m, s')"
    by (auto simp: choose_machine_def bind_Some_iff split: prod.splits if_splits option.splits)
  then show ?thesis
  proof cases
    case old
    have m: "m \<in> set (stateMachines (hd_tables ?s1))" "IsDataConnectionNotUsed (hd_holders ?s1) (Some m) (hd_mgr ?s1)"
      using find_Some_set [OF old(2) [unfolded FindIdleCellularDataConnection_def]] by auto
    with k f not_used_role [OF keeps_inv [OF k] m(2)] old(1) show ?thesis by simp
  next
    case new
    have g: "hd_slotId s' = hd_slotId ?s1" "hd_switch s' = hd_switch ?s1" "hd_items s' = hd_items ?s1"
      using new by (auto simp: CreateCellularDataConnect_def Let_def)
    have "keeps_roles s s'" using k created_machine(1) [OF new] by (rule keeps_trans)
    with g f created_machine(2-4) [OF new] keeps_inv [OF k] show ?thesis by simp
  qed
qed

lemma keeps_start:
  assumes "start_connection W a m apn tech s = Some s'"
    and "hd_holders s a = Some h" "apnState h = PROFILE_STATE_IDLE"
    and "hd_inv s \<Longrightarrow> m \<in> set (stateMachines (hd_tables s)) \<and> (\<forall>b st. fst (hd_roles s) b \<noteq> Some (st, Some m))"
  shows "keeps_roles s s'"
proof -
  let ?h' = "SetCellularDataStateMachine (Some m) (SetApnState PROFILE_STATE_CONNECTING (SetCurrentApn apn h))"
  from assms(1,2) obtain s1 where
    s1: "machine_call m (\<lambda>d. Some (d \<lparr>sm_capability := capability h\<rparr>)) s = Some s1"
    and s': "\<exists>params. s' = SetApnActivateStart W (apnType h) (hd_emit [Eff (ToMachine m (MSG_SM_CONNECT (Some params)))]
        (UpdateCellularDataConnectState W (apnType h) (put_holder a ?h' s1)))"
    by (auto simp: start_connection_def bind_Some_iff Let_def)
  note f = machine_call_frame [OF s1]
  have k0: "keeps_roles s s1" using s1 by (rule keeps_machine_call)
  have hs1: "hd_holders s1 a = Some h" using assms(2) f(1) by simp
  have "keeps_roles s1 (put_holder a ?h' s1)"
  proof (rule keeps_put [OF hs1])
    assume inv1: "hd_inv s1"
    then have inv: "hd_inv s"
      using f tables_ok_shape [of s1 s] s1
      by (auto simp: hd_inv_def machines_ok_def hd_shape_def machine_call_def bind_Some_iff split: if_splits)
    have "cellularDataStateMachine h = None"
      using inv_holder(1) [OF inv assms(2)] assms(3) by (simp add: holds_machine_def)
    moreover have "m \<in> snd (hd_roles s1)" using assms(4) [OF inv] f by (simp add: hd_roles_def)
    ultimately show "role_step (hd_roles s1) (hd_roles (put_holder a ?h' s1)) \<or> hd_roles (put_holder a ?h' s1) = hd_roles s1"
      using role_step.connect [of "fst (hd_roles s1)" a m "snd (hd_roles s1)"] hd_roles_at [OF hs1] assms(3)
        assms(4) [OF inv] f by (simp add: hd_roles_put)
  qed (simp_all add: SetCurrentApn_def)
  moreover have "keeps_roles (put_holder a ?h' s1) s'"
    using s' by (auto intro!: kb.act_start_app keeps_trans [OF kb.notify_app keeps_emit])
  ultimately show ?thesis using k0 by (blast intro: keeps_trans)
qed

text \<open>A connection request is a step of the table: the role is idle, the machine is free.\<close>

lemma keeps_connect:
  assumes "choose_machine W h tech s = Some (Some m, t)" "start_connection W a m apn tech t = Some u"
    "hd_holders s a = Some h" "apnState h = PROFILE_STATE_IDLE"
  shows "keeps_roles s u"
  unfolding keeps_roles_def
proof (rule impI)
  assume inv: "hd_inv s"
  note ch = choose_machine_free [OF assms(1)]
  have "keeps_roles t u"
    by (rule keeps_start [OF assms(2) _ assms(4)]) (use ch assms(3) inv in auto)
  with ch have "keeps_roles s u" by (blast intro: keeps_trans)
  with inv show "hd_inv u \<and> hd_shape u = hd_shape s \<and> role_step\<^sup>*\<^sup>* (hd_roles s) (hd_roles u)"
    by (simp add: keeps_roles_def)
qed

interpretation kr: handler_relation W keeps_roles for W
  by unfold_locales (blast intro: keeps_connect)

end
