(* ===== verification/Handler_Correct.thy ===== *)
theory Handler_Correct
  imports Handler_Invariant
begin

text \<open>
  Correctness of the data handler: in every reachable state the tables agree, each role has at most
  one machine and each machine at most one role; every step implements the role table; connections
  are requested only when the slot can have one; and the cycles of the handler (teardown, failure
  and retry, request and release) end where they should.
\<close>

section \<open>Reachable states\<close>

lemma AddApnHolder_dom:
  "AddApnHolder ty prio (hp, am) = (hp', am') \<Longrightarrow> h_next hp \<le> h_next hp'
    \<and> dom (h_holders hp') \<subseteq> dom (h_holders hp) \<union> {h_next hp..<h_next hp'}"
  by (auto simp: AddApnHolder_def Let_def split: if_splits)

lemma fold_AddApnHolder_dom:
  "fold (\<lambda>(ty, prio). AddApnHolder ty prio) rs (hp, am) = (hp', am') \<Longrightarrow> h_next hp \<le> h_next hp'
    \<and> dom (h_holders hp') \<subseteq> dom (h_holders hp) \<union> {h_next hp..<h_next hp'}"
proof (induction rs arbitrary: hp am)
  case (Cons r rs)
  obtain ty prio where r: "r = (ty, prio)" by (cases r)
  obtain hp1 am1 where s: "AddApnHolder ty prio (hp, am) = (hp1, am1)" by (cases "AddApnHolder ty prio (hp, am)")
  from Cons.prems r s have "fold (\<lambda>(ty, prio). AddApnHolder ty prio) rs (hp1, am1) = (hp', am')" by simp
  from Cons.IH [OF this] AddApnHolder_dom [OF s] show ?case by fastforce
qed simp

text \<open>The holders after initialisation: one idle holder for each role, at consecutive addresses.\<close>

definition first_holder :: "nat \<Rightarrow> ApnHolder" where
  "first_holder k = SetApnState PROFILE_STATE_IDLE (new_ApnHolder (fst (role_priorities ! k)) (snd (role_priorities ! k)))"

lemma initial_holders:
  assumes "InitApnHolders (hp, new_ApnManager) = (hp', am')" "h_holders hp = Map.empty"
  shows "holders_for (h_next hp) role_priorities hp' am' \<and> holders_wf hp' am'
    \<and> (\<forall>a h. h_holders hp' a = Some h \<longleftrightarrow> (\<exists>k < 14. a = h_next hp + k \<and> h = first_holder k))"
proof -
  have f: "fold (\<lambda>(ty, prio). AddApnHolder ty prio) role_priorities (hp, new_ApnManager) = (hp', am')"
    using assms(1) by (simp add: InitApnHolders_fold)
  have "holders_for (h_next hp) [] hp new_ApnManager" by (simp add: holders_for_def new_ApnManager_def)
  then have hf: "holders_for (h_next hp) role_priorities hp' am'" and wf: "holders_wf hp' am'"
    using fold_AddApnHolder [OF _ _ _ _ f, of "h_next hp" "[]"] role_priorities_ids new_ApnManager_wf by simp_all
  have n: "length role_priorities = 14" by (simp add: role_priorities_def)
  have nx: "h_next hp' = h_next hp + 14" using hf n by (simp add: holders_for_def)
  have d: "dom (h_holders hp') \<subseteq> {h_next hp..<h_next hp + 14}"
    using fold_AddApnHolder_dom [OF f] assms(2) nx by simp
  have "h_holders hp' a = Some h \<longleftrightarrow> (\<exists>k < 14. a = h_next hp + k \<and> h = first_holder k)" for a h
  proof
    assume a: "h_holders hp' a = Some h"
    with d have "h_next hp \<le> a" "a < h_next hp + 14" by auto
    then obtain k where k: "a = h_next hp + k" "k < 14" using le_Suc_ex by auto
    with hf n a show "\<exists>k < 14. a = h_next hp + k \<and> h = first_holder k" by (auto simp: holders_for_def first_holder_def)
  next
    assume "\<exists>k < 14. a = h_next hp + k \<and> h = first_holder k"
    with hf n show "h_holders hp' a = Some h" by (auto simp: holders_for_def first_holder_def)
  qed
  with hf wf show ?thesis by blast
qed

lemma first_holder_simps [simp]:
  "apnType (first_holder k) = fst (role_priorities ! k)" "priority (first_holder k) = snd (role_priorities ! k)"
  "apnState (first_holder k) = PROFILE_STATE_IDLE" "cellularDataStateMachine (first_holder k) = None"
  "dataCallEnabled (first_holder k) = False"
  by (simp_all add: first_holder_def new_ApnHolder_def)

text \<open>The tables of the manager lead to the holders and back.\<close>

lemma initial_tables:
  assumes "hd_mgr s = am'" "hd_mem s = hp'" "InitApnHolders (hp, new_ApnManager) = (hp', am')" "h_holders hp = Map.empty"
  shows "tables_ok s"
proof -
  note I = initial_holders [OF assms(3,4)]
  let ?n = "h_next hp"
  have hf: "holders_for ?n role_priorities hp' am'" and wf: "holders_wf hp' am'"
    and hs: "\<And>a h. h_holders hp' a = Some h \<longleftrightarrow> (\<exists>k < 14. a = ?n + k \<and> h = first_holder k)" using I by auto
  have len: "length role_priorities = 14" by (simp add: role_priorities_def)
  have lst: "apnHolders am' = map (\<lambda>k. Some (?n + k)) [0..<14]" using hf len by (simp add: holders_for_def)
  have srt: "set (sortedApnHolders am') = set (apnHolders am')"
    using wf unfolding holders_wf_def by (metis set_mset_mset)
  have valid: "FindApnIdByApnName (fst (role_priorities ! k)) \<noteq> DATA_CONTEXT_ROLE_INVALID_ID" if "k < 14" for k
    using role_priorities_ids(2) that len nth_mem by fastforce
  have look: "apnIdApnHolderMap am' i = Some p \<longleftrightarrow> (\<exists>k < 14. p = Some (?n + k) \<and> FindApnIdByApnName (fst (role_priorities ! k)) = i)" for i p
  proof
    assume "apnIdApnHolderMap am' i = Some p"
    then show "\<exists>k < 14. p = Some (?n + k) \<and> FindApnIdByApnName (fst (role_priorities ! k)) = i"
      using hf len by (fastforce simp: holders_for_def dest: map_of_SomeD)
  next
    assume "\<exists>k < 14. p = Some (?n + k) \<and> FindApnIdByApnName (fst (role_priorities ! k)) = i"
    then show "apnIdApnHolderMap am' i = Some p"
      using holders_for_lookup [OF hf role_priorities_ids(1)] len by auto
  qed
  show ?thesis
    unfolding tables_ok_def assms(1,2)
  proof (intro conjI allI impI)
    show "distinct (apnHolders am')" unfolding lst by (simp add: distinct_map inj_on_def)
  qed (use hs srt valid in \<open>auto simp: lst look\<close>)
qed

text \<open>What the tables of the roles look like for ever: the priority order is the list, ordered; the roles are
  the fourteen of the source.\<close>

definition role_list_ok :: "'db handler \<Rightarrow> bool" where
  "role_list_ok s \<longleftrightarrow> mset (sortedApnHolders (hd_mgr s)) = mset (apnHolders (hd_mgr s))
     \<and> sorted (map (\<lambda>p. - priority_of (hd_holders s) p) (sortedApnHolders (hd_mgr s)))
     \<and> length (apnHolders (hd_mgr s)) = 14
     \<and> {apnType h |a h. hd_holders s a = Some h} = fst ` set role_priorities"

lemma role_list_shape: "hd_shape s' = hd_shape s \<Longrightarrow> role_list_ok s' \<longleftrightarrow> role_list_ok s"
proof -
  assume e: "hd_shape s' = hd_shape s"
  then have l: "apnHolders (hd_mgr s') = apnHolders (hd_mgr s)" "sortedApnHolders (hd_mgr s') = sortedApnHolders (hd_mgr s)"
    and h: "map_option (\<lambda>h. (apnType h, priority h)) (hd_holders s' a)
      = map_option (\<lambda>h. (apnType h, priority h)) (hd_holders s a)" for a
    by (auto simp: hd_shape_def dest: fun_cong)
  have p: "priority_of (hd_holders s') p = priority_of (hd_holders s) p" for p
  proof (cases p)
    case (Some a)
    then show ?thesis using h [of a]
      by (cases "hd_holders s a"; cases "hd_holders s' a") (auto simp: priority_of_def)
  qed (simp add: priority_of_def)
  have t: "(\<exists>h. hd_holders s' a = Some h \<and> apnType h = ty) \<longleftrightarrow> (\<exists>h. hd_holders s a = Some h \<and> apnType h = ty)" for a ty
    using h [of a] by (cases "hd_holders s a"; cases "hd_holders s' a") auto
  have "{apnType h |a h. hd_holders s' a = Some h} = {apnType h |a h. hd_holders s a = Some h}"
    by (rule Collect_cong) (use t in metis)
  then show ?thesis by (simp add: role_list_ok_def l p)
qed

lemma initial_role_list:
  assumes "hd_mgr s = am'" "hd_mem s = hp'" "InitApnHolders (hp, new_ApnManager) = (hp', am')" "h_holders hp = Map.empty"
  shows "role_list_ok s"
proof -
  note I = initial_holders [OF assms(3,4)]
  have len: "length role_priorities = 14" by (simp add: role_priorities_def)
  have "{apnType h |a h. h_holders hp' a = Some h} = (\<lambda>k. fst (role_priorities ! k)) ` {..<14}"
    using I by (force simp: image_def)
  also have "\<dots> = fst ` set role_priorities"
    using nth_image [of 14 role_priorities] by (simp add: len lessThan_atLeast0 flip: image_image)
  finally have "{apnType h |a h. h_holders hp' a = Some h} = fst ` set role_priorities" .
  with I len show ?thesis by (auto simp: role_list_ok_def assms(1,2) holders_wf_def holders_for_def)
qed

lemma new_handler_fields:
  obtains hp0 hp am where "InitApnHolders (hp0, new_ApnManager) = (hp, am)" "h_holders hp0 = Map.empty" "h_next hp0 = 2"
    "hd_mgr (new_handler W slotId db ag) = am" "hd_mem (new_handler W slotId db ag) = hp"
    "hd_slotId (new_handler W slotId db ag) = slotId" "stateMachines (hd_tables (new_handler W slotId db ag)) = []"
    "hd_machines (new_handler W slotId db ag) = Map.empty" "hd_fx (new_handler W slotId db ag) = []"
proof -
  define hp0 where "hp0 = snd (alloc_item new_ApnItem \<lparr>h_items = Map.empty, h_holders = Map.empty, h_next = 1\<rparr>)"
  obtain hp am where i: "InitApnHolders (hp0, new_ApnManager) = (hp, am)" by (cases "InitApnHolders (hp0, new_ApnManager)")
  show thesis
    by (rule that [OF i]) (use i in \<open>simp_all add: new_handler_def hp0_def alloc_item_def new_ConnectionTables_def\<close>)
qed

lemma new_handler_inv:
  "hd_inv (new_handler W slotId db ag)"
  "fst (hd_roles (new_handler W slotId db ag)) a = Some (st, p) \<Longrightarrow> st = PROFILE_STATE_IDLE \<and> p = None"
  "hd_holders (new_handler W slotId db ag) a = Some h \<Longrightarrow> apnType h \<in> fst ` set role_priorities"
proof -
  let ?s = "new_handler W slotId db ag"
  obtain hp0 hp am where i: "InitApnHolders (hp0, new_ApnManager) = (hp, am)" "h_holders hp0 = Map.empty" "h_next hp0 = 2"
    and f: "hd_mgr ?s = am" "hd_mem ?s = hp" "stateMachines (hd_tables ?s) = []" "hd_machines ?s = Map.empty"
    by (rule new_handler_fields)
  have hs: "\<And>a h. h_holders hp a = Some h \<longleftrightarrow> (\<exists>k < 14. a = h_next hp0 + k \<and> h = first_holder k)"
    using initial_holders [OF i(1,2)] by auto
  have n: "length role_priorities = 14" by (simp add: role_priorities_def)
  show r: "fst (hd_roles ?s) a = Some (st, p) \<Longrightarrow> st = PROFILE_STATE_IDLE \<and> p = None" for a st p
    by (auto simp: hd_roles_def f hs)
  show "hd_holders ?s a = Some h \<Longrightarrow> apnType h \<in> fst ` set role_priorities" for a h
    using n by (auto simp: f hs)
  have "tables_ok ?s" using f(1,2) i(1,2) by (rule initial_tables)
  moreover have "machines_ok ?s" by (simp add: machines_ok_def f)
  moreover have "roles_ok (hd_roles ?s)" unfolding roles_ok_def using r by (auto simp: holds_machine_def dest: r)
  ultimately show "hd_inv ?s" by (simp add: hd_inv_def)
qed

lemma shape_types:
  "hd_shape s' = hd_shape s \<Longrightarrow> hd_holders s' a = Some h \<Longrightarrow> \<exists>h0. hd_holders s a = Some h0 \<and> apnType h0 = apnType h"
proof -
  assume e: "hd_shape s' = hd_shape s" and h: "hd_holders s' a = Some h"
  from e have "(\<lambda>a. map_option (\<lambda>h. (apnType h, priority h)) (hd_holders s' a))
      = (\<lambda>a. map_option (\<lambda>h. (apnType h, priority h)) (hd_holders s a))" by (simp add: hd_shape_def)
  from fun_cong [OF this, of a] h show ?thesis by (cases "hd_holders s a") auto
qed

text \<open>Initialisation reads configuration, which may take connections down that do not exist yet.\<close>

lemma Handler_Init_keeps:
  assumes "Handler_Init W slotId db ag = Some s"
  shows "keeps_roles (new_handler W slotId db ag) s"
proof -
  from assms obtain t where t: "GetConfigurationFor5G W (new_handler W slotId db ag) = Some t" "s = SetRilLinkBandwidths W t"
    by (auto simp: Handler_Init_def bind_Some_iff)
  show ?thesis unfolding t(2) by (intro kr.rel_bandwidths kr.rel_config_5g [OF t(1)]) simp
qed

lemma hd_reach_inv:
  assumes "hd_reach s"
  shows "hd_inv s" "hd_holders s a = Some h \<Longrightarrow> apnType h \<in> fst ` set role_priorities"
proof -
  have "hd_inv s \<and> (\<forall>a h. hd_holders s a = Some h \<longrightarrow> apnType h \<in> fst ` set role_priorities)"
    using assms
  proof (induction rule: hd_reach.induct)
    case (init W slotId db ag s)
    from Handler_Init_keeps [OF init] new_handler_inv(1,3) [where W = W and slotId = slotId and db = db and ag = ag]
    show ?case unfolding keeps_roles_def by (metis shape_types)
  next
    case (step s W s')
    from kr.rel_step [OF step.hyps(2)] step.IH show ?case unfolding keeps_roles_def by (metis shape_types)
  qed
  then show "hd_inv s" "hd_holders s a = Some h \<Longrightarrow> apnType h \<in> fst ` set role_priorities" by auto
qed

lemma hd_reach_roles:
  assumes "hd_reach s"
  shows "role_list_ok s"
proof -
  have "hd_inv s \<and> role_list_ok s" using assms
  proof (induction rule: hd_reach.induct)
    case (init W slotId db ag s)
    let ?n = "new_handler W slotId db ag"
    obtain hp0 hp am where i: "InitApnHolders (hp0, new_ApnManager) = (hp, am)" "h_holders hp0 = Map.empty"
      and f: "hd_mgr ?n = am" "hd_mem ?n = hp" by (rule new_handler_fields)
    have "role_list_ok ?n" using f i by (rule initial_role_list)
    with Handler_Init_keeps [OF init] new_handler_inv(1) [of W slotId db ag] show ?case
      unfolding keeps_roles_def by (metis role_list_shape)
  next
    case (step s W s')
    from kr.rel_step [OF step.hyps(2)] step.IH show ?case unfolding keeps_roles_def by (metis role_list_shape)
  qed
  then show ?thesis by simp
qed

text \<open>C1: the handler implements the role table. Whatever happens to a reachable handler, an event, a
  call or progress of the other components, is a sequence of steps of the abstract table: a role
  gets a machine only when it is idle and the machine serves no role, keeps it until the connection
  is down, and waits for a retry only without one; the roles themselves, their order and the
  machines that exist are never lost.\<close>

theorem handler_implements_role_table:
  assumes "hd_reach s" "hd_step W s s'"
  shows "role_step\<^sup>*\<^sup>* (hd_roles s) (hd_roles s') \<and> hd_shape s' = hd_shape s
    \<and> set (stateMachines (hd_tables s)) \<subseteq> set (stateMachines (hd_tables s'))"
proof -
  have k: "role_step\<^sup>*\<^sup>* (hd_roles s) (hd_roles s')" "hd_shape s' = hd_shape s"
    using kr.rel_step [OF assms(2)] hd_reach_inv(1) [OF assms(1)] by (simp_all add: keeps_roles_def)
  with role_steps_dom [OF k(1)] show ?thesis by (simp add: hd_roles_def)
qed

text \<open>C4: in every reachable state the tables of the handler agree. The list names every role of the store
  and nothing else, each once, and there are fourteen, those of the source; the priority order is a
  rearrangement of the list in which the priority never rises; the table by identifier holds exactly
  these roles, each under its own identifier. A role has a machine exactly while it connects, is
  connected or disconnects; the machine is registered, exists, and serves no other role.\<close>

theorem handler_tables_consistent:
  assumes "hd_reach s"
  shows "distinct (apnHolders (hd_mgr s)) \<and> length (apnHolders (hd_mgr s)) = 14
    \<and> set (apnHolders (hd_mgr s)) = {Some a |a. hd_holders s a \<noteq> None}
    \<and> {apnType h |a h. hd_holders s a = Some h} = fst ` set role_priorities
    \<and> mset (sortedApnHolders (hd_mgr s)) = mset (apnHolders (hd_mgr s))
    \<and> sorted (map (\<lambda>p. - priority_of (hd_holders s) p) (sortedApnHolders (hd_mgr s)))
    \<and> (\<forall>i p. apnIdApnHolderMap (hd_mgr s) i = Some p \<longleftrightarrow>
         (\<exists>a h. p = Some a \<and> hd_holders s a = Some h \<and> FindApnIdByApnName (apnType h) = i))
    \<and> (\<forall>a h. hd_holders s a = Some h \<longrightarrow>
         FindApnHolderById (hd_mgr s) (FindApnIdByApnName (apnType h)) = Some a \<and> GetApnHolder (hd_mgr s) (apnType h) = Some a
       \<and> (cellularDataStateMachine h \<noteq> None \<longleftrightarrow> holds_machine (apnState h))
       \<and> (\<forall>m. cellularDataStateMachine h = Some m \<longrightarrow> m \<in> set (stateMachines (hd_tables s)) \<and> hd_machines s m \<noteq> None
            \<and> (\<forall>b h'. hd_holders s b = Some h' \<longrightarrow> cellularDataStateMachine h' = Some m \<longrightarrow> b = a)))"
proof -
  have inv: "hd_inv s" using hd_reach_inv(1) [OF assms] .
  then have T: "tables_ok s" and M: "machines_ok s" and R: "roles_ok (hd_roles s)" by (auto simp: hd_inv_def)
  have t: "distinct (apnHolders (hd_mgr s))" "set (apnHolders (hd_mgr s)) = {Some a |a. hd_holders s a \<noteq> None}"
    "\<forall>i p. apnIdApnHolderMap (hd_mgr s) i = Some p \<longleftrightarrow>
         (\<exists>a h. p = Some a \<and> hd_holders s a = Some h \<and> FindApnIdByApnName (apnType h) = i)"
  proof -
    have p: "p \<in> set (apnHolders (hd_mgr s)) \<longleftrightarrow> (\<exists>a h. p = Some a \<and> hd_holders s a = Some h)" for p
      using T by (simp add: tables_ok_def)
    show "set (apnHolders (hd_mgr s)) = {Some a |a. hd_holders s a \<noteq> None}"
      by (rule set_eqI) (simp add: p not_None_eq ex_simps)
  qed (use T in \<open>simp_all only: tables_ok_def simp_thms\<close>)
  have h: "FindApnHolderById (hd_mgr s) (FindApnIdByApnName (apnType h)) = Some a \<and> GetApnHolder (hd_mgr s) (apnType h) = Some a
       \<and> (cellularDataStateMachine h \<noteq> None \<longleftrightarrow> holds_machine (apnState h))
       \<and> (\<forall>m. cellularDataStateMachine h = Some m \<longrightarrow> m \<in> set (stateMachines (hd_tables s)) \<and> hd_machines s m \<noteq> None
            \<and> (\<forall>b h'. hd_holders s b = Some h' \<longrightarrow> cellularDataStateMachine h' = Some m \<longrightarrow> b = a))"
    if hs: "hd_holders s a = Some h" for a h
  proof -
    have i: "FindApnIdByApnName (apnType h) \<noteq> DATA_CONTEXT_ROLE_INVALID_ID"
      and l: "apnIdApnHolderMap (hd_mgr s) (FindApnIdByApnName (apnType h)) = Some (Some a)"
      using T hs unfolding tables_ok_def by auto
    have m: "m \<in> set (stateMachines (hd_tables s)) \<and> hd_machines s m \<noteq> None
        \<and> (\<forall>b h'. hd_holders s b = Some h' \<longrightarrow> cellularDataStateMachine h' = Some m \<longrightarrow> b = a)"
      if "cellularDataStateMachine h = Some m" for m
    proof (intro conjI allI impI)
      show "m \<in> set (stateMachines (hd_tables s))" using inv_holder(2) [OF inv hs that] .
      then show "hd_machines s m \<noteq> None" using M by (auto simp: machines_ok_def)
      fix b h' assume "hd_holders s b = Some h'" "cellularDataStateMachine h' = Some m"
      then show "b = a" using R hd_roles_at hs that unfolding roles_ok_def by metis
    qed
    show ?thesis
      using i l m inv_holder(1) [OF inv hs] by (simp add: FindApnHolderById_def GetApnHolder_def Let_def)
  qed
  have all: "\<forall>a h. hd_holders s a = Some h \<longrightarrow>
         FindApnHolderById (hd_mgr s) (FindApnIdByApnName (apnType h)) = Some a \<and> GetApnHolder (hd_mgr s) (apnType h) = Some a
       \<and> (cellularDataStateMachine h \<noteq> None \<longleftrightarrow> holds_machine (apnState h))
       \<and> (\<forall>m. cellularDataStateMachine h = Some m \<longrightarrow> m \<in> set (stateMachines (hd_tables s)) \<and> hd_machines s m \<noteq> None
            \<and> (\<forall>b h'. hd_holders s b = Some h' \<longrightarrow> cellularDataStateMachine h' = Some m \<longrightarrow> b = a))"
    by (intro allI impI) (rule h)
  from hd_reach_roles [OF assms] have r: "mset (sortedApnHolders (hd_mgr s)) = mset (apnHolders (hd_mgr s))"
    "sorted (map (\<lambda>p. - priority_of (hd_holders s) p) (sortedApnHolders (hd_mgr s)))"
    "length (apnHolders (hd_mgr s)) = 14" "{apnType h |a h. hd_holders s a = Some h} = fst ` set role_priorities"
    by (simp_all only: role_list_ok_def)
  show ?thesis by (intro conjI) (rule t(1) r(3) t(2) r(4) r(1) r(2) t(3) all)+
qed

text \<open>A world for concrete examples: the quiet environment with one card, an APN database with one
  default item and an empty settings store.\<close>

definition sample_world :: "(string \<times> string) list world" where
  "sample_world = \<lparr>wP = sample_platform, wE = sample_env, wMon = sample_mon_env,
     wProps = \<lparr>isPropOn = False, defaultSetupFailDelay = 3000, defaultModemDendDelay = 1000\<rparr>, wDS = sample_datashare,
     wApnDb = \<lparr>QueryPreferApn = (\<lambda>s. Some []), QueryMvnoApnsByType = (\<lambda>a b c d. Some []),
       QueryApns = (\<lambda>a b. Some [sample_row 1 ''default''])\<rparr>,
     wCard = \<lparr>SimOperatorNumeric = ''46000'', IsCTSimCard = False, SimIccId = ''1'', SimSpn = '''', IMSI = '''', SimGid1 = ''''\<rparr>,
     wCreateAll = None, wCreateDc = None, isAirplaneModeOn = False, powerSaveMode = False, featureSingleCard = False,
     imsRegistered = (\<lambda>s. False), preferApn = (\<lambda>s. None), deactivateAllResult = True, mobileDataPolicy = '''',
     intParameter = (\<lambda>k d. d), operatorInt = (\<lambda>s k. None), operatorConfigValue = (\<lambda>s k. None),
     radioTechCode = (\<lambda>t. 0), ext_isApnAllowedActive = None, ext_sendDataSwitchChangeInfo = False, BEARER_WIFI = 1\<rparr>"

text \<open>A handler whose roles are all idle and not requested: setting up changes nothing.\<close>

definition calm :: "'db handler \<Rightarrow> bool" where
  "calm s \<longleftrightarrow> (\<forall>p \<in> set (apnHolders (hd_mgr s)) \<union> set (sortedApnHolders (hd_mgr s)). p \<noteq> None)
     \<and> (\<forall>a h. hd_holders s a = Some h \<longrightarrow> apnState h = PROFILE_STATE_IDLE \<and> cellularDataStateMachine h = None
          \<and> \<not> dataCallEnabled h \<and> apnItem h = None)
     \<and> (\<forall>p \<in> set (sortedApnHolders (hd_mgr s)). deref (hd_holders s) p \<noteq> None)"

lemma calm_establish:
  assumes "calm s"
  shows "EstablishAllApnsIfConnectable W s = Some s"
proof -
  have b: "foldo (\<lambda>p items. case deref (hd_holders s) p of None \<Rightarrow> Some items | Some h \<Rightarrow> SetApnBadState False h items) ps items
      = Some items" for ps items
  proof (induction ps)
    case (Cons p ps)
    have "(case deref (hd_holders s) p of None \<Rightarrow> Some items | Some h \<Rightarrow> SetApnBadState False h items) = Some items"
      using assms by (cases p) (auto simp: calm_def SetApnBadState_def split: option.splits)
    with Cons show ?case by simp
  qed simp
  have e: "foldo (establish_one W) ps s = Some s" if "set ps \<subseteq> set (sortedApnHolders (hd_mgr s))" for ps
    using that
  proof (induction ps)
    case (Cons p ps)
    from Cons.prems assms obtain a h where "p = Some a" "hd_holders s a = Some h" "\<not> dataCallEnabled h"
      unfolding calm_def by (metis deref_simps(2) list.set_intros(1) option.exhaust subsetD UnI2)
    with Cons show ?case by (simp add: establish_one_def)
  qed simp
  show ?thesis by (simp add: EstablishAllApnsIfConnectable_def ClearAllApnBad_def b e)
qed

lemma calm_not_up:
  assumes "calm s"
  shows "clear_if_up W reason s = Some s"
proof -
  have l: "h \<in> set (live_holders (hd_holders s) ps) \<Longrightarrow> apnState h = PROFILE_STATE_IDLE" for h ps
    using assms by (force simp: live_holders_def List.map_filter_def calm_def deref_def split: option.splits)
  have "overall_loop hs f = PROFILE_STATE_IDLE \<or> overall_loop hs f = PROFILE_STATE_FAILED"
    if "\<forall>h \<in> set hs. apnState h = PROFILE_STATE_IDLE" for hs f
    using that by (induction hs arbitrary: f) auto
  then have "\<not> is_up (GetOverallApnState (hd_holders s) (hd_mgr s))"
    using l by (auto simp: is_up_def GetOverallApnState_def HasAnyConnectedState_def list_ex_iff) (metis ApnProfileState.distinct)+
  then show ?thesis by (simp add: clear_if_up_def)
qed

lemma new_handler_calm:
  "calm (new_handler W slotId db ag)" "hd_queue (new_handler W slotId db ag) = []" "hd_fx (new_handler W slotId db ag) = []"
proof -
  let ?s = "new_handler W slotId db ag"
  obtain hp0 hp am where i: "InitApnHolders (hp0, new_ApnManager) = (hp, am)" "h_holders hp0 = Map.empty"
    and f: "hd_mgr ?s = am" "hd_mem ?s = hp" "hd_fx ?s = []"
    by (rule new_handler_fields)
  have hs: "\<And>a h. h_holders hp a = Some h \<longleftrightarrow> (\<exists>k < 14. a = h_next hp0 + k \<and> h = first_holder k)"
    using initial_holders [OF i] by auto
  have T: "tables_ok ?s" using new_handler_inv(1) [of W slotId db ag] by (simp add: hd_inv_def)
  then have q: "set (sortedApnHolders am) = set (apnHolders am)"
    and p: "\<And>p. p \<in> set (apnHolders am) \<Longrightarrow> \<exists>a h. p = Some a \<and> h_holders hp a = Some h" by (auto simp: tables_ok_def f)
  have "apnItem (first_holder k) = None" for k
    by (simp add: first_holder_def new_ApnHolder_def)
  then have "\<forall>a h. h_holders hp a = Some h \<longrightarrow> apnState h = PROFILE_STATE_IDLE \<and> cellularDataStateMachine h = None
      \<and> \<not> dataCallEnabled h \<and> apnItem h = None" using hs by auto
  then show "calm ?s" unfolding calm_def f using p q by fastforce
  show "hd_queue ?s = []" by (simp add: new_handler_def split: prod.splits)
  show "hd_fx ?s = []" by (rule f(3))
qed

text \<open>The configuration is read on any calm handler, and leaves the roles alone.\<close>

lemma tcp_total: "\<exists>t'. GetDefaultTcpBufferConfig e t = Some t' \<and> stateMachines t' = stateMachines t"
proof -
  have "\<exists>r. foldo tcp_entry vec m = Some r" for vec m
    by (induction vec arbitrary: m) (auto simp: tcp_entry_def)
  then obtain r where "foldo tcp_entry (split_on (CHR '';'') (c_str (snd (getParameter e ''persist.sys.data.tcpbuffer''
      DEFAULT_TCP_BUFFER_CONFIG 1024)))) [] = Some r" by blast
  then show ?thesis by (simp add: GetDefaultTcpBufferConfig_def)
qed

lemma bandwidth_total: "\<exists>t'. GetDefaultBandWidthsConfig e t = Some t'"
  by (auto simp: GetDefaultBandWidthsConfig_def Let_def bind_Some_iff) (metis foldo_bandwidth Split_eq_split_on)+

definition same_roles :: "'db handler \<Rightarrow> 'db handler \<Rightarrow> bool" where
  "same_roles s s' \<longleftrightarrow> hd_mem s' = hd_mem s \<and> hd_mgr s' = hd_mgr s \<and> hd_slotId s' = hd_slotId s \<and> hd_queue s' = hd_queue s
     \<and> stateMachines (hd_tables s') = stateMachines (hd_tables s)
     \<and> (\<exists>cs. hd_fx s' = hd_fx s @ cs \<and> (\<forall>c \<in> set cs. \<not> starts c))"

lemma same_roles_trans: "same_roles s t \<Longrightarrow> same_roles t u \<Longrightarrow> same_roles s u"
  by (auto simp: same_roles_def)

lemma same_roles_calm: "same_roles s s' \<Longrightarrow> calm s \<Longrightarrow> calm s'" by (simp add: same_roles_def calm_def)

lemma roaming_config_calm:
  assumes "calm s"
  shows "\<exists>s'. GetDefaultDataRoamingConfig W s = Some s' \<and> same_roles s s'"
proof -
  obtain ret on sw where q: "QueryUserDataRoamingStatus (wE W) (wDS W) (hd_db s) False (hd_switch s) = (ret, on, sw)"
    by (cases "QueryUserDataRoamingStatus (wE W) (wDS W) (hd_db s) False (hd_switch s)")
  have c: "calm (s \<lparr>defaultDataRoamingEnable := b, hd_switch := x\<rparr>)" for b x using assms by (simp add: calm_def)
  show ?thesis
    using calm_not_up [OF c] calm_establish [OF c]
    by (simp add: GetDefaultDataRoamingConfig_def q Let_def same_roles_def split: option.splits)
qed

lemma settings_write_same: "same_roles s (snd (settings_write f s))"
  by (auto simp: same_roles_def settings_write_def hd_emit_def split: prod.splits)

lemma enable_config_same: "same_roles s (GetDefaultDataEnableConfig W s)"
proof -
  have "same_roles s s" by (simp add: same_roles_def)
  then show ?thesis
    by (auto simp: GetDefaultDataEnableConfig_def Let_def settings_write_same split: option.splits
        intro: same_roles_trans [OF settings_write_same settings_write_same])
qed

lemma config_calm:
  assumes "calm s"
  shows "\<exists>s'. GetConfigurationFor5G W s = Some s' \<and> same_roles s s'"
proof -
  define s0 where "s0 = s \<lparr>unMetered := map (\<lambda>k. ParseOperatorConfig W k s) [''allmeterednas'', ''meterednrnsammware'',
     ''meteredNrnsasub6'', ''meteredallnrsa'', ''meterednrsammware'', ''meterednrsasub6'', ''meteredroaming'']\<rparr>"
  obtain t1 where t1: "GetDefaultBandWidthsConfig (wE W) (hd_tables s0) = Some t1" using bandwidth_total by blast
  obtain t2 where t2: "GetDefaultTcpBufferConfig (wE W) t1 = Some t2" using tcp_total by blast
  have tb: "stateMachines t2 = stateMachines (hd_tables s)"
    using bandwidth_machines(1) [OF t1] bandwidth_machines(2) [OF t2] by (simp add: s0_def)
  define s3 where "s3 = GetSinglePdpEnabledFromOpCfg W (s0 \<lparr>hd_tables := t2,
      upLinkThresholds := split_on (CHR '','') (c_str (snd (getParameter (wE W) ''persist.sys.data.uplink''
       ''100,500,1000,5000,10000,20000,50000,75000,100000,200000,500000'' 100))),
      downLinkThresholds := split_on (CHR '','') (c_str (snd (getParameter (wE W) ''persist.sys.data.downlink''
       ''100,500,1000,5000,10000,20000,50000,75000,100000,200000,500000,1000000,1500000,2000000'' 100))),
      defaultMobileMtuConfig := GetDefaultMobileMtuConfig (getParameter (wE W)),
      defaultPreferApn := GetDefaultPreferApnConfig (getParameter (wE W)),
      multipleConnectionsEnabled := GetDefaultMultipleConnectionsConfig (getParameter (wE W))\<rparr>)"
  have s3: "same_roles s s3"
    using tb by (auto simp: same_roles_def s3_def s0_def GetSinglePdpEnabledFromOpCfg_def split: option.splits)
  from roaming_config_calm [OF same_roles_calm [OF s3 assms]] obtain s4 where
    s4: "GetDefaultDataRoamingConfig W s3 = Some s4" "same_roles s3 s4" by blast
  have "GetDefaultConfiguration W s0 = Some (GetDefaultDataEnableConfig W s4)"
    using t1 t2 s4(1) unfolding s3_def
    by (simp add: GetDefaultConfiguration_def GetDefaultUpLinkThresholdsConfig_def
        GetDefaultDownLinkThresholdsConfig_def Let_def)
  then have "GetConfigurationFor5G W s = Some (GetDefaultDataEnableConfig W s4)"
    unfolding GetConfigurationFor5G_def s0_def .
  with same_roles_trans [OF same_roles_trans [OF s3 s4(2)] enable_config_same] show ?thesis by blast
qed

text \<open>Initialisation always returns, whatever the configuration, the stored switches and the radio
  say. The handler starts with fourteen idle roles, none requested and none with a machine, with no
  machine, no event in its queue, and without having asked any machine to connect.\<close>

theorem handler_starts_idle:
  "\<exists>s. Handler_Init W slotId db ag = Some s \<and> hd_slotId s = slotId \<and> length (apnHolders (hd_mgr s)) = 14
     \<and> (\<forall>a h. hd_holders s a = Some h \<longrightarrow> apnState h = PROFILE_STATE_IDLE \<and> \<not> dataCallEnabled h
          \<and> cellularDataStateMachine h = None)
     \<and> stateMachines (hd_tables s) = [] \<and> hd_queue s = [] \<and> (\<forall>c \<in> set (hd_fx s). \<not> starts c)"
proof -
  let ?s = "new_handler W slotId db ag"
  note c = new_handler_calm [where W = W and slotId = slotId and db = db and ag = ag]
  obtain s where s: "GetConfigurationFor5G W ?s = Some s" "same_roles ?s s" using config_calm [OF c(1)] by blast
  obtain hp0 hp am where i: "InitApnHolders (hp0, new_ApnManager) = (hp, am)" "h_holders hp0 = Map.empty"
    and f: "hd_mgr ?s = am" "hd_slotId ?s = slotId" "stateMachines (hd_tables ?s) = []"
    by (rule new_handler_fields)
  have "length (apnHolders am) = 14"
    using initial_holders [OF i] by (auto simp: holders_for_def role_priorities_def)
  with s f c same_roles_calm [OF s(2) c(1)] show ?thesis
    by (auto simp: Handler_Init_def same_roles_def SetRilLinkBandwidths_def calm_def)
qed

theorem handler_starts_idle_witness:
  "\<exists>s. Handler_Init sample_world 0 [] sample_agent = Some s \<and> length (apnHolders (hd_mgr s)) = 14
     \<and> stateMachines (hd_tables s) = [] \<and> hd_queue s = []"
  using handler_starts_idle [of sample_world 0 "[]" sample_agent] by blast

lemma sample_reached: "\<exists>s. hd_reach (s :: (string \<times> string) list handler) \<and> hd_slotId s = 0 \<and> hd_inv s \<and> hd_queue s = []
   \<and> (\<exists>a h. hd_holders s a = Some h)"
proof -
  have "\<exists>s. GetConfigurationFor5G sample_world (new_handler sample_world 0 [] sample_agent) = Some s
      \<and> same_roles (new_handler sample_world 0 [] sample_agent) s"
    by (rule config_calm [OF new_handler_calm(1)])
  then obtain s where s: "GetConfigurationFor5G sample_world (new_handler sample_world 0 [] sample_agent) = Some s"
    "same_roles (new_handler sample_world 0 [] sample_agent) s" by blast
  then have i: "Handler_Init sample_world 0 [] sample_agent = Some (SetRilLinkBandwidths sample_world s)"
    by (simp add: Handler_Init_def)
  have r: "hd_reach (SetRilLinkBandwidths sample_world s)" using i by (rule hd_reach.init)
  obtain hp0 hp am where h: "InitApnHolders (hp0, new_ApnManager) = (hp, am)" "h_holders hp0 = Map.empty"
    and n: "hd_slotId (new_handler sample_world 0 [] sample_agent) = 0" "hd_mem (new_handler sample_world 0 [] sample_agent) = hp"
    by (rule new_handler_fields)
  have "h_holders hp (h_next hp0 + 0) = Some (first_holder 0)" using initial_holders [OF h] by auto
  then have "\<exists>a h. hd_holders (SetRilLinkBandwidths sample_world s) a = Some h"
    using s(2) n by (auto simp: same_roles_def SetRilLinkBandwidths_def)
  moreover from n have "hd_slotId (SetRilLinkBandwidths sample_world s) = 0" "hd_queue (SetRilLinkBandwidths sample_world s) = []"
    using s(2) new_handler_calm(2) [of sample_world 0 "[]" sample_agent] by (simp_all add: same_roles_def SetRilLinkBandwidths_def)
  ultimately show ?thesis using r hd_reach_inv(1) [OF r] by blast
qed

theorem handler_implements_role_table_witness:
  "\<exists>s. hd_reach s \<and> role_step\<^sup>*\<^sup>* (hd_roles s) (hd_roles (snd (RequestNet sample_world
     \<lparr>nr_capability = 12, nr_ident = ''simId1'', nr_bearTypes = 1\<rparr> s)))"
proof -
  obtain s :: "(string \<times> string) list handler" where s: "hd_reach s" using sample_reached by blast
  show ?thesis
    using s handler_implements_role_table [OF s hd_step.request [where W = sample_world and
          r = "\<lparr>nr_capability = 12, nr_ident = ''simId1'', nr_bearTypes = 1\<rparr>"]] by blast
qed

theorem handler_tables_consistent_witness:
  "\<exists>s. hd_reach (s :: (string \<times> string) list handler) \<and> length (sortedApnHolders (hd_mgr s)) = 14
     \<and> (\<exists>a h. hd_holders s a = Some h \<and> apnType h = ''mms'' \<and> GetApnHolder (hd_mgr s) ''mms'' = Some a)"
proof -
  obtain s :: "(string \<times> string) list handler" where r: "hd_reach s" using sample_reached by blast
  note t = handler_tables_consistent [OF r]
  have "''mms'' \<in> fst ` set role_priorities" by (simp add: role_priorities_def)
  with t have "''mms'' \<in> {apnType h |a h. hd_holders s a = Some h}" by simp
  then obtain a h where "hd_holders s a = Some h" "apnType h = ''mms''" by auto
  moreover have "length (sortedApnHolders (hd_mgr s)) = 14" using t by (metis size_mset)
  ultimately show ?thesis using r t by metis
qed

section \<open>Connection requests\<close>

text \<open>Two more relations: no connection is requested, and one is requested only when possible.\<close>

definition quiet :: "'db handler \<Rightarrow> 'db handler \<Rightarrow> bool" where
  "quiet s s' \<longleftrightarrow> (\<exists>cs. hd_fx s' = hd_fx s @ cs \<and> (\<forall>c \<in> set cs. \<not> starts c))"

definition guarded :: "'db world \<Rightarrow> 'db handler \<Rightarrow> 'db handler \<Rightarrow> bool" where
  "guarded W s s' \<longleftrightarrow> hd_shape s' = hd_shape s \<and> (\<exists>cs. hd_fx s' = hd_fx s @ cs
     \<and> ((\<exists>c \<in> set cs. starts c) \<longrightarrow> (\<exists>a h. hd_holders s a = Some h \<and> available W h (hd_slotId s))))"

lemma machine_call_quiet:
  assumes "machine_call m f s = Some s'" "quiet_call f"
  shows "quiet s s'" "hd_shape s' = hd_shape s"
proof -
  from assms(1) obtain d d' where f: "f d = Some d'" "fx d = []" and s': "hd_fx s' = hd_fx s @ map Eff (fx d')"
    by (auto simp: machine_call_def bind_Some_iff)
  from assms(2) f have "\<forall>c \<in> set (map Eff (fx d')). \<not> starts c" by (auto simp: quiet_call_def)
  then show "quiet s s'" using s' unfolding quiet_def by blast
  show "hd_shape s' = hd_shape s" using machine_call_frame [OF assms(1)] by (simp add: hd_shape_def)
qed

interpretation qt: handler_base W quiet for W
proof
  fix s t u :: "'a handler" assume "quiet s t" "quiet t u"
  then show "quiet s u" unfolding quiet_def by (metis append.assoc set_append UnE)
qed (auto simp: quiet_def intro: machine_call_quiet(1) [unfolded quiet_def])

lemma quiet_guarded: "quiet s s' \<Longrightarrow> hd_shape s' = hd_shape s \<Longrightarrow> guarded W s s'"
  by (auto simp: quiet_def guarded_def)

lemma available_shape:
  assumes "hd_shape s' = hd_shape s" "hd_holders s' a = Some h" "available W h (hd_slotId s')"
  shows "\<exists>h0. hd_holders s a = Some h0 \<and> available W h0 (hd_slotId s)"
  using shape_types [OF assms(1,2)] assms(1,3) by (auto simp: available_def IsEmergencyType_def hd_shape_def)

lemma holder_step_shape: "hd_holders s a = Some h \<Longrightarrow> holder_step h h' \<Longrightarrow> hd_shape (put_holder a h' s) = hd_shape s"
  by (rule hd_shape_put) (auto simp: holder_step_def)

lemma guarded_trans:
  assumes "guarded W s t" "guarded W t u"
  shows "guarded W s u"
proof -
  from assms(1) obtain cs where cs: "hd_fx t = hd_fx s @ cs"
    and c: "(\<exists>c \<in> set cs. starts c) \<longrightarrow> (\<exists>a h. hd_holders s a = Some h \<and> available W h (hd_slotId s))"
    unfolding guarded_def by blast
  from assms(2) obtain ds where ds: "hd_fx u = hd_fx t @ ds"
    and d: "(\<exists>c \<in> set ds. starts c) \<longrightarrow> (\<exists>a h. hd_holders t a = Some h \<and> available W h (hd_slotId t))"
    unfolding guarded_def by blast
  have sh: "hd_shape t = hd_shape s" "hd_shape u = hd_shape s" using assms by (auto simp: guarded_def)
  have "(\<exists>c \<in> set (cs @ ds). starts c) \<longrightarrow> (\<exists>a h. hd_holders s a = Some h \<and> available W h (hd_slotId s))"
    using c d available_shape [OF sh(1)] unfolding set_append by blast
  with cs ds sh show ?thesis unfolding guarded_def by (intro conjI exI [of _ "cs @ ds"]) auto
qed

lemma guarded_base: "handler_base (guarded W)"
proof
  show "guarded W s s" for s by (simp add: guarded_def)
next
  show "guarded W s t \<Longrightarrow> guarded W t u \<Longrightarrow> guarded W s u" for s t u by (rule guarded_trans)
next
  fix s :: "'a handler" and cs assume "\<And>c. c \<in> set cs \<Longrightarrow> \<not> starts c"
  then show "guarded W s (hd_emit cs s)" by (intro quiet_guarded qt.R_emit) (simp_all add: hd_shape_def)
next
  fix m f and s s' :: "'a handler" assume "machine_call m f s = Some s'" "quiet_call f"
  then show "guarded W s s'" using machine_call_quiet by (blast intro: quiet_guarded)
next
  fix s :: "'a handler" and a h h' assume "hd_holders s a = Some h" "holder_step h h'"
  then show "guarded W s (put_holder a h' s)" by (blast intro: quiet_guarded qt.R_put holder_step_shape)
qed (simp add: guarded_def)

text \<open>The choice of a machine asks none to connect; the request itself is the only one.\<close>

lemma choose_machine_frame:
  assumes "choose_machine W h tech s = Some (Some m, t)"
  shows "quiet s t" "hd_shape t = hd_shape s" "hd_holders t = hd_holders s" "hd_mgr t = hd_mgr s"
proof -
  obtain b u where u: "IsSingleConnectionEnabled W tech s = (b, u)" by (cases "IsSingleConnectionEnabled W tech s")
  have qu: "quiet s u" using qt.reads(2) [OF u qt.R_refl] .
  have fu: "hd_holders u = hd_holders s" "hd_mgr u = hd_mgr s" "hd_slotId u = hd_slotId s"
    using u by (auto simp: IsSingleConnectionEnabled_def GetSinglePdpEnabledFromOpCfg_def Let_def split: option.splits if_splits)
  have "t = u \<or> t = snd (CreateCellularDataConnect W u)"
    using assms u by (auto simp: choose_machine_def bind_Some_iff split: prod.splits if_splits option.splits)
  moreover have "quiet u (snd (CreateCellularDataConnect W u))" "hd_holders (snd (CreateCellularDataConnect W u)) = hd_holders u"
      "hd_mgr (snd (CreateCellularDataConnect W u)) = hd_mgr u" "hd_slotId (snd (CreateCellularDataConnect W u)) = hd_slotId u"
    by (simp_all add: CreateCellularDataConnect_def quiet_def Let_def)
  ultimately show "quiet s t" "hd_shape t = hd_shape s" "hd_holders t = hd_holders s" "hd_mgr t = hd_mgr s"
    using qu fu qt.R_trans [OF qu] by (auto simp: hd_shape_def)
qed

lemma start_connection_effect:
  assumes "start_connection W a m apn tech t = Some u" "hd_holders t a = Some h"
  shows "\<exists>cs pr. hd_fx u = hd_fx t @ cs @ [Eff (ToMachine m (MSG_SM_CONNECT (Some pr)))]
      \<and> (\<forall>c \<in> set cs. \<not> starts c) \<and> dc_apnHolder pr = Some a"
    "hd_shape u = hd_shape t"
    "\<exists>h'. hd_holders u a = Some h' \<and> apnType h' = apnType h \<and> apnState h' = PROFILE_STATE_CONNECTING
       \<and> cellularDataStateMachine h' = Some m"
proof -
  let ?h = "SetCellularDataStateMachine (Some m) (SetApnState PROFILE_STATE_CONNECTING (SetCurrentApn apn h))"
  from assms obtain t1 it where t1: "machine_call m (\<lambda>d. Some (d \<lparr>sm_capability := capability h\<rparr>)) t = Some t1"
    and it: "deref (hd_items t) apn = Some it"
    by (auto simp: start_connection_def bind_Some_iff Let_def)
  have u: "u = SetApnActivateStart W (apnType h) (hd_emit [Eff (ToMachine m (MSG_SM_CONNECT (Some
        (mk_DataConnectionParams (Some a) (at_profileId (it_attr it)) tech (roaming_now W t)
           (IsUserDataRoamingOn (wE W) (hd_switch t)) True))))]
        (UpdateCellularDataConnectState W (apnType h) (put_holder a ?h t1)))"
    using assms t1 it by (simp add: start_connection_def Let_def)
  have q: "quiet t (UpdateCellularDataConnectState W (apnType h) (put_holder a ?h t1))"
    using qt.notify_app [of t "put_holder a ?h t1"] machine_call_quiet(1) [OF t1] by (simp add: quiet_def)
  then show "\<exists>cs pr. hd_fx u = hd_fx t @ cs @ [Eff (ToMachine m (MSG_SM_CONNECT (Some pr)))]
      \<and> (\<forall>c \<in> set cs. \<not> starts c) \<and> dc_apnHolder pr = Some a"
    by (auto simp: u quiet_def SetApnActivateStart_def Let_def mk_DataConnectionParams_def)
  have h1: "hd_holders t1 a = Some h" using machine_call_frame(1) [OF t1] assms(2) by simp
  have "hd_shape (put_holder a ?h t1) = hd_shape t1"
    by (rule hd_shape_put [OF h1]) (simp_all add: SetCellularDataStateMachine_def SetCurrentApn_def)
  moreover have "hd_shape t1 = hd_shape t" using machine_call_frame [OF t1] by (simp add: hd_shape_def)
  moreover have "hd_shape u = hd_shape (put_holder a ?h t1)"
    by (simp add: u SetApnActivateStart_def UpdateCellularDataConnectState_def hd_shape_def Let_def)
  ultimately show "hd_shape u = hd_shape t" by simp
  show "\<exists>h'. hd_holders u a = Some h' \<and> apnType h' = apnType h \<and> apnState h' = PROFILE_STATE_CONNECTING
       \<and> cellularDataStateMachine h' = Some m"
    by (simp add: u SetApnActivateStart_def UpdateCellularDataConnectState_def Let_def SetCellularDataStateMachine_def
        SetCurrentApn_def)
qed

lemma guarded_connect:
  assumes "choose_machine W h tech s = Some (Some m, t)" "start_connection W a m apn tech t = Some u"
    "hd_holders s a = Some h" "available W h (hd_slotId s)"
  shows "guarded W s u"
proof -
  note c = choose_machine_frame [OF assms(1)]
  have h: "hd_holders t a = Some h" using assms(3) c(3) by simp
  note e = start_connection_effect [OF assms(2) h]
  from c(1) e(1) have "\<exists>cs. hd_fx u = hd_fx s @ cs" by (auto simp: quiet_def)
  with assms(3,4) e(2) c(2) show ?thesis by (auto simp: guarded_def)
qed

interpretation gd: handler_relation W "guarded W" for W
  by (rule handler_relation.intro [OF guarded_base], rule handler_relation_axioms.intro, rule guarded_connect)

text \<open>C2: whatever happens to the handler, it asks a machine to connect only when neither power-save nor
  airplane mode is on, and the slot is in service with a SIM card that is ready, or the role is the
  emergency role (which initialisation does not create).\<close>

theorem no_connect_when_unavailable:
  assumes "hd_step W s s'" "hd_fx s' = hd_fx s @ cs" "Eff (ToMachine m (MSG_SM_CONNECT p)) \<in> set cs"
  shows "\<not> powerSaveMode W \<and> \<not> isAirplaneModeOn W \<and>
    (PsRegState (wE W) (hd_slotId s) = REG_STATE_IN_SERVICE
      \<and> (SimStateOf (wE W) (hd_slotId s) = SIM_STATE_READY \<or> SimStateOf (wE W) (hd_slotId s) = SIM_STATE_LOADED)
     \<or> (\<exists>a h. hd_holders s a = Some h \<and> apnType h = DATA_CONTEXT_ROLE_EMERGENCY))"
proof -
  have "guarded W s s'" using assms(1) by (rule gd.rel_step)
  then obtain a h where h: "hd_holders s a = Some h" "available W h (hd_slotId s)"
    using assms(2,3) unfolding guarded_def starts_def by fastforce
  then show ?thesis by (auto simp: available_def IsEmergencyType_def)
qed

text \<open>The attempt itself: what it checks, in the state in which it is made.\<close>

lemma attach_check_same: "CheckAttachAndSimState W h s = (True, s') \<Longrightarrow> s' = s \<and> \<not> isMccChanged s"
  by (auto simp: CheckAttachAndSimState_def Let_def split: if_splits)

lemma establish_starts:
  assumes "EstablishDataConnection W a tech s = Some (b, s')" "hd_holders s a = Some h0"
  obtains (no_start) "quiet s s'"
  | (start) m pr h' cs where "hd_fx s' = hd_fx s @ cs @ [Eff (ToMachine m (MSG_SM_CONNECT (Some pr)))]"
      "\<forall>c \<in> set cs. \<not> starts c" "dc_apnHolder pr = Some a" "hd_holders s' a = Some h'"
      "apnState h' = PROFILE_STATE_CONNECTING" "cellularDataStateMachine h' = Some m"
  using assms
proof (cases rule: EstablishDataConnection_cases)
  case (none h)
  then show ?thesis using no_start by (simp add: quiet_def)
next
  case (shared h m s2)
  have "quiet s s2" using qt.compatible_app [OF shared(4)] by (simp add: quiet_def)
  with qt.share_app [OF shared(5)] no_start show ?thesis by blast
next
  case (refused h s2)
  have "quiet s s2" using refused(2) qt.compatible_app [of W h "put_holder a h s" None s2 s] by (auto simp: quiet_def)
  with qt.choose_none [OF refused(3)] no_start show ?thesis by blast
next
  case (started apn h m s2 s3)
  have q: "quiet s s2" and h: "hd_holders s2 a = Some h"
    using started(2) qt.compatible_app [of W h "put_holder a h s" None s2 s] by (auto simp: quiet_def compatible_frame)
  note c = choose_machine_frame [OF started(3)]
  have h3: "hd_holders s3 a = Some h" using h c(3) by simp
  note e = start_connection_effect [OF started(4) h3]
  have "quiet s s3" using q c(1) by (rule qt.R_trans)
  with e(1) e(3) show ?thesis
    by (auto simp: quiet_def intro!: start [of "_ @ _" m])
qed

text \<open>An attempt that is not quiet has passed every check and ends in a request for the role.\<close>

lemma attempt_starts:
  assumes "AttemptEstablishDataConnection W (Some a) s = Some s'" "hd_holders s a = Some h" "\<not> quiet s s'"
  obtains m pr h' ds where "CheckCellularDataSlotId W h s" "\<not> isMccChanged s" "CheckRoamingState W h s"
    "apnState h = PROFILE_STATE_IDLE \<or> apnState h = PROFILE_STATE_FAILED"
    "hd_fx s' = hd_fx s @ ds @ [Eff (ToMachine m (MSG_SM_CONNECT (Some pr)))]" "\<forall>c \<in> set ds. \<not> starts c"
    "dc_apnHolder pr = Some a" "hd_holders s' a = Some h'" "apnState h' = PROFILE_STATE_CONNECTING"
    "cellularDataStateMachine h' = Some m"
  using assms(1)
proof (cases rule: AttemptEstablish_cases)
  case idle
  with assms(3) show ?thesis by simp
next
  case (attach h1)
  with assms(3) qt.attach_check_app [OF qt.R_refl] show ?thesis by blast
next
  case (check b h1 s1)
  then have "s1 = s" using attach_check_same by blast
  with check assms(3) qt.CheckApnState_spec(1) [OF check(6)] show ?thesis by simp
next
  case (go b h1 s1 s2 c s3 fin s4)
  then have [simp]: "b = a" "h1 = h" "s1 = s" using assms(2) attach_check_same by auto
  have mcc: "\<not> isMccChanged s" using go(6) attach_check_same by blast
  note k2 = qt.CheckApnState_spec [OF go(8)]
  from k2(3) assms(2) obtain h' where h': "hd_holders s2 a = Some h'" "apnType h' = apnType h"
      "apnState h = PROFILE_STATE_IDLE \<or> apnState h = PROFILE_STATE_FAILED" by auto
  have h3: "hd_holders s3 a = Some h'" using multi_same_default(1) [OF go(9)] h' by simp
  have q3: "quiet s s3" using k2(1) assms(2) qt.multi_app [OF go(9)] by simp
  then obtain ds where ds: "hd_fx s3 = hd_fx s @ ds" "\<forall>c \<in> set ds. \<not> starts c" by (auto simp: quiet_def)
  have fx4: "hd_fx s' = hd_fx s4" "hd_holders s' = hd_holders s4" using go(11) by auto
  have est: "EstablishDataConnection W a (PsRadioTech (wE W) (hd_slotId s3)) s3 = Some (fin, s4)" using go(10) by simp
  show ?thesis using est h3
  proof (cases rule: establish_starts)
    case no_start
    then have "quiet s s'" using qt.R_trans [OF q3, of s4] fx4 by (simp add: quiet_def)
    with assms(3) show ?thesis by blast
  next
    case (start m pr h2 cs')
    show ?thesis
      by (rule that [of "ds @ cs'" m pr h2])
        (use start ds mcc go(5,7) h'(3) fx4 in \<open>auto\<close>)
  qed
qed

text \<open>C3: what an attempt checks before it asks for a connection. When the attempt for a role ends in a
  request, then the role may use this slot, no change of country is pending, the switches and the
  roaming state allow data, and the role was idle or had failed. There is exactly one request, it
  names the role, and afterwards the role is connecting on that machine, which serves no other role.\<close>

theorem connect_guarded:
  assumes "hd_inv s" "AttemptEstablishDataConnection W (Some a) s = Some s'" "hd_holders s a = Some h"
    "hd_fx s' = hd_fx s @ cs" "Eff (ToMachine m (MSG_SM_CONNECT p)) \<in> set cs"
  shows "CheckCellularDataSlotId W h s \<and> \<not> isMccChanged s \<and> CheckRoamingState W h s
    \<and> (apnState h = PROFILE_STATE_IDLE \<or> apnState h = PROFILE_STATE_FAILED)
    \<and> filter starts cs = [Eff (ToMachine m (MSG_SM_CONNECT p))] \<and> (\<exists>pr. p = Some pr \<and> dc_apnHolder pr = Some a)
    \<and> (\<exists>h'. hd_holders s' a = Some h' \<and> apnState h' = PROFILE_STATE_CONNECTING \<and> cellularDataStateMachine h' = Some m)
    \<and> (\<forall>b h'. hd_holders s' b = Some h' \<longrightarrow> cellularDataStateMachine h' = Some m \<longrightarrow> b = a)"
proof -
  have no: "\<not> quiet s s'" using assms(4,5) by (auto simp: quiet_def starts_def)
  have inv': "hd_inv s'" using kr.attempt_app [OF assms(2) kb.R_refl] assms(1) by (simp add: keeps_roles_def)
  obtain m' pr h' ds where g: "CheckCellularDataSlotId W h s" "\<not> isMccChanged s" "CheckRoamingState W h s"
      "apnState h = PROFILE_STATE_IDLE \<or> apnState h = PROFILE_STATE_FAILED"
    and e: "hd_fx s' = hd_fx s @ ds @ [Eff (ToMachine m' (MSG_SM_CONNECT (Some pr)))]" "\<forall>c \<in> set ds. \<not> starts c"
      "dc_apnHolder pr = Some a"
    and h': "hd_holders s' a = Some h'" "apnState h' = PROFILE_STATE_CONNECTING" "cellularDataStateMachine h' = Some m'"
    by (rule attempt_starts [OF assms(2,3) no])
  have cs: "cs = ds @ [Eff (ToMachine m' (MSG_SM_CONNECT (Some pr)))]" using assms(4) e(1) by simp
  have mp: "m = m'" "p = Some pr" using assms(5) cs e(2) by (auto simp: starts_def)
  have f: "filter starts cs = [Eff (ToMachine m (MSG_SM_CONNECT p))]"
    unfolding cs mp using e(2) by (simp add: filter_empty_conv)
  have u: "b = a" if "hd_holders s' b = Some h3" "cellularDataStateMachine h3 = Some m" for b h3
    using inv' hd_roles_at that h' mp unfolding hd_inv_def roles_ok_def by metis
  show ?thesis using g f e(3) mp h' u by blast
qed

end
