(* ===== verification/Handler_Runs.thy ===== *)
theory Handler_Runs
  imports Handler_Correct
begin

text \<open>
  Concrete runs of the data handler: a handler whose default role is requested and idle and that has
  one access point, and what an attempt does in it.
\<close>

section \<open>A handler that is ready to connect\<close>

definition sample_item :: ApnItem where
  "sample_item = new_ApnItem \<lparr>it_attr := empty_Attribute \<lparr>at_profileId := 7\<rparr>, it_apnTypes := [''default'']\<rparr>"

definition sample_role :: ApnHolder where
  "sample_role = (new_ApnHolder ''default'' 0) \<lparr>dataCallEnabled := True, capability := 12\<rparr>"

definition sample_ready :: "(string \<times> string) list handler" where
  "sample_ready =
     \<lparr>hd_slotId = 0,
      hd_mgr = \<lparr>allApnItem = [Some 3], apnHolders = [Some 2], apnIdApnHolderMap = [1 \<mapsto> Some 2],
                sortedApnHolders = [Some 2], preferId = -1\<rparr>,
      hd_mem = \<lparr>h_items = [3 \<mapsto> sample_item], h_holders = [2 \<mapsto> sample_role], h_next = 4\<rparr>,
      hd_switch = new_DataSwitchSettings 0, hd_db = [], hd_tables = new_ConnectionTables 0,
      hd_machines = Map.empty, hd_nextMachine = 1, hd_agent = sample_agent,
      hd_monitor = new_Monitor 0, hd_incall = None, lastIccId = '''', lastNumeric = '''', lastMcc = '''',
      lastCallState = CALL_STATUS_IDLE, disconnectionReason = REASON_NORMAL, unMetered = replicate 7 False,
      defaultMobileMtuConfig = 0, defaultPreferApn = True, physicalConnectionActiveState = False,
      multipleConnectionsEnabled = False, defaultDataRoamingEnable = False, isRilApnAttached = False,
      isSimAccountLoaded = False, isHandoverOccurred = False, isMccChanged = False, upLinkThresholds = [],
      downLinkThresholds = [], lastApnItem = None, apnActivateChrList = [], defaultApnActTime = 0,
      internalApnActTime = 0, retryCreateApnTimes = 0, hd_queue = [], hd_fx = []\<rparr>"


declare Split_loop.simps [code] GetNextRetryApnItem.simps [code]

definition sample_connect :: sm_event where
  "sample_connect = MSG_SM_CONNECT (Some \<lparr>dc_apnHolder = Some 2, dc_profileId = 7, dc_rat = RADIO_TECHNOLOGY_LTE,
     dc_roamingState = False, dc_userRoaming = True, dc_nonTrafficUseOnly = False\<rparr>)"

definition sample_connect_calls :: "hcall list" where
  "sample_connect_calls = [Eff (ToMachine 1 MSG_STATE_MACHINE_INIT), Eff (NotifyConnectState 0 1 RADIO_TECHNOLOGY_LTE),
     Eff (ToMachine 1 sample_connect)]"

lemma sample_attempt:
  "map_option hd_fx (AttemptEstablishDataConnection sample_world (Some 2) sample_ready) = Some sample_connect_calls"
  by code_simp

lemma sample_event:
  "map_option hd_fx (Handler_ProcessEvent sample_world (Own (MSG_ESTABLISH_DATA_CONNECTION 1 None)) sample_ready)
     = Some sample_connect_calls"
  by code_simp

lemma sample_ready_simps [simp]:
  "hd_fx sample_ready = []" "hd_slotId sample_ready = 0" "hd_holders sample_ready = [2 \<mapsto> sample_role]"
  "hd_mgr sample_ready = \<lparr>allApnItem = [Some 3], apnHolders = [Some 2], apnIdApnHolderMap = [1 \<mapsto> Some 2],
     sortedApnHolders = [Some 2], preferId = -1\<rparr>" "hd_machines sample_ready = Map.empty"
  "stateMachines (hd_tables sample_ready) = []"
  by (simp_all add: sample_ready_def new_ConnectionTables_def)

lemma sample_role_simps [simp]:
  "apnType sample_role = ''default''" "apnState sample_role = PROFILE_STATE_IDLE" "cellularDataStateMachine sample_role = None"
  by (simp_all add: sample_role_def new_ApnHolder_def)

lemma sample_type_id: "FindApnIdByApnName ''default'' = 1" by code_simp

lemma sample_ready_inv: "hd_inv sample_ready"
  by (auto simp: hd_inv_def tables_ok_def machines_ok_def roles_ok_def hd_roles_def holds_machine_def sample_type_id
      split: if_splits)

lemma sample_in_connect: "Eff (ToMachine 1 sample_connect) \<in> set sample_connect_calls"
  by (simp add: sample_connect_calls_def)

section \<open>Conditions of a connection request\<close>

theorem no_connect_when_unavailable_witness:
  "\<exists>s'. hd_step sample_world sample_ready s' \<and> Eff (ToMachine 1 sample_connect) \<in> set (hd_fx s')
     \<and> \<not> isAirplaneModeOn sample_world \<and> PsRegState (wE sample_world) 0 = 1"
proof -
  from sample_event obtain s' where s': "Handler_ProcessEvent sample_world (Own (MSG_ESTABLISH_DATA_CONNECTION 1 None)) sample_ready = Some s'"
    "hd_fx s' = sample_connect_calls" by auto
  have st: "hd_step sample_world sample_ready s'" using s'(1) by (rule hd_step.event)
  have "\<not> (\<exists>a h. hd_holders sample_ready a = Some h \<and> apnType h = DATA_CONTEXT_ROLE_EMERGENCY)" by simp
  then have "\<not> isAirplaneModeOn sample_world \<and> PsRegState (wE sample_world) 0 = 1"
    using no_connect_when_unavailable [OF st, of sample_connect_calls 1
      "Some \<lparr>dc_apnHolder = Some 2, dc_profileId = 7, dc_rat = RADIO_TECHNOLOGY_LTE,
         dc_roamingState = False, dc_userRoaming = True, dc_nonTrafficUseOnly = False\<rparr>"] s'(2) sample_in_connect
    unfolding sample_connect_def by auto
  with st s' sample_in_connect show ?thesis by auto
qed

theorem connect_guarded_witness:
  "\<exists>s'. AttemptEstablishDataConnection sample_world (Some 2) sample_ready = Some s'
     \<and> filter starts (hd_fx s') = [Eff (ToMachine 1 sample_connect)]
     \<and> (\<exists>h'. hd_holders s' 2 = Some h' \<and> apnState h' = PROFILE_STATE_CONNECTING \<and> cellularDataStateMachine h' = Some 1)"
proof -
  from sample_attempt obtain s' where s': "AttemptEstablishDataConnection sample_world (Some 2) sample_ready = Some s'"
    "hd_fx s' = sample_connect_calls" by auto
  have e: "Eff (ToMachine 1 (MSG_SM_CONNECT (Some \<lparr>dc_apnHolder = Some 2, dc_profileId = 7, dc_rat = RADIO_TECHNOLOGY_LTE,
     dc_roamingState = False, dc_userRoaming = True, dc_nonTrafficUseOnly = False\<rparr>))) \<in> set sample_connect_calls"
    using sample_in_connect by (simp add: sample_connect_def)
  show ?thesis
    using connect_guarded [OF sample_ready_inv s'(1) _ _ e, of sample_role] s'
    unfolding sample_connect_def by auto
qed

end
