(* ===== verification/Data_Controller.thy ===== *)
theory Data_Controller
  imports Handler_Runs
begin

text \<open>
  The controller of one slot (\<open>cellular_data_controller.cpp\<close>): it owns the data handler, creates it
  when the core service is ready, subscribes it to the radio events, and passes the calls of the
  service on. Before the handler exists every call is answered with an error. The system
  services that the controller subscribes to are effects; \<open>make_shared\<close> and \<open>new\<close> are taken to
  succeed.
\<close>

section \<open>State\<close>

text \<open>The radio events that the handler of a slot is subscribed to, by the names of the source.\<close>

datatype core_event =
    EV_SIM_STATE_CHANGE | EV_SIM_RECORDS_LOADED | EV_SIM_ACCOUNT_LOADED | EV_PS_CONNECTION_ATTACHED
  | EV_PS_CONNECTION_DETACHED | EV_PS_ROAMING_OPEN | EV_PS_ROAMING_CLOSE | EV_STATE_CHANGED
  | EV_DSDS_MODE_CHANGED | EV_PS_RAT_CHANGED | EV_CALL_STATUS_INFO | EV_EMERGENCY_STATE_OPEN
  | EV_EMERGENCY_STATE_CLOSE | EV_NR_STATE_CHANGED | EV_NR_FREQUENCY_CHANGED | EV_RIL_ADAPTER_HOST_DIED
  | EV_FACTORY_RESET | EV_NV_REFRESH_FINISHED | EV_RESIDENT_NETWORK_CHANGE

datatype ability = COMM_NET_CONN_MANAGER | COMM_NET_POLICY_MANAGER | COMMON_EVENT_SERVICE | DISTRIBUTED_KV_DATA | OTHER_ABILITY nat

datatype ctl_call =
    SubscribeSystemAbility ability
  | UnSubscribeSystemAbility ability
  | CoreNotify int core_event
  | UnCoreNotify int core_event
  | RegisterCellularDataObject
  | CoreCleanAllConnections int
  | RegisterPolicyCallback
  | UnregisterPolicyCallback
  | RegisterCommonEventCallback
  | UnregisterCommonEventCallback
  | SubscribeTelePower

datatype ctl_event = MSG_ASYNCHRONOUS_REGISTER | CTL_OTHER nat

record 'db controller =
  ctl_slotId :: int
  ctl_handler :: "'db handler option"
  ctl_listener :: bool
  ctl_queue :: "(ctl_event \<times> int) list"
  ctl_fx :: "ctl_call list"

text \<open>What the controller asks the platform.\<close>

record ctl_env =
  IsInitFinished :: bool
  samgrAvailable :: bool
  telePowerFeature :: bool

definition new_controller :: "int \<Rightarrow> 'db controller" where
  "new_controller slotId = \<lparr>ctl_slotId = slotId, ctl_handler = None, ctl_listener = False, ctl_queue = [], ctl_fx = []\<rparr>"

definition ctl_emit :: "ctl_call list \<Rightarrow> 'db controller \<Rightarrow> 'db controller" where
  "ctl_emit cs c = c \<lparr>ctl_fx := ctl_fx c @ cs\<rparr>"

abbreviation (input) "CORE_INIT_DELAY_TIME \<equiv> (1000::int)"

section \<open>Start and end\<close>

definition system_abilities :: "ability list" where
  "system_abilities = [COMM_NET_CONN_MANAGER, COMM_NET_POLICY_MANAGER, COMMON_EVENT_SERVICE, DISTRIBUTED_KV_DATA]"

definition registered_events :: "core_event list" where
  "registered_events =
     [EV_SIM_STATE_CHANGE, EV_SIM_RECORDS_LOADED, EV_SIM_ACCOUNT_LOADED, EV_PS_CONNECTION_ATTACHED,
      EV_PS_CONNECTION_DETACHED, EV_PS_ROAMING_OPEN, EV_PS_ROAMING_CLOSE, EV_STATE_CHANGED,
      EV_DSDS_MODE_CHANGED, EV_PS_RAT_CHANGED, EV_CALL_STATUS_INFO, EV_EMERGENCY_STATE_OPEN,
      EV_EMERGENCY_STATE_CLOSE, EV_NR_STATE_CHANGED, EV_NR_FREQUENCY_CHANGED, EV_RIL_ADAPTER_HOST_DIED,
      EV_FACTORY_RESET, EV_NV_REFRESH_FINISHED, EV_RESIDENT_NETWORK_CHANGE]"

definition unregistered_events :: "core_event list" where
  "unregistered_events =
     [EV_SIM_STATE_CHANGE, EV_SIM_RECORDS_LOADED, EV_SIM_ACCOUNT_LOADED, EV_PS_CONNECTION_ATTACHED,
      EV_PS_CONNECTION_DETACHED, EV_PS_ROAMING_OPEN, EV_PS_ROAMING_CLOSE, EV_STATE_CHANGED,
      EV_DSDS_MODE_CHANGED, EV_PS_RAT_CHANGED, EV_CALL_STATUS_INFO, EV_EMERGENCY_STATE_OPEN,
      EV_EMERGENCY_STATE_CLOSE, EV_NR_STATE_CHANGED, EV_NR_FREQUENCY_CHANGED, EV_RIL_ADAPTER_HOST_DIED,
      EV_FACTORY_RESET, EV_NV_REFRESH_FINISHED]"

definition Ctl_Init :: "ctl_env \<Rightarrow> 'db world \<Rightarrow> 'db \<Rightarrow> NetAgent \<Rightarrow> 'db controller \<Rightarrow> 'db controller outcome" where
  "Ctl_Init ce W db ag c = do {
     h \<leftarrow> Handler_Init W (ctl_slotId c) db ag;
     let c1 = c \<lparr>ctl_handler := Some h\<rparr>;
     Some (if \<not> samgrAvailable ce then c1
           else ctl_emit (map SubscribeSystemAbility system_abilities) (c1 \<lparr>ctl_listener := True\<rparr>))
   }"

text \<open>The report to the vendor's log is an effect of the handler.\<close>

definition RegisterEvents :: "'db controller \<Rightarrow> 'db controller" where
  "RegisterEvents c = (case ctl_handler c of
     None \<Rightarrow> c
   | Some h \<Rightarrow>
       let c1 = c \<lparr>ctl_handler := Some (hd_emit [ReportEventToChr (ctl_slotId c) 0] h)\<rparr>;
           c2 = ctl_emit (map (CoreNotify (ctl_slotId c)) registered_events) c1;
           c3 = (if ctl_slotId c = 0 then ctl_emit [RegisterCellularDataObject] c2 else c2)
       in ctl_emit [CoreCleanAllConnections (ctl_slotId c)] c3)"

definition UnRegisterEvents :: "'db controller \<Rightarrow> 'db controller" where
  "UnRegisterEvents c = (case ctl_handler c of
     None \<Rightarrow> c
   | Some h \<Rightarrow> ctl_emit (map (UnCoreNotify (ctl_slotId c)) unregistered_events) c)"

definition Ctl_destroy :: "ctl_env \<Rightarrow> 'db controller \<Rightarrow> 'db controller" where
  "Ctl_destroy ce c =
     (let c1 = UnRegisterEvents c
      in if ctl_listener c1 \<and> samgrAvailable ce
         then ctl_emit (map UnSubscribeSystemAbility system_abilities) (c1 \<lparr>ctl_listener := False\<rparr>)
         else c1)"

definition AsynchronousRegister ::
  "ctl_env \<Rightarrow> 'db world \<Rightarrow> 'db \<Rightarrow> NetAgent \<Rightarrow> 'db controller \<Rightarrow> 'db controller outcome" where
  "AsynchronousRegister ce W db ag c =
     (if IsInitFinished ce then do { c1 \<leftarrow> Ctl_Init ce W db ag c; Some (RegisterEvents c1) }
      else Some (c \<lparr>ctl_queue := ctl_queue c @ [(MSG_ASYNCHRONOUS_REGISTER, CORE_INIT_DELAY_TIME)]\<rparr>))"

definition Ctl_ProcessEvent ::
  "ctl_env \<Rightarrow> 'db world \<Rightarrow> 'db \<Rightarrow> NetAgent \<Rightarrow> ctl_event option \<Rightarrow> 'db controller \<Rightarrow> 'db controller outcome" where
  "Ctl_ProcessEvent ce W db ag event c = (case event of
     None \<Rightarrow> Some c
   | Some MSG_ASYNCHRONOUS_REGISTER \<Rightarrow> AsynchronousRegister ce W db ag c
   | Some (CTL_OTHER n) \<Rightarrow> Some c)"

section \<open>Calls passed on to the handler\<close>

text \<open>The pattern of every call: a null handler gives the default answer.\<close>

definition with_handler :: "'r \<Rightarrow> ('db handler \<Rightarrow> 'r \<times> 'db handler) \<Rightarrow> 'db controller \<Rightarrow> 'r \<times> 'db controller" where
  "with_handler r f c = (case ctl_handler c of
     None \<Rightarrow> (r, c)
   | Some h \<Rightarrow> (case f h of (x, h') \<Rightarrow> (x, c \<lparr>ctl_handler := Some h'\<rparr>)))"

definition run_handler ::
  "'r \<Rightarrow> 'r \<Rightarrow> ('db handler \<Rightarrow> 'db handler outcome) \<Rightarrow> 'db controller \<Rightarrow> ('r \<times> 'db controller) outcome" where
  "run_handler r r' f c = (case ctl_handler c of
     None \<Rightarrow> Some (r, c)
   | Some h \<Rightarrow> do { h' \<leftarrow> f h; Some (r', c \<lparr>ctl_handler := Some h'\<rparr>) })"

definition ask_handler :: "'r \<Rightarrow> ('db handler \<Rightarrow> 'r) \<Rightarrow> 'db controller \<Rightarrow> 'r" where
  "ask_handler r f c = (case ctl_handler c of None \<Rightarrow> r | Some h \<Rightarrow> f h)"

definition Ctl_SetCellularDataEnable :: "'db world \<Rightarrow> bool \<Rightarrow> 'db controller \<Rightarrow> tel_err \<times> 'db controller" where
  "Ctl_SetCellularDataEnable W on = with_handler TELEPHONY_ERR_LOCAL_PTR_NULL (SetCellularDataEnable W on)"

text \<open>A query with an out-parameter returns the code and the value that the parameter is left with.\<close>

definition Ctl_GetIntelligenceSwitchState ::
  "'db world \<Rightarrow> bool \<Rightarrow> 'db controller \<Rightarrow> (tel_err \<times> bool) \<times> 'db controller" where
  "Ctl_GetIntelligenceSwitchState W given = with_handler (TELEPHONY_ERR_LOCAL_PTR_NULL, given)
     (\<lambda>h. case GetIntelligenceSwitchState W h of (r, on, h') \<Rightarrow> ((r, on), h'))"

definition Ctl_SetIntelligenceSwitchEnable :: "'db world \<Rightarrow> bool \<Rightarrow> 'db controller \<Rightarrow> tel_err \<times> 'db controller" where
  "Ctl_SetIntelligenceSwitchEnable W on = with_handler TELEPHONY_ERR_LOCAL_PTR_NULL (SetIntelligenceSwitchEnable W on)"

definition Ctl_IsCellularDataEnabled ::
  "'db world \<Rightarrow> bool \<Rightarrow> 'db controller \<Rightarrow> (tel_err \<times> bool) \<times> 'db controller" where
  "Ctl_IsCellularDataEnabled W given = with_handler (TELEPHONY_ERR_LOCAL_PTR_NULL, given)
     (\<lambda>h. case IsCellularDataEnabled W given h of (r, on, h') \<Rightarrow> ((r, on), h'))"

definition Ctl_GetCellularDataState :: "'db controller \<Rightarrow> ApnProfileState" where
  "Ctl_GetCellularDataState = ask_handler PROFILE_STATE_FAILED GetCellularDataState"

definition Ctl_GetCellularDataState_type :: "string \<Rightarrow> 'db controller \<Rightarrow> ApnProfileState" where
  "Ctl_GetCellularDataState_type ty = ask_handler PROFILE_STATE_FAILED (GetCellularDataState_type ty)"

definition Ctl_IsCellularDataRoamingEnabled ::
  "'db world \<Rightarrow> bool \<Rightarrow> 'db controller \<Rightarrow> (tel_err \<times> bool) \<times> 'db controller" where
  "Ctl_IsCellularDataRoamingEnabled W given = with_handler (TELEPHONY_ERR_LOCAL_PTR_NULL, given)
     (\<lambda>h. case IsCellularDataRoamingEnabled W given h of (r, on, h') \<Rightarrow> ((r, on), h'))"

definition Ctl_SetCellularDataRoamingEnabled :: "'db world \<Rightarrow> bool \<Rightarrow> 'db controller \<Rightarrow> tel_err \<times> 'db controller" where
  "Ctl_SetCellularDataRoamingEnabled W on = with_handler TELEPHONY_ERR_LOCAL_PTR_NULL (SetCellularDataRoamingEnabled W on)"

definition Ctl_ReleaseNet :: "'db world \<Rightarrow> NetRequest \<Rightarrow> 'db controller \<Rightarrow> bool \<times> 'db controller" where
  "Ctl_ReleaseNet W r = with_handler False (ReleaseNet W r)"

definition Ctl_RequestNet :: "'db world \<Rightarrow> NetRequest \<Rightarrow> 'db controller \<Rightarrow> bool \<times> 'db controller" where
  "Ctl_RequestNet W r = with_handler False (RequestNet W r)"

definition Ctl_HandleApnChanged :: "'db controller \<Rightarrow> bool \<times> 'db controller" where
  "Ctl_HandleApnChanged = with_handler False (\<lambda>h. (True, Handler_ApnChanged h))"

definition Ctl_GetCellularDataFlowType :: "'db controller \<Rightarrow> CellDataFlowType" where
  "Ctl_GetCellularDataFlowType = ask_handler DATA_FLOW_TYPE_NONE GetCellularDataFlowType"

text \<open>\<open>SetPolicyDataOn\<close> answers success even without a handler.\<close>

definition Ctl_SetPolicyDataOn :: "'db world \<Rightarrow> bool \<Rightarrow> 'db controller \<Rightarrow> (bool \<times> 'db controller) outcome" where
  "Ctl_SetPolicyDataOn W enable = run_handler True True (Handler_SetPolicyDataOn W enable)"

definition Ctl_IsRestrictedMode :: "'db world \<Rightarrow> 'db controller \<Rightarrow> bool" where
  "Ctl_IsRestrictedMode W = ask_handler False (IsRestrictedMode W)"

definition Ctl_GetDisConnectionReason :: "'db controller \<Rightarrow> DisConnectionReason" where
  "Ctl_GetDisConnectionReason = ask_handler REASON_NORMAL GetDisConnectionReason"

definition Ctl_HasInternetCapability :: "'db world \<Rightarrow> int \<Rightarrow> 'db controller \<Rightarrow> bool" where
  "Ctl_HasInternetCapability W cid = ask_handler False (HasInternetCapability W cid)"

definition Ctl_ChangeConnectionForDsds :: "'db world \<Rightarrow> bool \<Rightarrow> 'db controller \<Rightarrow> (bool \<times> 'db controller) outcome" where
  "Ctl_ChangeConnectionForDsds W enable = run_handler False True (ChangeConnectionForDsds W enable)"

definition Ctl_ClearAllConnections ::
  "'db world \<Rightarrow> DisConnectionReason \<Rightarrow> 'db controller \<Rightarrow> (bool \<times> 'db controller) outcome" where
  "Ctl_ClearAllConnections W reason = run_handler False True (ClearAllConnections W reason)"

definition Ctl_GetDataConnApnAttr :: "Attribute \<Rightarrow> 'db controller \<Rightarrow> Attribute" where
  "Ctl_GetDataConnApnAttr given = ask_handler given
     (\<lambda>h. case GetDataConnApnAttr h of None \<Rightarrow> given | Some at \<Rightarrow> at)"

definition Ctl_GetDataConnIpType :: "'db controller \<Rightarrow> string" where
  "Ctl_GetDataConnIpType = ask_handler '''' GetDataConnIpType"

fun recovery_code :: "RecoveryState \<Rightarrow> int" where
  "recovery_code STATE_REQUEST_CONTEXT_LIST = 0"
| "recovery_code STATE_CLEANUP_CONNECTIONS = 1"
| "recovery_code STATE_REREGISTER_NETWORK = 2"
| "recovery_code STATE_RADIO_STATUS_RESTART = 3"

definition Ctl_GetDataRecoveryState :: "'db controller \<Rightarrow> int" where
  "Ctl_GetDataRecoveryState = ask_handler (-1) (\<lambda>h. recovery_code (GetDataRecoveryState h))"

definition Ctl_IsNeedDoRecovery :: "'db world \<Rightarrow> bool \<Rightarrow> 'db controller \<Rightarrow> 'db controller" where
  "Ctl_IsNeedDoRecovery W need c = snd (with_handler () (\<lambda>h. ((), Handler_IsNeedDoRecovery W need h)) c)"

definition Ctl_EstablishAllApnsIfConnectable :: "'db controller \<Rightarrow> bool \<times> 'db controller" where
  "Ctl_EstablishAllApnsIfConnectable = with_handler False (\<lambda>h. (True, hd_send MSG_ESTABLISH_ALL_APNS_IF_CONNECTABLE 0 h))"

definition Ctl_UpdateNetworkInfo :: "'db controller \<Rightarrow> bool \<times> 'db controller" where
  "Ctl_UpdateNetworkInfo = with_handler False (\<lambda>h. (True, Handler_UpdateNetworkInfo h))"

definition Ctl_IsSupportDunApn :: "'db world \<Rightarrow> 'db controller \<Rightarrow> bool outcome" where
  "Ctl_IsSupportDunApn W = ask_handler (Some False) (IsSupportDunApn W)"

definition Ctl_GetDefaultActReportInfo ::
  "'db world \<Rightarrow> ApnActivateReportInfo \<Rightarrow> 'db controller \<Rightarrow> (bool \<times> ApnActivateReportInfo) \<times> 'db controller" where
  "Ctl_GetDefaultActReportInfo W given = with_handler (False, given)
     (\<lambda>h. case GetDefaultActReportInfo W h of (i, h') \<Rightarrow> ((True, i), h'))"

definition Ctl_GetInternalActReportInfo ::
  "'db world \<Rightarrow> ApnActivateReportInfo \<Rightarrow> 'db controller \<Rightarrow> (bool \<times> ApnActivateReportInfo) \<times> 'db controller" where
  "Ctl_GetInternalActReportInfo W given = with_handler (False, given)
     (\<lambda>h. case GetInternalActReportInfo W h of (i, h') \<Rightarrow> ((True, i), h'))"

section \<open>System services\<close>

text \<open>The listener is created together with the handler and shares it.\<close>

definition OnAddSystemAbility :: "ctl_env \<Rightarrow> 'db world \<Rightarrow> ability \<Rightarrow> 'db controller \<Rightarrow> 'db controller" where
  "OnAddSystemAbility ce W ab c = (case ctl_handler c of
     None \<Rightarrow> c
   | Some h \<Rightarrow> (case ab of
         COMM_NET_CONN_MANAGER \<Rightarrow>
           (case RegisterNetSupplier (wP W) (wE W) (ctl_slotId c) (hd_agent h) of (registered, ag, es) \<Rightarrow>
              c \<lparr>ctl_handler := Some (Handler_UpdateNetworkInfo (hd_emit (map Eff es) (h \<lparr>hd_agent := ag\<rparr>)))\<rparr>)
       | COMM_NET_POLICY_MANAGER \<Rightarrow>
           (if ctl_slotId c = 0 then ctl_emit [UnregisterPolicyCallback, RegisterPolicyCallback] c else c)
       | COMMON_EVENT_SERVICE \<Rightarrow>
           ctl_emit (RegisterCommonEventCallback # (if telePowerFeature ce then [SubscribeTelePower] else [])) c
       | DISTRIBUTED_KV_DATA \<Rightarrow>
           c \<lparr>ctl_handler := Some (hd_send MSG_DB_SETTING_ENABLE_CHANGED 0 (RegisterDataSettingObserver W h))\<rparr>
       | OTHER_ABILITY n \<Rightarrow> c))"

definition OnRemoveSystemAbility :: "ability \<Rightarrow> 'db controller \<Rightarrow> 'db controller" where
  "OnRemoveSystemAbility ab c = (case ctl_handler c of
     None \<Rightarrow> c
   | Some h \<Rightarrow> if ab = COMMON_EVENT_SERVICE then ctl_emit [UnregisterCommonEventCallback] c else c)"

end
