(* ===== verification/Rdb_Helper.thy ===== *)
theory Rdb_Helper
  imports Apn_Manager Net_Agent
begin

text \<open>
  The access to the database of access points (\<open>cellular_data_rdb_helper.cpp\<close>): the queries with
  their predicates, the reading of the rows into profiles, and the updates. The data share service
  is a parameter, the record \<open>rdb\<close>: whether a connection to it can be opened, its answer to a query
  (the rows of the result set, or nothing when the query fails) and the result of an update. A row
  gives a text and a number for each column. The addresses of the tables and the column names are
  constants of the telephony data library and stand for themselves here; so does the profile
  before its columns are filled in.
\<close>

section \<open>The data share service\<close>

record row =
  row_string :: "string \<Rightarrow> string"
  row_int :: "string \<Rightarrow> int"

type_synonym predicates = "(string \<times> string) list"

record rdb =
  rdb_samgr :: bool
  rdb_remote :: bool
  rdb_create :: int
  rdb_query :: "string \<Rightarrow> predicates \<Rightarrow> row list option"
  rdb_update :: "string \<Rightarrow> (string \<times> int) list \<Rightarrow> int"
  regex_match :: "string \<Rightarrow> string \<Rightarrow> bool option"
  empty_PdpProfile :: PdpProfile
  OpKeyOf :: "int \<Rightarrow> string"
  SIM_SLOT_COUNT :: int

abbreviation (input) "CELLULAR_DATA_RDB_SELECTION \<equiv> ''CELLULAR_DATA_RDB_SELECTION''"
abbreviation (input) "CELLULAR_DATA_RDB_PREFER \<equiv> ''CELLULAR_DATA_RDB_PREFER''"
abbreviation (input) "CELLULAR_DATA_RDB_RESET \<equiv> ''CELLULAR_DATA_RDB_RESET''"
abbreviation (input) "CELLULAR_DATA_RDB_INIT \<equiv> ''CELLULAR_DATA_RDB_INIT''"
abbreviation (input) "NOT_FILLED_IN \<equiv> ''NOT_FILLED_IN''"
abbreviation (input) "SETUP_DATA_AUTH_NONE \<equiv> (0::int)"
abbreviation (input) "SETUP_DATA_AUTH_PAP_CHAP \<equiv> (3::int)"

text \<open>Columns of the table, by the names of \<open>PdpProfileData\<close>.\<close>

abbreviation (input) "COL_PROFILE_ID \<equiv> ''PROFILE_ID''"
abbreviation (input) "COL_PROFILE_NAME \<equiv> ''PROFILE_NAME''"
abbreviation (input) "COL_MCC \<equiv> ''MCC''"
abbreviation (input) "COL_MNC \<equiv> ''MNC''"
abbreviation (input) "COL_MCCMNC \<equiv> ''MCCMNC''"
abbreviation (input) "COL_APN \<equiv> ''APN''"
abbreviation (input) "COL_AUTH_USER \<equiv> ''AUTH_USER''"
abbreviation (input) "COL_AUTH_TYPE \<equiv> ''AUTH_TYPE''"
abbreviation (input) "COL_AUTH_PWD \<equiv> ''AUTH_PWD''"
abbreviation (input) "COL_APN_TYPES \<equiv> ''APN_TYPES''"
abbreviation (input) "COL_APN_PROTOCOL \<equiv> ''APN_PROTOCOL''"
abbreviation (input) "COL_APN_ROAM_PROTOCOL \<equiv> ''APN_ROAM_PROTOCOL''"
abbreviation (input) "COL_MVNO_TYPE \<equiv> ''MVNO_TYPE''"
abbreviation (input) "COL_MVNO_MATCH_DATA \<equiv> ''MVNO_MATCH_DATA''"
abbreviation (input) "COL_EDITED_STATUS \<equiv> ''EDITED_STATUS''"
abbreviation (input) "COL_PROXY_IP_ADDRESS \<equiv> ''PROXY_IP_ADDRESS''"
abbreviation (input) "COL_HOME_URL \<equiv> ''HOME_URL''"
abbreviation (input) "COL_MMS_IP_ADDRESS \<equiv> ''MMS_IP_ADDRESS''"
abbreviation (input) "COL_SIM_ID \<equiv> ''SIM_ID''"
abbreviation (input) "COL_OPKEY \<equiv> ''OPKEY''"

definition CreateDataAbilityHelper :: "rdb \<Rightarrow> bool" where
  "CreateDataAbilityHelper R \<longleftrightarrow>
     (if \<not> rdb_samgr R then False
      else if \<not> rdb_remote R then False
      else if rdb_create R \<noteq> 0 then False
      else True)"

section \<open>Reading rows\<close>

text \<open>The column \<open>SERVER\<close>, which nothing in the program uses, is left out.\<close>

definition MakePdpProfile :: "rdb \<Rightarrow> row \<Rightarrow> PdpProfile" where
  "MakePdpProfile R r =
     (let authUser = row_string r COL_AUTH_USER;
          authType = row_int r COL_AUTH_TYPE;
          protocol = row_string r COL_APN_PROTOCOL;
          roamProtocol = row_string r COL_APN_ROAM_PROTOCOL
      in (empty_PdpProfile R)
         \<lparr>pp_profileId := row_int r COL_PROFILE_ID, pp_profileName := row_string r COL_PROFILE_NAME,
          pp_mcc := row_string r COL_MCC, pp_mnc := row_string r COL_MNC, pp_apn := row_string r COL_APN,
          pp_authUser := authUser,
          pp_authType := (if authType = -1
             then (if authUser = [] then SETUP_DATA_AUTH_NONE else SETUP_DATA_AUTH_PAP_CHAP) else authType),
          pp_authPwd := row_string r COL_AUTH_PWD, pp_apnTypes := row_string r COL_APN_TYPES,
          pp_mvnoType := row_string r COL_MVNO_TYPE, pp_mvnoMatchData := row_string r COL_MVNO_MATCH_DATA,
          pp_edited := (row_int r COL_EDITED_STATUS \<noteq> 0), pp_proxyIpAddress := row_string r COL_PROXY_IP_ADDRESS,
          pp_pdpProtocol := (if protocol = [] then ''IP'' else protocol),
          pp_roamPdpProtocol := (if roamProtocol = [] then ''IP'' else roamProtocol),
          pp_homeUrl := row_string r COL_HOME_URL, pp_mmsIpAddress := row_string r COL_MMS_IP_ADDRESS\<rparr>)"

fun ReadApnResult :: "rdb \<Rightarrow> row list \<Rightarrow> PdpProfile list \<Rightarrow> PdpProfile list" where
  "ReadApnResult R [] apnVec = apnVec"
| "ReadApnResult R (r # rs) apnVec =
     (let apnBean = MakePdpProfile R r
      in if pp_mvnoType apnBean = [] \<or> pp_edited apnBean then ReadApnResult R rs (apnVec @ [apnBean])
         else ReadApnResult R rs apnVec)"

text \<open>A regular expression that the library rejects counts as no match.\<close>

definition IsMvnoDataMatched :: "rdb \<Rightarrow> string \<Rightarrow> PdpProfile \<Rightarrow> bool" where
  "IsMvnoDataMatched R mvnoDataFromSim apnBean =
     (if mvnoDataFromSim = [] then False
      else if pp_mvnoType apnBean = ''iccid'' \<or> pp_mvnoType apnBean = ''spn'' \<or> pp_mvnoType apnBean = ''imsi''
      then (case regex_match R mvnoDataFromSim (pp_mvnoMatchData apnBean) of Some b \<Rightarrow> b | None \<Rightarrow> False)
      else if pp_mvnoType apnBean = ''gid1''
      then take (length (pp_mvnoMatchData apnBean)) mvnoDataFromSim = pp_mvnoMatchData apnBean
      else False)"

fun ReadMvnoApnResult :: "rdb \<Rightarrow> string \<Rightarrow> row list \<Rightarrow> PdpProfile list \<Rightarrow> PdpProfile list" where
  "ReadMvnoApnResult R mvnoDataFromSim [] apnVec = apnVec"
| "ReadMvnoApnResult R mvnoDataFromSim (r # rs) apnVec =
     (let apnBean = MakePdpProfile R r
      in if IsMvnoDataMatched R mvnoDataFromSim apnBean then ReadMvnoApnResult R mvnoDataFromSim rs (apnVec @ [apnBean])
         else ReadMvnoApnResult R mvnoDataFromSim rs apnVec)"

section \<open>Queries\<close>

definition sim_uri :: "string \<Rightarrow> int \<Rightarrow> string" where
  "sim_uri table simId = table @ ''?simId='' @ to_string simId"

text \<open>The three queries of the access point manager: the vector that they append to is empty.\<close>

definition Rdb_QueryApns :: "rdb \<Rightarrow> env \<Rightarrow> int \<Rightarrow> string \<Rightarrow> string \<Rightarrow> PdpProfile list option" where
  "Rdb_QueryApns R e slotId mcc mnc =
     (if \<not> CreateDataAbilityHelper R then None
      else case rdb_query R (sim_uri CELLULAR_DATA_RDB_SELECTION (SimIdOf e slotId)) [(COL_MCCMNC, mcc @ mnc)] of
             None \<Rightarrow> None
           | Some rows \<Rightarrow> Some (ReadApnResult R rows []))"

definition Rdb_QueryMvnoApnsByType ::
  "rdb \<Rightarrow> env \<Rightarrow> int \<Rightarrow> string \<Rightarrow> string \<Rightarrow> string \<Rightarrow> string \<Rightarrow> PdpProfile list option" where
  "Rdb_QueryMvnoApnsByType R e slotId mcc mnc mvnoType mvnoDataFromSim =
     (if mvnoDataFromSim = [] then Some []
      else if \<not> CreateDataAbilityHelper R then None
      else case rdb_query R (sim_uri CELLULAR_DATA_RDB_SELECTION (SimIdOf e slotId))
                  [(COL_MVNO_TYPE, mvnoType), (COL_MCCMNC, mcc @ mnc)] of
             None \<Rightarrow> None
           | Some rows \<Rightarrow> Some (ReadMvnoApnResult R mvnoDataFromSim rows []))"

definition Rdb_QueryPreferApn :: "rdb \<Rightarrow> env \<Rightarrow> int \<Rightarrow> PdpProfile list option" where
  "Rdb_QueryPreferApn R e slotId =
     (if \<not> CreateDataAbilityHelper R then None
      else case rdb_query R (sim_uri CELLULAR_DATA_RDB_PREFER (SimIdOf e slotId)) [] of
             None \<Rightarrow> None
           | Some rows \<Rightarrow> Some (ReadApnResult R rows []))"

text \<open>The parameter \<open>apn_db\<close> of the access point manager, as this component provides it.\<close>

definition rdb_apn_db :: "rdb \<Rightarrow> env \<Rightarrow> int \<Rightarrow> apn_db" where
  "rdb_apn_db R e slotId = \<lparr>QueryPreferApn = Rdb_QueryPreferApn R e,
     QueryMvnoApnsByType = Rdb_QueryMvnoApnsByType R e slotId, QueryApns = Rdb_QueryApns R e slotId\<rparr>"

section \<open>Updates and settings\<close>

text \<open>An update returns its result and whether the service was called.\<close>

definition Rdb_ResetApns :: "rdb \<Rightarrow> env \<Rightarrow> int \<Rightarrow> bool" where
  "Rdb_ResetApns R e slotId =
     (if \<not> CreateDataAbilityHelper R then False
      else rdb_update R CELLULAR_DATA_RDB_RESET [(''simId'', SimIdOf e slotId)] \<ge> 0)"

definition Rdb_GetSimId :: "platform \<Rightarrow> rdb \<Rightarrow> env \<Rightarrow> int" where
  "Rdb_GetSimId P R e =
     (let slotId = DefaultCellularDataSlotId e
      in if slotId < DEFAULT_SIM_SLOT_ID P \<or> slotId > SIM_SLOT_COUNT R then -1
         else let simId = SimIdOf e slotId
              in if simId \<le> 0 then -1 else simId)"

definition Rdb_SetPreferApn :: "platform \<Rightarrow> rdb \<Rightarrow> env \<Rightarrow> int \<Rightarrow> int" where
  "Rdb_SetPreferApn P R e apnId =
     (if Rdb_GetSimId P R e = -1 then -1
      else if \<not> CreateDataAbilityHelper R then -1
      else if rdb_update R CELLULAR_DATA_RDB_PREFER [(COL_PROFILE_ID, apnId), (COL_SIM_ID, Rdb_GetSimId P R e)] < 0
      then -1 else 0)"

text \<open>\<open>ApnInfo\<close>: the description of an access point that applications exchange with the service; its
  texts are in UTF-16 there, and a conversion surrounds every use.\<close>

record ApnInfo =
  ai_apnName :: string
  ai_apn :: string
  ai_mcc :: string
  ai_mnc :: string
  ai_user :: string
  ai_type :: string
  ai_proxy :: string
  ai_mmsproxy :: string

definition filled_in :: "string \<Rightarrow> string \<Rightarrow> predicates" where
  "filled_in col v = (if v = NOT_FILLED_IN then [] else [(col, v)])"

definition apn_id_predicates :: "rdb \<Rightarrow> env \<Rightarrow> ApnInfo \<Rightarrow> predicates" where
  "apn_id_predicates R e i =
     [(COL_PROFILE_NAME, ai_apnName i), (COL_APN, ai_apn i), (COL_MCC, ai_mcc i), (COL_MNC, ai_mnc i)]
     @ filled_in COL_AUTH_USER (ai_user i) @ filled_in COL_APN_TYPES (ai_type i)
     @ filled_in COL_PROXY_IP_ADDRESS (ai_proxy i) @ filled_in COL_MMS_IP_ADDRESS (ai_mmsproxy i)
     @ [(COL_OPKEY, OpKeyOf R (DefaultCellularDataSlotId e))]"

text \<open>The identifiers are \<open>uint32_t\<close>.\<close>

definition Rdb_QueryApnIds :: "platform \<Rightarrow> rdb \<Rightarrow> env \<Rightarrow> ApnInfo \<Rightarrow> int list \<Rightarrow> int list" where
  "Rdb_QueryApnIds P R e i apnIdList =
     (if Rdb_GetSimId P R e = -1 then apnIdList
      else if \<not> CreateDataAbilityHelper R then apnIdList
      else case rdb_query R (sim_uri CELLULAR_DATA_RDB_SELECTION (Rdb_GetSimId P R e)) (apn_id_predicates R e i) of
             None \<Rightarrow> apnIdList
           | Some rows \<Rightarrow> apnIdList @ map (\<lambda>r. row_int r COL_PROFILE_ID mod 2 ^ 32) rows)"

definition GetApnInfo :: "row \<Rightarrow> ApnInfo" where
  "GetApnInfo r =
     \<lparr>ai_apnName = row_string r COL_PROFILE_NAME, ai_apn = row_string r COL_APN, ai_mcc = row_string r COL_MCC,
      ai_mnc = row_string r COL_MNC, ai_user = row_string r COL_AUTH_USER, ai_type = row_string r COL_APN_TYPES,
      ai_proxy = row_string r COL_PROXY_IP_ADDRESS, ai_mmsproxy = row_string r COL_MMS_IP_ADDRESS\<rparr>"

definition Rdb_QueryAllApnInfo :: "platform \<Rightarrow> rdb \<Rightarrow> env \<Rightarrow> ApnInfo list \<Rightarrow> ApnInfo list" where
  "Rdb_QueryAllApnInfo P R e infos =
     (if Rdb_GetSimId P R e = -1 then infos
      else if \<not> CreateDataAbilityHelper R then infos
      else case rdb_query R (sim_uri CELLULAR_DATA_RDB_SELECTION (Rdb_GetSimId P R e))
                  [(COL_OPKEY, OpKeyOf R (DefaultCellularDataSlotId e))] of
             None \<Rightarrow> infos
           | Some rows \<Rightarrow> infos @ map GetApnInfo rows)"

text \<open>The tables that an observer is registered for.\<close>

definition observed_tables :: "rdb \<Rightarrow> string list" where
  "observed_tables R = (if \<not> CreateDataAbilityHelper R then []
     else [CELLULAR_DATA_RDB_RESET, CELLULAR_DATA_RDB_PREFER, CELLULAR_DATA_RDB_INIT, CELLULAR_DATA_RDB_SELECTION])"

text \<open>The tables that an observer is taken off, in the order of the calls.\<close>

definition unobserved_tables :: "rdb \<Rightarrow> string list" where
  "unobserved_tables R = (if \<not> CreateDataAbilityHelper R then []
     else [CELLULAR_DATA_RDB_RESET, CELLULAR_DATA_RDB_PREFER, CELLULAR_DATA_RDB_INIT, CELLULAR_DATA_RDB_SELECTION])"

text \<open>The general update and the insertion: absent when there is no connection (a fixed error code), else
  what the service answers for the table.\<close>

definition Rdb_Update ::
  "rdb \<Rightarrow> (string \<Rightarrow> predicates \<Rightarrow> (string \<times> string) list \<Rightarrow> int) \<Rightarrow> (string \<times> string) list \<Rightarrow> predicates \<Rightarrow> int option" where
  "Rdb_Update R update value preds =
     (if \<not> CreateDataAbilityHelper R then None else Some (update CELLULAR_DATA_RDB_SELECTION preds value))"

definition Rdb_Insert ::
  "rdb \<Rightarrow> (string \<Rightarrow> (string \<times> string) list \<Rightarrow> int) \<Rightarrow> (string \<times> string) list \<Rightarrow> int option" where
  "Rdb_Insert R insert_row values =
     (if \<not> CreateDataAbilityHelper R then None else Some (insert_row CELLULAR_DATA_RDB_SELECTION values))"

lemma observers_balanced: "mset (unobserved_tables R) = mset (observed_tables R)"
  by (simp add: unobserved_tables_def observed_tables_def)

section \<open>What the readers return\<close>

lemma ReadApnResult_eq:
  "ReadApnResult R rs acc = acc @ filter (\<lambda>b. pp_mvnoType b = [] \<or> pp_edited b) (map (MakePdpProfile R) rs)"
  by (induction R rs acc rule: ReadApnResult.induct) (simp_all add: Let_def)

lemma ReadMvnoApnResult_eq:
  "ReadMvnoApnResult R d rs acc = acc @ filter (IsMvnoDataMatched R d) (map (MakePdpProfile R) rs)"
  by (induction R d rs acc rule: ReadMvnoApnResult.induct) (simp_all add: Let_def)

text \<open>Profiles that the rest of the program can rely on.\<close>

definition normalised :: "PdpProfile \<Rightarrow> bool" where
  "normalised b \<longleftrightarrow> pp_pdpProtocol b \<noteq> [] \<and> pp_roamPdpProtocol b \<noteq> [] \<and> pp_authType b \<noteq> -1"

lemma MakePdpProfile_normalised: "normalised (MakePdpProfile R r)"
  by (simp add: normalised_def MakePdpProfile_def Let_def)

text \<open>A database that answers a query with the rows of the table that satisfy the predicates, in their order.\<close>

definition row_satisfies :: "predicates \<Rightarrow> row \<Rightarrow> bool" where
  "row_satisfies ps r \<longleftrightarrow> (\<forall>(column, v) \<in> set ps. row_string r column = v)"

definition rdb_filters :: "rdb \<Rightarrow> (string \<Rightarrow> row list) \<Rightarrow> bool" where
  "rdb_filters R rows \<longleftrightarrow> (\<forall>uri ps. rdb_query R uri ps = Some (filter (row_satisfies ps) (rows uri)))"

text \<open>Which rows a query is about: those of the operator, and of these the ones without a virtual operator or
  edited by the user, or the ones whose match data fit what the card says.\<close>

definition plain_row :: "row \<Rightarrow> bool" where
  "plain_row r \<longleftrightarrow> row_string r COL_MVNO_TYPE = [] \<or> row_int r COL_EDITED_STATUS \<noteq> 0"

definition mvno_fits :: "rdb \<Rightarrow> string \<Rightarrow> string \<Rightarrow> string \<Rightarrow> bool" where
  "mvno_fits R ty matchData d \<longleftrightarrow> d \<noteq> []
     \<and> (ty \<in> {''iccid'', ''spn'', ''imsi''} \<and> regex_match R d matchData = Some True
        \<or> ty = ''gid1'' \<and> (\<exists>rest. d = matchData @ rest))"

lemma read_fields:
  "pp_mvnoType (MakePdpProfile R r) = row_string r COL_MVNO_TYPE"
  "pp_mvnoMatchData (MakePdpProfile R r) = row_string r COL_MVNO_MATCH_DATA"
  "pp_edited (MakePdpProfile R r) \<longleftrightarrow> row_int r COL_EDITED_STATUS \<noteq> 0"
  by (simp_all add: MakePdpProfile_def Let_def)

lemma matched_row:
  "IsMvnoDataMatched R d (MakePdpProfile R r)
   \<longleftrightarrow> mvno_fits R (row_string r COL_MVNO_TYPE) (row_string r COL_MVNO_MATCH_DATA) d"
proof -
  have p: "take (length m) d = m \<longleftrightarrow> (\<exists>rest. d = m @ rest)" for m :: string
    by (metis append_eq_conv_conj append_take_drop_id)
  show ?thesis by (auto simp: IsMvnoDataMatched_def mvno_fits_def read_fields p split: option.splits)
qed

lemma filter_read:
  "filter (\<lambda>b. pp_mvnoType b = [] \<or> pp_edited b) (map (MakePdpProfile R) rs) = map (MakePdpProfile R) (filter plain_row rs)"
  "filter (IsMvnoDataMatched R d) (map (MakePdpProfile R) rs) = map (MakePdpProfile R)
     (filter (\<lambda>r. mvno_fits R (row_string r COL_MVNO_TYPE) (row_string r COL_MVNO_MATCH_DATA) d) rs)"
  by (simp_all add: filter_map comp_def plain_row_def [abs_def] read_fields matched_row)

text \<open>C21: The access point manager gets exactly the profiles of the operator. Over a database that answers with
  the rows that satisfy the predicates of a query, and with a connection to it, the plain query returns the
  rows of the table of the card whose MCCMNC is that of the operator and that belong to no virtual
  operator or were edited by the user, in their order; the query for a virtual operator those rows of
  the operator with the asked type whose match data fit the data of the card, as a regular expression
  or, for a group identifier, as a prefix, and none when the card has no data of that kind; and the
  query for the preferred one the rows of the table of preferences that belong to no virtual operator
  or were edited. Both protocols and the authentication type of every profile are filled in.
  Without a connection the queries fail, but for the one that has no data to match.\<close>

theorem rdb_profiles_exact:
  fixes e :: env and slotId :: int
  assumes "rdb_filters R rows"
  defines "selection \<equiv> rows (sim_uri CELLULAR_DATA_RDB_SELECTION (SimIdOf e slotId))"
    and "preferred \<equiv> rows (sim_uri CELLULAR_DATA_RDB_PREFER (SimIdOf e slotId))"
    and "db \<equiv> rdb_apn_db R e slotId"
  shows "(CreateDataAbilityHelper R \<longrightarrow>
      QueryApns db mcc mnc = Some (map (MakePdpProfile R)
         (filter (\<lambda>r. row_string r COL_MCCMNC = mcc @ mnc \<and> plain_row r) selection))
    \<and> QueryMvnoApnsByType db mcc mnc ty d = Some (map (MakePdpProfile R)
         (filter (\<lambda>r. row_string r COL_MCCMNC = mcc @ mnc \<and> row_string r COL_MVNO_TYPE = ty
            \<and> mvno_fits R ty (row_string r COL_MVNO_MATCH_DATA) d) selection))
    \<and> QueryPreferApn db slotId = Some (map (MakePdpProfile R) (filter plain_row preferred)))
    \<and> (\<not> CreateDataAbilityHelper R \<longrightarrow> QueryApns db mcc mnc = None \<and> QueryPreferApn db slotId = None
        \<and> QueryMvnoApnsByType db mcc mnc ty d = (if d = [] then Some [] else None))
    \<and> normalised (MakePdpProfile R r)"
proof -
  have q: "rdb_query R uri ps = Some (filter (row_satisfies ps) (rows uri))" for uri ps
    using assms(1) by (simp add: rdb_filters_def)
  have m: "filter (\<lambda>r. mvno_fits R (row_string r COL_MVNO_TYPE) (row_string r COL_MVNO_MATCH_DATA) d)
        (filter (row_satisfies [(COL_MVNO_TYPE, ty), (COL_MCCMNC, mcc @ mnc)]) selection)
      = filter (\<lambda>r. row_string r COL_MCCMNC = mcc @ mnc \<and> row_string r COL_MVNO_TYPE = ty
        \<and> mvno_fits R ty (row_string r COL_MVNO_MATCH_DATA) d) selection"
    unfolding filter_filter by (rule filter_cong) (auto simp: row_satisfies_def)
  have p: "filter plain_row (filter (row_satisfies [(COL_MCCMNC, mcc @ mnc)]) selection)
      = filter (\<lambda>r. row_string r COL_MCCMNC = mcc @ mnc \<and> plain_row r) selection"
    unfolding filter_filter by (rule filter_cong) (auto simp: row_satisfies_def)
  have all: "filter (row_satisfies []) rs = rs" for rs by (simp add: row_satisfies_def)
  have n: "filter (\<lambda>r. row_string r COL_MCCMNC = mcc @ mnc \<and> row_string r COL_MVNO_TYPE = ty
        \<and> mvno_fits R ty (row_string r COL_MVNO_MATCH_DATA) []) selection = []"
    by (simp add: mvno_fits_def)
  have mv: "CreateDataAbilityHelper R \<longrightarrow> QueryMvnoApnsByType db mcc mnc ty d = Some (map (MakePdpProfile R)
         (filter (\<lambda>r. row_string r COL_MCCMNC = mcc @ mnc \<and> row_string r COL_MVNO_TYPE = ty
            \<and> mvno_fits R ty (row_string r COL_MVNO_MATCH_DATA) d) selection))"
    using m n by (cases "d = []") (simp_all add: db_def rdb_apn_db_def Rdb_QueryMvnoApnsByType_def q
        ReadMvnoApnResult_eq filter_read(2) selection_def)
  have pl: "CreateDataAbilityHelper R \<longrightarrow> QueryApns db mcc mnc = Some (map (MakePdpProfile R)
         (filter (\<lambda>r. row_string r COL_MCCMNC = mcc @ mnc \<and> plain_row r) selection))"
    using p by (simp add: db_def rdb_apn_db_def Rdb_QueryApns_def q ReadApnResult_eq filter_read(1) selection_def)
  have pr: "CreateDataAbilityHelper R \<longrightarrow> QueryPreferApn db slotId = Some (map (MakePdpProfile R) (filter plain_row preferred))"
    by (simp add: db_def rdb_apn_db_def Rdb_QueryPreferApn_def q ReadApnResult_eq filter_read(1) preferred_def all)
  show ?thesis using mv pl pr
    by (simp add: db_def rdb_apn_db_def Rdb_QueryApns_def Rdb_QueryPreferApn_def Rdb_QueryMvnoApnsByType_def
        MakePdpProfile_normalised)
qed

definition sample_rdb :: rdb where
  "sample_rdb = \<lparr>rdb_samgr = True, rdb_remote = True, rdb_create = 0,
     rdb_query = (\<lambda>u ps. Some [\<lparr>row_string = (\<lambda>c. if c = COL_MVNO_TYPE then ''gid1'' else if c = COL_MVNO_MATCH_DATA then ''A1'' else ''''),
       row_int = (\<lambda>c. if c = COL_AUTH_TYPE then -1 else 1)\<rparr>]),
     rdb_update = (\<lambda>u v. 0), regex_match = (\<lambda>s p. Some (s = p)), empty_PdpProfile = sample_row 0 '''',
     OpKeyOf = (\<lambda>i. ''''), SIM_SLOT_COUNT = 2\<rparr>"

text \<open>A table with one row of a virtual operator and one of another operator.\<close>

definition sample_mvno_row :: "string \<Rightarrow> row" where
  "sample_mvno_row mccmnc = \<lparr>row_string = (\<lambda>c. if c = COL_MVNO_TYPE then ''gid1'' else if c = COL_MVNO_MATCH_DATA then ''A1''
       else if c = COL_MCCMNC then mccmnc else []), row_int = (\<lambda>c. 0)\<rparr>"

definition sample_rows_rdb :: rdb where
  "sample_rows_rdb = sample_rdb \<lparr>rdb_query := \<lambda>u ps. Some (filter (row_satisfies ps)
     [sample_mvno_row ''46001'', sample_mvno_row ''46002''])\<rparr>"

theorem rdb_profiles_exact_witness:
  "QueryMvnoApnsByType (rdb_apn_db sample_rows_rdb sample_env 0) ''460'' ''01'' ''gid1'' ''A1FF''
     = Some [MakePdpProfile sample_rows_rdb (sample_mvno_row ''46001'')]
   \<and> QueryApns (rdb_apn_db sample_rows_rdb sample_env 0) ''460'' ''01'' = Some []"
proof -
  have f: "rdb_filters sample_rows_rdb (\<lambda>u. [sample_mvno_row ''46001'', sample_mvno_row ''46002''])"
    by (simp add: rdb_filters_def sample_rows_rdb_def)
  have c: "CreateDataAbilityHelper sample_rows_rdb" by (simp add: CreateDataAbilityHelper_def sample_rows_rdb_def sample_rdb_def)
  have m: "mvno_fits sample_rows_rdb ''gid1'' ''A1'' ''A1FF''" by (simp add: mvno_fits_def)
  from rdb_profiles_exact [OF f, of sample_env 0 "''460''" "''01''" "''gid1''" "''A1FF''"] c m
  show ?thesis by (simp add: sample_mvno_row_def plain_row_def)
qed

end
