(* ===== verification/Ipc_Records.thy ===== *)
theory Ipc_Records
  imports Rdb_Helper
begin

text \<open>
  The records that travel between a client process and the service (\<open>apn_attribute.cpp\<close>,
  \<open>apn_activate_report_info.cpp\<close>, \<open>ApnInfo\<close> of \<open>cellular_data_types.h\<close>): writing them into a parcel,
  reading them back, and copying an attribute record between its two forms. The parcel belongs to
  the platform: its operations are the parameter \<open>parcel\<close>, and \<open>parcel_ok\<close> states what its
  documentation promises: values are read in the order in which they were written.
\<close>

section \<open>The parcel\<close>

record 'p parcel =
  WriteString :: "string \<Rightarrow> 'p \<Rightarrow> 'p option"
  WriteString16 :: "string \<Rightarrow> 'p \<Rightarrow> 'p option"
  WriteInt32 :: "int \<Rightarrow> 'p \<Rightarrow> 'p option"
  WriteUint32 :: "int \<Rightarrow> 'p \<Rightarrow> 'p option"
  WriteBool :: "bool \<Rightarrow> 'p \<Rightarrow> 'p option"
  ReadString :: "'p \<Rightarrow> (string \<times> 'p) option"
  ReadString16 :: "'p \<Rightarrow> (string \<times> 'p) option"
  ReadInt32 :: "'p \<Rightarrow> (int \<times> 'p) option"
  ReadUint32 :: "'p \<Rightarrow> (int \<times> 'p) option"
  ReadBool :: "'p \<Rightarrow> (bool \<times> 'p) option"

datatype pvalue = PString string | PString16 string | PInt int | PUint int | PBool bool

definition parcel_ok :: "'p parcel \<Rightarrow> ('p \<Rightarrow> pvalue list) \<Rightarrow> bool" where
  "parcel_ok A contents \<longleftrightarrow>
     (\<forall>v p p'. WriteString A v p = Some p' \<longrightarrow> contents p' = contents p @ [PString v])
   \<and> (\<forall>v p p'. WriteString16 A v p = Some p' \<longrightarrow> contents p' = contents p @ [PString16 v])
   \<and> (\<forall>v p p'. WriteInt32 A v p = Some p' \<longrightarrow> contents p' = contents p @ [PInt v])
   \<and> (\<forall>v p p'. WriteUint32 A v p = Some p' \<longrightarrow> contents p' = contents p @ [PUint v])
   \<and> (\<forall>v p p'. WriteBool A v p = Some p' \<longrightarrow> contents p' = contents p @ [PBool v])
   \<and> (\<forall>v p vs. contents p = PString v # vs \<longrightarrow> (\<exists>p'. ReadString A p = Some (v, p') \<and> contents p' = vs))
   \<and> (\<forall>v p vs. contents p = PString16 v # vs \<longrightarrow> (\<exists>p'. ReadString16 A p = Some (v, p') \<and> contents p' = vs))
   \<and> (\<forall>v p vs. contents p = PInt v # vs \<longrightarrow> (\<exists>p'. ReadInt32 A p = Some (v, p') \<and> contents p' = vs))
   \<and> (\<forall>v p vs. contents p = PUint v # vs \<longrightarrow> (\<exists>p'. ReadUint32 A p = Some (v, p') \<and> contents p' = vs))
   \<and> (\<forall>v p vs. contents p = PBool v # vs \<longrightarrow> (\<exists>p'. ReadBool A p = Some (v, p') \<and> contents p' = vs))"

section \<open>Access point attributes\<close>

record ApnAttribute =
  aa_types :: string
  aa_numeric :: string
  aa_profileId :: int
  aa_protocol :: string
  aa_roamingProtocol :: string
  aa_authType :: int
  aa_apn :: string
  aa_apnName :: string
  aa_user :: string
  aa_password :: string
  aa_isRoamingApn :: bool
  aa_homeUrl :: string
  aa_proxyIpAddress :: string
  aa_mmsIpAddress :: string
  aa_isEdited :: bool

definition new_ApnAttribute :: ApnAttribute where
  "new_ApnAttribute = \<lparr>aa_types = '''', aa_numeric = '''', aa_profileId = 0, aa_protocol = '''',
     aa_roamingProtocol = '''', aa_authType = 0, aa_apn = '''', aa_apnName = '''', aa_user = '''',
     aa_password = '''', aa_isRoamingApn = False, aa_homeUrl = '''', aa_proxyIpAddress = '''',
     aa_mmsIpAddress = '''', aa_isEdited = False\<rparr>"

text \<open>A failed write ends the call; the partly written parcel is not used.\<close>

definition ApnAttribute_Marshalling :: "'p parcel \<Rightarrow> ApnAttribute \<Rightarrow> 'p \<Rightarrow> 'p option" where
  "ApnAttribute_Marshalling A x p = do {
     p \<leftarrow> WriteString A (aa_types x) p;
     p \<leftarrow> WriteString A (aa_numeric x) p;
     p \<leftarrow> WriteInt32 A (aa_profileId x) p;
     p \<leftarrow> WriteString A (aa_protocol x) p;
     p \<leftarrow> WriteString A (aa_roamingProtocol x) p;
     p \<leftarrow> WriteInt32 A (aa_authType x) p;
     p \<leftarrow> WriteString A (aa_apn x) p;
     p \<leftarrow> WriteString A (aa_apnName x) p;
     p \<leftarrow> WriteString A (aa_user x) p;
     p \<leftarrow> WriteString A (aa_password x) p;
     p \<leftarrow> WriteBool A (aa_isRoamingApn x) p;
     p \<leftarrow> WriteString A (aa_homeUrl x) p;
     p \<leftarrow> WriteString A (aa_proxyIpAddress x) p;
     p \<leftarrow> WriteString A (aa_mmsIpAddress x) p;
     WriteBool A (aa_isEdited x) p
   }"

definition UnmarshallingExt :: "'p parcel \<Rightarrow> ApnAttribute \<Rightarrow> 'p \<Rightarrow> (ApnAttribute \<times> 'p) option" where
  "UnmarshallingExt A x p = do {
     (apnName, p) \<leftarrow> ReadString A p;
     (user, p) \<leftarrow> ReadString A p;
     (password, p) \<leftarrow> ReadString A p;
     (roaming, p) \<leftarrow> ReadBool A p;
     (homeUrl, p) \<leftarrow> ReadString A p;
     (proxy, p) \<leftarrow> ReadString A p;
     (mms, p) \<leftarrow> ReadString A p;
     (edited, p) \<leftarrow> ReadBool A p;
     Some (x \<lparr>aa_apnName := apnName, aa_user := user, aa_password := password, aa_isRoamingApn := roaming,
       aa_homeUrl := homeUrl, aa_proxyIpAddress := proxy, aa_mmsIpAddress := mms, aa_isEdited := edited\<rparr>, p)
   }"

definition ApnAttribute_Unmarshalling :: "'p parcel \<Rightarrow> 'p \<Rightarrow> (ApnAttribute \<times> 'p) option" where
  "ApnAttribute_Unmarshalling A p = do {
     (types, p) \<leftarrow> ReadString A p;
     (numeric, p) \<leftarrow> ReadString A p;
     (profileId, p) \<leftarrow> ReadInt32 A p;
     (protocol, p) \<leftarrow> ReadString A p;
     (roamingProtocol, p) \<leftarrow> ReadString A p;
     (authType, p) \<leftarrow> ReadInt32 A p;
     (apn, p) \<leftarrow> ReadString A p;
     UnmarshallingExt A (new_ApnAttribute \<lparr>aa_types := types, aa_numeric := numeric, aa_profileId := profileId,
       aa_protocol := protocol, aa_roamingProtocol := roamingProtocol, aa_authType := authType, aa_apn := apn\<rparr>) p
   }"

section \<open>Activation reports and access point descriptions\<close>

record ReportIpc =
  ri_actTimes :: int
  ri_averDuration :: int
  ri_topReason :: int
  ri_actSuccTimes :: int

definition ReportInfo_Marshalling :: "'p parcel \<Rightarrow> ReportIpc \<Rightarrow> 'p \<Rightarrow> 'p option" where
  "ReportInfo_Marshalling A x p = do {
     p \<leftarrow> WriteUint32 A (ri_actTimes x) p;
     p \<leftarrow> WriteUint32 A (ri_averDuration x) p;
     p \<leftarrow> WriteUint32 A (ri_topReason x) p;
     WriteUint32 A (ri_actSuccTimes x) p
   }"

definition ReportInfo_Unmarshalling :: "'p parcel \<Rightarrow> 'p \<Rightarrow> (ReportIpc \<times> 'p) option" where
  "ReportInfo_Unmarshalling A p = do {
     (times, p) \<leftarrow> ReadUint32 A p;
     (duration, p) \<leftarrow> ReadUint32 A p;
     (reason, p) \<leftarrow> ReadUint32 A p;
     (succ, p) \<leftarrow> ReadUint32 A p;
     Some (\<lparr>ri_actTimes = times, ri_averDuration = duration, ri_topReason = reason, ri_actSuccTimes = succ\<rparr>, p)
   }"

definition ApnInfo_Marshalling :: "'p parcel \<Rightarrow> ApnInfo \<Rightarrow> 'p \<Rightarrow> 'p option" where
  "ApnInfo_Marshalling A x p = do {
     p \<leftarrow> WriteString16 A (ai_apnName x) p;
     p \<leftarrow> WriteString16 A (ai_apn x) p;
     p \<leftarrow> WriteString16 A (ai_mcc x) p;
     p \<leftarrow> WriteString16 A (ai_mnc x) p;
     p \<leftarrow> WriteString16 A (ai_user x) p;
     p \<leftarrow> WriteString16 A (ai_type x) p;
     p \<leftarrow> WriteString16 A (ai_proxy x) p;
     WriteString16 A (ai_mmsproxy x) p
   }"

definition ApnInfo_Unmarshalling :: "'p parcel \<Rightarrow> 'p \<Rightarrow> (ApnInfo \<times> 'p) option" where
  "ApnInfo_Unmarshalling A p = do {
     (apnName, p) \<leftarrow> ReadString16 A p;
     (apn, p) \<leftarrow> ReadString16 A p;
     (mcc, p) \<leftarrow> ReadString16 A p;
     (mnc, p) \<leftarrow> ReadString16 A p;
     (user, p) \<leftarrow> ReadString16 A p;
     (ty, p) \<leftarrow> ReadString16 A p;
     (proxy, p) \<leftarrow> ReadString16 A p;
     (mms, p) \<leftarrow> ReadString16 A p;
     Some (\<lparr>ai_apnName = apnName, ai_apn = apn, ai_mcc = mcc, ai_mnc = mnc, ai_user = user, ai_type = ty,
       ai_proxy = proxy, ai_mmsproxy = mms\<rparr>, p)
   }"

section \<open>Copying attributes\<close>

text \<open>The service keeps the attributes in arrays of 256 characters; here the fields of \<open>Attribute\<close> hold
  the whole arrays, and \<open>c_str\<close> is the text in front of the first zero. \<open>copy_into\<close> is \<open>std::string::copy\<close>
  with a count of 255: it writes no terminator.\<close>

type_synonym attr_arrays = Attribute

definition copy_into :: "string \<Rightarrow> string \<Rightarrow> string" where
  "copy_into s array = (let t = take (ALL_APN_ITEM_CHAR_LENGTH - 1) s in t @ drop (length t) array)"

definition TransferApnAttributeBeforeIpc :: "attr_arrays \<Rightarrow> ApnAttribute" where
  "TransferApnAttributeBeforeIpc a =
     \<lparr>aa_types = c_str (at_types a), aa_numeric = c_str (at_numeric a), aa_profileId = at_profileId a,
      aa_protocol = c_str (at_protocol a), aa_roamingProtocol = c_str (at_roamingProtocol a),
      aa_authType = at_authType a, aa_apn = c_str (at_apn a), aa_apnName = c_str (at_apnName a),
      aa_user = c_str (at_user a), aa_password = c_str (at_password a), aa_isRoamingApn = at_isRoamingApn a,
      aa_homeUrl = c_str (at_homeUrl a), aa_proxyIpAddress = c_str (at_proxyIpAddress a),
      aa_mmsIpAddress = c_str (at_mmsIpAddress a), aa_isEdited = at_isEdited a\<rparr>"

definition TransferApnAttributeAfterIpc :: "ApnAttribute \<Rightarrow> attr_arrays \<Rightarrow> attr_arrays" where
  "TransferApnAttributeAfterIpc x a =
     a \<lparr>at_types := copy_into (aa_types x) (at_types a), at_numeric := copy_into (aa_numeric x) (at_numeric a),
        at_profileId := aa_profileId x, at_protocol := copy_into (aa_protocol x) (at_protocol a),
        at_roamingProtocol := copy_into (aa_roamingProtocol x) (at_roamingProtocol a),
        at_authType := aa_authType x, at_apn := copy_into (aa_apn x) (at_apn a),
        at_apnName := copy_into (aa_apnName x) (at_apnName a), at_user := copy_into (aa_user x) (at_user a),
        at_password := copy_into (aa_password x) (at_password a), at_isRoamingApn := aa_isRoamingApn x,
        at_homeUrl := copy_into (aa_homeUrl x) (at_homeUrl a),
        at_proxyIpAddress := copy_into (aa_proxyIpAddress x) (at_proxyIpAddress a),
        at_mmsIpAddress := copy_into (aa_mmsIpAddress x) (at_mmsIpAddress a), at_isEdited := aa_isEdited x\<rparr>"


section \<open>Transport\<close>

lemma parcel_writes:
  assumes "parcel_ok A cs"
  shows "WriteString A v p = Some p' \<Longrightarrow> cs p' = cs p @ [PString v]"
    "WriteString16 A v p = Some p' \<Longrightarrow> cs p' = cs p @ [PString16 v]"
    "WriteInt32 A i p = Some p' \<Longrightarrow> cs p' = cs p @ [PInt i]"
    "WriteUint32 A i p = Some p' \<Longrightarrow> cs p' = cs p @ [PUint i]"
    "WriteBool A b p = Some p' \<Longrightarrow> cs p' = cs p @ [PBool b]"
  using assms by (simp_all add: parcel_ok_def)

text \<open>Reading one value and going on: the rest of the reader starts behind it.\<close>

lemma read_string:
  assumes "parcel_ok A cs" "cs p = PString v # vs" "\<And>p'. cs p' = vs \<Longrightarrow> \<exists>q. k v p' = Some (r, q) \<and> cs q = ws"
  shows "\<exists>q. Option.bind (ReadString A p) (\<lambda>(x, p'). k x p') = Some (r, q) \<and> cs q = ws"
proof -
  obtain p' where "ReadString A p = Some (v, p')" "cs p' = vs" using assms(1,2) unfolding parcel_ok_def by blast
  with assms(3) show ?thesis by simp
qed

lemma read_string16:
  assumes "parcel_ok A cs" "cs p = PString16 v # vs" "\<And>p'. cs p' = vs \<Longrightarrow> \<exists>q. k v p' = Some (r, q) \<and> cs q = ws"
  shows "\<exists>q. Option.bind (ReadString16 A p) (\<lambda>(x, p'). k x p') = Some (r, q) \<and> cs q = ws"
proof -
  obtain p' where "ReadString16 A p = Some (v, p')" "cs p' = vs" using assms(1,2) unfolding parcel_ok_def by blast
  with assms(3) show ?thesis by simp
qed

lemma read_int32:
  assumes "parcel_ok A cs" "cs p = PInt v # vs" "\<And>p'. cs p' = vs \<Longrightarrow> \<exists>q. k v p' = Some (r, q) \<and> cs q = ws"
  shows "\<exists>q. Option.bind (ReadInt32 A p) (\<lambda>(x, p'). k x p') = Some (r, q) \<and> cs q = ws"
proof -
  obtain p' where "ReadInt32 A p = Some (v, p')" "cs p' = vs" using assms(1,2) unfolding parcel_ok_def by blast
  with assms(3) show ?thesis by simp
qed

lemma read_uint32:
  assumes "parcel_ok A cs" "cs p = PUint v # vs" "\<And>p'. cs p' = vs \<Longrightarrow> \<exists>q. k v p' = Some (r, q) \<and> cs q = ws"
  shows "\<exists>q. Option.bind (ReadUint32 A p) (\<lambda>(x, p'). k x p') = Some (r, q) \<and> cs q = ws"
proof -
  obtain p' where "ReadUint32 A p = Some (v, p')" "cs p' = vs" using assms(1,2) unfolding parcel_ok_def by blast
  with assms(3) show ?thesis by simp
qed

lemma read_bool:
  assumes "parcel_ok A cs" "cs p = PBool v # vs" "\<And>p'. cs p' = vs \<Longrightarrow> \<exists>q. k v p' = Some (r, q) \<and> cs q = ws"
  shows "\<exists>q. Option.bind (ReadBool A p) (\<lambda>(x, p'). k x p') = Some (r, q) \<and> cs q = ws"
proof -
  obtain p' where "ReadBool A p = Some (v, p')" "cs p' = vs" using assms(1,2) unfolding parcel_ok_def by blast
  with assms(3) show ?thesis by simp
qed

lemmas parcel_reads = read_string read_string16 read_int32 read_uint32 read_bool

text \<open>The layout of the three records in a parcel.\<close>

definition attribute_values :: "ApnAttribute \<Rightarrow> pvalue list" where
  "attribute_values x =
     [PString (aa_types x), PString (aa_numeric x), PInt (aa_profileId x), PString (aa_protocol x),
      PString (aa_roamingProtocol x), PInt (aa_authType x), PString (aa_apn x), PString (aa_apnName x),
      PString (aa_user x), PString (aa_password x), PBool (aa_isRoamingApn x), PString (aa_homeUrl x),
      PString (aa_proxyIpAddress x), PString (aa_mmsIpAddress x), PBool (aa_isEdited x)]"

definition report_values :: "ReportIpc \<Rightarrow> pvalue list" where
  "report_values x = [PUint (ri_actTimes x), PUint (ri_averDuration x), PUint (ri_topReason x), PUint (ri_actSuccTimes x)]"

definition info_values :: "ApnInfo \<Rightarrow> pvalue list" where
  "info_values x = map PString16 [ai_apnName x, ai_apn x, ai_mcc x, ai_mnc x, ai_user x, ai_type x, ai_proxy x, ai_mmsproxy x]"

lemma marshalling_values:
  assumes "parcel_ok A cs"
  shows "ApnAttribute_Marshalling A x p = Some p1 \<Longrightarrow> cs p1 = cs p @ attribute_values x"
    "ReportInfo_Marshalling A r p = Some p1 \<Longrightarrow> cs p1 = cs p @ report_values r"
    "ApnInfo_Marshalling A i p = Some p1 \<Longrightarrow> cs p1 = cs p @ info_values i"
  by (auto simp: ApnAttribute_Marshalling_def ReportInfo_Marshalling_def ApnInfo_Marshalling_def
      attribute_values_def report_values_def info_values_def bind_Some_iff dest!: parcel_writes [OF assms])

lemma unmarshalling_values:
  assumes "parcel_ok A cs"
  shows "cs p = attribute_values x @ vs \<Longrightarrow> \<exists>q. ApnAttribute_Unmarshalling A p = Some (x, q) \<and> cs q = vs"
    "cs p = report_values r @ vs \<Longrightarrow> \<exists>q. ReportInfo_Unmarshalling A p = Some (r, q) \<and> cs q = vs"
    "cs p = info_values i @ vs \<Longrightarrow> \<exists>q. ApnInfo_Unmarshalling A p = Some (i, q) \<and> cs q = vs"
  unfolding ApnAttribute_Unmarshalling_def UnmarshallingExt_def ReportInfo_Unmarshalling_def
    ApnInfo_Unmarshalling_def attribute_values_def report_values_def info_values_def
  by (simp_all, (rule parcel_reads [OF assms], assumption)+, simp add: new_ApnAttribute_def,
      (rule parcel_reads [OF assms], assumption)+, simp, (rule parcel_reads [OF assms], assumption)+, simp)

text \<open>C22: The three records survive the way through a parcel: whatever was written into an empty parcel
  is read back unchanged, and nothing is left over.\<close>

theorem records_survive_transport:
  assumes "parcel_ok A contents" "contents p = []"
    "ApnAttribute_Marshalling A x p = Some p1" "ReportInfo_Marshalling A r p = Some p2" "ApnInfo_Marshalling A i p = Some p3"
  shows "(\<exists>q. ApnAttribute_Unmarshalling A p1 = Some (x, q) \<and> contents q = [])
    \<and> (\<exists>q. ReportInfo_Unmarshalling A p2 = Some (r, q) \<and> contents q = [])
    \<and> (\<exists>q. ApnInfo_Unmarshalling A p3 = Some (i, q) \<and> contents q = [])"
  using marshalling_values [OF assms(1), of _ p] unmarshalling_values [OF assms(1), where vs = "[]"] assms(2-5)
  by simp


definition list_parcel :: "pvalue list parcel" where
  "list_parcel = \<lparr>WriteString = (\<lambda>v p. Some (p @ [PString v])), WriteString16 = (\<lambda>v p. Some (p @ [PString16 v])),
     WriteInt32 = (\<lambda>v p. Some (p @ [PInt v])), WriteUint32 = (\<lambda>v p. Some (p @ [PUint v])),
     WriteBool = (\<lambda>v p. Some (p @ [PBool v])),
     ReadString = (\<lambda>p. case p of PString v # vs \<Rightarrow> Some (v, vs) | _ \<Rightarrow> None),
     ReadString16 = (\<lambda>p. case p of PString16 v # vs \<Rightarrow> Some (v, vs) | _ \<Rightarrow> None),
     ReadInt32 = (\<lambda>p. case p of PInt v # vs \<Rightarrow> Some (v, vs) | _ \<Rightarrow> None),
     ReadUint32 = (\<lambda>p. case p of PUint v # vs \<Rightarrow> Some (v, vs) | _ \<Rightarrow> None),
     ReadBool = (\<lambda>p. case p of PBool v # vs \<Rightarrow> Some (v, vs) | _ \<Rightarrow> None)\<rparr>"

lemma list_parcel_ok: "parcel_ok list_parcel id"
  by (simp add: parcel_ok_def list_parcel_def)

theorem records_survive_transport_witness:
  "\<exists>p1. ApnAttribute_Marshalling list_parcel (new_ApnAttribute \<lparr>aa_apn := ''net''\<rparr>) [] = Some p1
     \<and> ApnAttribute_Unmarshalling list_parcel p1 = Some (new_ApnAttribute \<lparr>aa_apn := ''net''\<rparr>, [])"
proof -
  let ?x = "new_ApnAttribute \<lparr>aa_apn := ''net''\<rparr>"
    and ?r = "\<lparr>ri_actTimes = 1, ri_averDuration = 2, ri_topReason = 3, ri_actSuccTimes = 4\<rparr>"
    and ?i = "\<lparr>ai_apnName = ''a'', ai_apn = ''b'', ai_mcc = ''c'', ai_mnc = ''d'', ai_user = ''e'', ai_type = ''f'',
       ai_proxy = ''g'', ai_mmsproxy = ''h''\<rparr>"
  have "\<exists>p1. ApnAttribute_Marshalling list_parcel ?x [] = Some p1"
    "\<exists>p1. ReportInfo_Marshalling list_parcel ?r [] = Some p1" "\<exists>p1. ApnInfo_Marshalling list_parcel ?i [] = Some p1"
    by (simp_all add: ApnAttribute_Marshalling_def ReportInfo_Marshalling_def ApnInfo_Marshalling_def list_parcel_def)
  then obtain p1 p2 p3 where m: "ApnAttribute_Marshalling list_parcel ?x [] = Some p1"
    "ReportInfo_Marshalling list_parcel ?r [] = Some p2" "ApnInfo_Marshalling list_parcel ?i [] = Some p3" by blast
  show ?thesis using records_survive_transport [OF list_parcel_ok _ m] m(1) by simp
qed

section \<open>Copies\<close>

text \<open>The text fields of the two forms, in the same order.\<close>

definition array_fields :: "attr_arrays \<Rightarrow> string list" where
  "array_fields a = [at_types a, at_numeric a, at_protocol a, at_roamingProtocol a, at_apn a, at_apnName a,
     at_user a, at_password a, at_homeUrl a, at_proxyIpAddress a, at_mmsIpAddress a]"

definition text_fields :: "ApnAttribute \<Rightarrow> string list" where
  "text_fields x = [aa_types x, aa_numeric x, aa_protocol x, aa_roamingProtocol x, aa_apn x, aa_apnName x,
     aa_user x, aa_password x, aa_homeUrl x, aa_proxyIpAddress x, aa_mmsIpAddress x]"

definition plain :: "string \<Rightarrow> bool" where
  "plain s \<longleftrightarrow> CHR 0x00 \<notin> set s \<and> length s < ALL_APN_ITEM_CHAR_LENGTH"

lemma c_str_append: "CHR 0x00 \<notin> set s \<Longrightarrow> c_str (s @ t) = s @ c_str t"
  unfolding c_str_def by (rule takeWhile_append2) auto

lemma c_str_copy: "plain s \<Longrightarrow> c_str (copy_into s b) = s @ c_str (drop (length s) b)"
  by (simp add: plain_def copy_into_def Let_def c_str_append)

lemma c_str_copy_exact: "plain s \<Longrightarrow> c_str (copy_into s b) = s \<longleftrightarrow> c_str (drop (length s) b) = []"
  by (simp add: c_str_copy)

lemma copy_array_fields:
  "array_fields (TransferApnAttributeAfterIpc x a) = map2 copy_into (text_fields x) (array_fields a)"
  by (simp add: array_fields_def text_fields_def TransferApnAttributeAfterIpc_def)

lemma before_text_fields: "text_fields (TransferApnAttributeBeforeIpc a) = map c_str (array_fields a)"
  by (simp add: array_fields_def text_fields_def TransferApnAttributeBeforeIpc_def)

lemma attribute_eqI:
  assumes "text_fields x = text_fields y" "aa_profileId x = aa_profileId y" "aa_authType x = aa_authType y"
    "aa_isRoamingApn x = aa_isRoamingApn y" "aa_isEdited x = aa_isEdited y"
  shows "x = y"
  using assms by (simp add: text_fields_def)

text \<open>C23: What a client reads after its attribute record was filled from an answer. Since the copies write
  no terminator, each field reads as the new text followed by what remains of a longer old text; the
  record equals the answer exactly when every old array is empty from the end of the new text on, as
  it is in a record that the client has just created.\<close>

theorem attribute_copy_exact:
  fixes x :: ApnAttribute and a :: attr_arrays
  assumes "\<forall>s \<in> set (text_fields x). plain s"
  defines "y \<equiv> TransferApnAttributeBeforeIpc (TransferApnAttributeAfterIpc x a)"
  shows "text_fields y = map2 (\<lambda>s b. s @ c_str (drop (length s) b)) (text_fields x) (array_fields a)
    \<and> (y = x \<longleftrightarrow> list_all2 (\<lambda>s b. c_str (drop (length s) b) = []) (text_fields x) (array_fields a))
    \<and> ((\<forall>b \<in> set (array_fields a). set b \<subseteq> {CHR 0x00}) \<longrightarrow> y = x)"
proof -
  have len: "length (text_fields x) = length (array_fields a)" by (simp add: text_fields_def array_fields_def)
  have f: "text_fields y = map2 (\<lambda>s b. s @ c_str (drop (length s) b)) (text_fields x) (array_fields a)"
    unfolding y_def before_text_fields copy_array_fields map_map
    using assms(1) by (auto simp: c_str_copy dest: set_zip_leftD)
  have o: "aa_profileId y = aa_profileId x" "aa_authType y = aa_authType x" "aa_isRoamingApn y = aa_isRoamingApn x"
    "aa_isEdited y = aa_isEdited x"
    by (simp_all add: y_def TransferApnAttributeBeforeIpc_def TransferApnAttributeAfterIpc_def)
  have "y = x \<longleftrightarrow> text_fields y = text_fields x" using attribute_eqI o by metis
  also have "\<dots> \<longleftrightarrow> list_all2 (\<lambda>s b. c_str (drop (length s) b) = []) (text_fields x) (array_fields a)"
    unfolding f by (simp add: text_fields_def array_fields_def)
  finally have e: "y = x \<longleftrightarrow> list_all2 (\<lambda>s b. c_str (drop (length s) b) = []) (text_fields x) (array_fields a)" .
  have z: "c_str (drop n b) = []" if "set b \<subseteq> {CHR 0x00}" for n and b :: string
  proof -
    have "set (drop n b) \<subseteq> {CHR 0x00}" using that set_drop_subset by fastforce
    then show ?thesis by (cases "drop n b") (auto simp: c_str_def)
  qed
  have "list_all2 (\<lambda>s b. c_str (drop (length s) b) = []) (text_fields x) (array_fields a)"
    if "\<forall>b \<in> set (array_fields a). set b \<subseteq> {CHR 0x00}"
    using that z len by (simp add: list_all2_conv_all_nth)
  with f e show ?thesis by blast
qed

theorem attribute_copy_exact_witness:
  "TransferApnAttributeBeforeIpc (TransferApnAttributeAfterIpc (new_ApnAttribute \<lparr>aa_apn := ''net''\<rparr>) empty_Attribute)
     = new_ApnAttribute \<lparr>aa_apn := ''net''\<rparr>
   \<and> TransferApnAttributeBeforeIpc (TransferApnAttributeAfterIpc (new_ApnAttribute \<lparr>aa_apn := ''net''\<rparr>)
       (empty_Attribute \<lparr>at_apn := ''wapnet''\<rparr>)) \<noteq> new_ApnAttribute \<lparr>aa_apn := ''net''\<rparr>"
proof -
  let ?x = "new_ApnAttribute \<lparr>aa_apn := ''net''\<rparr>"
  have p: "\<forall>s \<in> set (text_fields ?x). plain s" by (simp add: text_fields_def new_ApnAttribute_def plain_def)
  show ?thesis
    using attribute_copy_exact [OF p, of empty_Attribute] attribute_copy_exact [OF p, of "empty_Attribute \<lparr>at_apn := ''wapnet''\<rparr>"]
    by (simp add: text_fields_def array_fields_def new_ApnAttribute_def empty_Attribute_def c_str_def)
qed

end
