(* ===== verification/Data_Service.thy ===== *)
theory Data_Service
  imports Data_Controller Ipc_Records
begin

text \<open>
  The service (\<open>cellular_data_service.cpp\<close>): it owns one controller per slot, checks the caller of
  every request, finds the controller and passes the request on. The table of net suppliers and the
  settings are shared by all slots, so they belong to the service here; a controller that is called
  sees them and its changes to them are kept. The permissions and the token
  of the caller of a request, the core service, system parameters and the numeric values of the error
  codes are parameters (the record \<open>svc_env\<close>). Telemetry, dumps and the timing of the start are left
  out; a request that the source would end with an uncaught exception has no result.
\<close>

section \<open>State and environment\<close>

datatype permission = GET_TELEPHONY_STATE | SET_TELEPHONY_STATE | GET_NETWORK_INFO | MANAGE_APN_SETTING

datatype svc_err =
    Tel tel_err | PERMISSION_ERR | ILLEGAL_USE_OF_SYSTEM_API | NO_SIM_CARD | POLICY_DISABLED
  | ERR_FAIL | INVALID_PARAM

text \<open>Calls of the core service whose result is passed to the caller.\<close>

datatype core_request =
    Core_SetDefaultCellularDataSlotId int
  | Core_SendUrspDecodeResult int "nat list"
  | Core_SendUePolicySectionIdentifier int "nat list"
  | Core_SendImsRsdList int "nat list"
  | Core_GetNetworkSliceAllowedNssai int "nat list"
  | Core_GetNetworkSliceEhplmn int
  | Core_RegisterSimAccountCallback int nat
  | Core_UnregisterSimAccountCallback nat

datatype svc_call = CtlCall ctl_call | Core core_request | SvcNet effect

record 'db svc_env =
  sW :: "int \<Rightarrow> 'db world"
  sC :: ctl_env
  sR :: rdb
  sCode :: "svc_err \<Rightarrow> int"
  CheckCallerIsSystemApp :: bool
  CheckPermission :: "permission \<Rightarrow> bool"
  publishOk :: bool
  SIM_SLOT_COUNT_MD :: int
  coreResult :: "core_request \<Rightarrow> int"
  coreDefaultSimId :: "int \<times> int"
  GetTokenID :: int

record 'db service =
  sv_controllers :: "(int \<times> 'db controller) list"
  sv_registered :: bool
  sv_running :: bool
  sv_initSuccess :: bool
  sv_agent :: NetAgent
  sv_db :: 'db
  sv_fx :: "svc_call list"

definition new_service :: "'db \<Rightarrow> NetAgent \<Rightarrow> 'db service" where
  "new_service db ag = \<lparr>sv_controllers = [], sv_registered = False, sv_running = False, sv_initSuccess = False,
     sv_agent = ag, sv_db = db, sv_fx = []\<rparr>"

definition sv_emit :: "svc_call list \<Rightarrow> 'db service \<Rightarrow> 'db service" where
  "sv_emit cs s = s \<lparr>sv_fx := sv_fx s @ cs\<rparr>"

text \<open>Values of the platform and the core service that do not depend on the slot.\<close>

definition svc_platform :: "'db svc_env \<Rightarrow> platform" where
  "svc_platform E = wP (sW E 0)"

definition svc_default_slot :: "'db svc_env \<Rightarrow> int" where
  "svc_default_slot E = DefaultCellularDataSlotId (wE (sW E 0))"

definition svc_code :: "'db svc_env \<Rightarrow> tel_err \<Rightarrow> int" where
  "svc_code E r = sCode E (Tel r)"

text \<open>What a request leaves in its out-parameter; \<open>V_none\<close> when it does not write it.\<close>

datatype svc_value =
    V_none | V_bool bool | V_int int | V_text string | V_attr ApnAttribute | V_report ApnActivateReportInfo
  | V_ids "int list" | V_infos "ApnInfo list"

type_synonym reply = "int \<times> svc_value"

section \<open>Controllers\<close>

text \<open>A controller that is called sees the shared suppliers and settings, and its changes are kept.\<close>

definition sv_enter :: "'db service \<Rightarrow> 'db controller \<Rightarrow> 'db controller" where
  "sv_enter s c = c \<lparr>ctl_handler := map_option (\<lambda>h. h \<lparr>hd_agent := sv_agent s, hd_db := sv_db s\<rparr>) (ctl_handler c)\<rparr>"

definition sv_leave :: "int \<Rightarrow> 'db controller \<Rightarrow> 'db service \<Rightarrow> 'db service" where
  "sv_leave slotId c s =
     (let s1 = s \<lparr>sv_controllers := map_put slotId c (sv_controllers s)\<rparr>
      in case ctl_handler c of None \<Rightarrow> s1 | Some h \<Rightarrow> s1 \<lparr>sv_agent := hd_agent h, sv_db := hd_db h\<rparr>)"

definition GetCellularDataController :: "int \<Rightarrow> 'db service \<Rightarrow> 'db controller option" where
  "GetCellularDataController slotId s =
     (if slotId < 0 \<or> \<not> sv_initSuccess s then None else map_of (sv_controllers s) slotId)"

definition call_controller ::
  "int \<Rightarrow> 'r \<Rightarrow> ('db controller \<Rightarrow> ('r \<times> 'db controller) outcome) \<Rightarrow> 'db service \<Rightarrow> ('r \<times> 'db service) outcome" where
  "call_controller slotId r f s = (case GetCellularDataController slotId s of
     None \<Rightarrow> Some (r, s)
   | Some c \<Rightarrow> do { (x, c') \<leftarrow> f (sv_enter s c); Some (x, sv_leave slotId c' s) })"

definition ask_controller :: "int \<Rightarrow> 'r \<Rightarrow> ('db controller \<Rightarrow> 'r) \<Rightarrow> 'db service \<Rightarrow> 'r" where
  "ask_controller slotId r f s = (case GetCellularDataController slotId s of
     None \<Rightarrow> r | Some c \<Rightarrow> f (sv_enter s c))"

section \<open>Start and end\<close>

definition service_capabilities :: "platform \<Rightarrow> nat list" where
  "service_capabilities P = map (NC P)
     [NET_CAPABILITY_INTERNET, NET_CAPABILITY_MMS, NET_CAPABILITY_INTERNAL_DEFAULT, NET_CAPABILITY_SUPL,
      NET_CAPABILITY_DUN, NET_CAPABILITY_IA, NET_CAPABILITY_XCAP, NET_CAPABILITY_BIP, NET_CAPABILITY_SNSSAI1,
      NET_CAPABILITY_SNSSAI2, NET_CAPABILITY_SNSSAI3, NET_CAPABILITY_SNSSAI4, NET_CAPABILITY_SNSSAI5,
      NET_CAPABILITY_SNSSAI6]"

definition destroy_controller :: "'db svc_env \<Rightarrow> 'db controller \<Rightarrow> 'db service \<Rightarrow> 'db service" where
  "destroy_controller E c s = sv_emit (map CtlCall (drop (length (ctl_fx c)) (ctl_fx (Ctl_destroy (sC E) c)))) s"

definition ClearCellularDataControllers :: "'db svc_env \<Rightarrow> 'db service \<Rightarrow> 'db service" where
  "ClearCellularDataControllers E s =
     (fold (\<lambda>x. destroy_controller E (snd x)) (sv_controllers s) s) \<lparr>sv_controllers := []\<rparr>"

text \<open>\<open>std::map::insert\<close> keeps an existing entry; a controller that is not kept is destroyed at the
  end of the call, after it has been registered.\<close>

definition AddCellularDataControllers ::
  "'db svc_env \<Rightarrow> int \<Rightarrow> 'db controller \<Rightarrow> 'db service \<Rightarrow> 'db service outcome" where
  "AddCellularDataControllers E slotId c s = do {
     c1 \<leftarrow> (if slotId = CELLULAR_DATA_VSIM_SLOT_ID
           then AsynchronousRegister (sC E) (sW E slotId) (sv_db s) (sv_agent s) c else Some c);
     let db = (case ctl_handler c1 of None \<Rightarrow> sv_db s | Some h \<Rightarrow> hd_db h);
     Some (case map_of (sv_controllers s) slotId of
         None \<Rightarrow> s \<lparr>sv_controllers := map_put slotId c1 (sv_controllers s), sv_db := db\<rparr>
       | Some old \<Rightarrow> destroy_controller E c1 (sv_emit (map CtlCall (ctl_fx c1)) (s \<lparr>sv_db := db\<rparr>)))
   }"

definition service_supplier :: "int \<Rightarrow> nat \<Rightarrow> NetSupplier" where
  "service_supplier slotId cap = \<lparr>su_supplierId = 0, su_capability = cap, su_slotId = slotId,
     su_simId = INVALID_SIM_ID, su_regState = -1\<rparr>"

definition Service_AddNetSupplier :: "'db svc_env \<Rightarrow> int \<Rightarrow> nat list \<Rightarrow> 'db service \<Rightarrow> 'db service outcome" where
  "Service_AddNetSupplier E slotId netCapabilities s = do {
     s1 \<leftarrow> AddCellularDataControllers E slotId (new_controller slotId) s;
     Some (s1 \<lparr>sv_agent := fold (\<lambda>cap. AddNetSupplier (service_supplier slotId cap)) netCapabilities (sv_agent s1)\<rparr>)
   }"

definition InitModule :: "'db svc_env \<Rightarrow> 'db service \<Rightarrow> 'db service outcome" where
  "InitModule E s = do {
     let s1 = ClearCellularDataControllers E (s \<lparr>sv_agent := ClearNetSupplier (sv_agent s)\<rparr>);
     let caps = service_capabilities (svc_platform E);
     s2 \<leftarrow> foldo (\<lambda>i t. if i = CELLULAR_DATA_VSIM_SLOT_ID then Some t else Service_AddNetSupplier E i caps t)
            [0..SIM_SLOT_COUNT_MD E - 1] s1;
     if IsTstsModeEnabled (getParameter (wE (sW E 0))) then Service_AddNetSupplier E CELLDATA_SLOT_ID_3 caps s2
     else Some s2
   }"

text \<open>The registration of one controller in the loop of \<open>Init\<close>.\<close>

definition register_slot :: "'db svc_env \<Rightarrow> int \<Rightarrow> 'db service \<Rightarrow> 'db service outcome" where
  "register_slot E slotId s = (case map_of (sv_controllers s) slotId of
     None \<Rightarrow> Some s
   | Some c \<Rightarrow> do {
       c' \<leftarrow> AsynchronousRegister (sC E) (sW E slotId) (sv_db s) (sv_agent s) (sv_enter s c);
       Some (sv_leave slotId c' s)
     })"

definition Service_Init :: "'db svc_env \<Rightarrow> 'db service \<Rightarrow> (bool \<times> 'db service) outcome" where
  "Service_Init E s = do {
     s1 \<leftarrow> InitModule E s;
     if \<not> sv_registered s1 \<and> \<not> publishOk E then Some (False, s1)
     else do {
       s2 \<leftarrow> foldo (register_slot E) (map fst (sv_controllers s1)) (s1 \<lparr>sv_registered := True\<rparr>);
       Some (True, s2 \<lparr>sv_initSuccess := True\<rparr>)
     }
   }"

definition OnStart :: "'db svc_env \<Rightarrow> 'db service \<Rightarrow> 'db service outcome" where
  "OnStart E s = (if sv_running s then Some s
     else do { (ok, s1) \<leftarrow> Service_Init E s; Some (if ok then s1 \<lparr>sv_running := True\<rparr> else s1) })"

definition UnRegisterAllNetSpecifier :: "'db service \<Rightarrow> 'db service" where
  "UnRegisterAllNetSpecifier s = (case UnregisterAllNetSupplier (sv_agent s) of (ag, es) \<Rightarrow>
     sv_emit (map SvcNet es @ [CtlCall UnregisterPolicyCallback]) (s \<lparr>sv_agent := ag\<rparr>))"

definition OnStop :: "'db service \<Rightarrow> 'db service" where
  "OnStop s = UnRegisterAllNetSpecifier (s \<lparr>sv_running := False, sv_registered := False\<rparr>)"

text \<open>\<open>DispatchEvent\<close>, which is also how a controller's own delayed event reaches it.\<close>

definition DispatchEvent :: "'db svc_env \<Rightarrow> int \<Rightarrow> ctl_event option \<Rightarrow> 'db service \<Rightarrow> 'db service outcome" where
  "DispatchEvent E slotId event s = do {
     (u, s') \<leftarrow> call_controller slotId ()
       (\<lambda>c. do { c' \<leftarrow> Ctl_ProcessEvent (sC E) (sW E slotId) (sv_db s) (sv_agent s) event c; Some ((), c') }) s;
     Some s'
   }"

end
