(* ===== verification/Service_Requests.thy ===== *)
theory Service_Requests
  imports Data_Service
begin

text \<open>
  The requests of the service (\<open>cellular_data_service.cpp\<close>), one definition for each, and the
  dispatcher \<open>serve\<close> over the datatype of requests of the interface \<open>ICellularDataManager\<close>. The answer of
  a request is its code and what it leaves in its out-parameter. Where the source reads an
  out-parameter before it writes it, the value that the caller passed is an argument.
\<close>

section \<open>Switches\<close>

definition Service_GetIntelligenceSwitchState ::
  "'db svc_env \<Rightarrow> bool \<Rightarrow> 'db service \<Rightarrow> (reply \<times> 'db service) outcome" where
  "Service_GetIntelligenceSwitchState E given s =
     (if \<not> CheckCallerIsSystemApp E then Some ((sCode E ILLEGAL_USE_OF_SYSTEM_API, V_none), s)
      else if \<not> CheckPermission E GET_TELEPHONY_STATE then Some ((sCode E PERMISSION_ERR, V_none), s)
      else let slotId = DEFAULT_SIM_SLOT_ID (svc_platform E)
           in call_controller slotId (svc_code E TELEPHONY_ERR_LOCAL_PTR_NULL, V_none)
                (\<lambda>c. case Ctl_GetIntelligenceSwitchState (sW E slotId) given c of
                   ((r, on), c') \<Rightarrow> Some ((svc_code E r, V_bool on), c')) s)"

definition Service_IsCellularDataEnabled ::
  "'db svc_env \<Rightarrow> bool \<Rightarrow> 'db service \<Rightarrow> (reply \<times> 'db service) outcome" where
  "Service_IsCellularDataEnabled E given s =
     (if \<not> CheckPermission E GET_NETWORK_INFO then Some ((sCode E PERMISSION_ERR, V_none), s)
      else let slotId = DEFAULT_SIM_SLOT_ID (svc_platform E)
           in call_controller slotId (svc_code E TELEPHONY_ERR_LOCAL_PTR_NULL, V_none)
                (\<lambda>c. case Ctl_IsCellularDataEnabled (sW E slotId) given c of
                   ((r, on), c') \<Rightarrow> Some ((svc_code E r, V_bool on), c')) s)"

definition EnableCellularData :: "'db svc_env \<Rightarrow> bool \<Rightarrow> 'db service \<Rightarrow> (reply \<times> 'db service) outcome" where
  "EnableCellularData E enable s =
     (if \<not> CheckCallerIsSystemApp E then Some ((sCode E ILLEGAL_USE_OF_SYSTEM_API, V_none), s)
      else if \<not> CheckPermission E SET_TELEPHONY_STATE then Some ((sCode E PERMISSION_ERR, V_none), s)
      else let slotId = DEFAULT_SIM_SLOT_ID (svc_platform E)
           in call_controller slotId (svc_code E TELEPHONY_ERR_LOCAL_PTR_NULL, V_none)
                (\<lambda>c. let dataPolicy = mobileDataPolicy (sW E slotId)
                     in if dataPolicy = ''force_open'' \<and> \<not> enable then Some ((sCode E POLICY_DISABLED, V_none), c)
                        else if dataPolicy = ''disallow'' \<and> enable then Some ((sCode E POLICY_DISABLED, V_none), c)
                        else case Ctl_SetCellularDataEnable (sW E slotId) enable c of
                               (r, c') \<Rightarrow> Some ((svc_code E r, V_none), c')) s)"

definition EnableIntelligenceSwitch :: "'db svc_env \<Rightarrow> bool \<Rightarrow> 'db service \<Rightarrow> (reply \<times> 'db service) outcome" where
  "EnableIntelligenceSwitch E enable s =
     (if \<not> CheckCallerIsSystemApp E then Some ((sCode E ILLEGAL_USE_OF_SYSTEM_API, V_none), s)
      else if \<not> CheckPermission E SET_TELEPHONY_STATE then Some ((sCode E PERMISSION_ERR, V_none), s)
      else let slotId = DEFAULT_SIM_SLOT_ID (svc_platform E)
           in call_controller slotId (svc_code E TELEPHONY_ERR_LOCAL_PTR_NULL, V_none)
                (\<lambda>c. case Ctl_SetIntelligenceSwitchEnable (sW E slotId) enable c of
                   (r, c') \<Rightarrow> Some ((svc_code E r, V_none), c')) s)"

definition Service_IsCellularDataRoamingEnabled ::
  "'db svc_env \<Rightarrow> int \<Rightarrow> bool \<Rightarrow> 'db service \<Rightarrow> (reply \<times> 'db service) outcome" where
  "Service_IsCellularDataRoamingEnabled E slotId given s =
     (if \<not> CheckPermission E GET_NETWORK_INFO then Some ((sCode E PERMISSION_ERR, V_none), s)
      else call_controller slotId (sCode E INVALID_PARAM, V_none)
             (\<lambda>c. case Ctl_IsCellularDataRoamingEnabled (sW E slotId) given c of
                ((r, on), c') \<Rightarrow> Some ((svc_code E r, V_bool on), c')) s)"

definition EnableCellularDataRoaming ::
  "'db svc_env \<Rightarrow> int \<Rightarrow> bool \<Rightarrow> 'db service \<Rightarrow> (reply \<times> 'db service) outcome" where
  "EnableCellularDataRoaming E slotId enable s =
     (if \<not> CheckCallerIsSystemApp E then Some ((sCode E ILLEGAL_USE_OF_SYSTEM_API, V_none), s)
      else if \<not> CheckPermission E SET_TELEPHONY_STATE then Some ((sCode E PERMISSION_ERR, V_none), s)
      else call_controller slotId (svc_code E TELEPHONY_ERR_SLOTID_INVALID, V_none)
             (\<lambda>c. case Ctl_SetCellularDataRoamingEnabled (sW E slotId) enable c of
                (r, c') \<Rightarrow> Some ((svc_code E r, V_none), c')) s)"

section \<open>State of the connections\<close>

text \<open>The default slot; a virtual SIM takes its place.\<close>

definition Service_GetCellularDataState :: "'db svc_env \<Rightarrow> 'db service \<Rightarrow> reply" where
  "Service_GetCellularDataState E s =
     (if \<not> CheckPermission E GET_NETWORK_INFO then (sCode E PERMISSION_ERR, V_none)
      else let slotId = (if ext_isVSimEnabled (wE (sW E 0)) = Some True then CELLULAR_DATA_VSIM_SLOT_ID else svc_default_slot E)
           in ask_controller slotId (sCode E INVALID_PARAM, V_none)
                (\<lambda>c. let dataState = CellularDataStateAdapter (Ctl_GetCellularDataState c);
                         suspended = (Ctl_GetDisConnectionReason c = REASON_GSM_AND_CALLING_ONLY
                                      \<and> Ctl_IsRestrictedMode (sW E slotId) c)
                     in (svc_code E TELEPHONY_ERR_SUCCESS, V_int (if suspended then STATUS_SUSPENDED else dataState))) s)"

fun profile_code :: "ApnProfileState \<Rightarrow> int" where
  "profile_code PROFILE_STATE_IDLE = 0"
| "profile_code PROFILE_STATE_CONNECTING = 1"
| "profile_code PROFILE_STATE_CONNECTED = 2"
| "profile_code PROFILE_STATE_DISCONNECTING = 3"
| "profile_code PROFILE_STATE_FAILED = 4"
| "profile_code PROFILE_STATE_RETRYING = 5"

definition GetApnState :: "'db svc_env \<Rightarrow> int \<Rightarrow> string \<Rightarrow> 'db service \<Rightarrow> reply" where
  "GetApnState E slotId ty s =
     (if \<not> CheckPermission E GET_TELEPHONY_STATE then (sCode E PERMISSION_ERR, V_none)
      else ask_controller slotId (sCode E INVALID_PARAM, V_none)
             (\<lambda>c. (svc_code E TELEPHONY_ERR_SUCCESS, V_int (profile_code (Ctl_GetCellularDataState_type ty c)))) s)"

text \<open>The maximum over all slots and the value that the caller passed; assigned only in the loop over the slots.\<close>

definition Service_GetDataRecoveryState :: "'db svc_env \<Rightarrow> int \<Rightarrow> 'db service \<Rightarrow> reply" where
  "Service_GetDataRecoveryState E given s =
     (if \<not> CheckPermission E GET_TELEPHONY_STATE then (sCode E PERMISSION_ERR, V_none)
      else (svc_code E TELEPHONY_ERR_SUCCESS,
            if sv_controllers s = [] then V_none
            else V_int (foldl (\<lambda>state (slotId, c). let curState = Ctl_GetDataRecoveryState c
                          in if curState > state then curState else state) given (sv_controllers s))))"

fun flow_code :: "CellDataFlowType \<Rightarrow> int" where
  "flow_code DATA_FLOW_TYPE_NONE = 0"
| "flow_code DATA_FLOW_TYPE_DOWN = 1"
| "flow_code DATA_FLOW_TYPE_UP = 2"
| "flow_code DATA_FLOW_TYPE_UP_DOWN = 3"
| "flow_code DATA_FLOW_TYPE_DORMANT = 4"

text \<open>The flow type is returned as the code of the request; the out-parameter is not written.\<close>

definition Service_GetCellularDataFlowType :: "'db svc_env \<Rightarrow> 'db service \<Rightarrow> reply" where
  "Service_GetCellularDataFlowType E s =
     (if \<not> CheckPermission E GET_NETWORK_INFO then (sCode E PERMISSION_ERR, V_none)
      else let slotId = svc_default_slot E
           in ask_controller slotId (sCode E INVALID_PARAM, V_none)
                (\<lambda>c. if Ctl_GetDisConnectionReason c = REASON_GSM_AND_CALLING_ONLY \<and> Ctl_IsRestrictedMode (sW E slotId) c
                     then (flow_code DATA_FLOW_TYPE_DORMANT, V_none)
                     else (flow_code (Ctl_GetCellularDataFlowType c), V_none)) s)"

abbreviation (input) "REQUEST_FAILED \<equiv> (0::int)"
abbreviation (input) "REQUEST_SUCCESS \<equiv> (1::int)"
abbreviation (input) "SET_FAILED \<equiv> (0::int)"
abbreviation (input) "SET_SUCCESS \<equiv> (1::int)"

definition Service_HasInternetCapability :: "'db svc_env \<Rightarrow> int \<Rightarrow> int \<Rightarrow> 'db service \<Rightarrow> reply" where
  "Service_HasInternetCapability E slotId cid s =
     ask_controller slotId (sCode E INVALID_PARAM, V_none)
       (\<lambda>c. (svc_code E TELEPHONY_ERR_SUCCESS,
             V_int (if Ctl_HasInternetCapability (sW E slotId) cid c then REQUEST_SUCCESS else REQUEST_FAILED))) s"

definition Service_GetDataConnApnAttr :: "'db svc_env \<Rightarrow> int \<Rightarrow> 'db service \<Rightarrow> reply" where
  "Service_GetDataConnApnAttr E slotId s =
     (if \<not> CheckPermission E GET_TELEPHONY_STATE then (sCode E PERMISSION_ERR, V_none)
      else ask_controller slotId (sCode E INVALID_PARAM, V_none)
             (\<lambda>c. (svc_code E TELEPHONY_ERR_SUCCESS,
                   V_attr (TransferApnAttributeBeforeIpc (Ctl_GetDataConnApnAttr empty_Attribute c)))) s)"

definition Service_GetDataConnIpType :: "'db svc_env \<Rightarrow> int \<Rightarrow> 'db service \<Rightarrow> reply" where
  "Service_GetDataConnIpType E slotId s =
     (if \<not> CheckPermission E GET_TELEPHONY_STATE then (sCode E PERMISSION_ERR, V_none)
      else ask_controller slotId (sCode E INVALID_PARAM, V_none)
             (\<lambda>c. (svc_code E TELEPHONY_ERR_SUCCESS, V_text (Ctl_GetDataConnIpType c))) s)"

definition Service_GetIfSupportDunApn :: "'db svc_env \<Rightarrow> 'db service \<Rightarrow> reply outcome" where
  "Service_GetIfSupportDunApn E s =
     (if \<not> CheckPermission E GET_TELEPHONY_STATE then Some (sCode E PERMISSION_ERR, V_none)
      else let slotId = svc_default_slot E
           in ask_controller slotId (Some (sCode E INVALID_PARAM, V_none))
                (\<lambda>c. do { b \<leftarrow> Ctl_IsSupportDunApn (sW E slotId) c;
                          Some (svc_code E TELEPHONY_ERR_SUCCESS, V_bool b) }) s)"

definition Service_GetDefaultActReportInfo ::
  "'db svc_env \<Rightarrow> int \<Rightarrow> ApnActivateReportInfo \<Rightarrow> 'db service \<Rightarrow> (reply \<times> 'db service) outcome" where
  "Service_GetDefaultActReportInfo E slotId info s =
     (if \<not> CheckPermission E GET_TELEPHONY_STATE then Some ((sCode E PERMISSION_ERR, V_none), s)
      else call_controller slotId (sCode E INVALID_PARAM, V_none)
             (\<lambda>c. case Ctl_GetDefaultActReportInfo (sW E slotId) info c of ((ok, i), c') \<Rightarrow>
                Some ((if ok then svc_code E TELEPHONY_ERR_SUCCESS else sCode E ERR_FAIL, V_report i), c')) s)"

text \<open>Here the record is not copied to the out-parameter.\<close>

definition Service_GetInternalActReportInfo ::
  "'db svc_env \<Rightarrow> int \<Rightarrow> ApnActivateReportInfo \<Rightarrow> 'db service \<Rightarrow> (reply \<times> 'db service) outcome" where
  "Service_GetInternalActReportInfo E slotId info s =
     (if \<not> CheckPermission E GET_TELEPHONY_STATE then Some ((sCode E PERMISSION_ERR, V_none), s)
      else call_controller slotId (sCode E INVALID_PARAM, V_none)
             (\<lambda>c. case Ctl_GetInternalActReportInfo (sW E slotId) info c of ((ok, i), c') \<Rightarrow>
                Some ((if ok then svc_code E TELEPHONY_ERR_SUCCESS else sCode E ERR_FAIL, V_none), c')) s)"

text \<open>The name of the active access point: the preferred one when the database has it, else the one of
  the connection; empty unless the default role is connected.\<close>

definition GetActiveApnName :: "'db svc_env \<Rightarrow> 'db service \<Rightarrow> reply" where
  "GetActiveApnName E s =
     (if \<not> CheckPermission E GET_NETWORK_INFO then (sCode E PERMISSION_ERR, V_none)
      else let slotId = svc_default_slot E
           in ask_controller slotId (0, V_text '''')
                (\<lambda>c. if Ctl_GetCellularDataState_type DATA_CONTEXT_ROLE_DEFAULT c \<noteq> PROFILE_STATE_CONNECTED then (0, V_text '''')
                     else case Rdb_QueryPreferApn (sR E) (wE (sW E 0)) slotId of
                            None \<Rightarrow> (0, V_text '''')
                          | Some [] \<Rightarrow> (0, V_text (c_str (at_apn (Ctl_GetDataConnApnAttr empty_Attribute c))))
                          | Some (p # ps) \<Rightarrow> (0, V_text (pp_apn p))) s)"

section \<open>Default slot\<close>

definition Service_GetDefaultCellularDataSlotId :: "'db svc_env \<Rightarrow> reply" where
  "Service_GetDefaultCellularDataSlotId E = (svc_code E TELEPHONY_ERR_SUCCESS, V_int (svc_default_slot E))"

definition Service_GetDefaultCellularDataSimId :: "'db svc_env \<Rightarrow> reply" where
  "Service_GetDefaultCellularDataSimId E = (case coreDefaultSimId E of (r, simId) \<Rightarrow> (r, V_int simId))"

definition Service_SetDefaultCellularDataSlotId ::
  "'db svc_env \<Rightarrow> int \<Rightarrow> 'db service \<Rightarrow> reply \<times> 'db service" where
  "Service_SetDefaultCellularDataSlotId E slotId s =
     (if \<not> CheckCallerIsSystemApp E then ((sCode E ILLEGAL_USE_OF_SYSTEM_API, V_none), s)
      else if \<not> CheckPermission E SET_TELEPHONY_STATE then ((sCode E PERMISSION_ERR, V_none), s)
      else if \<not> HasSimCard (wE (sW E slotId)) slotId then ((sCode E NO_SIM_CARD, V_none), s)
      else if \<not> IsSimActive (wE (sW E slotId)) slotId then ((svc_code E TELEPHONY_ERR_SLOTID_INVALID, V_none), s)
      else ((coreResult E (Core_SetDefaultCellularDataSlotId slotId), V_none),
            sv_emit [Core (Core_SetDefaultCellularDataSlotId slotId)] s))"

section \<open>Requests for a slot\<close>

definition Service_HandleApnChanged :: "'db svc_env \<Rightarrow> int \<Rightarrow> 'db service \<Rightarrow> (reply \<times> 'db service) outcome" where
  "Service_HandleApnChanged E slotId s =
     (if \<not> CheckPermission E SET_TELEPHONY_STATE then Some ((sCode E PERMISSION_ERR, V_none), s)
      else call_controller slotId (sCode E INVALID_PARAM, V_none)
             (\<lambda>c. case Ctl_HandleApnChanged c of (ok, c') \<Rightarrow>
                Some ((if ok then SET_SUCCESS else SET_FAILED, V_none), c')) s)"

definition StrategySwitch :: "'db svc_env \<Rightarrow> int \<Rightarrow> bool \<Rightarrow> 'db service \<Rightarrow> (reply \<times> 'db service) outcome" where
  "StrategySwitch E slotId enable s =
     call_controller slotId (sCode E INVALID_PARAM, V_none)
       (\<lambda>c. do { (ok, c') \<leftarrow> Ctl_SetPolicyDataOn (sW E slotId) enable c;
                 Some ((if ok then SET_SUCCESS else SET_FAILED, V_none), c') }) s"

definition Service_ClearAllConnections ::
  "'db svc_env \<Rightarrow> int \<Rightarrow> DisConnectionReason \<Rightarrow> 'db service \<Rightarrow> (reply \<times> 'db service) outcome" where
  "Service_ClearAllConnections E slotId reason s =
     (if \<not> CheckPermission E SET_TELEPHONY_STATE then Some ((sCode E PERMISSION_ERR, V_none), s)
      else call_controller slotId (sCode E INVALID_PARAM, V_none)
             (\<lambda>c. do { (ok, c') \<leftarrow> Ctl_ClearAllConnections (sW E slotId) reason c;
                       Some ((if ok then REQUEST_SUCCESS else REQUEST_FAILED, V_none), c') }) s)"

definition Service_ChangeConnectionForDsds ::
  "'db svc_env \<Rightarrow> int \<Rightarrow> bool \<Rightarrow> 'db service \<Rightarrow> (reply \<times> 'db service) outcome" where
  "Service_ChangeConnectionForDsds E slotId enable s =
     call_controller slotId (sCode E INVALID_PARAM, V_none)
       (\<lambda>c. do { (ok, c') \<leftarrow> Ctl_ChangeConnectionForDsds (sW E slotId) enable c;
                 Some ((if ok then REQUEST_SUCCESS else REQUEST_FAILED, V_none), c') }) s"

definition Service_IsNeedDoRecovery ::
  "'db svc_env \<Rightarrow> int \<Rightarrow> bool \<Rightarrow> 'db service \<Rightarrow> (reply \<times> 'db service) outcome" where
  "Service_IsNeedDoRecovery E slotId needDoRecovery s =
     (if \<not> CheckPermission E SET_TELEPHONY_STATE then Some ((sCode E PERMISSION_ERR, V_none), s)
      else call_controller slotId (sCode E INVALID_PARAM, V_none)
             (\<lambda>c. Some ((svc_code E TELEPHONY_ERR_SUCCESS, V_none), Ctl_IsNeedDoRecovery (sW E slotId) needDoRecovery c)) s)"

text \<open>Only the virtual slot may be added after the start, and with two capabilities only.\<close>

definition InitCellularDataController :: "'db svc_env \<Rightarrow> int \<Rightarrow> 'db service \<Rightarrow> (reply \<times> 'db service) outcome" where
  "InitCellularDataController E slotId s =
     (if \<not> CheckPermission E SET_TELEPHONY_STATE then Some ((sCode E PERMISSION_ERR, V_none), s)
      else if slotId \<noteq> CELLULAR_DATA_VSIM_SLOT_ID then Some ((sCode E INVALID_PARAM, V_none), s)
      else do {
        s' \<leftarrow> Service_AddNetSupplier E slotId
                (map (NC (svc_platform E)) [NET_CAPABILITY_INTERNET, NET_CAPABILITY_INTERNAL_DEFAULT]) s;
        Some ((svc_code E TELEPHONY_ERR_SUCCESS, V_none), s')
      })"

definition Service_EstablishAllApnsIfConnectable ::
  "'db svc_env \<Rightarrow> int \<Rightarrow> 'db service \<Rightarrow> (reply \<times> 'db service) outcome" where
  "Service_EstablishAllApnsIfConnectable E slotId s =
     (if \<not> CheckPermission E SET_TELEPHONY_STATE then Some ((sCode E PERMISSION_ERR, V_none), s)
      else call_controller slotId (sCode E INVALID_PARAM, V_none)
             (\<lambda>c. if \<not> HasSimCard (wE (sW E slotId)) slotId then Some ((sCode E NO_SIM_CARD, V_none), c)
                  else if \<not> IsSimActive (wE (sW E slotId)) slotId
                  then Some ((svc_code E TELEPHONY_ERR_SLOTID_INVALID, V_none), c)
                  else case Ctl_EstablishAllApnsIfConnectable c of (ok, c') \<Rightarrow>
                    Some ((if ok then svc_code E TELEPHONY_ERR_SUCCESS else sCode E ERR_FAIL, V_none), c')) s)"

text \<open>A connected default role keeps its supplier available.\<close>

definition CorrectNetSupplierNoAvailable ::
  "'db svc_env \<Rightarrow> int \<Rightarrow> 'db service \<Rightarrow> (reply \<times> 'db service) outcome" where
  "CorrectNetSupplierNoAvailable E slotId s =
     (if \<not> CheckPermission E SET_TELEPHONY_STATE then Some ((sCode E PERMISSION_ERR, V_none), s)
      else call_controller slotId (sCode E INVALID_PARAM, V_none)
             (\<lambda>c. if Ctl_GetCellularDataState_type DATA_CONTEXT_ROLE_DEFAULT c = PROFILE_STATE_CONNECTED
                  then Some ((sCode E ERR_FAIL, V_none), c)
                  else case Ctl_UpdateNetworkInfo c of (ok, c') \<Rightarrow>
                    Some ((if ok then svc_code E TELEPHONY_ERR_SUCCESS else sCode E ERR_FAIL, V_none), c')) s)"

section \<open>Net requests\<close>

text \<open>The identifier of a net request is the prefix and the SIM identifier; \<open>Some None\<close> when it is
  not of that form, and no result when \<open>std::stoi\<close> throws.\<close>

definition request_slot :: "platform \<Rightarrow> string \<Rightarrow> NetAgent \<Rightarrow> int option outcome" where
  "request_slot P ident ag =
     (if length ident < length IDENT_PREFIX then Some None
      else let requestIdent = drop (length IDENT_PREFIX) ident
           in if \<not> IsValidDecValue P requestIdent then Some None
              else do { simId \<leftarrow> stoi requestIdent; Some (Some (GetSlotId simId ag)) })"

definition Service_ReleaseNet :: "'db svc_env \<Rightarrow> NetRequest \<Rightarrow> 'db service \<Rightarrow> (reply \<times> 'db service) outcome" where
  "Service_ReleaseNet E request s = do {
     slot \<leftarrow> request_slot (svc_platform E) (nr_ident request) (sv_agent s);
     case slot of
       None \<Rightarrow> Some ((sCode E INVALID_PARAM, V_none), s)
     | Some slotId \<Rightarrow> call_controller slotId (sCode E INVALID_PARAM, V_none)
         (\<lambda>c. case Ctl_ReleaseNet (sW E slotId) request c of (ok, c') \<Rightarrow>
            Some ((if ok then REQUEST_SUCCESS else REQUEST_FAILED, V_none), c')) s
   }"

definition Service_RequestNet :: "'db svc_env \<Rightarrow> NetRequest \<Rightarrow> 'db service \<Rightarrow> (reply \<times> 'db service) outcome" where
  "Service_RequestNet E request s = do {
     slot \<leftarrow> request_slot (svc_platform E) (nr_ident request) (sv_agent s);
     case slot of
       None \<Rightarrow> Some ((sCode E INVALID_PARAM, V_none), s)
     | Some slotId \<Rightarrow> call_controller slotId (sCode E INVALID_PARAM, V_none)
         (\<lambda>c. case Ctl_RequestNet (sW E slotId) request c of (ok, c') \<Rightarrow>
            Some ((if ok then REQUEST_SUCCESS else REQUEST_FAILED, V_none), c')) s
   }"

section \<open>Suppliers\<close>

text \<open>The identifier is \<open>uint32_t\<close>.\<close>

definition GetCellularDataSupplierId :: "'db svc_env \<Rightarrow> int \<Rightarrow> nat \<Rightarrow> 'db service \<Rightarrow> reply" where
  "GetCellularDataSupplierId E slotId cap s =
     (if \<not> CheckPermission E GET_TELEPHONY_STATE then (sCode E PERMISSION_ERR, V_none)
      else if cap < NC (svc_platform E) NET_CAPABILITY_MMS \<or> cap > NC (svc_platform E) NET_CAPABILITY_SNSSAI6
      then (sCode E INVALID_PARAM, V_none)
      else (svc_code E TELEPHONY_ERR_SUCCESS, V_int (GetSupplierId slotId cap (sv_agent s) mod 2 ^ 32)))"

definition GetSupplierRegisterState :: "'db svc_env \<Rightarrow> int \<Rightarrow> 'db service \<Rightarrow> reply" where
  "GetSupplierRegisterState E supplierId s =
     (if \<not> CheckPermission E GET_TELEPHONY_STATE then (sCode E PERMISSION_ERR, V_none)
      else case GetSupplierRegState supplierId (sv_agent s) of
             Some regState \<Rightarrow> (svc_code E TELEPHONY_ERR_SUCCESS, V_int regState)
           | None \<Rightarrow> (sCode E ERR_FAIL, V_none))"

section \<open>Access points\<close>

text \<open>The lists are appended to what the caller passed.\<close>

definition QueryApnIds :: "'db svc_env \<Rightarrow> ApnInfo \<Rightarrow> int list \<Rightarrow> reply" where
  "QueryApnIds E info given =
     (if \<not> CheckPermission E MANAGE_APN_SETTING then (sCode E PERMISSION_ERR, V_none)
      else (0, V_ids (Rdb_QueryApnIds (svc_platform E) (sR E) (wE (sW E 0)) info given)))"

definition SetPreferApn :: "'db svc_env \<Rightarrow> int \<Rightarrow> reply" where
  "SetPreferApn E apnId =
     (if \<not> CheckPermission E MANAGE_APN_SETTING then (sCode E PERMISSION_ERR, V_none)
      else (Rdb_SetPreferApn (svc_platform E) (sR E) (wE (sW E 0)) apnId, V_none))"

definition QueryAllApnInfo :: "'db svc_env \<Rightarrow> ApnInfo list \<Rightarrow> reply" where
  "QueryAllApnInfo E given =
     (if \<not> CheckPermission E MANAGE_APN_SETTING then (sCode E PERMISSION_ERR, V_none)
      else (0, V_infos (Rdb_QueryAllApnInfo (svc_platform E) (sR E) (wE (sW E 0)) given)))"

section \<open>Requests passed to the core service\<close>

text \<open>The buffers are lists of bytes. The definition is shared by the five requests of the slice.\<close>

definition send_to_core :: "'db svc_env \<Rightarrow> core_request \<Rightarrow> 'db service \<Rightarrow> reply \<times> 'db service" where
  "send_to_core E r s = ((coreResult E r, V_none), sv_emit [Core r] s)"

definition guarded_to_core :: "'db svc_env \<Rightarrow> core_request \<Rightarrow> 'db service \<Rightarrow> reply \<times> 'db service" where
  "guarded_to_core E r s =
     (if \<not> CheckPermission E GET_NETWORK_INFO then ((sCode E PERMISSION_ERR, V_none), s) else send_to_core E r s)"

definition Service_SendUrspDecodeResult :: "'db svc_env \<Rightarrow> int \<Rightarrow> nat list \<Rightarrow> 'db service \<Rightarrow> reply \<times> 'db service" where
  "Service_SendUrspDecodeResult E slotId buffer = guarded_to_core E (Core_SendUrspDecodeResult slotId buffer)"

definition Service_SendUePolicySectionIdentifier ::
  "'db svc_env \<Rightarrow> int \<Rightarrow> nat list \<Rightarrow> 'db service \<Rightarrow> reply \<times> 'db service" where
  "Service_SendUePolicySectionIdentifier E slotId buffer =
     guarded_to_core E (Core_SendUePolicySectionIdentifier slotId buffer)"

definition Service_SendImsRsdList :: "'db svc_env \<Rightarrow> int \<Rightarrow> nat list \<Rightarrow> 'db service \<Rightarrow> reply \<times> 'db service" where
  "Service_SendImsRsdList E slotId buffer = guarded_to_core E (Core_SendImsRsdList slotId buffer)"

definition Service_GetNetworkSliceAllowedNssai ::
  "'db svc_env \<Rightarrow> int \<Rightarrow> nat list \<Rightarrow> 'db service \<Rightarrow> reply \<times> 'db service" where
  "Service_GetNetworkSliceAllowedNssai E slotId buffer =
     guarded_to_core E (Core_GetNetworkSliceAllowedNssai slotId buffer)"

definition Service_GetNetworkSliceEhplmn :: "'db svc_env \<Rightarrow> int \<Rightarrow> 'db service \<Rightarrow> reply \<times> 'db service" where
  "Service_GetNetworkSliceEhplmn E slotId = guarded_to_core E (Core_GetNetworkSliceEhplmn slotId)"

definition Service_RegisterSimAccountCallback :: "'db svc_env \<Rightarrow> nat \<Rightarrow> 'db service \<Rightarrow> reply \<times> 'db service" where
  "Service_RegisterSimAccountCallback E callback = 
     send_to_core E (Core_RegisterSimAccountCallback (GetTokenID E) callback)"

definition Service_UnregisterSimAccountCallback :: "'db svc_env \<Rightarrow> nat \<Rightarrow> 'db service \<Rightarrow> reply \<times> 'db service" where
  "Service_UnregisterSimAccountCallback E callback = send_to_core E (Core_UnregisterSimAccountCallback callback)"

section \<open>The interface\<close>

text \<open>The requests of \<open>ICellularDataManager\<close>, with the in-parameters and the value that the caller's
  out-parameter has.\<close>

datatype svc_request =
    Rq_GetIntelligenceSwitchState bool
  | Rq_IsCellularDataEnabled bool
  | Rq_EnableCellularData bool
  | Rq_EnableIntelligenceSwitch bool
  | Rq_IsCellularDataRoamingEnabled int bool
  | Rq_EnableCellularDataRoaming int bool
  | Rq_GetCellularDataState
  | Rq_GetApnState int string
  | Rq_GetDataRecoveryState int
  | Rq_GetCellularDataFlowType
  | Rq_HasInternetCapability int int
  | Rq_GetDataConnApnAttr int
  | Rq_GetDataConnIpType int
  | Rq_GetIfSupportDunApn
  | Rq_GetDefaultActReportInfo int ApnActivateReportInfo
  | Rq_GetInternalActReportInfo int ApnActivateReportInfo
  | Rq_GetActiveApnName
  | Rq_GetDefaultCellularDataSlotId
  | Rq_GetDefaultCellularDataSimId
  | Rq_SetDefaultCellularDataSlotId int
  | Rq_HandleApnChanged int
  | Rq_ClearAllConnections int DisConnectionReason
  | Rq_IsNeedDoRecovery int bool
  | Rq_InitCellularDataController int
  | Rq_EstablishAllApnsIfConnectable int
  | Rq_CorrectNetSupplierNoAvailable int
  | Rq_GetCellularDataSupplierId int nat
  | Rq_GetSupplierRegisterState int
  | Rq_QueryApnIds ApnInfo "int list"
  | Rq_SetPreferApn int
  | Rq_QueryAllApnInfo "ApnInfo list"
  | Rq_SendUrspDecodeResult int "nat list"
  | Rq_SendUePolicySectionIdentifier int "nat list"
  | Rq_SendImsRsdList int "nat list"
  | Rq_GetNetworkSliceAllowedNssai int "nat list"
  | Rq_GetNetworkSliceEhplmn int
  | Rq_RegisterSimAccountCallback nat
  | Rq_UnregisterSimAccountCallback nat

fun serve :: "'db svc_env \<Rightarrow> svc_request \<Rightarrow> 'db service \<Rightarrow> (reply \<times> 'db service) outcome" where
  "serve E (Rq_GetIntelligenceSwitchState v) s = Service_GetIntelligenceSwitchState E v s"
| "serve E (Rq_IsCellularDataEnabled v) s = Service_IsCellularDataEnabled E v s"
| "serve E (Rq_EnableCellularData b) s = EnableCellularData E b s"
| "serve E (Rq_EnableIntelligenceSwitch b) s = EnableIntelligenceSwitch E b s"
| "serve E (Rq_IsCellularDataRoamingEnabled i v) s = Service_IsCellularDataRoamingEnabled E i v s"
| "serve E (Rq_EnableCellularDataRoaming i b) s = EnableCellularDataRoaming E i b s"
| "serve E Rq_GetCellularDataState s = Some (Service_GetCellularDataState E s, s)"
| "serve E (Rq_GetApnState i ty) s = Some (GetApnState E i ty s, s)"
| "serve E (Rq_GetDataRecoveryState v) s = Some (Service_GetDataRecoveryState E v s, s)"
| "serve E Rq_GetCellularDataFlowType s = Some (Service_GetCellularDataFlowType E s, s)"
| "serve E (Rq_HasInternetCapability i cid) s = Some (Service_HasInternetCapability E i cid s, s)"
| "serve E (Rq_GetDataConnApnAttr i) s = Some (Service_GetDataConnApnAttr E i s, s)"
| "serve E (Rq_GetDataConnIpType i) s = Some (Service_GetDataConnIpType E i s, s)"
| "serve E Rq_GetIfSupportDunApn s = do { r \<leftarrow> Service_GetIfSupportDunApn E s; Some (r, s) }"
| "serve E (Rq_GetDefaultActReportInfo i v) s = Service_GetDefaultActReportInfo E i v s"
| "serve E (Rq_GetInternalActReportInfo i v) s = Service_GetInternalActReportInfo E i v s"
| "serve E Rq_GetActiveApnName s = Some (GetActiveApnName E s, s)"
| "serve E Rq_GetDefaultCellularDataSlotId s = Some (Service_GetDefaultCellularDataSlotId E, s)"
| "serve E Rq_GetDefaultCellularDataSimId s = Some (Service_GetDefaultCellularDataSimId E, s)"
| "serve E (Rq_SetDefaultCellularDataSlotId i) s = Some (Service_SetDefaultCellularDataSlotId E i s)"
| "serve E (Rq_HandleApnChanged i) s = Service_HandleApnChanged E i s"
| "serve E (Rq_ClearAllConnections i r) s = Service_ClearAllConnections E i r s"
| "serve E (Rq_IsNeedDoRecovery i b) s = Service_IsNeedDoRecovery E i b s"
| "serve E (Rq_InitCellularDataController i) s = InitCellularDataController E i s"
| "serve E (Rq_EstablishAllApnsIfConnectable i) s = Service_EstablishAllApnsIfConnectable E i s"
| "serve E (Rq_CorrectNetSupplierNoAvailable i) s = CorrectNetSupplierNoAvailable E i s"
| "serve E (Rq_GetCellularDataSupplierId i cap) s = Some (GetCellularDataSupplierId E i cap s, s)"
| "serve E (Rq_GetSupplierRegisterState i) s = Some (GetSupplierRegisterState E i s, s)"
| "serve E (Rq_QueryApnIds info v) s = Some (QueryApnIds E info v, s)"
| "serve E (Rq_SetPreferApn i) s = Some (SetPreferApn E i, s)"
| "serve E (Rq_QueryAllApnInfo v) s = Some (QueryAllApnInfo E v, s)"
| "serve E (Rq_SendUrspDecodeResult i b) s = Some (Service_SendUrspDecodeResult E i b s)"
| "serve E (Rq_SendUePolicySectionIdentifier i b) s = Some (Service_SendUePolicySectionIdentifier E i b s)"
| "serve E (Rq_SendImsRsdList i b) s = Some (Service_SendImsRsdList E i b s)"
| "serve E (Rq_GetNetworkSliceAllowedNssai i b) s = Some (Service_GetNetworkSliceAllowedNssai E i b s)"
| "serve E (Rq_GetNetworkSliceEhplmn i) s = Some (Service_GetNetworkSliceEhplmn E i s)"
| "serve E (Rq_RegisterSimAccountCallback k) s = Some (Service_RegisterSimAccountCallback E k s)"
| "serve E (Rq_UnregisterSimAccountCallback k) s = Some (Service_UnregisterSimAccountCallback E k s)"

end
