(* ===== verification/Data_Client.thy ===== *)
theory Data_Client
  imports Service_Requests
begin

text \<open>
  The native client (\<open>frameworks/native/cellular_data_client.cpp\<close>,
  \<open>data_sim_account_callback.cpp\<close>): it connects to the service, registers a callback for changes
  of the SIM accounts, keeps the default slot and SIM identifier in two static members, and passes
  every other request on. The proxy is generated from the interface description; it is the parameter
  \<open>ipc\<close>, which answers a request with the code, what it leaves in the out-parameter, and the new state
  of the other side. A local variable that is read without having been written is the argument
  \<open>junk\<close>.
\<close>

section \<open>State and environment\<close>

record 'w client_env =
  smAvailable :: bool
  abilityPublished :: bool
  isProxyObject :: bool
  addDeathRecipient :: bool
  castOk :: bool
  ipc :: "svc_request \<Rightarrow> 'w \<Rightarrow> reply \<times> 'w"
  ERR_SUCCESS :: int
  ERR_IPC_CONNECT_STUB_FAIL :: int
  INVALID_MAIN_CARD_SLOTID :: int
  FIRST_SLOT :: int
  SLOT_COUNT :: int

text \<open>The object and its static members; a pointer is whether it is set.\<close>

record client =
  cl_proxy :: bool
  cl_deathRecipient :: bool
  cl_registerStatus :: bool
  defaultCellularDataSlotId :: int
  defaultCellularDataSimId :: int

definition new_client :: "'w client_env \<Rightarrow> client" where
  "new_client C = \<lparr>cl_proxy = False, cl_deathRecipient = False, cl_registerStatus = False,
     defaultCellularDataSlotId = INVALID_MAIN_CARD_SLOTID C, defaultCellularDataSimId = 0\<rparr>"

type_synonym 'w client_state = "client \<times> 'w"

text \<open>The callback that the client registers.\<close>

abbreviation (input) "CLIENT_CALLBACK \<equiv> (0::nat)"

definition IsValidSlotId :: "'w client_env \<Rightarrow> int \<Rightarrow> bool" where
  "IsValidSlotId C slotId \<longleftrightarrow> FIRST_SLOT C \<le> slotId \<and> slotId < SLOT_COUNT C"

section \<open>Connection\<close>

definition IsCellularDataSysAbilityExist :: "'w client_env \<Rightarrow> bool" where
  "IsCellularDataSysAbilityExist C = (if \<not> smAvailable C then False else abilityPublished C)"

definition GetProxy :: "'w client_env \<Rightarrow> client \<Rightarrow> bool \<times> client" where
  "GetProxy C c =
     (if cl_proxy c then (True, c)
      else if \<not> IsCellularDataSysAbilityExist C then (False, c)
      else if isProxyObject C \<and> \<not> addDeathRecipient C then (False, c)
      else let c1 = c \<lparr>cl_proxy := castOk C, cl_deathRecipient := True\<rparr> in (cl_proxy c1, c1))"

definition IsConnect :: "'w client_env \<Rightarrow> client \<Rightarrow> bool \<times> client" where
  "IsConnect C c = GetProxy C c"

text \<open>The notice that a remote object died: \<open>None\<close> for null, else whether it is the connected one.\<close>

definition OnRemoteDied :: "'w client_env \<Rightarrow> bool option \<Rightarrow> client \<Rightarrow> client" where
  "OnRemoteDied C remote c = (case remote of
     None \<Rightarrow> c
   | Some same \<Rightarrow> if \<not> cl_proxy c then c
       else if same then c \<lparr>cl_proxy := False, defaultCellularDataSlotId := INVALID_MAIN_CARD_SLOTID C,
              defaultCellularDataSimId := 0, cl_registerStatus := False\<rparr>
       else c)"

text \<open>The pattern of every wrapper: without a connection the error, else the proxy's answer.\<close>

definition client_call :: "'w client_env \<Rightarrow> svc_request \<Rightarrow> 'w client_state \<Rightarrow> reply \<times> 'w client_state" where
  "client_call C rq s = (case s of (c, w) \<Rightarrow> case GetProxy C c of
     (False, c1) \<Rightarrow> ((ERR_IPC_CONNECT_STUB_FAIL C, V_none), (c1, w))
   | (True, c1) \<Rightarrow> (case ipc C rq w of (r, w1) \<Rightarrow> (r, (c1, w1))))"

definition client_code :: "'w client_env \<Rightarrow> svc_request \<Rightarrow> 'w client_state \<Rightarrow> int \<times> 'w client_state" where
  "client_code C rq s = (case client_call C rq s of ((code, v), t) \<Rightarrow> (code, t))"

text \<open>What a variable holds after the call.\<close>

fun out_int :: "svc_value \<Rightarrow> int \<Rightarrow> int" where
  "out_int (V_int i) given = i"
| "out_int _ given = given"

text \<open>The wrappers that return the value of the out-parameter when the code is success.\<close>

definition client_int :: "'w client_env \<Rightarrow> svc_request \<Rightarrow> int \<Rightarrow> 'w client_state \<Rightarrow> int \<times> 'w client_state" where
  "client_int C rq junk s = (case client_call C rq s of ((code, v), t) \<Rightarrow>
     (if fst (GetProxy C (fst s)) \<and> code = ERR_SUCCESS C then out_int v junk else code, t))"

section \<open>The callback and the default slot\<close>

definition Client_RegisterSimAccountCallback :: "'w client_env \<Rightarrow> 'w client_state \<Rightarrow> 'w client_state" where
  "Client_RegisterSimAccountCallback C s =
     (if cl_registerStatus (fst s) then s
      else case GetProxy C (fst s) of
        (False, c1) \<Rightarrow> (c1, snd s)
      | (True, c1) \<Rightarrow> (case ipc C (Rq_RegisterSimAccountCallback CLIENT_CALLBACK) (snd s) of
          ((ret, v), w1) \<Rightarrow> (if ret = ERR_SUCCESS C then c1 \<lparr>cl_registerStatus := True\<rparr> else c1, w1)))"

definition Client_UnregisterSimAccountCallback :: "'w client_env \<Rightarrow> 'w client_state \<Rightarrow> 'w client_state" where
  "Client_UnregisterSimAccountCallback C s =
     snd (client_call C (Rq_UnregisterSimAccountCallback CLIENT_CALLBACK) s)"

definition Client_GetDefaultCellularDataSlotId ::
  "'w client_env \<Rightarrow> int \<Rightarrow> 'w client_state \<Rightarrow> int \<times> 'w client_state" where
  "Client_GetDefaultCellularDataSlotId C junk s0 =
     (case Client_RegisterSimAccountCallback C s0 of (c, w) \<Rightarrow>
      if IsValidSlotId C (defaultCellularDataSlotId c) \<and> cl_registerStatus c
      then (defaultCellularDataSlotId c, (c, w))
      else case GetProxy C c of
        (False, c1) \<Rightarrow> (ERR_IPC_CONNECT_STUB_FAIL C, (c1, w))
      | (True, c1) \<Rightarrow> (case ipc C Rq_GetDefaultCellularDataSlotId w of ((ret, v), w1) \<Rightarrow>
          if ret \<noteq> ERR_SUCCESS C then (ret, (c1, w1))
          else let c2 = c1 \<lparr>defaultCellularDataSlotId := out_int v junk\<rparr>
               in (defaultCellularDataSlotId c2, (c2, w1))))"

text \<open>With an out-parameter: the code and what the caller's variable holds.\<close>

definition Client_GetDefaultCellularDataSimId ::
  "'w client_env \<Rightarrow> int \<Rightarrow> 'w client_state \<Rightarrow> (int \<times> int) \<times> 'w client_state" where
  "Client_GetDefaultCellularDataSimId C simId s0 =
     (case Client_RegisterSimAccountCallback C s0 of (c, w) \<Rightarrow>
      if defaultCellularDataSimId c > 0 then ((ERR_SUCCESS C, defaultCellularDataSimId c), (c, w))
      else case GetProxy C c of
        (False, c1) \<Rightarrow> ((ERR_IPC_CONNECT_STUB_FAIL C, simId), (c1, w))
      | (True, c1) \<Rightarrow> (case ipc C Rq_GetDefaultCellularDataSimId w of ((result, v), w1) \<Rightarrow>
          ((result, out_int v simId),
           (if result = ERR_SUCCESS C then c1 \<lparr>defaultCellularDataSimId := out_int v simId\<rparr> else c1, w1))))"

definition Client_SetDefaultCellularDataSlotId ::
  "'w client_env \<Rightarrow> int \<Rightarrow> 'w client_state \<Rightarrow> int \<times> 'w client_state" where
  "Client_SetDefaultCellularDataSlotId C slotId s0 =
     (case Client_RegisterSimAccountCallback C s0 of (c, w) \<Rightarrow> case GetProxy C c of
        (False, c1) \<Rightarrow> (ERR_IPC_CONNECT_STUB_FAIL C, (c1, w))
      | (True, c1) \<Rightarrow> (case ipc C (Rq_SetDefaultCellularDataSlotId slotId) w of ((result, v), w1) \<Rightarrow>
          if result \<noteq> ERR_SUCCESS C then (result, (c1, w1))
          else let c2 = c1 \<lparr>defaultCellularDataSlotId := slotId\<rparr>
               in case ipc C Rq_GetDefaultCellularDataSimId w1 of ((ret, v1), w2) \<Rightarrow>
                    (result, (if ret = ERR_SUCCESS C then c2 \<lparr>defaultCellularDataSimId := out_int v1 0\<rparr> else c2, w2))))"

definition UpdateDefaultCellularDataSlotId :: "'w client_env \<Rightarrow> 'w client_state \<Rightarrow> int \<times> 'w client_state" where
  "UpdateDefaultCellularDataSlotId C s =
     (let c = (fst s) \<lparr>defaultCellularDataSlotId := INVALID_MAIN_CARD_SLOTID C, defaultCellularDataSimId := 0\<rparr>
      in case GetProxy C c of
        (False, c1) \<Rightarrow> (ERR_IPC_CONNECT_STUB_FAIL C, (c1, snd s))
      | (True, c1) \<Rightarrow> (case ipc C Rq_GetDefaultCellularDataSlotId (snd s) of ((r, v), w1) \<Rightarrow>
          let c2 = c1 \<lparr>defaultCellularDataSlotId := out_int v (defaultCellularDataSlotId c1)\<rparr>
          in case ipc C Rq_GetDefaultCellularDataSimId w1 of ((r1, v1), w2) \<Rightarrow>
            let c3 = c2 \<lparr>defaultCellularDataSimId := out_int v1 (defaultCellularDataSimId c2)\<rparr>
            in (defaultCellularDataSlotId c3, (c3, w2))))"

definition OnSimAccountChanged :: "'w client_env \<Rightarrow> 'w client_state \<Rightarrow> 'w client_state" where
  "OnSimAccountChanged C s = snd (UpdateDefaultCellularDataSlotId C s)"

section \<open>Requests that return a value\<close>

definition Client_GetCellularDataState ::
  "'w client_env \<Rightarrow> int \<Rightarrow> 'w client_state \<Rightarrow> int \<times> 'w client_state" where
  "Client_GetCellularDataState C junk = client_int C (Rq_GetCellularDataState) junk"

definition Client_GetApnState ::
  "'w client_env \<Rightarrow> int \<Rightarrow> string \<Rightarrow> int \<Rightarrow> 'w client_state \<Rightarrow> int \<times> 'w client_state" where
  "Client_GetApnState C slotId ty junk = client_int C (Rq_GetApnState slotId ty) junk"

definition Client_GetDataRecoveryState ::
  "'w client_env \<Rightarrow> int \<Rightarrow> 'w client_state \<Rightarrow> int \<times> 'w client_state" where
  "Client_GetDataRecoveryState C junk = client_int C (Rq_GetDataRecoveryState junk) junk"

definition Client_GetCellularDataFlowType ::
  "'w client_env \<Rightarrow> int \<Rightarrow> 'w client_state \<Rightarrow> int \<times> 'w client_state" where
  "Client_GetCellularDataFlowType C junk = client_int C (Rq_GetCellularDataFlowType) junk"

definition Client_HasInternetCapability ::
  "'w client_env \<Rightarrow> int \<Rightarrow> int \<Rightarrow> int \<Rightarrow> 'w client_state \<Rightarrow> int \<times> 'w client_state" where
  "Client_HasInternetCapability C slotId cid junk = client_int C (Rq_HasInternetCapability slotId cid) junk"

section \<open>Requests that return the code\<close>

definition Client_EnableCellularData ::
  "'w client_env \<Rightarrow> bool \<Rightarrow> 'w client_state \<Rightarrow> int \<times> 'w client_state" where
  "Client_EnableCellularData C enable = client_code C (Rq_EnableCellularData enable)"

definition Client_EnableIntelligenceSwitch ::
  "'w client_env \<Rightarrow> bool \<Rightarrow> 'w client_state \<Rightarrow> int \<times> 'w client_state" where
  "Client_EnableIntelligenceSwitch C enable = client_code C (Rq_EnableIntelligenceSwitch enable)"

definition Client_EnableCellularDataRoaming ::
  "'w client_env \<Rightarrow> int \<Rightarrow> bool \<Rightarrow> 'w client_state \<Rightarrow> int \<times> 'w client_state" where
  "Client_EnableCellularDataRoaming C slotId enable = client_code C (Rq_EnableCellularDataRoaming slotId enable)"

definition Client_ClearAllConnections ::
  "'w client_env \<Rightarrow> int \<Rightarrow> DisConnectionReason \<Rightarrow> 'w client_state \<Rightarrow> int \<times> 'w client_state" where
  "Client_ClearAllConnections C slotId reason = client_code C (Rq_ClearAllConnections slotId reason)"

definition Client_HandleApnChanged ::
  "'w client_env \<Rightarrow> int \<Rightarrow> 'w client_state \<Rightarrow> int \<times> 'w client_state" where
  "Client_HandleApnChanged C slotId = client_code C (Rq_HandleApnChanged slotId)"

definition Client_IsNeedDoRecovery ::
  "'w client_env \<Rightarrow> int \<Rightarrow> bool \<Rightarrow> 'w client_state \<Rightarrow> int \<times> 'w client_state" where
  "Client_IsNeedDoRecovery C slotId needDoRecovery = client_code C (Rq_IsNeedDoRecovery slotId needDoRecovery)"

definition Client_InitCellularDataController ::
  "'w client_env \<Rightarrow> int \<Rightarrow> 'w client_state \<Rightarrow> int \<times> 'w client_state" where
  "Client_InitCellularDataController C slotId = client_code C (Rq_InitCellularDataController slotId)"

definition Client_EstablishAllApnsIfConnectable ::
  "'w client_env \<Rightarrow> int \<Rightarrow> 'w client_state \<Rightarrow> int \<times> 'w client_state" where
  "Client_EstablishAllApnsIfConnectable C slotId = client_code C (Rq_EstablishAllApnsIfConnectable slotId)"

definition Client_CorrectNetSupplierNoAvailable ::
  "'w client_env \<Rightarrow> int \<Rightarrow> 'w client_state \<Rightarrow> int \<times> 'w client_state" where
  "Client_CorrectNetSupplierNoAvailable C slotId = client_code C (Rq_CorrectNetSupplierNoAvailable slotId)"

definition Client_SetPreferApn ::
  "'w client_env \<Rightarrow> int \<Rightarrow> 'w client_state \<Rightarrow> int \<times> 'w client_state" where
  "Client_SetPreferApn C apnId = client_code C (Rq_SetPreferApn apnId)"

definition Client_SendUrspDecodeResult ::
  "'w client_env \<Rightarrow> int \<Rightarrow> (nat list) \<Rightarrow> 'w client_state \<Rightarrow> int \<times> 'w client_state" where
  "Client_SendUrspDecodeResult C slotId buffer = client_code C (Rq_SendUrspDecodeResult slotId buffer)"

definition Client_SendUePolicySectionIdentifier ::
  "'w client_env \<Rightarrow> int \<Rightarrow> (nat list) \<Rightarrow> 'w client_state \<Rightarrow> int \<times> 'w client_state" where
  "Client_SendUePolicySectionIdentifier C slotId buffer = client_code C (Rq_SendUePolicySectionIdentifier slotId buffer)"

definition Client_SendImsRsdList ::
  "'w client_env \<Rightarrow> int \<Rightarrow> (nat list) \<Rightarrow> 'w client_state \<Rightarrow> int \<times> 'w client_state" where
  "Client_SendImsRsdList C slotId buffer = client_code C (Rq_SendImsRsdList slotId buffer)"

definition Client_GetNetworkSliceAllowedNssai ::
  "'w client_env \<Rightarrow> int \<Rightarrow> (nat list) \<Rightarrow> 'w client_state \<Rightarrow> int \<times> 'w client_state" where
  "Client_GetNetworkSliceAllowedNssai C slotId buffer = client_code C (Rq_GetNetworkSliceAllowedNssai slotId buffer)"

definition Client_GetNetworkSliceEhplmn ::
  "'w client_env \<Rightarrow> int \<Rightarrow> 'w client_state \<Rightarrow> int \<times> 'w client_state" where
  "Client_GetNetworkSliceEhplmn C slotId = client_code C (Rq_GetNetworkSliceEhplmn slotId)"

definition ClearCellularDataConnections ::
  "'w client_env \<Rightarrow> int \<Rightarrow> 'w client_state \<Rightarrow> int \<times> 'w client_state" where
  "ClearCellularDataConnections C slotId = Client_ClearAllConnections C slotId REASON_CLEAR_CONNECTION"

section \<open>Requests with an out-parameter of the caller\<close>

text \<open>The reference is passed to the proxy; the reply says what it is left with (\<open>V_none\<close>: as it was).\<close>

definition Client_IsCellularDataEnabled ::
  "'w client_env \<Rightarrow> bool \<Rightarrow> 'w client_state \<Rightarrow> reply \<times> 'w client_state" where
  "Client_IsCellularDataEnabled C dataEnabled = client_call C (Rq_IsCellularDataEnabled dataEnabled)"

definition Client_IsCellularDataRoamingEnabled ::
  "'w client_env \<Rightarrow> int \<Rightarrow> bool \<Rightarrow> 'w client_state \<Rightarrow> reply \<times> 'w client_state" where
  "Client_IsCellularDataRoamingEnabled C slotId dataRoamingEnabled = client_call C (Rq_IsCellularDataRoamingEnabled slotId dataRoamingEnabled)"

definition Client_GetIntelligenceSwitchState ::
  "'w client_env \<Rightarrow> bool \<Rightarrow> 'w client_state \<Rightarrow> reply \<times> 'w client_state" where
  "Client_GetIntelligenceSwitchState C switchState = client_call C (Rq_GetIntelligenceSwitchState switchState)"

definition Client_GetDataConnIpType ::
  "'w client_env \<Rightarrow> int \<Rightarrow> 'w client_state \<Rightarrow> reply \<times> 'w client_state" where
  "Client_GetDataConnIpType C slotId = client_call C (Rq_GetDataConnIpType slotId)"

definition Client_GetCellularDataSupplierId ::
  "'w client_env \<Rightarrow> int \<Rightarrow> nat \<Rightarrow> 'w client_state \<Rightarrow> reply \<times> 'w client_state" where
  "Client_GetCellularDataSupplierId C slotId cap = client_call C (Rq_GetCellularDataSupplierId slotId cap)"

definition Client_GetSupplierRegisterState ::
  "'w client_env \<Rightarrow> int \<Rightarrow> 'w client_state \<Rightarrow> reply \<times> 'w client_state" where
  "Client_GetSupplierRegisterState C supplierId = client_call C (Rq_GetSupplierRegisterState supplierId)"

definition Client_GetIfSupportDunApn ::
  "'w client_env \<Rightarrow> 'w client_state \<Rightarrow> reply \<times> 'w client_state" where
  "Client_GetIfSupportDunApn C = client_call C (Rq_GetIfSupportDunApn)"

definition Client_QueryApnIds ::
  "'w client_env \<Rightarrow> ApnInfo \<Rightarrow> (int list) \<Rightarrow> 'w client_state \<Rightarrow> reply \<times> 'w client_state" where
  "Client_QueryApnIds C apnInfo apnIdList = client_call C (Rq_QueryApnIds apnInfo apnIdList)"

definition Client_QueryAllApnInfo ::
  "'w client_env \<Rightarrow> (ApnInfo list) \<Rightarrow> 'w client_state \<Rightarrow> reply \<times> 'w client_state" where
  "Client_QueryAllApnInfo C apnInfoList = client_call C (Rq_QueryAllApnInfo apnInfoList)"

definition Client_GetActiveApnName ::
  "'w client_env \<Rightarrow> 'w client_state \<Rightarrow> reply \<times> 'w client_state" where
  "Client_GetActiveApnName C = client_call C (Rq_GetActiveApnName)"

text \<open>The attributes are copied to a record before the call and back after it, whatever the code.\<close>

definition Client_GetDataConnApnAttr ::
  "'w client_env \<Rightarrow> int \<Rightarrow> attr_arrays \<Rightarrow> 'w client_state \<Rightarrow> (int \<times> attr_arrays) \<times> 'w client_state" where
  "Client_GetDataConnApnAttr C slotId apnAttr s = (case s of (c, w) \<Rightarrow> case GetProxy C c of
     (False, c1) \<Rightarrow> ((ERR_IPC_CONNECT_STUB_FAIL C, apnAttr), (c1, w))
   | (True, c1) \<Rightarrow> (case ipc C (Rq_GetDataConnApnAttr slotId) w of ((ret, v), w1) \<Rightarrow>
       let apnAfterTrans = (case v of V_attr a \<Rightarrow> a | _ \<Rightarrow> TransferApnAttributeBeforeIpc apnAttr)
       in ((ret, TransferApnAttributeAfterIpc apnAfterTrans apnAttr), (c1, w1))))"

definition client_report ::
  "'w client_env \<Rightarrow> svc_request \<Rightarrow> ApnActivateReportInfo \<Rightarrow> 'w client_state
     \<Rightarrow> (int \<times> ApnActivateReportInfo) \<times> 'w client_state" where
  "client_report C rq info s = (case client_call C rq s of ((ret, v), t) \<Rightarrow>
     ((ret, case v of V_report i \<Rightarrow> i | _ \<Rightarrow> info), t))"

definition Client_GetDefaultActReportInfo ::
  "'w client_env \<Rightarrow> int \<Rightarrow> ApnActivateReportInfo \<Rightarrow> 'w client_state \<Rightarrow> (int \<times> ApnActivateReportInfo) \<times> 'w client_state" where
  "Client_GetDefaultActReportInfo C slotId info = client_report C (Rq_GetDefaultActReportInfo slotId info) info"

definition Client_GetInternalActReportInfo ::
  "'w client_env \<Rightarrow> int \<Rightarrow> ApnActivateReportInfo \<Rightarrow> 'w client_state \<Rightarrow> (int \<times> ApnActivateReportInfo) \<times> 'w client_state" where
  "Client_GetInternalActReportInfo C slotId info = client_report C (Rq_GetInternalActReportInfo slotId info) info"

section \<open>The end of the client\<close>

text \<open>Whether the death recipient is taken off; \<open>asObject\<close> says whether the proxy has a remote object.\<close>

definition RemoveDeathRecipient :: "'w client_env \<Rightarrow> bool \<Rightarrow> client \<Rightarrow> bool \<times> client" where
  "RemoveDeathRecipient C asObject c = (case GetProxy C c of
     (False, c1) \<Rightarrow> (False, c1)
   | (True, c1) \<Rightarrow> (asObject \<and> cl_deathRecipient c1, c1))"

definition Client_destroy :: "'w client_env \<Rightarrow> bool \<Rightarrow> 'w client_state \<Rightarrow> bool \<times> 'w client_state" where
  "Client_destroy C asObject s0 =
     (case Client_UnregisterSimAccountCallback C s0 of (c, w) \<Rightarrow>
      case RemoveDeathRecipient C asObject c of (removed, c1) \<Rightarrow> (removed, (c1, w)))"

section \<open>The transport of the callback\<close>

text \<open>The service calls the proxy of the callback, the process of the client receives the request in the
  stub (\<open>sim_account_callback_proxy.cpp\<close>, \<open>sim_account_callback_stub.cpp\<close>). The parcel is a parameter:
  writing the token of an interface, absent when it fails, and reading it back. The proxy yields the
  code and the data of the request that it sends, if it sends one.\<close>

record 'p token_parcel =
  WriteInterfaceToken :: "string \<Rightarrow> 'p option"
  ReadInterfaceToken :: "'p \<Rightarrow> string"

definition Proxy_OnSimAccountChanged :: "'p token_parcel \<Rightarrow> string \<Rightarrow> bool \<Rightarrow> (nat \<times> 'p) option" where
  "Proxy_OnSimAccountChanged A descriptor hasRemote =
     (case WriteInterfaceToken A descriptor of
        None \<Rightarrow> None
      | Some data \<Rightarrow> if \<not> hasRemote then None else Some (0, data))"

definition Stub_OnRemoteRequest ::
  "'p token_parcel \<Rightarrow> string \<Rightarrow> int \<Rightarrow> 'w client_env \<Rightarrow> nat \<Rightarrow> 'p \<Rightarrow> 'w client_state \<Rightarrow> int \<times> 'w client_state" where
  "Stub_OnRemoteRequest A descriptor mismatch C code data s =
     (if ReadInterfaceToken A data \<noteq> descriptor then (mismatch, s)
      else (ERR_SUCCESS C, OnSimAccountChanged C s))"

lemma callback_transport:
  assumes "Proxy_OnSimAccountChanged A d True = Some (code, data)"
    and "\<And>t p. WriteInterfaceToken A t = Some p \<Longrightarrow> ReadInterfaceToken A p = t"
  shows "Stub_OnRemoteRequest A d mismatch C code data s = (ERR_SUCCESS C, OnSimAccountChanged C s)"
    and "d' \<noteq> d \<Longrightarrow> Stub_OnRemoteRequest A d' mismatch C code data s = (mismatch, s)"
  using assms by (auto simp: Proxy_OnSimAccountChanged_def Stub_OnRemoteRequest_def split: option.splits)

end
