(* ===== verification/Client_Cache.thy ===== *)
theory Client_Cache
  imports Data_Client
begin

text \<open>
  The default slot that the native client keeps: when it is the one of the service, and when it is
  not. The service is described by two functions of its state, the default slot and whether the
  client's callback is registered; \<open>sim_service_ok\<close> says what the client relies on. The run of the two
  is the step relation \<open>cl_step\<close>; its last component says whether a call of the callback is still
  under way.
\<close>

section \<open>The other side\<close>

definition sim_service_ok :: "'w client_env \<Rightarrow> ('w \<Rightarrow> int) \<Rightarrow> ('w \<Rightarrow> bool) \<Rightarrow> bool" where
  "sim_service_ok C slot reg \<longleftrightarrow>
     (\<forall>k w r v w'. ipc C (Rq_RegisterSimAccountCallback k) w = ((r, v), w')
        \<longrightarrow> slot w' = slot w \<and> reg w' = (reg w \<or> r = ERR_SUCCESS C))
   \<and> (\<forall>w r v w'. ipc C Rq_GetDefaultCellularDataSlotId w = ((r, v), w')
        \<longrightarrow> slot w' = slot w \<and> reg w' = reg w \<and> v = (if r = ERR_SUCCESS C then V_int (slot w) else V_none))
   \<and> (\<forall>w r v w'. ipc C Rq_GetDefaultCellularDataSimId w = ((r, v), w') \<longrightarrow> slot w' = slot w \<and> reg w' = reg w)
   \<and> (\<forall>i w r v w'. ipc C (Rq_SetDefaultCellularDataSlotId i) w = ((r, v), w')
        \<longrightarrow> slot w' = (if r = ERR_SUCCESS C then i else slot w) \<and> reg w' = reg w)
   \<and> \<not> IsValidSlotId C (INVALID_MAIN_CARD_SLOTID C)"

text \<open>The service never refuses to register the callback.\<close>

definition accepts :: "'w client_env \<Rightarrow> bool" where
  "accepts C \<longleftrightarrow> (\<forall>k w. fst (fst (ipc C (Rq_RegisterSimAccountCallback k) w)) = ERR_SUCCESS C)"

text \<open>Whether the service can be reached may change between calls.\<close>

definition reachable_as :: "'w client_env \<Rightarrow> 'w client_env \<Rightarrow> bool" where
  "reachable_as C D \<longleftrightarrow> (\<exists>a b p d k. D = C \<lparr>smAvailable := a, abilityPublished := b, isProxyObject := p,
     addDeathRecipient := d, castOk := k\<rparr>)"

type_synonym 'w run = "'w client_state \<times> bool"

inductive cl_step :: "'w client_env \<Rightarrow> ('w \<Rightarrow> int) \<Rightarrow> ('w \<Rightarrow> bool) \<Rightarrow> 'w run \<Rightarrow> 'w run \<Rightarrow> bool" for C slot reg where
  get_slot: "reachable_as C D \<Longrightarrow> Client_GetDefaultCellularDataSlotId D junk s = (r, s') \<Longrightarrow> cl_step C slot reg (s, p) (s', p)"
| get_sim: "reachable_as C D \<Longrightarrow> Client_GetDefaultCellularDataSimId D i s = (r, s') \<Longrightarrow> cl_step C slot reg (s, p) (s', p)"
| set_slot: "reachable_as C D \<Longrightarrow> Client_SetDefaultCellularDataSlotId D i s = (r, s') \<Longrightarrow>
    cl_step C slot reg (s, p) (s', p \<or> (notify \<and> reg (snd s')))"
| changed: "reg w' = reg w \<Longrightarrow> cl_step C slot reg ((c, w), p) ((c, w'), p \<or> reg w)"
| callback: "reachable_as C D \<Longrightarrow> OnSimAccountChanged D s = s' \<Longrightarrow> cl_step C slot reg (s, True) (s', False)"
| died: "\<not> reg w' \<Longrightarrow> cl_step C slot reg ((c, w), p) ((OnRemoteDied C (Some True) c, w'), False)"

inductive cl_reach :: "'w client_env \<Rightarrow> ('w \<Rightarrow> int) \<Rightarrow> ('w \<Rightarrow> bool) \<Rightarrow> 'w run \<Rightarrow> bool" for C slot reg where
  init: "\<not> reg w \<Longrightarrow> cl_reach C slot reg ((new_client C, w), False)"
| step: "cl_reach C slot reg x \<Longrightarrow> cl_step C slot reg x y \<Longrightarrow> cl_reach C slot reg y"

section \<open>The invariant\<close>

definition cache_ok :: "'w client_env \<Rightarrow> ('w \<Rightarrow> int) \<Rightarrow> ('w \<Rightarrow> bool) \<Rightarrow> 'w run \<Rightarrow> bool" where
  "cache_ok C slot reg x \<longleftrightarrow> (case x of ((c, w), p) \<Rightarrow>
     reg w = cl_registerStatus c \<and> (cl_registerStatus c \<longrightarrow> cl_proxy c) \<and> (p \<longrightarrow> reg w)
     \<and> (IsValidSlotId C (defaultCellularDataSlotId c) \<longrightarrow> cl_registerStatus c \<and> (p \<or> defaultCellularDataSlotId c = slot w)))"

lemma reachable_as_simps:
  assumes "reachable_as C D"
  shows "ipc D = ipc C" "ERR_SUCCESS D = ERR_SUCCESS C" "INVALID_MAIN_CARD_SLOTID D = INVALID_MAIN_CARD_SLOTID C"
    "IsValidSlotId D = IsValidSlotId C" "sim_service_ok D = sim_service_ok C" "accepts D = accepts C"
    "cache_ok D = cache_ok C"
proof -
  show r: "ipc D = ipc C" "ERR_SUCCESS D = ERR_SUCCESS C" "INVALID_MAIN_CARD_SLOTID D = INVALID_MAIN_CARD_SLOTID C"
    and v: "IsValidSlotId D = IsValidSlotId C"
    using assms by (auto simp: reachable_as_def IsValidSlotId_def fun_eq_iff)
  show "sim_service_ok D = sim_service_ok C" by (intro ext) (simp only: sim_service_ok_def r v)
  show "accepts D = accepts C" by (simp only: accepts_def r)
  show "cache_ok D = cache_ok C" by (intro ext) (simp only: cache_ok_def v)
qed

lemma GetProxy_keeps:
  assumes "GetProxy C c = (b, c')"
  shows "b = cl_proxy c'" "cl_registerStatus c' = cl_registerStatus c" "cl_proxy c \<Longrightarrow> c' = c"
    "defaultCellularDataSlotId c' = defaultCellularDataSlotId c" "fst (GetProxy C c') = b"
  using assms by (auto simp: GetProxy_def Let_def split: if_splits)

lemma sim_serviceD:
  assumes "sim_service_ok C slot reg"
  shows "ipc C (Rq_RegisterSimAccountCallback k) w = ((r, v), w') \<Longrightarrow>
      slot w' = slot w \<and> reg w' = (reg w \<or> r = ERR_SUCCESS C)"
    "ipc C Rq_GetDefaultCellularDataSlotId w = ((r, v), w') \<Longrightarrow>
      slot w' = slot w \<and> reg w' = reg w \<and> v = (if r = ERR_SUCCESS C then V_int (slot w) else V_none)"
    "ipc C Rq_GetDefaultCellularDataSimId w = ((r, v), w') \<Longrightarrow> slot w' = slot w \<and> reg w' = reg w"
    "ipc C (Rq_SetDefaultCellularDataSlotId i) w = ((r, v), w') \<Longrightarrow>
      slot w' = (if r = ERR_SUCCESS C then i else slot w) \<and> reg w' = reg w"
    "\<not> IsValidSlotId C (INVALID_MAIN_CARD_SLOTID C)"
  using assms unfolding sim_service_ok_def by blast+

text \<open>After the registration that precedes every use of the cache, a client with a connection is
  registered.\<close>

lemma register_keeps:
  assumes "sim_service_ok C slot reg" "accepts C" "cache_ok C slot reg ((c, w), p)"
    "Client_RegisterSimAccountCallback C (c, w) = (c', w')"
  shows "cache_ok C slot reg ((c', w'), p)" "slot w' = slot w" "cl_registerStatus c' \<or> \<not> fst (GetProxy C c')"
proof -
  have "cache_ok C slot reg ((c', w'), p) \<and> slot w' = slot w \<and> (cl_registerStatus c' \<or> \<not> fst (GetProxy C c'))"
  proof (cases "cl_registerStatus c")
    case True
    with assms(3,4) show ?thesis by (simp add: Client_RegisterSimAccountCallback_def)
  next
    case False
    obtain b c1 where g: "GetProxy C c = (b, c1)" by (cases "GetProxy C c")
    note k = GetProxy_keeps [OF g]
    obtain r v w1 where i: "ipc C (Rq_RegisterSimAccountCallback CLIENT_CALLBACK) w = ((r, v), w1)"
      by (cases "ipc C (Rq_RegisterSimAccountCallback CLIENT_CALLBACK) w") auto
    have "r = ERR_SUCCESS C" using assms(2) i unfolding accepts_def by (metis fst_conv)
    with assms(3,4) False g k i sim_serviceD(1) [OF assms(1) i] show ?thesis
      by (cases b) (auto simp: Client_RegisterSimAccountCallback_def cache_ok_def)
  qed
  then show "cache_ok C slot reg ((c', w'), p)" "slot w' = slot w" "cl_registerStatus c' \<or> \<not> fst (GetProxy C c')"
    by auto
qed

lemma get_slot_keeps:
  assumes "sim_service_ok C slot reg" "accepts C" "cache_ok C slot reg ((c, w), p)"
    "Client_GetDefaultCellularDataSlotId C junk (c, w) = (r, (c', w'))"
  shows "cache_ok C slot reg ((c', w'), p)" "slot w' = slot w"
    "p \<or> r = slot w \<or> r = ERR_IPC_CONNECT_STUB_FAIL C \<or> r \<noteq> ERR_SUCCESS C \<and> (\<exists>w v w'. ipc C Rq_GetDefaultCellularDataSlotId w = ((r, v), w'))"
proof -
  obtain c0 w0 where r: "Client_RegisterSimAccountCallback C (c, w) = (c0, w0)"
    by (cases "Client_RegisterSimAccountCallback C (c, w)")
  note k = register_keeps [OF assms(1-3) r]
  have "cache_ok C slot reg ((c', w'), p) \<and> slot w' = slot w \<and> (p \<or> r = slot w \<or> r = ERR_IPC_CONNECT_STUB_FAIL C
      \<or> r \<noteq> ERR_SUCCESS C \<and> (\<exists>w v w'. ipc C Rq_GetDefaultCellularDataSlotId w = ((r, v), w')))"
  proof (cases "IsValidSlotId C (defaultCellularDataSlotId c0) \<and> cl_registerStatus c0")
    case True
    with k assms(4) r show ?thesis by (auto simp: Client_GetDefaultCellularDataSlotId_def cache_ok_def)
  next
    case False
    obtain b c1 where g: "GetProxy C c0 = (b, c1)" by (cases "GetProxy C c0")
    note gk = GetProxy_keeps [OF g]
    obtain r1 v w1 where i: "ipc C Rq_GetDefaultCellularDataSlotId w0 = ((r1, v), w1)"
      by (cases "ipc C Rq_GetDefaultCellularDataSlotId w0") auto
    from False k assms(4) r g gk i sim_serviceD(2) [OF assms(1) i] show ?thesis
      by (cases b; cases "r1 = ERR_SUCCESS C")
        (auto simp: Client_GetDefaultCellularDataSlotId_def cache_ok_def)
  qed
  then show "cache_ok C slot reg ((c', w'), p)" "slot w' = slot w"
    "p \<or> r = slot w \<or> r = ERR_IPC_CONNECT_STUB_FAIL C \<or> r \<noteq> ERR_SUCCESS C \<and> (\<exists>w v w'. ipc C Rq_GetDefaultCellularDataSlotId w = ((r, v), w'))"
    by auto
qed

lemma get_sim_keeps:
  assumes "sim_service_ok C slot reg" "accepts C" "cache_ok C slot reg ((c, w), p)"
    "Client_GetDefaultCellularDataSimId C i (c, w) = (r, (c', w'))"
  shows "cache_ok C slot reg ((c', w'), p)"
proof -
  obtain c0 w0 where r: "Client_RegisterSimAccountCallback C (c, w) = (c0, w0)"
    by (cases "Client_RegisterSimAccountCallback C (c, w)")
  note k = register_keeps [OF assms(1-3) r]
  obtain b c1 where g: "GetProxy C c0 = (b, c1)" by (cases "GetProxy C c0")
  obtain r1 v w1 where i: "ipc C Rq_GetDefaultCellularDataSimId w0 = ((r1, v), w1)"
    by (cases "ipc C Rq_GetDefaultCellularDataSimId w0") auto
  from k assms(4) r g GetProxy_keeps [OF g] i sim_serviceD(3) [OF assms(1) i] show ?thesis
    by (cases b) (auto simp: Client_GetDefaultCellularDataSimId_def cache_ok_def split: if_splits)
qed

lemma set_slot_keeps:
  assumes "sim_service_ok C slot reg" "accepts C" "cache_ok C slot reg ((c, w), p)"
    "Client_SetDefaultCellularDataSlotId C i (c, w) = (r, (c', w'))"
  shows "cache_ok C slot reg ((c', w'), p \<or> (notify \<and> reg w'))"
proof -
  obtain c0 w0 where r: "Client_RegisterSimAccountCallback C (c, w) = (c0, w0)"
    by (cases "Client_RegisterSimAccountCallback C (c, w)")
  note k = register_keeps [OF assms(1-3) r]
  obtain b c1 where g: "GetProxy C c0 = (b, c1)" by (cases "GetProxy C c0")
  obtain r1 v w1 where i: "ipc C (Rq_SetDefaultCellularDataSlotId i) w0 = ((r1, v), w1)"
    by (cases "ipc C (Rq_SetDefaultCellularDataSlotId i) w0") auto
  obtain r2 v2 w2 where j: "ipc C Rq_GetDefaultCellularDataSimId w1 = ((r2, v2), w2)"
    by (cases "ipc C Rq_GetDefaultCellularDataSimId w1") auto
  from k assms(4) r g GetProxy_keeps [OF g] i j sim_serviceD(4) [OF assms(1) i] sim_serviceD(3) [OF assms(1) j] show ?thesis
    by (cases b; cases "r1 = ERR_SUCCESS C")
      (auto simp: Client_SetDefaultCellularDataSlotId_def cache_ok_def Let_def split: if_splits)
qed

lemma callback_keeps:
  assumes "sim_service_ok C slot reg" "cache_ok C slot reg ((c, w), True)" "OnSimAccountChanged C (c, w) = (c', w')"
  shows "cache_ok C slot reg ((c', w'), False)"
proof -
  let ?c = "c \<lparr>defaultCellularDataSlotId := INVALID_MAIN_CARD_SLOTID C, defaultCellularDataSimId := 0\<rparr>"
  have "cl_proxy c" "cl_registerStatus c" "reg w" using assms(2) by (auto simp: cache_ok_def)
  then have g: "GetProxy C ?c = (True, ?c)" by (simp add: GetProxy_def)
  obtain r1 v w1 where i: "ipc C Rq_GetDefaultCellularDataSlotId w = ((r1, v), w1)"
    by (cases "ipc C Rq_GetDefaultCellularDataSlotId w") auto
  obtain r2 v2 w2 where j: "ipc C Rq_GetDefaultCellularDataSimId w1 = ((r2, v2), w2)"
    by (cases "ipc C Rq_GetDefaultCellularDataSimId w1") auto
  from assms(3) g i j sim_serviceD(2) [OF assms(1) i] sim_serviceD(3,5) [OF assms(1)] \<open>cl_proxy c\<close> \<open>cl_registerStatus c\<close> \<open>reg w\<close>
  show ?thesis by (fastforce simp: OnSimAccountChanged_def UpdateDefaultCellularDataSlotId_def cache_ok_def Let_def split: if_splits)
qed

lemma cl_step_keeps:
  assumes "cl_step C slot reg x y" "sim_service_ok C slot reg" "accepts C" "cache_ok C slot reg x"
  shows "cache_ok C slot reg y"
  using assms
proof (induction rule: cl_step.induct)
  case (get_slot D junk s r s' p)
  then show ?case using get_slot_keeps(1) [of D slot reg] by (cases s, cases s') (simp add: reachable_as_simps)
next
  case (get_sim D i s r s' p)
  then show ?case using get_sim_keeps [of D slot reg] by (cases s, cases s') (simp add: reachable_as_simps)
next
  case (set_slot D i s r s' p notify)
  then show ?case using set_slot_keeps [of D slot reg] by (cases s, cases s') (simp add: reachable_as_simps)
next
  case (callback D s s')
  then show ?case using callback_keeps [of D slot reg] by (cases s, cases s') (simp add: reachable_as_simps)
next
  case (died w' c w p)
  then show ?case using sim_serviceD(5) [OF died(2)] by (auto simp: cache_ok_def OnRemoteDied_def)
qed (auto simp: cache_ok_def)

lemma cl_reach_keeps:
  assumes "cl_reach C slot reg x" "sim_service_ok C slot reg" "accepts C"
  shows "cache_ok C slot reg x"
  using assms
proof (induction rule: cl_reach.induct)
  case (init w)
  then show ?case using sim_serviceD(5) [OF init(2)] by (simp add: cache_ok_def new_client_def)
qed (blast intro: cl_step_keeps)

text \<open>C17: The default slot that the client keeps is the service's. As long as the service registers the
  client's callback whenever it is asked, then in every state that calls, changes of the default slot,
  callbacks and deaths of the service lead to, and with no callback under way, a slot in the cache is
  the current one, and the question for the default slot is answered with it, or with the error of the
  connection or of the service.\<close>

theorem client_cache_coherent:
  assumes "sim_service_ok C slot reg" "accepts C" "cl_reach C slot reg ((c, w), False)" "reachable_as C D"
    "Client_GetDefaultCellularDataSlotId D junk (c, w) = (r, s')"
  shows "(IsValidSlotId C (defaultCellularDataSlotId c) \<longrightarrow> defaultCellularDataSlotId c = slot w)
    \<and> (r = slot w \<or> r = ERR_IPC_CONNECT_STUB_FAIL D
       \<or> r \<noteq> ERR_SUCCESS C \<and> (\<exists>w v w'. ipc C Rq_GetDefaultCellularDataSlotId w = ((r, v), w')))"
proof -
  have k: "cache_ok C slot reg ((c, w), False)" using cl_reach_keeps [OF assms(3,1,2)] .
  obtain c' w' where s': "s' = (c', w')" by (cases s')
  from get_slot_keeps(3) [of D slot reg c w False junk r c' w'] assms k show ?thesis
    unfolding s' by (auto simp: reachable_as_simps cache_ok_def)
qed

section \<open>Examples\<close>

text \<open>A service with two slots; its state is the default slot and whether the callback is registered.\<close>

definition sample_client_env :: "bool \<Rightarrow> (int \<times> bool) client_env" where
  "sample_client_env accepting = \<lparr>smAvailable = True, abilityPublished = True, isProxyObject = True, addDeathRecipient = True,
     castOk = True,
     ipc = (\<lambda>rq (slot, reg). case rq of
         Rq_RegisterSimAccountCallback k \<Rightarrow> if accepting then ((0, V_none), (slot, True)) else ((1, V_none), (slot, reg))
       | Rq_GetDefaultCellularDataSlotId \<Rightarrow> ((0, V_int slot), (slot, reg))
       | Rq_GetDefaultCellularDataSimId \<Rightarrow> ((0, V_int (slot + 10)), (slot, reg))
       | Rq_SetDefaultCellularDataSlotId i \<Rightarrow> ((0, V_none), (i, reg))
       | _ \<Rightarrow> ((0, V_none), (slot, reg))),
     ERR_SUCCESS = 0, ERR_IPC_CONNECT_STUB_FAIL = 8, INVALID_MAIN_CARD_SLOTID = -1, FIRST_SLOT = 0, SLOT_COUNT = 2\<rparr>"

lemma sample_client_ok: "sim_service_ok (sample_client_env b) fst snd" "accepts (sample_client_env True)"
  by (auto simp: sim_service_ok_def accepts_def sample_client_env_def IsValidSlotId_def)

text \<open>The condition on the registration is needed. When the service refuses the callback at the first
  question and accepts it at the second, the slot read in between stays in the cache without anyone who
  would update it: the default slot is 1, no callback is under way, and the client answers 0.\<close>

lemma client_answers_stale_slot:
  "\<exists>c0 c1 c2. Client_GetDefaultCellularDataSlotId (sample_client_env False) 0 (new_client (sample_client_env False), (0, False))
       = (0, (c0, (0, False)))
     \<and> cl_step (sample_client_env False) fst snd ((c0, (0, False)), False) ((c1, (1, False)), False)
     \<and> Client_GetDefaultCellularDataSlotId (sample_client_env True) 0 (c1, (1, False)) = (0, (c2, (1, True)))
     \<and> cl_registerStatus c2"
proof -
  define c0 where "c0 = \<lparr>cl_proxy = True, cl_deathRecipient = True, cl_registerStatus = False,
    defaultCellularDataSlotId = 0, defaultCellularDataSimId = 0\<rparr>"
  have "Client_GetDefaultCellularDataSlotId (sample_client_env False) 0 (new_client (sample_client_env False), (0, False))
      = (0, (c0, (0, False)))" unfolding c0_def by code_simp
  moreover have "cl_step (sample_client_env False) fst snd ((c0, (0, False)), False) ((c0, (1, False)), False)"
    using cl_step.changed [of snd "(1, False)" "(0, False)" "sample_client_env False" fst c0 False] by simp
  moreover have "Client_GetDefaultCellularDataSlotId (sample_client_env True) 0 (c0, (1, False))
      = (0, (c0 \<lparr>cl_registerStatus := True\<rparr>, (1, True)))" unfolding c0_def by code_simp
  ultimately show ?thesis by (intro exI [of _ c0] exI [of _ "c0 \<lparr>cl_registerStatus := True\<rparr>"]) simp
qed

theorem client_cache_coherent_witness:
  "\<exists>c. cl_reach (sample_client_env True) fst snd ((c, (0, True)), False)
     \<and> IsValidSlotId (sample_client_env True) (defaultCellularDataSlotId c) \<and> defaultCellularDataSlotId c = 0"
proof -
  define c where "c = \<lparr>cl_proxy = True, cl_deathRecipient = True, cl_registerStatus = True,
    defaultCellularDataSlotId = 0, defaultCellularDataSimId = 0\<rparr>"
  have g: "Client_GetDefaultCellularDataSlotId (sample_client_env True) 0 (new_client (sample_client_env True), (0, False))
      = (0, (c, (0, True)))" unfolding c_def by code_simp
  have a: "reachable_as (sample_client_env True) (sample_client_env True)"
    unfolding reachable_as_def by (intro exI) (rule refl | simp add: sample_client_env_def)+
  have r: "cl_reach (sample_client_env True) fst snd ((c, (0, True)), False)"
    by (rule cl_reach.step [OF cl_reach.init cl_step.get_slot [OF a g]]) simp
  obtain q s' where q: "Client_GetDefaultCellularDataSlotId (sample_client_env True) 0 (c, (0, True)) = (q, s')"
    by (cases "Client_GetDefaultCellularDataSlotId (sample_client_env True) 0 (c, (0, True))")
  have v: "IsValidSlotId (sample_client_env True) (defaultCellularDataSlotId c)"
    by (simp add: c_def IsValidSlotId_def sample_client_env_def)
  with client_cache_coherent [OF sample_client_ok(1,2) r a q] r show ?thesis by auto
qed

end
