(* ===== verification/Bindings.thy ===== *)
theory Bindings
  imports Client_Cache
begin

text \<open>
  The bindings of the native client. For JavaScript (\<open>napi_cellular_data.cpp\<close>) an asynchronous function
  has two halves: the native one calls the client and fills a context, the callback turns the context
  into the value that settles the promise; both are here, with the synchronous functions, for
  arguments that have been read. For ArkTS (\<open>ani_cellular_data.cpp\<close>),
  Cangjie (\<open>tel_cellular_data_impl.cpp\<close>) and C (\<open>telephony_data.cpp\<close>) the functions call the client directly. The script engine and the
  conversion of error codes to its messages are parameters (record \<open>js_env\<close>); a value is what the engine
  is asked to create. A null context is not modelled: the engine passes back the one it was given.
\<close>

section \<open>Environment\<close>

datatype js_code =
    JS_ERROR_SERVICE_UNAVAILABLE | JS_ERROR_SLOT_ID_INVALID | JS_ERROR_NATIVE_API_EXECUTE_FAIL | JS_ERROR_DEFAULT
  | JS_PERMISSION_ERR | JS_INVALID_PARAM

text \<open>\<open>createOk\<close>: the engine creates the values it is asked for; \<open>baseErrorCode\<close>: the code of a fresh context.\<close>

record 'w js_env =
  jsC :: "'w client_env"
  jsCode :: "js_code \<Rightarrow> int"
  convertError :: "int \<Rightarrow> string \<Rightarrow> string \<Rightarrow> int \<times> string"
  createOk :: bool
  baseErrorCode :: int
  IsMultiSimsCapabilitySupported :: "int \<Rightarrow> bool"
  DEFAULT_SIM_SLOT_ID_REMOVE :: int

datatype js_value =
    J_undefined | J_null | J_int int | J_bool bool | J_string string | J_ints "int list" | J_objects "(string \<times> string) list list"
  | J_error "int option" string

record js_context =
  js_resolved :: bool
  js_errorCode :: int
  js_result :: int
  js_slotId :: int

text \<open>The value and whether the promise is fulfilled with it or rejected.\<close>

type_synonym js_outcome = "bool \<times> js_value"

abbreviation (input) "JS_SET_TELEPHONY_STATE \<equiv> ''ohos.permission.SET_TELEPHONY_STATE''"
abbreviation (input) "JS_GET_NETWORK_INFO \<equiv> ''ohos.permission.GET_NETWORK_INFO''"
abbreviation (input) "JS_MANAGE_APN_SETTING \<equiv> ''ohos.permission.MANAGE_APN_SETTING''"

definition new_js_context :: "'w js_env \<Rightarrow> int \<Rightarrow> js_context" where
  "new_js_context J slotId = \<lparr>js_resolved = False, js_errorCode = baseErrorCode J,
     js_result = jsCode J JS_ERROR_SERVICE_UNAVAILABLE, js_slotId = slotId\<rparr>"

definition Js_IsValidSlotId :: "'w js_env \<Rightarrow> int \<Rightarrow> bool" where
  "Js_IsValidSlotId J slotId =
     (if SLOT_COUNT (jsC J) = CELLDATA_SLOT_ID_3
      then if slotId \<noteq> CELLDATA_SLOT_ID_3 then FIRST_SLOT (jsC J) \<le> slotId \<and> slotId < SLOT_COUNT (jsC J) - 1
           else IsMultiSimsCapabilitySupported J slotId
      else FIRST_SLOT (jsC J) \<le> slotId \<and> slotId < SLOT_COUNT (jsC J))"

definition Js_IsValidSlotIdEx :: "'w js_env \<Rightarrow> int \<Rightarrow> bool" where
  "Js_IsValidSlotIdEx J slotId \<longleftrightarrow> FIRST_SLOT (jsC J) \<le> slotId \<and> slotId < SLOT_COUNT (jsC J) + 1"

text \<open>Not declared in a header: the other bindings have their own copies of the test and the conversions.\<close>

definition WrapCellularDataType :: "int \<Rightarrow> int" where
  "WrapCellularDataType t =
     (if t = STATUS_DISCONNECTED then DATA_STATE_DISCONNECTED
      else if t = STATUS_CONNECTING then DATA_STATE_CONNECTING
      else if t = STATUS_CONNECTED then DATA_STATE_CONNECTED
      else if t = STATUS_SUSPENDED then DATA_STATE_SUSPENDED
      else DATA_STATE_UNKNOWN)"

definition WrapGetCellularDataFlowTypeType :: "int \<Rightarrow> int" where
  "WrapGetCellularDataFlowTypeType t =
     (if t = flow_code DATA_FLOW_TYPE_NONE then flow_code DATA_FLOW_TYPE_NONE
      else if t = flow_code DATA_FLOW_TYPE_DOWN then flow_code DATA_FLOW_TYPE_DOWN
      else if t = flow_code DATA_FLOW_TYPE_UP then flow_code DATA_FLOW_TYPE_UP
      else if t = flow_code DATA_FLOW_TYPE_UP_DOWN then flow_code DATA_FLOW_TYPE_UP_DOWN
      else if t = flow_code DATA_FLOW_TYPE_DORMANT then flow_code DATA_FLOW_TYPE_DORMANT
      else flow_code DATA_FLOW_TYPE_NONE)"

definition IsCellularDataManagerInited :: "'w js_env \<Rightarrow> 'w client_state \<Rightarrow> bool \<times> 'w client_state" where
  "IsCellularDataManagerInited J s = (case IsConnect (jsC J) (fst s) of (b, c) \<Rightarrow> (b, (c, snd s)))"

section \<open>Patterns of the native halves\<close>

text \<open>A call that returns a code; a question with a flag; the test of the slot in front of either.\<close>

type_synonym 'w native = "js_context \<Rightarrow> 'w client_state \<Rightarrow> js_context \<times> 'w client_state"

definition unavailable :: "'w js_env \<Rightarrow> js_context \<Rightarrow> js_context" where
  "unavailable J ctx = ctx \<lparr>js_resolved := False, js_errorCode := jsCode J JS_ERROR_SERVICE_UNAVAILABLE\<rparr>"

definition native_code :: "'w js_env \<Rightarrow> ('w client_state \<Rightarrow> int \<times> 'w client_state) \<Rightarrow> 'w native" where
  "native_code J call ctx s = (case IsCellularDataManagerInited J s of
     (False, s1) \<Rightarrow> (unavailable J ctx, s1)
   | (True, s1) \<Rightarrow> (case call s1 of (r, s2) \<Rightarrow>
       let ctx1 = ctx \<lparr>js_result := r\<rparr>
       in (if r = ERR_SUCCESS (jsC J) then ctx1 \<lparr>js_resolved := True\<rparr>
           else ctx1 \<lparr>js_resolved := False, js_errorCode := r\<rparr>, s2)))"

definition native_flag :: "'w js_env \<Rightarrow> (bool \<Rightarrow> 'w client_state \<Rightarrow> reply \<times> 'w client_state) \<Rightarrow> 'w native" where
  "native_flag J call ctx s = (case IsCellularDataManagerInited J s of
     (False, s1) \<Rightarrow> (unavailable J ctx, s1)
   | (True, s1) \<Rightarrow> (case call False s1 of ((r, v), s2) \<Rightarrow>
       let ctx1 = ctx \<lparr>js_errorCode := r\<rparr>;
           ctx2 = (if r = ERR_SUCCESS (jsC J) then ctx1 \<lparr>js_resolved := True\<rparr> else ctx1);
           enabled = (case v of V_bool b \<Rightarrow> b | _ \<Rightarrow> False)
       in (ctx2 \<lparr>js_result := (if enabled then 1 else 0)\<rparr>, s2)))"

definition native_slot :: "'w js_env \<Rightarrow> (int \<Rightarrow> 'w native) \<Rightarrow> 'w native" where
  "native_slot J f ctx s =
     (if \<not> Js_IsValidSlotId J (js_slotId ctx) then (ctx \<lparr>js_errorCode := jsCode J JS_ERROR_SLOT_ID_INVALID\<rparr>, s)
      else f (js_slotId ctx) ctx s)"

section \<open>Patterns of the callbacks\<close>

definition js_error :: "'w js_env \<Rightarrow> string \<Rightarrow> string \<Rightarrow> js_context \<Rightarrow> js_value" where
  "js_error J func permission ctx = (case convertError J (js_errorCode ctx) func permission of
     (code, msg) \<Rightarrow> J_error (Some code) msg)"

definition callback_undefined :: "'w js_env \<Rightarrow> string \<Rightarrow> string \<Rightarrow> js_context \<Rightarrow> js_outcome" where
  "callback_undefined J func permission ctx =
     (js_resolved ctx, if js_resolved ctx then J_undefined else js_error J func permission ctx)"

definition callback_bool :: "'w js_env \<Rightarrow> bool \<Rightarrow> string \<Rightarrow> string \<Rightarrow> js_context \<Rightarrow> js_outcome" where
  "callback_bool J value func permission ctx = (js_resolved ctx,
     if js_resolved ctx
     then if createOk J then J_bool value else J_error (Some (jsCode J JS_ERROR_DEFAULT)) func
     else js_error J func permission ctx)"

definition callback_int :: "'w js_env \<Rightarrow> string \<Rightarrow> string \<Rightarrow> js_context \<Rightarrow> js_outcome" where
  "callback_int J func permission ctx = (js_resolved ctx,
     if js_resolved ctx then if createOk J then J_int (js_result ctx) else J_null
     else if js_errorCode ctx = jsCode J JS_ERROR_SERVICE_UNAVAILABLE
     then J_error (Some (jsCode J JS_ERROR_SERVICE_UNAVAILABLE)) ''cellular data service unavailable''
     else js_error J func permission ctx)"

text \<open>Both halves, one after the other.\<close>

definition js_run :: "'w js_env \<Rightarrow> 'w native \<Rightarrow> (js_context \<Rightarrow> js_outcome) \<Rightarrow> int \<Rightarrow> 'w client_state \<Rightarrow> js_outcome \<times> 'w client_state" where
  "js_run J native callback slotId s = (case native (new_js_context J slotId) s of (ctx, s') \<Rightarrow> (callback ctx, s'))"

section \<open>JavaScript functions\<close>

text \<open>State and flow type: only the missing permission is an error, any other code is converted like a state.\<close>

definition NativeGetCellularDataState :: "'w js_env \<Rightarrow> int \<Rightarrow> 'w native" where
  "NativeGetCellularDataState J junk ctx s = (case IsCellularDataManagerInited J s of
     (False, s1) \<Rightarrow> (unavailable J ctx, s1)
   | (True, s1) \<Rightarrow> (case Client_GetCellularDataState (jsC J) junk s1 of (r, s2) \<Rightarrow>
       (if r = jsCode J JS_PERMISSION_ERR then ctx \<lparr>js_errorCode := r\<rparr>
        else ctx \<lparr>js_resolved := True, js_result := WrapCellularDataType r\<rparr>, s2)))"

definition GetCellularDataStateCallback :: "'w js_env \<Rightarrow> js_context \<Rightarrow> js_outcome" where
  "GetCellularDataStateCallback J = callback_int J ''GetCellularDataState'' JS_GET_NETWORK_INFO"

definition NativeGetCellularDataFlowType :: "'w js_env \<Rightarrow> int \<Rightarrow> 'w native" where
  "NativeGetCellularDataFlowType J junk ctx s = (case IsCellularDataManagerInited J s of
     (False, s1) \<Rightarrow> (unavailable J ctx, s1)
   | (True, s1) \<Rightarrow> (case Client_GetCellularDataFlowType (jsC J) junk s1 of (r, s2) \<Rightarrow>
       (if r = jsCode J JS_PERMISSION_ERR then ctx \<lparr>js_errorCode := r\<rparr>
        else ctx \<lparr>js_resolved := True, js_result := WrapGetCellularDataFlowTypeType r\<rparr>, s2)))"

definition GetCellularDataFlowTypeCallback :: "'w js_env \<Rightarrow> js_context \<Rightarrow> js_outcome" where
  "GetCellularDataFlowTypeCallback J = callback_int J ''GetCellularDataFlowType'' JS_GET_NETWORK_INFO"

text \<open>The data switch.\<close>

definition NativeIsCellularDataEnabled :: "'w js_env \<Rightarrow> 'w native" where
  "NativeIsCellularDataEnabled J = native_flag J (Client_IsCellularDataEnabled (jsC J))"

definition IsCellularDataEnabledCallback :: "'w js_env \<Rightarrow> js_context \<Rightarrow> js_outcome" where
  "IsCellularDataEnabledCallback J ctx =
     callback_bool J (js_result ctx = switch_code True) ''IsCellularDataEnabled'' JS_GET_NETWORK_INFO ctx"

definition NativeEnableCellularData :: "'w js_env \<Rightarrow> 'w native" where
  "NativeEnableCellularData J = native_code J (Client_EnableCellularData (jsC J) True)"

definition EnableCellularDataCallback :: "'w js_env \<Rightarrow> js_context \<Rightarrow> js_outcome" where
  "EnableCellularDataCallback J = callback_undefined J ''enableCellularData'' JS_SET_TELEPHONY_STATE"

definition NativeDisableCellularData :: "'w js_env \<Rightarrow> 'w native" where
  "NativeDisableCellularData J = native_code J (Client_EnableCellularData (jsC J) False)"

definition DisableCellularDataCallback :: "'w js_env \<Rightarrow> js_context \<Rightarrow> js_outcome" where
  "DisableCellularDataCallback J = callback_undefined J ''disableCellularData'' JS_SET_TELEPHONY_STATE"

text \<open>The roaming switch of a slot.\<close>

definition NativeEnableCellularDataRoaming :: "'w js_env \<Rightarrow> 'w native" where
  "NativeEnableCellularDataRoaming J =
     native_slot J (\<lambda>slotId. native_code J (Client_EnableCellularDataRoaming (jsC J) slotId True))"

definition EnableCellularDataRoamingCallback :: "'w js_env \<Rightarrow> js_context \<Rightarrow> js_outcome" where
  "EnableCellularDataRoamingCallback J = callback_undefined J ''enableCellularDataRoaming'' JS_SET_TELEPHONY_STATE"

definition NativeDisableCellularDataRoaming :: "'w js_env \<Rightarrow> 'w native" where
  "NativeDisableCellularDataRoaming J =
     native_slot J (\<lambda>slotId. native_code J (Client_EnableCellularDataRoaming (jsC J) slotId False))"

definition DisableCellularDataRoamingCallback :: "'w js_env \<Rightarrow> js_context \<Rightarrow> js_outcome" where
  "DisableCellularDataRoamingCallback J = callback_undefined J ''disableCellularDataRoaming'' JS_SET_TELEPHONY_STATE"

definition NativeIsCellularDataRoamingEnabled :: "'w js_env \<Rightarrow> 'w native" where
  "NativeIsCellularDataRoamingEnabled J =
     native_slot J (\<lambda>slotId. native_flag J (Client_IsCellularDataRoamingEnabled (jsC J) slotId))"

definition IsCellularDataRoamingEnabledCallback :: "'w js_env \<Rightarrow> js_context \<Rightarrow> js_outcome" where
  "IsCellularDataRoamingEnabledCallback J ctx =
     callback_bool J (js_result ctx = switch_code True) ''isCellularDataRoamingEnabled'' JS_GET_NETWORK_INFO ctx"

text \<open>The default slot. A number that is no slot is an error, whatever it means; the default SIM card may
  also have been removed.\<close>

definition NativeGetDefaultCellularDataSlotId :: "'w js_env \<Rightarrow> int \<Rightarrow> 'w native" where
  "NativeGetDefaultCellularDataSlotId J junk ctx s =
     (case Client_GetDefaultCellularDataSlotId (jsC J) junk s of (r, s1) \<Rightarrow>
       (if Js_IsValidSlotIdEx J r \<or> r = DEFAULT_SIM_SLOT_ID_REMOVE J
        then ctx \<lparr>js_slotId := r, js_resolved := True\<rparr>
        else ctx \<lparr>js_resolved := False, js_errorCode := jsCode J JS_ERROR_NATIVE_API_EXECUTE_FAIL\<rparr>, s1))"

definition GetDefaultCellularDataSlotIdCallback :: "'w js_env \<Rightarrow> js_context \<Rightarrow> js_outcome" where
  "GetDefaultCellularDataSlotIdCallback J ctx = (js_resolved ctx,
     if js_resolved ctx then if createOk J then J_int (js_slotId ctx) else J_null
     else if js_errorCode ctx = jsCode J JS_ERROR_NATIVE_API_EXECUTE_FAIL
     then J_error (Some (jsCode J JS_ERROR_NATIVE_API_EXECUTE_FAIL)) ''GetDefaultCellularDataSlotId api execute failed''
     else J_error None ''get default cellular data slotId failed'')"

definition NativeSetDefaultCellularDataSlotId :: "'w js_env \<Rightarrow> 'w native" where
  "NativeSetDefaultCellularDataSlotId J =
     native_slot J (\<lambda>slotId ctx s. case IsCellularDataManagerInited J s of
       (False, s1) \<Rightarrow> (unavailable J ctx, s1)
     | (True, s1) \<Rightarrow> (case Client_SetDefaultCellularDataSlotId (jsC J) slotId s1 of (r, s2) \<Rightarrow>
         (ctx \<lparr>js_errorCode := r, js_resolved := r = ERR_SUCCESS (jsC J)\<rparr>, s2)))"

definition SetDefaultCellularDataSlotIdCallback :: "'w js_env \<Rightarrow> js_context \<Rightarrow> js_outcome" where
  "SetDefaultCellularDataSlotIdCallback J = callback_undefined J ''setDefaultCellularDataSlotId'' JS_SET_TELEPHONY_STATE"

text \<open>Setting the preferred access point: code -1 is an answer too, namely no.\<close>

definition NativeSetPreferApn :: "'w js_env \<Rightarrow> int \<Rightarrow> 'w native" where
  "NativeSetPreferApn J apnId ctx s = (case Client_SetPreferApn (jsC J) apnId s of (r, s1) \<Rightarrow>
     let ctx1 = ctx \<lparr>js_errorCode := r\<rparr>
     in (if r = ERR_SUCCESS (jsC J) then ctx1 \<lparr>js_resolved := True, js_result := 1\<rparr>
         else if r = -1 then ctx1 \<lparr>js_resolved := True, js_result := 0\<rparr>
         else ctx1 \<lparr>js_resolved := False, js_result := 0\<rparr>, s1))"

definition SetPreferApnCallback :: "'w js_env \<Rightarrow> js_context \<Rightarrow> js_outcome" where
  "SetPreferApnCallback J ctx = callback_bool J (js_result ctx \<noteq> 0) ''SetPreferredApn'' JS_MANAGE_APN_SETTING ctx"

text \<open>Questions whose answer is a list or a text settle by themselves. \<open>deferred\<close> says that the script waits
  for a promise, else it gave a callback, which is called with an error and a value. \<open>statusOk\<close> says
  whether the asynchronous work ended normally. The engine carries out what it is asked for.\<close>

datatype js_settle = Resolved js_value | Rejected js_value | CalledBack js_value js_value | Unsettled

definition HandleDeferredResult :: "bool \<Rightarrow> bool \<Rightarrow> js_value \<Rightarrow> js_value \<Rightarrow> bool \<Rightarrow> js_settle option" where
  "HandleDeferredResult deferred resolved callbackVal error funcIgnoreReturnVal =
     (if \<not> deferred then None
      else if \<not> resolved then Some (Rejected error)
      else Some (Resolved (if funcIgnoreReturnVal then J_undefined else callbackVal)))"

definition NapiAsyncBaseCompleteCallback :: "bool \<Rightarrow> bool \<Rightarrow> js_value \<Rightarrow> js_value \<Rightarrow> bool \<Rightarrow> js_settle" where
  "NapiAsyncBaseCompleteCallback deferred resolved callbackVal error funcIgnoreReturnVal =
     (case HandleDeferredResult deferred resolved callbackVal error funcIgnoreReturnVal of
        Some r \<Rightarrow> r
      | None \<Rightarrow> (let res = (if funcIgnoreReturnVal then J_undefined else callbackVal)
                in if \<not> resolved then CalledBack error J_undefined else CalledBack J_undefined res))"

definition NapiAsyncPermissionCompleteCallback ::
  "'w js_env \<Rightarrow> bool \<Rightarrow> bool \<Rightarrow> bool \<Rightarrow> int \<Rightarrow> js_value \<Rightarrow> bool \<Rightarrow> string \<Rightarrow> string \<Rightarrow> js_settle" where
  "NapiAsyncPermissionCompleteCallback J statusOk deferred resolved errorCode callbackVal ignore func permission =
     (if \<not> statusOk then (if deferred then Rejected (J_error (Some (jsCode J JS_ERROR_DEFAULT)) ''async work failed'') else Unsettled)
      else case convertError J errorCode func permission of
             (c, msg) \<Rightarrow> NapiAsyncBaseCompleteCallback deferred resolved callbackVal (J_error (Some c) msg) ignore)"

definition NativeQueryApnIds :: "'w js_env \<Rightarrow> ApnInfo \<Rightarrow> 'w client_state \<Rightarrow> (bool \<times> int \<times> int list) \<times> 'w client_state" where
  "NativeQueryApnIds J info s =
     (if ai_apn info = [] then ((False, jsCode J JS_INVALID_PARAM, []), s)
      else case Client_QueryApnIds (jsC J) info [] s of ((r, v), s1) \<Rightarrow>
        ((r = ERR_SUCCESS (jsC J), r, if r = ERR_SUCCESS (jsC J) then (case v of V_ids is \<Rightarrow> is | _ \<Rightarrow> []) else []), s1))"

text \<open>The identifiers are \<open>uint32_t\<close> and become signed numbers of the engine.\<close>

definition QueryApnIdsCallback :: "'w js_env \<Rightarrow> bool \<Rightarrow> bool \<Rightarrow> bool \<times> int \<times> int list \<Rightarrow> js_settle" where
  "QueryApnIdsCallback J statusOk deferred = (\<lambda>(resolved, code, is).
     NapiAsyncPermissionCompleteCallback J statusOk deferred resolved code (J_ints (map (signed_take_bit 31) is)) False ''QueryApnIds'' JS_MANAGE_APN_SETTING)"

text \<open>The object of an access point, by its properties.\<close>

definition ApnInfoConversion :: "ApnInfo \<Rightarrow> (string \<times> string) list" where
  "ApnInfoConversion i =
     [(''apnName'', ai_apnName i), (''apn'', ai_apn i), (''mcc'', ai_mcc i), (''mnc'', ai_mnc i),
      (''user'', ai_user i), (''type'', ai_type i), (''proxy'', ai_proxy i), (''mmsproxy'', ai_mmsproxy i)]"

definition NativeQueryAllApn :: "'w js_env \<Rightarrow> 'w client_state \<Rightarrow> (bool \<times> int \<times> ApnInfo list) \<times> 'w client_state" where
  "NativeQueryAllApn J s = (case Client_QueryAllApnInfo (jsC J) [] s of ((r, v), s1) \<Rightarrow>
     ((r = ERR_SUCCESS (jsC J), r, if r = ERR_SUCCESS (jsC J) then (case v of V_infos is \<Rightarrow> is | _ \<Rightarrow> []) else []), s1))"

definition QueryAllApnCallback :: "'w js_env \<Rightarrow> bool \<Rightarrow> bool \<Rightarrow> bool \<times> int \<times> ApnInfo list \<Rightarrow> js_settle" where
  "QueryAllApnCallback J statusOk deferred = (\<lambda>(resolved, code, is).
     NapiAsyncPermissionCompleteCallback J statusOk deferred resolved code (J_objects (map ApnInfoConversion is)) False ''QueryAllApns'' JS_MANAGE_APN_SETTING)"

definition NativeGetActiveApnName :: "'w js_env \<Rightarrow> 'w client_state \<Rightarrow> (bool \<times> int \<times> string) \<times> 'w client_state" where
  "NativeGetActiveApnName J s = (case Client_GetActiveApnName (jsC J) s of ((r, v), s1) \<Rightarrow>
     ((r = ERR_SUCCESS (jsC J), r, if r = ERR_SUCCESS (jsC J) then (case v of V_text t \<Rightarrow> t | _ \<Rightarrow> []) else []), s1))"

definition GetActiveApnNameCallback :: "'w js_env \<Rightarrow> bool \<Rightarrow> bool \<Rightarrow> bool \<times> int \<times> string \<Rightarrow> js_settle" where
  "GetActiveApnNameCallback J statusOk deferred = (\<lambda>(resolved, code, t).
     NapiAsyncPermissionCompleteCallback J statusOk deferred resolved code (J_string t) False ''GetActiveApnName'' JS_GET_NETWORK_INFO)"

section \<open>Synchronous JavaScript functions\<close>

text \<open>The value or the error that is thrown; \<open>J_null\<close> stands for the null value. \<open>noArgument\<close> says that the
  script passed nothing. The roaming question asks the engine for no argument and then reads one, so the
  slot is whatever its variable held.\<close>

definition IsCellularDataEnabledSync :: "'w js_env \<Rightarrow> 'w client_state \<Rightarrow> js_value \<times> 'w client_state" where
  "IsCellularDataEnabledSync J s = (case IsCellularDataManagerInited J s of
     (False, s1) \<Rightarrow> (J_null, s1)
   | (True, s1) \<Rightarrow> (case Client_IsCellularDataEnabled (jsC J) False s1 of ((r, v), s2) \<Rightarrow>
       (if r \<noteq> ERR_SUCCESS (jsC J)
        then (case convertError J r ''isCellularDataEnabledSync'' JS_GET_NETWORK_INFO of (c, msg) \<Rightarrow> J_error (Some c) msg)
        else if createOk J then J_bool (case v of V_bool b \<Rightarrow> b | _ \<Rightarrow> False) else J_null, s2)))"

definition IsCellularDataRoamingEnabledSync ::
  "'w js_env \<Rightarrow> js_value \<Rightarrow> int \<Rightarrow> 'w client_state \<Rightarrow> js_value \<times> 'w client_state" where
  "IsCellularDataRoamingEnabledSync J parameterError junk s =
     (let slotId = junk
      in if \<not> Js_IsValidSlotId J slotId then (parameterError, s)
         else case IsCellularDataManagerInited J s of
           (False, s1) \<Rightarrow> (J_null, s1)
         | (True, s1) \<Rightarrow> (case Client_IsCellularDataRoamingEnabled (jsC J) slotId False s1 of ((r, v), s2) \<Rightarrow>
             (if r \<noteq> ERR_SUCCESS (jsC J)
              then (case convertError J r ''isCellularDataRoamingEnabledSync'' JS_GET_NETWORK_INFO of (c, msg) \<Rightarrow> J_error (Some c) msg)
              else if createOk J then J_bool (case v of V_bool b \<Rightarrow> b | _ \<Rightarrow> False) else J_null, s2)))"

definition js_int :: "'w js_env \<Rightarrow> int \<Rightarrow> js_value" where
  "js_int J i = (if createOk J then J_int i else J_null)"

definition GetDefaultCellularDataSlotIdSync :: "'w js_env \<Rightarrow> bool \<Rightarrow> int \<Rightarrow> 'w client_state \<Rightarrow> js_value \<times> 'w client_state" where
  "GetDefaultCellularDataSlotIdSync J noArgument junk s =
     (case (if noArgument then Client_GetDefaultCellularDataSlotId (jsC J) junk s else (-1, s)) of
        (slotId, s1) \<Rightarrow> (js_int J slotId, s1))"

definition Js_GetDefaultCellularDataSimId :: "'w js_env \<Rightarrow> bool \<Rightarrow> 'w client_state \<Rightarrow> js_value \<times> 'w client_state" where
  "Js_GetDefaultCellularDataSimId J noArgument s =
     (case (if noArgument then Client_GetDefaultCellularDataSimId (jsC J) 0 s else ((ERR_SUCCESS (jsC J), 0), s)) of
        ((r, simId), s1) \<Rightarrow> (js_int J simId, s1))"

definition Js_EnableIntelligenceSwitch :: "'w js_env \<Rightarrow> bool option \<Rightarrow> 'w client_state \<Rightarrow> js_value \<times> 'w client_state" where
  "Js_EnableIntelligenceSwitch J arg s =
     (case (case arg of Some enable \<Rightarrow> Client_EnableIntelligenceSwitch (jsC J) enable s | None \<Rightarrow> (-1, s)) of
        (r, s1) \<Rightarrow> (js_int J r, s1))"

definition Js_GetIntelligenceSwitchState :: "'w js_env \<Rightarrow> bool \<Rightarrow> 'w client_state \<Rightarrow> js_value \<times> 'w client_state" where
  "Js_GetIntelligenceSwitchState J noArgument s =
     (case (if noArgument then Client_GetIntelligenceSwitchState (jsC J) False s else ((0, V_bool False), s)) of
        ((r, v), s1) \<Rightarrow> (if createOk J then J_bool (case v of V_bool b \<Rightarrow> b | _ \<Rightarrow> False) else J_null, s1))"

section \<open>ArkTS\<close>

text \<open>Every function yields the converted error (also for success) and what its reference parameter holds.
  \<open>convertPlain\<close> is the conversion without a permission. Texts are copied between two encodings of the
  same characters.\<close>

type_synonym arkts_error = "int \<times> string"

definition ani_IsValidSlotId :: "'w js_env \<Rightarrow> int \<Rightarrow> bool" where
  "ani_IsValidSlotId J slotId =
     (if SLOT_COUNT (jsC J) = CELLDATA_SLOT_ID_3
      then if slotId \<noteq> CELLDATA_SLOT_ID_3 then FIRST_SLOT (jsC J) \<le> slotId \<and> slotId < SLOT_COUNT (jsC J) - 1
           else IsMultiSimsCapabilitySupported J slotId
      else FIRST_SLOT (jsC J) \<le> slotId \<and> slotId < SLOT_COUNT (jsC J))"

definition ani_WrapCellularDataType :: "int \<Rightarrow> int" where
  "ani_WrapCellularDataType t =
     (if t = STATUS_DISCONNECTED then DATA_STATE_DISCONNECTED
      else if t = STATUS_CONNECTING then DATA_STATE_CONNECTING
      else if t = STATUS_CONNECTED then DATA_STATE_CONNECTED
      else if t = STATUS_SUSPENDED then DATA_STATE_SUSPENDED
      else DATA_STATE_UNKNOWN)"

definition ani_call :: "'w js_env \<Rightarrow> ('w client_state \<Rightarrow> int \<times> 'w client_state) \<Rightarrow> 'w client_state \<Rightarrow> int \<times> 'w client_state" where
  "ani_call J call s = (case IsCellularDataManagerInited J s of
     (False, s1) \<Rightarrow> (jsCode J JS_ERROR_SERVICE_UNAVAILABLE, s1) | (True, s1) \<Rightarrow> call s1)"

definition ani_ask :: "'w js_env \<Rightarrow> ('w client_state \<Rightarrow> reply \<times> 'w client_state) \<Rightarrow> 'w client_state \<Rightarrow> reply \<times> 'w client_state" where
  "ani_ask J call s = (case IsCellularDataManagerInited J s of
     (False, s1) \<Rightarrow> ((jsCode J JS_ERROR_SERVICE_UNAVAILABLE, V_none), s1) | (True, s1) \<Rightarrow> call s1)"

definition ani_code :: "'w js_env \<Rightarrow> string \<Rightarrow> ('w client_state \<Rightarrow> int \<times> 'w client_state) \<Rightarrow> 'w client_state \<Rightarrow> arkts_error \<times> 'w client_state" where
  "ani_code J func call s = (case ani_call J call s of (r, s1) \<Rightarrow> (convertError J r func JS_SET_TELEPHONY_STATE, s1))"

definition ani_slot :: "'w js_env \<Rightarrow> int \<Rightarrow> string \<Rightarrow> string \<Rightarrow> 'r \<Rightarrow> ('w client_state \<Rightarrow> (arkts_error \<times> 'r) \<times> 'w client_state)
    \<Rightarrow> 'w client_state \<Rightarrow> (arkts_error \<times> 'r) \<times> 'w client_state" where
  "ani_slot J slotId func permission given f s =
     (if \<not> ani_IsValidSlotId J slotId
      then ((convertError J (jsCode J JS_ERROR_SLOT_ID_INVALID) func permission, given), s) else f s)"

definition ani_isCellularDataEnabled :: "'w js_env \<Rightarrow> bool \<Rightarrow> 'w client_state \<Rightarrow> (arkts_error \<times> bool) \<times> 'w client_state" where
  "ani_isCellularDataEnabled J given s =
     (case ani_ask J (Client_IsCellularDataEnabled (jsC J) given) s of ((r, v), s1) \<Rightarrow>
       ((convertError J r ''IsCellularDataEnabled'' JS_GET_NETWORK_INFO, case v of V_bool b \<Rightarrow> b | _ \<Rightarrow> given), s1))"

definition ani_enableCellularDataSync :: "'w js_env \<Rightarrow> 'w client_state \<Rightarrow> arkts_error \<times> 'w client_state" where
  "ani_enableCellularDataSync J = ani_code J ''enableCellularData'' (Client_EnableCellularData (jsC J) True)"

definition ani_disableCellularDataSync :: "'w js_env \<Rightarrow> 'w client_state \<Rightarrow> arkts_error \<times> 'w client_state" where
  "ani_disableCellularDataSync J = ani_code J ''disableCellularData'' (Client_EnableCellularData (jsC J) False)"

definition ani_getDefaultCellularDataSlotIdSync :: "'w js_env \<Rightarrow> int \<Rightarrow> 'w client_state \<Rightarrow> int \<times> 'w client_state" where
  "ani_getDefaultCellularDataSlotIdSync J junk = Client_GetDefaultCellularDataSlotId (jsC J) junk"

definition ani_getCellularDataState ::
  "'w js_env \<Rightarrow> (int \<Rightarrow> arkts_error) \<Rightarrow> int \<Rightarrow> int \<Rightarrow> 'w client_state \<Rightarrow> (arkts_error \<times> int) \<times> 'w client_state" where
  "ani_getCellularDataState J convertPlain junk given s = (case IsCellularDataManagerInited J s of
     (False, s1) \<Rightarrow> ((convertPlain (jsCode J JS_ERROR_SERVICE_UNAVAILABLE), given), s1)
   | (True, s1) \<Rightarrow> (case Client_GetCellularDataState (jsC J) junk s1 of (dataState, s2) \<Rightarrow>
       ((convertPlain (ERR_SUCCESS (jsC J)), ani_WrapCellularDataType dataState), s2)))"

definition ani_enableCellularDataRoamingSync :: "'w js_env \<Rightarrow> int \<Rightarrow> 'w client_state \<Rightarrow> (arkts_error \<times> unit) \<times> 'w client_state" where
  "ani_enableCellularDataRoamingSync J slotId =
     ani_slot J slotId ''enableCellularDataRoaming'' JS_SET_TELEPHONY_STATE ()
       (\<lambda>s. case ani_code J ''enableCellularDataRoaming'' (Client_EnableCellularDataRoaming (jsC J) slotId True) s of
          (e, s1) \<Rightarrow> ((e, ()), s1))"

definition ani_disableCellularDataRoamingSync :: "'w js_env \<Rightarrow> int \<Rightarrow> 'w client_state \<Rightarrow> (arkts_error \<times> unit) \<times> 'w client_state" where
  "ani_disableCellularDataRoamingSync J slotId =
     ani_slot J slotId ''disableCellularDataRoaming'' JS_SET_TELEPHONY_STATE ()
       (\<lambda>s. case ani_code J ''disableCellularDataRoaming'' (Client_EnableCellularDataRoaming (jsC J) slotId False) s of
          (e, s1) \<Rightarrow> ((e, ()), s1))"

definition ani_isCellularDataRoamingEnabledSync ::
  "'w js_env \<Rightarrow> int \<Rightarrow> bool \<Rightarrow> 'w client_state \<Rightarrow> (arkts_error \<times> bool) \<times> 'w client_state" where
  "ani_isCellularDataRoamingEnabledSync J slotId given =
     ani_slot J slotId ''isCellularDataRoamingEnabled'' JS_GET_NETWORK_INFO given
       (\<lambda>s. case ani_ask J (Client_IsCellularDataRoamingEnabled (jsC J) slotId given) s of ((r, v), s1) \<Rightarrow>
          ((convertError J r ''isCellularDataRoamingEnabled'' JS_GET_NETWORK_INFO, case v of V_bool b \<Rightarrow> b | _ \<Rightarrow> given), s1))"

definition ani_setDefaultCellularDataSlotIdSyn :: "'w js_env \<Rightarrow> int \<Rightarrow> 'w client_state \<Rightarrow> (arkts_error \<times> unit) \<times> 'w client_state" where
  "ani_setDefaultCellularDataSlotIdSyn J slotId =
     ani_slot J slotId ''setDefaultCellularDataSlotId'' JS_SET_TELEPHONY_STATE ()
       (\<lambda>s. case ani_code J ''setDefaultCellularDataSlotId'' (Client_SetDefaultCellularDataSlotId (jsC J) slotId) s of
          (e, s1) \<Rightarrow> ((e, ()), s1))"

definition ani_getCellularDataFlowTypeSyn :: "'w js_env \<Rightarrow> int \<Rightarrow> 'w client_state \<Rightarrow> int \<times> 'w client_state" where
  "ani_getCellularDataFlowTypeSyn J junk = Client_GetCellularDataFlowType (jsC J) junk"

definition ani_setPreferredApnSyn :: "'w js_env \<Rightarrow> int \<Rightarrow> 'w client_state \<Rightarrow> (arkts_error \<times> bool) \<times> 'w client_state" where
  "ani_setPreferredApnSyn J apnId s = (case ani_call J (Client_SetPreferApn (jsC J) apnId) s of (r, s1) \<Rightarrow>
     ((convertError J r ''setPreferredApn'' JS_MANAGE_APN_SETTING, r = ERR_SUCCESS (jsC J)), s1))"

text \<open>The function returns what the client's function returns, which is the error code.\<close>

definition ani_getDefaultCellularDataSimIdSyn :: "'w js_env \<Rightarrow> 'w client_state \<Rightarrow> int \<times> 'w client_state" where
  "ani_getDefaultCellularDataSimIdSyn J s =
     (case Client_GetDefaultCellularDataSimId (jsC J) 0 s of ((code, simId), s1) \<Rightarrow> (code, s1))"

definition ani_queryApnIdsSync ::
  "'w js_env \<Rightarrow> ApnInfo \<Rightarrow> int list \<Rightarrow> 'w client_state \<Rightarrow> (arkts_error \<times> int list) \<times> 'w client_state" where
  "ani_queryApnIdsSync J info given s = (case ani_ask J (Client_QueryApnIds (jsC J) info []) s of ((r, v), s1) \<Rightarrow>
     ((convertError J r ''queryApnIds'' JS_MANAGE_APN_SETTING,
       given @ (if r = ERR_SUCCESS (jsC J) then (case v of V_ids is \<Rightarrow> is | _ \<Rightarrow> []) else [])), s1))"

definition ani_queryAllApnsSync ::
  "'w js_env \<Rightarrow> ApnInfo list \<Rightarrow> 'w client_state \<Rightarrow> (arkts_error \<times> ApnInfo list) \<times> 'w client_state" where
  "ani_queryAllApnsSync J given s = (case ani_ask J (Client_QueryAllApnInfo (jsC J) []) s of ((r, v), s1) \<Rightarrow>
     ((convertError J r ''queryAllApns'' JS_MANAGE_APN_SETTING, given @ (case v of V_infos is \<Rightarrow> is | _ \<Rightarrow> [])), s1))"

definition ani_getActiveApnNameSync :: "'w js_env \<Rightarrow> 'w client_state \<Rightarrow> (arkts_error \<times> string) \<times> 'w client_state" where
  "ani_getActiveApnNameSync J s = (case ani_ask J (Client_GetActiveApnName (jsC J)) s of ((r, v), s1) \<Rightarrow>
     ((convertError J r ''GetActiveApnName'' JS_GET_NETWORK_INFO, case v of V_text t \<Rightarrow> t | _ \<Rightarrow> []), s1))"

section \<open>Cangjie and C\<close>

text \<open>The error codes that the conversion names, and the classes of errors of the language. Their numbers
  are constants of other repositories.\<close>

datatype cj_err =
    CJ_ARGUMENT_MISMATCH | CJ_ARGUMENT_INVALID | CJ_ARGUMENT_NULL | CJ_SLOTID_INVALID | CJ_ERROR_SLOT_ID
  | CJ_DESCRIPTOR_MISMATCH | CJ_WRITE_DESCRIPTOR_TOKEN_FAIL | CJ_WRITE_DATA_FAIL | CJ_READ_DATA_FAIL | CJ_WRITE_REPLY_FAIL
  | CJ_IPC_CONNECT_STUB_FAIL | CJ_REGISTER_CALLBACK_FAIL | CJ_CALLBACK_ALREADY_REGISTERED | CJ_UNINIT | CJ_UNREGISTER_CALLBACK_FAIL
  | CJ_VCARD_FILE_INVALID | CJ_FAIL | CJ_MEMCPY_FAIL | CJ_MEMSET_FAIL | CJ_STRCPY_FAIL
  | CJ_LOCAL_PTR_NULL | CJ_SUBSCRIBE_BROADCAST_FAIL | CJ_PUBLISH_BROADCAST_FAIL | CJ_STRTOINT_FAIL | CJ_ADD_DEATH_RECIPIENT_FAIL
  | CJ_RIL_CMD_FAIL | CJ_DATABASE_WRITE_FAIL | CJ_DATABASE_READ_FAIL | CJ_UNKNOWN_NETWORK_TYPE | CJ_NO_SIM_CARD
  | CJ_AIRPLANE_MODE_ON | CJ_NETWORK_NOT_IN_SERVICE | CJ_PERMISSION_ERR | CJ_ILLEGAL_USE_OF_SYSTEM_API

datatype cj_class =
    CJ_ARGUMENT_ERROR | CJ_SERVICE_ERROR | CJ_SYSTEM_ERROR | CJ_NO_SIM | CJ_AIRPLANE_MODE | CJ_NOT_IN_SERVICE
  | CJ_PERMISSION_DENIED

record 'w cj_env =
  cjC :: "'w client_env"
  cjNum :: "cj_err \<Rightarrow> int"
  cjClass :: "cj_class \<Rightarrow> int"
  CJ_ERROR_NONE :: int
  CJ_ERROR_SERVICE_UNAVAILABLE :: int

definition cj_groups :: "(cj_class \<times> cj_err list) list" where
  "cj_groups =
    [(CJ_ARGUMENT_ERROR, [CJ_ARGUMENT_MISMATCH, CJ_ARGUMENT_INVALID, CJ_ARGUMENT_NULL, CJ_SLOTID_INVALID,
       CJ_ERROR_SLOT_ID]),
     (CJ_SERVICE_ERROR, [CJ_DESCRIPTOR_MISMATCH, CJ_WRITE_DESCRIPTOR_TOKEN_FAIL, CJ_WRITE_DATA_FAIL, CJ_READ_DATA_FAIL,
       CJ_WRITE_REPLY_FAIL, CJ_IPC_CONNECT_STUB_FAIL, CJ_REGISTER_CALLBACK_FAIL, CJ_CALLBACK_ALREADY_REGISTERED,
       CJ_UNINIT, CJ_UNREGISTER_CALLBACK_FAIL]),
     (CJ_SYSTEM_ERROR, [CJ_VCARD_FILE_INVALID, CJ_FAIL, CJ_MEMCPY_FAIL, CJ_MEMSET_FAIL,
       CJ_STRCPY_FAIL, CJ_LOCAL_PTR_NULL, CJ_SUBSCRIBE_BROADCAST_FAIL, CJ_PUBLISH_BROADCAST_FAIL,
       CJ_STRTOINT_FAIL, CJ_ADD_DEATH_RECIPIENT_FAIL, CJ_RIL_CMD_FAIL, CJ_DATABASE_WRITE_FAIL,
       CJ_DATABASE_READ_FAIL, CJ_UNKNOWN_NETWORK_TYPE]),
     (CJ_NO_SIM, [CJ_NO_SIM_CARD]),
     (CJ_AIRPLANE_MODE, [CJ_AIRPLANE_MODE_ON]),
     (CJ_NOT_IN_SERVICE, [CJ_NETWORK_NOT_IN_SERVICE]),
     (CJ_PERMISSION_DENIED, [CJ_PERMISSION_ERR]),
     (CJ_PERMISSION_DENIED, [CJ_ILLEGAL_USE_OF_SYSTEM_API])]"

text \<open>The labels of a switch are distinct, so the first group that has the code is the only one.\<close>

definition ConvertCJErrCode :: "'w cj_env \<Rightarrow> int \<Rightarrow> int" where
  "ConvertCJErrCode K errCode =
     (case find (\<lambda>(c, es). errCode \<in> cjNum K ` set es) cj_groups of
        Some (c, es) \<Rightarrow> cjClass K c | None \<Rightarrow> errCode)"

definition Cj_IsValidSlotId :: "'w cj_env \<Rightarrow> int \<Rightarrow> bool" where
  "Cj_IsValidSlotId K slotId \<longleftrightarrow> FIRST_SLOT (cjC K) \<le> slotId \<and> slotId < SLOT_COUNT (cjC K)"

definition Cj_WrapCellularDataType :: "int \<Rightarrow> int" where
  "Cj_WrapCellularDataType t =
     (if t = STATUS_DISCONNECTED then DATA_STATE_DISCONNECTED
      else if t = STATUS_CONNECTING then DATA_STATE_CONNECTING
      else if t = STATUS_CONNECTED then DATA_STATE_CONNECTED
      else if t = STATUS_SUSPENDED then DATA_STATE_SUSPENDED
      else DATA_STATE_UNKNOWN)"

definition Cj_WrapGetCellularDataFlowTypeType :: "int \<Rightarrow> int" where
  "Cj_WrapGetCellularDataFlowTypeType t =
     (if t = flow_code DATA_FLOW_TYPE_NONE then flow_code DATA_FLOW_TYPE_NONE
      else if t = flow_code DATA_FLOW_TYPE_DOWN then flow_code DATA_FLOW_TYPE_DOWN
      else if t = flow_code DATA_FLOW_TYPE_UP then flow_code DATA_FLOW_TYPE_UP
      else if t = flow_code DATA_FLOW_TYPE_UP_DOWN then flow_code DATA_FLOW_TYPE_UP_DOWN
      else if t = flow_code DATA_FLOW_TYPE_DORMANT then flow_code DATA_FLOW_TYPE_DORMANT
      else flow_code DATA_FLOW_TYPE_NONE)"

definition Cj_Inited :: "'w cj_env \<Rightarrow> 'w client_state \<Rightarrow> bool \<times> 'w client_state" where
  "Cj_Inited K s = (case IsConnect (cjC K) (fst s) of (b, c) \<Rightarrow> (b, (c, snd s)))"

definition Cj_GetDefaultCellularDataSlotId :: "'w cj_env \<Rightarrow> int \<Rightarrow> 'w client_state \<Rightarrow> int \<times> 'w client_state" where
  "Cj_GetDefaultCellularDataSlotId K = Client_GetDefaultCellularDataSlotId (cjC K)"

text \<open>Value and error code.\<close>

definition Cj_GetCellularDataFlowType :: "'w cj_env \<Rightarrow> int \<Rightarrow> 'w client_state \<Rightarrow> (int \<times> int) \<times> 'w client_state" where
  "Cj_GetCellularDataFlowType K junk s = (case Cj_Inited K s of
     (False, s1) \<Rightarrow> ((0, CJ_ERROR_SERVICE_UNAVAILABLE K), s1)
   | (True, s1) \<Rightarrow> (case Client_GetCellularDataFlowType (cjC K) junk s1 of (r, s2) \<Rightarrow>
       ((Cj_WrapGetCellularDataFlowTypeType r, CJ_ERROR_NONE K), s2)))"

definition Cj_GetCellularDataState :: "'w cj_env \<Rightarrow> int \<Rightarrow> 'w client_state \<Rightarrow> (int \<times> int) \<times> 'w client_state" where
  "Cj_GetCellularDataState K junk s = (case Cj_Inited K s of
     (False, s1) \<Rightarrow> ((0, CJ_ERROR_SERVICE_UNAVAILABLE K), s1)
   | (True, s1) \<Rightarrow> (case Client_GetCellularDataState (cjC K) junk s1 of (r, s2) \<Rightarrow>
       ((Cj_WrapCellularDataType r, CJ_ERROR_NONE K), s2)))"

definition cj_flag ::
  "'w cj_env \<Rightarrow> (bool \<Rightarrow> 'w client_state \<Rightarrow> reply \<times> 'w client_state) \<Rightarrow> 'w client_state \<Rightarrow> (bool \<times> int) \<times> 'w client_state" where
  "cj_flag K call s = (case Cj_Inited K s of
     (False, s1) \<Rightarrow> ((False, ConvertCJErrCode K (CJ_ERROR_SERVICE_UNAVAILABLE K)), s1)
   | (True, s1) \<Rightarrow> (case call False s1 of ((r, v), s2) \<Rightarrow>
       (((case v of V_bool b \<Rightarrow> b | _ \<Rightarrow> False), ConvertCJErrCode K r), s2)))"

definition Cj_IsCellularDataEnabled :: "'w cj_env \<Rightarrow> 'w client_state \<Rightarrow> (bool \<times> int) \<times> 'w client_state" where
  "Cj_IsCellularDataEnabled K = cj_flag K (Client_IsCellularDataEnabled (cjC K))"

definition Cj_IsCellularDataRoamingEnabled :: "'w cj_env \<Rightarrow> int \<Rightarrow> 'w client_state \<Rightarrow> (bool \<times> int) \<times> 'w client_state" where
  "Cj_IsCellularDataRoamingEnabled K slotId s =
     (if \<not> Cj_IsValidSlotId K slotId
      then ((False, ConvertCJErrCode K (cjNum K CJ_ERROR_SLOT_ID)), s)
      else cj_flag K (Client_IsCellularDataRoamingEnabled (cjC K) slotId) s)"

definition Cj_GetDefaultCellularDataSimId :: "'w cj_env \<Rightarrow> 'w client_state \<Rightarrow> int \<times> 'w client_state" where
  "Cj_GetDefaultCellularDataSimId K s = (case Client_GetDefaultCellularDataSimId (cjC K) 0 s of ((r, simId), s1) \<Rightarrow> (simId, s1))"

text \<open>The exported functions; \<open>hasErrCode\<close> says that the pointer for the code is not null. The code is
  absent when there is nowhere to write it.\<close>

definition FfiCellularDataGetDefaultCellularDataSlotId :: "'w cj_env \<Rightarrow> int \<Rightarrow> 'w client_state \<Rightarrow> int \<times> 'w client_state" where
  "FfiCellularDataGetDefaultCellularDataSlotId K = Cj_GetDefaultCellularDataSlotId K"

definition FfiCellularDataGetDefaultCellularDataSimId :: "'w cj_env \<Rightarrow> 'w client_state \<Rightarrow> int \<times> 'w client_state" where
  "FfiCellularDataGetDefaultCellularDataSimId K = Cj_GetDefaultCellularDataSimId K"

definition FfiCellularDataGetCellularDataFlowType ::
  "'w cj_env \<Rightarrow> bool \<Rightarrow> int \<Rightarrow> 'w client_state \<Rightarrow> (int \<times> int option) \<times> 'w client_state" where
  "FfiCellularDataGetCellularDataFlowType K hasErrCode junk s =
     (if \<not> hasErrCode then ((-1, None), s)
      else case Cj_GetCellularDataFlowType K junk s of ((v, e), s1) \<Rightarrow> ((v, Some e), s1))"

definition FfiCellularDataGetCellularDataState ::
  "'w cj_env \<Rightarrow> bool \<Rightarrow> int \<Rightarrow> 'w client_state \<Rightarrow> (int \<times> int option) \<times> 'w client_state" where
  "FfiCellularDataGetCellularDataState K hasErrCode junk s =
     (if \<not> hasErrCode then ((-1, None), s)
      else case Cj_GetCellularDataState K junk s of ((v, e), s1) \<Rightarrow> ((v, Some e), s1))"

definition FfiCellularDataIsCellularDataEnabled ::
  "'w cj_env \<Rightarrow> bool \<Rightarrow> 'w client_state \<Rightarrow> (bool \<times> int option) \<times> 'w client_state" where
  "FfiCellularDataIsCellularDataEnabled K hasErrCode s =
     (if \<not> hasErrCode then ((False, None), s)
      else case Cj_IsCellularDataEnabled K s of ((v, e), s1) \<Rightarrow> ((v, Some e), s1))"

definition FfiCellularDataIsCellularDataRoamingEnabled ::
  "'w cj_env \<Rightarrow> int \<Rightarrow> bool \<Rightarrow> 'w client_state \<Rightarrow> (bool \<times> int option) \<times> 'w client_state" where
  "FfiCellularDataIsCellularDataRoamingEnabled K slotId hasErrCode s =
     (if \<not> hasErrCode then ((False, None), s)
      else case Cj_IsCellularDataRoamingEnabled K slotId s of ((v, e), s1) \<Rightarrow> ((v, Some e), s1))"

definition OH_Telephony_GetDefaultCellularDataSlotId ::
  "'w client_env \<Rightarrow> int \<Rightarrow> 'w client_state \<Rightarrow> int \<times> 'w client_state" where
  "OH_Telephony_GetDefaultCellularDataSlotId C = Client_GetDefaultCellularDataSlotId C"

section \<open>The copies\<close>

lemma copies_agree:
  "ani_WrapCellularDataType = WrapCellularDataType" "Cj_WrapCellularDataType = WrapCellularDataType"
  "Cj_WrapGetCellularDataFlowTypeType = WrapGetCellularDataFlowTypeType" "ani_IsValidSlotId = Js_IsValidSlotId"
  by (intro ext, simp add: ani_WrapCellularDataType_def Cj_WrapCellularDataType_def WrapCellularDataType_def
      Cj_WrapGetCellularDataFlowTypeType_def WrapGetCellularDataFlowTypeType_def ani_IsValidSlotId_def Js_IsValidSlotId_def)+

text \<open>Cangjie has no case for the third slot: it takes the last slot of such a device for an ordinary one.\<close>

lemma third_slot_test:
  assumes "cjC K = jsC J" "SLOT_COUNT (jsC J) = CELLDATA_SLOT_ID_3" "FIRST_SLOT (jsC J) = 0" "0 \<le> slotId"
    "slotId \<noteq> CELLDATA_SLOT_ID_3"
  shows "Cj_IsValidSlotId K slotId \<and> \<not> Js_IsValidSlotId J slotId \<longleftrightarrow> slotId = SLOT_COUNT (jsC J) - 1"
  using assms by (auto simp: Cj_IsValidSlotId_def Js_IsValidSlotId_def)

end
