(* ===== verification/Script_Entry.thy ===== *)
theory Script_Entry
  imports Bindings
begin

text \<open>
  The functions that the JavaScript module exports (\<open>RegistCellularData\<close>), from the arguments of a call to
  what the script gets: the checks of the arguments, the object of a query for access points, and the
  dialog of \<open>show_system_apn_settings.cpp\<close>. A value of the engine is opaque (type \<open>'v\<close>); the engine's
  readers of values and the shared utilities are the record \<open>js_engine\<close>. The two halves of an asynchronous
  function run later, on another thread; the state is the one that they find.
\<close>

section \<open>The engine\<close>

datatype js_type = T_number | T_function | T_object

text \<open>\<open>MatchParameters\<close> tests the types of the first arguments; \<open>asyncOk\<close> says that asynchronous work ends normally; \<open>toInt32\<close> and \<open>toBool\<close> fail on other types;
  \<open>textOf\<close> is the text of a value as a buffer of fixed size holds it. \<open>asyncArgs\<close> checks the arguments of
  a query: an error, or the object (of a query that takes one) and whether a callback was given.
  \<open>Handle1ValueCallback\<close> settles a call that has no value but success, \<open>Handle2ValueCallback\<close> one that
  has, each through the callback or not.\<close>

record 'v js_engine =
  MatchParameters :: "'v list \<Rightarrow> js_type list \<Rightarrow> bool"
  toInt32 :: "'v \<Rightarrow> int option"
  toBool :: "'v \<Rightarrow> bool option"
  textOf :: "'v \<Rightarrow> string"
  GetNamedProperty :: "'v \<Rightarrow> string \<Rightarrow> 'v option"
  v_undefined :: 'v
  asyncOk :: bool
  asyncArgs :: "nat \<Rightarrow> 'v list \<Rightarrow> js_value + ('v \<times> bool)"
  queueOk :: bool
  Handle1ValueCallback :: "bool \<Rightarrow> js_outcome \<Rightarrow> js_settle"
  Handle2ValueCallback :: "bool \<Rightarrow> js_outcome \<Rightarrow> js_settle"
  parameterError :: "int \<times> string"
  AssertionError :: "string \<Rightarrow> js_value"
  LastError :: js_value

definition ParameterError :: "'v js_engine \<Rightarrow> js_value" where
  "ParameterError G = J_error (Some (fst (parameterError G))) (snd (parameterError G))"

datatype js_reply = Thrown js_value | Returned js_value | Settled js_settle

type_synonym 'w js_function = "'w client_state \<Rightarrow> js_reply \<times> 'w client_state"

section \<open>Arguments\<close>

text \<open>The number of arguments is the one that the script passed, also when the array is shorter.\<close>

definition MatchCellularDataParameters :: "'v js_engine \<Rightarrow> 'v list \<Rightarrow> bool" where
  "MatchCellularDataParameters G args =
     (if length args = 0 then True
      else if length args = 1 then MatchParameters G args [T_function]
      else False)"

definition MatchEnableCellularDataRoamingParameters :: "'v js_engine \<Rightarrow> 'v list \<Rightarrow> bool" where
  "MatchEnableCellularDataRoamingParameters G args =
     (if length args = 1 then MatchParameters G args [T_number]
      else if length args = 2 then MatchParameters G args [T_number, T_function]
      else False)"

definition MatchGetDefaultCellularDataSlotIdParameters :: "'v js_engine \<Rightarrow> 'v list \<Rightarrow> bool" where
  "MatchGetDefaultCellularDataSlotIdParameters G args =
     (if length args = 0 then True
      else if length args = 1 then MatchParameters G args [T_function]
      else False)"

section \<open>Asynchronous functions\<close>

text \<open>The common pattern, with the way in which the call is settled: an error for arguments that do not match, else both halves.\<close>

definition js_async :: "(bool \<Rightarrow> js_outcome \<Rightarrow> js_settle) \<Rightarrow> 'w js_env \<Rightarrow> bool \<Rightarrow> js_value \<Rightarrow> bool \<Rightarrow> int \<Rightarrow> 'w native
    \<Rightarrow> (js_context \<Rightarrow> js_outcome) \<Rightarrow> 'w js_function" where
  "js_async settle J matched failure callbackGiven slotId native callback s =
     (if \<not> matched then (Thrown failure, s)
      else case js_run J native callback slotId s of
             (outcome, s') \<Rightarrow> (Settled (settle callbackGiven outcome), s'))"

text \<open>Without a slot. The questions for the state, the traffic and the default slot fail an assertion.\<close>

definition js_plain :: "(bool \<Rightarrow> js_outcome \<Rightarrow> js_settle) \<Rightarrow> 'v js_engine \<Rightarrow> 'w js_env \<Rightarrow> js_value \<Rightarrow> 'v list \<Rightarrow> 'w native \<Rightarrow> (js_context \<Rightarrow> js_outcome)
    \<Rightarrow> 'w js_function" where
  "js_plain settle G J failure args = js_async settle J (MatchCellularDataParameters G args) failure (length args = 1) 0"

definition Js_GetCellularDataState :: "'v js_engine \<Rightarrow> 'w js_env \<Rightarrow> int \<Rightarrow> 'v list \<Rightarrow> 'w js_function" where
  "Js_GetCellularDataState G J junk args = js_plain (Handle2ValueCallback G) G J (AssertionError G ''type mismatch'') args
     (NativeGetCellularDataState J junk) (GetCellularDataStateCallback J)"

definition Js_IsCellularDataEnabled :: "'v js_engine \<Rightarrow> 'w js_env \<Rightarrow> 'v list \<Rightarrow> 'w js_function" where
  "Js_IsCellularDataEnabled G J args = js_plain (Handle2ValueCallback G) G J (ParameterError G) args
     (NativeIsCellularDataEnabled J) (IsCellularDataEnabledCallback J)"

definition Js_EnableCellularData :: "'v js_engine \<Rightarrow> 'w js_env \<Rightarrow> 'v list \<Rightarrow> 'w js_function" where
  "Js_EnableCellularData G J args = js_plain (Handle1ValueCallback G) G J (ParameterError G) args
     (NativeEnableCellularData J) (EnableCellularDataCallback J)"

definition Js_DisableCellularData :: "'v js_engine \<Rightarrow> 'w js_env \<Rightarrow> 'v list \<Rightarrow> 'w js_function" where
  "Js_DisableCellularData G J args = js_plain (Handle1ValueCallback G) G J (ParameterError G) args
     (NativeDisableCellularData J) (DisableCellularDataCallback J)"

definition Js_GetDefaultCellularDataSlotId :: "'v js_engine \<Rightarrow> 'w js_env \<Rightarrow> int \<Rightarrow> 'v list \<Rightarrow> 'w js_function" where
  "Js_GetDefaultCellularDataSlotId G J junk args =
     js_async (Handle2ValueCallback G) J (MatchGetDefaultCellularDataSlotIdParameters G args) (AssertionError G ''type mismatch'') (length args = 1) 0
       (NativeGetDefaultCellularDataSlotId J junk) (GetDefaultCellularDataSlotIdCallback J)"

definition Js_GetCellularDataFlowType :: "'v js_engine \<Rightarrow> 'w js_env \<Rightarrow> int \<Rightarrow> 'v list \<Rightarrow> 'w js_function" where
  "Js_GetCellularDataFlowType G J junk args =
     js_async (Handle2ValueCallback G) J (MatchGetDefaultCellularDataSlotIdParameters G args) (AssertionError G ''type mismatch'') (length args = 1) 0
       (NativeGetCellularDataFlowType J junk) (GetCellularDataFlowTypeCallback J)"

text \<open>With a slot, whose field is 0 before it is read. Two of the functions check that the number could be
  read, the others go on with the 0.\<close>

definition js_with_slot :: "(bool \<Rightarrow> js_outcome \<Rightarrow> js_settle) \<Rightarrow> 'v js_engine \<Rightarrow> 'w js_env \<Rightarrow> bool \<Rightarrow> 'v list \<Rightarrow> 'w native \<Rightarrow> (js_context \<Rightarrow> js_outcome)
    \<Rightarrow> 'w js_function" where
  "js_with_slot settle G J checked args native callback s =
     (if \<not> MatchEnableCellularDataRoamingParameters G args then (Thrown (ParameterError G), s)
      else case toInt32 G (hd args) of
             None \<Rightarrow> if checked then (Thrown (LastError G), s)
                     else js_async settle J True (ParameterError G) (length args = 2) 0 native callback s
           | Some slotId \<Rightarrow> js_async settle J True (ParameterError G) (length args = 2) slotId native callback s)"

definition Js_EnableCellularDataRoaming :: "'v js_engine \<Rightarrow> 'w js_env \<Rightarrow> 'v list \<Rightarrow> 'w js_function" where
  "Js_EnableCellularDataRoaming G J args = js_with_slot (Handle1ValueCallback G) G J True args
     (NativeEnableCellularDataRoaming J) (EnableCellularDataRoamingCallback J)"

definition Js_DisableCellularDataRoaming :: "'v js_engine \<Rightarrow> 'w js_env \<Rightarrow> 'v list \<Rightarrow> 'w js_function" where
  "Js_DisableCellularDataRoaming G J args = js_with_slot (Handle1ValueCallback G) G J True args
     (NativeDisableCellularDataRoaming J) (DisableCellularDataRoamingCallback J)"

definition Js_IsCellularDataRoamingEnabled :: "'v js_engine \<Rightarrow> 'w js_env \<Rightarrow> 'v list \<Rightarrow> 'w js_function" where
  "Js_IsCellularDataRoamingEnabled G J args = js_with_slot (Handle2ValueCallback G) G J False args
     (NativeIsCellularDataRoamingEnabled J) (IsCellularDataRoamingEnabledCallback J)"

definition Js_SetDefaultCellularDataSlotId :: "'v js_engine \<Rightarrow> 'w js_env \<Rightarrow> 'v list \<Rightarrow> 'w js_function" where
  "Js_SetDefaultCellularDataSlotId G J args = js_with_slot (Handle1ValueCallback G) G J False args
     (NativeSetDefaultCellularDataSlotId J) (SetDefaultCellularDataSlotIdCallback J)"

text \<open>Only the first argument is tested, however many there are; a callback is never looked at. What the
  script did not pass is undefined.\<close>

definition Js_SetPreferredApn :: "'v js_engine \<Rightarrow> 'w js_env \<Rightarrow> 'v list \<Rightarrow> 'w js_function" where
  "Js_SetPreferredApn G J args =
     (let parameters = take 2 (args @ [v_undefined G, v_undefined G]);
          apnId = (case toInt32 G (hd parameters) of Some i \<Rightarrow> i | None \<Rightarrow> 0)
      in js_async (Handle2ValueCallback G) J (MatchParameters G parameters [T_number]) (ParameterError G) False 0
           (NativeSetPreferApn J apnId) (SetPreferApnCallback J))"

section \<open>Queries\<close>

text \<open>A property that is not there leaves the text as it was, empty; the last four are marked instead.\<close>

definition named_text :: "'v js_engine \<Rightarrow> 'v \<Rightarrow> string \<Rightarrow> string \<Rightarrow> string" where
  "named_text G arg name given = (case GetNamedProperty G arg name of Some v \<Rightarrow> textOf G v | None \<Rightarrow> given)"

definition ApnInfoAnalyzeExt :: "'v js_engine \<Rightarrow> 'v \<Rightarrow> ApnInfo \<Rightarrow> ApnInfo" where
  "ApnInfoAnalyzeExt G arg i =
     i \<lparr>ai_proxy := named_text G arg ''proxy'' NOT_FILLED_IN, ai_mmsproxy := named_text G arg ''mmsproxy'' NOT_FILLED_IN\<rparr>"

definition ApnInfoAnalyze :: "'v js_engine \<Rightarrow> 'v \<Rightarrow> ApnInfo \<Rightarrow> ApnInfo" where
  "ApnInfoAnalyze G arg i = ApnInfoAnalyzeExt G arg
     (i \<lparr>ai_apnName := named_text G arg ''apnName'' (ai_apnName i), ai_apn := named_text G arg ''apn'' (ai_apn i),
         ai_mcc := named_text G arg ''mcc'' (ai_mcc i), ai_mnc := named_text G arg ''mnc'' (ai_mnc i),
         ai_user := named_text G arg ''user'' NOT_FILLED_IN, ai_type := named_text G arg ''type'' NOT_FILLED_IN\<rparr>)"

definition new_ApnInfo :: ApnInfo where
  "new_ApnInfo = \<lparr>ai_apnName = [], ai_apn = [], ai_mcc = [], ai_mnc = [], ai_user = [], ai_type = [], ai_proxy = [],
     ai_mmsproxy = []\<rparr>"

text \<open>The arguments are checked, the work is queued; work that cannot be queued is deleted, and the promise
  stays as it is.\<close>

definition NapiCreateAsyncWork2 ::
  "'v js_engine \<Rightarrow> nat \<Rightarrow> ('v \<Rightarrow> 'w client_state \<Rightarrow> 'r \<times> 'w client_state) \<Rightarrow> (bool \<Rightarrow> bool \<Rightarrow> 'r \<Rightarrow> js_settle)
     \<Rightarrow> 'v list \<Rightarrow> 'w js_function" where
  "NapiCreateAsyncWork2 G limit execute complete args s =
     (case asyncArgs G limit args of
        Inl error \<Rightarrow> (Thrown error, s)
      | Inr (object, callbackGiven) \<Rightarrow>
          if \<not> queueOk G then (Settled Unsettled, s)
          else case execute object s of (r, s') \<Rightarrow> (Settled (complete (asyncOk G) (\<not> callbackGiven) r), s'))"

definition Js_QueryApnIds :: "'v js_engine \<Rightarrow> 'w js_env \<Rightarrow> 'v list \<Rightarrow> 'w js_function" where
  "Js_QueryApnIds G J = NapiCreateAsyncWork2 G 2 (\<lambda>object. NativeQueryApnIds J (ApnInfoAnalyze G object new_ApnInfo))
     (QueryApnIdsCallback J)"

definition Js_QueryAllApns :: "'v js_engine \<Rightarrow> 'w js_env \<Rightarrow> 'v list \<Rightarrow> 'w js_function" where
  "Js_QueryAllApns G J args s =
     (if args \<noteq> [] then (Thrown (ParameterError G), s)
      else NapiCreateAsyncWork2 G 1 (\<lambda>object. NativeQueryAllApn J) (QueryAllApnCallback J) args s)"

definition Js_GetActiveApnName :: "'v js_engine \<Rightarrow> 'w js_env \<Rightarrow> 'v list \<Rightarrow> 'w js_function" where
  "Js_GetActiveApnName G J args s =
     (if args \<noteq> [] then (Thrown (ParameterError G), s)
      else NapiCreateAsyncWork2 G 1 (\<lambda>object. NativeGetActiveApnName J) (GetActiveApnNameCallback J) args s)"

section \<open>Synchronous functions\<close>

text \<open>An error is thrown, anything else returned; \<open>J_null\<close> stands for the null pointer, which the engine takes
  for undefined.\<close>

definition js_sync :: "js_value \<times> 'w client_state \<Rightarrow> js_reply \<times> 'w client_state" where
  "js_sync = (\<lambda>(v, s). (case v of J_error code msg \<Rightarrow> Thrown v | _ \<Rightarrow> Returned v, s))"

definition Js_EnableIntelligenceSwitch_entry :: "'v js_engine \<Rightarrow> 'w js_env \<Rightarrow> 'v list \<Rightarrow> 'w js_function" where
  "Js_EnableIntelligenceSwitch_entry G J args s =
     (if length args = 1
      then case toBool G (hd args) of
             None \<Rightarrow> (Thrown (LastError G), s)
           | Some enable \<Rightarrow> js_sync (Js_EnableIntelligenceSwitch J (Some enable) s)
      else js_sync (Js_EnableIntelligenceSwitch J None s))"

section \<open>Constants\<close>

definition InitEnumDataConnectState :: "(string \<times> int) list" where
  "InitEnumDataConnectState =
     [(''DATA_STATE_UNKNOWN'', DATA_STATE_UNKNOWN), (''DATA_STATE_DISCONNECTED'', DATA_STATE_DISCONNECTED),
      (''DATA_STATE_CONNECTING'', DATA_STATE_CONNECTING), (''DATA_STATE_CONNECTED'', DATA_STATE_CONNECTED),
      (''DATA_STATE_SUSPENDED'', DATA_STATE_SUSPENDED)]"

definition CreateDataConnectState :: "string \<times> (string \<times> int) list" where
  "CreateDataConnectState = (''DataConnectState'',
     [(''DATA_STATE_UNKNOWN'', DATA_STATE_UNKNOWN), (''DATA_STATE_DISCONNECTED'', DATA_STATE_DISCONNECTED),
      (''DATA_STATE_CONNECTING'', DATA_STATE_CONNECTING), (''DATA_STATE_CONNECTED'', DATA_STATE_CONNECTED),
      (''DATA_STATE_SUSPENDED'', DATA_STATE_SUSPENDED)])"

definition InitEnumDataFlowType :: "(string \<times> int) list" where
  "InitEnumDataFlowType =
     [(''DATA_FLOW_TYPE_NONE'', flow_code DATA_FLOW_TYPE_NONE), (''DATA_FLOW_TYPE_DOWN'', flow_code DATA_FLOW_TYPE_DOWN),
      (''DATA_FLOW_TYPE_UP'', flow_code DATA_FLOW_TYPE_UP), (''DATA_FLOW_TYPE_UP_DOWN'', flow_code DATA_FLOW_TYPE_UP_DOWN),
      (''DATA_FLOW_TYPE_DORMANT'', flow_code DATA_FLOW_TYPE_DORMANT)]"

definition CreateDataFlowType :: "string \<times> (string \<times> int) list" where
  "CreateDataFlowType = (''DataFlowType'',
     [(''DATA_FLOW_TYPE_NONE'', flow_code DATA_FLOW_TYPE_NONE), (''DATA_FLOW_TYPE_DOWN'', flow_code DATA_FLOW_TYPE_DOWN),
      (''DATA_FLOW_TYPE_UP'', flow_code DATA_FLOW_TYPE_UP), (''DATA_FLOW_TYPE_UP_DOWN'', flow_code DATA_FLOW_TYPE_UP_DOWN),
      (''DATA_FLOW_TYPE_DORMANT'', flow_code DATA_FLOW_TYPE_DORMANT)])"

text \<open>Every number that a script gets for a state or a type of traffic has a name in the module.\<close>

lemma wrapped_named:
  "WrapCellularDataType t \<in> snd ` set InitEnumDataConnectState"
  "WrapGetCellularDataFlowTypeType t \<in> snd ` set InitEnumDataFlowType"
  by (simp_all add: WrapCellularDataType_def InitEnumDataConnectState_def WrapGetCellularDataFlowTypeType_def
      InitEnumDataFlowType_def)

lemma classes_agree:
  "snd CreateDataConnectState = InitEnumDataConnectState" "snd CreateDataFlowType = InitEnumDataFlowType"
  by (simp_all add: CreateDataConnectState_def InitEnumDataConnectState_def CreateDataFlowType_def InitEnumDataFlowType_def)

section \<open>The dialog\<close>

text \<open>\<open>show_system_apn_settings.cpp\<close>. What the script passes as context, if it is one of the stage model, is
  an ability, an extension of the user interface, or neither; its user interface, if it has one, starts a
  dialog and returns the number of its session, 0 when it failed. \<open>closed\<close> are the sessions that
  the callbacks of the dialogs closed.\<close>

datatype app_context = AbilityContext | UIExtensionContext | OtherContext

record 'v js_dialog =
  isObject :: "'v \<Rightarrow> bool"
  isFunction :: "'v \<Rightarrow> bool"
  IsStageContext :: "'v \<Rightarrow> bool option"
  GetStageModeContext :: "'v \<Rightarrow> app_context option"
  hasUIContent :: "app_context \<Rightarrow> bool"
  CreateModalUIExtension :: "(string \<times> string) list \<Rightarrow> int \<Rightarrow> int"
  IsSimActive :: "int \<Rightarrow> bool"

definition CheckParam :: "'v js_dialog \<Rightarrow> 'v list \<Rightarrow> bool" where
  "CheckParam A args =
     (if length args = 1 then isObject A (args ! 0)
      else if length args = 2 then isObject A (args ! 0) \<and> isFunction A (args ! 1)
      else False)"

definition ParseAbilityContext :: "'v js_dialog \<Rightarrow> 'v \<Rightarrow> app_context option" where
  "ParseAbilityContext A obj =
     (if IsStageContext A obj \<noteq> Some True then None
      else case GetStageModeContext A obj of
             None \<Rightarrow> None
           | Some AbilityContext \<Rightarrow> Some AbilityContext
           | Some UIExtensionContext \<Rightarrow> Some UIExtensionContext
           | Some OtherContext \<Rightarrow> None)"

definition GetUIContent :: "'v js_dialog \<Rightarrow> app_context option \<Rightarrow> bool" where
  "GetUIContent A ctx = (case ctx of None \<Rightarrow> False | Some c \<Rightarrow> hasUIContent A c)"

text \<open>The callback of a dialog keeps the context and the session, 0 until it is set.\<close>

record ModalUICallback =
  mu_sessionId :: int
  mu_baseContext :: "app_context option"

definition SetSessionId :: "int \<Rightarrow> ModalUICallback \<Rightarrow> ModalUICallback" where
  "SetSessionId sessionId b = b \<lparr>mu_sessionId := sessionId\<rparr>"

definition CloseModalUI :: "'v js_dialog \<Rightarrow> ModalUICallback \<Rightarrow> int list \<Rightarrow> int list" where
  "CloseModalUI A b closed = (if \<not> GetUIContent A (mu_baseContext b) then closed else closed @ [mu_sessionId b])"

definition ModalUI_OnRelease :: "'v js_dialog \<Rightarrow> int \<Rightarrow> ModalUICallback \<Rightarrow> int list \<Rightarrow> int list" where
  "ModalUI_OnRelease A releaseCode b closed = CloseModalUI A b closed"

definition StartUiExtensionAbility :: "'v js_dialog \<Rightarrow> (string \<times> string) list \<Rightarrow> int \<Rightarrow> app_context option \<Rightarrow> ModalUICallback option" where
  "StartUiExtensionAbility A want slotId ctx =
     (if \<not> GetUIContent A ctx then None
      else let callback = \<lparr>mu_sessionId = 0, mu_baseContext = ctx\<rparr>;
               sessionId = CreateModalUIExtension A want slotId
           in if sessionId = 0 then None else Some (SetSessionId sessionId callback))"

text \<open>The parameters of the dialog; the slot is a number and stands apart.\<close>

definition dialog_want :: "app_context \<Rightarrow> (string \<times> string) list" where
  "dialog_want ctx =
     [(''package'', ''com.huawei.hmos.callsetting''), (''ability'', ''GeneralCallSettingDialogAbility''),
      (''ability.want.params.uiExtensionType'', ''sysDialog/common''), (''dialogReason'', ''SYSTEM_APN_SETTINGS''),
      (''storeKit.ability.contextType'', if ctx = UIExtensionContext then ''uiExtension'' else ''uiAbility'')]"

text \<open>The promise is settled before it is returned, also when the script gave a callback, which is never
  called. The second component is the callback of the dialog that was started.\<close>

definition ShowSystemApnSettings ::
  "'v js_dialog \<Rightarrow> 'w js_env \<Rightarrow> int \<Rightarrow> 'v list \<Rightarrow> 'w client_state \<Rightarrow> (js_settle \<times> ModalUICallback option) \<times> 'w client_state" where
  "ShowSystemApnSettings A J junk args s =
     (if \<not> CheckParam A args then ((Rejected J_null, None), s)
      else case ParseAbilityContext A (args ! 0) of
             None \<Rightarrow> ((Rejected J_null, None), s)
           | Some ctx \<Rightarrow> (case Client_GetDefaultCellularDataSlotId (jsC J) junk s of (slotId, s1) \<Rightarrow>
               (if \<not> IsSimActive A slotId then ((Rejected J_null, None), s1)
                else case StartUiExtensionAbility A (dialog_want ctx) slotId (Some ctx) of
                       None \<Rightarrow> ((Rejected J_null, None), s1)
                     | Some callback \<Rightarrow> ((Resolved J_null, Some callback), s1))))"

section \<open>The module\<close>

text \<open>The exported functions by name. \<open>junk\<close> is what uninitialised variables hold.\<close>

definition RegistCellularData ::
  "'v js_engine \<Rightarrow> 'v js_dialog \<Rightarrow> 'w js_env \<Rightarrow> int \<Rightarrow> (string \<times> ('v list \<Rightarrow> 'w js_function)) list" where
  "RegistCellularData G A J junk =
    [(''getCellularDataState'', Js_GetCellularDataState G J junk),
     (''isCellularDataEnabled'', Js_IsCellularDataEnabled G J),
     (''isCellularDataEnabledSync'', \<lambda>args s. js_sync (IsCellularDataEnabledSync J s)),
     (''enableCellularData'', Js_EnableCellularData G J),
     (''disableCellularData'', Js_DisableCellularData G J),
     (''enableCellularDataRoaming'', Js_EnableCellularDataRoaming G J),
     (''disableCellularDataRoaming'', Js_DisableCellularDataRoaming G J),
     (''isCellularDataRoamingEnabled'', Js_IsCellularDataRoamingEnabled G J),
     (''isCellularDataRoamingEnabledSync'', \<lambda>args s. js_sync (IsCellularDataRoamingEnabledSync J (ParameterError G) junk s)),
     (''getDefaultCellularDataSlotId'', Js_GetDefaultCellularDataSlotId G J junk),
     (''getDefaultCellularDataSimId'', \<lambda>args s. js_sync (Js_GetDefaultCellularDataSimId J (args = []) s)),
     (''getDefaultCellularDataSlotIdSync'', \<lambda>args s. js_sync (GetDefaultCellularDataSlotIdSync J (args = []) junk s)),
     (''setDefaultCellularDataSlotId'', Js_SetDefaultCellularDataSlotId G J),
     (''getCellularDataFlowType'', Js_GetCellularDataFlowType G J junk),
     (''enableIntelligenceSwitch'', Js_EnableIntelligenceSwitch_entry G J),
     (''getIntelligenceSwitchState'', \<lambda>args s. js_sync (Js_GetIntelligenceSwitchState J (args = []) s)),
     (''queryApnIds'', Js_QueryApnIds G J),
     (''setPreferredApn'', Js_SetPreferredApn G J),
     (''queryAllApns'', Js_QueryAllApns G J),
     (''getActiveApnName'', Js_GetActiveApnName G J),
     (''showSystemApnSettings'', \<lambda>args s. case ShowSystemApnSettings A J junk args s of ((r, b), s') \<Rightarrow> (Settled r, s'))]"

end
