(* ===== verification/Service_Correct.thy ===== *)
theory Service_Correct
  imports Service_Requests
begin

text \<open>
  What holds of the service: who may do what, the type of every answer, and the states it can reach.
  The reachable states are those of the step relation \<open>svc_step\<close>: start and end, requests of
  applications, calls of the callbacks of the net manager, events and progress of the handlers. The
  locale \<open>per_slot\<close> lifts any invariant of a handler to the service; it is interpreted for
  reachability of the handlers.
\<close>

section \<open>Who may call what\<close>





lemmas request_defs = Service_GetIntelligenceSwitchState_def Service_IsCellularDataEnabled_def EnableCellularData_def
  EnableIntelligenceSwitch_def Service_IsCellularDataRoamingEnabled_def EnableCellularDataRoaming_def
  Service_GetCellularDataState_def GetApnState_def Service_GetDataRecoveryState_def
  Service_GetCellularDataFlowType_def Service_HasInternetCapability_def Service_GetDataConnApnAttr_def
  Service_GetDataConnIpType_def Service_GetIfSupportDunApn_def Service_GetDefaultActReportInfo_def
  Service_GetInternalActReportInfo_def GetActiveApnName_def Service_GetDefaultCellularDataSlotId_def
  Service_GetDefaultCellularDataSimId_def Service_SetDefaultCellularDataSlotId_def Service_HandleApnChanged_def
  Service_ClearAllConnections_def Service_IsNeedDoRecovery_def InitCellularDataController_def
  Service_EstablishAllApnsIfConnectable_def CorrectNetSupplierNoAvailable_def GetCellularDataSupplierId_def
  GetSupplierRegisterState_def QueryApnIds_def SetPreferApn_def QueryAllApnInfo_def send_to_core_def
  guarded_to_core_def Service_SendUrspDecodeResult_def Service_SendUePolicySectionIdentifier_def
  Service_SendImsRsdList_def Service_GetNetworkSliceAllowedNssai_def Service_GetNetworkSliceEhplmn_def
  Service_RegisterSimAccountCallback_def Service_UnregisterSimAccountCallback_def








section \<open>The type of the answers\<close>

text \<open>The out-parameter that the interface declares; \<open>None\<close> for a request without one.\<close>

datatype svc_type = T_bool | T_int | T_text | T_attr | T_report | T_ids | T_infos

fun value_type :: "svc_value \<Rightarrow> svc_type option" where
  "value_type V_none = None"
| "value_type (V_bool b) = Some T_bool"
| "value_type (V_int i) = Some T_int"
| "value_type (V_text t) = Some T_text"
| "value_type (V_attr a) = Some T_attr"
| "value_type (V_report r) = Some T_report"
| "value_type (V_ids l) = Some T_ids"
| "value_type (V_infos l) = Some T_infos"

fun out_type :: "svc_request \<Rightarrow> svc_type option" where
  "out_type (Rq_GetIntelligenceSwitchState v) = Some T_bool"
| "out_type (Rq_IsCellularDataEnabled v) = Some T_bool"
| "out_type (Rq_IsCellularDataRoamingEnabled i v) = Some T_bool"
| "out_type Rq_GetCellularDataState = Some T_int"
| "out_type (Rq_GetApnState i ty) = Some T_int"
| "out_type (Rq_GetDataRecoveryState v) = Some T_int"
| "out_type Rq_GetCellularDataFlowType = Some T_int"
| "out_type (Rq_HasInternetCapability i cid) = Some T_int"
| "out_type (Rq_GetDataConnApnAttr i) = Some T_attr"
| "out_type (Rq_GetDataConnIpType i) = Some T_text"
| "out_type Rq_GetIfSupportDunApn = Some T_bool"
| "out_type (Rq_GetDefaultActReportInfo i v) = Some T_report"
| "out_type (Rq_GetInternalActReportInfo i v) = Some T_report"
| "out_type Rq_GetActiveApnName = Some T_text"
| "out_type Rq_GetDefaultCellularDataSlotId = Some T_int"
| "out_type Rq_GetDefaultCellularDataSimId = Some T_int"
| "out_type (Rq_GetCellularDataSupplierId i cap) = Some T_int"
| "out_type (Rq_GetSupplierRegisterState i) = Some T_int"
| "out_type (Rq_QueryApnIds info v) = Some T_ids"
| "out_type (Rq_QueryAllApnInfo v) = Some T_infos"
| "out_type _ = None"

text \<open>The codes: success is zero and no error is.\<close>

definition codes_ok :: "'db svc_env \<Rightarrow> bool" where
  "codes_ok E \<longleftrightarrow> (\<forall>e. sCode E e = 0 \<longleftrightarrow> e = Tel TELEPHONY_ERR_SUCCESS)"

text \<open>The requests that leave their out-parameter as it was although they succeed.\<close>

fun forgets :: "'db service \<Rightarrow> svc_request \<Rightarrow> bool" where
  "forgets s Rq_GetCellularDataFlowType = True"
| "forgets s (Rq_GetInternalActReportInfo i v) = True"
| "forgets s (Rq_GetDataRecoveryState v) = (sv_controllers s = [])"
| "forgets s _ = False"

lemma call_controller_reply:
  assumes "call_controller i r f s = Some (r', s')"
  obtains "r' = r" "s' = s" "GetCellularDataController i s = None"
  | c c' where "GetCellularDataController i s = Some c" "f (sv_enter s c) = Some (r', c')" "s' = sv_leave i c' s"
  using assms by (auto simp: call_controller_def bind_Some_iff split: option.splits)

definition answer_ok :: "'db service \<Rightarrow> svc_request \<Rightarrow> reply \<Rightarrow> bool" where
  "answer_ok s rq a \<longleftrightarrow> (snd a = V_none \<or> value_type (snd a) = out_type rq)
     \<and> (fst a = 0 \<and> \<not> forgets s rq \<longrightarrow> value_type (snd a) = out_type rq) \<and> (forgets s rq \<longrightarrow> snd a = V_none)"

lemma answer_none: "answer_ok s rq (r, V_none) \<longleftrightarrow> (r = 0 \<and> \<not> forgets s rq \<longrightarrow> out_type rq = None)"
  by (auto simp: answer_ok_def)

lemma answer_some: "answer_ok s rq (r, v) \<longleftrightarrow> value_type v = out_type rq \<and> \<not> forgets s rq" if "v \<noteq> V_none"
  using that by (auto simp: answer_ok_def)

lemma call_controller_answer:
  assumes "call_controller i r f s = Some (a, s')" "answer_ok s rq r" "\<And>c c'. f c = Some (a, c') \<Longrightarrow> answer_ok s rq a"
  shows "answer_ok s rq a"
  using call_controller_reply [OF assms(1)] assms(2,3) by metis

lemma ask_controller_answer:
  assumes "answer_ok s rq r" "\<And>c. answer_ok s rq (f c)"
  shows "answer_ok s rq (ask_controller i r f s)"
  using assms by (auto simp: ask_controller_def split: option.splits)

lemma ask_controller_outcome:
  assumes "ask_controller i (Some r) f s = Some a" "answer_ok s rq r" "\<And>c. f c = Some a \<Longrightarrow> answer_ok s rq a"
  shows "answer_ok s rq a"
  using assms by (auto simp: ask_controller_def split: option.splits)

lemma serve_answer:
  assumes "codes_ok E" "serve E rq s = Some (a, s')"
  shows "answer_ok s rq a"
proof -
  have c: "sCode E e \<noteq> 0" if "e \<noteq> Tel TELEPHONY_ERR_SUCCESS" for e using assms(1) that by (simp add: codes_ok_def)
  show ?thesis using assms(2)
    by (cases rq; hypsubst; simp only: serve.simps option.inject prod.inject; (elim conjE; hypsubst)?;
      (auto simp: request_defs Let_def answer_none answer_some c svc_code_def bind_Some_iff split: if_splits prod.splits list.splits option.splits
        elim!: call_controller_answer ask_controller_outcome intro!: ask_controller_answer)?)
qed

text \<open>C20: What a request leaves in its out-parameter has the type that the interface declares. A request
  without an out-parameter has no value; one with an out-parameter either leaves it alone or leaves a
  value of its type in it, and it does the latter when its code is success. Three requests are
  exceptions: the flow type is returned as the code and the report on the internal role is dropped, so
  their out-parameters are never touched, and the state of the recovery is assigned only while some
  slot has a controller, so that without one it is left alone with the code of success (finding).\<close>

theorem service_answers_typed:
  assumes "codes_ok E" "serve E rq s = Some ((code, value), s')"
  shows "(value = V_none \<or> value_type value = out_type rq)
    \<and> (code = 0 \<and> \<not> forgets s rq \<longrightarrow> value_type value = out_type rq) \<and> (forgets s rq \<longrightarrow> value = V_none)"
  using serve_answer [OF assms] by (simp add: answer_ok_def)

section \<open>Reachable states\<close>

text \<open>An invariant of the handlers, lifted to controllers and to the service.\<close>

definition ctl_ok :: "(int \<Rightarrow> 'db handler \<Rightarrow> bool) \<Rightarrow> int \<Rightarrow> 'db controller \<Rightarrow> bool" where
  "ctl_ok P i c \<longleftrightarrow> ctl_slotId c = i \<and> (\<forall>h. ctl_handler c = Some h \<longrightarrow> P i h)"

definition svc_ok :: "(int \<Rightarrow> 'db handler \<Rightarrow> bool) \<Rightarrow> 'db service \<Rightarrow> bool" where
  "svc_ok P s \<longleftrightarrow> map_wf (sv_controllers s)
     \<and> (\<forall>i c. map_of (sv_controllers s) i = Some c \<longrightarrow> 0 \<le> i \<and> ctl_ok P i c)"

text \<open>What may happen to the service. \<open>ability\<close> is the listener of a controller, \<open>handler\<close> an event or
  a call that reaches the handler of a slot from below.\<close>

inductive svc_step :: "'db svc_env \<Rightarrow> 'db service \<Rightarrow> 'db service \<Rightarrow> bool" for E where
  start: "OnStart E s = Some s' \<Longrightarrow> svc_step E s s'"
| stop: "svc_step E s (OnStop s)"
| request: "serve E rq s = Some (r, s') \<Longrightarrow> svc_step E s s'"
| request_net: "Service_RequestNet E nr s = Some (r, s') \<Longrightarrow> svc_step E s s'"
| release_net: "Service_ReleaseNet E nr s = Some (r, s') \<Longrightarrow> svc_step E s s'"
| strategy: "StrategySwitch E i b s = Some (r, s') \<Longrightarrow> svc_step E s s'"
| dsds: "Service_ChangeConnectionForDsds E i b s = Some (r, s') \<Longrightarrow> svc_step E s s'"
| dispatch: "DispatchEvent E i ev s = Some s' \<Longrightarrow> svc_step E s s'"
| add_ability: "map_of (sv_controllers s) i = Some c \<Longrightarrow>
    svc_step E s (sv_leave i (OnAddSystemAbility (sC E) (sW E i) ab (sv_enter s c)) s)"
| remove_ability: "map_of (sv_controllers s) i = Some c \<Longrightarrow>
    svc_step E s (sv_leave i (OnRemoveSystemAbility ab (sv_enter s c)) s)"
| handler: "map_of (sv_controllers s) i = Some c \<Longrightarrow> ctl_handler (sv_enter s c) = Some h \<Longrightarrow> hd_step (sW E i) h h' \<Longrightarrow>
    svc_step E s (sv_leave i ((sv_enter s c) \<lparr>ctl_handler := Some h'\<rparr>) s)"

inductive svc_reach :: "'db service \<Rightarrow> bool" where
  init: "svc_reach (new_service db ag)"
| step: "svc_reach s \<Longrightarrow> svc_step E s s' \<Longrightarrow> svc_reach s'"

subsection \<open>Every operation is a step of the handler\<close>

lemma step_frame:
  "hd_step W h (h \<lparr>hd_agent := ag, hd_db := db\<rparr>)" "hd_step W h (h \<lparr>hd_agent := ag\<rparr>)" "hd_step W h (hd_send ev d h)"
proof -
  note o = hd_step.others [where s = h and W = W and ms = "hd_machines h" and tb = "hd_tables h"
      and mo = "hd_monitor h" and ic = "hd_incall h"]
  show "hd_step W h (h \<lparr>hd_agent := ag, hd_db := db\<rparr>)" using o [where ag = ag and db = db and q = "hd_queue h"] by simp
  show "hd_step W h (h \<lparr>hd_agent := ag\<rparr>)" using o [where ag = ag and db = "hd_db h" and q = "hd_queue h"] by simp
  show "hd_step W h (hd_send ev d h)"
    using o [where ag = "hd_agent h" and db = "hd_db h" and q = "hd_queue (hd_send ev d h)"] by (simp add: hd_send_def)
qed

lemma step_query:
  "hd_step W h (snd (snd (IsCellularDataEnabled W given h)))"
  "hd_step W h (snd (snd (IsCellularDataRoamingEnabled W given h)))"
  "hd_step W h (Handler_ApnChanged h)"
proof -
  show "hd_step W h (snd (snd (IsCellularDataEnabled W given h)))"
    by (cases "IsCellularDataEnabled W given h") (auto intro: hd_step.query_data)
  have "snd (snd (IsCellularDataRoamingEnabled W given h)) = snd (roaming_enabled W h)"
    by (auto simp: roaming_enabled_def IsCellularDataRoamingEnabled_def split: prod.splits)
  then show "hd_step W h (snd (snd (IsCellularDataRoamingEnabled W given h)))"
    by (cases "roaming_enabled W h") (auto intro: hd_step.query_roaming)
  show "hd_step W h (Handler_ApnChanged h)" by (simp add: Handler_ApnChanged_def step_frame)
qed

text \<open>The registration of suppliers calls the net manager only.\<close>

lemma register_all_effects:
  "set xs \<subseteq> range Net \<Longrightarrow> register_all Q e i sus (b, m, xs) = (sus', b', m', xs') \<Longrightarrow> set xs' \<subseteq> range Net"
proof (induction sus arbitrary: b m xs sus')
  case (Cons su sus)
  obtain su1 b1 m1 x1 where one: "register_one Q e i su (b, m, xs) = (su1, b1, m1, x1)"
    by (cases "register_one Q e i su (b, m, xs)")
  have "set x1 \<subseteq> range Net" using one Cons.prems(1)
    by (auto simp: register_one_def Let_def split: if_splits option.splits)
  with Cons one show ?case by (fastforce split: prod.splits)
qed simp

lemma register_effects:
  assumes "RegisterNetSupplier Q e i ag = (b, ag', es)" "x \<in> set es"
  shows "\<not> starts (Eff x)"
proof -
  from assms(1) obtain sus b' m' where "register_all Q e i (netSuppliers ag) (False, slotIdSimId ag, []) = (sus, b', m', es)"
    by (auto simp: RegisterNetSupplier_def split: prod.splits)
  from register_all_effects [OF _ this] assms(2) show ?thesis by auto
qed

locale per_slot =
  fixes P :: "int \<Rightarrow> 'db handler \<Rightarrow> bool"
  assumes P_init: "Handler_Init W i db ag = Some h \<Longrightarrow> P i h"
    and P_step: "P i h \<Longrightarrow> hd_step W h h' \<Longrightarrow> P i h'"
begin

lemmas P_steps = P_step [OF _ hd_step.request] P_step [OF _ hd_step.release] P_step [OF _ hd_step.data_switch]
  P_step [OF _ hd_step.intelligence_switch] P_step [OF _ hd_step.roaming_switch] P_step [OF _ hd_step.recovery]
  P_step [OF _ hd_step.report] P_step [OF _ hd_step.update_links] P_step [OF _ hd_step.observers]
  P_step [OF _ hd_step.query_intelligence] P_step [OF _ hd_step.calls]
  step_query [THEN P_step [rotated]] step_frame [THEN P_step [rotated]]

lemmas P_runs = P_step [OF _ hd_step.policy] P_step [OF _ hd_step.dsds] P_step [OF _ hd_step.clear]

lemma with_handler_ok:
  assumes "ctl_ok P i c" "\<And>h. P i h \<Longrightarrow> P i (snd (f h))" "with_handler r f c = (x, c')"
  shows "ctl_ok P i c'"
  using assms by (fastforce simp: with_handler_def ctl_ok_def split: option.splits prod.splits dest: assms(2))

lemma run_handler_ok:
  assumes "ctl_ok P i c" "\<And>h h'. P i h \<Longrightarrow> f h = Some h' \<Longrightarrow> P i h'" "run_handler r r' f c = Some (x, c')"
  shows "ctl_ok P i c'"
  using assms by (auto simp: run_handler_def ctl_ok_def bind_Some_iff split: option.splits)

lemma shared_ok: "ctl_ok P i c \<Longrightarrow> ctl_ok P i (sv_enter s c)"
  by (auto simp: ctl_ok_def sv_enter_def intro: P_steps)

lemma emit_ok [simp]: "ctl_ok P i (ctl_emit cs c) \<longleftrightarrow> ctl_ok P i c"
  by (simp add: ctl_ok_def ctl_emit_def)

lemma controller_operations:
  assumes "ctl_ok P i c"
  shows "Ctl_GetIntelligenceSwitchState W v c = (x1, c') \<Longrightarrow> ctl_ok P i c'"
    and "Ctl_IsCellularDataEnabled W v c = (x1, c') \<Longrightarrow> ctl_ok P i c'"
    and "Ctl_IsCellularDataRoamingEnabled W v c = (x1, c') \<Longrightarrow> ctl_ok P i c'"
    and "Ctl_SetCellularDataEnable W v c = (x2, c') \<Longrightarrow> ctl_ok P i c'"
    and "Ctl_SetIntelligenceSwitchEnable W v c = (x2, c') \<Longrightarrow> ctl_ok P i c'"
    and "Ctl_SetCellularDataRoamingEnabled W v c = (x2, c') \<Longrightarrow> ctl_ok P i c'"
    and "Ctl_GetDefaultActReportInfo W g c = (x3, c') \<Longrightarrow> ctl_ok P i c'"
    and "Ctl_GetInternalActReportInfo W g c = (x3, c') \<Longrightarrow> ctl_ok P i c'"
    and "Ctl_HandleApnChanged c = (v, c') \<Longrightarrow> ctl_ok P i c'"
    and "Ctl_EstablishAllApnsIfConnectable c = (v, c') \<Longrightarrow> ctl_ok P i c'"
    and "Ctl_UpdateNetworkInfo c = (v, c') \<Longrightarrow> ctl_ok P i c'"
    and "Ctl_RequestNet W r c = (v, c') \<Longrightarrow> ctl_ok P i c'"
    and "Ctl_ReleaseNet W r c = (v, c') \<Longrightarrow> ctl_ok P i c'"
    and "ctl_ok P i (Ctl_IsNeedDoRecovery W v c)"
    and "Ctl_SetPolicyDataOn W v c = Some (y, c') \<Longrightarrow> ctl_ok P i c'"
    and "Ctl_ClearAllConnections W reason c = Some (y, c') \<Longrightarrow> ctl_ok P i c'"
    and "Ctl_ChangeConnectionForDsds W v c = Some (y, c') \<Longrightarrow> ctl_ok P i c'"
  by (simp_all only: Ctl_GetIntelligenceSwitchState_def Ctl_IsCellularDataEnabled_def Ctl_IsCellularDataRoamingEnabled_def
      Ctl_SetCellularDataEnable_def Ctl_SetIntelligenceSwitchEnable_def Ctl_SetCellularDataRoamingEnabled_def
      Ctl_GetDefaultActReportInfo_def Ctl_GetInternalActReportInfo_def Ctl_HandleApnChanged_def
      Ctl_EstablishAllApnsIfConnectable_def Ctl_UpdateNetworkInfo_def Ctl_RequestNet_def Ctl_ReleaseNet_def
      Ctl_IsNeedDoRecovery_def Ctl_SetPolicyDataOn_def Ctl_ClearAllConnections_def Ctl_ChangeConnectionForDsds_def
      GetDefaultActReportInfo_def GetInternalActReportInfo_def case_prod_beta)
    ((erule with_handler_ok [OF assms, rotated] run_handler_ok [OF assms, rotated]
      | rule with_handler_ok [OF assms _ surjective_pairing]);
      simp?; (rule P_steps; assumption | erule (1) P_runs))+

lemmas operations_ok = controller_operations(1-13,15-17) [rotated]

lemma new_ok: "ctl_ok P i (new_controller i)"
  by (simp add: ctl_ok_def new_controller_def)

lemma events_ok: "ctl_ok P i c \<Longrightarrow> ctl_ok P i (RegisterEvents c)"
proof (cases "ctl_handler c")
  case (Some h)
  assume "ctl_ok P i c"
  then have "ctl_ok P i (c \<lparr>ctl_handler := Some (hd_emit [ReportEventToChr (ctl_slotId c) 0] h)\<rparr>)"
    using Some P_step [OF _ hd_step.calls] by (simp add: ctl_ok_def starts_def)
  then show ?thesis by (auto simp: RegisterEvents_def Some Let_def)
qed (simp add: RegisterEvents_def)

lemma register_ok:
  assumes "AsynchronousRegister ce W db ag c = Some c'" "ctl_ok P i c"
  shows "ctl_ok P i c'"
proof (cases "IsInitFinished ce")
  case True
  then obtain h where h: "Handler_Init W (ctl_slotId c) db ag = Some h" "c' = RegisterEvents
      (if samgrAvailable ce then ctl_emit (map SubscribeSystemAbility system_abilities) (c \<lparr>ctl_handler := Some h, ctl_listener := True\<rparr>)
       else c \<lparr>ctl_handler := Some h\<rparr>)"
    using assms(1) by (auto simp: AsynchronousRegister_def Ctl_Init_def bind_Some_iff Let_def split: if_splits)
  from P_init [OF h(1)] assms(2) show ?thesis unfolding h(2) by (intro events_ok) (auto simp: ctl_ok_def ctl_emit_def)
next
  case False
  with assms show ?thesis by (auto simp: AsynchronousRegister_def ctl_ok_def)
qed

lemma process_ok: "Ctl_ProcessEvent ce W db ag ev c = Some c' \<Longrightarrow> ctl_ok P i c \<Longrightarrow> ctl_ok P i c'"
  by (auto simp: Ctl_ProcessEvent_def intro: register_ok split: option.splits ctl_event.splits)

lemma remove_ability_ok: "ctl_ok P i c \<Longrightarrow> ctl_ok P i (OnRemoveSystemAbility ab c)"
  by (auto simp: OnRemoveSystemAbility_def split: option.splits)

lemma put_handler_ok: "ctl_ok P i c \<Longrightarrow> ctl_handler c = Some h \<Longrightarrow> (P i h \<Longrightarrow> P i h') \<Longrightarrow> ctl_ok P i (c \<lparr>ctl_handler := Some h'\<rparr>)"
  by (simp add: ctl_ok_def)

lemma add_ability_ok:
  assumes "ctl_ok P i c"
  shows "ctl_ok P i (OnAddSystemAbility ce W ab c)"
proof (cases "ctl_handler c")
  case (Some h)
  show ?thesis
  proof (cases ab)
    case COMM_NET_CONN_MANAGER
    obtain b ag es where r: "RegisterNetSupplier (wP W) (wE W) (ctl_slotId c) (hd_agent h) = (b, ag, es)"
      by (cases "RegisterNetSupplier (wP W) (wE W) (ctl_slotId c) (hd_agent h)")
    have "\<forall>x \<in> set (map Eff es). \<not> starts x" using register_effects [OF r] by auto
    then show ?thesis using Some r COMM_NET_CONN_MANAGER
      by (auto simp: OnAddSystemAbility_def intro!: put_handler_ok [OF assms Some] P_step [OF _ hd_step.update_links]
          P_step [OF _ hd_step.calls] intro: P_steps)
  next
    case DISTRIBUTED_KV_DATA
    then show ?thesis using Some
      by (auto simp: OnAddSystemAbility_def intro!: put_handler_ok [OF assms Some]) (rule P_steps; rule P_steps; assumption)
  qed (use assms Some in \<open>auto simp: OnAddSystemAbility_def\<close>)
qed (use assms in \<open>simp add: OnAddSystemAbility_def\<close>)

subsection \<open>The service\<close>

lemma svc_emit_ok [simp]: "svc_ok P (sv_emit cs s) \<longleftrightarrow> svc_ok P s"
  by (simp add: svc_ok_def sv_emit_def)

lemma leave_ok: "svc_ok P s \<Longrightarrow> ctl_ok P i c \<Longrightarrow> 0 \<le> i \<Longrightarrow> svc_ok P (sv_leave i c s)"
  by (auto simp: svc_ok_def sv_leave_def Let_def map_put_wf map_of_put split: option.splits if_splits)

lemma lookup_ok: "svc_ok P s \<Longrightarrow> map_of (sv_controllers s) i = Some c \<Longrightarrow> ctl_ok P i (sv_enter s c) \<and> 0 \<le> i"
  using shared_ok by (auto simp: svc_ok_def)

lemma call_ok:
  assumes "call_controller i r f s = Some (x, s')" "svc_ok P s"
    "\<And>c c' y. ctl_ok P i c \<Longrightarrow> f c = Some (y, c') \<Longrightarrow> ctl_ok P i c'"
  shows "svc_ok P s'"
  using assms(1)
proof (cases rule: call_controller_reply)
  case (2 c c')
  then have "map_of (sv_controllers s) i = Some c" "0 \<le> i" by (auto simp: GetCellularDataController_def split: if_splits)
  with 2 assms(3) show ?thesis using lookup_ok [OF assms(2)] leave_ok [OF assms(2)] by blast
qed (use assms(2) in simp)

lemma destroy_all_ok [simp]: "svc_ok P (fold (\<lambda>x. destroy_controller E (snd x)) xs s) \<longleftrightarrow> svc_ok P s"
  by (induction xs arbitrary: s) (simp_all add: destroy_controller_def)

lemma clear_ok: "svc_ok P (ClearCellularDataControllers E s)"
  by (simp add: svc_ok_def ClearCellularDataControllers_def map_wf_def)

lemma add_controller_ok:
  assumes "AddCellularDataControllers E i c s = Some s'" "svc_ok P s" "ctl_ok P i c" "0 \<le> i"
  shows "svc_ok P s'"
proof -
  obtain c1 where c1: "ctl_ok P i c1" and s': "\<exists>db. s' = (case map_of (sv_controllers s) i of
         None \<Rightarrow> s \<lparr>sv_controllers := map_put i c1 (sv_controllers s), sv_db := db\<rparr>
       | Some old \<Rightarrow> destroy_controller E c1 (sv_emit (map CtlCall (ctl_fx c1)) (s \<lparr>sv_db := db\<rparr>)))"
    using assms(1,3) by (auto simp: AddCellularDataControllers_def bind_Some_iff Let_def dest: register_ok split: if_splits)
  from s' assms(2,4) c1 show ?thesis
    by (auto simp: svc_ok_def destroy_controller_def sv_emit_def map_put_wf map_of_put split: option.splits if_splits)
qed

lemma add_supplier_ok: "Service_AddNetSupplier E i caps s = Some s' \<Longrightarrow> svc_ok P s \<Longrightarrow> 0 \<le> i \<Longrightarrow> svc_ok P s'"
  by (auto simp: Service_AddNetSupplier_def bind_Some_iff dest!: add_controller_ok [OF _ _ new_ok]) (simp add: svc_ok_def)

lemma module_ok: "InitModule E s = Some s' \<Longrightarrow> svc_ok P s'"
proof -
  assume "InitModule E s = Some s'"
  then obtain s2 where f: "foldo (\<lambda>i t. if i = CELLULAR_DATA_VSIM_SLOT_ID then Some t
        else Service_AddNetSupplier E i (service_capabilities (svc_platform E)) t) [0..SIM_SLOT_COUNT_MD E - 1]
        (ClearCellularDataControllers E (s \<lparr>sv_agent := ClearNetSupplier (sv_agent s)\<rparr>)) = Some s2"
    and s': "s' = s2 \<or> Service_AddNetSupplier E CELLDATA_SLOT_ID_3 (service_capabilities (svc_platform E)) s2 = Some s'"
    by (auto simp: InitModule_def bind_Some_iff Let_def split: if_splits)
  have "svc_ok P s2" using f clear_ok by (rule foldo_invariant) (auto split: if_splits dest: add_supplier_ok)
  with s' show "svc_ok P s'" by (auto dest: add_supplier_ok)
qed

lemma register_slot_ok: "register_slot E i s = Some s' \<Longrightarrow> svc_ok P s \<Longrightarrow> svc_ok P s'"
  using lookup_ok by (fastforce simp: register_slot_def bind_Some_iff split: option.splits intro: leave_ok dest: register_ok)

lemma start_ok:
  assumes "OnStart E s = Some s'" "svc_ok P s"
  shows "svc_ok P s'"
proof (cases "sv_running s")
  case False
  with assms obtain ok s1 where i: "Service_Init E s = Some (ok, s1)" "s' = (if ok then s1 \<lparr>sv_running := True\<rparr> else s1)"
    by (auto simp: OnStart_def bind_Some_iff)
  then obtain s2 where m: "InitModule E s = Some s2"
    and r: "s1 = s2 \<or> (\<exists>s3. foldo (register_slot E) (map fst (sv_controllers s2)) (s2 \<lparr>sv_registered := True\<rparr>) = Some s3
        \<and> s1 = s3 \<lparr>sv_initSuccess := True\<rparr>)"
    by (auto simp: Service_Init_def bind_Some_iff split: if_splits)
  have "svc_ok P s2" using module_ok [OF m] .
  then have "svc_ok P (s2 \<lparr>sv_registered := True\<rparr>)" by (simp add: svc_ok_def)
  then have "svc_ok P s3" if "foldo (register_slot E) (map fst (sv_controllers s2)) (s2 \<lparr>sv_registered := True\<rparr>) = Some s3" for s3
    by (rule foldo_invariant [OF that]) (rule register_slot_ok)
  with r \<open>svc_ok P s2\<close> have "svc_ok P s1" by (auto simp: svc_ok_def)
  with i(2) show ?thesis by (simp add: svc_ok_def)
qed (use assms in \<open>simp add: OnStart_def\<close>)

lemma stop_ok: "svc_ok P s \<Longrightarrow> svc_ok P (OnStop s)"
  by (simp add: OnStop_def UnRegisterAllNetSpecifier_def split: prod.splits) (simp add: svc_ok_def)

lemma dispatch_ok: "DispatchEvent E i ev s = Some s' \<Longrightarrow> svc_ok P s \<Longrightarrow> svc_ok P s'"
  by (auto simp: DispatchEvent_def bind_Some_iff elim!: call_ok dest: process_ok)

lemma net_requests_ok:
  "Service_RequestNet E nr s = Some (r, s') \<Longrightarrow> svc_ok P s \<Longrightarrow> svc_ok P s'"
  "Service_ReleaseNet E nr s = Some (r, s') \<Longrightarrow> svc_ok P s \<Longrightarrow> svc_ok P s'"
  "StrategySwitch E i b s = Some (r, s') \<Longrightarrow> svc_ok P s \<Longrightarrow> svc_ok P s'"
  "Service_ChangeConnectionForDsds E i b s = Some (r, s') \<Longrightarrow> svc_ok P s \<Longrightarrow> svc_ok P s'"
  by (auto simp: Service_RequestNet_def Service_ReleaseNet_def StrategySwitch_def Service_ChangeConnectionForDsds_def
      bind_Some_iff split: option.splits prod.splits elim!: call_ok operations_ok)

lemma serve_ok: "serve E rq s = Some (r, s') \<Longrightarrow> svc_ok P s \<Longrightarrow> svc_ok P s'"
  by (cases rq; hypsubst; simp only: serve.simps option.inject prod.inject)
    (auto simp: request_defs Let_def bind_Some_iff controller_operations(14)
      split: if_splits prod.splits elim!: call_ok dest: operations_ok add_supplier_ok)

lemma svc_step_ok: "svc_step E s s' \<Longrightarrow> svc_ok P s \<Longrightarrow> svc_ok P s'"
proof (induction rule: svc_step.induct)
  case (add_ability s i c ab)
  then show ?case using lookup_ok add_ability_ok leave_ok by blast
next
  case (remove_ability s i c ab)
  then show ?case using lookup_ok remove_ability_ok leave_ok by blast
next
  case (handler s i c h h')
  from lookup_ok [OF handler(4,1)] handler(2,3) P_step
  have "ctl_ok P i ((sv_enter s c) \<lparr>ctl_handler := Some h'\<rparr>)" by (auto simp: ctl_ok_def)
  with lookup_ok [OF handler(4,1)] handler(4) show ?case by (blast intro: leave_ok)
qed (auto intro: start_ok stop_ok serve_ok net_requests_ok dispatch_ok)

lemma svc_reach_ok: "svc_reach s \<Longrightarrow> svc_ok P s"
proof (induction rule: svc_reach.induct)
  case (init db ag)
  show ?case by (simp add: svc_ok_def new_service_def map_wf_def)
qed (rule svc_step_ok)

end

text \<open>The interpretation: the handler of every slot is reachable, and belongs to that slot.\<close>

definition slot_reach :: "int \<Rightarrow> 'db handler \<Rightarrow> bool" where
  "slot_reach i h \<longleftrightarrow> hd_reach h \<and> hd_slotId h = i"

lemma init_result:
  obtains h where "Handler_Init W i db ag = Some h" "hd_slotId h = i"
proof -
  obtain s where s: "GetConfigurationFor5G W (new_handler W i db ag) = Some s" "same_roles (new_handler W i db ag) s"
    using config_calm [OF new_handler_calm(1) [where W = W and slotId = i and db = db and ag = ag]] by blast
  have "hd_slotId (new_handler W i db ag) = i" by (rule new_handler_fields)
  with s that show thesis by (auto simp: Handler_Init_def same_roles_def SetRilLinkBandwidths_def)
qed

lemma init_slot: "Handler_Init W i db ag = Some h \<Longrightarrow> hd_slotId h = i"
  by (metis init_result option.inject)

lemma step_slot: "hd_reach h \<Longrightarrow> hd_step W h h' \<Longrightarrow> hd_slotId h' = hd_slotId h"
  using kr.rel_step hd_reach_inv(1) by (fastforce simp: keeps_roles_def hd_shape_def)

interpretation slots: per_slot slot_reach
  by unfold_locales (auto simp: slot_reach_def init_slot step_slot intro: hd_reach.intros)

text \<open>C5: In every state that the service can reach, the controller under a slot's key belongs to that
  slot, and its handler, when it has one, is a reachable handler of that slot: everything that is shown
  of reachable handlers, the consistency of their tables and the role table, holds of each slot,
  whatever sequence of requests, events and restarts led there.\<close>

theorem service_handlers_reachable:
  assumes "svc_reach s" "map_of (sv_controllers s) slotId = Some c"
  shows "0 \<le> slotId \<and> ctl_slotId c = slotId
    \<and> (\<forall>h. ctl_handler c = Some h \<longrightarrow> hd_reach h \<and> hd_slotId h = slotId \<and> hd_inv h)"
  using slots.svc_reach_ok [OF assms(1)] assms(2) hd_reach_inv(1)
  unfolding svc_ok_def ctl_ok_def slot_reach_def by blast

section \<open>A service with two slots\<close>

definition sample_svc_env :: "(string \<times> string) list svc_env" where
  "sample_svc_env = \<lparr>sW = (\<lambda>i. sample_world), sC = \<lparr>IsInitFinished = True, samgrAvailable = True, telePowerFeature = False\<rparr>,
     sR = sample_rdb, sCode = (\<lambda>e. if e = Tel TELEPHONY_ERR_SUCCESS then 0 else if e = PERMISSION_ERR then 201 else -1),
     CheckCallerIsSystemApp = True, CheckPermission = (\<lambda>p. True), publishOk = True, SIM_SLOT_COUNT_MD = 2,
     coreResult = (\<lambda>r. 0), coreDefaultSimId = (0, 1), GetTokenID = 537\<rparr>"

definition sample_service :: "(string \<times> string) list service" where
  "sample_service = new_service [] \<lparr>netSuppliers = [], slotIdSimId = []\<rparr>"

lemma sample_codes: "codes_ok sample_svc_env"
  by (simp add: codes_ok_def sample_svc_env_def)

text \<open>The core service is not ready when the service starts; the handler of slot 1 comes later.\<close>

definition sample_early_env :: "(string \<times> string) list svc_env" where
  "sample_early_env = sample_svc_env \<lparr>sC := (sC sample_svc_env) \<lparr>IsInitFinished := False\<rparr>\<rparr>"

lemma sample_early_simps [simp]:
  "\<not> IsInitFinished (sC sample_early_env)" "publishOk sample_early_env" "SIM_SLOT_COUNT_MD sample_early_env = 2"
  "sW sample_early_env i = sample_world"
  by (simp_all add: sample_early_env_def sample_svc_env_def)

lemma sample_tsts: "\<not> IsTstsModeEnabled (getParameter (wE sample_world))"
  by code_simp

lemma sample_start:
  "map_option (\<lambda>s. (sv_initSuccess s, map (\<lambda>(i, c). (i, ctl_slotId c, ctl_queue c)) (sv_controllers s)))
     (OnStart sample_early_env sample_service) = Some (True,
     map (\<lambda>i. (i, i, [(MSG_ASYNCHRONOUS_REGISTER, CORE_INIT_DELAY_TIME)])) [0, 1])"
proof -
  have s: "[0..1] = [0, 1::int]" by (simp add: upto.simps)
  show ?thesis
    by (simp add: sample_service_def new_service_def OnStart_def Service_Init_def InitModule_def s sample_tsts
        Service_AddNetSupplier_def AddCellularDataControllers_def ClearCellularDataControllers_def new_controller_def
        register_slot_def AsynchronousRegister_def sv_enter_def sv_leave_def Let_def)
qed

lemma sample_slot_ready:
  assumes "i = 0 \<or> i = 1"
  obtains s c h where "svc_reach (s :: (string \<times> string) list service)" "sv_initSuccess s"
    "map_of (sv_controllers s) i = Some c" "ctl_handler c = Some h"
proof -
  from sample_start obtain s where s: "OnStart sample_early_env sample_service = Some s" and ok: "sv_initSuccess s"
    and m: "\<exists>c. map_of (sv_controllers s) i = Some c \<and> ctl_slotId c = i"
    using assms by auto
  from m obtain c where c: "map_of (sv_controllers s) i = Some c" "ctl_slotId c = i" by blast
  have r: "svc_reach s" unfolding sample_service_def
    by (rule svc_reach.step [OF svc_reach.init svc_step.start]) (rule s [unfolded sample_service_def])
  obtain h where h: "Handler_Init (sW sample_svc_env i) i (sv_db s) (sv_agent s) = Some h" by (rule init_result)
  obtain s' where s': "DispatchEvent sample_svc_env i (Some MSG_ASYNCHRONOUS_REGISTER) s = Some s'"
    and c': "\<exists>c h'. map_of (sv_controllers s') i = Some c \<and> ctl_handler c = Some h'" "sv_initSuccess s'"
    using ok c h assms
    by (auto simp: DispatchEvent_def call_controller_def GetCellularDataController_def sv_enter_def sv_leave_def
        Ctl_ProcessEvent_def AsynchronousRegister_def Ctl_Init_def RegisterEvents_def sample_svc_env_def
        map_of_put ctl_emit_def Let_def)
  from r s' have "svc_reach s'" by (blast intro: svc_reach.step svc_step.dispatch)
  with c' that show thesis by blast
qed

theorem service_handlers_reachable_witness:
  "\<exists>s c h. svc_reach (s :: (string \<times> string) list service) \<and> map_of (sv_controllers s) 1 = Some c \<and> ctl_slotId c = 1
     \<and> ctl_handler c = Some h \<and> hd_reach h \<and> hd_inv h"
proof -
  obtain s c h where r: "svc_reach (s :: (string \<times> string) list service)"
    and i: "sv_initSuccess s" and m: "map_of (sv_controllers s) 1 = Some c" "ctl_handler c = Some h"
    by (rule sample_slot_ready [of 1, OF disjI2 [OF refl]])
  with service_handlers_reachable [OF r m(1)] show ?thesis by blast
qed

theorem service_answers_typed_witness:
  "\<exists>v s'. serve sample_svc_env Rq_GetDefaultCellularDataSlotId sample_service = Some ((0, v), s')
     \<and> value_type v = Some T_int \<and> v \<noteq> V_none"
proof -
  have "map_option fst (serve sample_svc_env Rq_GetDefaultCellularDataSlotId sample_service) = Some (0, V_int 0)"
    by code_simp
  then obtain s' where e: "serve sample_svc_env Rq_GetDefaultCellularDataSlotId sample_service = Some ((0, V_int 0), s')"
    by auto
  from service_answers_typed [OF sample_codes e] e show ?thesis by auto
qed

end
