(* ===== verification/Service_Behaviour.thy ===== *)
theory Service_Behaviour
  imports Service_Correct
begin

text \<open>
  What the service does over several calls: the data switch that one request stores is the one that the
  next reads, and the start builds one controller and one row of suppliers for each slot.
\<close>

section \<open>The data switch\<close>

lemma query_status:
  assumes "sw_slotId sw \<noteq> CELLULAR_DATA_VSIM_SLOT_ID"
    "Settings_GetValue DS db CELLULAR_DATA_COLUMN_ENABLE (switch_code True) = (TELEPHONY_ERR_SUCCESS, v)"
  shows "QueryUserDataStatus DS db d sw = (TELEPHONY_ERR_SUCCESS, v = switch_code True,
    sw \<lparr>lastQryRet := TELEPHONY_ERR_SUCCESS, userDataOn := (v = switch_code True)\<rparr>)"
  using assms by (simp add: QueryUserDataStatus_def)

text \<open>After a successful call the table holds a value that every settings object reads as the switch.\<close>

lemma enable_stores:
  assumes "SetCellularDataEnable W on h = (TELEPHONY_ERR_SUCCESS, h')"
    and slot: "sw_slotId (hd_switch h) \<noteq> CELLULAR_DATA_VSIM_SLOT_ID" and "datashare_ok (wDS W)"
    and "row_ok (wDS W) (hd_db h) CELLULAR_DATA_COLUMN_ENABLE"
  obtains v where "lastQryRet (hd_switch h') = TELEPHONY_ERR_SUCCESS" "userDataOn (hd_switch h') = on" "(v = switch_code True) = on"
    "Settings_GetValue (wDS W) (hd_db h') CELLULAR_DATA_COLUMN_ENABLE (switch_code True) = (TELEPHONY_ERR_SUCCESS, v)"
proof -
  let ?C = "CELLULAR_DATA_COLUMN_ENABLE"
  obtain v where get: "Settings_GetValue (wDS W) (hd_db h) ?C (switch_code True) = (TELEPHONY_ERR_SUCCESS, v)"
    using assms(1) slot by (cases "Settings_GetValue (wDS W) (hd_db h) ?C (switch_code True)")
      (auto simp: SetCellularDataEnable_def QueryUserDataStatus_def split: if_splits)
  define sw where "sw = (hd_switch h) \<lparr>lastQryRet := TELEPHONY_ERR_SUCCESS, userDataOn := (v = switch_code True)\<rparr>"
  have q: "QueryUserDataStatus (wDS W) (hd_db h) True (hd_switch h) = (TELEPHONY_ERR_SUCCESS, v = switch_code True, sw)"
    using query_status [OF slot get] by (simp add: sw_def)
  show thesis
  proof (cases "(v = switch_code True) = on")
    case True
    then have "h' = h \<lparr>hd_switch := sw\<rparr>" using assms(1) q by (simp add: SetCellularDataEnable_def Let_def)
    with True get show ?thesis by (intro that [of v]) (simp_all add: sw_def)
  next
    case False
    obtain r db' ks where put: "Settings_PutValue (wDS W) ?C (switch_code on) (hd_db h) = (r, db', ks)"
      by (cases "Settings_PutValue (wDS W) ?C (switch_code on) (hd_db h)")
    have "r = TELEPHONY_ERR_SUCCESS" "hd_db h' = db'" "hd_switch h' = sw \<lparr>userDataOn := on\<rparr>"
      using assms(1) q False put slot
      by (auto simp: SetCellularDataEnable_def settings_write_def SetUserDataOn_def sw_def Let_def split: if_splits prod.splits)
    with PutValue_reads_back(1) [OF assms(3,4)] put show ?thesis
      by (intro that [of "switch_code on"]) (simp_all add: sw_def switch_code_inj)
  qed
qed

lemma enable_request:
  assumes "codes_ok E" "serve E (Rq_EnableCellularData on) s = Some ((0, v), s')"
  defines "slot \<equiv> DEFAULT_SIM_SLOT_ID (svc_platform E)"
  obtains c c' where "CheckCallerIsSystemApp E" "CheckPermission E SET_TELEPHONY_STATE"
    "GetCellularDataController slot s = Some c" "\<not> (mobileDataPolicy (sW E slot) = ''force_open'' \<and> \<not> on)"
    "\<not> (mobileDataPolicy (sW E slot) = ''disallow'' \<and> on)"
    "Ctl_SetCellularDataEnable (sW E slot) on (sv_enter s c) = (TELEPHONY_ERR_SUCCESS, c')" "s' = sv_leave slot c' s"
proof -
  have code: "sCode E e = 0 \<longleftrightarrow> e = Tel TELEPHONY_ERR_SUCCESS" for e using assms(1) by (simp add: codes_ok_def)
  have z: "0 = sCode E e \<longleftrightarrow> e = Tel TELEPHONY_ERR_SUCCESS" for e using code [of e] by auto
  show thesis using assms(2) that unfolding slot_def
    by (auto simp: EnableCellularData_def z code svc_code_def Let_def split: if_splits prod.splits elim!: call_controller_reply)
qed

text \<open>A request to switch data on or off that succeeds came from a system application with the
  permission and does not contradict the policy of the device; the switch is then in the settings
  table, where every slot but the virtual SIM's, which always reads on, and every later start reads it,
  and the next query with its permission answers with it.\<close>

lemma enable_data_stored:
  fixes E :: "'db svc_env"
  defines "slot \<equiv> DEFAULT_SIM_SLOT_ID (svc_platform E)"
  assumes codes: "codes_ok E" and req: "serve E (Rq_EnableCellularData on) s = Some ((0, v), s')"
    and ds: "datashare_ok (wDS (sW E slot))" "row_ok (wDS (sW E slot)) (sv_db s) CELLULAR_DATA_COLUMN_ENABLE"
    and sw: "\<forall>c h. map_of (sv_controllers s) slot = Some c \<and> ctl_handler c = Some h \<longrightarrow>
        sw_slotId (hd_switch h) \<noteq> CELLULAR_DATA_VSIM_SLOT_ID"
  shows "CheckCallerIsSystemApp E \<and> CheckPermission E SET_TELEPHONY_STATE
    \<and> mobileDataPolicy (sW E slot) \<noteq> (if on then ''disallow'' else ''force_open'')
    \<and> (\<forall>i d. fst (snd (QueryUserDataStatus (wDS (sW E slot)) (sv_db s') d (new_DataSwitchSettings i)))
         = (i = CELLULAR_DATA_VSIM_SLOT_ID \<or> on))
    \<and> (CheckPermission E GET_NETWORK_INFO \<longrightarrow> (\<exists>t. serve E (Rq_IsCellularDataEnabled given) s' = Some ((0, V_bool on), t)))"
proof -
  from enable_request [OF codes req] obtain c c' where
    perm: "CheckCallerIsSystemApp E" "CheckPermission E SET_TELEPHONY_STATE"
    and g: "GetCellularDataController slot s = Some c" and pol: "\<not> (mobileDataPolicy (sW E slot) = ''force_open'' \<and> \<not> on)"
      "\<not> (mobileDataPolicy (sW E slot) = ''disallow'' \<and> on)"
    and c': "Ctl_SetCellularDataEnable (sW E slot) on (sv_enter s c) = (TELEPHONY_ERR_SUCCESS, c')" "s' = sv_leave slot c' s"
    unfolding slot_def by blast
  from c'(1) obtain h where h: "ctl_handler c = Some h"
    by (auto simp: Ctl_SetCellularDataEnable_def with_handler_def sv_enter_def split: option.splits)
  have m: "map_of (sv_controllers s) slot = Some c" and g0: "0 \<le> slot" "sv_initSuccess s"
    using g by (auto simp: GetCellularDataController_def split: if_splits)
  define h0 where "h0 = h \<lparr>hd_agent := sv_agent s, hd_db := sv_db s\<rparr>"
  obtain h' where h': "SetCellularDataEnable (sW E slot) on h0 = (TELEPHONY_ERR_SUCCESS, h')" "ctl_handler c' = Some h'"
    using c'(1) h by (auto simp: Ctl_SetCellularDataEnable_def with_handler_def sv_enter_def h0_def split: prod.splits)
  have "sw_slotId (hd_switch h0) \<noteq> CELLULAR_DATA_VSIM_SLOT_ID" "row_ok (wDS (sW E slot)) (hd_db h0) CELLULAR_DATA_COLUMN_ENABLE"
    using sw m h ds(2) by (simp_all add: h0_def)
  from enable_stores [OF h'(1) this(1) ds(1) this(2)] obtain x where
    x: "lastQryRet (hd_switch h') = TELEPHONY_ERR_SUCCESS" "userDataOn (hd_switch h') = on" "(x = switch_code True) = on"
    "Settings_GetValue (wDS (sW E slot)) (hd_db h') CELLULAR_DATA_COLUMN_ENABLE (switch_code True) = (TELEPHONY_ERR_SUCCESS, x)" .
  have s': "GetCellularDataController slot s' = Some c'" "sv_db s' = hd_db h'"
    using g0 h'(2) by (simp_all add: c'(2) sv_leave_def GetCellularDataController_def map_of_put Let_def)
  have "fst (snd (QueryUserDataStatus (wDS (sW E slot)) (sv_db s') d (new_DataSwitchSettings i)))
      = (i = CELLULAR_DATA_VSIM_SLOT_ID \<or> on)" for i d
  proof (cases "i = CELLULAR_DATA_VSIM_SLOT_ID")
    case True
    then show ?thesis by (simp add: QueryUserDataStatus_def new_DataSwitchSettings_def)
  next
    case False
    with query_status [OF _ x(4)] x(3) show ?thesis by (simp add: s' new_DataSwitchSettings_def)
  qed
  moreover have "\<exists>t. serve E (Rq_IsCellularDataEnabled given) s' = Some ((0, V_bool on), t)"
    if "CheckPermission E GET_NETWORK_INFO"
    using that s' h'(2) x(1,2) codes
    by (simp add: Service_IsCellularDataEnabled_def call_controller_def Ctl_IsCellularDataEnabled_def with_handler_def
        sv_enter_def IsCellularDataEnabled_def svc_code_def codes_ok_def slot_def [symmetric] Let_def)
  ultimately show ?thesis using perm pol by auto
qed

section \<open>The start\<close>

definition start_slots :: "'db svc_env \<Rightarrow> int list" where
  "start_slots E = filter (\<lambda>i. i \<noteq> CELLULAR_DATA_VSIM_SLOT_ID) [0..SIM_SLOT_COUNT_MD E - 1]
     @ (if IsTstsModeEnabled (getParameter (wE (sW E 0))) then [CELLDATA_SLOT_ID_3] else [])"

text \<open>What the registration leaves of a new controller.\<close>

definition registered_controller :: "'db svc_env \<Rightarrow> int \<Rightarrow> 'db controller \<Rightarrow> bool" where
  "registered_controller E i c \<longleftrightarrow> ctl_slotId c = i \<and>
     (if IsInitFinished (sC E) then (\<exists>h. ctl_handler c = Some h) \<and> ctl_queue c = []
      else ctl_handler c = None \<and> ctl_queue c = [(MSG_ASYNCHRONOUS_REGISTER, CORE_INIT_DELAY_TIME)])"

lemma add_fresh:
  assumes "i \<noteq> CELLULAR_DATA_VSIM_SLOT_ID" "map_of (sv_controllers s) i = None"
  shows "Service_AddNetSupplier E i caps s = Some (s \<lparr>sv_controllers := map_put i (new_controller i) (sv_controllers s),
    sv_agent := (sv_agent s) \<lparr>netSuppliers := netSuppliers (sv_agent s) @ map (service_supplier i) caps\<rparr>\<rparr>)"
proof -
  have f: "fold (\<lambda>cap. AddNetSupplier (service_supplier i cap)) cs ag
      = ag \<lparr>netSuppliers := netSuppliers ag @ map (service_supplier i) cs\<rparr>" for cs ag
    by (induction cs arbitrary: ag) (simp_all add: AddNetSupplier_def)
  show ?thesis using assms
    by (simp add: Service_AddNetSupplier_def AddCellularDataControllers_def new_controller_def f)
qed

lemma map_put_last: "\<forall>j \<in> set (map fst m). j < k \<Longrightarrow> map_put k v m = m @ [(k, v)]"
  by (induction m) auto

lemma map_put_existing: "map_wf m \<Longrightarrow> k \<in> fst ` set m \<Longrightarrow> map fst (map_put k v m) = map fst m"
  using map_put_wf [of m k v] set_map_put_keys [of k v m]
  by (intro sorted_distinct_set_unique) (auto simp: map_wf_def strict_sorted_iff insert_absorb)

lemma add_slots:
  assumes "sorted_wrt (<) (map fst (sv_controllers s) @ is)" "CELLULAR_DATA_VSIM_SLOT_ID \<notin> set is"
  shows "foldo (\<lambda>i. Service_AddNetSupplier E i caps) is s = Some (s \<lparr>
    sv_controllers := sv_controllers s @ map (\<lambda>i. (i, new_controller i)) is,
    sv_agent := (sv_agent s) \<lparr>netSuppliers := netSuppliers (sv_agent s) @ concat (map (\<lambda>i. map (service_supplier i) caps) is)\<rparr>\<rparr>)"
  using assms
proof (induction "is" arbitrary: s)
  case (Cons i xs)
  have lt: "\<forall>j \<in> set (map fst (sv_controllers s)). j < i" using Cons.prems(1) by (auto simp: sorted_wrt_append)
  then have "map_of (sv_controllers s) i = None" by (force simp: map_of_eq_None_iff)
  with Cons.prems(2) have a: "Service_AddNetSupplier E i caps s = Some (s \<lparr>sv_controllers := sv_controllers s @ [(i, new_controller i)],
    sv_agent := (sv_agent s) \<lparr>netSuppliers := netSuppliers (sv_agent s) @ map (service_supplier i) caps\<rparr>\<rparr>)"
    using add_fresh [of i s E caps] map_put_last [OF lt] by simp
  show ?case using Cons.prems by (simp add: a) (subst Cons.IH; simp)
qed simp

lemma foldo_skip: "foldo (\<lambda>i s. if Q i then Some s else f i s) xs s = foldo f (filter (\<lambda>i. \<not> Q i) xs) s"
  by (induction xs arbitrary: s) (auto split: bind_split)

lemma foldo_short: "foldo f [] = Some" "foldo f [x] = f x"
proof -
  show n: "foldo f [] = Some" by (intro ext) simp
  show "foldo f [x] = f x" by (intro ext) (simp add: n)
qed

lemma module_result:
  assumes "IsTstsModeEnabled (getParameter (wE (sW E 0))) \<Longrightarrow> SIM_SLOT_COUNT_MD E \<le> 3"
  obtains s1 where "InitModule E s = Some s1"
    "sv_controllers s1 = map (\<lambda>i. (i, new_controller i)) (start_slots E)"
    "netSuppliers (sv_agent s1)
       = concat (map (\<lambda>i. map (service_supplier i) (service_capabilities (svc_platform E))) (start_slots E))"
    "sv_registered s1 = sv_registered s" "sv_running s1 = sv_running s"
    "sorted_wrt (<) (start_slots E)"
proof -
  let ?caps = "service_capabilities (svc_platform E)"
  let ?xs = "filter (\<lambda>i. i \<noteq> CELLULAR_DATA_VSIM_SLOT_ID) [0..SIM_SLOT_COUNT_MD E - 1]"
  define s0 where "s0 = ClearCellularDataControllers E (s \<lparr>sv_agent := ClearNetSupplier (sv_agent s)\<rparr>)"
  have d: "sv_agent (fold (\<lambda>x. destroy_controller E (snd x)) xs t) = sv_agent t
      \<and> sv_registered (fold (\<lambda>x. destroy_controller E (snd x)) xs t) = sv_registered t
      \<and> sv_running (fold (\<lambda>x. destroy_controller E (snd x)) xs t) = sv_running t" for xs and t :: "'a service"
    by (induction xs arbitrary: t) (simp_all add: destroy_controller_def sv_emit_def)
  have s0: "sv_controllers s0 = []" "netSuppliers (sv_agent s0) = []" "sv_registered s0 = sv_registered s"
      "sv_running s0 = sv_running s"
    by (simp_all add: s0_def ClearCellularDataControllers_def ClearNetSupplier_def d)
  have so: "sorted_wrt (<) (start_slots E)"
    using assms by (auto simp: start_slots_def sorted_wrt_append strict_sorted_iff intro!: sorted_wrt_filter)
  have nv: "CELLULAR_DATA_VSIM_SLOT_ID \<notin> set (start_slots E)" by (simp add: start_slots_def)
  have "InitModule E s = foldo (\<lambda>i. Service_AddNetSupplier E i ?caps) (start_slots E) s0"
    by (simp add: InitModule_def start_slots_def foldo_append foldo_skip foldo_short s0_def Let_def)
  also have "\<dots> = Some (s0 \<lparr>sv_controllers := map (\<lambda>i. (i, new_controller i)) (start_slots E),
      sv_agent := (sv_agent s0) \<lparr>netSuppliers := concat (map (\<lambda>i. map (service_supplier i) ?caps) (start_slots E))\<rparr>\<rparr>)"
    using add_slots [of s0 "start_slots E" E ?caps] so nv s0 by simp
  finally show thesis using that so s0 by simp
qed

lemma register_fresh:
  assumes "map_of (sv_controllers s) i = Some (new_controller i)" "map_wf (sv_controllers s)"
  obtains t c where "register_slot E i s = Some t" "map_of (sv_controllers t) = (map_of (sv_controllers s))(i \<mapsto> c)"
    "registered_controller E i c" "map fst (sv_controllers t) = map fst (sv_controllers s)" "map_wf (sv_controllers t)"
    "sv_registered t = sv_registered s" "sv_running t = sv_running s"
proof -
  have n: "sv_enter s (new_controller i) = new_controller i" by (simp add: sv_enter_def new_controller_def)
  obtain h where h: "Handler_Init (sW E i) i (sv_db s) (sv_agent s) = Some h" by (rule init_result)
  have "\<exists>c. AsynchronousRegister (sC E) (sW E i) (sv_db s) (sv_agent s) (new_controller i) = Some c \<and> registered_controller E i c"
    using h by (auto simp: AsynchronousRegister_def Ctl_Init_def RegisterEvents_def registered_controller_def
        new_controller_def ctl_emit_def Let_def)
  then obtain c where c: "AsynchronousRegister (sC E) (sW E i) (sv_db s) (sv_agent s) (new_controller i) = Some c"
    "registered_controller E i c" by blast
  have f: "map_of (sv_controllers (sv_leave i c s)) = (map_of (sv_controllers s))(i \<mapsto> c)"
    "sv_controllers (sv_leave i c s) = map_put i c (sv_controllers s)"
    "sv_registered (sv_leave i c s) = sv_registered s" "sv_running (sv_leave i c s) = sv_running s"
    by (simp_all add: sv_leave_def Let_def map_of_put split: option.splits)
  have "i \<in> fst ` set (sv_controllers s)" using assms(1) by (force dest: map_of_SomeD)
  then show thesis
    using that [of "sv_leave i c s" c] f c assms n map_put_wf [OF assms(2)] map_put_existing [OF assms(2)]
    by (simp add: register_slot_def)
qed

lemma register_loop:
  assumes "distinct xs" "\<forall>i \<in> set xs. map_of (sv_controllers s) i = Some (new_controller i)" "map_wf (sv_controllers s)"
  shows "\<exists>t. foldo (register_slot E) xs s = Some t \<and> map fst (sv_controllers t) = map fst (sv_controllers s)
    \<and> (\<forall>i \<in> set xs. \<exists>c. map_of (sv_controllers t) i = Some c \<and> registered_controller E i c)
    \<and> (\<forall>i. i \<notin> set xs \<longrightarrow> map_of (sv_controllers t) i = map_of (sv_controllers s) i)
    \<and> sv_registered t = sv_registered s \<and> sv_running t = sv_running s"
  using assms
proof (induction xs arbitrary: s)
  case (Cons i xs)
  obtain u c where u: "register_slot E i s = Some u" "map_of (sv_controllers u) = (map_of (sv_controllers s))(i \<mapsto> c)"
    "registered_controller E i c" "map fst (sv_controllers u) = map fst (sv_controllers s)" "map_wf (sv_controllers u)"
    "sv_registered u = sv_registered s" "sv_running u = sv_running s"
    using register_fresh [OF _ Cons.prems(3), of i E] Cons.prems(2) by auto
  have "\<forall>j \<in> set xs. map_of (sv_controllers u) j = Some (new_controller j)" using Cons.prems u(2) by auto
  from Cons.IH [OF _ this u(5)] Cons.prems(1) obtain t where
    t: "foldo (register_slot E) xs u = Some t" "map fst (sv_controllers t) = map fst (sv_controllers u)"
      "\<forall>j \<in> set xs. \<exists>c. map_of (sv_controllers t) j = Some c \<and> registered_controller E j c"
      "\<forall>j. j \<notin> set xs \<longrightarrow> map_of (sv_controllers t) j = map_of (sv_controllers u) j"
      "sv_registered t = sv_registered u" "sv_running t = sv_running u" by auto
  have "map_of (sv_controllers t) i = Some c" using t(4) u(2) Cons.prems(1) by simp
  with u t show ?case by (intro exI [of _ t]) auto
qed simp

text \<open>C11: The start always returns. It builds one controller for every SIM slot but the virtual one (and
  one more in the test mode), and one supplier for each slot and capability, in this order. The service
  runs when it could be published; then every controller has its handler, or, when the core service is
  not ready, no handler and the delayed event that will try again.\<close>

theorem start_builds_slots:
  assumes "\<not> sv_running s" "IsTstsModeEnabled (getParameter (wE (sW E 0))) \<longrightarrow> SIM_SLOT_COUNT_MD E \<le> 3"
  shows "\<exists>s1 s'. InitModule E s = Some s1 \<and> OnStart E s = Some s' \<and> map fst (sv_controllers s') = start_slots E
    \<and> map (\<lambda>su. (su_slotId su, su_capability su)) (netSuppliers (sv_agent s1))
        = List.product (start_slots E) (service_capabilities (svc_platform E))
    \<and> (sv_running s' \<longleftrightarrow> sv_registered s \<or> publishOk E)
    \<and> (\<forall>i \<in> set (start_slots E). \<exists>c. map_of (sv_controllers s') i = Some c
         \<and> (if sv_running s' then registered_controller E i c else c = new_controller i))"
proof -
  obtain s1 where m: "InitModule E s = Some s1"
    "sv_controllers s1 = map (\<lambda>i. (i, new_controller i)) (start_slots E)"
    "netSuppliers (sv_agent s1)
       = concat (map (\<lambda>i. map (service_supplier i) (service_capabilities (svc_platform E))) (start_slots E))"
    "sv_registered s1 = sv_registered s" "sv_running s1 = sv_running s" "sorted_wrt (<) (start_slots E)"
    using module_result assms(2) by blast
  have keys: "map fst (sv_controllers s1) = start_slots E" by (simp add: m(2) comp_def)
  have fresh: "\<forall>i \<in> set (start_slots E). map_of (sv_controllers s1) i = Some (new_controller i)"
    by (simp add: m(2) map_of_map_restrict)
  have sup: "map (\<lambda>su. (su_slotId su, su_capability su)) (netSuppliers (sv_agent s1))
      = List.product (start_slots E) (service_capabilities (svc_platform E))"
    by (simp add: m(3) product_concat_map map_concat comp_def service_supplier_def)
  show ?thesis
  proof (cases "sv_registered s \<or> publishOk E")
    case True
    have "map_wf (sv_controllers (s1 \<lparr>sv_registered := True\<rparr>))" "distinct (start_slots E)"
      using m(6) keys by (simp_all add: map_wf_def strict_sorted_iff)
    with register_loop [of "start_slots E" "s1 \<lparr>sv_registered := True\<rparr>" E] fresh keys obtain t where
      t: "foldo (register_slot E) (start_slots E) (s1 \<lparr>sv_registered := True\<rparr>) = Some t"
        "map fst (sv_controllers t) = start_slots E"
        "\<forall>i \<in> set (start_slots E). \<exists>c. map_of (sv_controllers t) i = Some c \<and> registered_controller E i c" by auto
    have "OnStart E s = Some (t \<lparr>sv_initSuccess := True, sv_running := True\<rparr>)"
      using assms(1) m(1,4) True t(1) keys by (auto simp: OnStart_def Service_Init_def)
    with m(1) sup t True show ?thesis by auto
  next
    case False
    then have "OnStart E s = Some s1" using assms(1) m(1,4) by (simp add: OnStart_def Service_Init_def)
    with m(1,5) sup keys fresh assms(1) False show ?thesis by auto
  qed
qed

section \<open>Examples\<close>

theorem start_builds_slots_witness:
  "\<exists>s'. OnStart sample_svc_env sample_service = Some s' \<and> map fst (sv_controllers s') = [0, 1] \<and> sv_running s'
     \<and> (\<exists>c h. map_of (sv_controllers s') 1 = Some c \<and> ctl_handler c = Some h)"
proof -
  have u: "[0..1] = [0, 1::int]" by (simp add: upto.simps)
  have e: "\<not> sv_running sample_service" "\<not> IsTstsModeEnabled (getParameter (wE (sW sample_svc_env 0)))"
    "publishOk sample_svc_env" "IsInitFinished (sC sample_svc_env)" "start_slots sample_svc_env = [0, 1]"
    using sample_tsts by (simp_all add: sample_service_def new_service_def sample_svc_env_def start_slots_def u)
  from start_builds_slots [OF e(1), of sample_svc_env] e show ?thesis by (auto simp: registered_controller_def)
qed

text \<open>A service whose slot 0 has a handler and whose settings have data switched on.\<close>

definition sample_running :: "(string \<times> string) list service" where
  "sample_running = sample_service \<lparr>sv_initSuccess := True, sv_db := [(''cellular_data_enable'', ''1'')],
     sv_controllers := [(0, (new_controller 0) \<lparr>ctl_handler := Some sample_ready\<rparr>)]\<rparr>"

lemma sample_enable:
  "map_option fst (serve sample_svc_env (Rq_EnableCellularData False) sample_running) = Some (0, V_none)"
  by code_simp

lemma sample_switch_ok:
  "wDS (sW sample_svc_env i) = sample_datashare" "CheckPermission sample_svc_env p"
  "row_ok sample_datashare (sv_db sample_running) CELLULAR_DATA_COLUMN_ENABLE"
  "map_of (sv_controllers sample_running) i = Some c \<Longrightarrow> ctl_handler c = Some h \<Longrightarrow>
     sw_slotId (hd_switch h) \<noteq> CELLULAR_DATA_VSIM_SLOT_ID"
proof -
  show "row_ok sample_datashare (sv_db sample_running) CELLULAR_DATA_COLUMN_ENABLE" by code_simp
qed (auto simp: sample_svc_env_def sample_world_def sample_running_def sample_ready_def new_DataSwitchSettings_def split: if_splits)

end
