(* ===== verification/End_To_End.thy ===== *)
theory End_To_End
  imports Script_Entry Service_Behaviour
begin

text \<open>
  A call from a script, by the name of the exported function, through the binding and the native client to
  the service and its databases, and back. The proxy of the client is connected to the model of the
  service; what the script sees is stated over the state of the service.
\<close>

section \<open>The connection\<close>

text \<open>The client's proxy is served by the service. Nothing is said about a request that the service does
  not survive.\<close>

definition served_by :: "'db service client_env \<Rightarrow> 'db svc_env \<Rightarrow> bool" where
  "served_by C E \<longleftrightarrow> (\<forall>rq s r s'. serve E rq s = Some (r, s') \<longrightarrow> ipc C rq s = (r, s'))"

text \<open>Every environment can be connected; \<open>dead\<close> is the answer of a proxy whose service died.\<close>

definition connect_to :: "'db svc_env \<Rightarrow> reply \<Rightarrow> 'db service client_env \<Rightarrow> 'db service client_env" where
  "connect_to E dead C = C \<lparr>ipc := \<lambda>rq s. case serve E rq s of Some (r, s') \<Rightarrow> (r, s') | None \<Rightarrow> (dead, s)\<rparr>"

text \<open>The interface of the client: what the service promises of its proxy, and what follows for the wrappers of
  a connected client.\<close>

locale service_proxy =
  fixes E :: "'db svc_env" and C :: "'db service client_env"
  assumes served: "serve E rq s = Some (r, s') \<Longrightarrow> ipc C rq s = (r, s')"
begin

lemma call:
  assumes "GetProxy C c = (True, c1)" "serve E rq s = Some (r, s')"
  shows "client_call C rq (c, s) = (r, (c1, s'))" "client_code C rq (c, s) = (fst r, (c1, s'))"
    "client_int C rq junk (c, s) = (if fst r = ERR_SUCCESS C then out_int (snd r) junk else fst r, (c1, s'))"
  using assms(1) served [OF assms(2)]
  by (simp_all add: client_call_def client_code_def client_int_def split: prod.splits)

end

interpretation linked: service_proxy E "connect_to E dead C" for E dead C
  by unfold_locales (simp add: connect_to_def)

lemma connect_to_served: "served_by (connect_to E dead C) E"
  unfolding served_by_def using linked.served by blast

lemma served_proxy: "served_by C E \<Longrightarrow> service_proxy E C"
  by unfold_locales (simp only: served_by_def)

lemma GetProxy_again: "GetProxy C c = (True, c') \<Longrightarrow> GetProxy C c' = (True, c')"
  by (auto simp: GetProxy_def Let_def split: if_splits)

lemmas connected_call = service_proxy.call [OF served_proxy]

text \<open>A call of a script, by name; absent for a name that the module does not export.\<close>

definition js_call :: "'v js_engine \<Rightarrow> 'v js_dialog \<Rightarrow> 'w js_env \<Rightarrow> int \<Rightarrow> string \<Rightarrow> 'v list \<Rightarrow> 'w client_state
    \<Rightarrow> (js_reply \<times> 'w client_state) option" where
  "js_call G A J junk name args s = map_option (\<lambda>f. f args s) (map_of (RegistCellularData G A J junk) name)"

lemma exported:
  "js_call G A J junk ''getCellularDataState'' args s = Some (Js_GetCellularDataState G J junk args s)"
  "js_call G A J junk ''getCellularDataFlowType'' args s = Some (Js_GetCellularDataFlowType G J junk args s)"
  "js_call G A J junk ''enableCellularData'' args s = Some (Js_EnableCellularData G J args s)"
  "js_call G A J junk ''disableCellularData'' args s = Some (Js_DisableCellularData G J args s)"
  "js_call G A J junk ''isCellularDataEnabled'' args s = Some (Js_IsCellularDataEnabled G J args s)"
  "js_call G A J junk ''queryApnIds'' args s = Some (Js_QueryApnIds G J args s)"
  "js_call G A J junk ''queryAllApns'' args s = Some (Js_QueryAllApns G J args s)"
  "js_call G A J junk ''getActiveApnName'' args s = Some (Js_GetActiveApnName G J args s)"
  by (simp_all add: js_call_def RegistCellularData_def)

text \<open>The asynchronous functions without arguments but a callback: \<open>settles\<close> is the reply with an outcome of a
  question, \<open>settles_done\<close> that of a change.\<close>

definition settles :: "'v js_engine \<Rightarrow> 'v list \<Rightarrow> js_outcome \<Rightarrow> js_reply" where
  "settles G args outcome = Settled (Handle2ValueCallback G (length args = 1) outcome)"

definition settles_done :: "'v js_engine \<Rightarrow> 'v list \<Rightarrow> js_outcome \<Rightarrow> js_reply" where
  "settles_done G args outcome = Settled (Handle1ValueCallback G (length args = 1) outcome)"

lemma async_call:
  "MatchCellularDataParameters G args \<Longrightarrow>
     js_plain settle G J failure args native callback s
       = (case js_run J native callback 0 s of (outcome, s') \<Rightarrow> (Settled (settle (length args = 1) outcome), s'))"
  "MatchCellularDataParameters G args \<Longrightarrow>
     js_async settle J (MatchGetDefaultCellularDataSlotIdParameters G args) failure (length args = 1) 0 native callback s
       = (case js_run J native callback 0 s of (outcome, s') \<Rightarrow> (Settled (settle (length args = 1) outcome), s'))"
  by (simp_all add: js_plain_def js_async_def MatchCellularDataParameters_def
      MatchGetDefaultCellularDataSlotIdParameters_def split: if_splits)

lemmas connected_simps = js_run_def IsCellularDataManagerInited_def IsConnect_def new_js_context_def unavailable_def

section \<open>The state of the connection\<close>

text \<open>What a script should see of the state of a slot: the state of the roles together, or suspended.\<close>

definition seen_state :: "'db svc_env \<Rightarrow> int \<Rightarrow> 'db controller \<Rightarrow> int" where
  "seen_state E slotId c =
     (if Ctl_GetDisConnectionReason c = REASON_GSM_AND_CALLING_ONLY \<and> Ctl_IsRestrictedMode (sW E slotId) c
      then DATA_STATE_SUSPENDED
      else (case Ctl_GetCellularDataState c of
              PROFILE_STATE_CONNECTING \<Rightarrow> DATA_STATE_CONNECTING
            | PROFILE_STATE_CONNECTED \<Rightarrow> DATA_STATE_CONNECTED
            | PROFILE_STATE_DISCONNECTING \<Rightarrow> DATA_STATE_CONNECTED
            | _ \<Rightarrow> DATA_STATE_DISCONNECTED))"

definition asked_slot :: "'db svc_env \<Rightarrow> int" where
  "asked_slot E = (if ext_isVSimEnabled (wE (sW E 0)) = Some True then CELLULAR_DATA_VSIM_SLOT_ID else svc_default_slot E)"

lemma service_state:
  assumes "codes_ok E" "CheckPermission E GET_NETWORK_INFO"
  shows "Service_GetCellularDataState E s = (case GetCellularDataController (asked_slot E) s of
      None \<Rightarrow> (sCode E INVALID_PARAM, V_none)
    | Some c \<Rightarrow> (0, V_int (if Ctl_GetDisConnectionReason (sv_enter s c) = REASON_GSM_AND_CALLING_ONLY
          \<and> Ctl_IsRestrictedMode (sW E (asked_slot E)) (sv_enter s c)
        then STATUS_SUSPENDED else CellularDataStateAdapter (Ctl_GetCellularDataState (sv_enter s c)))))"
  using assms by (simp add: Service_GetCellularDataState_def asked_slot_def ask_controller_def svc_code_def codes_ok_def Let_def
      split: option.splits)

lemma wrapped_state:
  "WrapCellularDataType (if Ctl_GetDisConnectionReason c = REASON_GSM_AND_CALLING_ONLY \<and> Ctl_IsRestrictedMode (sW E i) c
     then STATUS_SUSPENDED else CellularDataStateAdapter (Ctl_GetCellularDataState c)) = seen_state E i c"
  by (simp add: WrapCellularDataType_def seen_state_def split: ApnProfileState.split)

lemma status_range: "CellularDataStateAdapter p \<in> {11, 12, 13}"
  by (cases p) simp_all

text \<open>The codes that a client can tell from a state.\<close>

definition codes_apart :: "'db svc_env \<Rightarrow> bool" where
  "codes_apart E \<longleftrightarrow> sCode E PERMISSION_ERR \<notin> {11, 12, 13, 14} \<and> sCode E INVALID_PARAM \<notin> {11, 12, 13, 14}
     \<and> sCode E INVALID_PARAM \<noteq> sCode E PERMISSION_ERR"

text \<open>The answer that the client returns to a binding.\<close>

lemma client_state_answer:
  assumes "served_by C E" "codes_ok E" "codes_apart E" "ERR_SUCCESS C = 0" "GetProxy C c = (True, c1)"
  obtains r where "Client_GetCellularDataState C junk (c, s) = (r, (c1, s))"
    "r = sCode E PERMISSION_ERR \<longleftrightarrow> \<not> CheckPermission E GET_NETWORK_INFO"
    "WrapCellularDataType r = (if \<not> CheckPermission E GET_NETWORK_INFO then DATA_STATE_UNKNOWN
       else case GetCellularDataController (asked_slot E) s of
              None \<Rightarrow> DATA_STATE_UNKNOWN | Some ctl \<Rightarrow> seen_state E (asked_slot E) (sv_enter s ctl))"
proof -
  have nz: "sCode E PERMISSION_ERR \<noteq> 0" "sCode E INVALID_PARAM \<noteq> 0" using assms(2) by (simp_all add: codes_ok_def)
  have w: "WrapCellularDataType (sCode E PERMISSION_ERR) = DATA_STATE_UNKNOWN"
    "WrapCellularDataType (sCode E INVALID_PARAM) = DATA_STATE_UNKNOWN"
    using assms(3) by (simp_all add: WrapCellularDataType_def codes_apart_def)
  have a: "Client_GetCellularDataState C junk (c, s) = (if fst (Service_GetCellularDataState E s) = 0
      then out_int (snd (Service_GetCellularDataState E s)) junk else fst (Service_GetCellularDataState E s), (c1, s))"
    using connected_call(3) [OF assms(1,5), of Rq_GetCellularDataState s "Service_GetCellularDataState E s" s junk]
    by (simp add: Client_GetCellularDataState_def assms(4))
  show thesis
  proof (cases "CheckPermission E GET_NETWORK_INFO")
    case False
    then have "Service_GetCellularDataState E s = (sCode E PERMISSION_ERR, V_none)"
      by (simp add: Service_GetCellularDataState_def)
    with a nz w(1) False show ?thesis by (intro that) simp_all
  next
    case True
    show ?thesis
    proof (cases "GetCellularDataController (asked_slot E) s")
      case None
      with a nz w(2) True assms(3) show ?thesis
        by (intro that) (simp_all add: service_state [OF assms(2) True] codes_apart_def)
    next
      case (Some ctl)
      have "(if Ctl_GetDisConnectionReason (sv_enter s ctl) = REASON_GSM_AND_CALLING_ONLY
          \<and> Ctl_IsRestrictedMode (sW E (asked_slot E)) (sv_enter s ctl)
          then STATUS_SUSPENDED else CellularDataStateAdapter (Ctl_GetCellularDataState (sv_enter s ctl))) \<noteq> sCode E PERMISSION_ERR"
        using assms(3) status_range [of "Ctl_GetCellularDataState (sv_enter s ctl)"] by (auto simp: codes_apart_def)
      with a True Some show ?thesis
        by (intro that) (simp_all only: service_state [OF assms(2) True] option.case fst_conv snd_conv out_int.simps
            simp_thms if_True if_False, rule wrapped_state)
    qed
  qed
qed

text \<open>When the client is connected and the caller may read the network's state, \<open>getCellularDataState\<close> is
  fulfilled with the state of the roles of the asked slot (the default one, or the virtual SIM's),
  suspended during a call that keeps data off, and with UNKNOWN when the slot has no controller;
  without the permission it is rejected with the converted error. Nothing is changed in the service, and
  no uninitialised variable is read.\<close>

lemma script_sees_state:
  fixes J :: "'db service js_env"
  assumes "served_by (jsC J) E" "codes_ok E" "codes_apart E" "ERR_SUCCESS (jsC J) = 0"
    and "jsCode J JS_PERMISSION_ERR = sCode E PERMISSION_ERR"
      "sCode E PERMISSION_ERR \<noteq> jsCode J JS_ERROR_SERVICE_UNAVAILABLE" "createOk J"
    and connected: "GetProxy (jsC J) c = (True, c1)"
    and "MatchCellularDataParameters G args"
  shows "js_call G A J junk ''getCellularDataState'' args (c, s) = Some (settles G args
      (if CheckPermission E GET_NETWORK_INFO
       then (True, J_int (case GetCellularDataController (asked_slot E) s of
               None \<Rightarrow> DATA_STATE_UNKNOWN | Some ctl \<Rightarrow> seen_state E (asked_slot E) (sv_enter s ctl)))
       else (False, case convertError J (sCode E PERMISSION_ERR) ''GetCellularDataState'' ''ohos.permission.GET_NETWORK_INFO''
               of (code, msg) \<Rightarrow> J_error (Some code) msg)), (c1, s))"
proof -
  obtain r where r: "Client_GetCellularDataState (jsC J) junk (c1, s) = (r, (c1, s))"
    "r = sCode E PERMISSION_ERR \<longleftrightarrow> \<not> CheckPermission E GET_NETWORK_INFO"
    "WrapCellularDataType r = (if \<not> CheckPermission E GET_NETWORK_INFO then DATA_STATE_UNKNOWN
       else case GetCellularDataController (asked_slot E) s of
              None \<Rightarrow> DATA_STATE_UNKNOWN | Some ctl \<Rightarrow> seen_state E (asked_slot E) (sv_enter s ctl))"
    by (rule client_state_answer [OF assms(1-4) GetProxy_again [OF connected]])
  with assms(5-7) connected have "js_run J (NativeGetCellularDataState J junk) (GetCellularDataStateCallback J) 0 (c, s)
    = (if CheckPermission E GET_NETWORK_INFO
       then (True, J_int (case GetCellularDataController (asked_slot E) s of
               None \<Rightarrow> DATA_STATE_UNKNOWN | Some ctl \<Rightarrow> seen_state E (asked_slot E) (sv_enter s ctl)))
       else (False, case convertError J (sCode E PERMISSION_ERR) ''GetCellularDataState'' ''ohos.permission.GET_NETWORK_INFO''
               of (code, msg) \<Rightarrow> J_error (Some code) msg), (c1, s))"
    by (cases "CheckPermission E GET_NETWORK_INFO")
      (simp_all add: connected_simps NativeGetCellularDataState_def GetCellularDataStateCallback_def callback_int_def js_error_def)
  then show ?thesis by (simp add: exported Js_GetCellularDataState_def settles_def async_call(1) [OF assms(9)])
qed

text \<open>In a service that was reached by its own operations, the handler of a slot satisfies its invariant.\<close>

lemma slot_handler:
  assumes "svc_reach s" "GetCellularDataController i s = Some ctl" "ctl_handler ctl = Some h"
  shows "hd_inv h" "hd_slotId h = i"
  using slots.svc_reach_ok [OF assms(1)] assms(2,3) hd_reach_inv(1)
  unfolding svc_ok_def ctl_ok_def slot_reach_def GetCellularDataController_def
  by (fastforce split: if_splits)+

lemma role_machine:
  assumes "hd_inv h" "hd_holders h a = Some r" "holds_machine (apnState r)"
  shows "\<exists>m. cellularDataStateMachine r = Some m \<and> m \<in> set (stateMachines (hd_tables h)) \<and> hd_machines h m \<noteq> None"
proof -
  obtain m where m: "cellularDataStateMachine r = Some m" using inv_holder(1) [OF assms(1,2)] assms(3) by auto
  with inv_holder(2) [OF assms(1,2) m] assms(1) show ?thesis by (auto simp: hd_inv_def machines_ok_def)
qed

lemma overall_connected:
  assumes "hd_inv h"
  shows "GetOverallApnState (hd_holders h) (hd_mgr h) = PROFILE_STATE_CONNECTED
    \<longleftrightarrow> (\<exists>a r. hd_holders h a = Some r \<and> apnState r \<in> {PROFILE_STATE_CONNECTED, PROFILE_STATE_DISCONNECTING})"
proof -
  have T: "p \<in> set (apnHolders (hd_mgr h)) \<longleftrightarrow> (\<exists>a r. p = Some a \<and> hd_holders h a = Some r)" for p
    using assms by (auto simp: hd_inv_def tables_ok_def)
  have d: "\<forall>p \<in> set (apnHolders (hd_mgr h)). \<exists>r. deref (hd_holders h) p = Some r" using T by auto
  have x: "(\<exists>p \<in> set (apnHolders (hd_mgr h)). \<exists>r. deref (hd_holders h) p = Some r \<and> apnState r \<in> S)
      \<longleftrightarrow> (\<exists>a r. hd_holders h a = Some r \<and> apnState r \<in> S)" for S
    unfolding Bex_def T by force
  show ?thesis unfolding GetOverallApnState_spec [OF d] x by (auto split: if_splits)
qed

text \<open>A call keeps data off the slot.\<close>

definition slot_suspended :: "'db svc_env \<Rightarrow> int \<Rightarrow> 'db controller \<Rightarrow> bool" where
  "slot_suspended E slotId c \<longleftrightarrow>
     Ctl_GetDisConnectionReason c = REASON_GSM_AND_CALLING_ONLY \<and> Ctl_IsRestrictedMode (sW E slotId) c"

lemma seen_connected:
  "seen_state E i c = DATA_STATE_CONNECTED \<longleftrightarrow> \<not> slot_suspended E i c
     \<and> Ctl_GetCellularDataState c \<in> {PROFILE_STATE_CONNECTED, PROFILE_STATE_DISCONNECTING}"
  by (auto simp: seen_state_def slot_suspended_def split: ApnProfileState.splits)

lemma overall_range: "GetOverallApnState hs am \<noteq> PROFILE_STATE_DISCONNECTING"
  by (simp add: GetOverallApnState_def overall_loop_cases)

text \<open>C9: What CONNECTED means to a script. In every state that the service can reach, for a connected
  client, the promise of \<open>getCellularDataState\<close> is fulfilled exactly when the caller has the permission to
  read the network state, and otherwise rejected, although README.md and the declarations for scripts say
  that the function needs no permission (finding). The state it is fulfilled with is CONNECTED exactly
  when no call keeps data off and the handler of the asked slot has a role that is connected or about to
  be disconnected; this role then has a connection machine, which exists and is registered. The question
  changes nothing.\<close>

theorem script_state_grounded:
  fixes J :: "'db service js_env"
  assumes "served_by (jsC J) E" "codes_ok E" "codes_apart E" "ERR_SUCCESS (jsC J) = 0"
    and "jsCode J JS_PERMISSION_ERR = sCode E PERMISSION_ERR"
      "sCode E PERMISSION_ERR \<noteq> jsCode J JS_ERROR_SERVICE_UNAVAILABLE" "createOk J"
    and "GetProxy (jsC J) c = (True, c1)" "MatchCellularDataParameters G args" and reach: "svc_reach s"
  shows "\<exists>ok v. js_call G A J junk ''getCellularDataState'' args (c, s) = Some (settles G args (ok, v), (c1, s))
    \<and> (ok \<longleftrightarrow> CheckPermission E GET_NETWORK_INFO)
    \<and> (ok \<longrightarrow> (v = J_int DATA_STATE_CONNECTED \<longleftrightarrow>
         (\<exists>ctl h a r m. GetCellularDataController (asked_slot E) s = Some ctl \<and> ctl_handler ctl = Some h
            \<and> hd_slotId h = asked_slot E \<and> \<not> slot_suspended E (asked_slot E) (sv_enter s ctl)
            \<and> hd_holders h a = Some r \<and> apnState r \<in> {PROFILE_STATE_CONNECTED, PROFILE_STATE_DISCONNECTING}
            \<and> cellularDataStateMachine r = Some m \<and> m \<in> set (stateMachines (hd_tables h)) \<and> hd_machines h m \<noteq> None)))"
proof -
  have seen: "seen_state E (asked_slot E) (sv_enter s ctl) = DATA_STATE_CONNECTED \<longleftrightarrow>
      (\<exists>h a r m. ctl_handler ctl = Some h \<and> hd_slotId h = asked_slot E \<and> \<not> slot_suspended E (asked_slot E) (sv_enter s ctl)
        \<and> hd_holders h a = Some r \<and> apnState r \<in> {PROFILE_STATE_CONNECTED, PROFILE_STATE_DISCONNECTING}
        \<and> cellularDataStateMachine r = Some m \<and> m \<in> set (stateMachines (hd_tables h)) \<and> hd_machines h m \<noteq> None)"
    if g: "GetCellularDataController (asked_slot E) s = Some ctl" for ctl
  proof (cases "ctl_handler ctl")
    case None
    then show ?thesis by (simp add: seen_connected Ctl_GetCellularDataState_def ask_handler_def sv_enter_def)
  next
    case (Some h)
    note inv = slot_handler [OF reach g Some]
    have "Ctl_GetCellularDataState (sv_enter s ctl) = GetOverallApnState (hd_holders h) (hd_mgr h)"
      by (simp add: Ctl_GetCellularDataState_def ask_handler_def sv_enter_def Some GetCellularDataState_def)
    then have "seen_state E (asked_slot E) (sv_enter s ctl) = DATA_STATE_CONNECTED \<longleftrightarrow> \<not> slot_suspended E (asked_slot E) (sv_enter s ctl)
        \<and> (\<exists>a r. hd_holders h a = Some r \<and> apnState r \<in> {PROFILE_STATE_CONNECTED, PROFILE_STATE_DISCONNECTING})"
      using overall_connected [OF inv(1)] overall_range by (simp add: seen_connected)
    then show ?thesis using inv(2) role_machine [OF inv(1)] Some by (fastforce simp: holds_machine_def)
  qed
  note call = script_sees_state [OF assms(1-9), of A junk s]
  show ?thesis
  proof (cases "CheckPermission E GET_NETWORK_INFO")
    case True
    show ?thesis
    proof (cases "GetCellularDataController (asked_slot E) s")
      case None
      with True call show ?thesis by (intro exI [of _ True] exI [of _ "J_int DATA_STATE_UNKNOWN"]) simp
    next
      case (Some ctl)
      with True call seen [OF Some] show ?thesis
        by (intro exI [of _ True] exI [of _ "J_int (seen_state E (asked_slot E) (sv_enter s ctl))"]) simp
    qed
  next
    case False
    with call show ?thesis by (intro exI [of _ False]) auto
  qed
qed

text \<open>C18: For a connected client the bindings agree on the state, but not on errors. With the permission to
  read the network state, JavaScript, ArkTS and Cangjie return the same number and leave the same state
  behind. Without it, JavaScript rejects the promise, while ArkTS and Cangjie report success with the
  state UNKNOWN. The documents name no permission for this question (finding).\<close>

theorem bindings_agree_on_state:
  fixes J :: "'db service js_env" and K :: "'db service cj_env"
  assumes "served_by (jsC J) E" "codes_ok E" "codes_apart E" "ERR_SUCCESS (jsC J) = 0" "cjC K = jsC J"
    and "jsCode J JS_PERMISSION_ERR = sCode E PERMISSION_ERR" "createOk J"
    and connected: "GetProxy (jsC J) c = (True, c1)"
  shows "\<exists>v. ani_getCellularDataState J convert junk given (c, s) = ((convert 0, v), (c1, s))
    \<and> FfiCellularDataGetCellularDataState K True junk (c, s) = ((v, Some (CJ_ERROR_NONE K)), (c1, s))
    \<and> (CheckPermission E GET_NETWORK_INFO \<longrightarrow>
         js_run J (NativeGetCellularDataState J junk) (GetCellularDataStateCallback J) slotId (c, s) = ((True, J_int v), (c1, s)))
    \<and> (\<not> CheckPermission E GET_NETWORK_INFO \<longrightarrow> v = DATA_STATE_UNKNOWN
         \<and> fst (fst (js_run J (NativeGetCellularDataState J junk) (GetCellularDataStateCallback J) slotId (c, s))) = False)"
proof -
  obtain r where r: "Client_GetCellularDataState (jsC J) junk (c1, s) = (r, (c1, s))"
    "r = sCode E PERMISSION_ERR \<longleftrightarrow> \<not> CheckPermission E GET_NETWORK_INFO"
    "WrapCellularDataType r = (if \<not> CheckPermission E GET_NETWORK_INFO then DATA_STATE_UNKNOWN
       else case GetCellularDataController (asked_slot E) s of
              None \<Rightarrow> DATA_STATE_UNKNOWN | Some ctl \<Rightarrow> seen_state E (asked_slot E) (sv_enter s ctl))"
    by (rule client_state_answer [OF assms(1-4) GetProxy_again [OF connected]])
  show ?thesis
  proof (intro exI [of _ "WrapCellularDataType r"] conjI impI)
    show "ani_getCellularDataState J convert junk given (c, s) = ((convert 0, WrapCellularDataType r), (c1, s))"
      using connected r(1) assms(4) by (simp add: ani_getCellularDataState_def connected_simps copies_agree)
    show "FfiCellularDataGetCellularDataState K True junk (c, s) = ((WrapCellularDataType r, Some (CJ_ERROR_NONE K)), (c1, s))"
      using connected r(1) assms(5)
      by (simp add: FfiCellularDataGetCellularDataState_def Cj_GetCellularDataState_def Cj_Inited_def connected_simps copies_agree)
  qed (use r assms(6,7) connected in
      \<open>simp_all add: connected_simps NativeGetCellularDataState_def GetCellularDataStateCallback_def callback_int_def\<close>)
qed

section \<open>The type of traffic\<close>

definition seen_flow :: "'db svc_env \<Rightarrow> int \<Rightarrow> 'db controller \<Rightarrow> CellDataFlowType" where
  "seen_flow E slotId c =
     (if Ctl_GetDisConnectionReason c = REASON_GSM_AND_CALLING_ONLY \<and> Ctl_IsRestrictedMode (sW E slotId) c
      then DATA_FLOW_TYPE_DORMANT else Ctl_GetCellularDataFlowType c)"

lemma flow_range: "flow_code f = 0 \<longleftrightarrow> f = DATA_FLOW_TYPE_NONE" "flow_code f \<in> {0, 1, 2, 3, 4}"
    "WrapGetCellularDataFlowTypeType (flow_code f) = flow_code f"
  by (cases f; simp add: WrapGetCellularDataFlowTypeType_def)+

text \<open>C19: The service returns the type of traffic as the code of the request and writes no value, which
  goes wrong for no traffic only. For a connected client with the permission and a controller at the
  default slot, \<open>getCellularDataFlowType\<close> is fulfilled, and with the type of the default slot, dormant
  during a call that keeps data off, whenever there is traffic: the client takes the code for an error
  and the binding converts errors like types. The number of no traffic is the code of success, and the
  script gets the converted contents of the variable that nobody wrote: NONE, as the declarations and the
  tests expect, unless that variable happens to hold another type (finding). Neither the
  numbers of the types nor the contents of that variable are the code of a missing permission.\<close>

theorem script_sees_flow_type:
  fixes J :: "'db service js_env"
  assumes "served_by (jsC J) E" "ERR_SUCCESS (jsC J) = 0" "createOk J" "CheckPermission E GET_NETWORK_INFO"
    and "jsCode J JS_PERMISSION_ERR \<notin> {0, 1, 2, 3, 4}" "jsCode J JS_PERMISSION_ERR \<noteq> junk"
    and "GetProxy (jsC J) c = (True, c1)" "GetCellularDataController (svc_default_slot E) s = Some ctl"
    and "MatchCellularDataParameters G args"
  defines "flow \<equiv> seen_flow E (svc_default_slot E) (sv_enter s ctl)"
  shows "js_call G A J junk ''getCellularDataFlowType'' args (c, s) = Some (settles G args
      (True, J_int (if flow = DATA_FLOW_TYPE_NONE then WrapGetCellularDataFlowTypeType junk else flow_code flow)), (c1, s))
    \<and> (flow = DATA_FLOW_TYPE_NONE \<longrightarrow>
        (WrapGetCellularDataFlowTypeType junk = flow_code DATA_FLOW_TYPE_NONE \<longleftrightarrow> junk \<notin> {1, 2, 3, 4}))"
proof -
  have "serve E Rq_GetCellularDataFlowType s = Some ((flow_code flow, V_none), s)"
    using assms(4,8) by (simp add: Service_GetCellularDataFlowType_def ask_controller_def flow_def seen_flow_def Let_def)
  from connected_call(3) [OF assms(1) GetProxy_again [OF assms(7)] this, of junk]
  have "Client_GetCellularDataFlowType (jsC J) junk (c1, s)
      = (if flow = DATA_FLOW_TYPE_NONE then junk else flow_code flow, (c1, s))"
    by (simp add: Client_GetCellularDataFlowType_def assms(2) flow_range(1))
  moreover have "flow_code flow \<noteq> jsCode J JS_PERMISSION_ERR" using assms(5) flow_range(2) [of flow] by auto
  ultimately have "js_run J (NativeGetCellularDataFlowType J junk) (GetCellularDataFlowTypeCallback J) 0 (c, s)
      = ((True, J_int (if flow = DATA_FLOW_TYPE_NONE then WrapGetCellularDataFlowTypeType junk else flow_code flow)), (c1, s))"
    using assms(3,6,7)
    by (simp add: connected_simps NativeGetCellularDataFlowType_def GetCellularDataFlowTypeCallback_def callback_int_def
        flow_range(3))
  moreover have "WrapGetCellularDataFlowTypeType junk = flow_code DATA_FLOW_TYPE_NONE \<longleftrightarrow> junk \<notin> {1, 2, 3, 4}"
    by (auto simp: WrapGetCellularDataFlowTypeType_def)
  ultimately show ?thesis unfolding exported Js_GetCellularDataFlowType_def settles_def async_call(2) [OF assms(9)] by simp
qed

section \<open>The data switch\<close>

definition script_switch :: "'w js_env \<Rightarrow> bool \<Rightarrow> int \<Rightarrow> 'w client_state \<Rightarrow> js_outcome \<times> 'w client_state" where
  "script_switch J on = (if on then js_run J (NativeEnableCellularData J) (EnableCellularDataCallback J)
     else js_run J (NativeDisableCellularData J) (DisableCellularDataCallback J))"

lemma switch_answered: "\<exists>r t. serve E (Rq_EnableCellularData on) s = Some (r, t)"
  by (auto simp: EnableCellularData_def call_controller_def Let_def split: option.splits prod.splits)

lemma fulfilled_switch:
  assumes "served_by (jsC J) E" "ERR_SUCCESS (jsC J) = 0"
    "script_switch J on i (c, s) = ((True, v), (c', s'))"
  obtains r where "GetProxy (jsC J) c' = (True, c')" "serve E (Rq_EnableCellularData on) s = Some ((0, r), s')"
proof -
  have run: "(case native_code J (Client_EnableCellularData (jsC J) on) (new_js_context J i) (c, s) of (ctx, t) \<Rightarrow>
      (js_resolved ctx, t)) = (True, (c', s'))"
    using assms(3) by (auto simp: script_switch_def js_run_def NativeEnableCellularData_def NativeDisableCellularData_def
        EnableCellularDataCallback_def DisableCellularDataCallback_def callback_undefined_def split: prod.splits if_splits)
  obtain c1 where p: "GetProxy (jsC J) c = (True, c1)"
    using run by (cases "GetProxy (jsC J) c"; cases "fst (GetProxy (jsC J) c)") (auto simp: native_code_def connected_simps)
  obtain code r t where a: "serve E (Rq_EnableCellularData on) s = Some ((code, r), t)"
    using switch_answered [of E on s] by auto
  have "Client_EnableCellularData (jsC J) on (c1, s) = (code, (c1, t))"
    using connected_call(2) [OF assms(1) GetProxy_again [OF p] a] by (simp add: Client_EnableCellularData_def)
  with run p have "code = 0" "c' = c1" "s' = t"
    by (auto simp: native_code_def connected_simps assms(2) Let_def split: if_splits)
  with a GetProxy_again [OF p] that show thesis by blast
qed

lemma switch_call:
  assumes "MatchCellularDataParameters G args"
  shows "js_call G A J junk (if on then ''enableCellularData'' else ''disableCellularData'') args s
    = (case script_switch J on 0 s of (outcome, s') \<Rightarrow> Some (settles_done G args outcome, s'))"
  by (simp add: exported settles_done_def script_switch_def Js_EnableCellularData_def Js_DisableCellularData_def async_call(1) [OF assms]
      split: prod.splits)

text \<open>C8: The data switch from script to settings and back. When \<open>enableCellularData\<close> or
  \<open>disableCellularData\<close> is fulfilled, the caller was a system application with the permission to set the
  state, the policy of the device allows the change, and every slot and every later start reads the new
  value from the settings, except the slot of the virtual SIM, for which the switch always reads on.
  Unless the state is changed in between, the next \<open>isCellularDataEnabled\<close> of a caller with the
  permission to read the network state is fulfilled with the new value. Assumed are the contract of the
  settings database with a readable entry, and that the slot that carries the switch is not the virtual SIM's.\<close>

theorem script_switch_roundtrip:
  fixes J :: "'db service js_env"
  defines "slot E \<equiv> DEFAULT_SIM_SLOT_ID (svc_platform E)"
  assumes served: "served_by (jsC J) E" "ERR_SUCCESS (jsC J) = 0" "createOk J" and codes: "codes_ok E"
    and args: "MatchCellularDataParameters G args" "MatchCellularDataParameters G args'"
    and req: "script_switch J on 0 (c, s) = ((True, v), (c', s'))"
    and ds: "datashare_ok (wDS (sW E (slot E)))" "row_ok (wDS (sW E (slot E))) (sv_db s) CELLULAR_DATA_COLUMN_ENABLE"
    and sw: "\<And>ctl h. map_of (sv_controllers s) (slot E) = Some ctl \<Longrightarrow> ctl_handler ctl = Some h \<Longrightarrow>
        sw_slotId (hd_switch h) \<noteq> CELLULAR_DATA_VSIM_SLOT_ID"
  shows "js_call G A J junk (if on then ''enableCellularData'' else ''disableCellularData'') args (c, s)
        = Some (settles_done G args (True, v), (c', s'))
    \<and> CheckCallerIsSystemApp E \<and> CheckPermission E SET_TELEPHONY_STATE
    \<and> mobileDataPolicy (sW E (slot E)) \<noteq> (if on then ''disallow'' else ''force_open'')
    \<and> (\<forall>j d. fst (snd (QueryUserDataStatus (wDS (sW E (slot E))) (sv_db s') d (new_DataSwitchSettings j)))
         = (j = CELLULAR_DATA_VSIM_SLOT_ID \<or> on))
    \<and> (CheckPermission E GET_NETWORK_INFO \<longrightarrow> (\<exists>t. js_call G A J junk ''isCellularDataEnabled'' args' (c', s') = Some (settles G args' (True, J_bool on), (c', t))))"
proof -
  obtain r where r: "GetProxy (jsC J) c' = (True, c')" "serve E (Rq_EnableCellularData on) s = Some ((0, r), s')"
    by (rule fulfilled_switch [OF served(1,2) req])
  have "\<forall>ctl h. map_of (sv_controllers s) (slot E) = Some ctl \<and> ctl_handler ctl = Some h \<longrightarrow>
      sw_slotId (hd_switch h) \<noteq> CELLULAR_DATA_VSIM_SLOT_ID" using sw by blast
  note stored = enable_data_stored [OF codes r(2) ds [unfolded slot_def] this [unfolded slot_def], where given = False]
  have "\<exists>t. js_call G A J junk ''isCellularDataEnabled'' args' (c', s') = Some (settles G args' (True, J_bool on), (c', t))"
    if net: "CheckPermission E GET_NETWORK_INFO"
  proof -
    from stored net obtain t where "serve E (Rq_IsCellularDataEnabled False) s' = Some ((0, V_bool on), t)" by blast
    from connected_call(1) [OF served(1) r(1) this]
    have "js_run J (NativeIsCellularDataEnabled J) (IsCellularDataEnabledCallback J) 0 (c', s') = ((True, J_bool on), (c', t))"
      using r(1) served(2,3) by (cases on) (simp_all add: connected_simps NativeIsCellularDataEnabled_def native_flag_def
          Client_IsCellularDataEnabled_def IsCellularDataEnabledCallback_def callback_bool_def switch_code_def Let_def)
    then show ?thesis by (simp add: exported settles_def Js_IsCellularDataEnabled_def async_call(1) [OF args(2)])
  qed
  with stored switch_call [OF args(1), of A J junk on "(c, s)"] req show ?thesis unfolding slot_def by auto
qed

section \<open>Access points\<close>

text \<open>What a script passes on of an object that it was given: its properties, as texts, which fit into the
  buffers of the binding when they are short (below \<open>n\<close>).\<close>

definition objects_ok :: "'v js_engine \<Rightarrow> ((string \<times> string) list \<Rightarrow> 'v) \<Rightarrow> (string \<Rightarrow> 'v) \<Rightarrow> nat \<Rightarrow> bool" where
  "objects_ok G object text n \<longleftrightarrow>
     (\<forall>ps name. GetNamedProperty G (object ps) name = map_option text (map_of ps name))
     \<and> (\<forall>t. length t < n \<longrightarrow> textOf G (text t) = t)"

lemma ApnInfoAnalyze_object:
  assumes "objects_ok G object text n" "\<forall>(name, t) \<in> set (ApnInfoConversion i). length t < n"
  shows "ApnInfoAnalyze G (object (ApnInfoConversion i)) i0 = i"
  using assms by (simp add: objects_ok_def ApnInfoAnalyze_def ApnInfoAnalyzeExt_def named_text_def ApnInfoConversion_def)

text \<open>A row satisfies the predicates that its own description gives.\<close>

lemma own_predicates:
  assumes "row_satisfies [(COL_OPKEY, OpKeyOf R (DefaultCellularDataSlotId e))] r"
  shows "row_satisfies (apn_id_predicates R e (GetApnInfo r)) r"
  using assms by (simp add: row_satisfies_def apn_id_predicates_def filled_in_def GetApnInfo_def)

definition service_rows :: "'db svc_env \<Rightarrow> (string \<Rightarrow> row list) \<Rightarrow> row list" where
  "service_rows E rows = (if Rdb_GetSimId (svc_platform E) (sR E) (wE (sW E 0)) = -1 \<or> \<not> CreateDataAbilityHelper (sR E) then []
     else filter (row_satisfies [(COL_OPKEY, OpKeyOf (sR E) (DefaultCellularDataSlotId (wE (sW E 0))))])
       (rows (sim_uri CELLULAR_DATA_RDB_SELECTION (Rdb_GetSimId (svc_platform E) (sR E) (wE (sW E 0))))))"

lemma all_rows:
  "rdb_filters (sR E) rows \<Longrightarrow> Rdb_QueryAllApnInfo (svc_platform E) (sR E) (wE (sW E 0)) [] = map GetApnInfo (service_rows E rows)"
  by (simp add: Rdb_QueryAllApnInfo_def service_rows_def rdb_filters_def)

lemma own_id:
  assumes "rdb_filters (sR E) rows" "r \<in> set (service_rows E rows)"
  shows "row_int r COL_PROFILE_ID mod 2 ^ 32
    \<in> set (Rdb_QueryApnIds (svc_platform E) (sR E) (wE (sW E 0)) (GetApnInfo r) given)"
  using assms own_predicates [of "sR E" "wE (sW E 0)" r]
  by (auto simp: Rdb_QueryApnIds_def service_rows_def rdb_filters_def split: if_splits)

text \<open>The engine accepts the arguments of the two queries, and the asynchronous work runs.\<close>

definition queries_run :: "'v js_engine \<Rightarrow> ((string \<times> string) list \<Rightarrow> 'v) \<Rightarrow> bool" where
  "queries_run G object \<longleftrightarrow> queueOk G \<and> asyncOk G \<and> (\<exists>u. asyncArgs G 1 [] = Inr (u, False))
     \<and> (\<forall>ps. asyncArgs G 2 [object ps] = Inr (object ps, False))"

text \<open>C10: A listed access point can be found. When \<open>queryAllApns\<close> is fulfilled with a list, and the script
  passes an object of the list, with a nonempty access point name and texts that fit the binding's buffers, to
  \<open>queryApnIds\<close>, this is fulfilled with a list that contains the identifier of a row that has exactly
  these properties.\<close>

theorem listed_apn_found:
  fixes J :: "'db service js_env"
  assumes "served_by (jsC J) E" "ERR_SUCCESS (jsC J) = 0" "codes_ok E" "rdb_filters (sR E) rows"
    and "objects_ok G object text n" "queries_run G object"
    and listed: "js_call G A J junk ''queryAllApns'' [] (c, s) = Some (Settled (Resolved (J_objects os)), (c1, s1))"
    and "ob \<in> set os" "\<forall>(name, t) \<in> set ob. length t < n" "map_of ob ''apn'' \<noteq> Some []"
  shows "\<exists>r ids. ob = ApnInfoConversion (GetApnInfo r) \<and> r \<in> set (service_rows E rows)
    \<and> js_call G A J junk ''queryApnIds'' [object ob] (c1, s1) = Some (Settled (Resolved (J_ints ids)), (c1, s1))
    \<and> signed_take_bit 31 (row_int r COL_PROFILE_ID) \<in> set ids"
proof -
  note q = assms(6) [unfolded queries_run_def]
  let ?infos = "Rdb_QueryAllApnInfo (svc_platform E) (sR E) (wE (sW E 0)) []"
  have nz: "sCode E PERMISSION_ERR \<noteq> 0" using assms(3) by (simp add: codes_ok_def)
  obtain rep t where cl: "Client_QueryAllApnInfo (jsC J) [] (c, s) = (rep, t)" by (cases "Client_QueryAllApnInfo (jsC J) [] (c, s)")
  have "fst rep = 0 \<and> t = (c1, s1) \<and> os = map ApnInfoConversion (case snd rep of V_infos is \<Rightarrow> is | _ \<Rightarrow> [])"
    using listed q cl assms(2)
    by (auto simp: exported Js_QueryAllApns_def NapiCreateAsyncWork2_def NativeQueryAllApn_def QueryAllApnCallback_def
        NapiAsyncPermissionCompleteCallback_def NapiAsyncBaseCompleteCallback_def HandleDeferredResult_def
        split: prod.splits if_splits)
  moreover obtain c' where c': "GetProxy (jsC J) c = (True, c')"
    using cl calculation assms(8) by (cases "GetProxy (jsC J) c"; cases "fst (GetProxy (jsC J) c)")
      (auto simp: Client_QueryAllApnInfo_def client_call_def)
  moreover have "serve E (Rq_QueryAllApnInfo []) s = Some (QueryAllApnInfo E [], s)" by simp
  note connected_call(1) [OF assms(1) c' this]
  ultimately have p: "CheckPermission E MANAGE_APN_SETTING" and os: "os = map ApnInfoConversion ?infos" and s1: "c1 = c'" "s1 = s"
    using cl nz by (auto simp: Client_QueryAllApnInfo_def QueryAllApnInfo_def split: if_splits)
  from os assms(8) all_rows [OF assms(4)] obtain r where r: "r \<in> set (service_rows E rows)" "ob = ApnInfoConversion (GetApnInfo r)"
    by auto
  let ?ids = "Rdb_QueryApnIds (svc_platform E) (sR E) (wE (sW E 0)) (GetApnInfo r) []"
  have "serve E (Rq_QueryApnIds (GetApnInfo r) []) s = Some ((0, V_ids ?ids), s)" using p by (simp add: QueryApnIds_def)
  from connected_call(1) [OF assms(1) GetProxy_again [OF c'] this]
  have "Client_QueryApnIds (jsC J) (GetApnInfo r) [] (c1, s1) = ((0, V_ids ?ids), (c1, s1))"
    by (simp add: Client_QueryApnIds_def s1)
  moreover have "ApnInfoAnalyze G (object ob) new_ApnInfo = GetApnInfo r"
    using ApnInfoAnalyze_object [OF assms(5), of "GetApnInfo r"] assms(9) by (simp add: r(2))
  moreover have "ai_apn (GetApnInfo r) \<noteq> []" using assms(10) by (simp add: r(2) ApnInfoConversion_def)
  ultimately have "js_call G A J junk ''queryApnIds'' [object ob] (c1, s1)
      = Some (Settled (Resolved (J_ints (map (signed_take_bit 31) ?ids))), (c1, s1))"
    using q assms(2) by (simp add: exported Js_QueryApnIds_def NapiCreateAsyncWork2_def NativeQueryApnIds_def
        QueryApnIdsCallback_def NapiAsyncPermissionCompleteCallback_def NapiAsyncBaseCompleteCallback_def
        HandleDeferredResult_def split: prod.splits)
  moreover have "signed_take_bit 31 (row_int r COL_PROFILE_ID) = signed_take_bit 31 (row_int r COL_PROFILE_ID mod 2 ^ 32)"
    by (simp add: signed_take_bit_eq_iff_take_bit_eq take_bit_eq_mod)
  then have "signed_take_bit 31 (row_int r COL_PROFILE_ID) \<in> set (map (signed_take_bit 31) ?ids)"
    using own_id [OF assms(4) r(1), of "[]"] by auto
  ultimately show ?thesis using r by blast
qed

text \<open>One settlement, to the side that waits for it; \<open>ok\<close> says that the work was queued and ended normally.\<close>

definition settled_once :: "bool \<Rightarrow> bool \<Rightarrow> bool \<Rightarrow> js_settle \<Rightarrow> bool" where
  "settled_once queued ok callbackGiven r =
     (case r of
        Unsettled \<Rightarrow> \<not> queued \<or> \<not> ok \<and> callbackGiven
      | Resolved v \<Rightarrow> queued \<and> ok \<and> \<not> callbackGiven
      | Rejected e \<Rightarrow> queued \<and> \<not> callbackGiven
      | CalledBack e v \<Rightarrow> queued \<and> ok \<and> callbackGiven \<and> (e = J_undefined \<or> v = J_undefined))"

lemma complete_settles:
  "settled_once True ok cb (NapiAsyncPermissionCompleteCallback J ok (\<not> cb) resolved code v False func permission)"
  by (simp add: settled_once_def NapiAsyncPermissionCompleteCallback_def NapiAsyncBaseCompleteCallback_def
      HandleDeferredResult_def Let_def split: prod.split)

text \<open>\<open>noArgs\<close> says that the query takes no argument.\<close>

definition query_reply :: "'v js_engine \<Rightarrow> bool \<Rightarrow> nat \<Rightarrow> 'v list \<Rightarrow> js_reply \<Rightarrow> bool" where
  "query_reply G noArgs limit args reply =
     (case reply of
        Thrown e \<Rightarrow> noArgs \<and> args \<noteq> [] \<and> e = ParameterError G
          \<or> \<not> (noArgs \<and> args \<noteq> []) \<and> asyncArgs G limit args = Inl e
      | Returned v \<Rightarrow> False
      | Settled r \<Rightarrow> \<not> (noArgs \<and> args \<noteq> []) \<and> (\<exists>object callbackGiven. asyncArgs G limit args = Inr (object, callbackGiven)
          \<and> settled_once (queueOk G) (asyncOk G) callbackGiven r))"

lemma work_settles:
  assumes "\<And>ok cb r. settled_once True ok cb (complete ok (\<not> cb) r)" "noArgs \<Longrightarrow> args = []"
  shows "query_reply G noArgs limit args (fst (NapiCreateAsyncWork2 G limit execute complete args s))"
proof (cases "asyncArgs G limit args")
  case (Inr a)
  obtain object cb where a: "a = (object, cb)" by (cases a)
  obtain r s' where "execute object s = (r, s')" by (cases "execute object s")
  with assms(1) [of "asyncOk G" cb r] assms(2) show ?thesis
    by (auto simp: Inr a NapiCreateAsyncWork2_def query_reply_def settled_once_def)
qed (use assms(2) in \<open>auto simp: NapiCreateAsyncWork2_def query_reply_def\<close>)

lemma plain_settles:
  assumes "\<And>ok cb r. settled_once True ok cb (complete ok (\<not> cb) r)"
  shows "query_reply G True limit args (fst (if args \<noteq> [] then (Thrown (ParameterError G), s)
     else NapiCreateAsyncWork2 G limit execute complete args s))"
  using work_settles [OF assms, where noArgs = True and args = args and G = G and limit = limit and execute = execute and s = s]
  by (auto simp: query_reply_def)

text \<open>C30: A query settles once, on the side that waits for it. A call of one of the three queries throws exactly
  for arguments that do not match: any argument for the two that take none, else what the check of the
  arguments refuses. Otherwise the promise is fulfilled or rejected, or the callback is called with
  either an error or a value, and a value is given only by work that ended normally. Nothing is settled
  when the work could not be queued, nor when it ended abnormally and the script had passed a callback,
  which is then never called (finding).\<close>

theorem queries_settle:
  "\<exists>q a n. js_call G A J junk ''queryApnIds'' args s = Some q \<and> query_reply G False 2 args (fst q)
     \<and> js_call G A J junk ''queryAllApns'' args s = Some a \<and> query_reply G True 1 args (fst a)
     \<and> js_call G A J junk ''getActiveApnName'' args s = Some n \<and> query_reply G True 1 args (fst n)"
proof -
  have "query_reply G False 2 args (fst (Js_QueryApnIds G J args s))" unfolding Js_QueryApnIds_def
    by (rule work_settles) (simp_all add: QueryApnIdsCallback_def complete_settles split: prod.split)
  moreover have "query_reply G True 1 args (fst (Js_QueryAllApns G J args s))" unfolding Js_QueryAllApns_def
    by (rule plain_settles) (simp add: QueryAllApnCallback_def complete_settles split: prod.split)
  moreover have "query_reply G True 1 args (fst (Js_GetActiveApnName G J args s))" unfolding Js_GetActiveApnName_def
    by (rule plain_settles) (simp add: GetActiveApnNameCallback_def complete_settles split: prod.split)
  ultimately show ?thesis by (simp add: exported)
qed

section \<open>Examples\<close>

text \<open>Values of an engine, and the engine: a promise for a call without a callback.\<close>

datatype sample_value = Num int | Txt string | Obj "(string \<times> string) list" | Fun | Undef

definition sample_engine :: "sample_value js_engine" where
  "sample_engine = \<lparr>MatchParameters = (\<lambda>vs ts. list_all2 (\<lambda>v t. case v of Num i \<Rightarrow> t = T_number | Fun \<Rightarrow> t = T_function
         | Obj ps \<Rightarrow> t = T_object | _ \<Rightarrow> False) (take (length ts) vs) ts),
     toInt32 = (\<lambda>v. case v of Num i \<Rightarrow> Some i | _ \<Rightarrow> None), toBool = (\<lambda>v. None),
     textOf = (\<lambda>v. case v of Txt t \<Rightarrow> t | _ \<Rightarrow> []),
     GetNamedProperty = (\<lambda>v name. case v of Obj ps \<Rightarrow> map_option Txt (map_of ps name) | _ \<Rightarrow> None),
     v_undefined = Undef, asyncOk = True,
     asyncArgs = (\<lambda>limit vs. if length vs > limit then Inl J_undefined
        else Inr (if vs = [] then Undef else hd vs, vs \<noteq> [] \<and> last vs = Fun)),
     queueOk = True,
     Handle1ValueCallback = (\<lambda>cb (ok, v). if cb then (if ok then CalledBack J_undefined J_undefined else CalledBack v J_undefined)
        else if ok then Resolved v else Rejected v),
     Handle2ValueCallback = (\<lambda>cb (ok, v). if cb then (if ok then CalledBack J_undefined v else CalledBack v J_undefined)
        else if ok then Resolved v else Rejected v),
     parameterError = (401, []), AssertionError = J_error None, LastError = J_error None []\<rparr>"

definition sample_dialog :: "sample_value js_dialog" where
  "sample_dialog = \<lparr>isObject = (\<lambda>v. False), isFunction = (\<lambda>v. False), IsStageContext = (\<lambda>v. None),
     GetStageModeContext = (\<lambda>v. None), hasUIContent = (\<lambda>c. False), CreateModalUIExtension = (\<lambda>w i. 0), IsSimActive = (\<lambda>i. False)\<rparr>"

text \<open>A script and a service; the client has not connected yet.\<close>

definition sample_js :: "(string \<times> string) list svc_env \<Rightarrow> (string \<times> string) list service js_env" where
  "sample_js E = \<lparr>jsC = connect_to E (-1, V_none)
       \<lparr>smAvailable = True, abilityPublished = True, isProxyObject = True, addDeathRecipient = True, castOk = True,
        ipc = \<lambda>rq s. ((-1, V_none), s), ERR_SUCCESS = 0, ERR_IPC_CONNECT_STUB_FAIL = 8, INVALID_MAIN_CARD_SLOTID = -1,
        FIRST_SLOT = 0, SLOT_COUNT = 2\<rparr>,
     jsCode = (\<lambda>e. if e = JS_PERMISSION_ERR then 201 else 8300002),
     convertError = (\<lambda>code func permission. (code, func)), createOk = True, baseErrorCode = -1,
     IsMultiSimsCapabilitySupported = (\<lambda>i. False), DEFAULT_SIM_SLOT_ID_REMOVE = -2\<rparr>"

definition sample_cj :: "(string \<times> string) list service cj_env" where
  "sample_cj = \<lparr>cjC = jsC (sample_js sample_svc_env), cjNum = (\<lambda>e. 0), cjClass = (\<lambda>c. 0), CJ_ERROR_NONE = 0,
     CJ_ERROR_SERVICE_UNAVAILABLE = 1\<rparr>"

definition sample_client :: client where
  "sample_client = \<lparr>cl_proxy = False, cl_deathRecipient = False, cl_registerStatus = False,
     defaultCellularDataSlotId = -1, defaultCellularDataSimId = 0\<rparr>"

definition sample_linked :: client where
  "sample_linked = sample_client \<lparr>cl_proxy := True, cl_deathRecipient := True\<rparr>"

lemma sample_js_simps [simp]:
  "served_by (jsC (sample_js E)) E" "ERR_SUCCESS (jsC (sample_js E)) = 0" "createOk (sample_js E)"
  "jsCode (sample_js E) e = (if e = JS_PERMISSION_ERR then 201 else 8300002)" "codes_apart sample_svc_env"
  "sCode sample_svc_env PERMISSION_ERR = 201" "cjC sample_cj = jsC (sample_js sample_svc_env)" "CJ_ERROR_NONE sample_cj = 0"
  "CheckPermission sample_svc_env p" "GetProxy (jsC (sample_js E)) sample_client = (True, sample_linked)"
  "MatchCellularDataParameters sample_engine []"
  by (simp_all add: sample_js_def connect_to_served codes_apart_def sample_svc_env_def sample_cj_def
      MatchCellularDataParameters_def sample_linked_def)
    (simp_all add: connect_to_def GetProxy_def IsCellularDataSysAbilityExist_def sample_client_def)

lemma sample_settles [simp]:
  "settles sample_engine [] (ok, v) = Settled (if ok then Resolved v else Rejected v)"
  "settles_done sample_engine [] (ok, v) = Settled (if ok then Resolved v else Rejected v)"
  by (simp_all add: settles_def settles_done_def sample_engine_def)

text \<open>The controller of slot 0: idle, with no traffic.\<close>

definition sample_ctl :: "(string \<times> string) list controller" where
  "sample_ctl = (new_controller 0) \<lparr>ctl_handler := Some sample_ready\<rparr>"

lemma sample_slot:
  "asked_slot sample_svc_env = 0" "svc_default_slot sample_svc_env = 0"
  "GetCellularDataController 0 sample_running = Some sample_ctl"
  "seen_state sample_svc_env 0 (sv_enter sample_running sample_ctl) = DATA_STATE_DISCONNECTED"
  "seen_flow sample_svc_env 0 (sv_enter sample_running sample_ctl) = DATA_FLOW_TYPE_NONE"
  by (code_simp, code_simp, simp add: GetCellularDataController_def sample_running_def sample_ctl_def, code_simp, code_simp)

theorem script_state_grounded_witness:
  "\<exists>s v ctl. svc_reach s \<and> GetCellularDataController 0 s = Some ctl \<and> ctl_handler ctl \<noteq> None
     \<and> js_call sample_engine sample_dialog (sample_js sample_svc_env) 7 ''getCellularDataState'' [] (sample_client, s)
         = Some (Settled (Resolved v), (sample_linked, s))"
proof -
  obtain s ctl h where r: "svc_reach (s :: (string \<times> string) list service)" "sv_initSuccess s"
    "map_of (sv_controllers s) 0 = Some ctl" "ctl_handler ctl = Some h"
    by (rule sample_slot_ready [of 0, OF disjI1 [OF refl]])
  have "\<exists>v. js_call sample_engine sample_dialog (sample_js sample_svc_env) 7 ''getCellularDataState'' [] (sample_client, s)
         = Some (Settled (Resolved v), (sample_linked, s))"
    using script_state_grounded [of "sample_js sample_svc_env" sample_svc_env sample_client sample_linked sample_engine "[]" s
        sample_dialog 7] r(1) sample_codes
    by auto
  with r show ?thesis by (auto simp: GetCellularDataController_def)
qed

theorem bindings_agree_on_state_witness:
  "\<exists>v. ani_getCellularDataState (sample_js sample_svc_env) (\<lambda>code. (code, [])) 7 0 (sample_client, sample_running)
       = (((0, []), v), (sample_linked, sample_running))
     \<and> js_run (sample_js sample_svc_env) (NativeGetCellularDataState (sample_js sample_svc_env) 7)
         (GetCellularDataStateCallback (sample_js sample_svc_env)) 0 (sample_client, sample_running)
       = ((True, J_int v), (sample_linked, sample_running))"
  using bindings_agree_on_state [of "sample_js sample_svc_env" sample_svc_env sample_cj sample_client sample_linked
      "\<lambda>code. (code, [])" 7 0 sample_running 0] sample_codes
  by auto

theorem script_sees_flow_type_witness:
  "js_call sample_engine sample_dialog (sample_js sample_svc_env) 3 ''getCellularDataFlowType'' [] (sample_client, sample_running)
   = Some (Settled (Resolved (J_int (flow_code DATA_FLOW_TYPE_UP_DOWN))), (sample_linked, sample_running))"
  using script_sees_flow_type [of "sample_js sample_svc_env" sample_svc_env 3 sample_client sample_linked sample_running sample_ctl
      sample_engine "[]" sample_dialog]
  by (simp add: sample_slot WrapGetCellularDataFlowTypeType_def)

theorem script_switch_roundtrip_witness:
  "\<exists>c s t. js_call sample_engine sample_dialog (sample_js sample_svc_env) 0 ''disableCellularData'' [] (sample_client, sample_running)
       = Some (Settled (Resolved J_undefined), (c, s))
     \<and> js_call sample_engine sample_dialog (sample_js sample_svc_env) 0 ''isCellularDataEnabled'' [] (c, s)
         = Some (Settled (Resolved (J_bool False)), (c, t))"
proof -
  have "fst (script_switch (sample_js sample_svc_env) False 0 (sample_client, sample_running)) = (True, J_undefined)"
    by code_simp
  then obtain c s where r: "script_switch (sample_js sample_svc_env) False 0 (sample_client, sample_running)
      = ((True, J_undefined), (c, s))" by (metis prod.collapse)
  note all = script_switch_roundtrip [OF sample_js_simps(1-3) sample_codes sample_js_simps(11) sample_js_simps(11) r,
      unfolded sample_switch_ok(1), OF sample_datashare_ok sample_switch_ok(3) sample_switch_ok(4),
      where A = sample_dialog and junk = 0]
  from all show ?thesis by auto
qed

text \<open>A database with one access point.\<close>

definition sample_apn_row :: row where
  "sample_apn_row = \<lparr>row_string = (\<lambda>c. if c = COL_APN then ''net'' else []), row_int = (\<lambda>c. 5)\<rparr>"

definition sample_apn_env :: "(string \<times> string) list svc_env" where
  "sample_apn_env = sample_svc_env \<lparr>sR := sample_rdb
     \<lparr>rdb_query := \<lambda>uri ps. Some (filter (row_satisfies ps) [sample_apn_row])\<rparr>\<rparr>"

definition sample_apn_object :: "(string \<times> string) list" where
  "sample_apn_object = ApnInfoConversion (GetApnInfo sample_apn_row)"

lemma sample_listed:
  "js_call sample_engine sample_dialog (sample_js sample_apn_env) 0 ''queryAllApns'' [] (sample_client, sample_running)
     = Some (Settled (Resolved (J_objects [sample_apn_object])), (sample_linked, sample_running))"
proof -
  have q: "Rdb_QueryAllApnInfo (svc_platform sample_apn_env) (sR sample_apn_env) (wE (sW sample_apn_env 0)) []
      = [GetApnInfo sample_apn_row]" by code_simp
  have "serve sample_apn_env (Rq_QueryAllApnInfo []) sample_running = Some ((0, V_infos [GetApnInfo sample_apn_row]), sample_running)"
    using q by (simp add: QueryAllApnInfo_def) (simp add: sample_apn_env_def)
  from connected_call(1) [OF sample_js_simps(1) sample_js_simps(10) this]
  show ?thesis
    by (simp add: exported Js_QueryAllApns_def NapiCreateAsyncWork2_def NativeQueryAllApn_def QueryAllApnCallback_def
        Client_QueryAllApnInfo_def NapiAsyncPermissionCompleteCallback_def NapiAsyncBaseCompleteCallback_def
        HandleDeferredResult_def sample_engine_def sample_apn_object_def split: prod.split)
qed

theorem listed_apn_found_witness:
  "\<exists>ids. js_call sample_engine sample_dialog (sample_js sample_apn_env) 0 ''queryApnIds'' [Obj sample_apn_object]
       (sample_linked, sample_running) = Some (Settled (Resolved (J_ints ids)), (sample_linked, sample_running))
     \<and> signed_take_bit 31 5 \<in> set ids"
proof -
  have c: "codes_ok sample_apn_env" using sample_codes by (simp add: codes_ok_def sample_apn_env_def)
  have f: "rdb_filters (sR sample_apn_env) (\<lambda>uri. [sample_apn_row])" by (simp add: rdb_filters_def sample_apn_env_def)
  have o: "objects_ok sample_engine Obj Txt 100" by (simp add: objects_ok_def sample_engine_def)
  have g: "queries_run sample_engine Obj" by (simp add: queries_run_def sample_engine_def)
  have t: "sample_apn_object \<in> set [sample_apn_object]" "\<forall>(name, t) \<in> set sample_apn_object. length t < 100"
    "map_of sample_apn_object ''apn'' \<noteq> Some []"
    by (simp_all add: sample_apn_object_def ApnInfoConversion_def GetApnInfo_def sample_apn_row_def)
  have r: "row_int r COL_PROFILE_ID = 5" if "r \<in> set (service_rows sample_apn_env (\<lambda>uri. [sample_apn_row]))" for r
    using that by (simp add: service_rows_def sample_apn_row_def split: if_splits)
  from listed_apn_found [OF sample_js_simps(1,2) c f o g sample_listed t] r show ?thesis by fastforce
qed

end
