(* ===== verification/Net_Callbacks.thy ===== *)
theory Net_Callbacks
  imports Service_Behaviour
begin

text \<open>
  The callbacks through which other services reach the service: requests and strategies of the net
  manager (\<open>net_manager_call_back.cpp\<close>, \<open>net_manager_tactics_call_back.cpp\<close>), questions of the radio
  service (\<open>network_search_callback.cpp\<close>), and the observers of the databases
  (\<open>cellular_data_*_observer.cpp\<close>). Sets of capabilities and bearers are lists of numbers; the account
  of a slot is a parameter, absent when the query fails. The main theorem follows a network request
  from the net manager to the queue of one handler.
\<close>

section \<open>Requests of the net manager\<close>

text \<open>The loop that collects numbers as bits of a \<open>uint64_t\<close>.\<close>

definition bits_of :: "nat list \<Rightarrow> nat" where
  "bits_of ns = unat (foldl (\<lambda>m n. m OR push_bit n 1) (0 :: 64 word) ns)"

definition NetManager_RequestNetwork ::
  "'db svc_env \<Rightarrow> string \<Rightarrow> nat list \<Rightarrow> nat list \<Rightarrow> 'db service \<Rightarrow> (reply \<times> 'db service) outcome" where
  "NetManager_RequestNetwork E ident netCaps bearTypes s =
     (if netCaps = [] then Some ((sCode E INVALID_PARAM, V_none), s)
      else Service_RequestNet E \<lparr>nr_capability = bits_of netCaps, nr_ident = ident, nr_bearTypes = bits_of bearTypes\<rparr> s)"

text \<open>Here the bearer is one of two enumerators, not a set of bits.\<close>

definition NetManager_ReleaseNetwork ::
  "'db svc_env \<Rightarrow> nat \<Rightarrow> string \<Rightarrow> nat list \<Rightarrow> nat list \<Rightarrow> 'db service \<Rightarrow> (reply \<times> 'db service) outcome" where
  "NetManager_ReleaseNetwork E bearerDefault ident netCaps bearTypes s =
     (if netCaps = [] then Some ((sCode E INVALID_PARAM, V_none), s)
      else Service_ReleaseNet E \<lparr>nr_capability = bits_of netCaps, nr_ident = ident,
             nr_bearTypes = (if BEARER_WIFI (sW E 0) \<in> set bearTypes then BEARER_WIFI (sW E 0) else bearerDefault)\<rparr> s)"

definition Tactics_ConvertStrToInt :: "string \<Rightarrow> int \<Rightarrow> bool \<times> int" where
  "Tactics_ConvertStrToInt str v =
     (if str = [] then (False, v) else from_chars_parse True (- (2 ^ 31)) (2 ^ 31 - 1) str v)"

text \<open>The first slot whose account has the SIM identifier.\<close>

definition NetStrategySwitch ::
  "'db svc_env \<Rightarrow> (int \<Rightarrow> int option) \<Rightarrow> string \<Rightarrow> bool \<Rightarrow> 'db service \<Rightarrow> (reply \<times> 'db service) outcome" where
  "NetStrategySwitch E account simId enable s =
     (if simId = [] then Some ((sCode E INVALID_PARAM, V_none), s)
      else if \<not> IsValidDecValue (svc_platform E) simId then Some ((sCode E INVALID_PARAM, V_none), s)
      else let netSimId = snd (Tactics_ConvertStrToInt simId 0)
           in case find (\<lambda>i. account i = Some netSimId) [0..SIM_SLOT_COUNT (sR E) - 1] of
                None \<Rightarrow> Some ((sCode E INVALID_PARAM, V_none), s)
              | Some i \<Rightarrow> StrategySwitch E i enable s)"

section \<open>Questions of the radio service\<close>

definition Search_HasInternetCapability :: "'db svc_env \<Rightarrow> int \<Rightarrow> int \<Rightarrow> 'db service \<Rightarrow> bool" where
  "Search_HasInternetCapability E slotId cId s =
     (case Service_HasInternetCapability E slotId cId s of (code, v) \<Rightarrow>
        (case v of V_int result \<Rightarrow> result | _ \<Rightarrow> 0) = REQUEST_SUCCESS)"

definition Search_ClearCellularDataConnections :: "'db svc_env \<Rightarrow> int \<Rightarrow> 'db service \<Rightarrow> 'db service outcome" where
  "Search_ClearCellularDataConnections E slotId s = do {
     (r, s') \<leftarrow> Service_ClearAllConnections E slotId REASON_CLEAR_CONNECTION s; Some s' }"

section \<open>Observers\<close>

text \<open>Each reads its setting; when that succeeds the handler gets an event (here the result). The event
  of the data switch carries a value that its handling does not use.\<close>

definition Incall_OnChange :: "'db datashare \<Rightarrow> 'db \<Rightarrow> hd_event option" where
  "Incall_OnChange DS db = (case Settings_GetValue DS db ''intelligence_network_switching'' (switch_code False) of
     (ret, v) \<Rightarrow> if ret \<noteq> TELEPHONY_ERR_SUCCESS then None else Some (MSG_DB_SETTING_INCALL_CHANGED v))"

definition Setting_OnChange :: "'db datashare \<Rightarrow> 'db \<Rightarrow> hd_event option" where
  "Setting_OnChange DS db = (case Settings_GetValue DS db CELLULAR_DATA_COLUMN_ENABLE (switch_code False) of
     (ret, v) \<Rightarrow> if ret \<noteq> TELEPHONY_ERR_SUCCESS then None else Some (Own MSG_DB_SETTING_ENABLE_CHANGED))"

definition Roaming_OnChange :: "env \<Rightarrow> 'db datashare \<Rightarrow> int \<Rightarrow> 'db \<Rightarrow> hd_event option" where
  "Roaming_OnChange e DS slotId db =
     (let simId = SimIdOf e slotId
      in if simId \<le> INVALID_SIM_ID then None
         else case Settings_GetValue DS db (roaming_column simId) (switch_code False) of
           (ret, v) \<Rightarrow> if ret \<noteq> TELEPHONY_ERR_SUCCESS then None else Some MSG_DB_SETTING_ROAMING_CHANGED)"

definition Rdb_OnChange :: hd_event where
  "Rdb_OnChange = Own MSG_APN_CHANGED"

text \<open>The static flag after the call; the column is a constant of the telephony library.\<close>

definition Airplane_OnChange :: "'db datashare \<Rightarrow> string \<Rightarrow> 'db \<Rightarrow> bool \<Rightarrow> bool" where
  "Airplane_OnChange DS column db isOn = (case Settings_GetValue DS db column 0 of
     (ret, v) \<Rightarrow> if ret \<noteq> TELEPHONY_ERR_SUCCESS then isOn else v \<noteq> 0)"

section \<open>The identifier of a request\<close>

lemma digit_char: "d < 10 \<Longrightarrow> isdigit (char_of (48 + d))" "d < 10 \<Longrightarrow> char_code (char_of (48 + d)) = 48 + d" for d :: nat
  by (simp_all add: isdigit_def char_code_def)

lemma dec_value_snoc: "dec_value (ds @ [c]) = 10 * dec_value ds + (int (char_code c) - 48)"
  by (simp add: dec_value_def)

lemma digits_of_spec: "list_all isdigit (digits_of n) \<and> digits_of n \<noteq> [] \<and> dec_value (digits_of n) = int n"
proof (induction n rule: digits_of.induct)
  case (1 n)
  show ?case
  proof (cases "n < 10")
    case True
    then have "digits_of n = [char_of (48 + n)]" by (simp add: digits_of.simps)
    with True digit_char [of n] show ?thesis by (simp add: dec_value_def)
  next
    case False
    then have d: "digits_of n = digits_of (n div 10) @ [char_of (48 + n mod 10)]" by (subst digits_of.simps) simp
    have "n mod 10 < 10" by simp
    note digit = digit_char [OF this]
    have "10 * int (n div 10) + int (n mod 10) = int n" by presburger
    with 1 [OF False] digit show ?thesis unfolding d dec_value_snoc by simp
  qed
qed

lemma digit_not_space: "isdigit c \<Longrightarrow> \<not> isspace c \<and> c \<noteq> CHR ''-'' \<and> c \<noteq> CHR ''+''"
  by (auto simp: isdigit_def isspace_def char_code_def)

lemma stoi_to_string:
  assumes "0 \<le> i" "i < 2 ^ 31"
  shows "stoi (to_string i) = Some i"
proof -
  let ?ds = "digits_of (nat i)"
  note d = digits_of_spec [of "nat i"]
  have hd: "?ds \<noteq> []" "isdigit (hd ?ds)" using d by (cases ?ds; simp)+
  have all: "takeWhile isdigit ?ds = ?ds" using d by (simp add: takeWhile_eq_all_conv list_all_iff)
  have sp: "dropWhile isspace ?ds = ?ds" using hd digit_not_space [OF hd(2)] by (cases ?ds) simp_all
  have v: "dec_value ?ds = i" using d assms by simp
  from hd digit_not_space [OF hd(2)] have "stoi ?ds = Some i"
    unfolding stoi_def Let_def sp using assms by (simp add: all v)
  with assms show ?thesis by (simp add: to_string_def)
qed

text \<open>What the library function accepts: a text of digits.\<close>

definition accepts_digits :: "platform \<Rightarrow> bool" where
  "accepts_digits P \<longleftrightarrow> (\<forall>t. t \<noteq> [] \<longrightarrow> list_all isdigit t \<longrightarrow> IsValidDecValue P t)"

lemma request_slot_registered:
  assumes "accepts_digits P" "0 \<le> simId" "simId < 2 ^ 31"
  shows "request_slot P (IDENT_PREFIX @ to_string simId) ag = Some (Some (GetSlotId simId ag))"
  using assms digits_of_spec [of "nat simId"] stoi_to_string [OF assms(2,3)]
  by (simp add: request_slot_def accepts_digits_def to_string_def)

lemma bit_bits_of: "bit (word_of_nat (bits_of ns) :: 64 word) n \<longleftrightarrow> n < 64 \<and> n \<in> set ns"
proof -
  have one: "bit (push_bit k 1 :: 64 word) n \<longleftrightarrow> n < 64 \<and> n = k" for k
    by (auto simp: bit_exp_iff possible_bit_word)
  have "bit (foldl (\<lambda>m n. m OR push_bit n 1) w ns) n \<longleftrightarrow> bit w n \<or> (n < 64 \<and> n \<in> set ns)" for w :: "64 word"
  proof (induction ns arbitrary: w)
    case (Cons k ns)
    then show ?case by (simp only: foldl_Cons Cons.IH bit_or_iff one list.set insert_iff) blast
  qed simp
  then show ?thesis by (simp add: bits_of_def)
qed

lemma best_of_set:
  assumes "platform_ok P"
  shows "FindBestCapability P (word_of_nat (bits_of ns)) =
    (case find (\<lambda>c. NC P c \<in> set ns) (rev capability_tests) of Some c \<Rightarrow> c | None \<Rightarrow> NET_CAPABILITY_END)"
proof -
  have "NC P c < 64" for c using NC_lt [OF assms, of c] by simp
  then show ?thesis by (simp add: FindBestCapability_spec [OF assms] bit_bits_of)
qed

text \<open>C7: A network request of the net manager whose identifier carries the SIM of a registered slot reaches
  the handler of exactly this slot, once, at the end of its queue: the capability is the last of the
  program's list of capabilities that the request contains, the identifier and the bearers are kept,
  and no other controller changes. In power save mode the request is refused and nothing is queued.\<close>

theorem net_request_delivered:
  assumes digits: "accepts_digits (svc_platform E)" and platform: "platform_ok (wP (sW E slotId))"
    and sims: "map_wf (slotIdSimId (sv_agent s))" "map_of (slotIdSimId (sv_agent s)) slotId = Some simId"
      "\<And>i. map_of (slotIdSimId (sv_agent s)) i = Some simId \<Longrightarrow> i = slotId"
    and range: "0 \<le> simId" "simId < 2 ^ 31" "0 \<le> slotId" and caps: "netCaps \<noteq> []"
    and ready: "sv_initSuccess s" "map_of (sv_controllers s) slotId = Some c" "ctl_handler c = Some h"
  shows "\<exists>s' h'. NetManager_RequestNetwork E (IDENT_PREFIX @ to_string simId) netCaps bearTypes s =
      Some ((if powerSaveMode (sW E slotId) then REQUEST_FAILED else REQUEST_SUCCESS, V_none), s')
    \<and> map_of (sv_controllers s') = (map_of (sv_controllers s))(slotId \<mapsto> c \<lparr>ctl_handler := Some h'\<rparr>)
    \<and> hd_queue h' = hd_queue h @ (if powerSaveMode (sW E slotId) then []
        else [(MSG_REQUEST_NETWORK
                \<lparr>nr_capability = NC (wP (sW E slotId)) (case find (\<lambda>c. NC (wP (sW E slotId)) c \<in> set netCaps) (rev capability_tests) of
                                             Some c \<Rightarrow> c | None \<Rightarrow> NET_CAPABILITY_END),
                 nr_ident = IDENT_PREFIX @ to_string simId, nr_bearTypes = bits_of bearTypes\<rparr> TYPE_REQUEST_NET, 0)])
    \<and> hd_fx h' = hd_fx h \<and> hd_holders h' = hd_holders h"
proof -
  let ?r = "\<lparr>nr_capability = bits_of netCaps, nr_ident = IDENT_PREFIX @ to_string simId, nr_bearTypes = bits_of bearTypes\<rparr>"
  let ?h = "h \<lparr>hd_agent := sv_agent s, hd_db := sv_db s\<rparr>"
  have "GetSlotId simId (sv_agent s) = slotId" by (rule GetSlotId_unique [OF sims])
  then have slot: "request_slot (svc_platform E) (nr_ident ?r) (sv_agent s) = Some (Some slotId)"
    by (simp only: NetRequest.select_convs request_slot_registered [OF digits range(1,2)])
  have c: "GetCellularDataController slotId s = Some c" using range ready by (simp add: GetCellularDataController_def)
  have h: "ctl_handler (sv_enter s c) = Some ?h" "sv_enter s c \<lparr>ctl_handler := x\<rparr> = c \<lparr>ctl_handler := x\<rparr>" for x
    using ready by (simp_all add: sv_enter_def)
  define q where "q = best_request (sW E slotId) ?r"
  have q: "q = \<lparr>nr_capability = NC (wP (sW E slotId)) (case find (\<lambda>c. NC (wP (sW E slotId)) c \<in> set netCaps) (rev capability_tests) of
      Some c \<Rightarrow> c | None \<Rightarrow> NET_CAPABILITY_END), nr_ident = nr_ident ?r, nr_bearTypes = nr_bearTypes ?r\<rparr>"
    by (simp only: q_def best_request_def NetRequest.select_convs best_of_set [OF platform])
  define h' where "h' = (if powerSaveMode (sW E slotId) then ?h else hd_send (MSG_REQUEST_NETWORK q TYPE_REQUEST_NET) 0 ?h)"
  have "Ctl_RequestNet (sW E slotId) ?r (sv_enter s c) = (\<not> powerSaveMode (sW E slotId), c \<lparr>ctl_handler := Some h'\<rparr>)"
    unfolding Ctl_RequestNet_def with_handler_def h option.case RequestNet_def q_def [symmetric] h'_def by (simp add: h)
  then have "NetManager_RequestNetwork E (nr_ident ?r) netCaps bearTypes s =
      Some ((if powerSaveMode (sW E slotId) then REQUEST_FAILED else REQUEST_SUCCESS, V_none),
        sv_leave slotId (c \<lparr>ctl_handler := Some h'\<rparr>) s)"
    using caps by (simp add: NetManager_RequestNetwork_def Service_RequestNet_def slot [simplified] call_controller_def c)
  moreover have "map_of (sv_controllers (sv_leave slotId (c \<lparr>ctl_handler := Some h'\<rparr>) s)) =
      (map_of (sv_controllers s))(slotId \<mapsto> c \<lparr>ctl_handler := Some h'\<rparr>)" by (simp add: sv_leave_def map_of_put)
  moreover have "hd_queue h' = hd_queue h @ (if powerSaveMode (sW E slotId) then [] else [(MSG_REQUEST_NETWORK q TYPE_REQUEST_NET, 0)])"
    "hd_fx h' = hd_fx h \<and> hd_holders h' = hd_holders h" by (simp_all add: h'_def hd_send_def)
  ultimately show ?thesis unfolding q NetRequest.select_convs by blast
qed

definition sample_registered :: "(string \<times> string) list service" where
  "sample_registered = sample_running \<lparr>sv_agent := \<lparr>netSuppliers = [], slotIdSimId = [(0, 1)]\<rparr>\<rparr>"

lemma isdigit_cases: "isdigit c \<Longrightarrow> c \<in> set ''0123456789''"
proof -
  assume "isdigit c"
  then have "char_code c \<in> set [48, 49, 50, 51, 52, 53, 54, 55, 56, 57]"
    unfolding isdigit_def by (simp only: list.set insert_iff empty_iff) presburger
  then have "char_of (char_code c) \<in> set (map char_of [48, 49, 50, 51, 52, 53, 54, 55, 56, 57 :: nat])"
    unfolding list.set_map by (rule imageI)
  moreover have "map char_of [48, 49, 50, 51, 52, 53, 54, 55, 56, 57 :: nat] = ''0123456789''" by code_simp
  ultimately show ?thesis by (simp only: char_code_def char_of_char)
qed

lemma sample_accepts: "accepts_digits sample_platform"
  using isdigit_cases by (simp add: accepts_digits_def sample_platform_def list_all_iff)

theorem net_request_delivered_witness:
  "\<exists>s' c' h'. NetManager_RequestNetwork sample_svc_env (IDENT_PREFIX @ to_string 1) [0, 12] [] sample_registered
      = Some ((1, V_none), s')
    \<and> map_of (sv_controllers s') 0 = Some c' \<and> ctl_handler c' = Some h'
    \<and> hd_queue h' = [(MSG_REQUEST_NETWORK \<lparr>nr_capability = 0, nr_ident = ''simId1'', nr_bearTypes = 0\<rparr> TYPE_REQUEST_NET, 0)]"
proof -
  have w: "svc_platform sample_svc_env = sample_platform" "sW sample_svc_env 0 = sample_world"
    "wP sample_world = sample_platform" "powerSaveMode sample_world = False"
    by (simp_all add: svc_platform_def sample_svc_env_def sample_world_def)
  have r: "sv_agent sample_registered = \<lparr>netSuppliers = [], slotIdSimId = [(0, 1)]\<rparr>" "sv_initSuccess sample_registered"
    "map_of (sv_controllers sample_registered) 0 = Some ((new_controller 0) \<lparr>ctl_handler := Some sample_ready\<rparr>)"
    by (simp_all add: sample_registered_def sample_running_def)
  have q: "hd_queue sample_ready = []" by (simp add: sample_ready_def)
  have best: "NC sample_platform (case find (\<lambda>c. NC sample_platform c \<in> set [0, 12]) (rev capability_tests) of
      Some c \<Rightarrow> c | None \<Rightarrow> NET_CAPABILITY_END) = 0" by code_simp
  have str: "IDENT_PREFIX @ to_string 1 = ''simId1''" "bits_of [] = 0" by code_simp+
  have sims: "i = 0" if "map_of [(0 :: int, 1 :: int)] i = Some 1" for i
    using that by (simp_all add: map_wf_def split: if_splits)
  have range: "(0 :: int) \<le> 1" "(1 :: int) < 2 ^ 31" "(0 :: int) \<le> 0" "[0, 12 :: nat] \<noteq> []" by simp_all
  have h: "ctl_handler ((new_controller 0) \<lparr>ctl_handler := Some sample_ready\<rparr>) = Some sample_ready" by simp
  note facts = net_request_delivered [where s = sample_registered and c = "(new_controller 0) \<lparr>ctl_handler := Some sample_ready\<rparr>"
      and E = sample_svc_env and slotId = 0 and simId = 1, unfolded w, unfolded r(1) NetAgent.select_convs]
  from facts [where netCaps = "[0, 12]" and bearTypes = "[]", OF sample_accepts sample_platform_ok _ _ sims range r(2,3) h,
      unfolded best str q]
  show ?thesis unfolding str by (fastforce simp: map_wf_def)
qed

end
