(* ===== verification/Power_Save.thy ===== *)
theory Power_Save
  imports Handler_Runs
begin

text \<open>
  The subscriber of the power-save broadcasts (\<open>cellular_data_power_save_mode_subscriber.cpp\<close>) and the
  reply of the handler to them. The two static members of the class are one record that all slots share;
  a subscriber keeps the ordered broadcast that it received last, known by a number, and the list of
  the broadcasts for which it has called \<open>FinishCommonEvent\<close>.
  A slot keeps its handler, absent when the weak pointer has expired, and how many
  \<open>MSG_TIMEOUT_TO_REPLY_COMMON_EVENT\<close> events wait in its queue. The call of \<open>ReplyCommonEvent\<close> inside
  \<open>DisconnectDataComplete\<close> changes only the subscriber and these events, so the composition here runs it
  on the roles as they are at that point, beside the handler's own operation. The theorems: which
  slots a broadcast reaches, when it is answered, and what a second broadcast does to the answer.
\<close>

section \<open>State\<close>

datatype str_action = ENTER_STR | EXIT_STR

record str_static =
  lastMsg :: "str_action option"
  powerSaveModeFlag :: bool

definition new_str_static :: str_static where
  "new_str_static = \<lparr>lastMsg = None, powerSaveModeFlag = False\<rparr>"

record subscriber =
  strAsyncCommonEvent :: "nat option"
  finished :: "nat list"

record 'db str_slot =
  st_handler :: "'db handler option"
  st_timeouts :: nat

definition str_world :: "'db world \<Rightarrow> str_static \<Rightarrow> 'db world" where
  "str_world W st = W \<lparr>powerSaveMode := powerSaveModeFlag st\<rparr>"

definition FinishTelePowerCommonEvent :: "subscriber \<Rightarrow> subscriber" where
  "FinishTelePowerCommonEvent u = (case strAsyncCommonEvent u of
     None \<Rightarrow> u | Some b \<Rightarrow> u \<lparr>finished := finished u @ [b]\<rparr>)"

section \<open>Events\<close>

definition OnHandleEnterStrEvent ::
  "'db world \<Rightarrow> str_static \<Rightarrow> subscriber \<Rightarrow> 'db str_slot \<Rightarrow> (str_static \<times> subscriber \<times> 'db str_slot) outcome" where
  "OnHandleEnterStrEvent W st u x =
     (if lastMsg st = Some ENTER_STR then Some (st \<lparr>lastMsg := Some ENTER_STR\<rparr>, FinishTelePowerCommonEvent u, x)
      else case st_handler x of
        None \<Rightarrow> Some (st \<lparr>lastMsg := Some ENTER_STR\<rparr>, u, x)
      | Some h \<Rightarrow>
          let st1 = st \<lparr>powerSaveModeFlag := True\<rparr>
          in if GetDataConnIpType h \<noteq> '''' then do {
               h' \<leftarrow> ClearAllConnections (str_world W st1) REASON_CLEAR_CONNECTION h;
               Some (st1 \<lparr>lastMsg := Some ENTER_STR\<rparr>, u, x \<lparr>st_handler := Some h', st_timeouts := st_timeouts x + 1\<rparr>)
             }
             else Some (st1 \<lparr>lastMsg := Some ENTER_STR\<rparr>, FinishTelePowerCommonEvent u, x))"

definition OnHandleExitStrEvent ::
  "'db world \<Rightarrow> str_static \<Rightarrow> 'db str_slot \<Rightarrow> (str_static \<times> 'db str_slot) outcome" where
  "OnHandleExitStrEvent W st x =
     (if lastMsg st = Some EXIT_STR then Some (st \<lparr>lastMsg := Some EXIT_STR\<rparr>, x)
      else case st_handler x of
        None \<Rightarrow> Some (st \<lparr>lastMsg := Some EXIT_STR\<rparr>, x)
      | Some h \<Rightarrow> do {
          let st1 = st \<lparr>powerSaveModeFlag := False\<rparr>;
          h' \<leftarrow> EstablishAllApnsIfConnectable (str_world W st1) h;
          Some (st1 \<lparr>lastMsg := Some EXIT_STR\<rparr>, x \<lparr>st_handler := Some h'\<rparr>)
        })"

text \<open>Any other action is absent here; \<open>ABNORMAL_OPERATION\<close> is a constant of the platform, and
  \<open>ordered\<close> is the result of \<open>GoAsyncCommonEvent\<close>, which a broadcast that is not ordered does not have.\<close>

definition OnReceiveEvent ::
  "'db world \<Rightarrow> int \<Rightarrow> nat option \<Rightarrow> str_action option \<Rightarrow> int \<Rightarrow> str_static \<Rightarrow> subscriber \<Rightarrow> 'db str_slot
   \<Rightarrow> (str_static \<times> subscriber \<times> 'db str_slot) outcome" where
  "OnReceiveEvent W abnormalOperation ordered action code st u0 x =
     (let u = u0 \<lparr>strAsyncCommonEvent := ordered\<rparr>
      in case action of
           Some ENTER_STR \<Rightarrow> OnHandleEnterStrEvent W st u x
         | Some EXIT_STR \<Rightarrow>
             let u1 = FinishTelePowerCommonEvent u
             in if code = 1 \<or> code = abnormalOperation
                then do { (st', x') \<leftarrow> OnHandleExitStrEvent W st x; Some (st', u1, x') }
                else Some (st, u1, x)
         | None \<Rightarrow> Some (st, u, x))"

text \<open>The reply when the time limit has passed or, checked, after a connection has ended. The event of
  the time limit has left the queue when its handler runs.\<close>

definition ReplyCommonEvent :: "bool \<Rightarrow> subscriber option \<Rightarrow> 'db str_slot \<Rightarrow> subscriber option \<times> 'db str_slot" where
  "ReplyCommonEvent isNeedCheck u x =
     (let waiting = (case st_handler x of None \<Rightarrow> False | Some h \<Rightarrow>
            GetOverallDefaultApnState (hd_holders h) (hd_mgr h) \<in> {PROFILE_STATE_CONNECTED, PROFILE_STATE_DISCONNECTING})
      in if isNeedCheck \<and> (waiting \<or> st_timeouts x = 0) then (u, x)
         else (map_option FinishTelePowerCommonEvent u, x \<lparr>st_timeouts := 0\<rparr>))"

definition HandleReplyCommonEvent :: "subscriber option \<Rightarrow> 'db str_slot \<Rightarrow> subscriber option \<times> 'db str_slot" where
  "HandleReplyCommonEvent u x = ReplyCommonEvent False u x"

text \<open>The state in which the end of a connection checks for a reply: the role is down, nothing else has
  happened yet. Absent when the operation returns before that point.\<close>

definition reply_point :: "'db world \<Rightarrow> SetupDataCallResultInfo \<Rightarrow> 'db handler \<Rightarrow> 'db handler option" where
  "reply_point W info s = do {
     a \<leftarrow> FindApnHolderById (hd_mgr s) (sd_flag info);
     h \<leftarrow> hd_holders s a;
     m \<leftarrow> cellularDataStateMachine h;
     s1 \<leftarrow> machine_call m (UpdateNetworkInfo_call (wP W) (wE W) info) s;
     Some (put_holder a (SetApnState PROFILE_STATE_IDLE (SetCellularDataStateMachine None h)) s1)
   }"

definition Str_DisconnectDataComplete ::
  "'db world \<Rightarrow> SetupDataCallResultInfo \<Rightarrow> subscriber option \<Rightarrow> 'db str_slot \<Rightarrow> (subscriber option \<times> 'db str_slot) outcome" where
  "Str_DisconnectDataComplete W info u x = (case st_handler x of
     None \<Rightarrow> Some (u, x)
   | Some h \<Rightarrow> do {
       h' \<leftarrow> DisconnectDataComplete W info h;
       let (u', x') = (case reply_point W info h of None \<Rightarrow> (u, x)
             | Some g \<Rightarrow> ReplyCommonEvent True u (x \<lparr>st_handler := Some g\<rparr>));
       Some (u', x' \<lparr>st_handler := Some h'\<rparr>)
     })"

text \<open>An ordered broadcast visits the subscribers of the slots one after the other.\<close>

fun broadcast ::
  "'db world \<Rightarrow> int \<Rightarrow> nat \<Rightarrow> str_action \<Rightarrow> int \<Rightarrow> str_static \<Rightarrow> (subscriber \<times> 'db str_slot) list
   \<Rightarrow> (str_static \<times> (subscriber \<times> 'db str_slot) list) outcome" where
  "broadcast W ab b a code st [] = Some (st, [])"
| "broadcast W ab b a code st ((u, x) # ys) = do {
     (st1, u', x') \<leftarrow> OnReceiveEvent W ab (Some b) (Some a) code st u x;
     (st2, ys') \<leftarrow> broadcast W ab b a code st1 ys;
     Some (st2, (u', x') # ys')
   }"

section \<open>The shared state of the subscribers\<close>

definition answered :: "nat \<Rightarrow> subscriber \<Rightarrow> subscriber" where
  "answered b u = \<lparr>strAsyncCommonEvent = Some b, finished = finished u @ [b]\<rparr>"

text \<open>The broadcast changes no handler: it repeats the last one, or leaving the mode was not meant.\<close>

definition no_effect :: "int \<Rightarrow> str_action \<Rightarrow> int \<Rightarrow> str_static \<Rightarrow> bool" where
  "no_effect ab a code st \<longleftrightarrow> lastMsg st = Some a \<or> (a = EXIT_STR \<and> code \<noteq> 1 \<and> code \<noteq> ab)"

lemma repeated_answered:
  "no_effect ab a code st \<Longrightarrow> OnReceiveEvent W ab (Some b) (Some a) code st u x = Some (st, answered b u, x)"
  by (cases a)
    (auto simp: no_effect_def OnReceiveEvent_def OnHandleEnterStrEvent_def OnHandleExitStrEvent_def
      FinishTelePowerCommonEvent_def answered_def Let_def)

lemma received_no_effect:
  "OnReceiveEvent W ab (Some b) (Some a) code st u x = Some (st', u', x') \<Longrightarrow> no_effect ab a code st'"
  by (cases a)
    (auto simp: no_effect_def OnReceiveEvent_def OnHandleEnterStrEvent_def OnHandleExitStrEvent_def Let_def bind_eq_Some_conv
      split: if_splits option.splits)

lemma broadcast_repeated:
  "no_effect ab a code st \<Longrightarrow> broadcast W ab b a code st ys = Some (st, map (\<lambda>(u, x). (answered b u, x)) ys)"
  by (induction ys) (auto simp: repeated_answered)

text \<open>C26: A power-save broadcast reaches only the first slot: the subscribers of the other slots take it for a
  repetition, because the last message is a static member of the class, so each of them answers at once
  and its handler neither tears down its connections when the mode begins nor sets them up again when it ends.\<close>

theorem power_save_first_slot_only:
  assumes "broadcast W ab b a code st ((u, x) # ys) = Some (st', zs)"
  shows "\<exists>u' x'. OnReceiveEvent W ab (Some b) (Some a) code st u x = Some (st', u', x')
    \<and> zs = (u', x') # map (\<lambda>(v, y). (answered b v, y)) ys"
proof -
  from assms obtain st1 u' x' where r: "OnReceiveEvent W ab (Some b) (Some a) code st u x = Some (st1, u', x')"
    by (auto simp: bind_eq_Some_conv)
  with assms show ?thesis by (simp add: broadcast_repeated [OF received_no_effect [OF r]])
qed

section \<open>The answer to a broadcast\<close>

text \<open>What happens to a slot: connections end, the time limit of a waiting reply passes (its event has left
  the queue), the handler does anything else, the subscriber receives further broadcasts, whose results
  are collected, and the subscribers of the other slots change the static members.\<close>

inductive str_run ::
  "str_static \<times> subscriber option \<times> 'db str_slot \<Rightarrow> nat option list \<Rightarrow> str_static \<times> subscriber option \<times> 'db str_slot \<Rightarrow> bool"
  for p where
  start: "str_run p [] p"
| disconnected: "str_run p bs (st, u, x) \<Longrightarrow> Str_DisconnectDataComplete (str_world W st) info u x = Some (u', x') \<Longrightarrow>
    str_run p bs (st, u', x')"
| timed_out: "str_run p bs (st, u, x) \<Longrightarrow> 0 < st_timeouts x \<Longrightarrow>
    HandleReplyCommonEvent u (x \<lparr>st_timeouts := st_timeouts x - 1\<rparr>) = (u', x') \<Longrightarrow> str_run p bs (st, u', x')"
| handler: "str_run p bs (st, u, x) \<Longrightarrow> st_handler x = Some h \<Longrightarrow> hd_step (str_world W st) h h' \<Longrightarrow>
    str_run p bs (st, u, x \<lparr>st_handler := Some h'\<rparr>)"
| received: "str_run p bs (st, Some u, x) \<Longrightarrow> OnReceiveEvent W ab ordered action code st u x = Some (st', u', x') \<Longrightarrow>
    str_run p (bs @ [ordered]) (st', Some u', x')"
| others: "str_run p bs (st, u, x) \<Longrightarrow> str_run p bs (st', u, x)"

text \<open>How often a broadcast has been answered.\<close>

definition answers :: "nat \<Rightarrow> subscriber \<Rightarrow> nat" where
  "answers b u = count_list (finished u) b"

lemma count_list_snoc: "count_list (xs @ [y]) z = count_list xs z + (if y = z then 1 else 0)"
  by (induction xs) auto

lemma finish_answers:
  "answers b (FinishTelePowerCommonEvent u) = answers b u + (if strAsyncCommonEvent u = Some b then 1 else 0)"
  "strAsyncCommonEvent (FinishTelePowerCommonEvent u) = strAsyncCommonEvent u"
  "answers b (u \<lparr>strAsyncCommonEvent := z\<rparr>) = answers b u"
  by (auto simp: FinishTelePowerCommonEvent_def answers_def count_list_snoc split: option.splits)

text \<open>A reply answers what the subscriber holds, or nothing changes.\<close>

lemma reply_cases:
  "ReplyCommonEvent chk u x = (map_option FinishTelePowerCommonEvent u, x \<lparr>st_timeouts := 0\<rparr>) \<and> (chk \<longrightarrow> 0 < st_timeouts x)
     \<or> ReplyCommonEvent chk u x = (u, x) \<and> chk"
  by (auto simp: ReplyCommonEvent_def Let_def)

lemma disconnect_cases:
  assumes "Str_DisconnectDataComplete W info u x = Some (u', x')"
  shows "u' = u \<and> st_timeouts x' = st_timeouts x
     \<or> 0 < st_timeouts x \<and> u' = map_option FinishTelePowerCommonEvent u \<and> st_timeouts x' = 0"
proof (cases "st_handler x")
  case (Some h)
  show ?thesis
  proof (cases "reply_point W info h")
    case (Some g)
    obtain u1 x1 where r: "ReplyCommonEvent True u (x \<lparr>st_handler := Some g\<rparr>) = (u1, x1)" by fastforce
    with assms \<open>st_handler x = Some h\<close> Some have "u' = u1" "st_timeouts x' = st_timeouts x1"
      by (auto simp: Str_DisconnectDataComplete_def bind_eq_Some_conv)
    with r reply_cases [of True u "x \<lparr>st_handler := Some g\<rparr>"] show ?thesis by auto
  qed (use assms Some in \<open>auto simp: Str_DisconnectDataComplete_def bind_eq_Some_conv\<close>)
qed (use assms in \<open>auto simp: Str_DisconnectDataComplete_def\<close>)

text \<open>The end of a connection with the state of the default role at the place of the check.\<close>

definition default_is_down :: "'db handler \<Rightarrow> bool" where
  "default_is_down g \<longleftrightarrow>
     GetOverallDefaultApnState (hd_holders g) (hd_mgr g) \<notin> {PROFILE_STATE_CONNECTED, PROFILE_STATE_DISCONNECTING}"

lemma disconnect_reply:
  assumes "Str_DisconnectDataComplete W info u x = Some (u', x')" "st_handler x = Some h"
    "reply_point W info h = Some g" "0 < st_timeouts x"
  shows "(u', st_timeouts x') =
    (if default_is_down g then (map_option FinishTelePowerCommonEvent u, 0) else (u, st_timeouts x))"
  using assms
  by (auto simp: Str_DisconnectDataComplete_def bind_eq_Some_conv ReplyCommonEvent_def default_is_down_def Let_def)

lemma timeout_reply:
  "HandleReplyCommonEvent u x = (map_option FinishTelePowerCommonEvent u, x \<lparr>st_timeouts := 0\<rparr>)"
  by (simp add: HandleReplyCommonEvent_def ReplyCommonEvent_def)

lemma entered_answers:
  assumes "OnReceiveEvent W ab (Some b) (Some ENTER_STR) code st u x = Some (st', u', x')"
    "st_timeouts x = 0" "st_handler x \<noteq> None \<or> lastMsg st = Some ENTER_STR"
  shows "strAsyncCommonEvent u' = Some b" "answers b u' = answers b u + (if 0 < st_timeouts x' then 0 else 1)"
    "st_timeouts x' = 0 \<longleftrightarrow> lastMsg st = Some ENTER_STR \<or> (\<exists>h. st_handler x = Some h \<and> GetDataConnIpType h = [])"
  using assms
  by (auto simp: OnReceiveEvent_def OnHandleEnterStrEvent_def finish_answers Let_def bind_eq_Some_conv
      split: if_splits option.splits)

text \<open>A broadcast answers at most itself.\<close>

lemma received_answers:
  assumes "OnReceiveEvent W ab ordered action code st u x = Some (st', u', x')" "ordered \<noteq> Some b"
  shows "strAsyncCommonEvent u' = ordered" "answers b u' = answers b u"
  using assms
  by (auto simp: OnReceiveEvent_def OnHandleEnterStrEvent_def finish_answers Let_def bind_eq_Some_conv
      split: if_splits option.splits str_action.splits)


text \<open>One that it holds is answered when the waiting events are gone, as long as no other arrives.\<close>

lemma held:
  assumes "str_run p bs q" "bs = []" "p = (st, Some u, x)" "strAsyncCommonEvent u = Some b"
    "answers b u + (if 0 < st_timeouts x then 1 else 0) = n"
  shows "\<exists>st' u' x'. q = (st', Some u', x') \<and> strAsyncCommonEvent u' = Some b
     \<and> answers b u' + (if 0 < st_timeouts x' then 1 else 0) = n"
  using assms
proof (induction rule: str_run.induct)
  case (disconnected bs st u x W info u' x')
  with disconnect_cases [OF disconnected(2)] show ?case by (auto simp: finish_answers split: if_splits)
qed (auto simp: finish_answers timeout_reply split: if_splits)

lemma held_once:
  assumes "str_run p bs q" "p = (st, Some u, x)" "strAsyncCommonEvent u = Some b" "Some b \<notin> set bs"
    "answers b u + (if 0 < st_timeouts x then 1 else 0) = n"
  shows "\<exists>st' u' x'. q = (st', Some u', x') \<and> answers b u' \<le> n
     \<and> (strAsyncCommonEvent u' = Some b \<longrightarrow> answers b u' + (if 0 < st_timeouts x' then 1 else 0) = n)"
  using assms
proof (induction rule: str_run.induct)
  case (disconnected bs st u x W info u' x')
  with disconnect_cases [OF disconnected(2)] show ?case by (auto simp: finish_answers split: if_splits)
next
  case (received bs st u x W ab ordered action code st' u' x')
  with received_answers [OF received(2), of b] show ?case by auto
qed (auto simp: finish_answers timeout_reply split: if_splits)

text \<open>C24: The broadcast that begins the power-save mode is answered at most once, whatever happens afterwards,
  further broadcasts included. It is answered at once when it repeats the last one or when there is
  nothing to take down. Otherwise, as long as the subscriber receives no other broadcast, either the
  answer has been given and no event of the time limit waits, or the event waits and no answer has been
  given; then handling the event gives the answer, and so does the end of a connection that leaves the
  default role neither connected nor disconnecting, which also removes the event, while the end of
  another connection changes neither. This holds for a broadcast that is not answered yet and arrives
  while no event of an earlier one waits, at a subscriber whose handler is alive unless the broadcast is
  a repetition.\<close>

theorem power_save_answered_once:
  assumes "OnReceiveEvent W ab (Some b) (Some ENTER_STR) code st u x = Some (st1, u1, x1)"
    and "answers b u = 0" "st_timeouts x = 0" "st_handler x \<noteq> None \<or> lastMsg st = Some ENTER_STR"
    and "str_run (st1, Some u1, x1) bs (st2, v, x2)" "Some b \<notin> set bs"
  shows "(answers b u1 = 1 \<longleftrightarrow> lastMsg st = Some ENTER_STR \<or> (\<exists>h. st_handler x = Some h \<and> GetDataConnIpType h = []))
    \<and> (\<exists>u2. v = Some u2 \<and> answers b u2 \<le> 1
       \<and> (bs = [] \<longrightarrow> answers b u2 = (if st_timeouts x2 = 0 then 1 else 0)
           \<and> (0 < st_timeouts x2 \<longrightarrow>
                (\<exists>u3 x3. HandleReplyCommonEvent v (x2 \<lparr>st_timeouts := st_timeouts x2 - 1\<rparr>) = (Some u3, x3)
                   \<and> answers b u3 = 1 \<and> st_timeouts x3 = 0)
              \<and> (\<forall>W' info h g v4 x4. st_handler x2 = Some h \<and> reply_point W' info h = Some g
                     \<and> Str_DisconnectDataComplete W' info v x2 = Some (v4, x4) \<longrightarrow>
                   (\<exists>u4. v4 = Some u4 \<and> answers b u4 = (if default_is_down g then 1 else 0)
                      \<and> st_timeouts x4 = (if default_is_down g then 0 else st_timeouts x2))))))"
proof -
  note e = entered_answers [OF assms(1,3,4)]
  have n: "answers b u1 + (if 0 < st_timeouts x1 then 1 else 0) = 1" using e(2) assms(2) by simp
  obtain u2 where u2: "v = Some u2" "answers b u2 \<le> 1"
    using held_once [OF assms(5) refl e(1) assms(6) n] by auto
  have h: "strAsyncCommonEvent u2 = Some b \<and> answers b u2 + (if 0 < st_timeouts x2 then 1 else 0) = 1" if "bs = []"
    using held [OF assms(5) that refl e(1) n] u2(1) by auto
  have D: "\<exists>u4. v4 = Some u4 \<and> answers b u4 = (if default_is_down g then 1 else 0)
      \<and> st_timeouts x4 = (if default_is_down g then 0 else st_timeouts x2)"
    if "bs = []" "0 < st_timeouts x2" "st_handler x2 = Some hd" "reply_point W' info hd = Some g"
      "Str_DisconnectDataComplete W' info v x2 = Some (v4, x4)" for W' info hd g v4 x4
    using disconnect_reply [OF that(5,3,4,2)] h [OF that(1)] that(2) u2(1)
    by (auto simp: finish_answers split: if_splits)
  have T: "\<exists>u3 x3. HandleReplyCommonEvent v (x2 \<lparr>st_timeouts := st_timeouts x2 - 1\<rparr>) = (Some u3, x3)
      \<and> answers b u3 = 1 \<and> st_timeouts x3 = 0" if "bs = []" "0 < st_timeouts x2"
    using h [OF that(1)] that(2) u2(1) by (auto simp: timeout_reply finish_answers)
  have "answers b u1 = 1 \<longleftrightarrow> st_timeouts x1 = 0" using n by (auto split: if_splits)
  note A = this [unfolded e(3)]
  have B: "answers b u2 = (if st_timeouts x2 = 0 then 1 else 0)" if "bs = []" using h [OF that] by (auto split: if_splits)
  show ?thesis
    by (rule conjI [OF A], rule exI [of _ u2], intro conjI impI allI)
      (fact u2 | rule B, assumption | rule T, assumption, assumption | elim conjE, rule D, assumption+)+
qed


text \<open>Two slots with a connection: only the first is cleared.\<close>

definition sample_connected :: "(string \<times> string) list str_slot" where
  "sample_connected =
     \<lparr>st_handler = Some (sample_ready
        \<lparr>hd_mem := (hd_mem sample_ready) \<lparr>h_holders := [2 \<mapsto> sample_role
             \<lparr>apnState := PROFILE_STATE_CONNECTED, cellularDataStateMachine := Some 5\<rparr>]\<rparr>,
         hd_machines := [5 \<mapsto> (new_sm_data sample_platform sample_env 5 sample_agent (new_ConnectionTables 0)
             (hd_mem sample_ready)) \<lparr>sm_ipType := ''IPV4''\<rparr>]\<rparr>),
      st_timeouts = 0\<rparr>"

definition sample_subscriber :: subscriber where
  "sample_subscriber = \<lparr>strAsyncCommonEvent = None, finished = []\<rparr>"

definition sample_clear_calls :: "hcall list" where
  "sample_clear_calls = [Eff (ToMachine 5 (MSG_SM_DISCONNECT
     (Some \<lparr>dd_apnType = ''default'', dd_reason = REASON_CLEAR_CONNECTION\<rparr>)))]"

lemma sample_cleared:
  "map_option (\<lambda>(st, u, x). (u, st_timeouts x, map_option hd_fx (st_handler x)))
     (OnReceiveEvent sample_world 2 (Some 7) (Some ENTER_STR) 0 new_str_static sample_subscriber sample_connected)
   = Some (\<lparr>strAsyncCommonEvent = Some 7, finished = []\<rparr>, 1, Some sample_clear_calls)"
  by code_simp

theorem power_save_first_slot_only_witness:
  "\<exists>st' u' x'. broadcast sample_world 2 7 ENTER_STR 0 new_str_static
        [(sample_subscriber, sample_connected), (sample_subscriber, sample_connected)]
      = Some (st', [(u', x'), (answered 7 sample_subscriber, sample_connected)])
    \<and> map_option hd_fx (st_handler x') = Some sample_clear_calls"
proof -
  obtain st1 u1 x1 where r: "OnReceiveEvent sample_world 2 (Some 7) (Some ENTER_STR) 0 new_str_static sample_subscriber sample_connected
      = Some (st1, u1, x1)" "map_option hd_fx (st_handler x1) = Some sample_clear_calls"
    using sample_cleared by (auto split: prod.splits)
  have "\<exists>st' zs. broadcast sample_world 2 7 ENTER_STR 0 new_str_static
      [(sample_subscriber, sample_connected), (sample_subscriber, sample_connected)] = Some (st', zs)"
    by (simp add: r repeated_answered [OF received_no_effect [OF r(1)]])
  then obtain st' zs where b: "broadcast sample_world 2 7 ENTER_STR 0 new_str_static
      [(sample_subscriber, sample_connected), (sample_subscriber, sample_connected)] = Some (st', zs)" by blast
  from power_save_first_slot_only [OF b] b r show ?thesis by auto
qed

text \<open>The first slot after the broadcast, and after the time limit has passed.\<close>

lemma sample_received:
  obtains st1 u1 x1 where "OnReceiveEvent sample_world 2 (Some 7) (Some ENTER_STR) 0 new_str_static sample_subscriber sample_connected
      = Some (st1, u1, x1)" "st_timeouts x1 = 1" "u1 = \<lparr>strAsyncCommonEvent = Some 7, finished = []\<rparr>" "lastMsg st1 = Some ENTER_STR"
proof -
  obtain st1 u1 x1 where r: "OnReceiveEvent sample_world 2 (Some 7) (Some ENTER_STR) 0 new_str_static sample_subscriber sample_connected
      = Some (st1, u1, x1)" "st_timeouts x1 = 1" "u1 = \<lparr>strAsyncCommonEvent = Some 7, finished = []\<rparr>"
    using sample_cleared by (auto split: prod.splits)
  with received_no_effect [OF r(1)] show thesis by (auto simp: no_effect_def intro: that)
qed

theorem power_save_answered_once_witness:
  "\<exists>st1 u1 x1 u2 x2. OnReceiveEvent sample_world 2 (Some 7) (Some ENTER_STR) 0 new_str_static sample_subscriber sample_connected
       = Some (st1, u1, x1)
     \<and> 0 < st_timeouts x1 \<and> answers 7 u1 = 0 \<and> str_run (st1, Some u1, x1) [] (st1, Some u2, x2)
     \<and> st_timeouts x2 = 0 \<and> answers 7 u2 = 1"
proof -
  obtain st1 u1 x1 where r: "OnReceiveEvent sample_world 2 (Some 7) (Some ENTER_STR) 0 new_str_static sample_subscriber sample_connected
      = Some (st1, u1, x1)" "st_timeouts x1 = 1" "u1 = \<lparr>strAsyncCommonEvent = Some 7, finished = []\<rparr>"
    by (rule sample_received)
  have c: "answers 7 sample_subscriber = 0" "st_timeouts sample_connected = 0"
    "st_handler sample_connected \<noteq> None \<or> lastMsg new_str_static = Some ENTER_STR"
    by (simp_all add: sample_connected_def sample_subscriber_def answers_def)
  obtain v x2 where n: "HandleReplyCommonEvent (Some u1) (x1 \<lparr>st_timeouts := st_timeouts x1 - 1\<rparr>) = (v, x2)"
    by fastforce
  have s: "str_run (st1, Some u1, x1) [] (st1, v, x2)"
    by (rule str_run.timed_out [OF str_run.start _ n]) (simp add: r(2))
  have t: "st_timeouts x2 = 0" using n by (auto simp: timeout_reply)
  have "Some 7 \<notin> set ([] :: nat option list)" by simp
  from power_save_answered_once [OF r(1) c s this] t obtain u2 where u2: "v = Some u2" "answers 7 u2 = 1" by auto
  have "answers 7 u1 = 0" using r(3) by (simp add: answers_def)
  with r(1,2) s t u2 show ?thesis
    by (intro exI [of _ st1] exI [of _ u1] exI [of _ x1] exI [of _ u2] exI [of _ x2]) simp
qed


end
