(* ===== verification/Ext_Wrapper.thy ===== *)
theory Ext_Wrapper
  imports Data_Utils
begin

text \<open>
  The optional vendor functions (\<open>telephony_ext_wrapper.cpp\<close>, \<open>data_service_ext_wrapper.cpp\<close>): libraries are
  opened and symbols looked up by name; a pointer stays null when that fails. The dynamic loader is the
  parameter \<open>loader\<close> over abstract handles and addresses; the boolean system parameter is a field of it.
  What the functions do is not part of the repository: the other theories have them as the fields \<open>ext_\<close>
  of their environments, absent when the pointer is null.
\<close>

section \<open>State\<close>

record ('h, 'f) loader =
  dlopen :: "string \<Rightarrow> 'h option"
  dlsym :: "'h option \<Rightarrow> string \<Rightarrow> 'f option"
  GetBoolParameter :: "string \<Rightarrow> bool \<Rightarrow> bool"

record ('h, 'f) TelephonyExtWrapper =
  dataEndSelfCure :: "'f option"
  reRegisterNetwork :: "'f option"
  isApnAllowedActive :: "'f option"
  getVSimSlotId :: "'f option"
  createAllApnItemExt :: "'f option"
  isCardAllowData :: "'f option"
  isVSimEnabled :: "'f option"
  isVSimInDisableProcess :: "'f option"
  sendDataSwitchChangeInfo :: "'f option"
  isDualCellularCardAllowed :: "'f option"
  getUserDataRoamingExpend :: "'f option"
  sendApnNeedRetryInfo :: "'f option"
  handleDendFailcause :: "'f option"
  convertPdpError :: "'f option"
  restartRadioIfRequired :: "'f option"
  dynamicLoadInit :: "'f option"
  dynamicLoadNotifyReqCellularDataStatus :: "'f option"
  createDcApnItemExt :: "'f option"
  isVirtualModemConnected :: "'f option"
  isDcCellularDataAllowed :: "'f option"
  isVirtualModemSlot :: "'f option"
  reportEventToChr :: "'f option"
  sendCellularDataSlotChangeInfo :: "'f option"
  telephonyExtWrapperHandle :: "'h option"
  telephonyVSimWrapperHandle :: "'h option"
  telephonyDynamicLoadWrapperHandle :: "'h option"
  closed_handles :: "'h list"

definition TELEPHONY_EXT_WRAPPER_PATH :: string where
  "TELEPHONY_EXT_WRAPPER_PATH = ''libtelephony_ext_service.z.so''"

definition TELEPHONY_VSIM_WRAPPER_PATH :: string where
  "TELEPHONY_VSIM_WRAPPER_PATH = ''libtel_vsim_symbol.z.so''"

definition TELEPHONY_DYNAMIC_LOAD_WRAPPER_PATH :: string where
  "TELEPHONY_DYNAMIC_LOAD_WRAPPER_PATH = ''libtel_dynamic_load_service.z.so''"

text \<open>\<open>closed_handles\<close> collects the arguments of \<open>dlclose\<close>.\<close>

definition new_TelephonyExtWrapper :: "('h, 'f) TelephonyExtWrapper" where
  "new_TelephonyExtWrapper = \<lparr>dataEndSelfCure = None, reRegisterNetwork = None, isApnAllowedActive = None, getVSimSlotId = None,
     createAllApnItemExt = None, isCardAllowData = None, isVSimEnabled = None, isVSimInDisableProcess = None,
     sendDataSwitchChangeInfo = None, isDualCellularCardAllowed = None, getUserDataRoamingExpend = None, sendApnNeedRetryInfo = None,
     handleDendFailcause = None, convertPdpError = None, restartRadioIfRequired = None, dynamicLoadInit = None,
     dynamicLoadNotifyReqCellularDataStatus = None, createDcApnItemExt = None, isVirtualModemConnected = None, isDcCellularDataAllowed = None,
     isVirtualModemSlot = None, reportEventToChr = None, sendCellularDataSlotChangeInfo = None,
     telephonyExtWrapperHandle = None, telephonyVSimWrapperHandle = None,
     telephonyDynamicLoadWrapperHandle = None, closed_handles = []\<rparr>"

section \<open>Loading\<close>

definition InitDataEndSelfCure ::
  "('h, 'f) loader \<Rightarrow> ('h, 'f) TelephonyExtWrapper \<Rightarrow> ('h, 'f) TelephonyExtWrapper" where
  "InitDataEndSelfCure D w = w \<lparr>dataEndSelfCure := dlsym D (telephonyExtWrapperHandle w) ''DataEndSelfCure''\<rparr>"

definition InitReregisterNetwork ::
  "('h, 'f) loader \<Rightarrow> ('h, 'f) TelephonyExtWrapper \<Rightarrow> ('h, 'f) TelephonyExtWrapper" where
  "InitReregisterNetwork D w = w \<lparr>reRegisterNetwork := dlsym D (telephonyExtWrapperHandle w) ''ReregisterNetwork''\<rparr>"

definition InitTelephonyExtForCustomization ::
  "('h, 'f) loader \<Rightarrow> ('h, 'f) TelephonyExtWrapper \<Rightarrow> ('h, 'f) TelephonyExtWrapper" where
  "InitTelephonyExtForCustomization D w =
     w \<lparr>isApnAllowedActive := dlsym D (telephonyExtWrapperHandle w) ''IsApnAllowedActive'',
        getUserDataRoamingExpend := dlsym D (telephonyExtWrapperHandle w) ''GetUserDataRoamingExpend''\<rparr>"

definition InitTelephonyExtWrapperForVSim ::
  "('h, 'f) loader \<Rightarrow> ('h, 'f) TelephonyExtWrapper \<Rightarrow> ('h, 'f) TelephonyExtWrapper" where
  "InitTelephonyExtWrapperForVSim D w0 =
     (let w = w0 \<lparr>telephonyVSimWrapperHandle := dlopen D TELEPHONY_VSIM_WRAPPER_PATH\<rparr>;
          h = telephonyVSimWrapperHandle w
      in if h = None then w
         else w \<lparr>getVSimSlotId := dlsym D h ''GetVSimSlotId'', createAllApnItemExt := dlsym D h ''CreateAllApnItemExt'',
                 isCardAllowData := dlsym D h ''IsCardAllowData'', isVSimEnabled := dlsym D h ''IsVSimEnabled'',
                 isVSimInDisableProcess := dlsym D h ''IsVSimInDisableProcess''\<rparr>)"

definition InitSendDataSwitchChangeInfo ::
  "('h, 'f) loader \<Rightarrow> ('h, 'f) TelephonyExtWrapper \<Rightarrow> ('h, 'f) TelephonyExtWrapper" where
  "InitSendDataSwitchChangeInfo D w = w \<lparr>sendDataSwitchChangeInfo := dlsym D (telephonyExtWrapperHandle w) ''SendDataSwitchChangeInfo''\<rparr>"

definition InitIsDualCellularCardAllowed ::
  "('h, 'f) loader \<Rightarrow> ('h, 'f) TelephonyExtWrapper \<Rightarrow> ('h, 'f) TelephonyExtWrapper" where
  "InitIsDualCellularCardAllowed D w = w \<lparr>isDualCellularCardAllowed := dlsym D (telephonyExtWrapperHandle w) ''IsDualCellularCardAllowed''\<rparr>"

definition InitHandleDendFailcause ::
  "('h, 'f) loader \<Rightarrow> ('h, 'f) TelephonyExtWrapper \<Rightarrow> ('h, 'f) TelephonyExtWrapper" where
  "InitHandleDendFailcause D w = w \<lparr>handleDendFailcause := dlsym D (telephonyExtWrapperHandle w) ''HandleDendFailcause''\<rparr>"

definition InitConvertPdpError ::
  "('h, 'f) loader \<Rightarrow> ('h, 'f) TelephonyExtWrapper \<Rightarrow> ('h, 'f) TelephonyExtWrapper" where
  "InitConvertPdpError D w = w \<lparr>convertPdpError := dlsym D (telephonyExtWrapperHandle w) ''ConvertPdpError''\<rparr>"

definition InitRestartRadioIfRequired ::
  "('h, 'f) loader \<Rightarrow> ('h, 'f) TelephonyExtWrapper \<Rightarrow> ('h, 'f) TelephonyExtWrapper" where
  "InitRestartRadioIfRequired D w = w \<lparr>restartRadioIfRequired := dlsym D (telephonyExtWrapperHandle w) ''RestartRadioIfRequired''\<rparr>"

definition InitSendApnNeedRetryInfo ::
  "('h, 'f) loader \<Rightarrow> ('h, 'f) TelephonyExtWrapper \<Rightarrow> ('h, 'f) TelephonyExtWrapper" where
  "InitSendApnNeedRetryInfo D w = w \<lparr>sendApnNeedRetryInfo := dlsym D (telephonyExtWrapperHandle w) ''SendApnNeedRetryInfo''\<rparr>"

text \<open>The second function of this library is looked up only when the first exists.\<close>

definition InitTelephonyExtWrapperForDynamicLoad ::
  "('h, 'f) loader \<Rightarrow> ('h, 'f) TelephonyExtWrapper \<Rightarrow> ('h, 'f) TelephonyExtWrapper" where
  "InitTelephonyExtWrapperForDynamicLoad D w0 =
     (let w = w0 \<lparr>telephonyDynamicLoadWrapperHandle := dlopen D TELEPHONY_DYNAMIC_LOAD_WRAPPER_PATH\<rparr>;
          h = telephonyDynamicLoadWrapperHandle w
      in if h = None then w
         else let w1 = w \<lparr>dynamicLoadInit := dlsym D h ''InitDynamicLoadHandle''\<rparr>
              in if dynamicLoadInit w1 = None then w1
                 else w1 \<lparr>dynamicLoadNotifyReqCellularDataStatus := dlsym D h ''InformReqCellularDataStatus''\<rparr>)"

definition InitCreateDcApnItemExt ::
  "('h, 'f) loader \<Rightarrow> ('h, 'f) TelephonyExtWrapper \<Rightarrow> ('h, 'f) TelephonyExtWrapper" where
  "InitCreateDcApnItemExt D w = w \<lparr>createDcApnItemExt := dlsym D (telephonyExtWrapperHandle w) ''CreateDcApnItemExt''\<rparr>"

definition virtualModemSwitch :: "('h, 'f) loader \<Rightarrow> bool" where
  "virtualModemSwitch D = GetBoolParameter D ''const.booster.virtual_modem_switch'' False"

definition InitIsVirtualModemConnected ::
  "('h, 'f) loader \<Rightarrow> ('h, 'f) TelephonyExtWrapper \<Rightarrow> ('h, 'f) TelephonyExtWrapper" where
  "InitIsVirtualModemConnected D w =
     (if \<not> virtualModemSwitch D then w \<lparr>isVirtualModemConnected := None\<rparr>
      else w \<lparr>isVirtualModemConnected := dlsym D (telephonyExtWrapperHandle w) ''IsVirtualModemConnected''\<rparr>)"

definition InitIsDcCellularDataAllowed ::
  "('h, 'f) loader \<Rightarrow> ('h, 'f) TelephonyExtWrapper \<Rightarrow> ('h, 'f) TelephonyExtWrapper" where
  "InitIsDcCellularDataAllowed D w =
     (if \<not> virtualModemSwitch D then w \<lparr>isDcCellularDataAllowed := None\<rparr>
      else w \<lparr>isDcCellularDataAllowed := dlsym D (telephonyExtWrapperHandle w) ''IsDcCellularDataAllowed''\<rparr>)"

definition InitIsVirtualModemSlot ::
  "('h, 'f) loader \<Rightarrow> ('h, 'f) TelephonyExtWrapper \<Rightarrow> ('h, 'f) TelephonyExtWrapper" where
  "InitIsVirtualModemSlot D w =
     (if \<not> virtualModemSwitch D then w \<lparr>isVirtualModemSlot := None\<rparr>
      else w \<lparr>isVirtualModemSlot := dlsym D (telephonyExtWrapperHandle w) ''IsVirtualModemSlot''\<rparr>)"

definition InitReportEventToChr ::
  "('h, 'f) loader \<Rightarrow> ('h, 'f) TelephonyExtWrapper \<Rightarrow> ('h, 'f) TelephonyExtWrapper" where
  "InitReportEventToChr D w = w \<lparr>reportEventToChr := dlsym D (telephonyExtWrapperHandle w) ''ReportEventToChr''\<rparr>"

definition InitSendCellularDataSlotChangeInfo ::
  "('h, 'f) loader \<Rightarrow> ('h, 'f) TelephonyExtWrapper \<Rightarrow> ('h, 'f) TelephonyExtWrapper" where
  "InitSendCellularDataSlotChangeInfo D w = w \<lparr>sendCellularDataSlotChangeInfo := dlsym D (telephonyExtWrapperHandle w) ''SendCellularDataSlotChangeInfo''\<rparr>"

definition InitTelephonyExtWrapperForCellularData ::
  "('h, 'f) loader \<Rightarrow> ('h, 'f) TelephonyExtWrapper \<Rightarrow> ('h, 'f) TelephonyExtWrapper" where
  "InitTelephonyExtWrapperForCellularData D w0 =
     (let w = w0 \<lparr>telephonyExtWrapperHandle := dlopen D TELEPHONY_EXT_WRAPPER_PATH\<rparr>
      in if telephonyExtWrapperHandle w = None then w
         else fold (\<lambda>init. init D)
          [InitDataEndSelfCure, InitTelephonyExtForCustomization, InitSendDataSwitchChangeInfo,
           InitIsDualCellularCardAllowed, InitHandleDendFailcause, InitConvertPdpError,
           InitRestartRadioIfRequired, InitSendApnNeedRetryInfo, InitCreateDcApnItemExt,
           InitReregisterNetwork, InitIsVirtualModemConnected, InitIsDcCellularDataAllowed,
           InitIsVirtualModemSlot, InitReportEventToChr, InitSendCellularDataSlotChangeInfo] w)"

definition InitTelephonyExtWrapper ::
  "('h, 'f) loader \<Rightarrow> ('h, 'f) TelephonyExtWrapper \<Rightarrow> ('h, 'f) TelephonyExtWrapper" where
  "InitTelephonyExtWrapper D w =
     InitTelephonyExtWrapperForVSim D
       (InitTelephonyExtWrapperForCellularData D (InitTelephonyExtWrapperForDynamicLoad D w))"

definition TelephonyExtWrapper_destroy :: "('h, 'f) TelephonyExtWrapper \<Rightarrow> ('h, 'f) TelephonyExtWrapper" where
  "TelephonyExtWrapper_destroy w =
     (let w1 = (case telephonyExtWrapperHandle w of None \<Rightarrow> w
          | Some h \<Rightarrow> w \<lparr>closed_handles := closed_handles w @ [h], telephonyExtWrapperHandle := None\<rparr>);
          w2 = (case telephonyVSimWrapperHandle w1 of None \<Rightarrow> w1
          | Some h \<Rightarrow> w1 \<lparr>closed_handles := closed_handles w1 @ [h], telephonyVSimWrapperHandle := None\<rparr>)
      in case telephonyDynamicLoadWrapperHandle w2 of None \<Rightarrow> w2
          | Some h \<Rightarrow> w2 \<lparr>closed_handles := closed_handles w2 @ [h], telephonyDynamicLoadWrapperHandle := None\<rparr>)"

section \<open>The extension of the data service\<close>

record ('h, 'f) DataServiceExtWrapper =
  DataServiceExtWrapperHandle :: "'h option"
  requestTcpAndDnsPackets :: "'f option"

text \<open>The path is read into a buffer that starts as zeros; only a result of length zero stops.\<close>

definition InitDataServiceExtWrapper ::
  "('h, 'f) loader \<Rightarrow> parameters \<Rightarrow> ('h, 'f) DataServiceExtWrapper \<Rightarrow> ('h, 'f) DataServiceExtWrapper" where
  "InitDataServiceExtWrapper D getParam w =
     (case getParam ''persist.sys.data.dataextpath'' [] 128 of (retLen, pathName) \<Rightarrow>
        if retLen = 0 then w
        else let h = dlopen D (c_str pathName); w1 = w \<lparr>DataServiceExtWrapperHandle := h\<rparr>
             in if h = None then w1
                else w1 \<lparr>requestTcpAndDnsPackets := dlsym D h ''SendTcpPktCollecToKernel''\<rparr>)"

section \<open>What is bound after the initialisation\<close>

text \<open>Every pointer with its library, its symbol and whether the switch for the virtual modem guards it.
  The notification of the dynamic loader stands apart: it is looked up under a condition.\<close>

definition ext_symbols :: "((('h, 'f) TelephonyExtWrapper \<Rightarrow> 'f option) \<times> string \<times> string \<times> bool) list" where
  "ext_symbols =
    [(dataEndSelfCure, TELEPHONY_EXT_WRAPPER_PATH, ''DataEndSelfCure'', False),
     (reRegisterNetwork, TELEPHONY_EXT_WRAPPER_PATH, ''ReregisterNetwork'', False),
     (isApnAllowedActive, TELEPHONY_EXT_WRAPPER_PATH, ''IsApnAllowedActive'', False),
     (getVSimSlotId, TELEPHONY_VSIM_WRAPPER_PATH, ''GetVSimSlotId'', False),
     (createAllApnItemExt, TELEPHONY_VSIM_WRAPPER_PATH, ''CreateAllApnItemExt'', False),
     (isCardAllowData, TELEPHONY_VSIM_WRAPPER_PATH, ''IsCardAllowData'', False),
     (isVSimEnabled, TELEPHONY_VSIM_WRAPPER_PATH, ''IsVSimEnabled'', False),
     (isVSimInDisableProcess, TELEPHONY_VSIM_WRAPPER_PATH, ''IsVSimInDisableProcess'', False),
     (sendDataSwitchChangeInfo, TELEPHONY_EXT_WRAPPER_PATH, ''SendDataSwitchChangeInfo'', False),
     (isDualCellularCardAllowed, TELEPHONY_EXT_WRAPPER_PATH, ''IsDualCellularCardAllowed'', False),
     (getUserDataRoamingExpend, TELEPHONY_EXT_WRAPPER_PATH, ''GetUserDataRoamingExpend'', False),
     (sendApnNeedRetryInfo, TELEPHONY_EXT_WRAPPER_PATH, ''SendApnNeedRetryInfo'', False),
     (handleDendFailcause, TELEPHONY_EXT_WRAPPER_PATH, ''HandleDendFailcause'', False),
     (convertPdpError, TELEPHONY_EXT_WRAPPER_PATH, ''ConvertPdpError'', False),
     (restartRadioIfRequired, TELEPHONY_EXT_WRAPPER_PATH, ''RestartRadioIfRequired'', False),
     (dynamicLoadInit, TELEPHONY_DYNAMIC_LOAD_WRAPPER_PATH, ''InitDynamicLoadHandle'', False),
     (createDcApnItemExt, TELEPHONY_EXT_WRAPPER_PATH, ''CreateDcApnItemExt'', False),
     (isVirtualModemConnected, TELEPHONY_EXT_WRAPPER_PATH, ''IsVirtualModemConnected'', True),
     (isDcCellularDataAllowed, TELEPHONY_EXT_WRAPPER_PATH, ''IsDcCellularDataAllowed'', True),
     (isVirtualModemSlot, TELEPHONY_EXT_WRAPPER_PATH, ''IsVirtualModemSlot'', True),
     (reportEventToChr, TELEPHONY_EXT_WRAPPER_PATH, ''ReportEventToChr'', False),
     (sendCellularDataSlotChangeInfo, TELEPHONY_EXT_WRAPPER_PATH, ''SendCellularDataSlotChangeInfo'', False)]"

definition bound_to ::
  "('h, 'f) loader \<Rightarrow> ('h, 'f) TelephonyExtWrapper
   \<Rightarrow> (('h, 'f) TelephonyExtWrapper \<Rightarrow> 'f option) \<times> string \<times> string \<times> bool \<Rightarrow> 'f option" where
  "bound_to D w = (\<lambda>(ptr, lib, name, guarded).
     case dlopen D lib of None \<Rightarrow> ptr w
     | Some h \<Rightarrow> if guarded \<and> \<not> virtualModemSwitch D then None else dlsym D (Some h) name)"

lemmas ext_init_defs = InitTelephonyExtWrapper_def InitTelephonyExtWrapperForVSim_def InitTelephonyExtWrapperForDynamicLoad_def
  InitTelephonyExtWrapperForCellularData_def
  InitDataEndSelfCure_def InitTelephonyExtForCustomization_def InitSendDataSwitchChangeInfo_def
  InitIsDualCellularCardAllowed_def InitHandleDendFailcause_def InitConvertPdpError_def
  InitRestartRadioIfRequired_def InitSendApnNeedRetryInfo_def InitCreateDcApnItemExt_def
  InitReregisterNetwork_def InitIsVirtualModemConnected_def InitIsDcCellularDataAllowed_def
  InitIsVirtualModemSlot_def InitReportEventToChr_def InitSendCellularDataSlotChangeInfo_def

lemma ext_init_handles:
  "telephonyExtWrapperHandle (InitTelephonyExtWrapper D w) = dlopen D TELEPHONY_EXT_WRAPPER_PATH"
  "telephonyVSimWrapperHandle (InitTelephonyExtWrapper D w) = dlopen D TELEPHONY_VSIM_WRAPPER_PATH"
  "telephonyDynamicLoadWrapperHandle (InitTelephonyExtWrapper D w) = dlopen D TELEPHONY_DYNAMIC_LOAD_WRAPPER_PATH"
  "closed_handles (InitTelephonyExtWrapper D w) = closed_handles w"
  by (cases "dlopen D TELEPHONY_EXT_WRAPPER_PATH"; cases "dlopen D TELEPHONY_VSIM_WRAPPER_PATH";
    cases "dlopen D TELEPHONY_DYNAMIC_LOAD_WRAPPER_PATH"; cases "virtualModemSwitch D"; simp add: ext_init_defs Let_def)+

lemma destroy_closes:
  "closed_handles (TelephonyExtWrapper_destroy w) = closed_handles w @ List.map_filter id
     [telephonyExtWrapperHandle w, telephonyVSimWrapperHandle w, telephonyDynamicLoadWrapperHandle w]"
  by (cases "telephonyExtWrapperHandle w"; cases "telephonyVSimWrapperHandle w"; cases "telephonyDynamicLoadWrapperHandle w")
    (simp_all add: TelephonyExtWrapper_destroy_def List.map_filter_def Let_def)

text \<open>C39: The initialisation of the vendor functions binds every pointer to its own symbol of its own library
  and to nothing else: a pointer of a library that cannot be opened keeps its value, a pointer for the
  virtual modem is null when the modem is switched off, and the notification of the dynamic loader is
  looked up only when its initialisation function exists. The destructor closes each library that
  is open exactly once and no other.\<close>

theorem ext_wrapper_binds:
  "list_all (\<lambda>x. fst x (InitTelephonyExtWrapper D w) = bound_to D w x) ext_symbols
   \<and> dynamicLoadNotifyReqCellularDataStatus (InitTelephonyExtWrapper D w) =
       (case dlopen D TELEPHONY_DYNAMIC_LOAD_WRAPPER_PATH of None \<Rightarrow> dynamicLoadNotifyReqCellularDataStatus w
        | Some h \<Rightarrow> if dlsym D (Some h) ''InitDynamicLoadHandle'' = None then dynamicLoadNotifyReqCellularDataStatus w
                    else dlsym D (Some h) ''InformReqCellularDataStatus'')
   \<and> closed_handles (TelephonyExtWrapper_destroy (InitTelephonyExtWrapper D w)) = closed_handles w @
       List.map_filter (dlopen D) [TELEPHONY_EXT_WRAPPER_PATH, TELEPHONY_VSIM_WRAPPER_PATH, TELEPHONY_DYNAMIC_LOAD_WRAPPER_PATH]"
proof (intro conjI)
  show "list_all (\<lambda>x. fst x (InitTelephonyExtWrapper D w) = bound_to D w x) ext_symbols"
    by (cases "dlopen D TELEPHONY_EXT_WRAPPER_PATH"; cases "dlopen D TELEPHONY_VSIM_WRAPPER_PATH";
      cases "dlopen D TELEPHONY_DYNAMIC_LOAD_WRAPPER_PATH"; cases "virtualModemSwitch D")
      (simp_all add: ext_symbols_def bound_to_def ext_init_defs Let_def)
  show "dynamicLoadNotifyReqCellularDataStatus (InitTelephonyExtWrapper D w) =
       (case dlopen D TELEPHONY_DYNAMIC_LOAD_WRAPPER_PATH of None \<Rightarrow> dynamicLoadNotifyReqCellularDataStatus w
        | Some h \<Rightarrow> if dlsym D (Some h) ''InitDynamicLoadHandle'' = None then dynamicLoadNotifyReqCellularDataStatus w
                    else dlsym D (Some h) ''InformReqCellularDataStatus'')"
    by (cases "dlopen D TELEPHONY_EXT_WRAPPER_PATH"; cases "dlopen D TELEPHONY_VSIM_WRAPPER_PATH";
      cases "dlopen D TELEPHONY_DYNAMIC_LOAD_WRAPPER_PATH"; cases "virtualModemSwitch D")
      (simp_all add: ext_init_defs Let_def)
qed (simp add: destroy_closes ext_init_handles List.map_filter_def)

end
