(* ===== verification/Diagnostics.thy ===== *)
theory Diagnostics
  imports Service_Requests
begin

text \<open>
  What the program says of itself: the events of \<open>cellular_data_hisysevent.cpp\<close> and the dump of the service
  (\<open>cellular_data_dump_helper.cpp\<close> and the functions of \<open>cellular_data_service.cpp\<close> that it prints). The
  places that write the events leave no trace in the other theories, since nothing reads them. Times are
  in milliseconds.
\<close>

section \<open>Events\<close>

datatype event_value = EV_int int | EV_text string

text \<open>Name and named values, in the order in which they are written.\<close>

datatype sys_event =
    BehaviorEvent string "(string \<times> event_value) list"
  | FaultEvent string "(string \<times> event_value) list"

abbreviation (input) "DATA_ACTIVATE_TIME \<equiv> (1000::int)"

datatype DataDisconnectCause = ON_THE_NETWORK_SIDE | BY_USER | HIGN_PRIORITY_NETWORK | LOST_CONNECTION

fun cause_code :: "DataDisconnectCause \<Rightarrow> int" where
  "cause_code ON_THE_NETWORK_SIDE = 0"
| "cause_code BY_USER = 1"
| "cause_code HIGN_PRIORITY_NETWORK = 2"
| "cause_code LOST_CONNECTION = 3"

definition WriteDataDeactiveBehaviorEvent :: "int \<Rightarrow> DataDisconnectCause \<Rightarrow> string \<Rightarrow> sys_event" where
  "WriteDataDeactiveBehaviorEvent slotId ty role = BehaviorEvent ''DATA_DEACTIVED''
     [(''SLOT_ID'', EV_int slotId), (''APN_TYPE'', EV_int (FindApnTypeByApnName role)), (''TYPE'', EV_int (cause_code ty))]"

definition WriteDataConnectStateBehaviorEvent :: "NetAgent \<Rightarrow> int \<Rightarrow> string \<Rightarrow> nat \<Rightarrow> int \<Rightarrow> sys_event" where
  "WriteDataConnectStateBehaviorEvent ag slotId role cap st = BehaviorEvent ''DATA_CONNECTION_STATE''
     [(''SLOT_ID'', EV_int slotId), (''APN_TYPE'', EV_int (FindApnTypeByApnName role)),
      (''SUPPLIER_ID'', EV_int (GetSupplierId slotId cap ag)), (''STATE'', EV_int st)]"

definition WriteRoamingConnectStateBehaviorEvent :: "int \<Rightarrow> sys_event" where
  "WriteRoamingConnectStateBehaviorEvent st = BehaviorEvent ''ROAMING_DATA_CONNECTION_STATE'' [(''STATE'', EV_int st)]"

definition WriteCellularRequestBehaviorEvent :: "nat \<Rightarrow> string \<Rightarrow> nat \<Rightarrow> int \<Rightarrow> sys_event" where
  "WriteCellularRequestBehaviorEvent uid name ty st = BehaviorEvent ''CELLULAR_REQUEST''
     [(''CALL_UID'', EV_int (int uid)), (''CALL_PID'', EV_int (-1)), (''NAME'', EV_text name), (''REQUEST_ID'', EV_int (-1)),
      (''TYPE'', EV_int (int ty)), (''STATE'', EV_int st)]"

text \<open>\<open>invalid\<close> is the constant \<open>INVALID_PARAMETER\<close> of another repository, as is the code of the error.\<close>

definition WriteDataActivateFaultEvent :: "int \<Rightarrow> int \<Rightarrow> int \<Rightarrow> int \<Rightarrow> string \<Rightarrow> sys_event" where
  "WriteDataActivateFaultEvent invalid slotId switchState errorType errorMsg = FaultEvent ''DATA_ACTIVATE_FAILED''
     [(''MODULE'', EV_text ''CELLULAR_DATA''), (''SLOT_ID'', EV_int slotId), (''DATA_SWITCH'', EV_int switchState),
      (''UPLINK_DATA'', EV_int invalid), (''DOWNLINK_DATA'', EV_int invalid), (''DATASTATE'', EV_int invalid),
      (''ERROR_TYPE'', EV_int errorType), (''ERROR_MSG'', EV_text errorMsg)]"

text \<open>A row of the database; two of its members, \<open>bearing\<close> and \<open>server\<close>, are used nowhere else. An access
  point has its texts in arrays of characters, which end at the first null.\<close>

definition WriteApnInfoBehaviorEvent :: "int \<Rightarrow> PdpProfile \<Rightarrow> string \<Rightarrow> string \<Rightarrow> sys_event" where
  "WriteApnInfoBehaviorEvent slotId d bearing server = BehaviorEvent ''APN_INFO_EVENT''
     [(''CARDID'', EV_int slotId), (''CARRIER'', EV_text (pp_profileName d)), (''APN'', EV_text (pp_apn d)),
      (''PROXY'', EV_text (pp_proxyIpAddress d)), (''MMSPROXY'', EV_text (pp_mmsIpAddress d)),
      (''NUMERIC'', EV_text (pp_mcc d @ pp_mnc d)), (''AUTHTYPE'', EV_int (pp_authType d)),
      (''APNTYPES'', EV_text (pp_apnTypes d)), (''PROTOCOL'', EV_text (pp_pdpProtocol d)),
      (''ROAMINGPROTOCOL'', EV_text (pp_roamPdpProtocol d)), (''BEARER'', EV_text bearing),
      (''MVNOTYPE'', EV_text (pp_mvnoType d)), (''MVNOMATCHDATA'', EV_text (pp_mvnoMatchData d)),
      (''ISCREATEDAPN'', EV_int (of_bool (pp_edited d))), (''HASUSERPSD'', EV_int (if pp_authPwd d = [] then 0 else 1)),
      (''SERVER'', EV_text server)]"

definition WriteApnInfoBehaviorEvent_item :: "int \<Rightarrow> ApnItem option \<Rightarrow> sys_event list" where
  "WriteApnInfoBehaviorEvent_item slotId item = (case item of
     None \<Rightarrow> []
   | Some it \<Rightarrow> (let a = it_attr it in [BehaviorEvent ''APN_INFO_EVENT''
       [(''CARDID'', EV_int slotId), (''CARRIER'', EV_text (c_str (at_apnName a))), (''APN'', EV_text (c_str (at_apn a))),
        (''PROXY'', EV_text (c_str (at_proxyIpAddress a))), (''MMSPROXY'', EV_text (c_str (at_mmsIpAddress a))),
        (''NUMERIC'', EV_text (c_str (at_numeric a))), (''AUTHTYPE'', EV_int (at_authType a)),
        (''APNTYPES'', EV_text (c_str (at_types a))), (''PROTOCOL'', EV_text (c_str (at_protocol a))),
        (''ROAMINGPROTOCOL'', EV_text (c_str (at_roamingProtocol a))), (''BEARER'', EV_text []),
        (''MVNOTYPE'', EV_text []), (''MVNOMATCHDATA'', EV_text []), (''ISCREATEDAPN'', EV_int (of_bool (at_isEdited a))),
        (''HASUSERPSD'', EV_int (if length (c_str (at_password a)) = 0 then 0 else 1)), (''SERVER'', EV_text [])]]))"

text \<open>The time of the last attempt to activate, 0 at first, and the complaint about one that takes long.\<close>

definition SetCellularDataActivateStartTime :: "int \<Rightarrow> int \<Rightarrow> int" where
  "SetCellularDataActivateStartTime t start = t"

definition JudgingDataActivateTimeOut :: "int \<Rightarrow> int \<Rightarrow> int \<Rightarrow> int \<Rightarrow> int \<Rightarrow> int \<Rightarrow> sys_event option" where
  "JudgingDataActivateTimeOut invalid timeOutCode slotId switchState t start =
     (if t - start > DATA_ACTIVATE_TIME
      then Some (WriteDataActivateFaultEvent invalid slotId switchState timeOutCode
             (''data activate time out '' @ to_string (t - start)))
      else None)"

section \<open>Times and state of the service\<close>

text \<open>The start notes when it began and, if it came to its end, when it ended.\<close>

record svc_clock =
  beginTime :: int
  endTime :: int

definition new_clock :: svc_clock where
  "new_clock = \<lparr>beginTime = 0, endTime = 0\<rparr>"

definition OnStart_clock :: "'db svc_env \<Rightarrow> int \<Rightarrow> int \<Rightarrow> 'db service \<Rightarrow> svc_clock \<Rightarrow> svc_clock outcome" where
  "OnStart_clock E before after s k =
     (let k1 = k \<lparr>beginTime := before\<rparr>
      in if sv_running s then Some k1
         else do { (ok, s1) \<leftarrow> Service_Init E s; Some (if ok then k1 \<lparr>endTime := after\<rparr> else k1) })"

definition GetBeginTime :: "svc_clock \<Rightarrow> string" where
  "GetBeginTime k = to_string (beginTime k)"

definition GetEndTime :: "svc_clock \<Rightarrow> string" where
  "GetEndTime k = to_string (endTime k)"

definition GetSpendTime :: "svc_clock \<Rightarrow> int" where
  "GetSpendTime k = endTime k - beginTime k"

definition GetServiceRunningState :: "'db service \<Rightarrow> int" where
  "GetServiceRunningState s = (if sv_running s then 1 else 0)"

text \<open>A start that succeeds takes the time between its two readings; a second one, of a service that
  runs, moves only the begin, so that the time spent is that of no start and negative.\<close>

lemma spend_time_of_start:
  assumes "\<not> sv_running s" "Service_Init E s = Some (True, s1)" "OnStart_clock E b a s k = Some k'"
  shows "GetSpendTime k' = a - b"
  using assms by (auto simp: OnStart_clock_def GetSpendTime_def Let_def)

lemma spend_time_of_second_start:
  assumes "sv_running s" "OnStart_clock E b a s k = Some k'" "endTime k < b"
  shows "GetSpendTime k' < 0"
  using assms by (auto simp: OnStart_clock_def GetSpendTime_def Let_def)

section \<open>The dump\<close>

text \<open>The environment: the texts for a flag and for a state, which are functions of another repository,
  whether a slot has a card, and what \<open>dprintf\<close> returns.\<close>

record dump_env =
  GetBoolValue :: "bool \<Rightarrow> string"
  GetCellularDataConnectionState :: "int \<Rightarrow> string"
  HasSimCardIn :: "int \<Rightarrow> bool"
  dprintf :: "string \<Rightarrow> int"

abbreviation (input) "NL \<equiv> CHR 0x0A"

definition GetCellularDataSlotIdDump :: "'db svc_env \<Rightarrow> string" where
  "GetCellularDataSlotIdDump E = ''slotId:'' @ to_string (svc_default_slot E)"

definition GetStateMachineCurrentStatusDump :: "'db svc_env \<Rightarrow> 'db service \<Rightarrow> string" where
  "GetStateMachineCurrentStatusDump E s =
     (let slotId = svc_default_slot E
      in ask_controller slotId (''default slotId: '' @ to_string slotId)
           (\<lambda>c. ''Default connect state: '' @ to_string (profile_code (Ctl_GetCellularDataState_type DATA_CONTEXT_ROLE_DEFAULT c))
                @ ''Ims connect state:  '' @ to_string (profile_code (Ctl_GetCellularDataState_type DATA_CONTEXT_ROLE_IMS c))) s)"

definition GetFlowDataInfoDump :: "'db svc_env \<Rightarrow> 'db service \<Rightarrow> string" where
  "GetFlowDataInfoDump E s =
     (let slotId = svc_default_slot E
      in ask_controller slotId (''default slotId: '' @ to_string slotId)
           (\<lambda>c. ''data flow info: '' @ to_string (flow_code (Ctl_GetCellularDataFlowType c))) s)"

definition ShowHelp :: string where
  "ShowHelp =
     ''CellularData:'' @ [NL] @ ''Usage:dump <command> [options]'' @ [NL] @ ''Description:'' @ [NL]
     @ ''-cellular_data_info          '' @ ''dump all cellular_data information in the system'' @ [NL]
     @ ''-output_slot        '' @ ''default_slot_Id'' @ [NL]
     @ ''-output_state_machine'' @ ''Output state machine information and status'' @ [NL]
     @ ''-dataflow_info'' @ ''output_data_flow_info'' @ [NL]
     @ ''-show_log_level        '' @ ''show cellular_data SA's log level'' @ [NL]
     @ ''-set_log_level <level>     '' @ ''set cellular_data SA's log level'' @ [NL]
     @ ''-perf_dump         '' @ ''dump performance statistics'' @ [NL]"

text \<open>The dump asks through the requests of the service, with the rights of its caller, and ignores the
  codes: a question that fails prints what the variable held, for roaming the answer of the slot before.\<close>

definition asked_flag :: "bool \<Rightarrow> svc_value \<Rightarrow> bool" where
  "asked_flag given v = (case v of V_bool b \<Rightarrow> b | _ \<Rightarrow> given)"

definition dump_slot :: "dump_env \<Rightarrow> 'db svc_env \<Rightarrow> int \<Rightarrow> (string \<times> bool) \<times> 'db service \<Rightarrow> ((string \<times> bool) \<times> 'db service) outcome" where
  "dump_slot U E i = (\<lambda>((text, roaming), s).
     if \<not> HasSimCardIn U i then Some ((text, roaming), s)
     else do {
       ((code, v), s1) \<leftarrow> Service_IsCellularDataRoamingEnabled E i roaming s;
       Some ((text @ ''SlotId                       : '' @ to_string i @ [NL]
               @ ''CellularDataRoamingEnabled   : '' @ GetBoolValue U (asked_flag roaming v) @ [NL], asked_flag roaming v), s1) })"

definition ShowCellularDataInfo :: "dump_env \<Rightarrow> 'db svc_env \<Rightarrow> svc_clock \<Rightarrow> 'db service \<Rightarrow> (string \<times> 'db service) outcome" where
  "ShowCellularDataInfo U E k s = do {
     let text = ''Ohos cellular data service: '' @ [NL]
       @ ''BeginTime                    : '' @ GetBeginTime k @ [NL]
       @ ''EndTime                      : '' @ GetEndTime k @ [NL]
       @ ''SpendTime                    : '' @ to_string (GetSpendTime k) @ [NL]
       @ ''CellularDataSlotId           : '' @ GetCellularDataSlotIdDump E @ [NL]
       @ ''StateMachineCurrentStatus    : '' @ GetStateMachineCurrentStatusDump E s @ [NL]
       @ ''FlowDataInfo                 : '' @ GetFlowDataInfoDump E s @ [NL]
       @ ''ServiceRunningState          : '' @ to_string (GetServiceRunningState s) @ [NL];
     ((text1, roaming), s1) \<leftarrow> foldo (dump_slot U E) [0..SIM_SLOT_COUNT_MD E - 1] ((text, False), s);
     ((code, v), s2) \<leftarrow> Service_IsCellularDataEnabled E False s1;
     let st = (case snd (Service_GetCellularDataState E s2) of V_int i \<Rightarrow> i | _ \<Rightarrow> 0);
     Some (text1 @ ''CellularDataEnabled          : '' @ GetBoolValue U (asked_flag False v) @ [NL]
       @ ''CellularDataState            : '' @ GetCellularDataConnectionState U st @ [NL], s2)
   }"

text \<open>Help is shown when its two words stand next to each other anywhere in the arguments.\<close>

fun asks_help :: "string list \<Rightarrow> bool" where
  "asks_help (a # b # rest) \<longleftrightarrow> a = ''cellular_data'' \<and> b = ''--help'' \<or> asks_help (b # rest)"
| "asks_help _ \<longleftrightarrow> False"

definition Dump_text :: "dump_env \<Rightarrow> 'db svc_env \<Rightarrow> svc_clock \<Rightarrow> string list \<Rightarrow> 'db service \<Rightarrow> (string \<times> 'db service) outcome" where
  "Dump_text U E k args s = (if asks_help args then Some (ShowHelp, s) else ShowCellularDataInfo U E k s)"

definition Service_Dump :: "dump_env \<Rightarrow> 'db svc_env \<Rightarrow> svc_clock \<Rightarrow> int \<Rightarrow> string list \<Rightarrow> 'db service \<Rightarrow> (int \<times> 'db service) outcome" where
  "Service_Dump U E k fd args s =
     (if fd < 0 then Some (sCode E ERR_FAIL, s)
      else do {
        (result, s1) \<leftarrow> Dump_text U E k args s;
        Some (if dprintf U result < 0 then sCode E ERR_FAIL else svc_code E TELEPHONY_ERR_SUCCESS, s1)
      })"

text \<open>The dump always returns, and its answer depends on nothing but the file and the printing.\<close>

lemma dump_slots_run: "\<exists>r. foldo (dump_slot U E) is x = Some r"
proof (induction "is" arbitrary: x)
  case (Cons i xs)
  obtain u roaming s where x: "x = ((u, roaming), s)" by (metis prod.collapse)
  have "\<exists>y. dump_slot U E i x = Some y"
    by (auto simp: x dump_slot_def Service_IsCellularDataRoamingEnabled_def call_controller_def split: option.splits prod.splits)
  with Cons.IH show ?case by auto
qed simp

lemma dump_runs:
  "\<exists>r s'. Service_Dump U E k fd args s = Some (r, s') \<and> (fd < 0 \<longrightarrow> r = sCode E ERR_FAIL \<and> s' = s)
     \<and> (0 \<le> fd \<and> asks_help args \<longrightarrow> s' = s)"
proof -
  have q: "\<exists>r. Service_IsCellularDataEnabled E given t = Some r" for given t
    by (auto simp: Service_IsCellularDataEnabled_def call_controller_def Let_def split: option.splits prod.splits)
  have "\<exists>r. ShowCellularDataInfo U E k s = Some r"
  proof -
    have run: "\<exists>r. do { ((text1, roaming), s1) \<leftarrow> foldo (dump_slot U E) is (x, s);
        ((code, v), s2) \<leftarrow> Service_IsCellularDataEnabled E False s1; Some (f text1 v s2) } = Some r" for "is" x f
    proof -
      obtain y where y: "foldo (dump_slot U E) is (x, s) = Some y" using dump_slots_run by blast
      obtain u roaming s1 where "y = ((u, roaming), s1)" by (metis prod.collapse)
      with y q [of False s1] show ?thesis by auto
    qed
    show ?thesis unfolding ShowCellularDataInfo_def Let_def by (rule run)
  qed
  then show ?thesis by (auto simp: Service_Dump_def Dump_text_def)
qed

end
