(* ===== verification/Spec2Isabelle.thy ===== *)
theory Spec2Isabelle
  imports End_To_End Net_Callbacks Power_Save Ext_Wrapper Diagnostics
begin

text \<open>
  The cellular data service: overview.

  \<^bold>\<open>The program.\<close> The service (\<open>src/services\<close>) decides which SIM slot carries mobile data, sets up and
  takes down one data connection per role of an access point (default, multimedia messages,
  tethering, network slices and others), reports the connections to the net manager, watches for
  stalls and retries after failures. Applications reach it through a native client
  (\<open>src/frameworks/native\<close>) and bindings for JavaScript, ArkTS, Cangjie and C. From outside to inside:

  \<^item> a binding reads the arguments of a script, calls the client and turns code and value into what the
    script gets, at once or by settling a promise or calling a callback;
  \<^item> the client forwards a request to \<open>CellularDataService\<close>, which checks the caller and picks the
    \<open>CellularDataController\<close> of a slot;
  \<^item> the controller owns a \<open>CellularDataHandler\<close>, created when the core service is ready, and passes
    requests, network requests and radio events to it;
  \<^item> the handler runs one event at a time. It owns the APN manager (roles and access points), the
    switches, the connection manager with its tables, the monitor, one state machine per data
    connection and one for calls;
  \<^item> a connection machine activates a PDP context through the radio service, reports to the net
    manager's agent, and reports its end back to the handler.

  \<^bold>\<open>Theories and sources.\<close> Each group of definitions follows one source file and keeps its order and names.

  \<^item> \<open>Prelude\<close> (strings, number parsing, outcomes), \<open>Std_Map\<close> (\<open>std::map\<close> in key order; locale
    \<open>dictionary\<close>), \<open>Cellular_Constants\<close> and \<open>Environment\<close> (constants, events, calls to other services).
  \<^item> \<open>Data_Utils\<close> (\<open>utils/cellular_data_utils.cpp\<close>); \<open>Apn_Item\<close>, \<open>Retry_Policy\<close>, \<open>Apn_Holder\<close>,
    \<open>Apn_Manager\<close> (\<open>apn_manager/*.cpp\<close>); \<open>Rdb_Helper\<close> (\<open>utils/cellular_data_rdb_helper.cpp\<close>).
  \<^item> \<open>State_Machine\<close> (\<open>state_machine/state_machine.h\<close>; locales \<open>hsm_states\<close> and \<open>hsm_strict\<close>, interpreted
    for the three machines), \<open>Data_State_Machine\<close> and \<open>Data_Machine_Correct\<close>
    (\<open>cellular_data_state_machine.cpp\<close>, \<open>default\<close>, \<open>inactive\<close>, \<open>activating\<close>, \<open>active\<close>, \<open>disconnecting\<close>),
    \<open>Incall_State_Machine\<close>, \<open>Connection_Tables\<close> and \<open>Connection_Manager\<close>
    (\<open>data_connection_manager.cpp\<close>), \<open>Connection_Monitor\<close> (\<open>data_connection_monitor.cpp\<close>,
    \<open>traffic_management.cpp\<close>).
  \<^item> \<open>Net_Agent\<close> (\<open>utils/cellular_data_net_agent.cpp\<close>), \<open>Switch_Settings\<close> (\<open>data_switch_settings.cpp\<close>,
    \<open>utils/cellular_data_settings_rdb_helper.cpp\<close>).
  \<^item> \<open>Data_Handler\<close> and \<open>Handler_Events\<close> (\<open>cellular_data_handler.cpp\<close>, \<open>state_notification.cpp\<close>);
    \<open>Role_Table\<close> is its abstract specification; \<open>Handler_Relation\<close> (locales \<open>handler_base\<close> and
    \<open>handler_relation\<close>), \<open>Handler_Steps\<close>, \<open>Handler_Invariant\<close>, \<open>Handler_Correct\<close>, \<open>Handler_Runs\<close> hold its
    theorems; \<open>Power_Save\<close> (\<open>cellular_data_power_save_mode_subscriber.cpp\<close>).
  \<^item> \<open>Data_Controller\<close> (\<open>cellular_data_controller.cpp\<close>), \<open>Data_Service\<close> and \<open>Service_Requests\<close>
    (\<open>cellular_data_service.cpp\<close>, the interface \<open>ICellularDataManager.idl\<close>), with their theorems in
    \<open>Service_Correct\<close> (locale \<open>per_slot\<close>) and \<open>Service_Behaviour\<close>; \<open>Net_Callbacks\<close> (callbacks of the net
    manager and the radio service, observers of the databases).
  \<^item> \<open>Ipc_Records\<close> (\<open>apn_attribute.cpp\<close>, \<open>apn_activate_report_info.cpp\<close>, \<open>cellular_data_types.h\<close>),
    \<open>Data_Client\<close> and \<open>Client_Cache\<close> (\<open>cellular_data_client.cpp\<close>, \<open>data_sim_account_callback.cpp\<close>, and the
    stub and proxy of this callback).
  \<^item> \<open>Bindings\<close> (\<open>napi_cellular_data.cpp\<close>, \<open>ani_cellular_data.cpp\<close>, \<open>tel_cellular_data_impl.cpp\<close>,
    \<open>tel_cellular_data_ffi.cpp\<close>, \<open>telephony_data.cpp\<close>), \<open>Script_Entry\<close> (arguments, constants and the table of
    exported functions of \<open>napi_cellular_data.cpp\<close>; \<open>show_system_apn_settings.cpp\<close>); \<open>End_To_End\<close> connects
    binding, client and service.
  \<^item> \<open>Ext_Wrapper\<close> (\<open>telephony_ext_wrapper.cpp\<close>, \<open>data_service_ext_wrapper.cpp\<close>) and \<open>Diagnostics\<close>
    (\<open>cellular_data_hisysevent.cpp\<close>, \<open>cellular_data_dump_helper.cpp\<close>, and what the dump asks of
    \<open>cellular_data_service.cpp\<close>).

  \<^bold>\<open>State and effects.\<close> A class is a record, an operation takes the record and returns it. Objects that
  several owners share (access points, roles, machines) live in stores and are named by addresses. A
  call that leaves the program is an element of a list of effects, in the order of the calls; an
  event sent is an element of the receiver's queue with its delay. What other services answer is a
  parameter (\<open>env\<close>, \<open>world\<close>, \<open>svc_env\<close>, \<open>client_env\<close>, \<open>js_env\<close>, \<open>js_engine\<close>,
  \<open>datashare\<close>, \<open>rdb\<close>, \<open>parcel\<close>); theorems that rely on
  their documented behaviour name it as a hypothesis (\<open>datashare_ok\<close>, \<open>parcel_ok\<close>, \<open>sim_service_ok\<close>,
  \<open>platform_ok\<close>, \<open>accepts_digits\<close>, \<open>codes_ok\<close>, \<open>objects_ok\<close>, \<open>rdb_filters\<close>) and have a witness that satisfies it. A null pointer that
  the source would follow, an exception that nothing catches and a loop that never ends are the
  outcome \<open>None\<close>. Numbers that wrap are words or carry their reduction; those whose range the code
  never leaves are \<open>int\<close> or \<open>nat\<close>.

  \<^bold>\<open>What the theorems show.\<close>

  \<^item> Handler: every event and every call implements the role table (\<open>handler_implements_role_table\<close>),
    keeps the tables consistent, and requests a connection only under the conditions of the source;
    the relations are lifted from one attempt to all operations by \<open>handler_relation\<close>.
  \<^item> Connection machine: the invariant of its reachable states, the life of a connection, how an
    attempt ends (by an answer, by its time limit, or, when the clock was set back, not at all), one report
    for every teardown, and which late answers are ignored.
  \<^item> Service: who may do what, the type of every answer, the slots that a start builds, delivery of a
    request of the net manager to one handler, and the invariant that the handler of every slot is a
    reachable handler, so that the theorems on handlers hold for each slot of a running service.
  \<^item> Client: the cached slot is the slot of the service while the service accepts the callback, and an
    execution in which it is not when the callback was refused first.
  \<^item> From script to service: the state and the type of traffic that a script sees, stated over the handler of
    the asked slot; the data switch from script to settings and back; an access point that a script was
    shown is found again; a query settles once; agreement of the bindings, and where they differ.
  \<^item> Power-save mode: when the broadcast that begins it is answered, what a second broadcast does to the
    answer, and that only the first slot acts on a broadcast. Vendor functions: every pointer is bound to its own symbol of its own library.
  \<^item> Data: round trips of splitting, prefix lengths, settings and serialised records; exactness of the
    profiles read from the database; totality and fairness of the retry rotation; bounds of its delays;
    merging of access points; the table of suppliers.

  \<^bold>\<open>Bounds and fuel.\<close> No definition has fuel for convenience. Loops are structural recursion, \<open>foldo\<close>
  over a finite list, or functions with a termination proof; the loop of the retry rotation and the
  splitting of texts, which may run forever in the source, are \<open>partial_function\<close>s, and
  \<open>GetNextRetryApnItem_total\<close> and \<open>Split_roundtrip\<close> state when they return. The processing of one event by a
  state machine ends because the ancestors of a state are a finite list and a transition is performed
  once per event.

  \<^bold>\<open>Not modelled.\<close> Stubs and proxies generated from the interface description are parameters of the
  client: \<open>End_To_End\<close> takes the proxy for the service itself, so that a variable for an answer that the
  service does not write keeps what it held. Values of script engines are opaque; the release of
  references and of asynchronous work has no model, nor have the ArkTS declarations that are written in
  Rust and TypeScript. Logs have no model, and the places that write an event of \<open>Diagnostics\<close> leave no
  trace in the other theories, because nothing reads it, but for the event of the first recovery step in
  \<open>Connection_Monitor\<close>. Subscribing to broadcasts and opening the data
  share service are calls of the platform. Locks are not modelled: each object handles one event or
  call at a time, as the event runners do. The unit tests, mocks and fuzz drivers are left out.
\<close>

end
